(* ===== verification/Prelude.thy ===== *)
theory Prelude
  imports Main
begin

text \<open>
  Shared vocabulary of the development: how the JavaScript values the source
  computes with are represented, the result type of code that may throw, the
  list operations a relational table needs, and the simplification rules for
  them.

  \<^item> A TypeScript \<open>number\<close> that the program uses as a count, a version or a
    number of milliseconds is an \<open>int\<close>; \<open>isSafeInteger\<close> keeps the bound the
    source checks. Fractional numbers and \<open>NaN\<close> do not occur in the model.
  \<^item> A JavaScript \<open>Date\<close> is \<open>Date t\<close> with \<open>t\<close> milliseconds since the epoch, or
    \<open>InvalidDate\<close> (the date whose \<open>getTime()\<close> is \<open>NaN\<close>).
  \<^item> Code that may throw returns \<open>'e + 'a\<close>, \<open>Inl\<close> for the thrown value.
  \<^item> A value of type \<open>T | null\<close> or \<open>T | undefined\<close> is a \<open>T option\<close>.
\<close>

section \<open>Collections of rewrite rules\<close>

named_theorems clock_defs \<open>definitions of the clock component\<close>
named_theorems table_simps \<open>characteristic equations of table operations\<close>
named_theorems tx_defs \<open>definitions of the statements a transaction issues\<close>
named_theorems text_simps \<open>equations of the enum to text functions\<close>

section \<open>JavaScript numbers and dates\<close>

definition isSafeInteger :: "int \<Rightarrow> bool" where
  "isSafeInteger n \<longleftrightarrow> \<bar>n\<bar> \<le> 9007199254740991"

datatype jsdate = InvalidDate | Date int

text \<open>The constructor \<open>new Date(t)\<close> clips its argument to the range of time values.\<close>

definition new_Date :: "int \<Rightarrow> jsdate" where
  "new_Date t = (if \<bar>t\<bar> \<le> 8640000000000000 then Date t else InvalidDate)"

primrec getTime :: "jsdate \<Rightarrow> int option" where
  "getTime InvalidDate = None"
| "getTime (Date t) = Some t"

text \<open>PostgreSQL's \<open>INTEGER\<close>.\<close>

definition int4 :: "int \<Rightarrow> bool" where
  "int4 n \<longleftrightarrow> - 2147483648 \<le> n \<and> n \<le> 2147483647"

section \<open>Code that may throw\<close>

definition sbind :: "'e + 'a \<Rightarrow> ('a \<Rightarrow> 'e + 'b) \<Rightarrow> 'e + 'b" where
  "sbind x f = (case x of Inl e \<Rightarrow> Inl e | Inr a \<Rightarrow> f a)"

definition throw_if :: "bool \<Rightarrow> 'e \<Rightarrow> 'e + unit" where
  "throw_if b e = (if b then Inl e else Inr ())"

lemma sbind_simps [simp]:
  "sbind (Inl e) f = Inl e"
  "sbind (Inr a) f = f a"
  by (simp_all add: sbind_def)

lemma sbind_Inr_iff: "sbind x f = Inr b \<longleftrightarrow> (\<exists>a. x = Inr a \<and> f a = Inr b)"
  by (cases x) auto

lemma sbind_Inl_iff: "sbind x f = Inl e \<longleftrightarrow> x = Inl e \<or> (\<exists>a. x = Inr a \<and> f a = Inl e)"
  by (cases x) auto

lemma throw_if_iff [simp]:
  "throw_if b e = Inr u \<longleftrightarrow> \<not> b"
  "throw_if b e = Inl e' \<longleftrightarrow> b \<and> e' = e"
  by (auto simp: throw_if_def)

lemma throw_if_simps [simp]:
  "throw_if True e = Inl e"
  "throw_if False e = Inr ()"
  by (simp_all add: throw_if_def)

lemma list_find_SomeD: "List.find P xs = Some x \<Longrightarrow> x \<in> set xs \<and> P x"
  by (induction xs) (auto split: if_splits)

section \<open>Tables\<close>

text \<open>
  A relational table is the list of its rows. \<open>find_row\<close> is a lookup by a
  unique key, \<open>update_rows\<close> an \<open>UPDATE ... WHERE\<close>, \<open>count_rows\<close> the number of
  rows a \<open>WHERE\<close> clause selects, \<open>delete_rows\<close> a \<open>DELETE ... WHERE\<close>.
\<close>

definition find_row :: "('r \<Rightarrow> bool) \<Rightarrow> 'r list \<Rightarrow> 'r option" where
  "find_row p t = List.find p t"

definition update_rows :: "('r \<Rightarrow> bool) \<Rightarrow> ('r \<Rightarrow> 'r) \<Rightarrow> 'r list \<Rightarrow> 'r list" where
  "update_rows p f t = map (\<lambda>r. if p r then f r else r) t"

definition count_rows :: "('r \<Rightarrow> bool) \<Rightarrow> 'r list \<Rightarrow> nat" where
  "count_rows p t = length (filter p t)"

definition delete_rows :: "('r \<Rightarrow> bool) \<Rightarrow> 'r list \<Rightarrow> 'r list" where
  "delete_rows p t = filter (\<lambda>r. \<not> p r) t"

lemma find_row_simps [simp]:
  "find_row p [] = None"
  "find_row p (r # t) = (if p r then Some r else find_row p t)"
  by (simp_all add: find_row_def)

lemma update_rows_simps [simp]:
  "update_rows p f [] = []"
  "update_rows p f (r # t) = (if p r then f r else r) # update_rows p f t"
  by (simp_all add: update_rows_def)

lemma count_rows_simps [simp]:
  "count_rows p [] = 0"
  "count_rows p (r # t) = (if p r then Suc (count_rows p t) else count_rows p t)"
  by (simp_all add: count_rows_def)

lemma delete_rows_simps [simp]:
  "delete_rows p [] = []"
  "delete_rows p (r # t) = (if p r then delete_rows p t else r # delete_rows p t)"
  by (simp_all add: delete_rows_def)

lemma find_row_SomeD: "find_row p t = Some r \<Longrightarrow> p r \<and> r \<in> set t"
  by (induction t) (auto split: if_splits)

lemma find_row_None_iff: "find_row p t = None \<longleftrightarrow> (\<forall>r \<in> set t. \<not> p r)"
  by (induction t) auto

lemma find_row_append [table_simps]:
  "find_row p (t @ u) = (case find_row p t of Some r \<Rightarrow> Some r | None \<Rightarrow> find_row p u)"
  by (induction t) (auto split: option.splits)

lemma length_update_rows [simp]: "length (update_rows p f t) = length t"
  by (simp add: update_rows_def)

lemma set_update_rows: "set (update_rows p f t) = (\<lambda>r. if p r then f r else r) ` set t"
  by (simp add: update_rows_def)

lemma set_delete_rows [simp]: "set (delete_rows p t) = {r \<in> set t. \<not> p r}"
  by (auto simp: delete_rows_def)

text \<open>An update that keeps the key leaves the column of keys as it was.\<close>

lemma map_update_rows:
  "(\<And>r. p r \<Longrightarrow> k (f r) = k r) \<Longrightarrow> map k (update_rows p f t) = map k t"
  by (induction t) auto

lemma filter_update_rows:
  "(\<And>r. p r \<Longrightarrow> q (f r) = q r) \<Longrightarrow>
     filter q (update_rows p f t) = update_rows p f (filter q t)"
  by (induction t) auto

lemma update_rows_cong_filter:
  "(\<And>r. q r \<Longrightarrow> \<not> p r) \<Longrightarrow> update_rows p f (filter q t) = filter q t"
  by (induction t) auto

text \<open>Where the key is unique, a lookup by key and membership say the same.\<close>

lemma find_row_unique:
  assumes "distinct (map k t)"
  shows "find_row (\<lambda>r. k r = x) t = Some r \<longleftrightarrow> r \<in> set t \<and> k r = x"
  using assms by (induction t) (auto simp: rev_image_eqI)

lemma find_row_update_rows_key:
  assumes "\<And>r. k (f r) = k r"
  shows "find_row (\<lambda>r. k r = x) (update_rows (\<lambda>r. k r = y \<and> q r) f t) =
    map_option (\<lambda>r. if x = y \<and> q r then f r else r) (find_row (\<lambda>r. k r = x) t)"
  using assms by (induction t) auto

text \<open>The number of rows an update by unique key touches.\<close>

lemma count_rows_unique:
  assumes "distinct (map k t)" and "find_row (\<lambda>r. k r = x) t = Some r"
  shows "count_rows (\<lambda>r. k r = x \<and> q r) t = (if q r then 1 else 0)"
proof -
  have none: "count_rows (\<lambda>r. k r = x \<and> q r) u = 0" if "x \<notin> k ` set u" for u
    using that by (induction u) auto
  show ?thesis
    using assms by (induction t) (auto simp: none split: if_splits)
qed

end
