(* ===== verification/Game_Types.thy ===== *)
theory Game_Types
  imports Prelude
begin

text \<open>
  The enumerations of \<open>src/src/modules/game/domain/game.types.ts\<close> and the error
  codes of \<open>game.errors.ts\<close> and \<open>game-service.errors.ts\<close>. A string literal
  union of the source is a datatype; the text that the source writes into
  database columns and messages is given by the \<open>\<dots>_text\<close> functions.
\<close>

section \<open>Enumerations\<close>

datatype GameStatus =
    CREATED | WAITING_FOR_PLAYERS | READY | IN_PROGRESS | RECONNECTING
  | COMPLETED | ABANDONED | EXPIRED

definition GAME_STATUSES :: "GameStatus list" where
  "GAME_STATUSES =
     [CREATED, WAITING_FOR_PLAYERS, READY, IN_PROGRESS, RECONNECTING,
      COMPLETED, ABANDONED, EXPIRED]"

datatype PlayerColor = Black | White

datatype GameResult = black_win | draw | void | white_win

datatype BoardTermination =
    checkmate | fifty_move | insufficient_material | stalemate | threefold_repetition

datatype GameTermination =
    abandonment | Board BoardTermination | double_abandon | no_show | resignation | timeout

fun oppositeColor :: "PlayerColor \<Rightarrow> PlayerColor" where
  "oppositeColor White = Black"
| "oppositeColor Black = White"

section \<open>Text of the enumerations\<close>

primrec status_text :: "GameStatus \<Rightarrow> string" where
  "status_text CREATED = ''CREATED''"
| "status_text WAITING_FOR_PLAYERS = ''WAITING_FOR_PLAYERS''"
| "status_text READY = ''READY''"
| "status_text IN_PROGRESS = ''IN_PROGRESS''"
| "status_text RECONNECTING = ''RECONNECTING''"
| "status_text COMPLETED = ''COMPLETED''"
| "status_text ABANDONED = ''ABANDONED''"
| "status_text EXPIRED = ''EXPIRED''"

primrec color_text :: "PlayerColor \<Rightarrow> string" where
  "color_text White = ''w''"
| "color_text Black = ''b''"

text \<open>The type guard \<open>isColor\<close>: the colour a text column holds, if it holds one.\<close>

definition as_color :: "string \<Rightarrow> PlayerColor option" where
  "as_color s = (if s = ''b'' then Some Black else if s = ''w'' then Some White else None)"

section \<open>Errors\<close>

datatype GameDomainErrorCode =
    ILLEGAL_GAME_TRANSITION | INVALID_CLOCK_STATE | INVALID_GAME_STATE | INVALID_TERMINAL_EVENT

datatype GameDomainError = GameDomainError (error_code: GameDomainErrorCode) string

datatype GameServiceErrorCode =
    ALLOCATION_MISMATCH | CLOCK_EXPIRED | DEPENDENCY_UNAVAILABLE | GAME_ALREADY_ENDED
  | GAME_NOT_FOUND | GAME_STATE_CORRUPT | GAME_UNAVAILABLE | GUEST_ALREADY_IN_GAME
  | GUEST_NOT_ELIGIBLE | IDEMPOTENCY_KEY_REUSED | ILLEGAL_MOVE | NOT_A_PLAYER
  | NOT_YOUR_TURN | STALE_GAME_VERSION

datatype response_type = move_rejected | server_error

record GameServiceError =
  se_code :: GameServiceErrorCode
  se_message :: string
  se_retryable :: bool
  se_authoritativeVersion :: "int option"
  se_responseType :: response_type

text \<open>The constructor with its two defaulted parameters left out, or the first of them given.\<close>

definition serviceError :: "GameServiceErrorCode \<Rightarrow> string \<Rightarrow> bool \<Rightarrow> GameServiceError" where
  "serviceError c m r =
     \<lparr>se_code = c, se_message = m, se_retryable = r, se_authoritativeVersion = None,
      se_responseType = server_error\<rparr>"

definition serviceErrorAt ::
    "GameServiceErrorCode \<Rightarrow> string \<Rightarrow> bool \<Rightarrow> int option \<Rightarrow> GameServiceError" where
  "serviceErrorAt c m r v =
     \<lparr>se_code = c, se_message = m, se_retryable = r, se_authoritativeVersion = v,
      se_responseType = server_error\<rparr>"

section \<open>Facts\<close>

lemma oppositeColor_involutive [simp]: "oppositeColor (oppositeColor c) = c"
  by (cases c) simp_all

lemma oppositeColor_neq [simp]: "oppositeColor c \<noteq> c" "c \<noteq> oppositeColor c"
  by (cases c; simp)+

lemma oppositeColor_eq_iff [simp]: "oppositeColor c = oppositeColor d \<longleftrightarrow> c = d"
  by (cases c; cases d) simp_all

lemma color_cases_neq: "c \<noteq> d \<Longrightarrow> d = oppositeColor c"
  by (cases c; cases d) simp_all

lemma GAME_STATUSES_complete: "set GAME_STATUSES = UNIV"
  by (auto simp: GAME_STATUSES_def intro: GameStatus.exhaust)

lemma status_text_inj [simp]: "status_text s = status_text t \<longleftrightarrow> s = t"
  by (cases s; cases t) simp_all

lemma as_color_color_text [simp]: "as_color (color_text c) = Some c"
  by (cases c) (simp_all add: as_color_def)

lemma as_color_Some_iff: "as_color s = Some c \<longleftrightarrow> s = color_text c"
  by (cases c) (auto simp: as_color_def)

lemma as_color_None_iff: "as_color s = None \<longleftrightarrow> s \<noteq> ''w'' \<and> s \<noteq> ''b''"
  by (auto simp: as_color_def)

lemma color_text_inj [simp]: "color_text c = color_text d \<longleftrightarrow> c = d"
  by (cases c; cases d) simp_all

end
