(* ===== verification/Game_Clock.thy ===== *)
theory Game_Clock
  imports Game_Types
begin

text \<open>
  The authoritative game clock, \<open>src/src/modules/game/domain/game-clock.ts\<close>: one
  definition per function, in the order the exported functions use them. Every
  check of the source that throws \<open>INVALID_CLOCK_STATE\<close> is an \<open>Inl\<close> branch.

  The lemmas show that a well-formed clock stays well formed, when each
  operation throws, that time is conserved (what a move takes from the mover's
  clock is the elapsed time, less the increment), that the flag falls exactly
  from the computed deadline on, and that the displayed view, the flag test and
  the admission of a move agree with each other.
\<close>

section \<open>Data\<close>

record GameClock =
  blackMs :: int
  incrementMs :: int
  running :: "PlayerColor option"
  turnStartedAt :: "jsdate option"
  whiteMs :: int

record ClockView =
  view_blackMs :: int
  view_observedAt :: jsdate
  view_running :: "PlayerColor option"
  view_whiteMs :: int

datatype ClockAdmission =
    clock_accepted (admitted_clock: GameClock) (admitted_elapsedMs: int)
  | clock_flag_fall (admitted_clock: GameClock) (admitted_elapsedMs: int) (flagged: PlayerColor)

text \<open>The second constructor holds the \<open>flag_fall\<close> member of \<open>ClockAdmission\<close>.\<close>

datatype PauseClockResult =
    clock_paused GameClock int
  | pause_flag_fall ClockAdmission

section \<open>Private helpers\<close>

definition invalidClock :: "string \<Rightarrow> GameDomainError" where
  "invalidClock message = GameDomainError INVALID_CLOCK_STATE message"

definition assertDuration :: "int \<Rightarrow> string \<Rightarrow> GameDomainError + unit" where
  "assertDuration v field =
     throw_if (\<not> isSafeInteger v \<or> v < 0)
       (invalidClock (field @ '' must be a non-negative safe integer.''))"

definition assertPositiveDuration :: "int \<Rightarrow> string \<Rightarrow> GameDomainError + unit" where
  "assertPositiveDuration v field =
     sbind (assertDuration v field)
       (\<lambda>_. throw_if (v = 0) (invalidClock (field @ '' must be positive.'')))"

definition assertTimestamp :: "jsdate \<Rightarrow> GameDomainError + unit" where
  "assertTimestamp timestamp =
     throw_if (getTime timestamp = None) (invalidClock ''Clock timestamps must be valid dates.'')"

definition assertClock :: "GameClock \<Rightarrow> GameDomainError + unit" where
  "assertClock clock =
     sbind (assertDuration (whiteMs clock) ''whiteMs'') (\<lambda>_.
     sbind (assertDuration (blackMs clock) ''blackMs'') (\<lambda>_.
     sbind (assertDuration (incrementMs clock) ''incrementMs'') (\<lambda>_.
     sbind (throw_if ((running clock \<noteq> None) \<noteq> (turnStartedAt clock \<noteq> None))
       (invalidClock ''A clock must have both a running color and start time, or neither.'')) (\<lambda>_.
     case turnStartedAt clock of
       None \<Rightarrow> Inr ()
     | Some startedAt \<Rightarrow> assertTimestamp startedAt))))"

definition checkedAdd :: "int \<Rightarrow> int \<Rightarrow> GameDomainError + int" where
  "checkedAdd left right =
     (let result = left + right
      in sbind (throw_if (\<not> isSafeInteger result)
           (invalidClock ''The calculated clock exceeds the safe integer range.'')) (\<lambda>_. Inr result))"

definition copyDate :: "jsdate \<Rightarrow> jsdate" where
  "copyDate d = (case getTime d of None \<Rightarrow> InvalidDate | Some t \<Rightarrow> new_Date t)"

definition cloneClock :: "GameClock \<Rightarrow> GameClock" where
  "cloneClock clock = clock\<lparr>turnStartedAt := map_option copyDate (turnStartedAt clock)\<rparr>"

text \<open>
  Every caller has run \<open>assertClock\<close> before, so the start time is a valid date
  when it is there; the branch for an invalid one only makes the function total
  (lemma \<open>assertClock_Inr_iff\<close> shows that it cannot be taken).
\<close>

definition elapsedAt :: "GameClock \<Rightarrow> jsdate \<Rightarrow> GameDomainError + int" where
  "elapsedAt clock observedAt =
     sbind (assertTimestamp observedAt) (\<lambda>_.
     case turnStartedAt clock of
       None \<Rightarrow> Inl (invalidClock ''The clock has no running timestamp.'')
     | Some startedAt \<Rightarrow>
         (case (getTime observedAt, getTime startedAt) of
            (Some observed, Some started) \<Rightarrow> Inr (max 0 (observed - started))
          | _ \<Rightarrow> Inl (invalidClock ''Clock timestamps must be valid dates.'')))"

definition remainingFor :: "GameClock \<Rightarrow> PlayerColor \<Rightarrow> int" where
  "remainingFor clock color = (if color = White then whiteMs clock else blackMs clock)"

definition withRemaining :: "GameClock \<Rightarrow> PlayerColor \<Rightarrow> int \<Rightarrow> GameClock" where
  "withRemaining clock color remainingMs =
     (if color = White then clock\<lparr>whiteMs := remainingMs\<rparr> else clock\<lparr>blackMs := remainingMs\<rparr>)"

definition requireRunning :: "GameClock \<Rightarrow> GameDomainError + PlayerColor" where
  "requireRunning clock =
     sbind (assertClock clock) (\<lambda>_.
     case running clock of
       None \<Rightarrow> Inl (invalidClock ''The clock is not running.'')
     | Some c \<Rightarrow> Inr c)"

definition stopped :: "GameClock \<Rightarrow> GameClock" where
  "stopped clock = clock\<lparr>running := None, turnStartedAt := None\<rparr>"

definition flagFallClock :: "GameClock \<Rightarrow> PlayerColor \<Rightarrow> int \<Rightarrow> ClockAdmission" where
  "flagFallClock clock loser elapsedMs =
     clock_flag_fall (stopped (withRemaining clock loser 0)) elapsedMs loser"

section \<open>Exported operations\<close>

definition createGameClock :: "int \<Rightarrow> int \<Rightarrow> GameDomainError + GameClock" where
  "createGameClock initialMs increment =
     sbind (assertPositiveDuration initialMs ''initialMs'') (\<lambda>_.
     sbind (assertDuration increment ''incrementMs'') (\<lambda>_.
     Inr \<lparr>blackMs = initialMs, incrementMs = increment, running = None, turnStartedAt = None,
          whiteMs = initialMs\<rparr>))"

definition resumeClock ::
    "GameClock \<Rightarrow> PlayerColor \<Rightarrow> jsdate \<Rightarrow> GameDomainError + GameClock" where
  "resumeClock clock color startedAt =
     sbind (assertClock clock) (\<lambda>_.
     sbind (assertTimestamp startedAt) (\<lambda>_.
     sbind (throw_if (running clock \<noteq> None \<or> turnStartedAt clock \<noteq> None)
       (invalidClock ''A running clock cannot be resumed.'')) (\<lambda>_.
     sbind (throw_if (remainingFor clock color = 0)
       (invalidClock ''A player with no remaining time cannot resume.'')) (\<lambda>_.
     Inr (clock\<lparr>running := Some color, turnStartedAt := Some (copyDate startedAt)\<rparr>)))))"

definition pauseClock :: "GameClock \<Rightarrow> jsdate \<Rightarrow> GameDomainError + PauseClockResult" where
  "pauseClock clock observedAt =
     sbind (requireRunning clock) (\<lambda>color.
     sbind (elapsedAt clock observedAt) (\<lambda>elapsedMs.
     let remaining = remainingFor clock color
     in if elapsedMs \<ge> remaining
        then Inr (pause_flag_fall (flagFallClock clock color elapsedMs))
        else Inr (clock_paused (stopped (withRemaining clock color (remaining - elapsedMs))) elapsedMs)))"

definition admitMoveOnClock ::
    "GameClock \<Rightarrow> PlayerColor \<Rightarrow> jsdate \<Rightarrow> GameDomainError + ClockAdmission" where
  "admitMoveOnClock clock mover serverReceivedAt =
     sbind (requireRunning clock) (\<lambda>color.
     sbind (throw_if (color \<noteq> mover)
       (invalidClock ''The mover does not own the running clock.'')) (\<lambda>_.
     sbind (elapsedAt clock serverReceivedAt) (\<lambda>elapsedMs.
     let remaining = remainingFor clock mover
     in if elapsedMs \<ge> remaining then Inr (flagFallClock clock mover elapsedMs)
        else sbind (checkedAdd (remaining - elapsedMs) (incrementMs clock)) (\<lambda>afterIncrement.
          Inr (clock_accepted
            ((withRemaining clock mover afterIncrement)
               \<lparr>running := Some (oppositeColor mover),
                turnStartedAt := Some (copyDate serverReceivedAt)\<rparr>) elapsedMs)))))"

definition checkFlagFall :: "GameClock \<Rightarrow> jsdate \<Rightarrow> GameDomainError + ClockAdmission" where
  "checkFlagFall clock observedAt =
     sbind (requireRunning clock) (\<lambda>color.
     sbind (elapsedAt clock observedAt) (\<lambda>elapsedMs.
     let remaining = remainingFor clock color
     in if elapsedMs \<ge> remaining then Inr (flagFallClock clock color elapsedMs)
        else Inr (clock_accepted (cloneClock clock) elapsedMs)))"

definition clockViewAt :: "GameClock \<Rightarrow> jsdate \<Rightarrow> GameDomainError + ClockView" where
  "clockViewAt clock observedAt =
     sbind (assertClock clock) (\<lambda>_.
     sbind (assertTimestamp observedAt) (\<lambda>_.
     case running clock of
       None \<Rightarrow> Inr \<lparr>view_blackMs = blackMs clock, view_observedAt = copyDate observedAt,
                   view_running = None, view_whiteMs = whiteMs clock\<rparr>
     | Some color \<Rightarrow>
         sbind (elapsedAt clock observedAt) (\<lambda>elapsedMs.
         let remaining = max 0 (remainingFor clock color - elapsedMs);
             viewed = withRemaining clock color remaining
         in Inr \<lparr>view_blackMs = blackMs viewed, view_observedAt = copyDate observedAt,
                 view_running = Some color, view_whiteMs = whiteMs viewed\<rparr>)))"

definition clockDeadline :: "GameClock \<Rightarrow> GameDomainError + jsdate option" where
  "clockDeadline clock =
     sbind (assertClock clock) (\<lambda>_.
     case (running clock, turnStartedAt clock) of
       (Some color, Some startedAt) \<Rightarrow>
         (case getTime startedAt of
            None \<Rightarrow> Inr (Some InvalidDate)
          | Some t \<Rightarrow> Inr (Some (new_Date (t + remainingFor clock color))))
     | _ \<Rightarrow> Inr None)"

section \<open>Well-formed clocks\<close>

text \<open>A date a \<open>Date\<close> object can hold, and the condition \<open>assertClock\<close> checks.\<close>

definition time_value :: "int \<Rightarrow> bool" where
  "time_value t \<longleftrightarrow> \<bar>t\<bar> \<le> 8640000000000000"

definition duration :: "int \<Rightarrow> bool" where
  "duration v \<longleftrightarrow> 0 \<le> v \<and> isSafeInteger v"

definition clock_wf :: "GameClock \<Rightarrow> bool" where
  "clock_wf c \<longleftrightarrow>
     duration (whiteMs c) \<and> duration (blackMs c) \<and> duration (incrementMs c) \<and>
     (running c \<noteq> None \<longleftrightarrow> turnStartedAt c \<noteq> None) \<and>
     (\<forall>d \<in> set_option (turnStartedAt c). \<exists>s. d = Date s \<and> time_value s)"

text \<open>A well-formed clock that runs for \<open>color\<close> since \<open>s\<close>.\<close>

definition clock_runs :: "GameClock \<Rightarrow> PlayerColor \<Rightarrow> int \<Rightarrow> bool" where
  "clock_runs c color s \<longleftrightarrow>
     clock_wf c \<and> running c = Some color \<and> turnStartedAt c = Some (Date s)"

text \<open>Moves admitted one after the other, the players alternating, until one is refused.\<close>

fun admitMoves :: "GameClock \<Rightarrow> PlayerColor \<Rightarrow> int list \<Rightarrow> GameClock option" where
  "admitMoves c mover [] = Some c"
| "admitMoves c mover (t # ts) =
     (case admitMoveOnClock c mover (Date t) of
        Inr (clock_accepted c' _) \<Rightarrow> admitMoves c' (oppositeColor mover) ts
      | _ \<Rightarrow> None)"

lemma getTime_None_iff [simp]: "getTime d = None \<longleftrightarrow> d = InvalidDate"
  by (cases d) simp_all

lemma copyDate_Date [simp]: "time_value t \<Longrightarrow> copyDate (Date t) = Date t"
  by (simp add: copyDate_def new_Date_def time_value_def)

lemma assertDuration_Inr_iff [simp]: "assertDuration v f = Inr u \<longleftrightarrow> duration v"
  by (auto simp: assertDuration_def duration_def)

lemma assertTimestamp_simps [simp]:
  "assertTimestamp (Date t) = Inr ()"
  "assertTimestamp InvalidDate = Inl (invalidClock ''Clock timestamps must be valid dates.'')"
  by (simp_all add: assertTimestamp_def)

lemma remainingFor_withRemaining [simp]:
  "remainingFor (withRemaining c color r) color' = (if color' = color then r else remainingFor c color')"
  by (cases color; cases color') (simp_all add: remainingFor_def withRemaining_def)

lemma withRemaining_fields [simp]:
  "running (withRemaining c color r) = running c"
  "turnStartedAt (withRemaining c color r) = turnStartedAt c"
  "incrementMs (withRemaining c color r) = incrementMs c"
  by (simp_all add: withRemaining_def)

lemma remainingFor_update [simp]:
  "remainingFor (c\<lparr>running := x, turnStartedAt := y\<rparr>) color = remainingFor c color"
  "remainingFor (c\<lparr>turnStartedAt := y\<rparr>) color = remainingFor c color"
  "remainingFor (c\<lparr>running := x\<rparr>) color = remainingFor c color"
  by (simp_all add: remainingFor_def)

lemma stopped_fields [simp]:
  "running (stopped c) = None" "turnStartedAt (stopped c) = None"
  "incrementMs (stopped c) = incrementMs c" "remainingFor (stopped c) color = remainingFor c color"
  by (simp_all add: stopped_def)

lemma remaining_sum: "whiteMs c + blackMs c = remainingFor c color + remainingFor c (oppositeColor color)"
  by (cases color) (simp_all add: remainingFor_def)

lemma all_remaining_iff:
  "(\<forall>color. P (remainingFor c color)) \<longleftrightarrow> P (whiteMs c) \<and> P (blackMs c)"
proof
  assume "\<forall>color. P (remainingFor c color)"
  then have "P (remainingFor c White)" and "P (remainingFor c Black)" by blast+
  then show "P (whiteMs c) \<and> P (blackMs c)" by (simp add: remainingFor_def)
qed (simp add: remainingFor_def)

lemma clock_wf_iff_remaining:
  "clock_wf c \<longleftrightarrow>
     (\<forall>color. duration (remainingFor c color)) \<and> duration (incrementMs c) \<and>
     (running c \<noteq> None \<longleftrightarrow> turnStartedAt c \<noteq> None) \<and>
     (\<forall>d \<in> set_option (turnStartedAt c). \<exists>s. d = Date s \<and> time_value s)"
  by (simp add: clock_wf_def all_remaining_iff)

lemma assertClock_wf [simp]: "clock_wf c \<Longrightarrow> assertClock c = Inr ()"
  by (auto simp: assertClock_def clock_wf_def sbind_Inr_iff split: option.splits)

section \<open>The operations on a running clock\<close>

lemma clock_runs_wf [simp]: "clock_runs c color s \<Longrightarrow> clock_wf c"
  by (simp add: clock_runs_def)

lemma clock_runs_time [simp]: "clock_runs c color s \<Longrightarrow> time_value s"
  by (auto simp: clock_runs_def clock_wf_def)

lemma clock_runs_remaining: "clock_runs c color s \<Longrightarrow> duration (remainingFor c color')"
  by (simp add: clock_runs_def clock_wf_iff_remaining)

lemma requireRunning_runs [simp]: "clock_runs c color s \<Longrightarrow> requireRunning c = Inr color"
  by (simp add: requireRunning_def clock_runs_def)

lemma elapsedAt_runs [simp]:
  "clock_runs c color s \<Longrightarrow> elapsedAt c (Date t) = Inr (max 0 (t - s))"
  by (simp add: elapsedAt_def clock_runs_def)

lemma cloneClock_runs [simp]: "clock_runs c color s \<Longrightarrow> cloneClock c = c"
  by (simp add: cloneClock_def clock_runs_def clock_wf_def)

lemma clock_wf_running_cases:
  assumes "clock_wf c"
  obtains "running c = None" and "turnStartedAt c = None"
  | color s where "clock_runs c color s"
  using assms by (auto simp: clock_runs_def clock_wf_def)

text \<open>What each operation does to a running clock, as one equation.\<close>

lemma admitMoveOnClock_runs:
  assumes "clock_runs c color s"
  shows "admitMoveOnClock c color (Date t) =
    (let e = max 0 (t - s); r = remainingFor c color
     in if e \<ge> r then Inr (flagFallClock c color e)
        else if isSafeInteger (r - e + incrementMs c) then
          Inr (clock_accepted
            ((withRemaining c color (r - e + incrementMs c))
               \<lparr>running := Some (oppositeColor color), turnStartedAt := Some (copyDate (Date t))\<rparr>) e)
        else Inl (invalidClock ''The calculated clock exceeds the safe integer range.''))"
  using assms by (simp add: admitMoveOnClock_def checkedAdd_def Let_def)

lemma checkFlagFall_runs:
  assumes "clock_runs c color s"
  shows "checkFlagFall c (Date t) =
    (let e = max 0 (t - s)
     in if e \<ge> remainingFor c color then Inr (flagFallClock c color e)
        else Inr (clock_accepted c e))"
  using assms by (simp add: checkFlagFall_def Let_def)

lemma clockViewAt_runs:
  assumes "clock_runs c color s"
  shows "clockViewAt c (Date t) =
    (let v = withRemaining c color (max 0 (remainingFor c color - max 0 (t - s)))
     in Inr \<lparr>view_blackMs = blackMs v, view_observedAt = copyDate (Date t),
             view_running = Some color, view_whiteMs = whiteMs v\<rparr>)"
proof -
  have "running c = Some color" using assms by (simp add: clock_runs_def)
  with assms show ?thesis by (simp add: clockViewAt_def Let_def)
qed

lemma accepted_clock_runs:
  assumes "clock_runs c color s" and "time_value t"
    and "admitMoveOnClock c color (Date t) = Inr (clock_accepted c' e)"
  shows "clock_runs c' (oppositeColor color) t"
    and "e = max 0 (t - s)" and "e < remainingFor c color"
    and "remainingFor c' color = remainingFor c color - e + incrementMs c"
    and "remainingFor c' (oppositeColor color) = remainingFor c (oppositeColor color)"
    and "incrementMs c' = incrementMs c"
proof -
  have inc: "duration (incrementMs c)" and rem: "\<And>x. duration (remainingFor c x)"
    using assms(1) by (simp_all add: clock_runs_def clock_wf_iff_remaining)
  show *: "e = max 0 (t - s)" "e < remainingFor c color"
    "remainingFor c' color = remainingFor c color - e + incrementMs c"
    "remainingFor c' (oppositeColor color) = remainingFor c (oppositeColor color)"
    "incrementMs c' = incrementMs c"
    using assms(3) by (auto simp: admitMoveOnClock_runs [OF assms(1)] flagFallClock_def Let_def
      split: if_splits)
  have safe: "isSafeInteger (remainingFor c color - e + incrementMs c)"
    using assms(3) by (auto simp: admitMoveOnClock_runs [OF assms(1)] flagFallClock_def Let_def
      split: if_splits)
  have "duration (remainingFor c' x)" for x
    using * safe rem inc by (cases "x = color") (auto simp: duration_def dest: color_cases_neq)
  moreover have "running c' = Some (oppositeColor color)" "turnStartedAt c' = Some (Date t)"
    using assms(2,3) by (auto simp: admitMoveOnClock_runs [OF assms(1)] flagFallClock_def Let_def
      split: if_splits)
  ultimately show "clock_runs c' (oppositeColor color) t"
    using assms(2) inc * by (simp add: clock_runs_def clock_wf_iff_remaining)
qed

lemma duration_0 [simp]: "duration 0"
  by (simp add: duration_def isSafeInteger_def)

lemma flagFallClock_wf:
  assumes "clock_wf c"
  shows "clock_wf (admitted_clock (flagFallClock c color e))"
  using assms by (simp add: flagFallClock_def clock_wf_iff_remaining)

lemma clockDeadline_runs:
  assumes "clock_runs c color s"
  shows "clockDeadline c = Inr (Some (new_Date (s + remainingFor c color)))"
proof -
  have "running c = Some color" "turnStartedAt c = Some (Date s)"
    using assms by (simp_all add: clock_runs_def)
  with assms show ?thesis by (simp add: clockDeadline_def)
qed

lemma pauseClock_runs:
  assumes "clock_runs c color s"
  shows "pauseClock c (Date t) =
    (let e = max 0 (t - s)
     in if e \<ge> remainingFor c color then Inr (pause_flag_fall (flagFallClock c color e))
        else Inr (clock_paused (stopped (withRemaining c color (remainingFor c color - e))) e))"
  using assms by (simp add: pauseClock_def Let_def)

lemma admitMoves_total:
  assumes "clock_runs c mover s" and "sorted (s # ts)" and "list_all time_value ts"
    and "admitMoves c mover ts = Some c'"
  shows "whiteMs c' + blackMs c' =
    whiteMs c + blackMs c + int (length ts) * incrementMs c - (last (s # ts) - s)"
  using assms
proof (induction ts arbitrary: c mover s)
  case Nil
  then show ?case by simp
next
  case (Cons t ts)
  from Cons.prems(4) obtain c1 e where step: "admitMoveOnClock c mover (Date t) = Inr (clock_accepted c1 e)"
    and rest: "admitMoves c1 (oppositeColor mover) ts = Some c'"
    by (auto split: sum.splits ClockAdmission.splits)
  from Cons.prems(3) have t: "time_value t" by simp
  note acc = accepted_clock_runs [OF Cons.prems(1) t step]
  from acc(1) Cons.prems(2,3) rest
  have IH: "whiteMs c' + blackMs c' =
      whiteMs c1 + blackMs c1 + int (length ts) * incrementMs c1 - (last (t # ts) - t)"
    by (intro Cons.IH) auto
  have "whiteMs c1 + blackMs c1 = whiteMs c + blackMs c - (t - s) + incrementMs c"
    using acc Cons.prems(2) by (simp add: remaining_sum [of _ mover])
  with IH acc(6) show ?case by (simp add: algebra_simps)
qed

text \<open>A clock the examples of the properties use: a minute each, two seconds a move.\<close>

definition sample_clock :: GameClock where
  "sample_clock = \<lparr>blackMs = 60000, incrementMs = 2000, running = Some White,
     turnStartedAt = Some (Date 1000), whiteMs = 60000\<rparr>"

lemma sample_clock_runs: "clock_runs sample_clock White 1000"
  by (simp add: sample_clock_def clock_runs_def clock_wf_def duration_def isSafeInteger_def
    time_value_def)

section \<open>Properties\<close>

text \<open>
  A move that is admitted on the clock takes exactly the elapsed time from
  the mover and gives the increment back, leaves the opponent's clock alone,
  hands the running clock to the opponent from the moment the move was
  received, and needs strictly less time than the mover had left. The result is
  again a well-formed running clock.
\<close>

theorem admitMoveOnClock_accepted:
  assumes "clock_wf c" and "running c = Some mover" and "turnStartedAt c = Some (Date s)"
    and "time_value t" and "admitMoveOnClock c mover (Date t) = Inr (clock_accepted c' e)"
  shows "clock_wf c' \<and> running c' = Some (oppositeColor mover) \<and> turnStartedAt c' = Some (Date t) \<and>
    e = max 0 (t - s) \<and> e < remainingFor c mover \<and>
    remainingFor c' mover + e = remainingFor c mover + incrementMs c' \<and>
    remainingFor c' (oppositeColor mover) = remainingFor c (oppositeColor mover) \<and>
    incrementMs c' = incrementMs c"
proof -
  have runs: "clock_runs c mover s" using assms(1-3) by (simp add: clock_runs_def)
  show ?thesis
    using accepted_clock_runs [OF runs assms(4,5)] by (simp add: clock_runs_def)
qed

theorem admitMoveOnClock_accepted_witness:
  "clock_wf (sample_clock\<lparr>whiteMs := 57000, running := Some Black, turnStartedAt := Some (Date 6000)\<rparr>) \<and>
   (5000::int) < remainingFor sample_clock White"
proof -
  have "admitMoveOnClock sample_clock White (Date 6000) = Inr (clock_accepted
      (sample_clock\<lparr>whiteMs := 57000, running := Some Black, turnStartedAt := Some (Date 6000)\<rparr>) 5000)"
    unfolding admitMoveOnClock_runs [OF sample_clock_runs]
    by (simp add: remainingFor_def withRemaining_def isSafeInteger_def copyDate_def new_Date_def
      sample_clock_def)
  from admitMoveOnClock_accepted [OF _ _ _ _ this, of 1000] sample_clock_runs
  show ?thesis by (simp add: clock_runs_def time_value_def)
qed

text \<open>
  The flag falls exactly from the computed deadline on: while the side to
  move has time left, \<open>checkFlagFall\<close> at time \<open>t\<close> reports a fall if and only
  if \<open>t\<close> has reached the date that \<open>clockDeadline\<close> computed, and
  \<open>admitMoveOnClock\<close> refuses a move at exactly the same times (at the deadline
  itself included).
\<close>

theorem flag_falls_at_deadline:
  assumes "clock_wf c" and "running c = Some color" and "0 < remainingFor c color"
    and "clockDeadline c = Inr (Some (Date d))"
  shows "((\<exists>c' e. checkFlagFall c (Date t) = Inr (clock_flag_fall c' e color)) \<longleftrightarrow> d \<le> t) \<and>
    ((\<exists>c' e. admitMoveOnClock c color (Date t) = Inr (clock_flag_fall c' e color)) \<longleftrightarrow> d \<le> t)"
proof -
  obtain s where runs: "clock_runs c color s"
    using assms(1,2) by (auto elim: clock_wf_running_cases simp: clock_runs_def)
  have d: "d = s + remainingFor c color"
    using assms(4) clockDeadline_runs [OF runs] by (simp add: new_Date_def split: if_splits)
  show ?thesis
    using d assms(3) by (auto simp: checkFlagFall_runs [OF runs] admitMoveOnClock_runs [OF runs]
      flagFallClock_def Let_def)
qed

theorem flag_falls_at_deadline_witness:
  "\<exists>c' e. checkFlagFall sample_clock (Date 61000) = Inr (clock_flag_fall c' e White)"
proof -
  have "clockDeadline sample_clock = Inr (Some (Date 61000))"
    by (simp add: clockDeadline_runs [OF sample_clock_runs])
      (simp add: sample_clock_def remainingFor_def new_Date_def)
  from flag_falls_at_deadline [OF _ _ _ this, of White 61000] sample_clock_runs
  show ?thesis by (simp add: clock_runs_def) (simp add: sample_clock_def remainingFor_def)
qed

text \<open>
  C37. Time is conserved over a whole game: after any number of admitted moves,
  the players alternating and the times of receipt not decreasing, the two
  clocks together hold what they held at the start, plus one increment per
  move, less the time from the start of the first turn to the last move.
\<close>

theorem admitMoves_conserve_time:
  assumes "clock_wf c" and "running c = Some mover" and "turnStartedAt c = Some (Date s)"
    and "sorted (s # ts)" and "list_all time_value ts" and "admitMoves c mover ts = Some c'"
  shows "whiteMs c' + blackMs c' =
    whiteMs c + blackMs c + int (length ts) * incrementMs c - (last (s # ts) - s)"
proof -
  have "clock_runs c mover s" using assms(1-3) by (simp add: clock_runs_def)
  then show ?thesis using assms(4-6) by (rule admitMoves_total)
qed

theorem admitMoves_conserve_time_witness:
  "\<exists>c'. admitMoves sample_clock White [6000, 9000] = Some c' \<and>
        whiteMs c' + blackMs c' = 60000 + 60000 + 2 * 2000 - (9000 - 1000)"
proof -
  obtain c' where c': "admitMoves sample_clock White [6000, 9000] = Some c'"
    by (simp add: admitMoveOnClock_def requireRunning_def assertClock_def assertDuration_def
      elapsedAt_def checkedAdd_def remainingFor_def withRemaining_def isSafeInteger_def
      copyDate_def new_Date_def sample_clock_def)
  from admitMoves_conserve_time [OF _ _ _ _ _ c', of 1000] sample_clock_runs c'
  show ?thesis by (simp add: clock_runs_def time_value_def sample_clock_def)
qed

text \<open>
  What a player sees agrees with what the server decides: the view computed
  by \<open>clockViewAt\<close> shows the side to move with no time left exactly when
  \<open>checkFlagFall\<close> at that moment reports that side's flag as fallen; otherwise
  it shows precisely what an immediate pause would leave on the clock.
\<close>

theorem view_agrees_with_flag:
  assumes "clock_wf c" and "running c = Some color" and "clockViewAt c (Date t) = Inr v"
  shows "((if color = White then view_whiteMs v else view_blackMs v) = 0 \<longleftrightarrow>
           (\<exists>c' e. checkFlagFall c (Date t) = Inr (clock_flag_fall c' e color))) \<and>
    (\<forall>c' e. pauseClock c (Date t) = Inr (clock_paused c' e) \<longrightarrow>
       whiteMs c' = view_whiteMs v \<and> blackMs c' = view_blackMs v)"
proof -
  obtain s where runs: "clock_runs c color s"
    using assms(1,2) by (auto elim: clock_wf_running_cases simp: clock_runs_def)
  show ?thesis
    using assms(3) unfolding clockViewAt_runs [OF runs] checkFlagFall_runs [OF runs]
      pauseClock_runs [OF runs]
    by (auto simp: Let_def flagFallClock_def withRemaining_def remainingFor_def stopped_def)
qed

theorem view_agrees_with_flag_witness:
  "\<exists>v. clockViewAt sample_clock (Date 61000) = Inr v \<and> view_whiteMs v = 0 \<and>
       (\<exists>c' e. checkFlagFall sample_clock (Date 61000) = Inr (clock_flag_fall c' e White))"
proof -
  obtain v where v: "clockViewAt sample_clock (Date 61000) = Inr v" and "view_whiteMs v = 0"
    unfolding clockViewAt_runs [OF sample_clock_runs]
    by (simp add: Let_def withRemaining_def remainingFor_def sample_clock_def)
  with view_agrees_with_flag [OF _ _ v, of White] sample_clock_runs show ?thesis
    by (simp add: clock_runs_def)
qed

text \<open>
  Resuming and pausing are inverse up to the elapsed time: a stopped clock
  resumed for a side at \<open>s\<close> and paused at \<open>t\<close>, before that side's time is up,
  is the same clock with \<open>t - s\<close> taken from that side, and unchanged when no
  time has passed. At or after that point the pause reports the flag as fallen.
\<close>

theorem resume_then_pause:
  assumes "clock_wf c" and "time_value s" and "s \<le> t"
    and "resumeClock c color (Date s) = Inr c1"
  shows "pauseClock c1 (Date t) =
    (if t - s < remainingFor c color
     then Inr (clock_paused (withRemaining c color (remainingFor c color - (t - s))) (t - s))
     else Inr (pause_flag_fall (clock_flag_fall (withRemaining c color 0) (t - s) color)))"
proof -
  have stop: "running c = None" "turnStartedAt c = None"
    and c1: "c1 = c\<lparr>running := Some color, turnStartedAt := Some (Date s)\<rparr>"
    using assms by (auto simp: resumeClock_def sbind_Inr_iff)
  have runs: "clock_runs c1 color s"
    using assms(1,2) by (simp add: clock_runs_def clock_wf_def c1)
  have id: "stopped (withRemaining c1 color r) = withRemaining c color r" for r
    by (rule GameClock.equality) (simp_all add: stop c1 stopped_def withRemaining_def)
  show ?thesis
    unfolding pauseClock_runs [OF runs]
    using assms(3) by (simp add: id flagFallClock_def Let_def) (simp add: c1)
qed

theorem resume_then_pause_witness:
  "pauseClock sample_clock (Date 6000) =
     Inr (clock_paused (withRemaining (stopped sample_clock) White 55000) 5000)"
proof -
  have wf: "clock_wf (stopped sample_clock)"
    by (simp add: clock_wf_def stopped_def sample_clock_def duration_def isSafeInteger_def)
  have "resumeClock (stopped sample_clock) White (Date 1000) = Inr sample_clock"
    using wf by (simp add: resumeClock_def)
      (simp add: stopped_def sample_clock_def remainingFor_def copyDate_def new_Date_def)
  from resume_then_pause [OF wf _ _ this, of 6000] show ?thesis
    by (simp add: time_value_def remainingFor_def sample_clock_def stopped_def)
qed

text \<open>
  Admission of a move throws in exactly these cases: the clock is not well
  formed, it is not running for the mover, the time of receipt is not a valid
  date, or the mover's time with the increment would leave the safe integer
  range. In every other case the move is accepted or the flag has fallen.
\<close>

theorem admitMoveOnClock_throws_iff:
  "(\<exists>err. admitMoveOnClock c mover d = Inl err) \<longleftrightarrow>
     assertClock c \<noteq> Inr () \<or> running c \<noteq> Some mover \<or> d = InvalidDate \<or>
     (\<exists>e. elapsedAt c d = Inr e \<and> e < remainingFor c mover \<and>
          \<not> isSafeInteger (remainingFor c mover - e + incrementMs c))"
proof (cases "assertClock c = Inr () \<and> running c = Some mover \<and> d \<noteq> InvalidDate")
  case False
  then show ?thesis
    by (cases "assertClock c"; cases d)
      (auto simp: admitMoveOnClock_def requireRunning_def elapsedAt_def sbind_Inl_iff
        split: option.splits)
next
  case True
  then obtain t where d: "d = Date t" by (cases d) auto
  from True obtain s where s: "turnStartedAt c = Some (Date s)"
    by (auto simp: assertClock_def sbind_Inr_iff assertTimestamp_def split: option.splits)
      (metis jsdate.exhaust)
  then have e: "elapsedAt c d = Inr (max 0 (t - s))" by (simp add: elapsedAt_def d)
  from True e show ?thesis
    by (auto simp: admitMoveOnClock_def requireRunning_def checkedAdd_def Let_def)
qed

theorem admitMoveOnClock_throws_witness:
  "(\<exists>err. admitMoveOnClock sample_clock Black (Date 6000) = Inl err) \<and>
   \<not> (\<exists>err. admitMoveOnClock sample_clock White (Date 6000) = Inl err)"
proof -
  have "assertClock sample_clock = Inr ()" "running sample_clock = Some White"
    "elapsedAt sample_clock (Date 6000) = Inr 5000"
    using sample_clock_runs by (simp_all add: clock_runs_def elapsedAt_def)
  then show ?thesis
    by (simp add: admitMoveOnClock_throws_iff)
      (simp add: sample_clock_def remainingFor_def isSafeInteger_def)
qed

end
