(* ===== verification/Terminal_Result.thy ===== *)
theory Terminal_Result
  imports Game_Types
begin

text \<open>
  How a game ends, \<open>src/src/modules/game/domain/terminal-result.ts\<close>: the
  terminal events and the outcome (result, status, termination, winner) each
  one determines. The lemmas say which events are refused, that result and
  winner always agree, and that the outcome of an event is the frozen table of
  outcomes the program documents.
\<close>

section \<open>Data\<close>

record TerminalOutcome =
  to_result :: GameResult
  to_status :: GameStatus
  to_termination :: GameTermination
  to_winner :: "PlayerColor option"

datatype TerminalEvent =
    BOARD BoardTermination "PlayerColor option"
  | RESIGNATION PlayerColor
  | TIMEOUT PlayerColor
  | ABANDONMENT "PlayerColor list"
  | NO_SHOW "PlayerColor list"

definition DRAW_TERMINATIONS :: "BoardTermination list" where
  "DRAW_TERMINATIONS = [fifty_move, insufficient_material, stalemate, threefold_repetition]"

section \<open>Deriving the outcome\<close>

definition invalidTerminalEvent :: "string \<Rightarrow> GameDomainError" where
  "invalidTerminalEvent message = GameDomainError INVALID_TERMINAL_EVENT message"

text \<open>\<open>[...new Set(colors)]\<close>: the colours in the order of their first occurrence.\<close>

fun uniqueColors :: "PlayerColor list \<Rightarrow> PlayerColor list" where
  "uniqueColors [] = []"
| "uniqueColors (c # cs) = c # filter (\<lambda>d. d \<noteq> c) (uniqueColors cs)"

definition winnerOutcome ::
    "PlayerColor \<Rightarrow> GameStatus \<Rightarrow> GameTermination \<Rightarrow> TerminalOutcome" where
  "winnerOutcome winner status termination =
     \<lparr>to_result = (if winner = White then white_win else black_win), to_status = status,
      to_termination = termination, to_winner = Some winner\<rparr>"

definition deriveAbandonment :: "PlayerColor list \<Rightarrow> GameDomainError + TerminalOutcome" where
  "deriveAbandonment absentInput =
     (let absent = uniqueColors absentInput
      in if length absent = 2
         then Inr \<lparr>to_result = void, to_status = ABANDONED, to_termination = double_abandon,
                   to_winner = None\<rparr>
         else case absent of
             [] \<Rightarrow> Inl (invalidTerminalEvent ''Abandonment requires at least one absent player.'')
           | loser # _ \<Rightarrow> Inr (winnerOutcome (oppositeColor loser) ABANDONED abandonment))"

definition deriveBoardOutcome ::
    "BoardTermination \<Rightarrow> PlayerColor option \<Rightarrow> GameDomainError + TerminalOutcome" where
  "deriveBoardOutcome reason winner =
     (if reason = checkmate then
        (case winner of
           None \<Rightarrow> Inl (invalidTerminalEvent ''Checkmate must identify the winning color.'')
         | Some w \<Rightarrow> Inr (winnerOutcome w COMPLETED (Board reason)))
      else if reason \<notin> set DRAW_TERMINATIONS \<or> winner \<noteq> None then
        Inl (invalidTerminalEvent ''An automatic chess draw cannot identify a winner.'')
      else Inr \<lparr>to_result = draw, to_status = COMPLETED, to_termination = Board reason,
                to_winner = None\<rparr>)"

definition deriveNoShow :: "PlayerColor list \<Rightarrow> GameDomainError + TerminalOutcome" where
  "deriveNoShow joinedInput =
     (let joined = uniqueColors joinedInput
      in if length joined = 0
         then Inr \<lparr>to_result = void, to_status = EXPIRED, to_termination = no_show,
                   to_winner = None\<rparr>
         else case (if length joined = 1 then Some (hd joined) else None) of
             None \<Rightarrow> Inl (invalidTerminalEvent
               ''A no-show cannot be adjudicated after both players joined.'')
           | Some winner \<Rightarrow> Inr (winnerOutcome winner EXPIRED no_show))"

fun deriveTerminalOutcome :: "TerminalEvent \<Rightarrow> GameDomainError + TerminalOutcome" where
  "deriveTerminalOutcome (BOARD reason winner) = deriveBoardOutcome reason winner"
| "deriveTerminalOutcome (RESIGNATION loser) =
     Inr (winnerOutcome (oppositeColor loser) COMPLETED resignation)"
| "deriveTerminalOutcome (TIMEOUT loser) =
     Inr (winnerOutcome (oppositeColor loser) COMPLETED timeout)"
| "deriveTerminalOutcome (ABANDONMENT absent) = deriveAbandonment absent"
| "deriveTerminalOutcome (NO_SHOW joined) = deriveNoShow joined"

section \<open>Facts\<close>

lemma UNIV_color: "UNIV = {White, Black}"
  by (auto intro: PlayerColor.exhaust)

lemma set_uniqueColors [simp]: "set (uniqueColors cs) = set cs"
  by (induction cs) auto

lemma distinct_uniqueColors [simp]: "distinct (uniqueColors cs)"
  by (induction cs) auto

lemma uniqueColors_cases:
  obtains "set cs = {}" and "uniqueColors cs = []"
  | c where "set cs = {c}" and "uniqueColors cs = [c]"
  | c where "set cs = UNIV" and "uniqueColors cs = [c, oppositeColor c]"
proof (cases "uniqueColors cs")
  case Nil
  then show ?thesis using that(1) set_uniqueColors [of cs] by auto
next
  case (Cons c us)
  then have "c \<notin> set us" and dist: "distinct us"
    using distinct_uniqueColors [of cs] by auto
  have sub: "set us \<subseteq> {oppositeColor c}"
  proof
    fix d
    assume "d \<in> set us"
    with \<open>c \<notin> set us\<close> have "c \<noteq> d" by blast
    then show "d \<in> {oppositeColor c}" using color_cases_neq [of c d] by simp
  qed
  show ?thesis
  proof (cases us)
    case Nil
    with Cons show ?thesis using that(2) set_uniqueColors [of cs] by auto
  next
    case (Cons d vs)
    with sub dist have us: "us = [oppositeColor c]" by (cases vs) auto
    have "set cs = {c, oppositeColor c}"
      using set_uniqueColors [of cs] \<open>uniqueColors cs = c # us\<close> us by simp
    also have "\<dots> = UNIV" by (cases c) (auto simp: UNIV_color)
    finally show ?thesis using that(3) \<open>uniqueColors cs = c # us\<close> us by simp
  qed
qed

lemma deriveAbandonment_cases:
  "deriveAbandonment cs =
     (if set cs = {} then Inl (invalidTerminalEvent ''Abandonment requires at least one absent player.'')
      else if set cs = UNIV
        then Inr \<lparr>to_result = void, to_status = ABANDONED, to_termination = double_abandon, to_winner = None\<rparr>
      else Inr (winnerOutcome (oppositeColor (hd cs)) ABANDONED abandonment))"
proof (cases cs rule: uniqueColors_cases)
  case (2 c)
  then have "hd cs = c" by (cases cs) auto
  moreover have "{c} \<noteq> UNIV" by (cases c) auto
  ultimately show ?thesis using 2 by (auto simp: deriveAbandonment_def)
qed (auto simp: deriveAbandonment_def)

lemma deriveNoShow_cases:
  "deriveNoShow cs =
     (if set cs = {} then
        Inr \<lparr>to_result = void, to_status = EXPIRED, to_termination = no_show, to_winner = None\<rparr>
      else if set cs = UNIV
        then Inl (invalidTerminalEvent ''A no-show cannot be adjudicated after both players joined.'')
      else Inr (winnerOutcome (hd cs) EXPIRED no_show))"
proof (cases cs rule: uniqueColors_cases)
  case (2 c)
  then have "hd cs = c" by (cases cs) auto
  moreover have "{c} \<noteq> UNIV" by (cases c) auto
  ultimately show ?thesis using 2 by (auto simp: deriveNoShow_def)
qed (auto simp: deriveNoShow_def)

text \<open>What an outcome promises, whatever event it came from.\<close>

definition outcome_ok :: "TerminalOutcome \<Rightarrow> bool" where
  "outcome_ok out \<longleftrightarrow>
     to_status out \<in> {ABANDONED, COMPLETED, EXPIRED} \<and>
     to_winner out = (case to_result out of
        white_win \<Rightarrow> Some White | black_win \<Rightarrow> Some Black | _ \<Rightarrow> None) \<and>
     (to_result out = draw \<longleftrightarrow> to_termination out \<in> Board ` set DRAW_TERMINATIONS) \<and>
     (to_result out = void \<longrightarrow> to_termination out \<in> {double_abandon, no_show}) \<and>
     to_status out = (case to_termination out of
        abandonment \<Rightarrow> ABANDONED | double_abandon \<Rightarrow> ABANDONED
      | no_show \<Rightarrow> EXPIRED | _ \<Rightarrow> COMPLETED)"

lemma winnerOutcome_ok:
  "outcome_ok (winnerOutcome w s t) \<longleftrightarrow>
     s = (case t of abandonment \<Rightarrow> ABANDONED | double_abandon \<Rightarrow> ABANDONED | no_show \<Rightarrow> EXPIRED
          | _ \<Rightarrow> COMPLETED) \<and> t \<notin> Board ` set DRAW_TERMINATIONS"
  by (cases t; cases w) (auto simp: outcome_ok_def winnerOutcome_def)

lemma void_outcome_ok:
  "outcome_ok \<lparr>to_result = void, to_status = ABANDONED, to_termination = double_abandon, to_winner = None\<rparr>"
  "outcome_ok \<lparr>to_result = void, to_status = EXPIRED, to_termination = no_show, to_winner = None\<rparr>"
  by (auto simp: outcome_ok_def DRAW_TERMINATIONS_def)

lemma deriveAbandonment_ok: "deriveAbandonment cs = Inr out \<Longrightarrow> outcome_ok out"
  by (cases cs rule: uniqueColors_cases)
    (auto simp: deriveAbandonment_def winnerOutcome_ok void_outcome_ok)

lemma deriveNoShow_ok: "deriveNoShow cs = Inr out \<Longrightarrow> outcome_ok out"
  by (cases cs rule: uniqueColors_cases)
    (auto simp: deriveNoShow_def winnerOutcome_ok void_outcome_ok)

lemma draw_outcome_ok:
  "r \<in> set DRAW_TERMINATIONS \<Longrightarrow>
     outcome_ok \<lparr>to_result = draw, to_status = COMPLETED, to_termination = Board r, to_winner = None\<rparr>"
  by (simp add: outcome_ok_def)

lemma deriveBoardOutcome_ok:
  assumes "deriveBoardOutcome r w = Inr out"
  shows "outcome_ok out"
proof (cases "r = checkmate")
  case True
  then have "Board r \<notin> Board ` set DRAW_TERMINATIONS"
    by (auto simp: DRAW_TERMINATIONS_def)
  with assms True show ?thesis
    by (auto simp: deriveBoardOutcome_def winnerOutcome_ok split: option.splits)
next
  case False
  with assms show ?thesis
    by (auto simp: deriveBoardOutcome_def draw_outcome_ok split: if_splits)
qed

lemma UNIV_neq_singleton_color [simp]: "UNIV \<noteq> {c::PlayerColor}" "{c::PlayerColor} \<noteq> UNIV"
  by (auto simp: UNIV_color)

section \<open>Properties\<close>

text \<open>
  Every outcome that is derived is consistent: its status is terminal and
  is the one its termination belongs to, the winner is the side its result
  names (none for a draw or a void game), a draw is exactly an automatic board
  draw, and only a double abandonment or a no-show leaves a void game.
\<close>

theorem deriveTerminalOutcome_consistent:
  assumes "deriveTerminalOutcome event = Inr out"
  shows "outcome_ok out"
  using assms
  by (cases event)
    (auto simp: deriveBoardOutcome_ok deriveAbandonment_ok deriveNoShow_ok winnerOutcome_ok)

theorem deriveTerminalOutcome_consistent_witness:
  "deriveTerminalOutcome (ABANDONMENT [White]) = Inr (winnerOutcome Black ABANDONED abandonment) \<and>
   outcome_ok (winnerOutcome Black ABANDONED abandonment)"
proof -
  have "deriveTerminalOutcome (ABANDONMENT [White]) = Inr (winnerOutcome Black ABANDONED abandonment)"
    by (simp add: deriveAbandonment_def)
  with deriveTerminalOutcome_consistent [OF this] show ?thesis by simp
qed

text \<open>
  An event is refused in exactly the contradictory cases: a checkmate with
  no winner, an automatic draw with one, an abandonment with nobody absent, and
  a no-show although both players joined. The side that resigns, runs out of
  time or is the only one absent never is the winner.
\<close>

theorem deriveTerminalOutcome_decides:
  "(\<exists>e. deriveTerminalOutcome event = Inl e) =
     (case event of
        BOARD r w \<Rightarrow> (r = checkmate) = (w = None)
      | ABANDONMENT cs \<Rightarrow> cs = []
      | NO_SHOW cs \<Rightarrow> White \<in> set cs \<and> Black \<in> set cs
      | _ \<Rightarrow> False) \<and>
   (case event of
      RESIGNATION l \<Rightarrow> deriveTerminalOutcome event = Inr (winnerOutcome (oppositeColor l) COMPLETED resignation)
    | TIMEOUT l \<Rightarrow> deriveTerminalOutcome event = Inr (winnerOutcome (oppositeColor l) COMPLETED timeout)
    | ABANDONMENT cs \<Rightarrow> set cs = {Black} =
        (deriveTerminalOutcome event = Inr (winnerOutcome White ABANDONED abandonment))
    | NO_SHOW cs \<Rightarrow> set cs = {Black} =
        (deriveTerminalOutcome event = Inr (winnerOutcome Black EXPIRED no_show))
    | BOARD r w \<Rightarrow> True)"
  (is "?goal event")
proof (cases event)
  case (BOARD r w)
  then show ?thesis
    by (cases r; cases w) (simp_all add: deriveBoardOutcome_def DRAW_TERMINATIONS_def)
next
  case (ABANDONMENT cs)
  show ?thesis unfolding ABANDONMENT
  proof (cases cs rule: uniqueColors_cases)
    case (2 c)
    moreover from 2 have "cs \<noteq> []" by auto
    ultimately show "?goal (ABANDONMENT cs)"
      by (cases c) (simp_all add: deriveAbandonment_def winnerOutcome_def)
  next
    case (3 c)
    moreover from 3 have "cs \<noteq> []" by auto
    ultimately show "?goal (ABANDONMENT cs)"
      by (simp add: deriveAbandonment_def winnerOutcome_def)
  qed (simp add: deriveAbandonment_def)
next
  case (NO_SHOW cs)
  show ?thesis unfolding NO_SHOW
  proof (cases cs rule: uniqueColors_cases)
    case (2 c)
    then show "?goal (NO_SHOW cs)"
      by (cases c) (simp_all add: deriveNoShow_def winnerOutcome_def)
  next
    case (3 c)
    then show "?goal (NO_SHOW cs)" by (simp add: deriveNoShow_def winnerOutcome_def)
  qed (simp add: deriveNoShow_def winnerOutcome_def)
qed simp_all

end
