(* ===== verification/Chess_Engine.thy ===== *)
theory Chess_Engine
  imports Terminal_Result
begin

text \<open>
  The chess engine adapter,
  \<open>src/src/modules/chess/infrastructure/chessjs.engine.ts\<close>, with the types of
  the port \<open>application/ports/chess-engine.ts\<close> and the errors of
  \<open>domain/chess.errors.ts\<close>.

  The library chess.js is not part of the repository: it is the parameter
  \<open>lib\<close>, a record of the functions the adapter calls, over a type \<open>'p\<close> of
  positions. A chess.js object is mutable; here a call that changes it returns
  the new position, and a call that throws returns \<open>None\<close> (the adapter never
  uses an object again after one of its calls has thrown).
  \<open>chessjs_ok\<close> names what the adapter relies on.
\<close>

section \<open>The port\<close>

record MoveInput =
  mi_from :: string
  mi_promotion :: "string option"
  mi_to :: string

record AppliedMove =
  am_capture :: bool
  am_check :: bool
  am_color :: PlayerColor
  am_fenAfter :: string
  am_fenBefore :: string
  am_plyNumber :: int
  am_san :: string
  am_uci :: string

datatype GameOver = not_over | over (over_reason: BoardTermination) (over_winner: "PlayerColor option")

record EvaluateMoveInput =
  ev_expectedCurrentFen :: string
  ev_history :: "string list"
  ev_initialFen :: string
  ev_move :: MoveInput

record MoveEvaluation =
  me_applied :: AppliedMove
  me_gameOver :: GameOver
  me_pgn :: string

record ReplayedPosition =
  rp_fen :: string
  rp_gameOver :: GameOver
  rp_pgn :: string
  rp_plyCount :: int
  rp_turn :: PlayerColor

text \<open>A \<open>HistoricalMove\<close> has the single field \<open>uci\<close>: a history is a list of these strings.\<close>

datatype ChessEngineErrorCode = CHESS_GAME_STATE_CORRUPT | CHESS_ILLEGAL_MOVE | INVALID_INITIAL_POSITION

datatype ChessEngineError = ChessEngineError (chess_code: ChessEngineErrorCode) (chess_message: string)

definition IllegalMoveError :: "string \<Rightarrow> ChessEngineError" where
  "IllegalMoveError message = ChessEngineError CHESS_ILLEGAL_MOVE message"

definition GameStateCorruptError :: "string \<Rightarrow> ChessEngineError" where
  "GameStateCorruptError message = ChessEngineError CHESS_GAME_STATE_CORRUPT message"

definition InvalidInitialPositionError :: "string option \<Rightarrow> ChessEngineError" where
  "InvalidInitialPositionError message =
     ChessEngineError INVALID_INITIAL_POSITION
       (case message of None \<Rightarrow> ''The configured initial chess position is invalid.'' | Some m \<Rightarrow> m)"

section \<open>The library\<close>

record lib_move =
  mv_captures :: bool
  mv_color :: PlayerColor
  mv_enPassant :: bool
  mv_from :: string
  mv_promotion :: "string option"
  mv_san :: string
  mv_to :: string

record 'p chessjs =
  cj_DEFAULT_POSITION :: string
  cj_validateFen :: "string \<Rightarrow> bool \<times> string option"
  cj_new :: "string \<Rightarrow> 'p option"
  cj_move :: "'p \<Rightarrow> MoveInput \<Rightarrow> ('p \<times> lib_move) option"
  cj_fen :: "'p \<Rightarrow> string"
  cj_turn :: "'p \<Rightarrow> PlayerColor"
  cj_get :: "'p \<Rightarrow> string \<Rightarrow> string option"
  cj_isCheck :: "'p \<Rightarrow> bool"
  cj_isCheckmate :: "'p \<Rightarrow> bool"
  cj_isStalemate :: "'p \<Rightarrow> bool"
  cj_isInsufficientMaterial :: "'p \<Rightarrow> bool"
  cj_isThreefoldRepetition :: "'p \<Rightarrow> bool"
  cj_isDrawByFiftyMoves :: "'p \<Rightarrow> bool"
  cj_setHeader :: "string \<Rightarrow> string \<Rightarrow> 'p \<Rightarrow> 'p"
  cj_pgn :: "'p \<Rightarrow> string"

text \<open>
  \<open>cj_get\<close> gives the type of the piece on a square. \<open>cj_move\<close> is given an object
  with \<open>from\<close>, \<open>to\<close> and possibly \<open>promotion\<close>.
\<close>

section \<open>Text patterns\<close>

definition is_file :: "char \<Rightarrow> bool" where
  "is_file c \<longleftrightarrow> c \<in> set ''abcdefgh''"

definition is_rank :: "char \<Rightarrow> bool" where
  "is_rank c \<longleftrightarrow> c \<in> set ''12345678''"

definition SQUARE_PATTERN :: "string \<Rightarrow> bool" where
  "SQUARE_PATTERN s \<longleftrightarrow> (case s of [f, r] \<Rightarrow> is_file f \<and> is_rank r | _ \<Rightarrow> False)"

definition UCI_PATTERN :: "string \<Rightarrow> bool" where
  "UCI_PATTERN s \<longleftrightarrow>
     SQUARE_PATTERN (take 2 s) \<and> SQUARE_PATTERN (take 2 (drop 2 s)) \<and>
     (case drop 4 s of [] \<Rightarrow> True | [p] \<Rightarrow> p \<in> set ''bnqr'' | _ \<Rightarrow> False)"

text \<open>\<open>String(n)\<close> for a natural number.\<close>

fun String_nat :: "nat \<Rightarrow> string" where
  "String_nat n =
     (if n < 10 then [''0123456789'' ! n] else String_nat (n div 10) @ [''0123456789'' ! (n mod 10)])"

declare String_nat.simps [simp del]

section \<open>The adapter\<close>

definition opposite :: "PlayerColor \<Rightarrow> PlayerColor" where
  "opposite color = (if color = White then Black else White)"

definition describeMove :: "MoveInput \<Rightarrow> string" where
  "describeMove m = mi_from m @ mi_to m @ (case mi_promotion m of None \<Rightarrow> [] | Some p \<Rightarrow> p)"

definition createPosition :: "'p chessjs \<Rightarrow> string \<Rightarrow> ChessEngineError + 'p" where
  "createPosition lib initialFen =
     (case cj_validateFen lib initialFen of
        (False, err) \<Rightarrow> Inl (InvalidInitialPositionError (Some
          (''The configured initial chess position is invalid: '' @
           (case err of None \<Rightarrow> ''unknown FEN error'' | Some e \<Rightarrow> e) @ ''.'')))
      | (True, _) \<Rightarrow>
          (case cj_new lib initialFen of
             None \<Rightarrow> Inl (InvalidInitialPositionError None)
           | Some chess \<Rightarrow> Inr chess))"

definition uci_move :: "string \<Rightarrow> MoveInput" where
  "uci_move uci =
     \<lparr>mi_from = take 2 uci, mi_promotion = (if length uci = 5 then Some (drop 4 uci) else None),
      mi_to = take 2 (drop 2 uci)\<rparr>"

text \<open>The loop of \<open>replayHistory\<close>; \<open>index\<close> is the index of the first move of the list.\<close>

fun replayMoves :: "'p chessjs \<Rightarrow> nat \<Rightarrow> string list \<Rightarrow> 'p \<Rightarrow> ChessEngineError + 'p" where
  "replayMoves lib index [] chess = Inr chess"
| "replayMoves lib index (uci # rest) chess =
     (if \<not> UCI_PATTERN uci then
        Inl (GameStateCorruptError (''Persisted move '' @ String_nat (index + 1) @ '' is not valid UCI.''))
      else case cj_move lib chess (uci_move uci) of
          None \<Rightarrow> Inl (GameStateCorruptError
            (''Persisted move '' @ String_nat (index + 1) @ '' is illegal for its replayed position.''))
        | Some (chess', _) \<Rightarrow> replayMoves lib (index + 1) rest chess')"

definition replayHistory :: "'p chessjs \<Rightarrow> string \<Rightarrow> string list \<Rightarrow> ChessEngineError + 'p" where
  "replayHistory lib initialFen history =
     sbind (createPosition lib initialFen) (\<lambda>chess. replayMoves lib 0 history chess)"

definition getGameOver :: "'p chessjs \<Rightarrow> 'p \<Rightarrow> GameOver" where
  "getGameOver lib chess =
     (if cj_isCheckmate lib chess then over checkmate (Some (opposite (cj_turn lib chess)))
      else if cj_isStalemate lib chess then over stalemate None
      else if cj_isInsufficientMaterial lib chess then over insufficient_material None
      else if cj_isThreefoldRepetition lib chess then over threefold_repetition None
      else if cj_isDrawByFiftyMoves lib chess then over fifty_move None
      else not_over)"

definition result_header :: "GameOver \<Rightarrow> string" where
  "result_header gameOver =
     (case gameOver of
        not_over \<Rightarrow> ''*''
      | over _ winner \<Rightarrow>
          (case winner of
             None \<Rightarrow> ''1/2-1/2''
           | Some w \<Rightarrow> if w = White then ''1-0'' else ''0-1''))"

definition getPgn :: "'p chessjs \<Rightarrow> 'p \<Rightarrow> GameOver \<Rightarrow> string" where
  "getPgn lib chess gameOver =
     cj_pgn lib (cj_setHeader lib ''Result'' (result_header gameOver) chess)"

text \<open>\<open>applyProposal\<close> also returns the changed position; \<open>fenBefore\<close> is set by its caller.\<close>

definition applyProposal ::
    "'p chessjs \<Rightarrow> 'p \<Rightarrow> MoveInput \<Rightarrow> int \<Rightarrow> string \<Rightarrow> ChessEngineError + AppliedMove \<times> 'p" where
  "applyProposal lib chess proposal plyNumber fenBefore =
     (if \<not> SQUARE_PATTERN (mi_from proposal) \<or> \<not> SQUARE_PATTERN (mi_to proposal) then
        Inl (IllegalMoveError ''The move must contain valid board squares.'')
      else if mi_promotion proposal \<noteq> None \<and>
          (cj_get lib chess (mi_from proposal) \<noteq> Some ''p'' \<or>
           mi_to proposal ! 1 \<notin> {CHR ''1'', CHR ''8''}) then
        Inl (IllegalMoveError ''A promotion piece is only valid for a pawn reaching the back rank.'')
      else case cj_move lib chess proposal of
          None \<Rightarrow> Inl (IllegalMoveError
            (''The move '' @ describeMove proposal @ '' is not legal in the current position.''))
        | Some (chess', move) \<Rightarrow>
            Inr (\<lparr>am_capture = mv_captures move \<or> mv_enPassant move,
                  am_check = cj_isCheck lib chess', am_color = mv_color move,
                  am_fenAfter = cj_fen lib chess', am_fenBefore = fenBefore,
                  am_plyNumber = plyNumber, am_san = mv_san move,
                  am_uci = mv_from move @ mv_to move @
                    (case mv_promotion move of None \<Rightarrow> [] | Some p \<Rightarrow> p)\<rparr>, chess'))"

definition evaluateMove ::
    "'p chessjs \<Rightarrow> EvaluateMoveInput \<Rightarrow> ChessEngineError + MoveEvaluation" where
  "evaluateMove lib input =
     sbind (replayHistory lib (ev_initialFen input) (ev_history input)) (\<lambda>chess.
     let replayedFen = cj_fen lib chess in
     sbind (throw_if (replayedFen \<noteq> ev_expectedCurrentFen input)
       (GameStateCorruptError
          ''The replayed chess position does not match the persisted current position.'')) (\<lambda>_.
     sbind (applyProposal lib chess (ev_move input) (int (length (ev_history input)) + 1) replayedFen)
       (\<lambda>(applied, chess').
     let gameOver = getGameOver lib chess' in
     Inr \<lparr>me_applied = applied, me_gameOver = gameOver, me_pgn = getPgn lib chess' gameOver\<rparr>)))"

definition replay ::
    "'p chessjs \<Rightarrow> string \<Rightarrow> string list \<Rightarrow> ChessEngineError + ReplayedPosition" where
  "replay lib initialFen history =
     sbind (replayHistory lib initialFen history) (\<lambda>chess.
     let gameOver = getGameOver lib chess;
         chess' = cj_setHeader lib ''Result'' (result_header gameOver) chess in
     Inr \<lparr>rp_fen = cj_fen lib chess, rp_gameOver = gameOver, rp_pgn = getPgn lib chess gameOver,
          rp_plyCount = int (length history), rp_turn = cj_turn lib chess'\<rparr>)"

definition newGame :: "'p chessjs \<Rightarrow> ChessEngineError + ReplayedPosition" where
  "newGame lib = replay lib (cj_DEFAULT_POSITION lib) []"

section \<open>What the adapter relies on\<close>

text \<open>
  The documented behaviour of \<open>Chess.move\<close> on an object: the move it returns is
  between the squares it was given, its promotion piece, if any, is one of the
  four pieces, and repeating it with exactly the returned squares and promotion
  piece makes the same move.
\<close>

definition chessjs_ok :: "'p chessjs \<Rightarrow> bool" where
  "chessjs_ok lib \<longleftrightarrow>
     (\<forall>p m p' mv. cj_move lib p m = Some (p', mv) \<longrightarrow>
        mv_from mv = mi_from m \<and> mv_to mv = mi_to m \<and>
        mv_promotion mv \<in> {None, Some ''b'', Some ''n'', Some ''q'', Some ''r''} \<and>
        cj_move lib p \<lparr>mi_from = mi_from m, mi_promotion = mv_promotion mv, mi_to = mi_to m\<rparr> =
          Some (p', mv))"

section \<open>The contract of the port\<close>

text \<open>
  What the game repositories use of an engine: plies are counted from the
  history, the move was made in the expected position, and a finished game has
  a winner exactly if it is a checkmate.
\<close>

locale chess_engine =
  fixes evaluate :: "EvaluateMoveInput \<Rightarrow> ChessEngineError + MoveEvaluation"
  assumes ply: "evaluate i = Inr e \<Longrightarrow> am_plyNumber (me_applied e) = int (length (ev_history i)) + 1"
    and fen_before: "evaluate i = Inr e \<Longrightarrow> am_fenBefore (me_applied e) = ev_expectedCurrentFen i"
    and winner: "evaluate i = Inr e \<Longrightarrow> me_gameOver e = over r w \<Longrightarrow> (w \<noteq> None) = (r = checkmate)"
begin

lemma board_outcome:
  assumes "evaluate i = Inr e" and "me_gameOver e = over r w"
  obtains out where "deriveTerminalOutcome (BOARD r w) = Inr out" and "outcome_ok out"
    and "to_status out = COMPLETED" and "to_termination out = Board r"
proof (cases "r = checkmate")
  case True
  with winner [OF assms] obtain c where "w = Some c" by auto
  with True show ?thesis
    using that [of "winnerOutcome c COMPLETED (Board r)"]
    by (simp add: deriveBoardOutcome_def winnerOutcome_ok) (auto simp: winnerOutcome_def DRAW_TERMINATIONS_def)
next
  case False
  with winner [OF assms] have w: "w = None" by simp
  from False have "r \<in> set DRAW_TERMINATIONS" by (cases r) (simp_all add: DRAW_TERMINATIONS_def)
  with False w show ?thesis
    using that [of "\<lparr>to_result = draw, to_status = COMPLETED, to_termination = Board r, to_winner = None\<rparr>"]
    by (simp add: deriveBoardOutcome_def draw_outcome_ok)
qed

lemma positive_ply: "evaluate i = Inr e \<Longrightarrow> 0 < am_plyNumber (me_applied e)"
  by (simp add: ply)

end

lemma evaluateMove_InrE:
  assumes "evaluateMove lib i = Inr e"
  obtains chess chess' applied where
    "replayHistory lib (ev_initialFen i) (ev_history i) = Inr chess"
    "cj_fen lib chess = ev_expectedCurrentFen i"
    "applyProposal lib chess (ev_move i) (int (length (ev_history i)) + 1) (cj_fen lib chess) = Inr (applied, chess')"
    "e = \<lparr>me_applied = applied, me_gameOver = getGameOver lib chess',
          me_pgn = getPgn lib chess' (getGameOver lib chess')\<rparr>"
  using assms by (auto simp: evaluateMove_def sbind_Inr_iff Let_def)

lemma applyProposal_InrE:
  assumes "applyProposal lib chess m n fen = Inr (applied, chess')"
  obtains mv where "cj_move lib chess m = Some (chess', mv)"
    and "SQUARE_PATTERN (mi_from m)" and "SQUARE_PATTERN (mi_to m)"
    and "am_fenAfter applied = cj_fen lib chess'" and "am_plyNumber applied = n"
    and "am_fenBefore applied = fen" and "am_color applied = mv_color mv"
    and "am_uci applied = mv_from mv @ mv_to mv @ (case mv_promotion mv of None \<Rightarrow> [] | Some p \<Rightarrow> p)"
  using assms by (auto simp: applyProposal_def split: if_splits option.splits)

interpretation chessjs_engine: chess_engine "evaluateMove lib" for lib
proof
  fix i e
  assume "evaluateMove lib i = Inr e"
  then show "am_plyNumber (me_applied e) = int (length (ev_history i)) + 1"
    and "am_fenBefore (me_applied e) = ev_expectedCurrentFen i"
    by (auto elim!: evaluateMove_InrE applyProposal_InrE)
next
  fix i e r w
  assume "evaluateMove lib i = Inr e" and "me_gameOver e = over r w"
  then show "(w \<noteq> None) = (r = checkmate)"
    by (auto elim!: evaluateMove_InrE simp: getGameOver_def split: if_splits)
qed

lemma SQUARE_PATTERN_length: "SQUARE_PATTERN s \<Longrightarrow> length s = 2"
  by (auto simp: SQUARE_PATTERN_def split: list.splits)

text \<open>The UCI text of a move of the library is well formed and gives the move back.\<close>

lemma uci_of_move:
  assumes ok: "chessjs_ok lib" and mv: "cj_move lib p m = Some (p', mv)"
    and "SQUARE_PATTERN (mi_from m)" and "SQUARE_PATTERN (mi_to m)"
  defines "uci \<equiv> mv_from mv @ mv_to mv @ (case mv_promotion mv of None \<Rightarrow> [] | Some q \<Rightarrow> q)"
  shows "UCI_PATTERN uci" and "cj_move lib p (uci_move uci) = Some (p', mv)"
proof -
  have len: "length (mi_from m) = 2" "length (mi_to m) = 2"
    using assms(3,4) by (simp_all add: SQUARE_PATTERN_length)
  from ok mv have src: "mv_from mv = mi_from m" and dst: "mv_to mv = mi_to m"
    and promo: "mv_promotion mv \<in> {None, Some ''b'', Some ''n'', Some ''q'', Some ''r''}"
    and redo: "cj_move lib p \<lparr>mi_from = mi_from m, mi_promotion = mv_promotion mv, mi_to = mi_to m\<rparr> = Some (p', mv)"
    unfolding chessjs_ok_def by blast+
  show "UCI_PATTERN uci"
    using promo assms(3,4) by (auto simp: UCI_PATTERN_def uci_def src dst len)
  have "uci_move uci = \<lparr>mi_from = mi_from m, mi_promotion = mv_promotion mv, mi_to = mi_to m\<rparr>"
    using promo by (auto simp: uci_move_def uci_def src dst len)
  with redo show "cj_move lib p (uci_move uci) = Some (p', mv)" by simp
qed

lemma replayMoves_append:
  "replayMoves lib n (xs @ ys) chess =
     sbind (replayMoves lib n xs chess) (replayMoves lib (n + length xs) ys)"
  by (induction lib n xs chess rule: replayMoves.induct) (auto split: option.splits)

lemma replayHistory_append:
  "replayHistory lib fen (xs @ ys) =
     sbind (replayHistory lib fen xs) (replayMoves lib (length xs) ys)"
  by (cases "createPosition lib fen") (simp_all add: replayHistory_def replayMoves_append)

lemma evaluateMove_replays:
  assumes ok: "chessjs_ok lib" and ev: "evaluateMove lib i = Inr e"
  obtains chess' where
    "replayHistory lib (ev_initialFen i) (ev_history i @ [am_uci (me_applied e)]) = Inr chess'"
    "cj_fen lib chess' = am_fenAfter (me_applied e)" "me_gameOver e = getGameOver lib chess'"
    "UCI_PATTERN (am_uci (me_applied e))"
proof -
  from ev obtain chess chess' applied where
    rep: "replayHistory lib (ev_initialFen i) (ev_history i) = Inr chess"
    and app: "applyProposal lib chess (ev_move i) (int (length (ev_history i)) + 1) (cj_fen lib chess) =
      Inr (applied, chess')"
    and e: "e = \<lparr>me_applied = applied, me_gameOver = getGameOver lib chess',
      me_pgn = getPgn lib chess' (getGameOver lib chess')\<rparr>"
    by (rule evaluateMove_InrE)
  from app obtain mv where mv: "cj_move lib chess (ev_move i) = Some (chess', mv)"
    and sq: "SQUARE_PATTERN (mi_from (ev_move i))" "SQUARE_PATTERN (mi_to (ev_move i))"
    and fen: "am_fenAfter applied = cj_fen lib chess'"
    and uci: "am_uci applied = mv_from mv @ mv_to mv @ (case mv_promotion mv of None \<Rightarrow> [] | Some p \<Rightarrow> p)"
    by (rule applyProposal_InrE)
  note redo = uci_of_move [OF ok mv sq, folded uci]
  have "replayHistory lib (ev_initialFen i) (ev_history i @ [am_uci applied]) = Inr chess'"
    using redo by (simp add: replayHistory_append rep)
  with redo(1) fen e show ?thesis using that by simp
qed

lemma evaluateMove_replayed:
  assumes "replayHistory lib init hist = Inr chess"
  shows "evaluateMove lib \<lparr>ev_expectedCurrentFen = cj_fen lib chess, ev_history = hist,
      ev_initialFen = init, ev_move = m\<rparr> = Inl err \<Longrightarrow> chess_code err = CHESS_ILLEGAL_MOVE"
  using assms
  by (auto simp: evaluateMove_def Let_def sbind_Inl_iff applyProposal_def IllegalMoveError_def
    split: if_splits option.splits)

text \<open>A library with a two-move game, for evaluating the adapter on concrete inputs.\<close>

definition sample_move :: "PlayerColor \<Rightarrow> MoveInput \<Rightarrow> lib_move" where
  "sample_move c m =
     \<lparr>mv_captures = False, mv_color = c, mv_enPassant = False, mv_from = mi_from m,
      mv_promotion = None, mv_san = mi_to m, mv_to = mi_to m\<rparr>"

definition sample_lib :: "string list chessjs" where
  "sample_lib =
     \<lparr>cj_DEFAULT_POSITION = ''start'',
      cj_validateFen = (\<lambda>f. (f = ''start'', None)),
      cj_new = (\<lambda>f. Some []),
      cj_move = (\<lambda>p m.
         if p = [] \<and> mi_from m = ''e2'' \<and> mi_to m = ''e4'' then Some ([''e2e4''], sample_move White m)
         else if p = [''e2e4''] \<and> mi_from m = ''e7'' \<and> mi_to m = ''e5''
           then Some ([''e2e4'', ''e7e5''], sample_move Black m)
         else None),
      cj_fen = (\<lambda>p. if concat p = [] then ''start'' else concat p),
      cj_turn = (\<lambda>p. if even (length p) then White else Black),
      cj_get = (\<lambda>p sq. Some ''p''),
      cj_isCheck = (\<lambda>p. False),
      cj_isCheckmate = (\<lambda>p. length p = 2),
      cj_isStalemate = (\<lambda>p. False),
      cj_isInsufficientMaterial = (\<lambda>p. False),
      cj_isThreefoldRepetition = (\<lambda>p. False),
      cj_isDrawByFiftyMoves = (\<lambda>p. False),
      cj_setHeader = (\<lambda>k v p. p),
      cj_pgn = concat\<rparr>"

lemma sample_lib_ok: "chessjs_ok sample_lib"
  by (auto simp: chessjs_ok_def sample_lib_def sample_move_def split: if_splits)

definition sample_eval :: "ChessEngineError + MoveEvaluation" where
  "sample_eval = evaluateMove sample_lib
     \<lparr>ev_expectedCurrentFen = ''start'', ev_history = [], ev_initialFen = ''start'',
      ev_move = \<lparr>mi_from = ''e2'', mi_promotion = None, mi_to = ''e4''\<rparr>\<rparr>"

definition sample_evaluation :: MoveEvaluation where
  "sample_evaluation =
     \<lparr>me_applied = \<lparr>am_capture = False, am_check = False, am_color = White, am_fenAfter = ''e2e4'',
        am_fenBefore = ''start'', am_plyNumber = 1, am_san = ''e4'', am_uci = ''e2e4''\<rparr>,
      me_gameOver = not_over, me_pgn = ''e2e4''\<rparr>"

lemma sample_eval: "sample_eval = Inr sample_evaluation"
  by (simp add: sample_eval_def sample_evaluation_def sample_lib_def sample_move_def evaluateMove_def
    replayHistory_def createPosition_def applyProposal_def SQUARE_PATTERN_def is_file_def is_rank_def
    getGameOver_def getPgn_def)

section \<open>Properties\<close>

text \<open>
  C38. An evaluated move can always be replayed from what is stored of it: the
  history extended by its UCI text replays to the position after the move, with
  the position text, the ply count and the verdict on the end of the game that
  the evaluation reported. A further move against that stored state is then
  evaluated or refused as illegal; the stored state is never reported corrupt.
\<close>

theorem evaluated_move_replays:
  assumes "chessjs_ok lib" and "evaluateMove lib i = Inr e"
  shows "(\<exists>pos. replay lib (ev_initialFen i) (ev_history i @ [am_uci (me_applied e)]) = Inr pos \<and>
      rp_fen pos = am_fenAfter (me_applied e) \<and> rp_gameOver pos = me_gameOver e \<and>
      rp_plyCount pos = am_plyNumber (me_applied e)) \<and>
    (\<forall>m err. evaluateMove lib \<lparr>ev_expectedCurrentFen = am_fenAfter (me_applied e),
        ev_history = ev_history i @ [am_uci (me_applied e)], ev_initialFen = ev_initialFen i, ev_move = m\<rparr> =
        Inl err \<longrightarrow> chess_code err = CHESS_ILLEGAL_MOVE)"
proof -
  from assms obtain chess' where
    rep: "replayHistory lib (ev_initialFen i) (ev_history i @ [am_uci (me_applied e)]) = Inr chess'"
    and fen: "cj_fen lib chess' = am_fenAfter (me_applied e)"
    and "over": "me_gameOver e = getGameOver lib chess'"
    by (rule evaluateMove_replays)
  have "am_plyNumber (me_applied e) = int (length (ev_history i)) + 1"
    using assms(2) by (rule chessjs_engine.ply)
  with rep fen "over" evaluateMove_replayed [OF rep] show ?thesis
    by (simp add: replay_def Let_def)
qed

theorem evaluated_move_replays_witness:
  "\<exists>pos. replay sample_lib ''start'' [''e2e4''] = Inr pos \<and> rp_fen pos = ''e2e4'' \<and> rp_plyCount pos = 1"
proof -
  note facts = evaluated_move_replays [OF sample_lib_ok sample_eval [unfolded sample_eval_def]]
  then show ?thesis by (auto simp: sample_evaluation_def)
qed

text \<open>
  How the adapter reports a failure: a move is refused as illegal only
  against a stored game that replays to the stored position; if the initial
  position is not a position, or the history does not replay to the stored
  position, the error says so whatever move is proposed.
\<close>

theorem evaluateMove_error_codes:
  "(case replayHistory lib (ev_initialFen i) (ev_history i) of
      Inl err \<Rightarrow> evaluateMove lib i = Inl err \<and>
        chess_code err = (case createPosition lib (ev_initialFen i) of
          Inl _ \<Rightarrow> INVALID_INITIAL_POSITION | Inr _ \<Rightarrow> CHESS_GAME_STATE_CORRUPT)
    | Inr chess \<Rightarrow>
        if cj_fen lib chess = ev_expectedCurrentFen i
        then (case evaluateMove lib i of
                Inl err \<Rightarrow> chess_code err = CHESS_ILLEGAL_MOVE
              | Inr e \<Rightarrow> cj_move lib chess (ev_move i) \<noteq> None)
        else \<exists>m. evaluateMove lib i = Inl (ChessEngineError CHESS_GAME_STATE_CORRUPT m))"
proof (cases "replayHistory lib (ev_initialFen i) (ev_history i)")
  case (Inl err)
  moreover have "chess_code e = CHESS_GAME_STATE_CORRUPT" if "replayMoves lib n h c = Inl e" for n h c e
    using that
    by (induction lib n h c rule: replayMoves.induct)
      (auto simp: GameStateCorruptError_def split: if_splits option.splits)
  moreover have "chess_code e = INVALID_INITIAL_POSITION" if "createPosition lib f = Inl e" for f e
    using that
    by (auto simp: createPosition_def InvalidInitialPositionError_def
      split: prod.splits bool.splits option.splits)
  ultimately show ?thesis
    by (auto simp: evaluateMove_def replayHistory_def sbind_Inl_iff split: sum.splits)
next
  case (Inr chess)
  then show ?thesis
    by (auto simp: evaluateMove_def Let_def GameStateCorruptError_def sbind_Inl_iff sbind_Inr_iff
        applyProposal_def IllegalMoveError_def split: sum.splits if_splits option.splits)
qed

end
