(* ===== verification/Database_Errors.thy ===== *)
theory Database_Errors
  imports Game_Types
begin

text \<open>
  What the code may throw, and the classification of errors at the database
  boundary, \<open>src/src/modules/persistence/database-errors.ts\<close>.

  A thrown value is a \<open>DatabaseError\<close>, one of the two Prisma error classes the
  source tests for, one of the program's own errors, any other object (with the
  properties \<open>code\<close>, \<open>message\<close> and \<open>cause\<close> where they are strings or present),
  or a value that is not an object.
\<close>

section \<open>Thrown values\<close>

datatype DatabaseErrorKind =
    kind_constraint | kind_retryable | kind_unavailable | kind_unique | kind_unknown

datatype thrown =
    DatabaseError (db_kind: DatabaseErrorKind) (db_retryable: bool) (db_cause: thrown)
  | PrismaClientKnownRequestError string string
  | PrismaClientInitializationError "string option" string
  | ServiceErr GameServiceError
  | DomainErr GameDomainError
  | ErrorObject "string option" "string option" "thrown option"
  | NotAnObject

primrec kind_text :: "DatabaseErrorKind \<Rightarrow> string" where
  "kind_text kind_constraint = ''constraint''"
| "kind_text kind_retryable = ''retryable''"
| "kind_text kind_unavailable = ''unavailable''"
| "kind_text kind_unique = ''unique''"
| "kind_text kind_unknown = ''unknown''"

primrec service_code_text :: "GameServiceErrorCode \<Rightarrow> string" where
  "service_code_text ALLOCATION_MISMATCH = ''ALLOCATION_MISMATCH''"
| "service_code_text CLOCK_EXPIRED = ''CLOCK_EXPIRED''"
| "service_code_text DEPENDENCY_UNAVAILABLE = ''DEPENDENCY_UNAVAILABLE''"
| "service_code_text GAME_ALREADY_ENDED = ''GAME_ALREADY_ENDED''"
| "service_code_text GAME_NOT_FOUND = ''GAME_NOT_FOUND''"
| "service_code_text GAME_STATE_CORRUPT = ''GAME_STATE_CORRUPT''"
| "service_code_text GAME_UNAVAILABLE = ''GAME_UNAVAILABLE''"
| "service_code_text GUEST_ALREADY_IN_GAME = ''GUEST_ALREADY_IN_GAME''"
| "service_code_text GUEST_NOT_ELIGIBLE = ''GUEST_NOT_ELIGIBLE''"
| "service_code_text IDEMPOTENCY_KEY_REUSED = ''IDEMPOTENCY_KEY_REUSED''"
| "service_code_text ILLEGAL_MOVE = ''ILLEGAL_MOVE''"
| "service_code_text NOT_A_PLAYER = ''NOT_A_PLAYER''"
| "service_code_text NOT_YOUR_TURN = ''NOT_YOUR_TURN''"
| "service_code_text STALE_GAME_VERSION = ''STALE_GAME_VERSION''"

primrec domain_code_text :: "GameDomainErrorCode \<Rightarrow> string" where
  "domain_code_text ILLEGAL_GAME_TRANSITION = ''ILLEGAL_GAME_TRANSITION''"
| "domain_code_text INVALID_CLOCK_STATE = ''INVALID_CLOCK_STATE''"
| "domain_code_text INVALID_GAME_STATE = ''INVALID_GAME_STATE''"
| "domain_code_text INVALID_TERMINAL_EVENT = ''INVALID_TERMINAL_EVENT''"

section \<open>Classification\<close>

definition RETRYABLE_CODES :: "string list" where
  "RETRYABLE_CODES = [''40001'', ''40P01'', ''55P03'', ''57014'', ''P2034'']"

definition UNIQUE_CODES :: "string list" where
  "UNIQUE_CODES = [''23505'', ''P2002'']"

definition CONSTRAINT_CODES :: "string list" where
  "CONSTRAINT_CODES = [''23502'', ''23503'', ''23514'', ''23P01'', ''P2003'', ''P2004'']"

definition UNAVAILABLE_CODES :: "string list" where
  "UNAVAILABLE_CODES =
     [''08000'', ''08001'', ''08003'', ''08004'', ''08006'', ''08007'', ''08P01'', ''57P01'', ''57P02'',
      ''57P03'', ''ECONNREFUSED'', ''ECONNRESET'', ''ENOTFOUND'', ''EPIPE'', ''ETIMEDOUT'', ''P1000'',
      ''P1001'', ''P1002'', ''P1008'', ''P1017'']"

fun readCode :: "thrown \<Rightarrow> string option" where
  "readCode (PrismaClientKnownRequestError code m) = Some code"
| "readCode (PrismaClientInitializationError errorCode m) = errorCode"
| "readCode NotAnObject = None"
| "readCode (ServiceErr e) = Some (service_code_text (se_code e))"
| "readCode (DomainErr e) = Some (domain_code_text (error_code e))"
| "readCode (DatabaseError k r cause) = readCode cause"
| "readCode (ErrorObject (Some code) m cause) = Some code"
| "readCode (ErrorObject None m (Some cause)) = readCode cause"
| "readCode (ErrorObject None m None) = None"

fun readMessage :: "thrown \<Rightarrow> string option" where
  "readMessage NotAnObject = None"
| "readMessage (PrismaClientKnownRequestError c m) = Some m"
| "readMessage (PrismaClientInitializationError c m) = Some m"
| "readMessage (ServiceErr e) = Some (se_message e)"
| "readMessage (DomainErr (GameDomainError c m)) = Some m"
| "readMessage (DatabaseError k r cause) = Some (''Database operation failed ('' @ kind_text k @ '')'')"
| "readMessage (ErrorObject c (Some m) cause) = Some m"
| "readMessage (ErrorObject c None (Some cause)) = readMessage cause"
| "readMessage (ErrorObject c None None) = None"

text \<open>The case-insensitive pattern that recognises timeouts by their message.\<close>

definition lower_char :: "char \<Rightarrow> char" where
  "lower_char c = (let n = of_char c :: nat in if 65 \<le> n \<and> n \<le> 90 then char_of (n + 32) else c)"

fun starts_with :: "string \<Rightarrow> string \<Rightarrow> bool" where
  "starts_with [] s = True"
| "starts_with (c # cs) [] = False"
| "starts_with (c # cs) (d # ds) = (c = d \<and> starts_with cs ds)"

fun text_contains :: "string \<Rightarrow> string \<Rightarrow> bool" where
  "text_contains needle [] = (needle = [])"
| "text_contains needle (c # cs) = (starts_with needle (c # cs) \<or> text_contains needle cs)"

fun contains_on_line :: "string \<Rightarrow> string list \<Rightarrow> string \<Rightarrow> bool" where
  "contains_on_line first nexts [] = False"
| "contains_on_line first nexts (c # cs) =
     (starts_with first (c # cs) \<and>
        list_ex (\<lambda>n. text_contains n
          (takeWhile (\<lambda>d. d \<noteq> CHR 0x0A \<and> d \<noteq> CHR 0x0D) (drop (length first) (c # cs)))) nexts \<or>
      contains_on_line first nexts cs)"

definition unavailable_message :: "string \<Rightarrow> bool" where
  "unavailable_message message \<longleftrightarrow>
     (let m = map lower_char message in
      text_contains ''query read timeout'' m \<or>
      text_contains ''connection terminated'' m \<or> text_contains ''connection closed unexpectedly'' m \<or>
      contains_on_line ''transaction'' [''expired'', ''timeout''] m \<or>
      text_contains ''time out'' m \<or> text_contains ''timed out'' m \<or>
      text_contains ''timeout for this transaction'' m)"

definition has_code :: "string list \<Rightarrow> string option \<Rightarrow> bool" where
  "has_code codes code \<longleftrightarrow> (case code of None \<Rightarrow> False | Some c \<Rightarrow> c \<in> set codes)"

definition is_initialization_error :: "thrown \<Rightarrow> bool" where
  "is_initialization_error e \<longleftrightarrow>
     (case e of PrismaClientInitializationError c m \<Rightarrow> True | _ \<Rightarrow> False)"

definition is_DatabaseError :: "thrown \<Rightarrow> bool" where
  "is_DatabaseError e \<longleftrightarrow> (case e of DatabaseError k r c \<Rightarrow> True | _ \<Rightarrow> False)"

definition toDatabaseError :: "thrown \<Rightarrow> thrown" where
  "toDatabaseError err =
     (if is_DatabaseError err then err
      else let code = readCode err in
        if has_code UNIQUE_CODES code then DatabaseError kind_unique False err
        else if has_code RETRYABLE_CODES code then DatabaseError kind_retryable True err
        else if has_code CONSTRAINT_CODES code then DatabaseError kind_constraint False err
        else if has_code UNAVAILABLE_CODES code \<or>
            unavailable_message (case readMessage err of None \<Rightarrow> [] | Some m \<Rightarrow> m) \<or>
            is_initialization_error err
          then DatabaseError kind_unavailable True err
        else DatabaseError kind_unknown False err)"

section \<open>Facts\<close>

text \<open>The four sets of codes are disjoint: the order of the tests does not matter for them.\<close>

lemma codes_disjoint:
  "set UNIQUE_CODES \<inter> set RETRYABLE_CODES = {}" "set UNIQUE_CODES \<inter> set CONSTRAINT_CODES = {}"
  "set UNIQUE_CODES \<inter> set UNAVAILABLE_CODES = {}" "set RETRYABLE_CODES \<inter> set CONSTRAINT_CODES = {}"
  "set RETRYABLE_CODES \<inter> set UNAVAILABLE_CODES = {}" "set CONSTRAINT_CODES \<inter> set UNAVAILABLE_CODES = {}"
  by (simp_all add: UNIQUE_CODES_def RETRYABLE_CODES_def CONSTRAINT_CODES_def UNAVAILABLE_CODES_def)

lemma is_DatabaseError_simps [simp]:
  "is_DatabaseError (DatabaseError k r c)"
  "\<not> is_DatabaseError (ServiceErr e)"
  "\<not> is_DatabaseError (DomainErr e')"
  "\<not> is_DatabaseError (PrismaClientKnownRequestError c' m)"
  "\<not> is_DatabaseError (ErrorObject c'' m' x)"
  by (simp_all add: is_DatabaseError_def)

lemma toDatabaseError_is [simp]: "is_DatabaseError (toDatabaseError e)"
  by (simp add: toDatabaseError_def Let_def)

lemma toDatabaseError_idem [simp]: "toDatabaseError (toDatabaseError e) = toDatabaseError e"
  using toDatabaseError_is [of e] by (simp add: toDatabaseError_def [of "toDatabaseError e"])

lemma toDatabaseError_not_service [simp]: "toDatabaseError e \<noteq> ServiceErr s"
  using toDatabaseError_is [of e] by (metis is_DatabaseError_simps(2))

section \<open>Properties\<close>

text \<open>
  The classification of a database failure: the code, wherever it stands in
  the chain of causes, decides between a unique violation, a retryable failure
  and another violated constraint; the retryable kinds are exactly those
  flagged retryable; the original error is kept as the cause; and wrapping an
  error that has no code of its own does not change its kind.
\<close>

theorem toDatabaseError_classifies:
  assumes "\<not> is_DatabaseError e"
  shows "(db_kind (toDatabaseError e) = kind_unique \<longleftrightarrow> has_code UNIQUE_CODES (readCode e)) \<and>
    (db_kind (toDatabaseError e) = kind_retryable \<longleftrightarrow> has_code RETRYABLE_CODES (readCode e)) \<and>
    (db_kind (toDatabaseError e) = kind_constraint \<longleftrightarrow> has_code CONSTRAINT_CODES (readCode e)) \<and>
    (db_retryable (toDatabaseError e) \<longleftrightarrow>
       db_kind (toDatabaseError e) \<in> {kind_retryable, kind_unavailable}) \<and>
    db_cause (toDatabaseError e) = e \<and>
    (\<not> is_initialization_error e \<longrightarrow>
       db_kind (toDatabaseError (ErrorObject None None (Some e))) = db_kind (toDatabaseError e))"
proof -
  have disj: "\<not> (has_code UNIQUE_CODES c \<and> has_code RETRYABLE_CODES c)"
    "\<not> (has_code UNIQUE_CODES c \<and> has_code CONSTRAINT_CODES c)"
    "\<not> (has_code RETRYABLE_CODES c \<and> has_code CONSTRAINT_CODES c)" for c
    using codes_disjoint by (auto simp: has_code_def split: option.splits)
  have outer: "\<not> is_initialization_error (ErrorObject None None (Some e))"
    by (simp add: is_initialization_error_def)
  show ?thesis
    using assms disj [of "readCode e"] outer by (auto simp: toDatabaseError_def Let_def)
qed

theorem toDatabaseError_classifies_witness:
  "db_kind (toDatabaseError (ErrorObject None None
     (Some (PrismaClientKnownRequestError ''P2002'' ''Unique constraint failed'')))) = kind_unique"
  using toDatabaseError_classifies [of "PrismaClientKnownRequestError ''P2002'' ''Unique constraint failed''"]
  by (simp add: has_code_def UNIQUE_CODES_def is_initialization_error_def)

end
