(* ===== verification/Json.thy ===== *)
theory Json
  imports Prelude
begin

text \<open>
  JSON values as a JSONB column stores them, and the parsers for strict objects
  that the stored-response schemas are built from. Numbers are integers: the
  program stores no others.
\<close>

datatype json =
    JNull | JBool bool | JNum int | JStr string | JArr "json list" | JObj "(string \<times> json) list"

definition is_object :: "json \<Rightarrow> bool" where
  "is_object j \<longleftrightarrow> (case j of JObj fs \<Rightarrow> True | _ \<Rightarrow> False)"

text \<open>
  \<open>z.object({...}).strict()\<close>: an object with exactly the listed keys, whose
  fields are then read one by one.
\<close>

definition has_exactly :: "string list \<Rightarrow> json \<Rightarrow> bool" where
  "has_exactly keys j \<longleftrightarrow>
     (case j of
        JObj fs \<Rightarrow> list_all (\<lambda>(k, _). k \<in> set keys) fs \<and> list_all (\<lambda>k. map_of fs k \<noteq> None) keys
      | _ \<Rightarrow> False)"

definition field :: "string \<Rightarrow> json \<Rightarrow> json" where
  "field k j =
     (case j of JObj fs \<Rightarrow> (case map_of fs k of Some v \<Rightarrow> v | None \<Rightarrow> JNull) | _ \<Rightarrow> JNull)"

text \<open>\<open>z.tuple([a, a])\<close>.\<close>

definition as_pair :: "(json \<Rightarrow> 'a option) \<Rightarrow> json \<Rightarrow> ('a \<times> 'a) option" where
  "as_pair p j =
     (case j of
        JArr [x, y] \<Rightarrow> Option.bind (p x) (\<lambda>a. Option.bind (p y) (\<lambda>b. Some (a, b)))
      | _ \<Rightarrow> None)"

text \<open>\<open>z.boolean()\<close>, \<open>z.string()\<close>, \<open>z.number().int()\<close> and \<open>.nullable()\<close>.\<close>

definition as_bool :: "json \<Rightarrow> bool option" where
  "as_bool j = (case j of JBool b \<Rightarrow> Some b | _ \<Rightarrow> None)"

definition as_string :: "(string \<Rightarrow> bool) \<Rightarrow> json \<Rightarrow> string option" where
  "as_string p j = (case j of JStr s \<Rightarrow> if p s then Some s else None | _ \<Rightarrow> None)"

definition as_int :: "(int \<Rightarrow> bool) \<Rightarrow> json \<Rightarrow> int option" where
  "as_int p j = (case j of JNum n \<Rightarrow> if isSafeInteger n \<and> p n then Some n else None | _ \<Rightarrow> None)"

definition as_nullable :: "(json \<Rightarrow> 'a option) \<Rightarrow> json \<Rightarrow> 'a option option" where
  "as_nullable p j = (case j of JNull \<Rightarrow> Some None | _ \<Rightarrow> map_option Some (p j))"

text \<open>\<open>z.enum([...])\<close>: the value whose text is stored.\<close>

definition as_enum :: "('a \<Rightarrow> string) \<Rightarrow> 'a list \<Rightarrow> json \<Rightarrow> 'a option" where
  "as_enum txt vals j = (case j of JStr s \<Rightarrow> List.find (\<lambda>v. txt v = s) vals | _ \<Rightarrow> None)"

definition nullable :: "('a \<Rightarrow> json) \<Rightarrow> 'a option \<Rightarrow> json" where
  "nullable enc x = (case x of None \<Rightarrow> JNull | Some v \<Rightarrow> enc v)"

lemma object_simps [simp]:
  "has_exactly keys (JObj fs) \<longleftrightarrow>
     list_all (\<lambda>(k, _). k \<in> set keys) fs \<and> list_all (\<lambda>k. map_of fs k \<noteq> None) keys"
  "field k (JObj fs) = (case map_of fs k of Some v \<Rightarrow> v | None \<Rightarrow> JNull)"
  "as_pair p (JArr [x, y]) = Option.bind (p x) (\<lambda>a. Option.bind (p y) (\<lambda>b. Some (a, b)))"
  by (simp_all add: has_exactly_def field_def as_pair_def)

lemma as_simps [simp]:
  "as_bool (JBool b) = Some b"
  "as_string p (JStr s) = (if p s then Some s else None)"
  "as_int q (JNum n) = (if isSafeInteger n \<and> q n then Some n else None)"
  "as_nullable r JNull = Some None"
  "as_nullable r (JObj fs) = map_option Some (r (JObj fs))"
  "as_nullable r (JStr s) = map_option Some (r (JStr s))"
  by (simp_all add: as_bool_def as_string_def as_int_def as_nullable_def)

lemma as_enum_JStr:
  assumes "v \<in> set vals" and "inj_on txt (set vals)"
  shows "as_enum txt vals (JStr (txt v)) = Some v"
  using assms by (induction vals) (auto simp: as_enum_def inj_on_def)

lemma is_object_JObj [simp]: "is_object (JObj fs)"
  by (simp add: is_object_def)

end
