(* ===== verification/Database.thy ===== *)
theory Database
  imports Database_Errors Json "HOL-Library.Char_ord" "HOL-Library.List_Lexorder"
begin

text \<open>
  The durable state and the transactions over it: the tables and constraints of
  \<open>src/prisma/migrations/20260724010000_phase_2_durable_persistence/migration.sql\<close>
  and \<open>src/src/modules/persistence/transaction.service.ts\<close>.

  A table is the list of its rows; columns that no code reads (creation times,
  surrogate keys of moves and commands) are left out. \<open>TEXT\<close> columns are
  strings, as in the schema, and are only narrowed to the enumerations where
  the source does so. A \<open>TIMESTAMPTZ(3)\<close> is its milliseconds since the epoch.

  A transaction body maps the database to a thrown value or to its result and
  the changed database. Every statement that writes checks the table's \<open>CHECK\<close>,
  unique and foreign key constraints on the rows it writes; the deferred
  allocation triggers are checked at commit. \<open>run\<close> commits or rolls back.

  Transactions of one game exclude each other by the row lock that each of them
  takes first, and so a transaction body is one step. Three things stay
  arbitrary: the clock reading of the transaction (\<open>te_observedAt\<close>), which
  PostgreSQL takes before it waits for the lock and which may therefore be
  older than what the body then finds in the row; what the statements before
  the lock saw (\<open>te_earlier\<close>); and failures: the loss of the connection before or
  after the commit took effect (\<open>te_fault\<close>), and of a read that follows outside
  the transaction (\<open>te_readFault\<close>).
\<close>

section \<open>Tables\<close>

record game_row =
  g_id :: string
  g_match_id :: string
  g_mode :: string
  g_status :: string
  g_initial_fen :: string
  g_current_fen :: string
  g_turn_color :: string
  g_pgn :: string
  g_version :: int
  g_result :: "string option"
  g_termination :: "string option"
  g_time_initial_ms :: int
  g_increment_ms :: int
  g_white_clock_ms :: int
  g_black_clock_ms :: int
  g_turn_started_at :: "int option"
  g_join_deadline_at :: "int option"
  g_reconnect_deadline_at :: "int option"
  g_started_at :: "int option"
  g_ended_at :: "int option"
  g_updated_at :: int

record player_row =
  p_id :: string
  p_game_id :: string
  p_guest_session_id :: string
  p_color :: string
  p_slot :: int
  p_joined_at :: "int option"
  p_connected_at :: "int option"
  p_disconnected_at :: "int option"
  p_reconnect_grace_ends_at :: "int option"

record assignment_row =
  a_guest_session_id :: string
  a_game_id :: string

record move_row =
  m_game_id :: string
  m_ply :: int
  m_client_move_id :: string
  m_guest_session_id :: string
  m_color :: string
  m_san :: string
  m_uci :: string
  m_fen_before :: string
  m_fen_after :: string
  m_server_received_at :: int

record command_row =
  c_game_id :: string
  c_guest_session_id :: string
  c_event_id :: string
  c_command_type :: string
  c_result_version :: int
  c_response :: json

record guest_row =
  gs_id :: string
  gs_display_name :: string
  gs_avatar_key :: string
  gs_current_jti :: "string option"
  gs_issued_at :: int
  gs_expires_at :: int
  gs_revoked_at :: "int option"

record db =
  games :: "game_row list"
  players :: "player_row list"
  assignments :: "assignment_row list"
  moves :: "move_row list"
  commands :: "command_row list"
  guests :: "guest_row list"

section \<open>Row constraints\<close>

definition terminal_text :: "string \<Rightarrow> bool" where
  "terminal_text s \<longleftrightarrow> s \<in> {''COMPLETED'', ''ABANDONED'', ''EXPIRED''}"

definition clock_text :: "string \<Rightarrow> bool" where
  "clock_text s \<longleftrightarrow> s \<in> {''IN_PROGRESS'', ''RECONNECTING''}"

definition games_status_check :: "game_row \<Rightarrow> bool" where
  "games_status_check g \<longleftrightarrow>
     g_status g \<in> {''CREATED'', ''WAITING_FOR_PLAYERS'', ''READY'', ''IN_PROGRESS'', ''RECONNECTING'',
       ''COMPLETED'', ''ABANDONED'', ''EXPIRED''}"

definition games_terminal_state_check :: "game_row \<Rightarrow> bool" where
  "games_terminal_state_check g \<longleftrightarrow>
     (if terminal_text (g_status g)
      then g_result g \<noteq> None \<and> g_termination g \<noteq> None \<and> g_ended_at g \<noteq> None
      else g_result g = None \<and> g_termination g = None \<and> g_ended_at g = None)"

definition games_turn_clock_state_check :: "game_row \<Rightarrow> bool" where
  "games_turn_clock_state_check g \<longleftrightarrow>
     (if clock_text (g_status g) then g_turn_started_at g \<noteq> None \<and> g_started_at g \<noteq> None
      else g_turn_started_at g = None)"

definition games_ended_after_started_check :: "game_row \<Rightarrow> bool" where
  "games_ended_after_started_check g \<longleftrightarrow>
     (case (g_ended_at g, g_started_at g) of (Some e, Some s) \<Rightarrow> s \<le> e | _ \<Rightarrow> True)"

definition games_result_check :: "game_row \<Rightarrow> bool" where
  "games_result_check g \<longleftrightarrow>
     g_result g \<in> {None, Some ''1-0'', Some ''0-1'', Some ''1/2-1/2'', Some ''*''} \<and>
     g_termination g \<in> {None, Some ''CHECKMATE'', Some ''RESIGNATION'', Some ''TIMEOUT'', Some ''STALEMATE'',
       Some ''INSUFFICIENT_MATERIAL'', Some ''THREEFOLD_REPETITION'', Some ''FIFTY_MOVE_RULE'',
       Some ''AGREEMENT'', Some ''ABANDONMENT'', Some ''JOIN_TIMEOUT'', Some ''SYSTEM''}"

definition games_number_check :: "game_row \<Rightarrow> bool" where
  "games_number_check g \<longleftrightarrow>
     0 \<le> g_version g \<and> 0 < g_time_initial_ms g \<and> 0 \<le> g_increment_ms g \<and>
     0 \<le> g_white_clock_ms g \<and> 0 \<le> g_black_clock_ms g"

definition game_check :: "game_row \<Rightarrow> bool" where
  "game_check g \<longleftrightarrow>
     g_mode g = ''BLITZ'' \<and> games_status_check g \<and> g_turn_color g \<in> {''w'', ''b''} \<and>
     games_number_check g \<and> games_result_check g \<and> games_terminal_state_check g \<and>
     games_turn_clock_state_check g \<and> games_ended_after_started_check g"

definition game_range :: "game_row \<Rightarrow> bool" where
  "game_range g \<longleftrightarrow>
     int4 (g_version g) \<and> int4 (g_time_initial_ms g) \<and> int4 (g_increment_ms g) \<and>
     int4 (g_white_clock_ms g) \<and> int4 (g_black_clock_ms g)"

definition player_check :: "player_row \<Rightarrow> bool" where
  "player_check p \<longleftrightarrow>
     p_color p \<in> {''w'', ''b''} \<and> p_slot p \<in> {0, 1} \<and>
     (case (p_disconnected_at p, p_reconnect_grace_ends_at p) of
        (None, None) \<Rightarrow> True | (Some d, Some e) \<Rightarrow> d \<le> e | _ \<Rightarrow> False)"

definition move_check :: "move_row \<Rightarrow> bool" where
  "move_check m \<longleftrightarrow> 0 < m_ply m \<and> m_color m \<in> {''w'', ''b''}"

definition command_check :: "command_row \<Rightarrow> bool" where
  "command_check c \<longleftrightarrow>
     c_command_type c \<in> {''JOIN'', ''MOVE'', ''RESIGN'', ''DRAW_OFFER'', ''DRAW_ACCEPT'', ''DRAW_DECLINE''} \<and>
     0 \<le> c_result_version c \<and> is_object (c_response c)"

section \<open>Lookups\<close>

definition find_game :: "db \<Rightarrow> string \<Rightarrow> game_row option" where
  "find_game db gid = find_row (\<lambda>g. g_id g = gid) (games db)"

definition find_guest :: "db \<Rightarrow> string \<Rightarrow> guest_row option" where
  "find_guest db gs = find_row (\<lambda>r. gs_id r = gs) (guests db)"

definition find_assignment :: "db \<Rightarrow> string \<Rightarrow> assignment_row option" where
  "find_assignment db guest = find_row (\<lambda>a. a_guest_session_id a = guest) (assignments db)"

definition find_command :: "db \<Rightarrow> string \<Rightarrow> string \<Rightarrow> command_row option" where
  "find_command db gid event = find_row (\<lambda>c. (c_game_id c, c_event_id c) = (gid, event)) (commands db)"

text \<open>The relations that an \<open>include\<close> loads, in their \<open>orderBy\<close> order.\<close>

definition players_of :: "db \<Rightarrow> string \<Rightarrow> player_row list" where
  "players_of db gid = sort_key p_slot (filter (\<lambda>p. p_game_id p = gid) (players db))"

definition moves_of :: "db \<Rightarrow> string \<Rightarrow> move_row list" where
  "moves_of db gid = sort_key m_ply (filter (\<lambda>m. m_game_id m = gid) (moves db))"

definition assignments_of :: "db \<Rightarrow> string \<Rightarrow> assignment_row list" where
  "assignments_of db gid = filter (\<lambda>a. a_game_id a = gid) (assignments db)"

section \<open>Statements\<close>

type_synonym 'a tx = "db \<Rightarrow> thrown + 'a \<times> db"

definition ret :: "'a \<Rightarrow> 'a tx" where
  "ret a = (\<lambda>db. Inr (a, db))"

definition throw :: "thrown \<Rightarrow> 'a tx" where
  "throw e = (\<lambda>db. Inl e)"

definition tbind :: "'a tx \<Rightarrow> ('a \<Rightarrow> 'b tx) \<Rightarrow> 'b tx" where
  "tbind m f = (\<lambda>db. sbind (m db) (\<lambda>(a, db'). f a db'))"

definition fetch :: "(db \<Rightarrow> 'a) \<Rightarrow> 'a tx" where
  "fetch f = (\<lambda>db. Inr (f db, db))"

text \<open>The value a pure function returns, or what it throws.\<close>

definition lift_sum :: "thrown + 'a \<Rightarrow> 'a tx" where
  "lift_sum x = (\<lambda>db. sbind x (\<lambda>a. Inr (a, db)))"

text \<open>Prisma's request errors for a violated constraint, a value out of range and a missing record.\<close>

definition check_violation :: thrown where
  "check_violation = PrismaClientKnownRequestError ''P2004'' ''A constraint failed on the database.''"

definition unique_violation :: thrown where
  "unique_violation = PrismaClientKnownRequestError ''P2002'' ''Unique constraint failed.''"

definition foreign_key_violation :: thrown where
  "foreign_key_violation = PrismaClientKnownRequestError ''P2003'' ''Foreign key constraint failed.''"

definition out_of_range :: thrown where
  "out_of_range = PrismaClientKnownRequestError ''P2020'' ''Value out of range for the type.''"

definition record_not_found :: thrown where
  "record_not_found = PrismaClientKnownRequestError ''P2025'' ''An operation failed because a required record was not found.''"

definition raw_query_failed :: thrown where
  "raw_query_failed = PrismaClientKnownRequestError ''P2010'' ''Raw query failed.''"

text \<open>\<open>game.updateMany\<close>; Prisma sets the \<open>@updatedAt\<close> column from its own clock.\<close>

definition update_games :: "int \<Rightarrow> (game_row \<Rightarrow> bool) \<Rightarrow> (game_row \<Rightarrow> game_row) \<Rightarrow> nat tx" where
  "update_games now w data = (\<lambda>db.
     let f = (\<lambda>g. (data g)\<lparr>g_updated_at := now\<rparr>);
         changed = map f (filter w (games db)) in
     if list_ex (\<lambda>g. \<not> game_range g) changed then Inl out_of_range
     else if list_ex (\<lambda>g. \<not> game_check g) changed then Inl check_violation
     else Inr (count_rows w (games db), db\<lparr>games := update_rows w f (games db)\<rparr>))"

definition insert_game :: "game_row \<Rightarrow> unit tx" where
  "insert_game g = (\<lambda>db.
     if \<not> game_range g then Inl out_of_range
     else if \<not> game_check g then Inl check_violation
     else if list_ex (\<lambda>r. g_id r = g_id g \<or> g_match_id r = g_match_id g) (games db) then Inl unique_violation
     else Inr ((), db\<lparr>games := games db @ [g]\<rparr>))"

definition update_players :: "(player_row \<Rightarrow> bool) \<Rightarrow> (player_row \<Rightarrow> player_row) \<Rightarrow> nat tx" where
  "update_players w f = (\<lambda>db.
     if list_ex (\<lambda>p. \<not> player_check p) (map f (filter w (players db))) then Inl check_violation
     else Inr (count_rows w (players db), db\<lparr>players := update_rows w f (players db)\<rparr>))"

text \<open>\<open>gamePlayer.update\<close> by primary key fails when there is no such row.\<close>

definition update_player :: "string \<Rightarrow> (player_row \<Rightarrow> player_row) \<Rightarrow> unit tx" where
  "update_player pid f =
     tbind (update_players (\<lambda>p. p_id p = pid) f) (\<lambda>n. if n = 0 then throw record_not_found else ret ())"

definition insert_player :: "player_row \<Rightarrow> unit tx" where
  "insert_player p = (\<lambda>db.
     if \<not> player_check p then Inl check_violation
     else if list_ex (\<lambda>r. p_id r = p_id p \<or>
         p_game_id r = p_game_id p \<and>
           (p_color r = p_color p \<or> p_guest_session_id r = p_guest_session_id p \<or> p_slot r = p_slot p)) (players db)
       then Inl unique_violation
     else if find_game db (p_game_id p) = None \<or> find_guest db (p_guest_session_id p) = None
       then Inl foreign_key_violation
     else Inr ((), db\<lparr>players := players db @ [p]\<rparr>))"

definition insert_assignment :: "assignment_row \<Rightarrow> unit tx" where
  "insert_assignment a = (\<lambda>db.
     if list_ex (\<lambda>r. a_guest_session_id r = a_guest_session_id a) (assignments db) then Inl unique_violation
     else if find_game db (a_game_id a) = None \<or> find_guest db (a_guest_session_id a) = None
       then Inl foreign_key_violation
     else Inr ((), db\<lparr>assignments := assignments db @ [a]\<rparr>))"

definition delete_assignments :: "(assignment_row \<Rightarrow> bool) \<Rightarrow> nat tx" where
  "delete_assignments w = (\<lambda>db.
     Inr (count_rows w (assignments db), db\<lparr>assignments := delete_rows w (assignments db)\<rparr>))"

definition insert_move :: "move_row \<Rightarrow> unit tx" where
  "insert_move m = (\<lambda>db.
     if \<not> int4 (m_ply m) then Inl out_of_range
     else if \<not> move_check m then Inl check_violation
     else if list_ex (\<lambda>r. m_game_id r = m_game_id m \<and>
         (m_client_move_id r = m_client_move_id m \<or> m_ply r = m_ply m)) (moves db) then Inl unique_violation
     else if find_game db (m_game_id m) = None \<or> find_guest db (m_guest_session_id m) = None
       then Inl foreign_key_violation
     else Inr ((), db\<lparr>moves := moves db @ [m]\<rparr>))"

definition insert_command :: "command_row \<Rightarrow> unit tx" where
  "insert_command c = (\<lambda>db.
     if \<not> int4 (c_result_version c) then Inl out_of_range
     else if \<not> command_check c then Inl check_violation
     else if list_ex (\<lambda>r. c_game_id r = c_game_id c \<and> c_event_id r = c_event_id c) (commands db)
       then Inl unique_violation
     else if find_game db (c_game_id c) = None \<or> find_guest db (c_guest_session_id c) = None
       then Inl foreign_key_violation
     else Inr ((), db\<lparr>commands := commands db @ [c]\<rparr>))"

section \<open>Transactions\<close>

text \<open>\<open>assert_game_allocation_invariants\<close>, which the deferred triggers call at commit.\<close>

definition allocation_ok :: "db \<Rightarrow> game_row \<Rightarrow> bool" where
  "allocation_ok db g \<longleftrightarrow>
     length (filter (\<lambda>p. p_game_id p = g_id g) (players db)) = 2 \<and>
     (if terminal_text (g_status g) then assignments_of db (g_id g) = []
      else length (assignments_of db (g_id g)) = 2 \<and>
        list_all (\<lambda>a. list_ex (\<lambda>p. p_game_id p = g_id g \<and> p_guest_session_id p = a_guest_session_id a)
          (players db)) (assignments_of db (g_id g)))"

definition commit_ok :: "db \<Rightarrow> bool" where
  "commit_ok db \<longleftrightarrow> list_all (allocation_ok db) (games db)"

definition allocation_violation :: thrown where
  "allocation_violation = ErrorObject (Some ''23514'') (Some ''game allocation invariants'') None"

datatype fault = NoFault | LostBeforeCommit thrown | LostAfterCommit thrown

record tx_env =
  te_observedAt :: int
  te_appNow :: int
  te_fault :: fault
  te_earlier :: db
  te_readFault :: "thrown option"
  te_newId1 :: string
  te_newId2 :: string

text \<open>
  \<open>TransactionService.run\<close>: the body's own exception or a lost connection roll
  back; every exception leaves as a \<open>DatabaseError\<close>. A connection lost while
  the commit is acknowledged throws although the commit took effect.
\<close>

definition run :: "fault \<Rightarrow> 'a tx \<Rightarrow> db \<Rightarrow> (thrown + 'a) \<times> db" where
  "run fault work db =
     (case fault of
        LostBeforeCommit e \<Rightarrow> (Inl (toDatabaseError e), db)
      | _ \<Rightarrow>
        (case work db of
           Inl e \<Rightarrow> (Inl (toDatabaseError e), db)
         | Inr (a, db') \<Rightarrow>
             if \<not> commit_ok db' then (Inl (toDatabaseError allocation_violation), db)
             else case fault of
                 LostAfterCommit e \<Rightarrow> (Inl (toDatabaseError e), db')
               | _ \<Rightarrow> (Inr a, db')))"

record LockedGameClock =
  lk_blackClockMs :: int
  lk_observedAt :: int
  lk_status :: string
  lk_turnColor :: string
  lk_turnStartedAt :: "int option"
  lk_version :: int
  lk_whiteClockMs :: int

text \<open>
  The clock expression of \<open>lockGameClock\<close>:
  \<open>greatest(0, clock - floor(elapsed * 1000)::INTEGER)\<close>, with the cast and the
  subtraction in \<open>INTEGER\<close>.
\<close>

definition remaining_sql :: "int \<Rightarrow> int \<Rightarrow> int \<Rightarrow> thrown + int" where
  "remaining_sql clock observedAt started =
     (let elapsed = observedAt - started in
      if \<not> int4 elapsed \<or> \<not> int4 (clock - elapsed) then Inl raw_query_failed
      else Inr (max 0 (clock - elapsed)))"

definition clock_sql :: "game_row \<Rightarrow> string \<Rightarrow> int \<Rightarrow> int \<Rightarrow> thrown + int" where
  "clock_sql g color clock observedAt =
     (case g_turn_started_at g of
        Some started \<Rightarrow>
          if clock_text (g_status g) \<and> g_turn_color g = color then remaining_sql clock observedAt started
          else Inr clock
      | None \<Rightarrow> Inr clock)"

definition lockGameClock :: "tx_env \<Rightarrow> string \<Rightarrow> LockedGameClock option tx" where
  "lockGameClock env gameId = (\<lambda>db.
     case find_game db gameId of
       None \<Rightarrow> Inr (None, db)
     | Some g \<Rightarrow>
         sbind (clock_sql g ''w'' (g_white_clock_ms g) (te_observedAt env)) (\<lambda>white.
         sbind (clock_sql g ''b'' (g_black_clock_ms g) (te_observedAt env)) (\<lambda>black.
         Inr (Some \<lparr>lk_blackClockMs = black, lk_observedAt = te_observedAt env, lk_status = g_status g,
                    lk_turnColor = g_turn_color g, lk_turnStartedAt = g_turn_started_at g,
                    lk_version = g_version g, lk_whiteClockMs = white\<rparr>, db))))"

text \<open>
  \<open>lockGuestSessions\<close> takes the row locks of the guests; the model returns them
  in the order in which they are taken.
\<close>

definition lockGuestSessions :: "string list \<Rightarrow> string list tx" where
  "lockGuestSessions guestSessionIds =
     (let sortedIds = sort (remdups guestSessionIds) in
      if sortedIds = [] then ret []
      else fetch (\<lambda>db. sort (filter (\<lambda>gs. gs \<in> set sortedIds) (map gs_id (guests db)))))"

definition updateGameAtVersion ::
    "tx_env \<Rightarrow> string \<Rightarrow> int \<Rightarrow> (game_row \<Rightarrow> game_row) \<Rightarrow> int option tx" where
  "updateGameAtVersion env gameId expectedVersion data =
     tbind (update_games (te_appNow env) (\<lambda>g. g_id g = gameId \<and> g_version g = expectedVersion)
       (\<lambda>g. (data g)\<lparr>g_version := g_version g + 1\<rparr>))
       (\<lambda>count. ret (if count = 1 then Some (expectedVersion + 1) else None))"

end
