(* ===== verification/Stored_Responses.thy ===== *)
theory Stored_Responses
  imports Chess_Engine Database
begin

text \<open>
  What the repositories return for a command and store for its replay: the
  submission types of \<open>application/ports/gameplay.repository.ts\<close> and
  \<open>game-lifecycle.repository.ts\<close>, the JSON that is written into
  \<open>game_commands.response\<close>, and the zod schemas that read it back (top of
  \<open>infrastructure/prisma-gameplay.repository.ts\<close> and
  \<open>prisma-game-lifecycle.repository.ts\<close>).

  \<open>z.uuidv4()\<close> is the parameter \<open>uuidv4\<close>, the predicate it tests.
\<close>

section \<open>Submissions\<close>

record GameplayClock =
  gc_blackMs :: int
  gc_observedAt :: int
  gc_running :: "PlayerColor option"
  gc_whiteMs :: int

record AcceptedMove =
  ac_check :: bool
  ac_clientMoveId :: string
  ac_clocks :: GameplayClock
  ac_fenAfter :: string
  ac_gameId :: string
  ac_gameVersion :: int
  ac_ply :: int
  ac_san :: string
  ac_turn :: PlayerColor
  ac_uci :: string

record StartedGame =
  sg_clocks :: GameplayClock
  sg_gameId :: string
  sg_gameVersion :: int
  sg_initialFen :: string

record EndedGame =
  eg_clocks :: GameplayClock
  eg_finalFen :: string
  eg_gameId :: string
  eg_gameVersion :: int
  eg_pgn :: string
  eg_result :: GameResult
  eg_termination :: GameTermination

record MoveSubmission =
  ms_accepted :: AcceptedMove
  ms_duplicate :: bool
  ms_ended :: "EndedGame option"
  ms_guestSessionIds :: "string \<times> string"
  ms_started :: "StartedGame option"

record TerminalSubmission =
  ts_duplicate :: bool
  ts_ended :: EndedGame
  ts_guestSessionIds :: "string \<times> string"

section \<open>Text of the enumerations in JSON\<close>

primrec result_text :: "GameResult \<Rightarrow> string" where
  "result_text black_win = ''black_win''"
| "result_text draw = ''draw''"
| "result_text void = ''void''"
| "result_text white_win = ''white_win''"

primrec board_termination_text :: "BoardTermination \<Rightarrow> string" where
  "board_termination_text checkmate = ''checkmate''"
| "board_termination_text fifty_move = ''fifty_move''"
| "board_termination_text insufficient_material = ''insufficient_material''"
| "board_termination_text stalemate = ''stalemate''"
| "board_termination_text threefold_repetition = ''threefold_repetition''"

primrec termination_text :: "GameTermination \<Rightarrow> string" where
  "termination_text abandonment = ''abandonment''"
| "termination_text (Board t) = board_termination_text t"
| "termination_text double_abandon = ''double_abandon''"
| "termination_text no_show = ''no_show''"
| "termination_text resignation = ''resignation''"
| "termination_text timeout = ''timeout''"

section \<open>Schemas\<close>

definition colorSchema :: "json \<Rightarrow> PlayerColor option" where
  "colorSchema = as_enum color_text [Black, White]"

definition resultSchema :: "json \<Rightarrow> GameResult option" where
  "resultSchema = as_enum result_text [black_win, draw, void, white_win]"

definition terminationSchema :: "json \<Rightarrow> GameTermination option" where
  "terminationSchema =
     as_enum termination_text
       [abandonment, Board checkmate, double_abandon, Board fifty_move, Board insufficient_material,
        no_show, resignation, Board stalemate, Board threefold_repetition, timeout]"

definition nonnegative :: "int \<Rightarrow> bool" where
  "nonnegative n \<longleftrightarrow> 0 \<le> n"

definition positive :: "int \<Rightarrow> bool" where
  "positive n \<longleftrightarrow> 0 < n"

definition nonempty :: "string \<Rightarrow> bool" where
  "nonempty s \<longleftrightarrow> 1 \<le> length s"

definition gameplayClockSchema :: "json \<Rightarrow> GameplayClock option" where
  "gameplayClockSchema j =
     (if \<not> has_exactly [''blackMs'', ''observedAt'', ''running'', ''whiteMs''] j then None else
      Option.bind (as_int nonnegative (field ''blackMs'' j)) (\<lambda>black.
      Option.bind (as_int nonnegative (field ''observedAt'' j)) (\<lambda>observedAt.
      Option.bind (as_nullable colorSchema (field ''running'' j)) (\<lambda>running.
      Option.bind (as_int nonnegative (field ''whiteMs'' j)) (\<lambda>white.
      Some \<lparr>gc_blackMs = black, gc_observedAt = observedAt, gc_running = running, gc_whiteMs = white\<rparr>)))))"

definition acceptedMoveSchema :: "(string \<Rightarrow> bool) \<Rightarrow> json \<Rightarrow> AcceptedMove option" where
  "acceptedMoveSchema uuidv4 j =
     (if \<not> has_exactly [''check'', ''clientMoveId'', ''clocks'', ''fenAfter'', ''gameId'', ''gameVersion'',
           ''ply'', ''san'', ''turn'', ''uci''] j then None else
      Option.bind (as_bool (field ''check'' j)) (\<lambda>check.
      Option.bind (as_string uuidv4 (field ''clientMoveId'' j)) (\<lambda>clientMoveId.
      Option.bind (gameplayClockSchema (field ''clocks'' j)) (\<lambda>clocks.
      Option.bind (as_string nonempty (field ''fenAfter'' j)) (\<lambda>fenAfter.
      Option.bind (as_string uuidv4 (field ''gameId'' j)) (\<lambda>gameId.
      Option.bind (as_int nonnegative (field ''gameVersion'' j)) (\<lambda>gameVersion.
      Option.bind (as_int positive (field ''ply'' j)) (\<lambda>ply.
      Option.bind (as_string nonempty (field ''san'' j)) (\<lambda>san.
      Option.bind (colorSchema (field ''turn'' j)) (\<lambda>turn.
      Option.bind (as_string UCI_PATTERN (field ''uci'' j)) (\<lambda>uci.
      Some \<lparr>ac_check = check, ac_clientMoveId = clientMoveId, ac_clocks = clocks, ac_fenAfter = fenAfter,
            ac_gameId = gameId, ac_gameVersion = gameVersion, ac_ply = ply, ac_san = san, ac_turn = turn,
            ac_uci = uci\<rparr>)))))))))))"

definition startedGameSchema :: "(string \<Rightarrow> bool) \<Rightarrow> json \<Rightarrow> StartedGame option" where
  "startedGameSchema uuidv4 j =
     (if \<not> has_exactly [''clocks'', ''gameId'', ''gameVersion'', ''initialFen''] j then None else
      Option.bind (gameplayClockSchema (field ''clocks'' j)) (\<lambda>clocks.
      Option.bind (as_string uuidv4 (field ''gameId'' j)) (\<lambda>gameId.
      Option.bind (as_int nonnegative (field ''gameVersion'' j)) (\<lambda>gameVersion.
      Option.bind (as_string nonempty (field ''initialFen'' j)) (\<lambda>initialFen.
      Some \<lparr>sg_clocks = clocks, sg_gameId = gameId, sg_gameVersion = gameVersion,
            sg_initialFen = initialFen\<rparr>)))))"

text \<open>
  \<open>endedGameSchema\<close> of the gameplay repository and \<open>endedSchema\<close> of the
  lifecycle repository differ in the clock schema only.
\<close>

definition endedGameSchemaWith ::
    "(json \<Rightarrow> GameplayClock option) \<Rightarrow> (string \<Rightarrow> bool) \<Rightarrow> json \<Rightarrow> EndedGame option" where
  "endedGameSchemaWith clockSchema uuidv4 j =
     (if \<not> has_exactly [''clocks'', ''finalFen'', ''gameId'', ''gameVersion'', ''pgn'', ''result'',
           ''termination''] j then None else
      Option.bind (clockSchema (field ''clocks'' j)) (\<lambda>clocks.
      Option.bind (as_string nonempty (field ''finalFen'' j)) (\<lambda>finalFen.
      Option.bind (as_string uuidv4 (field ''gameId'' j)) (\<lambda>gameId.
      Option.bind (as_int nonnegative (field ''gameVersion'' j)) (\<lambda>gameVersion.
      Option.bind (as_string (\<lambda>_. True) (field ''pgn'' j)) (\<lambda>pgn.
      Option.bind (resultSchema (field ''result'' j)) (\<lambda>result.
      Option.bind (terminationSchema (field ''termination'' j)) (\<lambda>termination.
      Some \<lparr>eg_clocks = clocks, eg_finalFen = finalFen, eg_gameId = gameId, eg_gameVersion = gameVersion,
            eg_pgn = pgn, eg_result = result, eg_termination = termination\<rparr>))))))))"

definition endedGameSchema :: "(string \<Rightarrow> bool) \<Rightarrow> json \<Rightarrow> EndedGame option" where
  "endedGameSchema = endedGameSchemaWith gameplayClockSchema"

text \<open>The parsed data of \<open>persistedSubmissionSchema\<close>: a submission without its \<open>duplicate\<close> flag.\<close>

definition persistedSubmissionSchema ::
    "(string \<Rightarrow> bool) \<Rightarrow> json \<Rightarrow>
     (AcceptedMove \<times> EndedGame option \<times> (string \<times> string) \<times> StartedGame option) option" where
  "persistedSubmissionSchema uuidv4 j =
     (if \<not> has_exactly [''accepted'', ''ended'', ''guestSessionIds'', ''started''] j then None else
      Option.bind (acceptedMoveSchema uuidv4 (field ''accepted'' j)) (\<lambda>accepted.
      Option.bind (as_nullable (endedGameSchema uuidv4) (field ''ended'' j)) (\<lambda>ended.
      Option.bind (as_pair (as_string uuidv4) (field ''guestSessionIds'' j)) (\<lambda>guestSessionIds.
      Option.bind (as_nullable (startedGameSchema uuidv4) (field ''started'' j)) (\<lambda>started.
      Some (accepted, ended, guestSessionIds, started))))))"

text \<open>The schemas of the lifecycle repository. Its clock must not be running.\<close>

definition clockSchema :: "json \<Rightarrow> GameplayClock option" where
  "clockSchema j =
     (if \<not> has_exactly [''blackMs'', ''observedAt'', ''running'', ''whiteMs''] j then None else
      Option.bind (as_int nonnegative (field ''blackMs'' j)) (\<lambda>black.
      Option.bind (as_int nonnegative (field ''observedAt'' j)) (\<lambda>observedAt.
      if field ''running'' j \<noteq> JNull then None else
      Option.bind (as_int nonnegative (field ''whiteMs'' j)) (\<lambda>white.
      Some \<lparr>gc_blackMs = black, gc_observedAt = observedAt, gc_running = None, gc_whiteMs = white\<rparr>))))"

definition endedSchema :: "(string \<Rightarrow> bool) \<Rightarrow> json \<Rightarrow> EndedGame option" where
  "endedSchema = endedGameSchemaWith clockSchema"

definition storedTerminalSchema ::
    "(string \<Rightarrow> bool) \<Rightarrow> json \<Rightarrow> (EndedGame \<times> (string \<times> string)) option" where
  "storedTerminalSchema uuidv4 j =
     (if \<not> has_exactly [''ended'', ''guestSessionIds''] j then None else
      Option.bind (endedSchema uuidv4 (field ''ended'' j)) (\<lambda>ended.
      Option.bind (as_pair (as_string uuidv4) (field ''guestSessionIds'' j)) (\<lambda>guestSessionIds.
      Some (ended, guestSessionIds))))"

section \<open>Stored values\<close>

definition clock_json :: "GameplayClock \<Rightarrow> json" where
  "clock_json c =
     JObj [(''blackMs'', JNum (gc_blackMs c)), (''observedAt'', JNum (gc_observedAt c)),
           (''running'', nullable (\<lambda>x. JStr (color_text x)) (gc_running c)), (''whiteMs'', JNum (gc_whiteMs c))]"

definition accepted_json :: "AcceptedMove \<Rightarrow> json" where
  "accepted_json a =
     JObj [(''check'', JBool (ac_check a)), (''clientMoveId'', JStr (ac_clientMoveId a)),
           (''clocks'', clock_json (ac_clocks a)), (''fenAfter'', JStr (ac_fenAfter a)),
           (''gameId'', JStr (ac_gameId a)), (''gameVersion'', JNum (ac_gameVersion a)),
           (''ply'', JNum (ac_ply a)), (''san'', JStr (ac_san a)), (''turn'', JStr (color_text (ac_turn a))),
           (''uci'', JStr (ac_uci a))]"

definition started_json :: "StartedGame \<Rightarrow> json" where
  "started_json s =
     JObj [(''clocks'', clock_json (sg_clocks s)), (''gameId'', JStr (sg_gameId s)),
           (''gameVersion'', JNum (sg_gameVersion s)), (''initialFen'', JStr (sg_initialFen s))]"

definition ended_json :: "EndedGame \<Rightarrow> json" where
  "ended_json e =
     JObj [(''clocks'', clock_json (eg_clocks e)), (''finalFen'', JStr (eg_finalFen e)),
           (''gameId'', JStr (eg_gameId e)), (''gameVersion'', JNum (eg_gameVersion e)),
           (''pgn'', JStr (eg_pgn e)), (''result'', JStr (result_text (eg_result e))),
           (''termination'', JStr (termination_text (eg_termination e)))]"

definition guests_json :: "string \<times> string \<Rightarrow> json" where
  "guests_json gs = JArr [JStr (fst gs), JStr (snd gs)]"

definition persistedSubmission :: "MoveSubmission \<Rightarrow> json" where
  "persistedSubmission submission =
     JObj [(''accepted'', accepted_json (ms_accepted submission)),
           (''ended'', nullable ended_json (ms_ended submission)),
           (''guestSessionIds'', guests_json (ms_guestSessionIds submission)),
           (''started'', nullable started_json (ms_started submission))]"

text \<open>The response object that \<open>resignInTransaction\<close> stores.\<close>

definition persistedTerminal :: "TerminalSubmission \<Rightarrow> json" where
  "persistedTerminal submission =
     JObj [(''ended'', ended_json (ts_ended submission)),
           (''guestSessionIds'', guests_json (ts_guestSessionIds submission))]"

section \<open>Reading back what was stored\<close>

definition storable_int :: "int \<Rightarrow> bool" where
  "storable_int n \<longleftrightarrow> 0 \<le> n \<and> isSafeInteger n"

definition storable_clock :: "GameplayClock \<Rightarrow> bool" where
  "storable_clock c \<longleftrightarrow>
     storable_int (gc_blackMs c) \<and> storable_int (gc_observedAt c) \<and> storable_int (gc_whiteMs c)"

definition storable_accepted :: "(string \<Rightarrow> bool) \<Rightarrow> AcceptedMove \<Rightarrow> bool" where
  "storable_accepted uuidv4 a \<longleftrightarrow>
     uuidv4 (ac_clientMoveId a) \<and> storable_clock (ac_clocks a) \<and> ac_fenAfter a \<noteq> [] \<and> uuidv4 (ac_gameId a) \<and>
     storable_int (ac_gameVersion a) \<and> storable_int (ac_ply a) \<and> ac_ply a \<noteq> 0 \<and> ac_san a \<noteq> [] \<and>
     UCI_PATTERN (ac_uci a)"

definition storable_started :: "(string \<Rightarrow> bool) \<Rightarrow> StartedGame \<Rightarrow> bool" where
  "storable_started uuidv4 s \<longleftrightarrow>
     storable_clock (sg_clocks s) \<and> uuidv4 (sg_gameId s) \<and> storable_int (sg_gameVersion s) \<and>
     sg_initialFen s \<noteq> []"

definition storable_ended :: "(string \<Rightarrow> bool) \<Rightarrow> EndedGame \<Rightarrow> bool" where
  "storable_ended uuidv4 e \<longleftrightarrow>
     storable_clock (eg_clocks e) \<and> eg_finalFen e \<noteq> [] \<and> uuidv4 (eg_gameId e) \<and> storable_int (eg_gameVersion e)"

definition storable_submission :: "(string \<Rightarrow> bool) \<Rightarrow> MoveSubmission \<Rightarrow> bool" where
  "storable_submission uuidv4 s \<longleftrightarrow>
     storable_accepted uuidv4 (ms_accepted s) \<and> pred_option (storable_ended uuidv4) (ms_ended s) \<and>
     uuidv4 (fst (ms_guestSessionIds s)) \<and> uuidv4 (snd (ms_guestSessionIds s)) \<and>
     pred_option (storable_started uuidv4) (ms_started s)"

definition storable_terminal :: "(string \<Rightarrow> bool) \<Rightarrow> TerminalSubmission \<Rightarrow> bool" where
  "storable_terminal uuidv4 s \<longleftrightarrow>
     storable_ended uuidv4 (ts_ended s) \<and> gc_running (eg_clocks (ts_ended s)) = None \<and>
     uuidv4 (fst (ts_guestSessionIds s)) \<and> uuidv4 (snd (ts_guestSessionIds s))"

lemmas number_defs = nonnegative_def positive_def nonempty_def storable_int_def

lemma colorSchema_text [simp]: "colorSchema (JStr (color_text c)) = Some c"
  by (cases c) (simp_all add: colorSchema_def as_enum_def)

lemma resultSchema_text [simp]: "resultSchema (JStr (result_text r)) = Some r"
  by (cases r) (simp_all add: resultSchema_def as_enum_def)

lemma terminationSchema_text [simp]: "terminationSchema (JStr (termination_text t)) = Some t"
proof (cases t)
  case (Board b)
  then show ?thesis by (cases b) (simp_all add: terminationSchema_def as_enum_def)
qed (simp_all add: terminationSchema_def as_enum_def)

lemma gameplayClockSchema_json [simp]:
  "gameplayClockSchema (clock_json c) = (if storable_clock c then Some c else None)"
  by (cases "gc_running c") 
    (auto simp: gameplayClockSchema_def clock_json_def storable_clock_def nullable_def number_defs)

lemma clockSchema_json [simp]:
  "clockSchema (clock_json c) = (if storable_clock c \<and> gc_running c = None then Some c else None)"
  by (cases "gc_running c") 
    (auto simp: clockSchema_def clock_json_def storable_clock_def nullable_def number_defs)

lemma acceptedMoveSchema_json [simp]:
  "acceptedMoveSchema uuidv4 (accepted_json a) = (if storable_accepted uuidv4 a then Some a else None)"
  by (auto simp: acceptedMoveSchema_def accepted_json_def storable_accepted_def number_defs Suc_le_eq)

lemma startedGameSchema_json [simp]:
  "startedGameSchema uuidv4 (started_json s) = (if storable_started uuidv4 s then Some s else None)"
  by (auto simp: startedGameSchema_def started_json_def storable_started_def number_defs Suc_le_eq)

lemma endedGameSchemaWith_json:
  "endedGameSchemaWith sch uuidv4 (ended_json e) =
     (case sch (clock_json (eg_clocks e)) of
        Some c \<Rightarrow> if eg_finalFen e \<noteq> [] \<and> uuidv4 (eg_gameId e) \<and> storable_int (eg_gameVersion e)
          then Some (e\<lparr>eg_clocks := c\<rparr>) else None
      | None \<Rightarrow> None)"
  by (auto simp: endedGameSchemaWith_def ended_json_def number_defs Suc_le_eq split: option.splits)

lemma endedGameSchema_json [simp]:
  "endedGameSchema uuidv4 (ended_json e) = (if storable_ended uuidv4 e then Some e else None)"
  by (simp add: endedGameSchema_def endedGameSchemaWith_json storable_ended_def)

lemma endedSchema_json [simp]:
  "endedSchema uuidv4 (ended_json e) =
     (if storable_ended uuidv4 e \<and> gc_running (eg_clocks e) = None then Some e else None)"
  by (simp add: endedSchema_def endedGameSchemaWith_json storable_ended_def)

lemma persistedSubmissionSchema_json:
  "persistedSubmissionSchema uuidv4 (persistedSubmission s) =
     (if storable_submission uuidv4 s
      then Some (ms_accepted s, ms_ended s, ms_guestSessionIds s, ms_started s) else None)"
proof -
  have ended: "as_nullable (endedGameSchema uuidv4) (nullable ended_json x) =
      (if pred_option (storable_ended uuidv4) x then Some x else None)" for x
  proof (cases x)
    case (Some a)
    have "as_nullable (endedGameSchema uuidv4) (ended_json a) = map_option Some (endedGameSchema uuidv4 (ended_json a))"
      by (simp add: ended_json_def)
    with Some show ?thesis by (simp add: nullable_def)
  qed (simp add: nullable_def)
  have started: "as_nullable (startedGameSchema uuidv4) (nullable started_json x) =
      (if pred_option (storable_started uuidv4) x then Some x else None)" for x
  proof (cases x)
    case (Some a)
    have "as_nullable (startedGameSchema uuidv4) (started_json a) = map_option Some (startedGameSchema uuidv4 (started_json a))"
      by (simp add: started_json_def)
    with Some show ?thesis by (simp add: nullable_def)
  qed (simp add: nullable_def)
  show ?thesis
    by (auto simp: persistedSubmissionSchema_def persistedSubmission_def guests_json_def
      storable_submission_def ended started)
qed

lemma storedTerminalSchema_json:
  "storedTerminalSchema uuidv4 (persistedTerminal s) =
     (if storable_terminal uuidv4 s then Some (ts_ended s, ts_guestSessionIds s) else None)"
  by (auto simp: storedTerminalSchema_def persistedTerminal_def guests_json_def storable_terminal_def)

lemma stored_response_is_object [simp]:
  "is_object (persistedSubmission s)" "is_object (persistedTerminal t)"
  by (simp_all add: persistedSubmission_def persistedTerminal_def)

section \<open>Properties\<close>

text \<open>
  C39. The acknowledgements stored for a move and for a resignation are read back
  as they were written: the schema accepts a stored response exactly if its
  identifiers are version 4 UUIDs, its texts are not empty, its numbers are
  non-negative safe integers and the move is UCI text (for a resignation, if
  its clock is also stopped), and it then returns the submission unchanged.
\<close>

theorem stored_response_roundtrip:
  "persistedSubmissionSchema uuidv4 (persistedSubmission s) =
     (if storable_submission uuidv4 s
      then Some (ms_accepted s, ms_ended s, ms_guestSessionIds s, ms_started s) else None) \<and>
   storedTerminalSchema uuidv4 (persistedTerminal t) =
     (if storable_terminal uuidv4 t then Some (ts_ended t, ts_guestSessionIds t) else None)"
  by (simp add: persistedSubmissionSchema_json storedTerminalSchema_json)

end
