(* ===== verification/Transactions.thy ===== *)
theory Transactions
  imports Database
begin

text \<open>
  The facts about statements and transactions that the repositories share: what
  a statement leaves of each lookup, the constraints as an invariant of the
  database, and the contract \<open>transaction\<close> of a transaction body.
\<close>

section \<open>The statement monad\<close>

lemma ret_Inr [simp]: "ret a db = Inr (a, db)"
  by (simp add: ret_def)

lemma throw_Inl [simp]: "throw e db = Inl e"
  by (simp add: throw_def)

lemma fetch_Inr [simp]: "fetch f db = Inr (f db, db)"
  by (simp add: fetch_def)

lemma tbind_Inr_iff:
  "tbind m f db = Inr r \<longleftrightarrow> (\<exists>a db'. m db = Inr (a, db') \<and> f a db' = Inr r)"
  by (cases "m db") (auto simp: tbind_def)

lemma tbind_simps [simp]:
  "tbind (ret a) f = f a"
  "tbind (throw e) f db = Inl e"
  "tbind (fetch g) f db = f (g db) db"
  by (simp_all add: tbind_def fun_eq_iff)

lemma tbind_lift_sum [simp]:
  "tbind (lift_sum (Inr a)) f = f a"
  "tbind (lift_sum (Inl e)) f = throw e"
  by (simp_all add: tbind_def lift_sum_def fun_eq_iff)

lemma tbind_run_Inr: "m db = Inr (a, db') \<Longrightarrow> tbind m f db = f a db'"
  by (simp add: tbind_def)

lemma tbind_run_Inl: "m db = Inl e \<Longrightarrow> tbind m f db = Inl e"
  by (simp add: tbind_def)

text \<open>A body that keeps a property of the database whenever it returns.\<close>

definition preserves :: "(db \<Rightarrow> bool) \<Rightarrow> 'a tx \<Rightarrow> bool" where
  "preserves P m \<longleftrightarrow> (\<forall>db a db'. P db \<longrightarrow> m db = Inr (a, db') \<longrightarrow> P db')"

named_theorems preserves_intro \<open>rules for bodies that keep a property\<close>

lemma preservesD: "preserves P m \<Longrightarrow> P db \<Longrightarrow> m db = Inr (a, db') \<Longrightarrow> P db'"
  by (auto simp: preserves_def)

lemma preserves_basic [preserves_intro]:
  "preserves P (ret a)" "preserves P (throw e)" "preserves P (fetch f)" "preserves P (lift_sum x)"
  by (auto simp: preserves_def lift_sum_def sbind_Inr_iff)

lemma preserves_tbind [preserves_intro]:
  "preserves P m \<Longrightarrow> (\<And>a. preserves P (f a)) \<Longrightarrow> preserves P (tbind m f)"
  unfolding preserves_def tbind_Inr_iff by blast

lemma preserves_if [preserves_intro]:
  "(b \<Longrightarrow> preserves P m) \<Longrightarrow> (\<not> b \<Longrightarrow> preserves P n) \<Longrightarrow> preserves P (if b then m else n)"
  by simp

lemma preserves_option [preserves_intro]:
  "(x = None \<Longrightarrow> preserves P m) \<Longrightarrow> (\<And>a. x = Some a \<Longrightarrow> preserves P (f a)) \<Longrightarrow>
     preserves P (case x of None \<Rightarrow> m | Some a \<Rightarrow> f a)"
  by (cases x) auto

lemma preserves_sum [preserves_intro]:
  "(\<And>e. x = Inl e \<Longrightarrow> preserves P (m e)) \<Longrightarrow> (\<And>a. x = Inr a \<Longrightarrow> preserves P (f a)) \<Longrightarrow>
     preserves P (case x of Inl e \<Rightarrow> m e | Inr a \<Rightarrow> f a)"
  by (cases x) auto

lemma preserves_prod [preserves_intro]:
  "(\<And>a b. x = (a, b) \<Longrightarrow> preserves P (f a b)) \<Longrightarrow> preserves P (case x of (a, b) \<Rightarrow> f a b)"
  by (cases x) auto

lemma preserves_date [preserves_intro]:
  "preserves P m \<Longrightarrow> (\<And>t. preserves P (f t)) \<Longrightarrow> preserves P (case d of InvalidDate \<Rightarrow> m | Date t \<Rightarrow> f t)"
  by (cases d) auto

lemma lockGameClock_preserves [preserves_intro]: "preserves P (lockGameClock env gid)"
  by (auto simp: preserves_def lockGameClock_def sbind_Inr_iff split: option.splits)

lemma lockGuestSessions_preserves [preserves_intro]: "preserves P (lockGuestSessions ids)"
  by (auto simp: preserves_def lockGuestSessions_def Let_def split: if_splits)

section \<open>The constraints as an invariant\<close>

definition game_ids :: "db \<Rightarrow> string set" where
  "game_ids db = g_id ` set (games db)"

definition guest_ids :: "db \<Rightarrow> string set" where
  "guest_ids db = gs_id ` set (guests db)"

definition games_ok :: "db \<Rightarrow> bool" where
  "games_ok db \<longleftrightarrow>
     (\<forall>g \<in> set (games db). game_range g \<and> game_check g) \<and>
     distinct (map g_id (games db)) \<and> distinct (map g_match_id (games db))"

definition players_ok :: "db \<Rightarrow> bool" where
  "players_ok db \<longleftrightarrow>
     (\<forall>p \<in> set (players db). player_check p \<and> p_game_id p \<in> game_ids db \<and> p_guest_session_id p \<in> guest_ids db) \<and>
     distinct (map p_id (players db)) \<and>
     distinct (map (\<lambda>p. (p_game_id p, p_color p)) (players db)) \<and>
     distinct (map (\<lambda>p. (p_game_id p, p_guest_session_id p)) (players db)) \<and>
     distinct (map (\<lambda>p. (p_game_id p, p_slot p)) (players db))"

definition assignments_ok :: "db \<Rightarrow> bool" where
  "assignments_ok db \<longleftrightarrow>
     (\<forall>a \<in> set (assignments db). a_game_id a \<in> game_ids db \<and> a_guest_session_id a \<in> guest_ids db) \<and>
     distinct (map a_guest_session_id (assignments db))"

definition moves_ok :: "db \<Rightarrow> bool" where
  "moves_ok db \<longleftrightarrow>
     (\<forall>m \<in> set (moves db). move_check m \<and> int4 (m_ply m) \<and>
        m_game_id m \<in> game_ids db \<and> m_guest_session_id m \<in> guest_ids db) \<and>
     distinct (map (\<lambda>m. (m_game_id m, m_client_move_id m)) (moves db)) \<and>
     distinct (map (\<lambda>m. (m_game_id m, m_ply m)) (moves db))"

definition commands_ok :: "db \<Rightarrow> bool" where
  "commands_ok db \<longleftrightarrow>
     (\<forall>c \<in> set (commands db). command_check c \<and> int4 (c_result_version c) \<and>
        c_game_id c \<in> game_ids db \<and> c_guest_session_id c \<in> guest_ids db) \<and>
     distinct (map (\<lambda>c. (c_game_id c, c_event_id c)) (commands db))"

definition tables_ok :: "db \<Rightarrow> bool" where
  "tables_ok db \<longleftrightarrow>
     games_ok db \<and> players_ok db \<and> assignments_ok db \<and> moves_ok db \<and> commands_ok db \<and>
     distinct (map gs_id (guests db))"

definition db_ok :: "db \<Rightarrow> bool" where
  "db_ok db \<longleftrightarrow> tables_ok db \<and> commit_ok db"

lemma find_game_None_iff: "find_game db gid = None \<longleftrightarrow> gid \<notin> game_ids db"
  by (auto simp: find_game_def find_row_None_iff game_ids_def)

lemma find_guest_None_iff: "find_guest db gs = None \<longleftrightarrow> gs \<notin> guest_ids db"
  by (auto simp: find_guest_def find_row_None_iff guest_ids_def)

text \<open>The data of an update leaves the keys of the row alone.\<close>

definition keeps_game_keys :: "(game_row \<Rightarrow> game_row) \<Rightarrow> bool" where
  "keeps_game_keys f \<longleftrightarrow> (\<forall>g. g_id (f g) = g_id g \<and> g_match_id (f g) = g_match_id g)"

definition keeps_player_keys :: "(player_row \<Rightarrow> player_row) \<Rightarrow> bool" where
  "keeps_player_keys f \<longleftrightarrow>
     (\<forall>p. p_id (f p) = p_id p \<and> p_game_id (f p) = p_game_id p \<and>
        p_guest_session_id (f p) = p_guest_session_id p \<and> p_color (f p) = p_color p \<and> p_slot (f p) = p_slot p)"

lemma keeps_game_keysD:
  assumes "keeps_game_keys f"
  shows "g_id (f g) = g_id g" "g_match_id (f g) = g_match_id g"
  using assms by (simp_all add: keeps_game_keys_def)

lemma keeps_player_keysD:
  assumes "keeps_player_keys f"
  shows "p_id (f p) = p_id p" "p_game_id (f p) = p_game_id p"
    "p_guest_session_id (f p) = p_guest_session_id p" "p_color (f p) = p_color p" "p_slot (f p) = p_slot p"
  using assms by (simp_all add: keeps_player_keys_def)

lemma game_ids_update_rows:
  "keeps_game_keys f \<Longrightarrow> game_ids (db\<lparr>games := update_rows w f (games db)\<rparr>) = game_ids db"
  using map_update_rows [of w g_id f "games db"]
  by (simp add: game_ids_def keeps_game_keys_def flip: set_map)

lemma game_ids_simps [simp]:
  "game_ids (db\<lparr>players := x\<rparr>) = game_ids db" "game_ids (db\<lparr>assignments := y\<rparr>) = game_ids db"
  "game_ids (db\<lparr>moves := z\<rparr>) = game_ids db" "game_ids (db\<lparr>commands := u\<rparr>) = game_ids db"
  "guest_ids (db\<lparr>players := x\<rparr>) = guest_ids db" "guest_ids (db\<lparr>assignments := y\<rparr>) = guest_ids db"
  "guest_ids (db\<lparr>moves := z\<rparr>) = guest_ids db" "guest_ids (db\<lparr>commands := u\<rparr>) = guest_ids db"
  "guest_ids (db\<lparr>games := v\<rparr>) = guest_ids db"
  "game_ids (db\<lparr>games := games db @ [g]\<rparr>) = insert (g_id g) (game_ids db)"
  by (auto simp: game_ids_def guest_ids_def)

lemma update_games_Inr_iff:
  "update_games now w data db = Inr (n, db') \<longleftrightarrow>
     (\<forall>g \<in> set (games db). w g \<longrightarrow>
        game_range ((data g)\<lparr>g_updated_at := now\<rparr>) \<and> game_check ((data g)\<lparr>g_updated_at := now\<rparr>)) \<and>
     n = count_rows w (games db) \<and>
     db' = db\<lparr>games := update_rows w (\<lambda>g. (data g)\<lparr>g_updated_at := now\<rparr>) (games db)\<rparr>"
  by (auto simp: update_games_def Let_def list_ex_iff split: if_splits)

lemma update_players_Inr_iff:
  "update_players w f db = Inr (n, db') \<longleftrightarrow>
     (\<forall>p \<in> set (players db). w p \<longrightarrow> player_check (f p)) \<and>
     n = count_rows w (players db) \<and> db' = db\<lparr>players := update_rows w f (players db)\<rparr>"
  by (auto simp: update_players_def list_ex_iff split: if_splits)

lemma games_ok_update_rows:
  assumes "keeps_game_keys f" and "games_ok db"
    and "\<forall>g \<in> set (games db). w g \<longrightarrow> game_range (f g) \<and> game_check (f g)"
  shows "games_ok (db\<lparr>games := update_rows w f (games db)\<rparr>)"
proof -
  have "map g_id (update_rows w f t) = map g_id t" "map g_match_id (update_rows w f t) = map g_match_id t" for t
    using assms(1) by (simp_all add: map_update_rows keeps_game_keysD)
  with assms show ?thesis by (auto simp: games_ok_def set_update_rows)
qed

lemma update_games_keeps_tables [preserves_intro]:
  assumes "keeps_game_keys data"
  shows "preserves tables_ok (update_games now w data)"
proof -
  let ?f = "\<lambda>g. (data g)\<lparr>g_updated_at := now\<rparr>"
  have f: "keeps_game_keys ?f" using assms by (simp add: keeps_game_keys_def)
  show ?thesis
    using game_ids_update_rows [OF f] games_ok_update_rows [OF f]
    by (auto simp: preserves_def update_games_Inr_iff tables_ok_def players_ok_def assignments_ok_def
      moves_ok_def commands_ok_def)
qed

lemma updateGameAtVersion_keeps_tables [preserves_intro]:
  "keeps_game_keys data \<Longrightarrow> preserves tables_ok (updateGameAtVersion env gid v data)"
  unfolding updateGameAtVersion_def by (intro preserves_intro) (simp add: keeps_game_keys_def)

lemma update_players_keeps_tables [preserves_intro]:
  assumes "keeps_player_keys f"
  shows "preserves tables_ok (update_players w f)"
proof -
  have keys: "map p_id (update_rows w f t) = map p_id t"
    "map (\<lambda>p. (p_game_id p, p_color p)) (update_rows w f t) = map (\<lambda>p. (p_game_id p, p_color p)) t"
    "map (\<lambda>p. (p_game_id p, p_guest_session_id p)) (update_rows w f t) =
       map (\<lambda>p. (p_game_id p, p_guest_session_id p)) t"
    "map (\<lambda>p. (p_game_id p, p_slot p)) (update_rows w f t) = map (\<lambda>p. (p_game_id p, p_slot p)) t" for t
    using assms by (simp_all add: map_update_rows keeps_player_keysD)
  have "players_ok (db\<lparr>players := update_rows w f (players db)\<rparr>)"
    if "players_ok db" "\<forall>p \<in> set (players db). w p \<longrightarrow> player_check (f p)" for db
    using that by (auto simp: players_ok_def keys set_update_rows keeps_player_keysD [OF assms])
  then show ?thesis
    by (auto simp: preserves_def update_players_Inr_iff tables_ok_def games_ok_def assignments_ok_def
      moves_ok_def commands_ok_def)
qed

lemma update_player_keeps_tables [preserves_intro]:
  "keeps_player_keys f \<Longrightarrow> preserves tables_ok (update_player pid f)"
  unfolding update_player_def by (intro preserves_intro)

lemma insert_game_keeps_tables [preserves_intro]: "preserves tables_ok (insert_game g)"
  by (auto simp: preserves_def insert_game_def list_ex_iff tables_ok_def games_ok_def players_ok_def
    assignments_ok_def moves_ok_def commands_ok_def split: if_splits)

lemma insert_player_keeps_tables [preserves_intro]: "preserves tables_ok (insert_player p)"
  by (auto simp: preserves_def insert_player_def list_ex_iff tables_ok_def games_ok_def players_ok_def
    assignments_ok_def moves_ok_def commands_ok_def find_game_None_iff find_guest_None_iff split: if_splits)

lemma insert_assignment_keeps_tables [preserves_intro]: "preserves tables_ok (insert_assignment a)"
  by (auto simp: preserves_def insert_assignment_def list_ex_iff tables_ok_def games_ok_def players_ok_def
    assignments_ok_def moves_ok_def commands_ok_def find_game_None_iff find_guest_None_iff split: if_splits)

lemma insert_move_keeps_tables [preserves_intro]: "preserves tables_ok (insert_move m)"
  by (auto simp: preserves_def insert_move_def list_ex_iff tables_ok_def games_ok_def players_ok_def
    assignments_ok_def moves_ok_def commands_ok_def find_game_None_iff find_guest_None_iff split: if_splits)

lemma insert_command_keeps_tables [preserves_intro]: "preserves tables_ok (insert_command c)"
  by (auto simp: preserves_def insert_command_def list_ex_iff tables_ok_def games_ok_def players_ok_def
    assignments_ok_def moves_ok_def commands_ok_def find_game_None_iff find_guest_None_iff split: if_splits)

lemma delete_assignments_keeps_tables [preserves_intro]: "preserves tables_ok (delete_assignments w)"
  by (auto simp: preserves_def delete_assignments_def tables_ok_def games_ok_def players_ok_def
    assignments_ok_def moves_ok_def commands_ok_def delete_rows_def distinct_map_filter)

section \<open>Running a transaction\<close>

lemma run_Inr_iff:
  "run fault work db = (Inr a, db') \<longleftrightarrow> fault = NoFault \<and> work db = Inr (a, db') \<and> commit_ok db'"
  by (cases fault) (auto simp: run_def split: sum.splits)

lemma run_Inl:
  assumes "run fault work db = (Inl e, db')"
  shows "is_DatabaseError e \<and>
    (db' = db \<or> (\<exists>e' a. fault = LostAfterCommit e' \<and> work db = Inr (a, db') \<and> commit_ok db'))"
  using assms by (cases fault) (auto simp: run_def split: sum.splits if_splits)

lemma run_changes:
  assumes "run fault work db = (r, db')" and "db' \<noteq> db"
  obtains a where "work db = Inr (a, db')" and "commit_ok db'"
proof (cases r)
  case (Inl e)
  with run_Inl [of fault work db e db'] assms show ?thesis using that by blast
next
  case (Inr a)
  with assms(1) show ?thesis using that by (simp add: run_Inr_iff)
qed

text \<open>
  The contract of a transaction body: it keeps the immediate constraints. A
  run of it then keeps the whole database consistent, whether it commits, fails
  or loses its connection, and it either has the whole effect of the body or
  none.
\<close>

locale transaction =
  fixes body :: "'i \<Rightarrow> 'a tx"
  assumes keeps_tables: "preserves tables_ok (body i)"
begin

lemma run_keeps:
  assumes "db_ok db"
  shows "db_ok (snd (run fault (body i) db))"
proof (cases "run fault (body i) db")
  case (Pair r db')
  show ?thesis
  proof (cases "db' = db")
    case False
    with Pair obtain a where "body i db = Inr (a, db')" "commit_ok db'"
      by (rule run_changes)
    with assms preservesD [OF keeps_tables] Pair show ?thesis by (auto simp: db_ok_def)
  qed (use assms Pair in simp)
qed

lemma run_atomic:
  "snd (run fault (body i) db) = db \<or> (\<exists>a. body i db = Inr (a, snd (run fault (body i) db)))"
  using run_changes [of fault "body i" db] by (metis prod.collapse)

end

section \<open>What statements leave of the lookups\<close>

lemma sort_key_map_key:
  "(\<And>x. k (f x) = k x) \<Longrightarrow> sort_key k (map f xs) = map f (sort_key k xs)"
proof (induction xs)
  case (Cons x xs)
  have "insort_key k (f x) (map f ys) = map f (insort_key k x ys)" for ys
    using Cons.prems by (induction ys) auto
  with Cons show ?case by simp
qed simp

lemma insort_key_mono_append:
  "k y < k x \<Longrightarrow> insort_key k y (ys @ [x]) = insort_key k y ys @ [x]"
  by (induction ys) auto

lemma sort_key_append_last:
  "(\<And>y. y \<in> set ys \<Longrightarrow> k y < k x) \<Longrightarrow> sort_key k (ys @ [x]) = sort_key k ys @ [x]"
  by (induction ys) (auto simp: insort_key_mono_append)

definition set_game :: "game_row \<Rightarrow> db \<Rightarrow> db" where
  "set_game g' db = db\<lparr>games := update_rows (\<lambda>r. g_id r = g_id g') (\<lambda>_. g') (games db)\<rparr>"

lemma find_game_set_game [simp]:
  "find_game (set_game g' db) x =
     (if x = g_id g' then map_option (\<lambda>_. g') (find_game db x) else find_game db x)"
proof -
  have "find_row (\<lambda>g. g_id g = x) (update_rows (\<lambda>r. g_id r = g_id g') (\<lambda>_. g') t) =
    (if x = g_id g' then map_option (\<lambda>_. g') (find_row (\<lambda>g. g_id g = x) t)
     else find_row (\<lambda>g. g_id g = x) t)" for t
    by (induction t) auto
  then show ?thesis by (simp add: find_game_def set_game_def)
qed

lemma set_game_simps [simp]:
  "players (set_game g' db) = players db" "moves (set_game g' db) = moves db"
  "assignments (set_game g' db) = assignments db" "commands (set_game g' db) = commands db"
  "guests (set_game g' db) = guests db"
  by (simp_all add: set_game_def)

lemma filter_unique_key:
  assumes "distinct (map k t)" and "find_row (\<lambda>r. k r = x) t = Some r"
  shows "filter (\<lambda>r. k r = x) t = [r]"
proof -
  have none: "filter (\<lambda>r. k r = x) u = []" if "x \<notin> k ` set u" for u
    using that by (induction u) auto
  show ?thesis
    using assms by (induction t) (auto simp: none split: if_splits)
qed

lemma find_gameD:
  assumes "find_game db gid = Some g"
  shows "g_id g = gid" "g \<in> set (games db)"
  using assms find_row_SomeD [of "\<lambda>g. g_id g = gid" "games db" g] by (simp_all add: find_game_def)

lemma games_ok_find:
  assumes "games_ok db" "find_game db gid = Some g"
  shows "game_check g" "game_range g"
  using assms find_gameD [OF assms(2)] by (auto simp: games_ok_def)

text \<open>The guarded update by identifier and version, for a row that has that version.\<close>

lemma update_game_at:
  assumes ok: "games_ok db" and g: "find_game db gid = Some g" and keys: "g_id (data g) = gid"
  shows "update_games now (\<lambda>r. g_id r = gid \<and> g_version r = g_version g) data db =
    (let g' = (data g)\<lparr>g_updated_at := now\<rparr> in
     if \<not> game_range g' then Inl out_of_range else if \<not> game_check g' then Inl check_violation
     else Inr (1, set_game g' db))"
proof -
  have dist: "distinct (map g_id (games db))" using ok by (simp add: games_ok_def)
  have one: "filter (\<lambda>r. g_id r = gid) (games db) = [g]"
    using g dist by (simp add: find_game_def filter_unique_key)
  have "filter (\<lambda>r. g_id r = gid \<and> g_version r = g_version g) (games db) =
    filter (\<lambda>r. g_version r = g_version g) (filter (\<lambda>r. g_id r = gid) (games db))"
    by (simp add: conj_commute)
  then have rows: "filter (\<lambda>r. g_id r = gid \<and> g_version r = g_version g) (games db) = [g]"
    by (simp add: one)
  have only: "r = g" if "r \<in> set (games db)" "g_id r = gid" for r
  proof -
    from that have "r \<in> set (filter (\<lambda>r. g_id r = gid) (games db))" by simp
    then show ?thesis by (simp add: one)
  qed
  have "update_rows (\<lambda>r. g_id r = gid \<and> g_version r = g_version g) f (games db) =
    update_rows (\<lambda>r. g_id r = gid) (\<lambda>_. f g) (games db)" for f
    unfolding update_rows_def using only by (intro map_cong) auto
  then show ?thesis
    by (simp add: update_games_def Let_def rows count_rows_def set_game_def keys)
qed

lemma players_of_simps [simp]:
  "players_of (db\<lparr>games := v\<rparr>) gid = players_of db gid"
  "players_of (set_game g' db) gid = players_of db gid"
  "players_of (db\<lparr>assignments := y\<rparr>) gid = players_of db gid"
  "players_of (db\<lparr>moves := z\<rparr>) gid = players_of db gid"
  "players_of (db\<lparr>commands := u\<rparr>) gid = players_of db gid"
  by (simp_all add: players_of_def)

lemma moves_of_simps [simp]:
  "moves_of (db\<lparr>games := v\<rparr>) gid = moves_of db gid"
  "moves_of (set_game g' db) gid = moves_of db gid"
  "moves_of (db\<lparr>assignments := y\<rparr>) gid = moves_of db gid"
  "moves_of (db\<lparr>players := z\<rparr>) gid = moves_of db gid"
  "moves_of (db\<lparr>commands := u\<rparr>) gid = moves_of db gid"
  by (simp_all add: moves_of_def)

lemma assignments_of_simps [simp]:
  "assignments_of (db\<lparr>games := v\<rparr>) gid = assignments_of db gid"
  "assignments_of (set_game g' db) gid = assignments_of db gid"
  "assignments_of (db\<lparr>moves := y\<rparr>) gid = assignments_of db gid"
  "assignments_of (db\<lparr>players := z\<rparr>) gid = assignments_of db gid"
  "assignments_of (db\<lparr>commands := u\<rparr>) gid = assignments_of db gid"
  by (simp_all add: assignments_of_def)

lemma find_game_simps [simp]:
  "find_game (db\<lparr>players := v\<rparr>) gid = find_game db gid"
  "find_game (db\<lparr>assignments := y\<rparr>) gid = find_game db gid"
  "find_game (db\<lparr>moves := z\<rparr>) gid = find_game db gid"
  "find_game (db\<lparr>commands := u\<rparr>) gid = find_game db gid"
  by (simp_all add: find_game_def)

lemma players_of_update:
  assumes "keeps_player_keys f" and "\<And>p. w (f p) = w p"
  shows "players_of (db\<lparr>players := update_rows w f (players db)\<rparr>) gid =
    map (\<lambda>p. if w p then f p else p) (players_of db gid)"
proof -
  have "filter (\<lambda>p. p_game_id p = gid) (update_rows w f t) =
      map (\<lambda>p. if w p then f p else p) (filter (\<lambda>p. p_game_id p = gid) t)" for t
    by (induction t) (auto simp: keeps_player_keysD [OF assms(1)])
  moreover have "sort_key p_slot (map (\<lambda>p. if w p then f p else p) xs) =
      map (\<lambda>p. if w p then f p else p) (sort_key p_slot xs)" for xs
    by (rule sort_key_map_key) (simp add: keeps_player_keysD [OF assms(1)])
  ultimately show ?thesis by (simp add: players_of_def)
qed

lemma set_players_of [simp]: "set (players_of db gid) = {p \<in> set (players db). p_game_id p = gid}"
  by (auto simp: players_of_def)

lemma set_moves_of [simp]: "set (moves_of db gid) = {m \<in> set (moves db). m_game_id m = gid}"
  by (auto simp: moves_of_def)

lemma length_players_of: "length (players_of db gid) = length (filter (\<lambda>p. p_game_id p = gid) (players db))"
  by (simp add: players_of_def)

lemma moves_of_append:
  assumes "\<And>m'. m' \<in> set (moves_of db gid) \<Longrightarrow> m_ply m' < m_ply m" and "m_game_id m = gid"
  shows "moves_of (db\<lparr>moves := moves db @ [m]\<rparr>) x = moves_of db x @ (if x = gid then [m] else [])"
proof -
  have "sort_key m_ply (filter (\<lambda>m. m_game_id m = gid) (moves db) @ [m]) =
    sort_key m_ply (filter (\<lambda>m. m_game_id m = gid) (moves db)) @ [m]"
    using assms by (intro sort_key_append_last) simp
  with assms(2) show ?thesis by (simp add: moves_of_def)
qed

lemma assignments_of_delete:
  "assignments_of (db\<lparr>assignments := delete_rows (\<lambda>a. a_game_id a = gid) (assignments db)\<rparr>) x =
     (if x = gid then [] else assignments_of db x)"
  by (auto simp: assignments_of_def delete_rows_def filter_empty_conv intro!: filter_cong)

end
