(* ===== verification/Gameplay_Repository.thy ===== *)
theory Gameplay_Repository
  imports Game_Clock Stored_Responses Transactions
begin

text \<open>
  Submitting a move,
  \<open>src/src/modules/game/infrastructure/prisma-gameplay.repository.ts\<close>. The
  transaction body \<open>submitInTransaction\<close> is split at its comments-free seams
  into the guards, the clock, the evaluation by the engine, the construction of
  the submission and the writes; \<open>submitMove\<close> runs it and maps its result.
\<close>

section \<open>Data\<close>

record SubmitMove =
  sm_clientMoveId :: string
  sm_expectedVersion :: int
  sm_gameId :: string
  sm_guestSessionId :: string
  sm_move :: MoveInput

text \<open>A game with its players and moves, as \<open>gameInclude\<close> loads them.\<close>

record PersistedGame =
  pg_game :: game_row
  pg_moves :: "move_row list"
  pg_players :: "player_row list"

record rejection =
  rj_authoritativeVersion :: "int option"
  rj_code :: GameServiceErrorCode
  rj_message :: string
  rj_retryable :: bool

datatype MoveTransactionResult =
    move_accepted MoveSubmission
  | move_refused rejection
  | stale_write int

text \<open>U+2019 in UTF-8.\<close>

definition apostrophe :: string where
  "apostrophe = [CHR 0xE2, CHR 0x80, CHR 0x99]"

section \<open>Private helpers\<close>

definition rejected :: "GameServiceErrorCode \<Rightarrow> string \<Rightarrow> bool \<Rightarrow> int option \<Rightarrow> rejection" where
  "rejected code message retryable authoritativeVersion =
     \<lparr>rj_authoritativeVersion = authoritativeVersion, rj_code = code, rj_message = message,
      rj_retryable = retryable\<rparr>"

definition moveError :: "GameServiceErrorCode \<Rightarrow> string \<Rightarrow> bool \<Rightarrow> int option \<Rightarrow> GameServiceError" where
  "moveError code message retryable authoritativeVersion =
     \<lparr>se_code = code, se_message = message, se_retryable = retryable,
      se_authoritativeVersion = authoritativeVersion, se_responseType = move_rejected\<rparr>"

definition isTerminalStatus :: "string \<Rightarrow> bool" where
  "isTerminalStatus status \<longleftrightarrow> status \<in> {''ABANDONED'', ''COMPLETED'', ''EXPIRED''}"

definition hasContiguousHistory :: "PersistedGame \<Rightarrow> bool" where
  "hasContiguousHistory game \<longleftrightarrow>
     list_all (\<lambda>(index, m). m_ply m = int index + 1) (enumerate 0 (pg_moves game))"

primrec persistedResult :: "GameResult \<Rightarrow> string" where
  "persistedResult white_win = ''1-0''"
| "persistedResult black_win = ''0-1''"
| "persistedResult draw = ''1/2-1/2''"
| "persistedResult void = ''*''"

fun persistedTermination :: "GameTermination \<Rightarrow> string" where
  "persistedTermination abandonment = ''ABANDONMENT''"
| "persistedTermination (Board checkmate) = ''CHECKMATE''"
| "persistedTermination double_abandon = ''SYSTEM''"
| "persistedTermination (Board fifty_move) = ''FIFTY_MOVE_RULE''"
| "persistedTermination (Board insufficient_material) = ''INSUFFICIENT_MATERIAL''"
| "persistedTermination no_show = ''JOIN_TIMEOUT''"
| "persistedTermination resignation = ''RESIGNATION''"
| "persistedTermination (Board stalemate) = ''STALEMATE''"
| "persistedTermination (Board threefold_repetition) = ''THREEFOLD_REPETITION''"
| "persistedTermination timeout = ''TIMEOUT''"

definition findPersistedGame :: "db \<Rightarrow> string \<Rightarrow> PersistedGame option" where
  "findPersistedGame db gameId =
     map_option (\<lambda>g. \<lparr>pg_game = g, pg_moves = moves_of db gameId, pg_players = players_of db gameId\<rparr>)
       (find_game db gameId)"

text \<open>The player of the guest, with the colour the type guard has established.\<close>

definition findMover :: "PersistedGame \<Rightarrow> string \<Rightarrow> (player_row \<times> PlayerColor) option" where
  "findMover game guestSessionId =
     (case List.find (\<lambda>c. p_guest_session_id c = guestSessionId \<and> as_color (p_color c) \<noteq> None)
         (pg_players game) of
        None \<Rightarrow> None
      | Some p \<Rightarrow> map_option (\<lambda>c. (p, c)) (as_color (p_color p)))"

definition replayResult ::
    "(string \<Rightarrow> bool) \<Rightarrow> command_row \<Rightarrow> SubmitMove \<Rightarrow> rejection + MoveSubmission" where
  "replayResult uuidv4 command input =
     (if c_command_type command \<noteq> ''MOVE'' \<or> c_guest_session_id command \<noteq> sm_guestSessionId input then
        Inl (rejected IDEMPOTENCY_KEY_REUSED
          ''The move identifier was already used for a different command.'' False None)
      else case persistedSubmissionSchema uuidv4 (c_response command) of
          None \<Rightarrow> Inl (rejected GAME_STATE_CORRUPT ''The stored move acknowledgement is invalid.'' False None)
        | Some (accepted, ended, guestSessionIds, started) \<Rightarrow>
            Inr \<lparr>ms_accepted = accepted, ms_duplicate = True, ms_ended = ended,
                 ms_guestSessionIds = guestSessionIds, ms_started = started\<rparr>)"

section \<open>The transaction\<close>

text \<open>The checks on the game that come before the clock; \<open>None\<close> if all of them pass.\<close>

definition moveGuards :: "PersistedGame \<Rightarrow> PlayerColor \<Rightarrow> SubmitMove \<Rightarrow> rejection option" where
  "moveGuards game color input =
     (let g = pg_game game; version = Some (g_version g) in
      if isTerminalStatus (g_status g) then
        Some (rejected GAME_ALREADY_ENDED ''The game has already ended.'' False version)
      else if g_status g \<noteq> ''IN_PROGRESS'' \<and> g_status g \<noteq> ''READY'' then
        Some (rejected GAME_UNAVAILABLE ''The game is not accepting moves.'' False version)
      else if as_color (g_turn_color g) \<noteq> Some color then
        Some (rejected NOT_YOUR_TURN (''It is not this player'' @ apostrophe @ ''s turn.'') False version)
      else if sm_expectedVersion input \<noteq> g_version g then
        Some (rejected STALE_GAME_VERSION ''The game version is stale.'' True version)
      else if \<not> hasContiguousHistory game then
        Some (rejected GAME_STATE_CORRUPT ''The persisted move history is not contiguous.'' False version)
      else None)"

definition baseClock :: "game_row \<Rightarrow> PlayerColor \<Rightarrow> GameClock" where
  "baseClock g color =
     \<lparr>blackMs = g_black_clock_ms g, incrementMs = g_increment_ms g,
      running = (if g_status g = ''READY'' then None else Some color),
      turnStartedAt = (if g_status g = ''READY'' then None else map_option Date (g_turn_started_at g)),
      whiteMs = g_white_clock_ms g\<rparr>"

definition admitMove ::
    "game_row \<Rightarrow> PlayerColor \<Rightarrow> LockedGameClock \<Rightarrow> rejection + GameClock" where
  "admitMove g color locked =
     (let observedAt = Date (lk_observedAt locked);
          runningClock = (if g_status g = ''READY'' then resumeClock (baseClock g color) White observedAt
                          else Inr (baseClock g color))
      in case sbind runningClock (\<lambda>c. admitMoveOnClock c color observedAt) of
           Inl _ \<Rightarrow> Inl (rejected GAME_STATE_CORRUPT ''The persisted game clock is inconsistent.'' False
             (Some (g_version g)))
         | Inr (clock_flag_fall _ _ _) \<Rightarrow> Inl (rejected CLOCK_EXPIRED
             (''The move arrived after the player'' @ apostrophe @ ''s clock expired.'') False
             (Some (g_version g)))
         | Inr (clock_accepted c _) \<Rightarrow> Inr c)"

definition evaluateSubmission ::
    "'p chessjs \<Rightarrow> PersistedGame \<Rightarrow> PlayerColor \<Rightarrow> SubmitMove \<Rightarrow> rejection + MoveEvaluation" where
  "evaluateSubmission lib game color input =
     (let g = pg_game game; version = Some (g_version g) in
      case evaluateMove lib
          \<lparr>ev_expectedCurrentFen = g_current_fen g, ev_history = map m_uci (pg_moves game),
           ev_initialFen = g_initial_fen g, ev_move = sm_move input\<rparr> of
        Inl err \<Rightarrow>
          if chess_code err = CHESS_ILLEGAL_MOVE
          then Inl (rejected ILLEGAL_MOVE (chess_message err) False version)
          else Inl (rejected GAME_STATE_CORRUPT ''The persisted chess state could not be replayed.'' False version)
      | Inr evaluation \<Rightarrow>
          if am_color (me_applied evaluation) \<noteq> color
          then Inl (rejected GAME_STATE_CORRUPT
            ''The chess engine turn does not match the persisted game turn.'' False version)
          else Inr evaluation)"

definition boardOutcome :: "MoveEvaluation \<Rightarrow> thrown + TerminalOutcome option" where
  "boardOutcome evaluation =
     (case me_gameOver evaluation of
        not_over \<Rightarrow> Inr None
      | over reason winner \<Rightarrow>
          (case deriveTerminalOutcome (BOARD reason winner) of
             Inl e \<Rightarrow> Inl (DomainErr e)
           | Inr out \<Rightarrow> Inr (Some out)))"

definition startedVersion :: "game_row \<Rightarrow> int" where
  "startedVersion g = (if g_status g = ''READY'' then g_version g + 1 else g_version g)"

definition resultVersion :: "game_row \<Rightarrow> int" where
  "resultVersion g = startedVersion g + 1"

definition moveClocks ::
    "PlayerColor \<Rightarrow> GameClock \<Rightarrow> LockedGameClock \<Rightarrow> TerminalOutcome option \<Rightarrow> GameplayClock" where
  "moveClocks color clock locked outcome =
     \<lparr>gc_blackMs = blackMs clock, gc_observedAt = lk_observedAt locked,
      gc_running = (if outcome = None then Some (oppositeColor color) else None), gc_whiteMs = whiteMs clock\<rparr>"

definition acceptedMove ::
    "game_row \<Rightarrow> PlayerColor \<Rightarrow> SubmitMove \<Rightarrow> GameplayClock \<Rightarrow> AppliedMove \<Rightarrow> AcceptedMove" where
  "acceptedMove g color input clocks applied =
     \<lparr>ac_check = am_check applied, ac_clientMoveId = sm_clientMoveId input, ac_clocks = clocks,
      ac_fenAfter = am_fenAfter applied, ac_gameId = g_id g, ac_gameVersion = resultVersion g,
      ac_ply = am_plyNumber applied, ac_san = am_san applied, ac_turn = oppositeColor color,
      ac_uci = am_uci applied\<rparr>"

definition startedGame :: "game_row \<Rightarrow> LockedGameClock \<Rightarrow> StartedGame option" where
  "startedGame g locked =
     (if g_status g = ''READY'' then
        Some \<lparr>sg_clocks = \<lparr>gc_blackMs = g_black_clock_ms g, gc_observedAt = lk_observedAt locked,
                gc_running = Some White, gc_whiteMs = g_white_clock_ms g\<rparr>,
              sg_gameId = g_id g, sg_gameVersion = startedVersion g, sg_initialFen = g_initial_fen g\<rparr>
      else None)"

definition endedGame ::
    "game_row \<Rightarrow> GameplayClock \<Rightarrow> MoveEvaluation \<Rightarrow> TerminalOutcome option \<Rightarrow> EndedGame option" where
  "endedGame g clocks evaluation outcome =
     map_option (\<lambda>out.
       \<lparr>eg_clocks = clocks, eg_finalFen = am_fenAfter (me_applied evaluation), eg_gameId = g_id g,
        eg_gameVersion = resultVersion g, eg_pgn = me_pgn evaluation, eg_result = to_result out,
        eg_termination = to_termination out\<rparr>) outcome"

definition moveSubmission ::
    "PersistedGame \<Rightarrow> PlayerColor \<Rightarrow> SubmitMove \<Rightarrow> LockedGameClock \<Rightarrow> GameClock \<Rightarrow> MoveEvaluation \<Rightarrow>
     TerminalOutcome option \<Rightarrow> rejection + MoveSubmission" where
  "moveSubmission game color input locked clock evaluation outcome =
     (let g = pg_game game; clocks = moveClocks color clock locked outcome in
      case map p_guest_session_id (pg_players game) of
        [firstGuest, secondGuest] \<Rightarrow>
          Inr \<lparr>ms_accepted = acceptedMove g color input clocks (me_applied evaluation), ms_duplicate = False,
               ms_ended = endedGame g clocks evaluation outcome,
               ms_guestSessionIds = (firstGuest, secondGuest), ms_started = startedGame g locked\<rparr>
      | _ \<Rightarrow> Inl (rejected GAME_STATE_CORRUPT ''The game does not contain exactly two players.'' False
          (Some (g_version g))))"

text \<open>The \<open>data\<close> of the guarded update of the game row.\<close>

definition moveData ::
    "game_row \<Rightarrow> PlayerColor \<Rightarrow> LockedGameClock \<Rightarrow> GameClock \<Rightarrow> MoveEvaluation \<Rightarrow> TerminalOutcome option \<Rightarrow>
     game_row \<Rightarrow> game_row" where
  "moveData game color locked clock evaluation outcome g =
     (let ready = g_status game = ''READY'';
          observedAt = Some (lk_observedAt locked);
          ended = (case outcome of
              None \<Rightarrow> g
            | Some out \<Rightarrow> g\<lparr>g_ended_at := observedAt, g_result := Some (persistedResult (to_result out)),
                g_termination := Some (persistedTermination (to_termination out))\<rparr>);
          started = (if ready then ended\<lparr>g_started_at := observedAt\<rparr> else ended)
      in started\<lparr>g_black_clock_ms := blackMs clock, g_current_fen := am_fenAfter (me_applied evaluation),
           g_pgn := me_pgn evaluation,
           g_status := (case outcome of
               Some out \<Rightarrow> status_text (to_status out)
             | None \<Rightarrow> if ready then ''IN_PROGRESS'' else g_status game),
           g_turn_color := color_text (oppositeColor color),
           g_turn_started_at := (if outcome = None then observedAt else None),
           g_version := g_version g + (if ready then 2 else 1),
           g_white_clock_ms := whiteMs clock\<rparr>)"

definition moveRow :: "game_row \<Rightarrow> PlayerColor \<Rightarrow> SubmitMove \<Rightarrow> LockedGameClock \<Rightarrow> AppliedMove \<Rightarrow> move_row" where
  "moveRow g color input locked applied =
     \<lparr>m_game_id = g_id g, m_ply = am_plyNumber applied, m_client_move_id = sm_clientMoveId input,
      m_guest_session_id = sm_guestSessionId input, m_color = color_text color, m_san = am_san applied,
      m_uci = am_uci applied, m_fen_before = am_fenBefore applied, m_fen_after = am_fenAfter applied,
      m_server_received_at = lk_observedAt locked\<rparr>"

definition commandRow :: "game_row \<Rightarrow> SubmitMove \<Rightarrow> MoveSubmission \<Rightarrow> command_row" where
  "commandRow g input submission =
     \<lparr>c_game_id = g_id g, c_guest_session_id = sm_guestSessionId input, c_event_id = sm_clientMoveId input,
      c_command_type = ''MOVE'', c_result_version = resultVersion g,
      c_response = persistedSubmission submission\<rparr>"

text \<open>The writes of an accepted move.\<close>

definition persistMove ::
    "tx_env \<Rightarrow> PersistedGame \<Rightarrow> PlayerColor \<Rightarrow> SubmitMove \<Rightarrow> LockedGameClock \<Rightarrow> GameClock \<Rightarrow> MoveEvaluation \<Rightarrow>
     TerminalOutcome option \<Rightarrow> MoveSubmission \<Rightarrow> MoveTransactionResult tx" where
  "persistMove env game color input locked clock evaluation outcome submission =
     (let g = pg_game game in
      tbind (update_games (te_appNow env) (\<lambda>r. g_id r = g_id g \<and> g_version r = g_version g)
        (moveData g color locked clock evaluation outcome)) (\<lambda>count.
      if count \<noteq> 1 then ret (stale_write (g_version g)) else
      tbind (insert_move (moveRow g color input locked (me_applied evaluation))) (\<lambda>_.
      tbind (if outcome \<noteq> None then delete_assignments (\<lambda>a. a_game_id a = g_id g) else ret 0) (\<lambda>_.
      tbind (insert_command (commandRow g input submission)) (\<lambda>_.
      ret (move_accepted submission))))))"

text \<open>The part of the body that runs once the mover is known and nothing was replayed.\<close>

definition playMove ::
    "'p chessjs \<Rightarrow> tx_env \<Rightarrow> PersistedGame \<Rightarrow> PlayerColor \<Rightarrow> SubmitMove \<Rightarrow> LockedGameClock \<Rightarrow>
     MoveTransactionResult tx" where
  "playMove lib env game color input locked =
     (case moveGuards game color input of
        Some r \<Rightarrow> ret (move_refused r)
      | None \<Rightarrow>
        (case admitMove (pg_game game) color locked of
           Inl r \<Rightarrow> ret (move_refused r)
         | Inr clock \<Rightarrow>
           (case evaluateSubmission lib game color input of
              Inl r \<Rightarrow> ret (move_refused r)
            | Inr evaluation \<Rightarrow>
                tbind (lift_sum (boardOutcome evaluation)) (\<lambda>outcome.
                case moveSubmission game color input locked clock evaluation outcome of
                  Inl r \<Rightarrow> ret (move_refused r)
                | Inr submission \<Rightarrow>
                    persistMove env game color input locked clock evaluation outcome submission))))"

definition submitInTransaction ::
    "'p chessjs \<Rightarrow> (string \<Rightarrow> bool) \<Rightarrow> tx_env \<Rightarrow> SubmitMove \<Rightarrow> MoveTransactionResult tx" where
  "submitInTransaction lib uuidv4 env input =
     tbind (lockGameClock env (sm_gameId input)) (\<lambda>lock.
     case lock of
       None \<Rightarrow> ret (move_refused (rejected GAME_NOT_FOUND ''The requested game does not exist.'' False None))
     | Some locked \<Rightarrow>
         tbind (fetch (\<lambda>db. findPersistedGame db (sm_gameId input))) (\<lambda>found.
         case found of
           None \<Rightarrow> ret (move_refused (rejected GAME_NOT_FOUND ''The requested game does not exist.'' False None))
         | Some game \<Rightarrow>
             (case findMover game (sm_guestSessionId input) of
                None \<Rightarrow> ret (move_refused (rejected NOT_A_PLAYER
                  ''The authenticated guest is not a member of this game.'' False
                  (Some (g_version (pg_game game)))))
              | Some (player, color) \<Rightarrow>
                  tbind (fetch (\<lambda>db. find_command db (sm_gameId input) (sm_clientMoveId input))) (\<lambda>previous.
                  case previous of
                    Some command \<Rightarrow>
                      ret (case replayResult uuidv4 command input of
                             Inl r \<Rightarrow> move_refused r
                           | Inr submission \<Rightarrow> move_accepted submission)
                  | None \<Rightarrow> playMove lib env game color input locked))))"

section \<open>The repository operation\<close>

definition findReplay ::
    "(string \<Rightarrow> bool) \<Rightarrow> tx_env \<Rightarrow> SubmitMove \<Rightarrow> db \<Rightarrow> thrown + MoveSubmission option" where
  "findReplay uuidv4 env input db =
     (case te_readFault env of
        Some e \<Rightarrow> Inl (toDatabaseError e)
      | None \<Rightarrow>
        (case find_command db (sm_gameId input) (sm_clientMoveId input) of
           None \<Rightarrow> Inr None
         | Some command \<Rightarrow>
             (case replayResult uuidv4 command input of
                Inr submission \<Rightarrow> Inr (Some submission)
              | Inl r \<Rightarrow> Inl (ServiceErr (moveError (rj_code r) (rj_message r) (rj_retryable r)
                  (rj_authoritativeVersion r))))))"

definition is_unique_violation :: "thrown \<Rightarrow> bool" where
  "is_unique_violation e \<longleftrightarrow> is_DatabaseError e \<and> db_kind e = kind_unique"

definition submitMove ::
    "'p chessjs \<Rightarrow> (string \<Rightarrow> bool) \<Rightarrow> tx_env \<Rightarrow> SubmitMove \<Rightarrow> db \<Rightarrow> (thrown + MoveSubmission) \<times> db" where
  "submitMove lib uuidv4 env input db =
     (case run (te_fault env) (submitInTransaction lib uuidv4 env input) db of
        (Inl err, db') \<Rightarrow>
          (if is_unique_violation err then
             (case findReplay uuidv4 env input db' of
                Inl e \<Rightarrow> Inl e
              | Inr (Some submission) \<Rightarrow> Inr submission
              | Inr None \<Rightarrow> Inl err)
           else Inl err, db')
      | (Inr (move_accepted submission), db') \<Rightarrow> (Inr submission, db')
      | (Inr (stale_write version), db') \<Rightarrow>
          (Inl (ServiceErr (moveError STALE_GAME_VERSION
            ''The game changed before the move could be committed.'' True (Some version))), db')
      | (Inr (move_refused r), db') \<Rightarrow>
          (Inl (ServiceErr (moveError (rj_code r) (rj_message r) (rj_retryable r)
            (rj_authoritativeVersion r))), db'))"

section \<open>The transaction contract\<close>

lemma moveData_keys [simp]:
  "g_id (moveData game color locked clock evaluation outcome g) = g_id g"
  "g_match_id (moveData game color locked clock evaluation outcome g) = g_match_id g"
  by (simp_all add: moveData_def Let_def split: option.split)

lemma moveData_keeps: "keeps_game_keys (moveData game color locked clock evaluation outcome)"
  by (simp add: keeps_game_keys_def)

lemma persistMove_keeps_tables [preserves_intro]:
  "preserves tables_ok (persistMove env game color input locked clock evaluation outcome submission)"
  unfolding persistMove_def Let_def by (intro preserves_intro moveData_keeps)

lemma playMove_keeps_tables [preserves_intro]:
  "preserves tables_ok (playMove lib env game color input locked)"
  unfolding playMove_def by (intro preserves_intro)

lemma submitInTransaction_keeps_tables:
  "preserves tables_ok (submitInTransaction lib uuidv4 env input)"
  unfolding submitInTransaction_def by (intro preserves_intro)

interpretation submit_tx: transaction "submitInTransaction lib uuidv4 env" for lib uuidv4 env
  by unfold_locales (rule submitInTransaction_keeps_tables)

end
