(* ===== verification/Lifecycle_Repository.thy ===== *)
theory Lifecycle_Repository
  imports Gameplay_Repository
begin

text \<open>
  The end of a game and the connections of its players,
  \<open>src/src/modules/game/infrastructure/prisma-game-lifecycle.repository.ts\<close>:
  resignation, reset, disconnection and reconnection, the adjudication of
  timeouts, no-shows and abandonments, and the queries for deadlines.

  The three operations that start from a guest look up the active game before
  they lock it: that lookup reads \<open>te_earlier\<close>. The loaded game is a
  \<open>PersistedGame\<close> with its moves left empty (\<open>lifecycleInclude\<close> loads the
  players only).
\<close>

section \<open>Data\<close>

record ResignGame =
  rg_eventId :: string
  rg_expectedVersion :: int
  rg_gameId :: string
  rg_guestSessionId :: string

datatype ResignTransactionResult =
    resign_accepted TerminalSubmission
  | resign_refused rejection

record PlayerDisconnected =
  pd_color :: PlayerColor
  pd_gameId :: string
  pd_gameVersion :: int
  pd_graceDeadline :: int

record PlayerReconnected =
  pr_color :: PlayerColor
  pr_gameId :: string
  pr_gameVersion :: int

record DeadlineState =
  ds_deadline :: jsdate
  ds_gameId :: string

record GraceState =
  gr_dueGuestSessionIds :: "string list"
  gr_guestSessionIds :: "string \<times> string"

section \<open>Private helpers\<close>

definition isColor_lifecycle :: "string \<Rightarrow> bool" where
  "isColor_lifecycle v \<longleftrightarrow> colorSchema (JStr v) \<noteq> None"

primrec persistedResult_lifecycle :: "GameResult \<Rightarrow> string" where
  "persistedResult_lifecycle black_win = ''0-1''"
| "persistedResult_lifecycle draw = ''1/2-1/2''"
| "persistedResult_lifecycle void = ''*''"
| "persistedResult_lifecycle white_win = ''1-0''"

fun persistedTermination_lifecycle :: "GameTermination \<Rightarrow> string" where
  "persistedTermination_lifecycle abandonment = ''ABANDONMENT''"
| "persistedTermination_lifecycle (Board checkmate) = ''CHECKMATE''"
| "persistedTermination_lifecycle double_abandon = ''SYSTEM''"
| "persistedTermination_lifecycle (Board fifty_move) = ''FIFTY_MOVE_RULE''"
| "persistedTermination_lifecycle (Board insufficient_material) = ''INSUFFICIENT_MATERIAL''"
| "persistedTermination_lifecycle no_show = ''JOIN_TIMEOUT''"
| "persistedTermination_lifecycle resignation = ''RESIGNATION''"
| "persistedTermination_lifecycle (Board stalemate) = ''STALEMATE''"
| "persistedTermination_lifecycle (Board threefold_repetition) = ''THREEFOLD_REPETITION''"
| "persistedTermination_lifecycle timeout = ''TIMEOUT''"

definition rejected_lifecycle ::
    "GameServiceErrorCode \<Rightarrow> string \<Rightarrow> bool \<Rightarrow> int option \<Rightarrow> rejection" where
  "rejected_lifecycle code message retryable authoritativeVersion =
     \<lparr>rj_authoritativeVersion = authoritativeVersion, rj_code = code, rj_message = message,
      rj_retryable = retryable\<rparr>"

definition findGame :: "db \<Rightarrow> string \<Rightarrow> PersistedGame option" where
  "findGame db gameId =
     map_option (\<lambda>g. \<lparr>pg_game = g, pg_moves = [], pg_players = players_of db gameId\<rparr>) (find_game db gameId)"

definition plain_error :: "string \<Rightarrow> thrown" where
  "plain_error message = ErrorObject None (Some message) None"

definition guestTuple :: "PersistedGame \<Rightarrow> thrown + string \<times> string" where
  "guestTuple game =
     (case map p_guest_session_id (pg_players game) of
        [first, second] \<Rightarrow> Inr (first, second)
      | _ \<Rightarrow> Inl (plain_error ''A lifecycle game must contain exactly two players.''))"

definition playerFor :: "PersistedGame \<Rightarrow> string \<Rightarrow> (player_row \<times> PlayerColor) option" where
  "playerFor game guestSessionId =
     (case List.find (\<lambda>c. p_guest_session_id c = guestSessionId) (pg_players game) of
        None \<Rightarrow> None
      | Some p \<Rightarrow> map_option (\<lambda>c. (p, c)) (colorSchema (JStr (p_color p))))"

definition terminalClock :: "LockedGameClock \<Rightarrow> GameplayClock" where
  "terminalClock locked =
     \<lparr>gc_blackMs = lk_blackClockMs locked, gc_observedAt = lk_observedAt locked, gc_running = None,
      gc_whiteMs = lk_whiteClockMs locked\<rparr>"

text \<open>The reduction of \<open>earliest\<close>, on the times of the dates.\<close>

definition earliest :: "int list \<Rightarrow> int option" where
  "earliest vs = fold (\<lambda>v acc. case acc of None \<Rightarrow> Some v | Some e \<Rightarrow> if v < e then Some v else Some e) vs None"

definition otherDeadlines :: "PersistedGame \<Rightarrow> player_row \<Rightarrow> int list" where
  "otherDeadlines game player =
     List.map_filter p_reconnect_grace_ends_at (filter (\<lambda>c. p_id c \<noteq> p_id player) (pg_players game))"

definition derive :: "TerminalEvent \<Rightarrow> thrown + TerminalOutcome" where
  "derive event = (case deriveTerminalOutcome event of Inl e \<Rightarrow> Inl (DomainErr e) | Inr out \<Rightarrow> Inr out)"

section \<open>Ending a game\<close>

definition terminalData :: "LockedGameClock \<Rightarrow> TerminalOutcome \<Rightarrow> game_row \<Rightarrow> game_row" where
  "terminalData locked outcome g =
     g\<lparr>g_black_clock_ms := lk_blackClockMs locked, g_ended_at := Some (lk_observedAt locked),
       g_reconnect_deadline_at := None, g_result := Some (persistedResult_lifecycle (to_result outcome)),
       g_status := status_text (to_status outcome),
       g_termination := Some (persistedTermination_lifecycle (to_termination outcome)),
       g_turn_started_at := None, g_version := g_version g + 1, g_white_clock_ms := lk_whiteClockMs locked\<rparr>"

definition clearDisconnect :: "player_row \<Rightarrow> player_row" where
  "clearDisconnect p = p\<lparr>p_disconnected_at := None, p_reconnect_grace_ends_at := None\<rparr>"

text \<open>The two statements under \<open>Promise.all\<close> touch different tables; they are issued in order.\<close>

definition finalizeTerminal ::
    "tx_env \<Rightarrow> PersistedGame \<Rightarrow> LockedGameClock \<Rightarrow> TerminalOutcome \<Rightarrow> TerminalSubmission option tx" where
  "finalizeTerminal env game locked outcome =
     (let g = pg_game game in
      tbind (lift_sum (guestTuple game)) (\<lambda>guestSessionIds.
      tbind (update_games (te_appNow env) (\<lambda>r. g_id r = g_id g \<and> g_version r = g_version g)
        (terminalData locked outcome)) (\<lambda>count.
      if count \<noteq> 1 then ret None else
      tbind (update_players (\<lambda>p. p_game_id p = g_id g) clearDisconnect) (\<lambda>_.
      tbind (delete_assignments (\<lambda>a. a_game_id a = g_id g)) (\<lambda>_.
      ret (Some \<lparr>ts_duplicate = False,
        ts_ended = \<lparr>eg_clocks = terminalClock locked, eg_finalFen = g_current_fen g, eg_gameId = g_id g,
          eg_gameVersion = g_version g + 1, eg_pgn = g_pgn g, eg_result = to_result outcome,
          eg_termination = to_termination outcome\<rparr>,
        ts_guestSessionIds = guestSessionIds\<rparr>))))))"

text \<open>Locking a game and loading it, as the operations by game identifier begin.\<close>

definition withLockedGame ::
    "tx_env \<Rightarrow> string \<Rightarrow> (LockedGameClock \<Rightarrow> bool) \<Rightarrow> (LockedGameClock \<Rightarrow> PersistedGame \<Rightarrow> 'a option tx) \<Rightarrow>
     'a option tx" where
  "withLockedGame env gameId proceed work =
     tbind (lockGameClock env gameId) (\<lambda>lock.
     case lock of
       None \<Rightarrow> ret None
     | Some locked \<Rightarrow>
         if \<not> proceed locked then ret None
         else tbind (fetch (\<lambda>db. findGame db gameId)) (\<lambda>found.
           case found of None \<Rightarrow> ret None | Some game \<Rightarrow> work locked game))"

definition finish ::
    "tx_env \<Rightarrow> PersistedGame \<Rightarrow> LockedGameClock \<Rightarrow> TerminalEvent \<Rightarrow> TerminalSubmission option tx" where
  "finish env game locked event =
     tbind (lift_sum (derive event)) (\<lambda>outcome. finalizeTerminal env game locked outcome)"

section \<open>Resignation\<close>

definition replayResult_lifecycle ::
    "(string \<Rightarrow> bool) \<Rightarrow> command_row \<Rightarrow> ResignGame \<Rightarrow> rejection + TerminalSubmission" where
  "replayResult_lifecycle uuidv4 command input =
     (if c_command_type command \<noteq> ''RESIGN'' \<or> c_guest_session_id command \<noteq> rg_guestSessionId input then
        Inl (rejected_lifecycle IDEMPOTENCY_KEY_REUSED
          ''The event identifier was already used for a different command.'' False None)
      else case storedTerminalSchema uuidv4 (c_response command) of
          None \<Rightarrow> Inl (rejected_lifecycle IDEMPOTENCY_KEY_REUSED
            ''The stored resignation acknowledgement is invalid.'' False None)
        | Some (ended, guestSessionIds) \<Rightarrow>
            Inr \<lparr>ts_duplicate = True, ts_ended = ended, ts_guestSessionIds = guestSessionIds\<rparr>)"

definition resignRow :: "ResignGame \<Rightarrow> TerminalSubmission \<Rightarrow> command_row" where
  "resignRow input submission =
     \<lparr>c_game_id = rg_gameId input, c_guest_session_id = rg_guestSessionId input,
      c_event_id = rg_eventId input, c_command_type = ''RESIGN'',
      c_result_version = eg_gameVersion (ts_ended submission), c_response = persistedTerminal submission\<rparr>"

text \<open>The part of the body that runs once the player is known and nothing was replayed.\<close>

definition resignNow ::
    "tx_env \<Rightarrow> PersistedGame \<Rightarrow> PlayerColor \<Rightarrow> ResignGame \<Rightarrow> LockedGameClock \<Rightarrow> ResignTransactionResult tx" where
  "resignNow env game color input locked =
     (let g = pg_game game in
      if g_status g \<noteq> ''IN_PROGRESS'' \<and> g_status g \<noteq> ''RECONNECTING'' then
        ret (resign_refused (rejected_lifecycle GAME_ALREADY_ENDED
          ''The game is no longer accepting resignation.'' False (Some (g_version g))))
      else if rg_expectedVersion input \<noteq> g_version g then
        ret (resign_refused (rejected_lifecycle STALE_GAME_VERSION ''The game version is stale.'' True
          (Some (g_version g))))
      else
        tbind (finish env game locked (RESIGNATION color)) (\<lambda>result.
        case result of
          None \<Rightarrow> ret (resign_refused (rejected_lifecycle STALE_GAME_VERSION
            ''The game changed while the resignation was being applied.'' True (Some (g_version g + 1))))
        | Some submission \<Rightarrow>
            tbind (insert_command (resignRow input submission)) (\<lambda>_. ret (resign_accepted submission))))"

definition resignInTransaction ::
    "(string \<Rightarrow> bool) \<Rightarrow> tx_env \<Rightarrow> ResignGame \<Rightarrow> ResignTransactionResult tx" where
  "resignInTransaction uuidv4 env input =
     tbind (lockGameClock env (rg_gameId input)) (\<lambda>lock.
     case lock of
       None \<Rightarrow> ret (resign_refused (rejected_lifecycle GAME_NOT_FOUND
         ''The requested game does not exist.'' False None))
     | Some locked \<Rightarrow>
         tbind (fetch (\<lambda>db. findGame db (rg_gameId input))) (\<lambda>found.
         case found of
           None \<Rightarrow> ret (resign_refused (rejected_lifecycle GAME_NOT_FOUND
             ''The requested game does not exist.'' False None))
         | Some game \<Rightarrow>
             (case playerFor game (rg_guestSessionId input) of
                None \<Rightarrow> ret (resign_refused (rejected_lifecycle NOT_A_PLAYER
                  ''The authenticated guest is not a member of this game.'' False
                  (Some (g_version (pg_game game)))))
              | Some (player, color) \<Rightarrow>
                  tbind (fetch (\<lambda>db. find_command db (rg_gameId input) (rg_eventId input))) (\<lambda>previous.
                  case previous of
                    Some command \<Rightarrow>
                      ret (case replayResult_lifecycle uuidv4 command input of
                             Inl r \<Rightarrow> resign_refused r
                           | Inr submission \<Rightarrow> resign_accepted submission)
                  | None \<Rightarrow> resignNow env game color input locked))))"

definition rejection_error :: "rejection \<Rightarrow> thrown" where
  "rejection_error r =
     ServiceErr (serviceErrorAt (rj_code r) (rj_message r) (rj_retryable r) (rj_authoritativeVersion r))"

definition findResignReplay ::
    "(string \<Rightarrow> bool) \<Rightarrow> tx_env \<Rightarrow> ResignGame \<Rightarrow> db \<Rightarrow> thrown + TerminalSubmission option" where
  "findResignReplay uuidv4 env input db =
     (case te_readFault env of
        Some e \<Rightarrow> Inl (toDatabaseError e)
      | None \<Rightarrow>
        (case find_command db (rg_gameId input) (rg_eventId input) of
           None \<Rightarrow> Inr None
         | Some command \<Rightarrow>
             (case replayResult_lifecycle uuidv4 command input of
                Inr submission \<Rightarrow> Inr (Some submission)
              | Inl r \<Rightarrow> Inl (rejection_error r))))"

definition resign ::
    "(string \<Rightarrow> bool) \<Rightarrow> tx_env \<Rightarrow> ResignGame \<Rightarrow> db \<Rightarrow> (thrown + TerminalSubmission) \<times> db" where
  "resign uuidv4 env input db =
     (case run (te_fault env) (resignInTransaction uuidv4 env input) db of
        (Inl err, db') \<Rightarrow>
          (if is_unique_violation err then
             (case findResignReplay uuidv4 env input db' of
                Inl e \<Rightarrow> Inl e
              | Inr (Some submission) \<Rightarrow> Inr submission
              | Inr None \<Rightarrow> Inl err)
           else Inl err, db')
      | (Inr (resign_accepted submission), db') \<Rightarrow> (Inr submission, db')
      | (Inr (resign_refused r), db') \<Rightarrow> (Inl (rejection_error r), db'))"

section \<open>Reset, disconnection and reconnection\<close>

text \<open>The active game of a guest, as seen before the lock, then locked and loaded.\<close>

definition withAssignedGame ::
    "tx_env \<Rightarrow> string \<Rightarrow> (LockedGameClock \<Rightarrow> PersistedGame \<Rightarrow> 'a option tx) \<Rightarrow> 'a option tx" where
  "withAssignedGame env guestSessionId work =
     (case find_assignment (te_earlier env) guestSessionId of
        None \<Rightarrow> ret None
      | Some assignment \<Rightarrow> withLockedGame env (a_game_id assignment) (\<lambda>_. True) work)"

definition terminateForReset_body :: "tx_env \<Rightarrow> string \<Rightarrow> TerminalSubmission option tx" where
  "terminateForReset_body env guestSessionId =
     withAssignedGame env guestSessionId (\<lambda>locked game.
       if g_status (pg_game game) \<notin>
           {''IN_PROGRESS'', ''READY'', ''RECONNECTING'', ''WAITING_FOR_PLAYERS''} then ret None
       else case playerFor game guestSessionId of
           None \<Rightarrow> ret None
         | Some (player, color) \<Rightarrow> finish env game locked (ABANDONMENT [color]))"

definition terminateForReset ::
    "tx_env \<Rightarrow> string \<Rightarrow> db \<Rightarrow> (thrown + TerminalSubmission option) \<times> db" where
  "terminateForReset env guestSessionId = run (te_fault env) (terminateForReset_body env guestSessionId)"

definition disconnectData :: "int \<Rightarrow> int \<Rightarrow> player_row \<Rightarrow> player_row" where
  "disconnectData observedAt graceDeadline p =
     p\<lparr>p_connected_at := None, p_disconnected_at := Some observedAt,
       p_reconnect_grace_ends_at := Some graceDeadline\<rparr>"

definition reconnectingData :: "int option \<Rightarrow> string \<Rightarrow> game_row \<Rightarrow> game_row" where
  "reconnectingData reconnectDeadlineAt status g =
     g\<lparr>g_reconnect_deadline_at := reconnectDeadlineAt, g_status := status, g_version := g_version g + 1\<rparr>"

text \<open>Prisma refuses an invalid date.\<close>

definition invalid_date :: thrown where
  "invalid_date = ErrorObject None (Some ''Invalid value provided. Provided Date object is invalid.'') None"

definition disconnectPlayer ::
    "tx_env \<Rightarrow> PersistedGame \<Rightarrow> LockedGameClock \<Rightarrow> player_row \<Rightarrow> PlayerColor \<Rightarrow> int \<Rightarrow>
     PlayerDisconnected option tx" where
  "disconnectPlayer env game locked player color graceMs =
     (let g = pg_game game in
      case new_Date (lk_observedAt locked + graceMs) of
        InvalidDate \<Rightarrow> throw invalid_date
      | Date graceDeadline \<Rightarrow>
          (let reconnectDeadlineAt = earliest (graceDeadline # otherDeadlines game player) in
           tbind (update_player (p_id player) (disconnectData (lk_observedAt locked) graceDeadline)) (\<lambda>_.
           tbind (update_games (te_appNow env) (\<lambda>r. g_id r = g_id g \<and> g_version r = g_version g)
             (reconnectingData reconnectDeadlineAt ''RECONNECTING'')) (\<lambda>count.
           if count \<noteq> 1 then ret None
           else ret (Some \<lparr>pd_color = color, pd_gameId = g_id g, pd_gameVersion = g_version g + 1,
             pd_graceDeadline = graceDeadline\<rparr>)))))"

definition markDisconnected_body :: "tx_env \<Rightarrow> string \<Rightarrow> int \<Rightarrow> PlayerDisconnected option tx" where
  "markDisconnected_body env guestSessionId graceMs =
     withAssignedGame env guestSessionId (\<lambda>locked game.
       let status = g_status (pg_game game) in
       case playerFor game guestSessionId of
         None \<Rightarrow> ret None
       | Some (player, color) \<Rightarrow>
           if status \<noteq> ''IN_PROGRESS'' \<and> status \<noteq> ''RECONNECTING'' then
             (if status = ''WAITING_FOR_PLAYERS'' then
                tbind (update_player (p_id player) (\<lambda>p. p\<lparr>p_connected_at := None\<rparr>)) (\<lambda>_. ret None)
              else ret None)
           else if p_disconnected_at player \<noteq> None then ret None
           else disconnectPlayer env game locked player color graceMs)"

definition markDisconnected ::
    "tx_env \<Rightarrow> string \<Rightarrow> int \<Rightarrow> db \<Rightarrow> (thrown + PlayerDisconnected option) \<times> db" where
  "markDisconnected env guestSessionId graceMs =
     run (te_fault env) (markDisconnected_body env guestSessionId graceMs)"

definition reconnectData :: "int \<Rightarrow> player_row \<Rightarrow> player_row" where
  "reconnectData observedAt p =
     p\<lparr>p_connected_at := Some observedAt, p_disconnected_at := None, p_reconnect_grace_ends_at := None\<rparr>"

definition markReconnected_body :: "tx_env \<Rightarrow> string \<Rightarrow> PlayerReconnected option tx" where
  "markReconnected_body env guestSessionId =
     withAssignedGame env guestSessionId (\<lambda>locked game.
       let g = pg_game game in
       if g_status g \<noteq> ''RECONNECTING'' then ret None
       else case playerFor game guestSessionId of
           None \<Rightarrow> ret None
         | Some (player, color) \<Rightarrow>
             if p_disconnected_at player = None then ret None
             else
               tbind (update_player (p_id player) (reconnectData (lk_observedAt locked))) (\<lambda>_.
               let remainingDeadlines = otherDeadlines game player;
                   status = (if remainingDeadlines = [] then ''IN_PROGRESS'' else ''RECONNECTING'');
                   reconnectDeadlineAt =
                     (if remainingDeadlines = [] then None else earliest remainingDeadlines) in
               tbind (update_games (te_appNow env) (\<lambda>r. g_id r = g_id g \<and> g_version r = g_version g)
                 (reconnectingData reconnectDeadlineAt status)) (\<lambda>count.
               if count \<noteq> 1 then ret None
               else ret (Some \<lparr>pr_color = color, pr_gameId = g_id g, pr_gameVersion = g_version g + 1\<rparr>))))"

definition markReconnected ::
    "tx_env \<Rightarrow> string \<Rightarrow> db \<Rightarrow> (thrown + PlayerReconnected option) \<times> db" where
  "markReconnected env guestSessionId = run (te_fault env) (markReconnected_body env guestSessionId)"

section \<open>Adjudication\<close>

definition timeoutLoser :: "LockedGameClock \<Rightarrow> PlayerColor option" where
  "timeoutLoser locked =
     (if lk_status locked \<noteq> ''IN_PROGRESS'' \<and> lk_status locked \<noteq> ''RECONNECTING'' then None
      else case colorSchema (JStr (lk_turnColor locked)) of
          None \<Rightarrow> None
        | Some color \<Rightarrow>
            let remaining = (if color = White then lk_whiteClockMs locked else lk_blackClockMs locked)
            in if remaining > 0 then None else Some color)"

definition adjudicateTimeout_body :: "tx_env \<Rightarrow> string \<Rightarrow> TerminalSubmission option tx" where
  "adjudicateTimeout_body env gameId =
     withLockedGame env gameId (\<lambda>locked. timeoutLoser locked \<noteq> None) (\<lambda>locked game.
       case timeoutLoser locked of
         None \<Rightarrow> ret None
       | Some loser \<Rightarrow> finish env game locked (TerminalEvent.TIMEOUT loser))"

definition adjudicateTimeout ::
    "tx_env \<Rightarrow> string \<Rightarrow> db \<Rightarrow> (thrown + TerminalSubmission option) \<times> db" where
  "adjudicateTimeout env gameId = run (te_fault env) (adjudicateTimeout_body env gameId)"

text \<open>The colours of a list of players, those that are colours.\<close>

definition player_colors :: "player_row list \<Rightarrow> PlayerColor list" where
  "player_colors ps = List.map_filter (\<lambda>p. colorSchema (JStr (p_color p))) ps"

definition adjudicateNoShow_body :: "tx_env \<Rightarrow> string \<Rightarrow> TerminalSubmission option tx" where
  "adjudicateNoShow_body env gameId =
     withLockedGame env gameId (\<lambda>locked. lk_status locked = ''WAITING_FOR_PLAYERS'') (\<lambda>locked game.
       case g_join_deadline_at (pg_game game) of
         None \<Rightarrow> ret None
       | Some joinDeadlineAt \<Rightarrow>
           if joinDeadlineAt > lk_observedAt locked then ret None
           else finish env game locked
             (NO_SHOW (player_colors (filter (\<lambda>p. p_joined_at p \<noteq> None) (pg_players game)))))"

definition adjudicateNoShow ::
    "tx_env \<Rightarrow> string \<Rightarrow> db \<Rightarrow> (thrown + TerminalSubmission option) \<times> db" where
  "adjudicateNoShow env gameId = run (te_fault env) (adjudicateNoShow_body env gameId)"

definition graceExpired :: "int \<Rightarrow> player_row \<Rightarrow> bool" where
  "graceExpired observedAt p \<longleftrightarrow>
     (case p_reconnect_grace_ends_at p of None \<Rightarrow> False | Some e \<Rightarrow> e \<le> observedAt)"

definition adjudicateAbandonment_body ::
    "tx_env \<Rightarrow> string \<Rightarrow> string list \<Rightarrow> TerminalSubmission option tx" where
  "adjudicateAbandonment_body env gameId absentGuestSessionIds =
     withLockedGame env gameId (\<lambda>locked. lk_status locked = ''RECONNECTING'') (\<lambda>locked game.
       let absentPlayers =
         filter (\<lambda>p. p_guest_session_id p \<in> set absentGuestSessionIds) (pg_players game) in
       if absentPlayers = [] \<or>
          list_ex (\<lambda>p. p_disconnected_at p = None \<or> p_reconnect_grace_ends_at p = None) absentPlayers \<or>
          \<not> list_ex (graceExpired (lk_observedAt locked)) absentPlayers then ret None
       else finish env game locked (ABANDONMENT (player_colors absentPlayers)))"

definition adjudicateAbandonment ::
    "tx_env \<Rightarrow> string \<Rightarrow> string list \<Rightarrow> db \<Rightarrow> (thrown + TerminalSubmission option) \<times> db" where
  "adjudicateAbandonment env gameId absentGuestSessionIds =
     run (te_fault env) (adjudicateAbandonment_body env gameId absentGuestSessionIds)"

section \<open>Queries\<close>

definition findGraceState ::
    "tx_env \<Rightarrow> string \<Rightarrow> db \<Rightarrow> thrown + GraceState option" where
  "findGraceState env gameId db =
     sbind (fst (run (te_fault env) (fetch (\<lambda>db.
       case findGame db gameId of
         None \<Rightarrow> None
       | Some game \<Rightarrow> if g_status (pg_game game) \<noteq> ''RECONNECTING'' then None else Some game)) db)) (\<lambda>result.
     case result of
       None \<Rightarrow> Inr None
     | Some game \<Rightarrow>
         sbind (guestTuple game) (\<lambda>guestSessionIds.
         let dueGuestSessionIds =
           map p_guest_session_id (filter (graceExpired (te_observedAt env)) (pg_players game)) in
         Inr (if dueGuestSessionIds = [] then None
              else Some \<lparr>gr_dueGuestSessionIds = dueGuestSessionIds, gr_guestSessionIds = guestSessionIds\<rparr>)))"

definition deadlineCandidates :: "PersistedGame \<Rightarrow> jsdate list" where
  "deadlineCandidates game =
     (let g = pg_game game in
      (if g_status g = ''WAITING_FOR_PLAYERS''
       then (case g_join_deadline_at g of None \<Rightarrow> [] | Some d \<Rightarrow> [Date d]) else []) @
      (if g_status g = ''IN_PROGRESS'' \<or> g_status g = ''RECONNECTING''
       then (case (g_turn_started_at g, colorSchema (JStr (g_turn_color g))) of
               (Some t, Some color) \<Rightarrow>
                 [new_Date (t + (if color = White then g_white_clock_ms g else g_black_clock_ms g))]
             | _ \<Rightarrow> [])
       else []) @
      (if g_status g = ''RECONNECTING''
       then map Date (List.map_filter p_reconnect_grace_ends_at (pg_players game)) else []))"

text \<open>\<open>earliest\<close> on dates; a comparison with the time of an invalid date is false.\<close>

definition earliestDate :: "jsdate list \<Rightarrow> jsdate option" where
  "earliestDate ds =
     fold (\<lambda>d acc. case acc of None \<Rightarrow> Some d
        | Some e \<Rightarrow> (case (d, e) of (Date x, Date y) \<Rightarrow> if x < y then Some d else Some e | _ \<Rightarrow> Some e)) ds None"

definition findDeadline :: "tx_env \<Rightarrow> string \<Rightarrow> db \<Rightarrow> thrown + DeadlineState option" where
  "findDeadline env gameId db =
     (case te_readFault env of
        Some e \<Rightarrow> Inl (toDatabaseError e)
      | None \<Rightarrow>
        (case findGame db gameId of
           None \<Rightarrow> Inr None
         | Some game \<Rightarrow> Inr (map_option (\<lambda>d. \<lparr>ds_deadline = d, ds_gameId = gameId\<rparr>)
             (earliestDate (deadlineCandidates game)))))"

text \<open>The \<open>WHERE\<close> clause of \<open>findDueGameIds\<close> for a game and its players.\<close>

definition dueGame :: "int \<Rightarrow> db \<Rightarrow> game_row \<Rightarrow> bool" where
  "dueGame now db g \<longleftrightarrow>
     g_status g = ''WAITING_FOR_PLAYERS'' \<and>
       (case g_join_deadline_at g of None \<Rightarrow> False | Some d \<Rightarrow> d \<le> now) \<or>
     clock_text (g_status g) \<and>
       (case g_turn_started_at g of
          None \<Rightarrow> False
        | Some t \<Rightarrow> t + (if g_turn_color g = ''w'' then g_white_clock_ms g else g_black_clock_ms g) \<le> now) \<or>
     g_status g = ''RECONNECTING'' \<and> list_ex (graceExpired now) (players_of db (g_id g))"

definition findDueGameIds :: "tx_env \<Rightarrow> nat \<Rightarrow> db \<Rightarrow> thrown + string list" where
  "findDueGameIds env limit db =
     (case te_readFault env of
        Some e \<Rightarrow> Inl (toDatabaseError e)
      | None \<Rightarrow> Inr (take limit (sort (map g_id (filter (dueGame (te_observedAt env) db) (games db))))))"

definition findSchedulableGameIds :: "tx_env \<Rightarrow> nat \<Rightarrow> db \<Rightarrow> thrown + string list" where
  "findSchedulableGameIds env limit db =
     (case te_readFault env of
        Some e \<Rightarrow> Inl (toDatabaseError e)
      | None \<Rightarrow> Inr (take limit (map g_id (sort_key g_updated_at
          (filter (\<lambda>g. g_status g \<in> {''WAITING_FOR_PLAYERS'', ''IN_PROGRESS'', ''RECONNECTING''}) (games db))))))"

section \<open>The transaction contract\<close>

lemma terminalData_keeps: "keeps_game_keys (terminalData locked outcome)"
  by (simp add: keeps_game_keys_def terminalData_def)

lemma clearDisconnect_keeps: "keeps_player_keys clearDisconnect"
  by (simp add: keeps_player_keys_def clearDisconnect_def)

lemma finalizeTerminal_keeps_tables [preserves_intro]:
  "preserves tables_ok (finalizeTerminal env game locked outcome)"
  unfolding finalizeTerminal_def Let_def
  by (intro preserves_intro terminalData_keeps clearDisconnect_keeps)

lemma finish_keeps_tables [preserves_intro]: "preserves tables_ok (finish env game locked event)"
  unfolding finish_def by (intro preserves_intro)

lemma withLockedGame_preserves [preserves_intro]:
  "(\<And>locked game. preserves P (work locked game)) \<Longrightarrow> preserves P (withLockedGame env gid proceed work)"
  unfolding withLockedGame_def by (intro preserves_intro)

lemma withAssignedGame_preserves [preserves_intro]:
  "(\<And>locked game. preserves P (work locked game)) \<Longrightarrow> preserves P (withAssignedGame env gid work)"
  unfolding withAssignedGame_def by (intro preserves_intro)

interpretation resign_tx: transaction "resignInTransaction uuidv4 env" for uuidv4 env
  by unfold_locales (simp only: resignInTransaction_def resignNow_def Let_def, intro preserves_intro)

interpretation reset_tx: transaction "terminateForReset_body env" for env
  by unfold_locales (simp only: terminateForReset_body_def Let_def, intro preserves_intro)

lemma connection_data_keeps:
  "keeps_player_keys (disconnectData observedAt deadline)" "keeps_player_keys (reconnectData observedAt)"
  "keeps_player_keys (\<lambda>p. p\<lparr>p_connected_at := x\<rparr>)" "keeps_game_keys (reconnectingData d s)"
  by (simp_all add: keeps_player_keys_def keeps_game_keys_def disconnectData_def reconnectData_def reconnectingData_def)

interpretation disconnect_tx: transaction "\<lambda>(guest, graceMs). markDisconnected_body env guest graceMs" for env
proof
  fix i :: "string \<times> int"
  show "preserves tables_ok (case i of (guest, graceMs) \<Rightarrow> markDisconnected_body env guest graceMs)"
    unfolding markDisconnected_body_def disconnectPlayer_def Let_def
    by (intro preserves_intro connection_data_keeps)
qed

interpretation reconnect_tx: transaction "markReconnected_body env" for env
  by unfold_locales
    (simp only: markReconnected_body_def Let_def, intro preserves_intro connection_data_keeps)

interpretation timeout_tx: transaction "adjudicateTimeout_body env" for env
  by unfold_locales (simp only: adjudicateTimeout_body_def Let_def, intro preserves_intro)

interpretation no_show_tx: transaction "adjudicateNoShow_body env" for env
  by unfold_locales (simp only: adjudicateNoShow_body_def Let_def, intro preserves_intro)

interpretation abandonment_tx: transaction "\<lambda>(gid, absent). adjudicateAbandonment_body env gid absent" for env
proof
  fix i :: "string \<times> string list"
  show "preserves tables_ok (case i of (gid, absent) \<Rightarrow> adjudicateAbandonment_body env gid absent)"
    unfolding adjudicateAbandonment_body_def Let_def by (intro preserves_intro)
qed

end
