(* ===== verification/Game_Repository.thy ===== *)
theory Game_Repository
  imports Gameplay_Repository
begin

text \<open>
  Allocation, readiness and start of a game and the reads of it,
  \<open>src/src/modules/game/infrastructure/prisma-game.repository.ts\<close>, with the
  types of \<open>application/ports/game.repository.ts\<close>. The identifiers that
  \<open>gen_random_uuid()\<close> gives the two player rows are \<open>te_newId1\<close> and
  \<open>te_newId2\<close>.
\<close>

section \<open>Data\<close>

record GamePlayerRecord =
  gp_avatarKey :: string
  gp_color :: PlayerColor
  gp_connectedAt :: "int option"
  gp_disconnectedAt :: "int option"
  gp_displayName :: string
  gp_gameId :: string
  gp_guestSessionId :: string
  gp_id :: string
  gp_joinedAt :: "int option"
  gp_reconnectGraceEndsAt :: "int option"
  gp_slot :: int

record GameRecord =
  gm_blackClockMs :: int
  gm_currentFen :: string
  gm_endedAt :: "int option"
  gm_id :: string
  gm_incrementMs :: int
  gm_initialFen :: string
  gm_joinDeadlineAt :: "int option"
  gm_matchId :: string
  gm_pgn :: string
  gm_result :: "GameResult option"
  gm_startedAt :: "int option"
  gm_status :: GameStatus
  gm_termination :: "GameTermination option"
  gm_timeInitialMs :: int
  gm_turnColor :: PlayerColor
  gm_turnStartedAt :: "int option"
  gm_updatedAt :: int
  gm_version :: int
  gm_whiteClockMs :: int

record GameAllocation =
  al_game :: GameRecord
  al_players :: "GamePlayerRecord \<times> GamePlayerRecord"

record GameMove =
  gv_clientMoveId :: string
  gv_color :: PlayerColor
  gv_fenAfter :: string
  gv_fenBefore :: string
  gv_guestSessionId :: string
  gv_ply :: int
  gv_san :: string
  gv_serverReceivedAt :: int
  gv_uci :: string

record GameSnapshotRecord =
  sn_allocation :: GameAllocation
  sn_moves :: "GameMove list"
  sn_observedAt :: int

record GameAllocationCursor =
  cu_id :: string
  cu_updatedAt :: int

record AllocateGame =
  ag_blackGuestSessionId :: string
  ag_gameId :: string
  ag_initialFen :: string
  ag_joinDeadlineAt :: int
  ag_matchId :: string
  ag_mode :: string
  ag_observedAt :: int
  ag_pgn :: string
  ag_timeIncrementMs :: int
  ag_timeInitialMs :: int
  ag_whiteGuestSessionId :: string

record GuestMatchEligibility =
  ge_activeGameId :: "string option"
  ge_eligible :: bool

record MarkGameReady =
  mr_expectedVersion :: int
  mr_gameId :: string
  mr_guestSessionId :: string
  mr_observedAt :: int

record StartGameResult =
  sr_allocation :: GameAllocation
  sr_started :: bool

text \<open>An absent field of \<open>UpdateGameAtVersion\<close> is \<open>None\<close>; a field set to null is \<open>Some None\<close>.\<close>

record UpdateGameAtVersion =
  up_blackClockMs :: "int option"
  up_currentFen :: "string option"
  up_endedAt :: "int option option"
  up_expectedVersion :: int
  up_gameId :: string
  up_pgn :: "string option"
  up_result :: "GameResult option option"
  up_status :: "GameStatus option"
  up_termination :: "GameTermination option option"
  up_turnColor :: "PlayerColor option"
  up_turnStartedAt :: "int option option"
  up_whiteClockMs :: "int option"

text \<open>A game with its players and their guest sessions, as \<open>allocationInclude\<close> loads them.\<close>

record PersistedAllocation =
  pa_game :: game_row
  pa_players :: "(player_row \<times> guest_row) list"

datatype AllocationTransactionResult =
    alloc_allocated PersistedAllocation | alloc_conflict | alloc_ineligible | alloc_mismatch

datatype ReadyTransactionResult =
    ready_ready PersistedAllocation | ready_missing | ready_not_player | ready_stale int
  | ready_unavailable

datatype StartTransactionResult =
    start_found PersistedAllocation bool | start_missing | start_stale int

section \<open>From rows to records\<close>

definition allocation_mismatch :: "string \<Rightarrow> thrown" where
  "allocation_mismatch message = ServiceErr (serviceError ALLOCATION_MISMATCH message False)"

definition color_game :: "string \<Rightarrow> thrown + PlayerColor" where
  "color_game v =
     (if v \<noteq> ''w'' \<and> v \<noteq> ''b''
      then Inl (allocation_mismatch ''A durable game contains an invalid turn color.'')
      else Inr (if v = ''w'' then White else Black))"

definition domainResult :: "string option \<Rightarrow> GameResult option" where
  "domainResult v =
     Option.bind v (\<lambda>s. map_of [(''*'', void), (''0-1'', black_win), (''1-0'', white_win), (''1/2-1/2'', draw)] s)"

definition domainTermination :: "string option \<Rightarrow> GameTermination option" where
  "domainTermination v =
     Option.bind v (\<lambda>s. map_of
       [(''ABANDONMENT'', abandonment), (''CHECKMATE'', Board checkmate), (''FIFTY_MOVE_RULE'', Board fifty_move),
        (''INSUFFICIENT_MATERIAL'', Board insufficient_material), (''JOIN_TIMEOUT'', no_show),
        (''RESIGNATION'', resignation), (''STALEMATE'', Board stalemate), (''SYSTEM'', double_abandon),
        (''THREEFOLD_REPETITION'', Board threefold_repetition), (''TIMEOUT'', timeout)] s)"

definition isStatus :: "string \<Rightarrow> GameStatus option" where
  "isStatus v = List.find (\<lambda>s. status_text s = v)
     [ABANDONED, COMPLETED, CREATED, EXPIRED, IN_PROGRESS, READY, RECONNECTING, WAITING_FOR_PLAYERS]"

definition persistedResult_game :: "GameResult option \<Rightarrow> string option" where
  "persistedResult_game v =
     map_option (\<lambda>r. case r of black_win \<Rightarrow> ''0-1'' | draw \<Rightarrow> ''1/2-1/2'' | void \<Rightarrow> ''*'' | white_win \<Rightarrow> ''1-0'') v"

fun termination_column :: "GameTermination \<Rightarrow> string" where
  "termination_column abandonment = ''ABANDONMENT''"
| "termination_column (Board checkmate) = ''CHECKMATE''"
| "termination_column double_abandon = ''SYSTEM''"
| "termination_column (Board fifty_move) = ''FIFTY_MOVE_RULE''"
| "termination_column (Board insufficient_material) = ''INSUFFICIENT_MATERIAL''"
| "termination_column no_show = ''JOIN_TIMEOUT''"
| "termination_column resignation = ''RESIGNATION''"
| "termination_column (Board stalemate) = ''STALEMATE''"
| "termination_column (Board threefold_repetition) = ''THREEFOLD_REPETITION''"
| "termination_column timeout = ''TIMEOUT''"

definition persistedTermination_game :: "GameTermination option \<Rightarrow> string option" where
  "persistedTermination_game v = map_option termination_column v"

definition mapGame :: "game_row \<Rightarrow> thrown + GameRecord" where
  "mapGame g =
     (case (if g_mode g \<noteq> ''BLITZ'' then None else isStatus (g_status g)) of
        None \<Rightarrow> Inl (allocation_mismatch ''A durable game contains an unsupported mode or status.'')
      | Some status \<Rightarrow>
          sbind (color_game (g_turn_color g)) (\<lambda>turn.
          Inr \<lparr>gm_blackClockMs = g_black_clock_ms g, gm_currentFen = g_current_fen g,
               gm_endedAt = g_ended_at g, gm_id = g_id g, gm_incrementMs = g_increment_ms g,
               gm_initialFen = g_initial_fen g, gm_joinDeadlineAt = g_join_deadline_at g,
               gm_matchId = g_match_id g, gm_pgn = g_pgn g, gm_result = domainResult (g_result g),
               gm_startedAt = g_started_at g, gm_status = status,
               gm_termination = domainTermination (g_termination g),
               gm_timeInitialMs = g_time_initial_ms g, gm_turnColor = turn,
               gm_turnStartedAt = g_turn_started_at g, gm_updatedAt = g_updated_at g,
               gm_version = g_version g, gm_whiteClockMs = g_white_clock_ms g\<rparr>))"

definition mapPlayer :: "player_row \<times> guest_row \<Rightarrow> thrown + GamePlayerRecord" where
  "mapPlayer pg =
     (let p = fst pg; guest = snd pg in
      if p_slot p \<noteq> 0 \<and> p_slot p \<noteq> 1 \<or> p_color p \<noteq> ''w'' \<and> p_color p \<noteq> ''b''
      then Inl (allocation_mismatch ''A durable player slot is malformed.'')
      else Inr \<lparr>gp_avatarKey = gs_avatar_key guest, gp_color = (if p_color p = ''w'' then White else Black),
                gp_connectedAt = p_connected_at p, gp_disconnectedAt = p_disconnected_at p,
                gp_displayName = gs_display_name guest, gp_gameId = p_game_id p,
                gp_guestSessionId = p_guest_session_id p, gp_id = p_id p, gp_joinedAt = p_joined_at p,
                gp_reconnectGraceEndsAt = p_reconnect_grace_ends_at p, gp_slot = p_slot p\<rparr>)"

text \<open>\<open>xs.map(f)\<close> where \<open>f\<close> may throw.\<close>

fun map_sum_list :: "('a \<Rightarrow> 'e + 'b) \<Rightarrow> 'a list \<Rightarrow> 'e + 'b list" where
  "map_sum_list f [] = Inr []"
| "map_sum_list f (x # xs) = sbind (f x) (\<lambda>y. sbind (map_sum_list f xs) (\<lambda>ys. Inr (y # ys)))"

definition mapAllocation :: "PersistedAllocation \<Rightarrow> thrown + GameAllocation" where
  "mapAllocation game =
     sbind (map_sum_list mapPlayer (pa_players game)) (\<lambda>ps.
     case ps of
       [white, black] \<Rightarrow>
         sbind (mapGame (pa_game game)) (\<lambda>mapped. Inr \<lparr>al_game = mapped, al_players = (white, black)\<rparr>)
     | _ \<Rightarrow> Inl (allocation_mismatch ''A durable game does not contain exactly two players.''))"

definition mapMove :: "move_row \<Rightarrow> thrown + GameMove" where
  "mapMove m =
     sbind (color_game (m_color m)) (\<lambda>color.
     Inr \<lparr>gv_clientMoveId = m_client_move_id m, gv_color = color, gv_fenAfter = m_fen_after m,
          gv_fenBefore = m_fen_before m, gv_guestSessionId = m_guest_session_id m, gv_ply = m_ply m,
          gv_san = m_san m, gv_serverReceivedAt = m_server_received_at m, gv_uci = m_uci m\<rparr>)"

definition mapSnapshot :: "PersistedAllocation \<Rightarrow> move_row list \<Rightarrow> int \<Rightarrow> thrown + GameSnapshotRecord" where
  "mapSnapshot game ms observedAt =
     sbind (mapAllocation game) (\<lambda>allocation.
     sbind (map_sum_list mapMove ms) (\<lambda>gameMoves.
     Inr \<lparr>sn_allocation = allocation, sn_moves = gameMoves, sn_observedAt = observedAt\<rparr>))"

text \<open>
  Loading a game with its players and their guest sessions. A foreign key makes
  sure that the session of a player is there.
\<close>

definition loadAllocation :: "db \<Rightarrow> game_row \<Rightarrow> PersistedAllocation" where
  "loadAllocation db g =
     \<lparr>pa_game = g,
      pa_players = List.map_filter
        (\<lambda>p. map_option (\<lambda>gs. (p, gs)) (find_guest db (p_guest_session_id p))) (players_of db (g_id g))\<rparr>"

definition matchesReservation :: "PersistedAllocation \<Rightarrow> AllocateGame \<Rightarrow> bool" where
  "matchesReservation game input =
     (let expectedPlayers = sort [ag_whiteGuestSessionId input, ag_blackGuestSessionId input];
          actualPlayers = sort (map (\<lambda>(p, _). p_guest_session_id p) (pa_players game))
      in g_id (pa_game game) = ag_gameId input \<and> g_mode (pa_game game) = ag_mode input \<and>
         length actualPlayers = 2 \<and>
         list_all (\<lambda>(index, guest). index < length expectedPlayers \<and> guest = expectedPlayers ! index)
           (enumerate 0 actualPlayers))"

section \<open>Allocation\<close>

definition newGameRow :: "tx_env \<Rightarrow> AllocateGame \<Rightarrow> game_row" where
  "newGameRow env input =
     \<lparr>g_id = ag_gameId input, g_match_id = ag_matchId input, g_mode = ag_mode input,
      g_status = ''WAITING_FOR_PLAYERS'', g_initial_fen = ag_initialFen input,
      g_current_fen = ag_initialFen input, g_turn_color = ''w'', g_pgn = ag_pgn input, g_version = 0,
      g_result = None, g_termination = None, g_time_initial_ms = ag_timeInitialMs input,
      g_increment_ms = ag_timeIncrementMs input, g_white_clock_ms = ag_timeInitialMs input,
      g_black_clock_ms = ag_timeInitialMs input, g_turn_started_at = None,
      g_join_deadline_at = Some (ag_joinDeadlineAt input), g_reconnect_deadline_at = None,
      g_started_at = None, g_ended_at = None, g_updated_at = te_appNow env\<rparr>"

definition newPlayerRow :: "string \<Rightarrow> string \<Rightarrow> string \<Rightarrow> string \<Rightarrow> int \<Rightarrow> player_row" where
  "newPlayerRow pid gid guest color slot =
     \<lparr>p_id = pid, p_game_id = gid, p_guest_session_id = guest, p_color = color, p_slot = slot,
      p_joined_at = None, p_connected_at = None, p_disconnected_at = None, p_reconnect_grace_ends_at = None\<rparr>"

text \<open>A nested \<open>connect\<close> fails when the record to connect to is missing.\<close>

definition connect_guest :: "string \<Rightarrow> unit tx" where
  "connect_guest guest =
     tbind (fetch (\<lambda>db. find_guest db guest)) (\<lambda>r. if r = None then throw record_not_found else ret ())"

definition createAssignment :: "string \<Rightarrow> string \<Rightarrow> unit tx" where
  "createAssignment gid guest =
     tbind (connect_guest guest) (\<lambda>_. insert_assignment \<lparr>a_guest_session_id = guest, a_game_id = gid\<rparr>)"

definition createPlayer :: "player_row \<Rightarrow> unit tx" where
  "createPlayer p = tbind (connect_guest (p_guest_session_id p)) (\<lambda>_. insert_player p)"

definition createGame :: "tx_env \<Rightarrow> AllocateGame \<Rightarrow> unit tx" where
  "createGame env input =
     (let gid = ag_gameId input; white = ag_whiteGuestSessionId input; black = ag_blackGuestSessionId input;
          sortedGuestIds = sort [white, black] in
      tbind (insert_game (newGameRow env input)) (\<lambda>_.
      tbind (createAssignment gid (sortedGuestIds ! 0)) (\<lambda>_.
      tbind (createAssignment gid (sortedGuestIds ! 1)) (\<lambda>_.
      tbind (createPlayer (newPlayerRow (te_newId1 env) gid white ''w'' 0)) (\<lambda>_.
      createPlayer (newPlayerRow (te_newId2 env) gid black ''b'' 1))))))"

definition eligibleGuests :: "db \<Rightarrow> AllocateGame \<Rightarrow> nat" where
  "eligibleGuests db input =
     count_rows (\<lambda>r. gs_expires_at r > ag_observedAt input \<and>
       gs_id r \<in> {ag_whiteGuestSessionId input, ag_blackGuestSessionId input} \<and> gs_revoked_at r = None)
       (guests db)"

definition allocateInTransaction :: "tx_env \<Rightarrow> AllocateGame \<Rightarrow> AllocationTransactionResult tx" where
  "allocateInTransaction env input =
     (let white = ag_whiteGuestSessionId input; black = ag_blackGuestSessionId input in
      tbind (lockGuestSessions [white, black]) (\<lambda>_.
      tbind (fetch (\<lambda>db. map_option (loadAllocation db)
        (find_row (\<lambda>g. g_match_id g = ag_matchId input) (games db)))) (\<lambda>existing.
      case existing of
        Some allocation \<Rightarrow>
          ret (if matchesReservation allocation input then alloc_allocated allocation else alloc_mismatch)
      | None \<Rightarrow>
          tbind (fetch (\<lambda>db. eligibleGuests db input)) (\<lambda>eligible.
          if eligible \<noteq> 2 then ret alloc_ineligible
          else tbind (fetch (\<lambda>db. find_row (\<lambda>a. a_guest_session_id a \<in> {white, black}) (assignments db)))
            (\<lambda>assignment.
            if assignment \<noteq> None then ret alloc_conflict
            else tbind (createGame env input) (\<lambda>_.
              tbind (fetch (\<lambda>db. map_option (loadAllocation db) (find_game db (ag_gameId input)))) (\<lambda>created.
              case created of
                None \<Rightarrow> throw record_not_found
              | Some allocation \<Rightarrow> ret (alloc_allocated allocation))))))))"

definition allocate :: "tx_env \<Rightarrow> AllocateGame \<Rightarrow> db \<Rightarrow> (thrown + GameAllocation) \<times> db" where
  "allocate env input db =
     (if ag_whiteGuestSessionId input = ag_blackGuestSessionId input
      then (Inl (allocation_mismatch ''A game requires two distinct guests.''), db)
      else case run (te_fault env) (allocateInTransaction env input) db of
          (Inl e, db') \<Rightarrow> (Inl e, db')
        | (Inr (alloc_allocated allocation), db') \<Rightarrow> (mapAllocation allocation, db')
        | (Inr alloc_conflict, db') \<Rightarrow> (Inl (ServiceErr (serviceError GUEST_ALREADY_IN_GAME
            ''A reserved guest already has a durable active game.'' False)), db')
        | (Inr alloc_ineligible, db') \<Rightarrow> (Inl (ServiceErr (serviceError GUEST_NOT_ELIGIBLE
            ''A reserved guest session is no longer eligible.'' False)), db')
        | (Inr alloc_mismatch, db') \<Rightarrow> (Inl (allocation_mismatch
            ''The durable match allocation does not match its reservation.''), db'))"

section \<open>Readiness and start\<close>

definition markReadyInTransaction :: "tx_env \<Rightarrow> MarkGameReady \<Rightarrow> ReadyTransactionResult tx" where
  "markReadyInTransaction env input =
     (let gid = mr_gameId input in
      tbind (fetch (\<lambda>db. map_option (loadAllocation db) (find_game db gid))) (\<lambda>found.
      case found of
        None \<Rightarrow> ret ready_missing
      | Some loaded \<Rightarrow>
          (let g = pa_game loaded in
           case List.find (\<lambda>p. p_guest_session_id p = mr_guestSessionId input) (map fst (pa_players loaded)) of
             None \<Rightarrow> ret ready_not_player
           | Some player \<Rightarrow>
               (let idempotent = p_joined_at player \<noteq> None \<and>
                      g_status g \<in> {''READY'', ''IN_PROGRESS'', ''RECONNECTING''} in
                if mr_expectedVersion input \<noteq> g_version g \<and> \<not> idempotent
                then ret (ready_stale (g_version g))
                else if g_status g \<notin> {''WAITING_FOR_PLAYERS'', ''READY'', ''IN_PROGRESS'', ''RECONNECTING''}
                then ret ready_unavailable
                else
                  tbind (update_player (p_id player) (\<lambda>p. p\<lparr>p_connected_at := Some (mr_observedAt input),
                    p_joined_at := (case p_joined_at player of None \<Rightarrow> Some (mr_observedAt input) | j \<Rightarrow> j)\<rparr>)) (\<lambda>_.
                  tbind (fetch (\<lambda>db. count_rows (\<lambda>p. p_game_id p = gid \<and> p_joined_at p \<noteq> None) (players db)))
                    (\<lambda>joinedPlayers.
                  tbind (if g_status g = ''WAITING_FOR_PLAYERS'' \<and> joinedPlayers = 2
                         then updateGameAtVersion env (g_id g) (g_version g) (\<lambda>r. r\<lparr>g_status := ''READY''\<rparr>)
                         else ret (Some (g_version g))) (\<lambda>version.
                  if version = None then ret (ready_stale (g_version g))
                  else
                    tbind (fetch (\<lambda>db. map_option (loadAllocation db) (find_game db gid))) (\<lambda>reloaded.
                    case reloaded of
                      None \<Rightarrow> ret ready_missing
                    | Some allocation \<Rightarrow> ret (ready_ready allocation)))))))))"

definition markReady :: "tx_env \<Rightarrow> MarkGameReady \<Rightarrow> db \<Rightarrow> (thrown + GameAllocation) \<times> db" where
  "markReady env input db =
     (case run (te_fault env) (markReadyInTransaction env input) db of
        (Inl e, db') \<Rightarrow> (Inl e, db')
      | (Inr (ready_ready allocation), db') \<Rightarrow> (mapAllocation allocation, db')
      | (Inr ready_missing, db') \<Rightarrow> (Inl (ServiceErr (serviceError GAME_NOT_FOUND
          ''The requested game does not exist.'' False)), db')
      | (Inr ready_not_player, db') \<Rightarrow> (Inl (ServiceErr (serviceError NOT_A_PLAYER
          ''The authenticated guest is not a member of this game.'' False)), db')
      | (Inr (ready_stale version), db') \<Rightarrow> (Inl (ServiceErr (serviceErrorAt STALE_GAME_VERSION
          ''The game version is stale.'' True (Some version))), db')
      | (Inr ready_unavailable, db') \<Rightarrow> (Inl (ServiceErr (serviceError GAME_UNAVAILABLE
          ''The game is not waiting for player readiness.'' False)), db'))"

definition startData :: "int \<Rightarrow> game_row \<Rightarrow> game_row" where
  "startData observedAt g =
     g\<lparr>g_started_at := Some observedAt, g_status := ''IN_PROGRESS'', g_turn_started_at := Some observedAt\<rparr>"

definition startIfReadyInTransaction :: "tx_env \<Rightarrow> string \<Rightarrow> StartTransactionResult tx" where
  "startIfReadyInTransaction env gameId =
     tbind (lockGameClock env gameId) (\<lambda>lock.
     case lock of
       None \<Rightarrow> ret start_missing
     | Some locked \<Rightarrow>
         tbind (if lk_status locked = ''READY''
                then updateGameAtVersion env gameId (lk_version locked) (startData (lk_observedAt locked))
                else ret (Some (lk_version locked))) (\<lambda>version.
         if version = None then ret (start_stale (lk_version locked))
         else
           tbind (fetch (\<lambda>db. map_option (loadAllocation db) (find_game db gameId))) (\<lambda>found.
           case found of
             None \<Rightarrow> ret start_missing
           | Some allocation \<Rightarrow> ret (start_found allocation (lk_status locked = ''READY'')))))"

definition startIfReady :: "tx_env \<Rightarrow> string \<Rightarrow> db \<Rightarrow> (thrown + StartGameResult) \<times> db" where
  "startIfReady env gameId db =
     (case run (te_fault env) (startIfReadyInTransaction env gameId) db of
        (Inl e, db') \<Rightarrow> (Inl e, db')
      | (Inr (start_found allocation started), db') \<Rightarrow>
          (sbind (mapAllocation allocation) (\<lambda>a. Inr \<lparr>sr_allocation = a, sr_started = started\<rparr>), db')
      | (Inr start_missing, db') \<Rightarrow> (Inl (ServiceErr (serviceError GAME_NOT_FOUND
          ''The requested game does not exist.'' False)), db')
      | (Inr (start_stale version), db') \<Rightarrow> (Inl (ServiceErr (serviceErrorAt STALE_GAME_VERSION
          ''The game version changed while starting.'' True (Some version))), db'))"

section \<open>Other operations\<close>

definition updateAtVersionData :: "UpdateGameAtVersion \<Rightarrow> game_row \<Rightarrow> game_row" where
  "updateAtVersionData input g =
     g\<lparr>g_black_clock_ms := case_option (g_black_clock_ms g) id (up_blackClockMs input),
       g_current_fen := case_option (g_current_fen g) id (up_currentFen input),
       g_ended_at := case_option (g_ended_at g) id (up_endedAt input),
       g_pgn := case_option (g_pgn g) id (up_pgn input),
       g_result := case_option (g_result g) persistedResult_game (up_result input),
       g_status := case_option (g_status g) status_text (up_status input),
       g_termination := case_option (g_termination g) persistedTermination_game (up_termination input),
       g_turn_color := case_option (g_turn_color g) color_text (up_turnColor input),
       g_turn_started_at := case_option (g_turn_started_at g) id (up_turnStartedAt input),
       g_version := g_version g + 1,
       g_white_clock_ms := case_option (g_white_clock_ms g) id (up_whiteClockMs input)\<rparr>"

text \<open>
  \<open>updateAtVersion\<close> issues its statement outside a transaction of its own, so
  the statement commits by itself and its errors are not converted.
\<close>

definition updateAtVersion ::
    "tx_env \<Rightarrow> UpdateGameAtVersion \<Rightarrow> db \<Rightarrow> (thrown + GameRecord option) \<times> db" where
  "updateAtVersion env input db =
     (case update_games (te_appNow env)
         (\<lambda>g. g_id g = up_gameId input \<and> g_version g = up_expectedVersion input)
         (updateAtVersionData input) db of
        Inl e \<Rightarrow> (Inl e, db)
      | Inr (count, db') \<Rightarrow>
          if \<not> commit_ok db' then (Inl allocation_violation, db)
          else if count \<noteq> 1 then (Inr None, db')
          else case find_game db' (up_gameId input) of
              None \<Rightarrow> (Inr None, db')
            | Some g \<Rightarrow> (sbind (mapGame g) (\<lambda>r. Inr (Some r)), db'))"

definition read_row :: "tx_env \<Rightarrow> 'a \<Rightarrow> thrown + 'a" where
  "read_row env x = (case te_readFault env of Some e \<Rightarrow> Inl (toDatabaseError e) | None \<Rightarrow> Inr x)"

definition mapFound :: "PersistedAllocation option \<Rightarrow> thrown + GameAllocation option" where
  "mapFound x = (case x of None \<Rightarrow> Inr None | Some a \<Rightarrow> sbind (mapAllocation a) (\<lambda>r. Inr (Some r)))"

definition findById :: "tx_env \<Rightarrow> string \<Rightarrow> db \<Rightarrow> thrown + GameAllocation option" where
  "findById env gameId db =
     sbind (read_row env (map_option (loadAllocation db) (find_game db gameId))) mapFound"

definition findByMatchId :: "tx_env \<Rightarrow> string \<Rightarrow> db \<Rightarrow> thrown + GameAllocation option" where
  "findByMatchId env matchId db =
     sbind (read_row env (map_option (loadAllocation db) (find_row (\<lambda>g. g_match_id g = matchId) (games db))))
       mapFound"

definition findSnapshot :: "tx_env \<Rightarrow> string \<Rightarrow> db \<Rightarrow> thrown + GameSnapshotRecord option" where
  "findSnapshot env gameId db =
     sbind (fst (run (te_fault env)
       (fetch (\<lambda>db. map_option (\<lambda>g. (loadAllocation db g, moves_of db gameId)) (find_game db gameId))) db))
       (\<lambda>result.
     case result of
       None \<Rightarrow> Inr None
     | Some (game, ms) \<Rightarrow> sbind (mapSnapshot game ms (te_observedAt env)) (\<lambda>s. Inr (Some s)))"

definition activeStatuses :: "string list" where
  "activeStatuses = [''CREATED'', ''WAITING_FOR_PLAYERS'', ''READY'', ''IN_PROGRESS'', ''RECONNECTING'']"

definition afterCursor :: "GameAllocationCursor option \<Rightarrow> game_row \<Rightarrow> bool" where
  "afterCursor cursor g \<longleftrightarrow>
     (case cursor of
        None \<Rightarrow> True
      | Some c \<Rightarrow> g_updated_at g > cu_updatedAt c \<or> g_updated_at g = cu_updatedAt c \<and> g_id g > cu_id c)"

definition activePage :: "nat \<Rightarrow> GameAllocationCursor option \<Rightarrow> db \<Rightarrow> game_row list" where
  "activePage limit cursor db =
     take limit (sort_key g_updated_at (sort_key g_id
       (filter (\<lambda>g. g_status g \<in> set activeStatuses \<and> afterCursor cursor g) (games db))))"

definition findActiveAllocations ::
    "tx_env \<Rightarrow> nat \<Rightarrow> GameAllocationCursor option \<Rightarrow> db \<Rightarrow> thrown + GameAllocation list" where
  "findActiveAllocations env limit cursor db =
     sbind (read_row env (map (loadAllocation db) (activePage limit cursor db))) (map_sum_list mapAllocation)"

definition getGuestMatchEligibility ::
    "tx_env \<Rightarrow> string \<Rightarrow> int \<Rightarrow> db \<Rightarrow> thrown + GuestMatchEligibility" where
  "getGuestMatchEligibility env guestSessionId observedAt db =
     read_row env
       (case find_guest db guestSessionId of
          None \<Rightarrow> \<lparr>ge_activeGameId = None, ge_eligible = False\<rparr>
        | Some guest \<Rightarrow>
            \<lparr>ge_activeGameId = map_option a_game_id (find_assignment db guestSessionId),
             ge_eligible = (gs_revoked_at guest = None \<and> gs_expires_at guest > observedAt)\<rparr>)"

section \<open>The transaction contract\<close>

lemma createGame_keeps_tables [preserves_intro]: "preserves tables_ok (createGame env input)"
  unfolding createGame_def createAssignment_def createPlayer_def connect_guest_def Let_def
  by (intro preserves_intro)

interpretation allocate_tx: transaction "allocateInTransaction env" for env
  by unfold_locales (simp only: allocateInTransaction_def Let_def, intro preserves_intro)

interpretation ready_tx: transaction "markReadyInTransaction env" for env
  by unfold_locales
    (simp only: markReadyInTransaction_def Let_def, intro preserves_intro,
      simp_all add: keeps_player_keys_def keeps_game_keys_def)

interpretation start_tx: transaction "startIfReadyInTransaction env" for env
  by unfold_locales
    (simp only: startIfReadyInTransaction_def, intro preserves_intro,
      simp_all add: keeps_game_keys_def startData_def)

end
