(* ===== verification/Game_Invariant.thy ===== *)
theory Game_Invariant
  imports Lifecycle_Repository Game_Repository
begin

text \<open>
  The invariant that the repositories keep of every game beyond the constraints
  of the schema (\<open>game_inv\<close>): the moves are numbered without gaps, alternate in
  colour, are made by the players of these colours and chain from the initial
  to the current position; the turn is the colour of the next move; a game
  waits exactly until both players have joined; it is reconnecting exactly
  while a player is disconnected and its deadline is the earliest grace period;
  a terminal game has a consistent outcome.

  \<open>evolves\<close> says how a database may change: versions grow, an unchanged
  version means an unchanged row, a terminal row never changes, moves are only
  appended, seats and stored commands are kept. \<open>advances\<close> is what every
  transaction body is shown to do, and \<open>game_transaction\<close> is the contract.
\<close>

section \<open>The invariant of a game\<close>

definition turn_text :: "nat \<Rightarrow> string" where
  "turn_text n = (if even n then ''w'' else ''b'')"

fun fen_chain :: "string \<Rightarrow> move_row list \<Rightarrow> string \<Rightarrow> bool" where
  "fen_chain fen [] current \<longleftrightarrow> fen = current"
| "fen_chain fen (m # ms) current \<longleftrightarrow> m_fen_before m = fen \<and> fen_chain (m_fen_after m) ms current"

definition history_inv :: "game_row \<Rightarrow> player_row list \<Rightarrow> move_row list \<Rightarrow> bool" where
  "history_inv g ps ms \<longleftrightarrow>
     map m_ply ms = map (\<lambda>i. int i + 1) [0..<length ms] \<and>
     map m_color ms = map turn_text [0..<length ms] \<and> g_turn_color g = turn_text (length ms) \<and>
     fen_chain (g_initial_fen g) ms (g_current_fen g) \<and>
     (\<forall>m \<in> set ms. \<exists>p \<in> set ps. p_color p = m_color m \<and> p_guest_session_id p = m_guest_session_id m) \<and>
     int (length ms) \<le> g_version g"

definition graces :: "player_row list \<Rightarrow> int list" where
  "graces ps = List.map_filter p_reconnect_grace_ends_at ps"

definition all_joined :: "player_row list \<Rightarrow> bool" where
  "all_joined ps \<longleftrightarrow> (\<forall>p \<in> set ps. p_joined_at p \<noteq> None)"

definition status_inv :: "game_row \<Rightarrow> player_row list \<Rightarrow> move_row list \<Rightarrow> bool" where
  "status_inv g ps ms \<longleftrightarrow>
     map p_slot ps = [0, 1] \<and> map p_color ps = [''w'', ''b''] \<and> g_status g \<noteq> ''CREATED'' \<and>
     (g_status g = ''WAITING_FOR_PLAYERS'' \<longrightarrow> \<not> all_joined ps) \<and>
     (g_status g \<in> {''READY'', ''IN_PROGRESS'', ''RECONNECTING'', ''COMPLETED''} \<longrightarrow> all_joined ps) \<and>
     (g_status g = ''RECONNECTING'' \<longleftrightarrow> graces ps \<noteq> []) \<and>
     g_reconnect_deadline_at g = earliest (graces ps) \<and>
     (g_status g \<in> {''WAITING_FOR_PLAYERS'', ''READY''} \<longrightarrow>
        ms = [] \<and> g_started_at g = None \<and>
        g_white_clock_ms g = g_time_initial_ms g \<and> g_black_clock_ms g = g_time_initial_ms g)"

definition outcome_inv :: "game_row \<Rightarrow> bool" where
  "outcome_inv g \<longleftrightarrow>
     (terminal_text (g_status g) \<longrightarrow>
        (\<exists>out. outcome_ok out \<and> g_status g = status_text (to_status out) \<and>
           g_result g = Some (persistedResult (to_result out)) \<and>
           g_termination g = Some (persistedTermination (to_termination out))))"

definition game_inv :: "game_row \<Rightarrow> player_row list \<Rightarrow> move_row list \<Rightarrow> bool" where
  "game_inv g ps ms \<longleftrightarrow> history_inv g ps ms \<and> status_inv g ps ms \<and> outcome_inv g"

definition games_inv :: "db \<Rightarrow> bool" where
  "games_inv db \<longleftrightarrow>
     (\<forall>g \<in> set (games db). game_inv g (players_of db (g_id g)) (moves_of db (g_id g)))"

section \<open>How a database evolves\<close>

definition row_evolves :: "game_row \<Rightarrow> game_row \<Rightarrow> bool" where
  "row_evolves g g' \<longleftrightarrow>
     g_version g \<le> g_version g' \<and> (g_version g' = g_version g \<longrightarrow> g' = g) \<and>
     (terminal_text (g_status g) \<longrightarrow> g' = g) \<and>
     g_id g' = g_id g \<and> g_match_id g' = g_match_id g \<and> g_initial_fen g' = g_initial_fen g \<and>
     g_time_initial_ms g' = g_time_initial_ms g \<and> g_increment_ms g' = g_increment_ms g"

definition seat :: "player_row \<Rightarrow> string \<times> string \<times> string \<times> string \<times> int" where
  "seat p = (p_id p, p_game_id p, p_guest_session_id p, p_color p, p_slot p)"

definition evolves :: "db \<Rightarrow> db \<Rightarrow> bool" where
  "evolves db db' \<longleftrightarrow>
     (\<forall>gid g. find_game db gid = Some g \<longrightarrow>
        (\<exists>g'. find_game db' gid = Some g' \<and> row_evolves g g') \<and>
        (\<exists>ms. moves_of db' gid = moves_of db gid @ ms) \<and>
        map seat (players_of db' gid) = map seat (players_of db gid)) \<and>
     (\<forall>gid e c. find_command db gid e = Some c \<longrightarrow> find_command db' gid e = Some c)"

lemma row_evolves_refl [simp]: "row_evolves g g"
  by (simp add: row_evolves_def)

lemma row_evolves_trans: "row_evolves g g' \<Longrightarrow> row_evolves g' g'' \<Longrightarrow> row_evolves g g''"
  by (auto simp: row_evolves_def)

lemma evolves_refl [simp]: "evolves db db"
  by (simp add: evolves_def)

lemma evolves_trans:
  assumes "evolves a b" and "evolves b c"
  shows "evolves a c"
proof -
  have "(\<exists>g''. find_game c gid = Some g'' \<and> row_evolves g g'') \<and>
      (\<exists>ms. moves_of c gid = moves_of a gid @ ms) \<and>
      map seat (players_of c gid) = map seat (players_of a gid)" if "find_game a gid = Some g" for gid g
  proof -
    from assms(1) that obtain g' ms where g': "find_game b gid = Some g'" "row_evolves g g'"
      and "moves_of b gid = moves_of a gid @ ms" "map seat (players_of b gid) = map seat (players_of a gid)"
      unfolding evolves_def by blast
    moreover from assms(2) g'(1) obtain g'' ms' where "find_game c gid = Some g''" "row_evolves g' g''"
      and "moves_of c gid = moves_of b gid @ ms'" "map seat (players_of c gid) = map seat (players_of b gid)"
      unfolding evolves_def by blast
    ultimately show ?thesis using row_evolves_trans by auto
  qed
  with assms show ?thesis unfolding evolves_def by blast
qed

text \<open>A change of one game: the invariant and the order only have to be looked at for it.\<close>

lemma games_inv_change:
  assumes inv: "games_inv db" and games: "games db' = games (set_game g' db)"
    and other: "\<And>x. x \<noteq> g_id g' \<Longrightarrow> players_of db' x = players_of db x"
      "\<And>x. x \<noteq> g_id g' \<Longrightarrow> moves_of db' x = moves_of db x"
    and changed: "game_inv g' (players_of db' (g_id g')) (moves_of db' (g_id g'))"
  shows "games_inv db'"
  unfolding games_inv_def
proof
  fix r
  assume "r \<in> set (games db')"
  then consider "r = g'" | "r \<in> set (games db)" "g_id r \<noteq> g_id g'"
    by (auto simp: games set_game_def set_update_rows split: if_splits)
  then show "game_inv r (players_of db' (g_id r)) (moves_of db' (g_id r))"
    by cases (use changed inv other in \<open>auto simp: games_inv_def\<close>)
qed

lemma evolves_change:
  assumes g: "find_game db (g_id g') = Some g" and row: "row_evolves g g'"
    and games: "games db' = games (set_game g' db)"
    and other: "\<And>x. x \<noteq> g_id g' \<Longrightarrow> players_of db' x = players_of db x"
      "\<And>x. x \<noteq> g_id g' \<Longrightarrow> moves_of db' x = moves_of db x"
    and ms: "\<exists>ms. moves_of db' (g_id g') = moves_of db (g_id g') @ ms"
    and ps: "map seat (players_of db' (g_id g')) = map seat (players_of db (g_id g'))"
    and cs: "\<exists>cs. commands db' = commands db @ cs"
  shows "evolves db db'"
proof -
  have "find_game db' x = (if x = g_id g' then Some g' else find_game db x)" for x
    using g find_game_set_game [of g' db x] by (simp add: find_game_def games)
  moreover have "find_command db' gid e = Some c" if "find_command db gid e = Some c" for gid e c
    using cs that by (auto simp: find_command_def find_row_append)
  ultimately show ?thesis
    using g row other ms ps by (auto simp: evolves_def)
qed

section \<open>Facts about the parts\<close>

lemma fen_chain_append:
  "fen_chain fen (ms @ [m]) current \<longleftrightarrow> fen_chain fen ms (m_fen_before m) \<and> m_fen_after m = current"
  by (induction ms arbitrary: fen) auto

lemma graces_simps [simp]:
  "graces [] = []"
  "graces (p # ps) = (case p_reconnect_grace_ends_at p of None \<Rightarrow> graces ps | Some e \<Rightarrow> e # graces ps)"
  by (simp_all add: graces_def List.map_filter_simps split: option.split)

lemma two_players:
  assumes "map p_slot ps = [0, 1]" and "map p_color ps = [''w'', ''b'']"
  obtains white black where "ps = [white, black]" "p_slot white = 0" "p_slot black = 1"
    "p_color white = ''w''" "p_color black = ''b''"
  using assms that by (cases ps; cases "tl ps") auto

lemma earliest_Nil [simp]: "earliest [] = None"
  by (simp add: earliest_def)


definition system_ok :: "db \<Rightarrow> bool" where
  "system_ok db \<longleftrightarrow> db_ok db \<and> games_inv db"

definition advances :: "'a tx \<Rightarrow> bool" where
  "advances m \<longleftrightarrow>
     (\<forall>db a db'. system_ok db \<longrightarrow> m db = Inr (a, db') \<longrightarrow> games_inv db' \<and> evolves db db')"

lemma system_ok_tables: "system_ok db \<Longrightarrow> tables_ok db"
  by (simp add: system_ok_def db_ok_def)

lemma system_ok_game:
  assumes "system_ok db" and "find_game db gid = Some g"
  shows "game_inv g (players_of db gid) (moves_of db gid)" and "game_check g" and "game_range g"
    and "g_id g = gid"
proof -
  show gid: "g_id g = gid" using assms(2) by (rule find_gameD)
  show "game_inv g (players_of db gid) (moves_of db gid)"
    using assms(1) find_gameD [OF assms(2)] by (auto simp: system_ok_def games_inv_def)
  show "game_check g" "game_range g"
    using system_ok_tables [OF assms(1)] games_ok_find [OF _ assms(2)] by (auto simp: tables_ok_def)
qed

lemma game_inv_two:
  assumes "game_inv g ps ms"
  obtains white black where "ps = [white, black]" "p_slot white = 0" "p_slot black = 1"
    "p_color white = ''w''" "p_color black = ''b''"
  using assms two_players that by (auto simp: game_inv_def status_inv_def)

lemma lockGameClock_Some:
  assumes "lockGameClock env gid db = Inr (Some locked, db')"
  obtains g where "find_game db gid = Some g" "db' = db" "lk_status locked = g_status g"
    "lk_version locked = g_version g" "lk_turnColor locked = g_turn_color g"
    "lk_observedAt locked = te_observedAt env"
    "clock_sql g ''w'' (g_white_clock_ms g) (te_observedAt env) = Inr (lk_whiteClockMs locked)"
    "clock_sql g ''b'' (g_black_clock_ms g) (te_observedAt env) = Inr (lk_blackClockMs locked)"
  using assms by (auto simp: lockGameClock_def sbind_Inr_iff split: option.splits)

lemma lockGameClock_None: "lockGameClock env gid db = Inr (None, db') \<Longrightarrow> find_game db gid = None \<and> db' = db"
  by (auto simp: lockGameClock_def sbind_Inr_iff split: option.splits)

lemma withLockedGame_cases:
  assumes "withLockedGame env gid proceed work db = Inr (r, db')"
  obtains "db' = db"
  | g locked where "find_game db gid = Some g" "lockGameClock env gid db = Inr (Some locked, db)"
      "lk_status locked = g_status g" "proceed locked"
      "work locked \<lparr>pg_game = g, pg_moves = [], pg_players = players_of db gid\<rparr> db = Inr (r, db')"
proof -
  from assms obtain lock db1 where lock: "lockGameClock env gid db = Inr (lock, db1)"
    by (auto simp: withLockedGame_def tbind_Inr_iff)
  show ?thesis
  proof (cases lock)
    case None
    with assms lock lockGameClock_None [of env gid db db1] show ?thesis
      using that(1) by (simp add: withLockedGame_def tbind_run_Inr)
  next
    case (Some locked)
    with lock obtain g where g: "find_game db gid = Some g" "db1 = db" "lk_status locked = g_status g"
      by (auto elim: lockGameClock_Some)
    with assms lock Some show ?thesis
      using that by (auto simp: withLockedGame_def tbind_run_Inr findGame_def split: if_splits)
  qed
qed

section \<open>Bodies that advance the system\<close>

lemma advancesD:
  "advances m \<Longrightarrow> system_ok db \<Longrightarrow> m db = Inr (a, db') \<Longrightarrow> games_inv db' \<and> evolves db db'"
  by (simp add: advances_def)

lemma unchanged_advances: "system_ok db \<Longrightarrow> db' = db \<Longrightarrow> games_inv db' \<and> evolves db db'"
  by (simp add: system_ok_def)

lemma advances_withLockedGame:
  assumes "\<And>db g locked r db'. system_ok db \<Longrightarrow> find_game db gid = Some g \<Longrightarrow>
      lockGameClock env gid db = Inr (Some locked, db) \<Longrightarrow> lk_status locked = g_status g \<Longrightarrow> proceed locked \<Longrightarrow>
      work locked \<lparr>pg_game = g, pg_moves = [], pg_players = players_of db gid\<rparr> db = Inr (r, db') \<Longrightarrow>
      games_inv db' \<and> evolves db db'"
  shows "advances (withLockedGame env gid proceed work)"
  unfolding advances_def
proof (intro allI impI)
  fix db a db'
  assume sys: "system_ok db" and run: "withLockedGame env gid proceed work db = Inr (a, db')"
  from run show "games_inv db' \<and> evolves db db'"
    by (rule withLockedGame_cases) (use assms sys unchanged_advances in blast)+
qed

lemma advances_withAssignedGame:
  assumes "\<And>gid. advances (withLockedGame env gid (\<lambda>_. True) work)"
  shows "advances (withAssignedGame env guest work)"
proof (cases "find_assignment (te_earlier env) guest")
  case None
  then show ?thesis by (auto simp: withAssignedGame_def advances_def system_ok_def)
next
  case (Some a)
  with assms show ?thesis by (simp add: withAssignedGame_def)
qed

lemma insert_command_Inr_iff:
  "insert_command c db = Inr (u, db') \<longleftrightarrow>
     int4 (c_result_version c) \<and> command_check c \<and>
     find_command db (c_game_id c) (c_event_id c) = None \<and>
     find_game db (c_game_id c) \<noteq> None \<and> find_guest db (c_guest_session_id c) \<noteq> None \<and>
     db' = db\<lparr>commands := commands db @ [c]\<rparr>"
  by (auto simp: insert_command_def find_command_def find_row_None_iff list_ex_iff split: if_splits)

lemma command_keeps_inv:
  "games_inv (db\<lparr>commands := cs\<rparr>) = games_inv db"
  by (simp add: games_inv_def)

lemma evolves_command:
  "evolves db (db\<lparr>commands := commands db @ [c]\<rparr>)"
  by (auto simp: evolves_def find_command_def find_row_append)

section \<open>The earliest deadline\<close>

lemma earliest_fold:
  "fold (\<lambda>v acc. case acc of None \<Rightarrow> Some v | Some e \<Rightarrow> if v < e then Some v else Some e) vs (Some x) =
     Some (Min (insert x (set vs)))"
proof (induction vs arbitrary: x)
  case (Cons v vs)
  have low: "Min (insert y (set vs)) \<le> y" for y by simp
  have two: "Min (insert y (insert z (set vs))) = Min (insert z (set vs))" if "z \<le> y" for y z
  proof -
    have "Min (insert y (insert z (set vs))) = min y (Min (insert z (set vs)))" by (rule Min_insert) auto
    also have "\<dots> = Min (insert z (set vs))"
      using order_trans [OF low that] by (rule min_absorb2)
    finally show ?thesis .
  qed
  have "Min (insert x (insert v (set vs))) =
      (if v < x then Min (insert v (set vs)) else Min (insert x (set vs)))"
    using two [of v x] two [of x v] insert_commute [of x v "set vs"] by (auto simp del: Min_insert)
  with Cons [of v] Cons [of x] show ?case by simp
qed simp

lemma earliest_eq_Min: "earliest vs = (if vs = [] then None else Some (Min (set vs)))"
  by (cases vs) (simp_all add: earliest_def earliest_fold)

lemma earliest_cong: "set xs = set ys \<Longrightarrow> earliest xs = earliest ys"
  by (cases "xs = []"; cases "ys = []") (auto simp: earliest_eq_Min)

section \<open>One player of a game\<close>

lemma update_player_Inr_iff:
  "update_player pid f db = Inr (u, db') \<longleftrightarrow>
     (\<forall>p \<in> set (players db). p_id p = pid \<longrightarrow> player_check (f p)) \<and>
     (\<exists>p \<in> set (players db). p_id p = pid) \<and>
     db' = db\<lparr>players := update_rows (\<lambda>p. p_id p = pid) f (players db)\<rparr>"
  by (auto simp: update_player_def tbind_Inr_iff update_players_Inr_iff count_rows_def filter_empty_conv
    split: if_splits)

lemma players_of_update_one:
  assumes ok: "tables_ok db" and player: "player \<in> set (players_of db gid)" and f: "keeps_player_keys f"
  shows "players_of (db\<lparr>players := update_rows (\<lambda>p. p_id p = p_id player) f (players db)\<rparr>) x =
    (if x = gid then map (\<lambda>p. if p_id p = p_id player then f p else p) (players_of db gid)
     else players_of db x)"
proof -
  have "players_of (db\<lparr>players := update_rows (\<lambda>p. p_id p = p_id player) f (players db)\<rparr>) x =
      map (\<lambda>p. if p_id p = p_id player then f p else p) (players_of db x)"
    using f by (intro players_of_update) (simp_all add: keeps_player_keysD)
  moreover have "p_id p \<noteq> p_id player" if "p \<in> set (players_of db x)" "x \<noteq> gid" for p
  proof
    assume same: "p_id p = p_id player"
    have "distinct (map p_id (players db))" using ok by (simp add: tables_ok_def players_ok_def)
    with same that player have "p = player" by (auto simp: distinct_map dest: inj_onD)
    with that player show False by auto
  qed
  then have "map (\<lambda>p. if p_id p = p_id player then f p else p) (players_of db x) = players_of db x"
    if "x \<noteq> gid" using that by (auto intro: map_idI)
  ultimately show ?thesis by auto
qed

lemma players_of_ids:
  assumes "tables_ok db"
  shows "distinct (map p_id (players_of db gid))" "\<forall>p \<in> set (players_of db gid). player_check p"
proof -
  have "distinct (map p_id (filter (\<lambda>p. p_game_id p = gid) (players db)))"
    using assms by (simp add: tables_ok_def players_ok_def distinct_map_filter)
  then show "distinct (map p_id (players_of db gid))"
    by (auto simp: players_of_def distinct_map)
  show "\<forall>p \<in> set (players_of db gid). player_check p"
    using assms by (auto simp: tables_ok_def players_ok_def)
qed

text \<open>An update of one player and of the row of the same game.\<close>

lemma player_and_game_advances:
  assumes sys: "system_ok db" and g: "find_game db gid = Some g" and player: "player \<in> set (players_of db gid)"
    and f: "keeps_player_keys f" and g': "g_id g' = gid" "row_evolves g g'"
    and inv: "game_inv g' (map (\<lambda>p. if p_id p = p_id player then f p else p) (players_of db gid)) (moves_of db gid)"
    and db': "db' = set_game g' (db\<lparr>players := update_rows (\<lambda>p. p_id p = p_id player) f (players db)\<rparr>)"
  shows "games_inv db' \<and> evolves db db'"
proof -
  note ps = players_of_update_one [OF system_ok_tables [OF sys] player f]
  have games: "games db' = games (set_game g' db)" by (simp add: db' set_game_def)
  have others: "players_of db' x = players_of db x" "moves_of db' x = moves_of db x"
    if "x \<noteq> g_id g'" for x
    using that g'(1) by (simp_all add: db' ps)
  have here: "players_of db' (g_id g') = map (\<lambda>p. if p_id p = p_id player then f p else p) (players_of db gid)"
    "moves_of db' (g_id g') = moves_of db gid"
    using g'(1) by (simp_all add: db' ps)
  have "seat (f p) = seat p" for p using f by (simp add: seat_def keeps_player_keysD)
  then have seats: "map seat (players_of db' (g_id g')) = map seat (players_of db (g_id g'))"
    unfolding here using g'(1) by (simp add: comp_def if_distrib cong: if_cong)
  have "games_inv db'"
    using sys games others inv here by (intro games_inv_change [of db db' g']) (auto simp: system_ok_def)
  moreover have "evolves db db'"
  proof (rule evolves_change [of db g' g])
    show "\<exists>cs. commands db' = commands db @ cs" by (simp add: db')
    show "\<exists>ms. moves_of db' (g_id g') = moves_of db (g_id g') @ ms" using g'(1) here by simp
  qed (use g g' games others seats in auto)
  ultimately show ?thesis ..
qed

lemma playerFor_Some:
  assumes "playerFor game guest = Some (player, color)"
  shows "player \<in> set (pg_players game)" "p_guest_session_id player = guest" "p_color player = color_text color"
proof -
  have color: "colorSchema (JStr s) = Some c \<longleftrightarrow> s = color_text c" for s c
    by (cases c) (auto simp: colorSchema_def as_enum_def split: if_splits)
  from assms have "List.find (\<lambda>c. p_guest_session_id c = guest) (pg_players game) = Some player"
    and "colorSchema (JStr (p_color player)) = Some color"
    by (auto simp: playerFor_def split: option.splits)
  then show "player \<in> set (pg_players game)" "p_guest_session_id player = guest"
    "p_color player = color_text color"
    by (auto simp: find_Some_iff color)
qed

text \<open>The grace periods of a game whose two players are \<open>white\<close> and \<open>black\<close>, one of them changed.\<close>

lemma graces_update_one:
  assumes "distinct (map p_id ps)" and "length ps = 2" and "player \<in> set ps"
  shows "set (graces (map (\<lambda>p. if p_id p = p_id player then f p else p) ps)) =
      set_option (p_reconnect_grace_ends_at (f player)) \<union>
      set (List.map_filter p_reconnect_grace_ends_at (filter (\<lambda>p. p_id p \<noteq> p_id player) ps))"
proof -
  from assms(2) obtain a b where ps: "ps = [a, b]" by (auto simp: length_Suc_conv numeral_2_eq_2)
  with assms show ?thesis
    by (auto simp: ps List.map_filter_simps split: option.splits)
qed


lemma map_one_fields:
  assumes "\<And>p. k (f p) = k p"
  shows "map k (map (\<lambda>p. if p_id p = pid then f p else p) ps) = map k ps"
  using assms by (induction ps) auto

lemma update_one_mover:
  assumes "keeps_player_keys f"
  shows "(\<exists>p \<in> set (map (\<lambda>p. if p_id p = pid then f p else p) ps). p_color p = c \<and> p_guest_session_id p = u) \<longleftrightarrow>
    (\<exists>p \<in> set ps. p_color p = c \<and> p_guest_session_id p = u)"
  using keeps_player_keysD [OF assms] by (induction ps) auto

lemma set_game_same:
  assumes "system_ok db" and "find_game db gid = Some g"
  shows "update_rows (\<lambda>r. g_id r = g_id g) (\<lambda>_. g) (games db) = games db"
proof -
  have "distinct (map g_id (games db))"
    using system_ok_tables [OF assms(1)] by (simp add: tables_ok_def games_ok_def)
  then have "r = g" if "r \<in> set (games db)" "g_id r = g_id g" for r
    using that find_gameD [OF assms(2)] by (auto simp: distinct_map dest: inj_onD)
  then show ?thesis unfolding update_rows_def by (intro map_idI) auto
qed

text \<open>A change of a player that the invariant does not read.\<close>

lemma game_inv_same_players:
  assumes inv: "game_inv g ps ms" and f: "keeps_player_keys f"
    and "\<And>p. p_joined_at (f p) = p_joined_at p"
    and "\<And>p. p_reconnect_grace_ends_at (f p) = p_reconnect_grace_ends_at p"
  shows "game_inv g (map (\<lambda>p. if p_id p = pid then f p else p) ps) ms"
proof -
  let ?ps' = "map (\<lambda>p. if p_id p = pid then f p else p) ps"
  have "map p_slot ?ps' = map p_slot ps" "map p_color ?ps' = map p_color ps"
    using f by (simp_all only: map_one_fields keeps_player_keysD)
  moreover have "all_joined ?ps' = all_joined ps"
    unfolding all_joined_def using assms(3) by (induction ps) auto
  moreover have "graces ?ps' = graces ps"
    using assms(4) by (induction ps) (auto split: option.splits)
  ultimately have "status_inv g ?ps' ms = status_inv g ps ms"
    unfolding status_inv_def by (simp only:)
  moreover have "history_inv g ?ps' ms"
    using inv by (simp add: game_inv_def history_inv_def update_one_mover [OF f] del: set_map)
  ultimately show ?thesis using inv by (simp add: game_inv_def)
qed

section \<open>The contract of a game transaction\<close>

text \<open>A transaction whose body also keeps the games and lets the database evolve.\<close>

locale game_transaction = transaction +
  assumes body_advances: "advances (body i)"
begin

lemma run_system:
  assumes sys: "system_ok db"
  shows "system_ok (snd (run fault (body i) db)) \<and> evolves db (snd (run fault (body i) db))"
proof -
  have "db_ok (snd (run fault (body i) db))"
    using sys run_keeps by (simp add: system_ok_def)
  moreover from run_atomic [of fault i db] sys advancesD [OF body_advances]
  have "games_inv (snd (run fault (body i) db)) \<and> evolves db (snd (run fault (body i) db))"
    by (auto simp: system_ok_def)
  ultimately show ?thesis by (simp add: system_ok_def)
qed

text \<open>What a caller that lost the connection may rely on: all or nothing.\<close>

lemma run_lost:
  assumes "run fault (body i) db = (Inl e, db')"
  shows "db' = db \<or> (\<exists>a. body i db = Inr (a, db') \<and> (\<exists>e'. fault = LostAfterCommit e'))"
  using run_Inl [OF assms] by blast

end

end
