(* ===== verification/Lifecycle_Invariant.thy ===== *)
theory Lifecycle_Invariant
  imports Game_Invariant
begin

text \<open>
  The lifecycle transactions keep the invariant: the effect of
  \<open>finalizeTerminal\<close> as one change of the database (\<open>endedDb\<close>), and for every
  operation of the lifecycle repository that its body advances the system.
\<close>

lemma clearDisconnect_fields [simp]:
  "p_slot (clearDisconnect p) = p_slot p" "p_color (clearDisconnect p) = p_color p"
  "p_joined_at (clearDisconnect p) = p_joined_at p" "p_reconnect_grace_ends_at (clearDisconnect p) = None"
  "p_guest_session_id (clearDisconnect p) = p_guest_session_id p" "p_game_id (clearDisconnect p) = p_game_id p"
  "seat (clearDisconnect p) = seat p" "p_disconnected_at (clearDisconnect p) = None"
  by (simp_all add: clearDisconnect_def seat_def)

lemma graces_clear [simp]: "graces (map clearDisconnect ps) = []"
  by (induction ps) simp_all

section \<open>Ending a game\<close>

lemma outcome_texts:
  "persistedResult_lifecycle r = persistedResult r"
  "persistedTermination_lifecycle t = persistedTermination t"
proof -
  show "persistedResult_lifecycle r = persistedResult r" by (cases r) simp_all
  show "persistedTermination_lifecycle t = persistedTermination t"
  proof (cases t)
    case (Board b)
    then show ?thesis by (cases b) simp_all
  qed simp_all
qed

lemma outcome_ok_terminal: "outcome_ok out \<Longrightarrow> terminal_text (status_text (to_status out))"
  by (auto simp: outcome_ok_def terminal_text_def)

text \<open>The row and the database after \<open>finalizeTerminal\<close>.\<close>

definition endedRow :: "tx_env \<Rightarrow> LockedGameClock \<Rightarrow> TerminalOutcome \<Rightarrow> game_row \<Rightarrow> game_row" where
  "endedRow env locked outcome g = (terminalData locked outcome g)\<lparr>g_updated_at := te_appNow env\<rparr>"

definition endedDb :: "game_row \<Rightarrow> db \<Rightarrow> db" where
  "endedDb g' db =
     (set_game g' db)\<lparr>players := update_rows (\<lambda>p. p_game_id p = g_id g') clearDisconnect (players db),
       assignments := delete_rows (\<lambda>a. a_game_id a = g_id g') (assignments db)\<rparr>"

lemma endedRow_fields [simp]:
  "g_id (endedRow env locked out g) = g_id g"
  "g_version (endedRow env locked out g) = g_version g + 1"
  "g_status (endedRow env locked out g) = status_text (to_status out)"
  "g_initial_fen (endedRow env locked out g) = g_initial_fen g"
  "g_current_fen (endedRow env locked out g) = g_current_fen g"
  "g_turn_color (endedRow env locked out g) = g_turn_color g"
  "g_match_id (endedRow env locked out g) = g_match_id g"
  "g_time_initial_ms (endedRow env locked out g) = g_time_initial_ms g"
  "g_increment_ms (endedRow env locked out g) = g_increment_ms g"
  "g_reconnect_deadline_at (endedRow env locked out g) = None"
  "g_result (endedRow env locked out g) = Some (persistedResult (to_result out))"
  "g_termination (endedRow env locked out g) = Some (persistedTermination (to_termination out))"
  by (simp_all add: endedRow_def terminalData_def outcome_texts)

lemma endedDb_lookups [simp]:
  "games (endedDb g' db) = games (set_game g' db)"
  "moves_of (endedDb g' db) x = moves_of db x"
  "commands (endedDb g' db) = commands db"
  "guests (endedDb g' db) = guests db"
  "assignments_of (endedDb g' db) x = (if x = g_id g' then [] else assignments_of db x)"
  "players_of (endedDb g' db) x =
     (if x = g_id g' then map clearDisconnect (players_of db x) else players_of db x)"
proof -
  show "players_of (endedDb g' db) x =
     (if x = g_id g' then map clearDisconnect (players_of db x) else players_of db x)"
  proof -
    have "players_of (endedDb g' db) x =
        map (\<lambda>p. if p_game_id p = g_id g' then clearDisconnect p else p) (players_of db x)"
      using players_of_update [OF clearDisconnect_keeps, where w = "\<lambda>p. p_game_id p = g_id g'" and db = db and gid = x]
      by (simp add: endedDb_def players_of_def)
    also have "\<dots> = (if x = g_id g' then map clearDisconnect (players_of db x) else players_of db x)"
      by (auto intro: map_idI)
    finally show ?thesis .
  qed
  show "assignments_of (endedDb g' db) x = (if x = g_id g' then [] else assignments_of db x)"
    using assignments_of_delete [where db = db and gid = "g_id g'" and x = x] by (simp add: endedDb_def assignments_of_def)
  show "moves_of (endedDb g' db) x = moves_of db x" by (simp add: endedDb_def moves_of_def)
qed (simp_all add: endedDb_def set_game_def)

lemma finalizeTerminal_eq:
  assumes ok: "tables_ok db" and g: "find_game db gid = Some g"
    and game: "pg_game game = g" "pg_players game = players_of db gid" and two: "length (players_of db gid) = 2"
  shows "finalizeTerminal env game locked out db =
    (let g' = endedRow env locked out g in
     if \<not> game_range g' then Inl out_of_range else if \<not> game_check g' then Inl check_violation
     else Inr (Some \<lparr>ts_duplicate = False,
        ts_ended = \<lparr>eg_clocks = terminalClock locked, eg_finalFen = g_current_fen g, eg_gameId = gid,
          eg_gameVersion = g_version g + 1, eg_pgn = g_pgn g, eg_result = to_result out,
          eg_termination = to_termination out\<rparr>,
        ts_guestSessionIds = (p_guest_session_id (players_of db gid ! 0), p_guest_session_id (players_of db gid ! 1))\<rparr>,
       endedDb g' db))"
proof -
  have gid: "g_id g = gid" using g by (rule find_gameD)
  from ok have gok: "games_ok db" by (simp add: tables_ok_def)
  from two obtain a b where ps: "players_of db gid = [a, b]" by (auto simp: length_Suc_conv numeral_2_eq_2)
  then have tuple: "guestTuple game = Inr (p_guest_session_id a, p_guest_session_id b)"
    by (simp add: guestTuple_def game)
  have upd: "update_games (te_appNow env) (\<lambda>r. g_id r = gid \<and> g_version r = g_version g) (terminalData locked out) db =
    (let g' = endedRow env locked out g in
     if \<not> game_range g' then Inl out_of_range else if \<not> game_check g' then Inl check_violation
     else Inr (1, set_game g' db))"
    using update_game_at [OF gok g, of "terminalData locked out" "te_appNow env"] gid
    by (simp add: endedRow_def terminalData_def)
  have clear: "player_check (clearDisconnect p)" if "player_check p" for p
    using that by (simp add: player_check_def)
  have pl: "update_players (\<lambda>p. p_game_id p = gid) clearDisconnect (set_game g' db) =
    Inr (count_rows (\<lambda>p. p_game_id p = gid) (players db),
      (set_game g' db)\<lparr>players := update_rows (\<lambda>p. p_game_id p = gid) clearDisconnect (players db)\<rparr>)" for g'
    using ok clear by (auto simp: update_players_Inr_iff tables_ok_def players_ok_def)
  show ?thesis
    unfolding finalizeTerminal_def game gid tuple Let_def tbind_lift_sum
    by (simp add: tbind_def upd pl Let_def delete_assignments_def ps endedDb_def gid)
qed


lemma ended_game_inv:
  assumes "game_inv g ps ms" and "outcome_ok out"
    and "to_status out = COMPLETED \<Longrightarrow> clock_text (g_status g)"
  shows "game_inv (endedRow env locked out g) (map clearDisconnect ps) ms"
proof -
  have "status_text (to_status out) \<notin> {''CREATED'', ''WAITING_FOR_PLAYERS'', ''READY'', ''IN_PROGRESS'', ''RECONNECTING''}"
    using assms(2) by (auto simp: outcome_ok_def)
  moreover have "all_joined ps" if "status_text (to_status out) = ''COMPLETED''"
  proof -
    have "to_status out = COMPLETED"
      using that assms(2) by (auto simp: outcome_ok_def)
    with assms(1,3) show ?thesis by (auto simp: game_inv_def status_inv_def clock_text_def)
  qed
  ultimately have "status_inv (endedRow env locked out g) (map clearDisconnect ps) ms"
    using assms(1) by (auto simp: game_inv_def status_inv_def comp_def all_joined_def)
  moreover have "history_inv (endedRow env locked out g) (map clearDisconnect ps) ms"
    using assms(1) by (fastforce simp: game_inv_def history_inv_def)
  moreover have "outcome_inv (endedRow env locked out g)"
    using assms(2) by (auto simp: outcome_inv_def)
  ultimately show ?thesis by (simp add: game_inv_def)
qed

lemma ended_advances:
  assumes sys: "system_ok db" and g: "find_game db gid = Some g" and out: "outcome_ok out"
    and active: "\<not> terminal_text (g_status g)"
    and completed: "to_status out = COMPLETED \<Longrightarrow> clock_text (g_status g)"
  shows "games_inv (endedDb (endedRow env locked out g) db) \<and> evolves db (endedDb (endedRow env locked out g) db)"
proof
  note facts = system_ok_game [OF sys g]
  let ?g' = "endedRow env locked out g"
  show "games_inv (endedDb ?g' db)"
  proof (rule games_inv_change)
    show "games_inv db" using sys by (simp add: system_ok_def)
    show "game_inv ?g' (players_of (endedDb ?g' db) (g_id ?g')) (moves_of (endedDb ?g' db) (g_id ?g'))"
      using ended_game_inv [OF facts(1) out completed] facts(4) by simp
  qed simp_all
  show "evolves db (endedDb ?g' db)"
  proof (rule evolves_change)
    show "find_game db (g_id ?g') = Some g" using g facts(4) by simp
    show "row_evolves g ?g'" using active by (simp add: row_evolves_def)
  qed simp_all
qed

text \<open>Every way of ending a game goes through \<open>finish\<close>.\<close>

lemma finish_Inr:
  assumes "finish env game locked event db = Inr (r, db')"
  obtains out where "deriveTerminalOutcome event = Inr out" "finalizeTerminal env game locked out db = Inr (r, db')"
  using assms by (cases "deriveTerminalOutcome event") (auto simp: finish_def derive_def)

lemma derived_outcome_ok: "deriveTerminalOutcome event = Inr out \<Longrightarrow> outcome_ok out"
  by (cases event) (auto simp: deriveBoardOutcome_ok deriveAbandonment_ok deriveNoShow_ok winnerOutcome_ok)

primrec completing :: "TerminalEvent \<Rightarrow> bool" where
  "completing (BOARD r w) = True"
| "completing (RESIGNATION l) = True"
| "completing (TerminalEvent.TIMEOUT l) = True"
| "completing (ABANDONMENT cs) = False"
| "completing (NO_SHOW cs) = False"

lemma completed_event:
  "deriveTerminalOutcome event = Inr out \<Longrightarrow> to_status out = COMPLETED \<Longrightarrow> completing event"
  by (cases event)
    (auto simp: deriveAbandonment_cases deriveNoShow_cases winnerOutcome_def split: if_splits)

lemma finish_effect:
  assumes sys: "system_ok db" and g: "find_game db gid = Some g"
    and game: "game = \<lparr>pg_game = g, pg_moves = ms, pg_players = players_of db gid\<rparr>"
    and active: "\<not> terminal_text (g_status g)" and clock: "completing event \<Longrightarrow> clock_text (g_status g)"
    and fin: "finish env game locked event db = Inr (r, db')"
  obtains out sub where "deriveTerminalOutcome event = Inr out" "db' = endedDb (endedRow env locked out g) db"
    "r = Some sub" "games_inv db'" "evolves db db'"
    "sub = \<lparr>ts_duplicate = False,
        ts_ended = \<lparr>eg_clocks = terminalClock locked, eg_finalFen = g_current_fen g, eg_gameId = gid,
          eg_gameVersion = g_version g + 1, eg_pgn = g_pgn g, eg_result = to_result out,
          eg_termination = to_termination out\<rparr>,
        ts_guestSessionIds = (p_guest_session_id (players_of db gid ! 0), p_guest_session_id (players_of db gid ! 1))\<rparr>"
    "game_check (endedRow env locked out g)"
proof -
  from fin obtain out where out: "deriveTerminalOutcome event = Inr out"
    and final: "finalizeTerminal env game locked out db = Inr (r, db')" by (rule finish_Inr)
  note facts = system_ok_game [OF sys g]
  have two: "length (players_of db gid) = 2" using facts(1) by (auto elim: game_inv_two)
  have "games_inv (endedDb (endedRow env locked out g) db) \<and> evolves db (endedDb (endedRow env locked out g) db)"
    using ended_advances [OF sys g derived_outcome_ok [OF out] active] completed_event [OF out] clock by blast
  with final out show ?thesis
    using that finalizeTerminal_eq [OF system_ok_tables [OF sys] g _ _ two, of game env locked out] game
    by (auto simp: Let_def split: if_splits)
qed


lemma terminal_clock_text: "terminal_text s \<Longrightarrow> \<not> clock_text s"
  by (auto simp: terminal_text_def clock_text_def)

lemma reset_advances: "advances (terminateForReset_body env guest)"
  unfolding terminateForReset_body_def
proof (intro advances_withAssignedGame advances_withLockedGame)
  fix gid db g locked r db'
  let ?game = "\<lparr>pg_game = g, pg_moves = [], pg_players = players_of db gid\<rparr>"
  assume sys: "system_ok db" and g: "find_game db gid = Some g"
    and work: "(if g_status (pg_game ?game) \<notin> {''IN_PROGRESS'', ''READY'', ''RECONNECTING'', ''WAITING_FOR_PLAYERS''}
      then ret None else case playerFor ?game guest of None \<Rightarrow> ret None
      | Some (player, color) \<Rightarrow> finish env ?game locked (ABANDONMENT [color])) db = Inr (r, db')"
  show "games_inv db' \<and> evolves db db'"
  proof (cases "db' = db")
    case False
    with work obtain color where "finish env ?game locked (ABANDONMENT [color]) db = Inr (r, db')"
      and "\<not> terminal_text (g_status g)"
      by (auto simp: terminal_text_def split: if_splits option.splits)
    with sys g show ?thesis by (auto elim!: finish_effect)
  qed (use sys unchanged_advances in blast)
qed

lemma timeout_advances: "advances (adjudicateTimeout_body env gid)"
  unfolding adjudicateTimeout_body_def
proof (intro advances_withLockedGame)
  fix db g locked r db'
  let ?game = "\<lparr>pg_game = g, pg_moves = [], pg_players = players_of db gid\<rparr>"
  assume sys: "system_ok db" and g: "find_game db gid = Some g"
    and status: "lk_status locked = g_status g" and loser: "timeoutLoser locked \<noteq> None"
    and work: "(case timeoutLoser locked of None \<Rightarrow> ret None
      | Some loser \<Rightarrow> finish env ?game locked (TerminalEvent.TIMEOUT loser)) db = Inr (r, db')"
  from loser status have "clock_text (g_status g)"
    by (auto simp: timeoutLoser_def clock_text_def split: if_splits)
  moreover from this have "\<not> terminal_text (g_status g)" using terminal_clock_text by blast
  moreover from work loser obtain l where "finish env ?game locked (TerminalEvent.TIMEOUT l) db = Inr (r, db')"
    by auto
  ultimately show "games_inv db' \<and> evolves db db'"
    using sys g by (auto elim!: finish_effect)
qed

lemma no_show_advances: "advances (adjudicateNoShow_body env gid)"
  unfolding adjudicateNoShow_body_def
proof (intro advances_withLockedGame)
  fix db g locked r db'
  let ?game = "\<lparr>pg_game = g, pg_moves = [], pg_players = players_of db gid\<rparr>"
  let ?event = "NO_SHOW (player_colors (filter (\<lambda>p. p_joined_at p \<noteq> None) (pg_players ?game)))"
  assume sys: "system_ok db" and g: "find_game db gid = Some g"
    and status: "lk_status locked = g_status g" "lk_status locked = ''WAITING_FOR_PLAYERS''"
    and work: "(case g_join_deadline_at (pg_game ?game) of None \<Rightarrow> ret None
      | Some joinDeadlineAt \<Rightarrow> if lk_observedAt locked < joinDeadlineAt then ret None
          else finish env ?game locked ?event) db = Inr (r, db')"
  from status have active: "\<not> terminal_text (g_status g)" by (auto simp: terminal_text_def)
  show "games_inv db' \<and> evolves db db'"
  proof (cases "db' = db")
    case False
    with work have "finish env ?game locked ?event db = Inr (r, db')"
      by (auto split: if_splits option.splits)
    with sys g active show ?thesis by (auto elim!: finish_effect)
  qed (use sys unchanged_advances in blast)
qed

lemma abandonment_advances: "advances (adjudicateAbandonment_body env gid absent)"
  unfolding adjudicateAbandonment_body_def
proof (intro advances_withLockedGame)
  fix db g locked r db'
  let ?game = "\<lparr>pg_game = g, pg_moves = [], pg_players = players_of db gid\<rparr>"
  let ?absent = "filter (\<lambda>p. p_guest_session_id p \<in> set absent) (pg_players ?game)"
  assume sys: "system_ok db" and g: "find_game db gid = Some g"
    and status: "lk_status locked = g_status g" "lk_status locked = ''RECONNECTING''"
    and work: "(let absentPlayers = ?absent in
       if absentPlayers = [] \<or>
          list_ex (\<lambda>p. p_disconnected_at p = None \<or> p_reconnect_grace_ends_at p = None) absentPlayers \<or>
          \<not> list_ex (graceExpired (lk_observedAt locked)) absentPlayers then ret None
       else finish env ?game locked (ABANDONMENT (player_colors absentPlayers))) db = Inr (r, db')"
  from status have active: "\<not> terminal_text (g_status g)" by (auto simp: terminal_text_def)
  show "games_inv db' \<and> evolves db db'"
  proof (cases "db' = db")
    case False
    with work have "finish env ?game locked (ABANDONMENT (player_colors ?absent)) db = Inr (r, db')"
      by (auto simp: Let_def split: if_splits)
    with sys g active show ?thesis by (auto elim!: finish_effect)
  qed (use sys unchanged_advances in blast)
qed

lemma finish_not_None:
  assumes "system_ok db" and "find_game db gid = Some g" and "clock_text (g_status g)"
    and "finish env \<lparr>pg_game = g, pg_moves = [], pg_players = players_of db gid\<rparr> locked event db = Inr (r, db')"
  shows "r \<noteq> None"
proof -
  have "\<not> terminal_text (g_status g)" using assms(3) terminal_clock_text by blast
  with assms show ?thesis by (auto elim!: finish_effect)
qed

lemma resign_cases:
  assumes sys: "system_ok db" and run: "resignInTransaction uuidv4 env input db = Inr (res, db')"
  obtains "db' = db"
  | g locked player color sub db1 where "find_game db (rg_gameId input) = Some g"
      "lockGameClock env (rg_gameId input) db = Inr (Some locked, db)"
      "playerFor \<lparr>pg_game = g, pg_moves = [], pg_players = players_of db (rg_gameId input)\<rparr>
        (rg_guestSessionId input) = Some (player, color)"
      "clock_text (g_status g)" "rg_expectedVersion input = g_version g"
      "finish env \<lparr>pg_game = g, pg_moves = [], pg_players = players_of db (rg_gameId input)\<rparr> locked
        (RESIGNATION color) db = Inr (Some sub, db1)"
      "insert_command (resignRow input sub) db1 = Inr ((), db')" "res = resign_accepted sub"
proof (cases "db' = db")
  case False
  from run obtain lock db1 where lock: "lockGameClock env (rg_gameId input) db = Inr (lock, db1)"
    by (auto simp: resignInTransaction_def tbind_Inr_iff)
  show ?thesis
  proof (cases lock)
    case None
    with run lock False lockGameClock_None [of env "rg_gameId input" db db1] show ?thesis
      by (simp add: resignInTransaction_def tbind_run_Inr)
  next
    case (Some locked)
    with lock obtain g where g: "find_game db (rg_gameId input) = Some g" "db1 = db"
      by (auto elim: lockGameClock_Some)
    let ?game = "\<lparr>pg_game = g, pg_moves = [], pg_players = players_of db (rg_gameId input)\<rparr>"
    from run lock Some False g obtain player color where
      player: "playerFor ?game (rg_guestSessionId input) = Some (player, color)"
      and now: "resignNow env ?game color input locked db = Inr (res, db')"
      by (auto simp: resignInTransaction_def tbind_run_Inr findGame_def split: option.splits)
    from now False have status: "clock_text (g_status g)" "rg_expectedVersion input = g_version g"
      by (auto simp: resignNow_def Let_def clock_text_def split: if_splits)
    with now obtain r db2 where fin: "finish env ?game locked (RESIGNATION color) db = Inr (r, db2)"
      and rest: "(case r of
          None \<Rightarrow> ret (resign_refused (rejected_lifecycle STALE_GAME_VERSION
            ''The game changed while the resignation was being applied.'' True (Some (g_version g + 1))))
        | Some submission \<Rightarrow>
            tbind (insert_command (resignRow input submission)) (\<lambda>_. ret (resign_accepted submission))) db2 =
        Inr (res, db')"
      by (auto simp: resignNow_def Let_def clock_text_def tbind_Inr_iff)
    with finish_not_None [OF sys g(1) status(1)] obtain sub where "r = Some sub" by blast
    with that(2) g lock Some player status fin rest show ?thesis by (auto simp: tbind_Inr_iff)
  qed
qed (rule that(1))

lemma resign_advances: "advances (resignInTransaction uuidv4 env input)"
  unfolding advances_def
proof (intro allI impI)
  fix db res db'
  assume sys: "system_ok db" and run: "resignInTransaction uuidv4 env input db = Inr (res, db')"
  from sys run show "games_inv db' \<and> evolves db db'"
  proof (cases rule: resign_cases)
    case (2 g locked player color sub db1)
    from 2(4) have "\<not> terminal_text (g_status g)" using terminal_clock_text by blast
    with sys 2 have "games_inv db1 \<and> evolves db db1" by (auto elim!: finish_effect)
    with 2(7) evolves_trans evolves_command show ?thesis
      by (auto simp: insert_command_Inr_iff command_keeps_inv)
  qed (use sys unchanged_advances in blast)
qed


section \<open>Disconnection and reconnection\<close>

lemma game_inv_connection:
  assumes inv: "game_inv g ps ms" and f: "keeps_player_keys f" and joined: "\<And>p. p_joined_at (f p) = p_joined_at p"
    and active: "clock_text (g_status g)" and status: "clock_text status"
    and ps': "ps' = map (\<lambda>p. if p_id p = pid then f p else p) ps"
    and rec: "status = ''RECONNECTING'' \<longleftrightarrow> graces ps' \<noteq> []" and deadline: "d = earliest (graces ps')"
  shows "game_inv ((reconnectingData d status g)\<lparr>g_updated_at := now\<rparr>) ps' ms"
proof -
  have history: "history_inv ((reconnectingData d status g)\<lparr>g_updated_at := now\<rparr>) ps' ms"
    using inv by (simp add: game_inv_def history_inv_def ps' reconnectingData_def update_one_mover [OF f] del: set_map)
  have "map p_slot ps' = map p_slot ps" "map p_color ps' = map p_color ps"
    using f by (simp_all only: ps' map_one_fields keeps_player_keysD)
  moreover have "all_joined ps' = all_joined ps"
    unfolding ps' all_joined_def using joined by (induction ps) auto
  ultimately have "status_inv ((reconnectingData d status g)\<lparr>g_updated_at := now\<rparr>) ps' ms"
    using inv active status rec deadline
    by (auto simp: game_inv_def status_inv_def reconnectingData_def clock_text_def)
  moreover have "outcome_inv ((reconnectingData d status g)\<lparr>g_updated_at := now\<rparr>)"
    using status by (auto simp: outcome_inv_def reconnectingData_def clock_text_def terminal_text_def)
  ultimately show ?thesis using history by (simp add: game_inv_def)
qed

text \<open>The two statements of a change of connection, and their effect.\<close>

lemma connection_change_advances:
  assumes sys: "system_ok db" and g: "find_game db gid = Some g" and player: "player \<in> set (players_of db gid)"
    and f: "keeps_player_keys f" "\<And>p. p_joined_at (f p) = p_joined_at p"
    and active: "clock_text (g_status g)" and status: "clock_text status"
    and rec: "status = ''RECONNECTING'' \<longleftrightarrow>
      graces (map (\<lambda>p. if p_id p = p_id player then f p else p) (players_of db gid)) \<noteq> []"
    and deadline: "d = earliest (graces (map (\<lambda>p. if p_id p = p_id player then f p else p) (players_of db gid)))"
    and upd: "update_player (p_id player) f db = Inr (u, db1)"
    and row: "update_games now (\<lambda>r. g_id r = gid \<and> g_version r = g_version g) (reconnectingData d status) db1 = Inr (n, db')"
  shows "n = 1 \<and> db' = set_game ((reconnectingData d status g)\<lparr>g_updated_at := now\<rparr>) db1 \<and>
    games_inv db' \<and> evolves db db'"
proof -
  note facts = system_ok_game [OF sys g]
  let ?g' = "(reconnectingData d status g)\<lparr>g_updated_at := now\<rparr>"
  have db1: "db1 = db\<lparr>players := update_rows (\<lambda>p. p_id p = p_id player) f (players db)\<rparr>"
    using upd by (simp add: update_player_Inr_iff)
  have "games_ok db1" using system_ok_tables [OF sys] by (simp add: db1 tables_ok_def games_ok_def)
  with update_game_at [of db1 gid g "reconnectingData d status" now] row g facts(4)
  have step: "n = 1" "db' = set_game ?g' db1"
    by (auto simp: db1 reconnectingData_def Let_def split: if_splits)
  have "row_evolves g ?g'"
    using active terminal_clock_text by (auto simp: row_evolves_def reconnectingData_def)
  then have "games_inv db' \<and> evolves db db'"
    using game_inv_connection [OF facts(1) f active status refl rec deadline] facts(4)
    by (intro player_and_game_advances [OF sys g player f(1), of ?g']) (simp_all add: step db1 reconnectingData_def)
  with step show ?thesis by simp
qed

lemma disconnect_effect:
  assumes sys: "system_ok db" and g: "find_game db gid = Some g"
    and game: "game = \<lparr>pg_game = g, pg_moves = ms, pg_players = players_of db gid\<rparr>"
    and player: "player \<in> set (players_of db gid)" and active: "clock_text (g_status g)"
    and run: "disconnectPlayer env game locked player color graceMs db = Inr (r, db')"
  obtains deadline where "new_Date (lk_observedAt locked + graceMs) = Date deadline"
    "r = Some \<lparr>pd_color = color, pd_gameId = gid, pd_gameVersion = g_version g + 1, pd_graceDeadline = deadline\<rparr>"
    "\<forall>x. find_game db' x = (if x = gid then Some ((reconnectingData (earliest (deadline # otherDeadlines game player))
       ''RECONNECTING'' g)\<lparr>g_updated_at := te_appNow env\<rparr>) else find_game db x)"
    "players_of db' gid = map (\<lambda>p. if p_id p = p_id player then disconnectData (lk_observedAt locked) deadline p else p)
       (players_of db gid)"
    "games_inv db'" "evolves db db'"
proof -
  note facts = system_ok_game [OF sys g]
  from run obtain deadline where date: "new_Date (lk_observedAt locked + graceMs) = Date deadline"
    by (auto simp: disconnectPlayer_def Let_def split: jsdate.splits)
  let ?f = "disconnectData (lk_observedAt locked) deadline"
  let ?d = "earliest (deadline # otherDeadlines game player)"
  let ?ps' = "map (\<lambda>p. if p_id p = p_id player then ?f p else p) (players_of db gid)"
  from run date obtain u db1 n where upd: "update_player (p_id player) ?f db = Inr (u, db1)"
    and row: "update_games (te_appNow env) (\<lambda>r. g_id r = gid \<and> g_version r = g_version g)
      (reconnectingData ?d ''RECONNECTING'') db1 = Inr (n, db')"
    and r: "r = (if n \<noteq> 1 then None else Some \<lparr>pd_color = color, pd_gameId = gid,
      pd_gameVersion = g_version g + 1, pd_graceDeadline = deadline\<rparr>)"
    by (auto simp: disconnectPlayer_def Let_def tbind_Inr_iff game facts(4) split: if_splits)
  have two: "length (players_of db gid) = 2" using facts(1) by (auto elim: game_inv_two)
  have "set (graces ?ps') = set (deadline # otherDeadlines game player)"
    using graces_update_one [OF players_of_ids(1) [OF system_ok_tables [OF sys]] two player, of ?f]
    by (simp add: disconnectData_def otherDeadlines_def game)
  then have d: "?d = earliest (graces ?ps')" and "graces ?ps' \<noteq> []" by (auto intro: earliest_cong)
  then have "''RECONNECTING'' = ''RECONNECTING'' \<longleftrightarrow> graces ?ps' \<noteq> []" by simp
  note eff = connection_change_advances [OF sys g player connection_data_keeps(1) _ active _ this d upd row]
  have "n = 1 \<and> db' = set_game ((reconnectingData ?d ''RECONNECTING'' g)\<lparr>g_updated_at := te_appNow env\<rparr>) db1 \<and>
    games_inv db' \<and> evolves db db'"
    by (rule eff) (simp_all add: disconnectData_def clock_text_def)
  moreover from upd have "db1 = db\<lparr>players := update_rows (\<lambda>p. p_id p = p_id player) ?f (players db)\<rparr>"
    by (simp add: update_player_Inr_iff)
  ultimately show ?thesis
    using that [OF date] r g facts(4) players_of_update_one [OF system_ok_tables [OF sys] player connection_data_keeps(1)]
    by (auto simp: reconnectingData_def)
qed


lemma disconnect_advances: "advances (markDisconnected_body env guest graceMs)"
  unfolding markDisconnected_body_def
proof (intro advances_withAssignedGame advances_withLockedGame)
  fix gid db g locked r db'
  let ?game = "\<lparr>pg_game = g, pg_moves = [], pg_players = players_of db gid\<rparr>"
  assume sys: "system_ok db" and g: "find_game db gid = Some g"
    and work: "(let status = g_status (pg_game ?game) in
       case playerFor ?game guest of
         None \<Rightarrow> ret None
       | Some (player, color) \<Rightarrow>
           if status \<noteq> ''IN_PROGRESS'' \<and> status \<noteq> ''RECONNECTING'' then
             (if status = ''WAITING_FOR_PLAYERS'' then
                tbind (update_player (p_id player) (\<lambda>p. p\<lparr>p_connected_at := None\<rparr>)) (\<lambda>_. ret None)
              else ret None)
           else if p_disconnected_at player \<noteq> None then ret None
           else disconnectPlayer env ?game locked player color graceMs) db = Inr (r, db')"
  note facts = system_ok_game [OF sys g]
  show "games_inv db' \<and> evolves db db'"
  proof (cases "db' = db")
    case False
    then obtain player color where who: "playerFor ?game guest = Some (player, color)"
      using work by (auto simp: Let_def split: option.splits)
    from playerFor_Some(1) [OF who] have player: "player \<in> set (players_of db gid)" by simp
    consider "clock_text (g_status g)" "disconnectPlayer env ?game locked player color graceMs db = Inr (r, db')"
      | u where "g_status g = ''WAITING_FOR_PLAYERS''"
          "update_player (p_id player) (\<lambda>p. p\<lparr>p_connected_at := None\<rparr>) db = Inr (u, db')"
      using work who False by (auto simp: Let_def clock_text_def tbind_Inr_iff split: if_splits)
    then show ?thesis
    proof cases
      case 1
      with sys g player show ?thesis by (auto elim!: disconnect_effect)
    next
      case 2
      let ?f = "\<lambda>p. p\<lparr>p_connected_at := None\<rparr>"
      let ?ps' = "map (\<lambda>p. if p_id p = p_id player then ?f p else p) (players_of db gid)"
      have db': "db' = set_game g (db\<lparr>players := update_rows (\<lambda>p. p_id p = p_id player) ?f (players db)\<rparr>)"
        using 2(2) set_game_same [OF sys g] by (simp add: update_player_Inr_iff set_game_def)
      have "game_inv g ?ps' (moves_of db gid)"
        using facts(1) connection_data_keeps(3) by (intro game_inv_same_players) simp_all
      then show ?thesis
        by (intro player_and_game_advances [OF sys g player connection_data_keeps(3) facts(4) _ _ db']) simp_all
    qed
  qed (use sys unchanged_advances in blast)
qed

lemma reconnect_effect:
  assumes sys: "system_ok db" and g: "find_game db gid = Some g"
    and game: "game = \<lparr>pg_game = g, pg_moves = ms, pg_players = players_of db gid\<rparr>"
    and player: "player \<in> set (players_of db gid)" and active: "clock_text (g_status g)"
    and status: "status = (if otherDeadlines game player = [] then ''IN_PROGRESS'' else ''RECONNECTING'')"
    and d: "d = (if otherDeadlines game player = [] then None else earliest (otherDeadlines game player))"
    and upd: "update_player (p_id player) (reconnectData t) db = Inr (u, db1)"
    and row: "update_games now (\<lambda>r. g_id r = gid \<and> g_version r = g_version g) (reconnectingData d status) db1 = Inr (n, db')"
  shows "n = 1 \<and> db' = set_game ((reconnectingData d status g)\<lparr>g_updated_at := now\<rparr>) db1 \<and>
    games_inv db' \<and> evolves db db'"
proof -
  note facts = system_ok_game [OF sys g]
  let ?ps' = "map (\<lambda>p. if p_id p = p_id player then reconnectData t p else p) (players_of db gid)"
  have two: "length (players_of db gid) = 2" using facts(1) by (auto elim: game_inv_two)
  have same: "set (graces ?ps') = set (otherDeadlines game player)"
    using graces_update_one [OF players_of_ids(1) [OF system_ok_tables [OF sys]] two player, of "reconnectData t"]
    by (simp add: reconnectData_def otherDeadlines_def game)
  have rec: "status = ''RECONNECTING'' \<longleftrightarrow> graces ?ps' \<noteq> []"
    using same status by (cases "otherDeadlines game player = []") auto
  have d': "d = earliest (graces ?ps')"
    using earliest_cong [OF same] d by (cases "otherDeadlines game player = []") auto
  have "clock_text status" by (simp add: status clock_text_def)
  from connection_change_advances [OF sys g player connection_data_keeps(2) _ active this rec d' upd row]
  show ?thesis by (auto simp: reconnectData_def)
qed

lemma reconnect_advances: "advances (markReconnected_body env guest)"
  unfolding markReconnected_body_def
proof (intro advances_withAssignedGame advances_withLockedGame)
  fix gid db g locked r db'
  let ?game = "\<lparr>pg_game = g, pg_moves = [], pg_players = players_of db gid\<rparr>"
  assume sys: "system_ok db" and g: "find_game db gid = Some g"
    and work: "(let g = pg_game ?game in
       if g_status g \<noteq> ''RECONNECTING'' then ret None
       else case playerFor ?game guest of
           None \<Rightarrow> ret None
         | Some (player, color) \<Rightarrow>
             if p_disconnected_at player = None then ret None
             else
               tbind (update_player (p_id player) (reconnectData (lk_observedAt locked))) (\<lambda>_.
               let remainingDeadlines = otherDeadlines ?game player;
                   status = (if remainingDeadlines = [] then ''IN_PROGRESS'' else ''RECONNECTING'');
                   reconnectDeadlineAt =
                     (if remainingDeadlines = [] then None else earliest remainingDeadlines) in
               tbind (update_games (te_appNow env) (\<lambda>r. g_id r = g_id g \<and> g_version r = g_version g)
                 (reconnectingData reconnectDeadlineAt status)) (\<lambda>count.
               if count \<noteq> 1 then ret None
               else ret (Some \<lparr>pr_color = color, pr_gameId = g_id g, pr_gameVersion = g_version g + 1\<rparr>)))) db =
       Inr (r, db')"
  note facts = system_ok_game [OF sys g]
  show "games_inv db' \<and> evolves db db'"
  proof (cases "db' = db")
    case False
    then obtain player color where who: "playerFor ?game guest = Some (player, color)"
      and status: "g_status g = ''RECONNECTING''"
      using work by (auto simp: Let_def split: option.splits if_splits)
    from playerFor_Some(1) [OF who] have player: "player \<in> set (players_of db gid)" by simp
    from work who status False obtain u db1 n where
      "update_player (p_id player) (reconnectData (lk_observedAt locked)) db = Inr (u, db1)"
      "update_games (te_appNow env) (\<lambda>r. g_id r = gid \<and> g_version r = g_version g)
        (reconnectingData (if otherDeadlines ?game player = [] then None else earliest (otherDeadlines ?game player))
          (if otherDeadlines ?game player = [] then ''IN_PROGRESS'' else ''RECONNECTING'')) db1 = Inr (n, db')"
      by (auto simp: Let_def tbind_Inr_iff facts(4) split: if_splits)
    with reconnect_effect [OF sys g refl player _ refl refl] status show ?thesis
      by (simp add: clock_text_def)
  qed (use sys unchanged_advances in blast)
qed


section \<open>The contract\<close>

interpretation resign_game: game_transaction "resignInTransaction uuidv4 env" for uuidv4 env
  by unfold_locales (rule resign_advances)

interpretation reset_game: game_transaction "terminateForReset_body env" for env
  by unfold_locales (rule reset_advances)

interpretation disconnect_game:
  game_transaction "\<lambda>(guest, graceMs). markDisconnected_body env guest graceMs" for env
  by unfold_locales (simp add: disconnect_advances split: prod.split)

interpretation reconnect_game: game_transaction "markReconnected_body env" for env
  by unfold_locales (rule reconnect_advances)

interpretation timeout_game: game_transaction "adjudicateTimeout_body env" for env
  by unfold_locales (rule timeout_advances)

interpretation no_show_game: game_transaction "adjudicateNoShow_body env" for env
  by unfold_locales (rule no_show_advances)

interpretation abandonment_game:
  game_transaction "\<lambda>(gid, absent). adjudicateAbandonment_body env gid absent" for env
  by unfold_locales (simp add: abandonment_advances split: prod.split)

end
