(* ===== verification/Allocation_Invariant.thy ===== *)
theory Allocation_Invariant
  imports Game_Invariant
begin

text \<open>
  Allocation, readiness and start keep the invariant: the effect of each of the
  transactions of the game repository as one change of the database, and that
  its body advances the system.
\<close>

section \<open>Loading an allocation\<close>

lemma map_filter_guests:
  assumes "\<forall>p \<in> set ps. find_guest db (p_guest_session_id p) \<noteq> None"
  shows "map fst (List.map_filter (\<lambda>p. map_option (\<lambda>gs. (p, gs)) (find_guest db (p_guest_session_id p))) ps) = ps"
  using assms by (induction ps) (auto simp: List.map_filter_simps)

lemma loadAllocation_players:
  assumes "tables_ok db"
  shows "map fst (pa_players (loadAllocation db g)) = players_of db (g_id g)"
proof -
  have "\<forall>p \<in> set (players_of db (g_id g)). find_guest db (p_guest_session_id p) \<noteq> None"
    using assms by (auto simp: tables_ok_def players_ok_def find_guest_None_iff)
  then show ?thesis by (simp add: loadAllocation_def map_filter_guests)
qed

lemma loadAllocation_game [simp]: "pa_game (loadAllocation db g) = g"
  by (simp add: loadAllocation_def)

lemma count_players:
  "count_rows (\<lambda>p. p_game_id p = gid \<and> q p) (players db) = length (filter q (players_of db gid))"
proof -
  have "filter q (players_of db gid) = sort_key p_slot (filter q (filter (\<lambda>p. p_game_id p = gid) (players db)))"
    by (simp add: players_of_def filter_sort)
  then show ?thesis by (simp add: count_rows_def conj_commute)
qed

lemma count_joined:
  assumes "length ps = 2"
  shows "length (filter (\<lambda>p. p_joined_at p \<noteq> None) ps) = 2 \<longleftrightarrow> all_joined ps"
proof -
  from assms obtain a b where "ps = [a, b]" by (auto simp: length_Suc_conv numeral_2_eq_2)
  then show ?thesis by (auto simp: all_joined_def)
qed

section \<open>Readiness\<close>

definition joinData :: "int \<Rightarrow> int option \<Rightarrow> player_row \<Rightarrow> player_row" where
  "joinData observedAt joined p =
     p\<lparr>p_connected_at := Some observedAt,
       p_joined_at := (case joined of None \<Rightarrow> Some observedAt | j \<Rightarrow> j)\<rparr>"

lemma joinData_keeps: "keeps_player_keys (joinData t j)"
  by (simp add: keeps_player_keys_def joinData_def)

lemma joinData_fields [simp]:
  "\<exists>t'. p_joined_at (joinData t j p) = Some t'"
  "p_reconnect_grace_ends_at (joinData t j p) = p_reconnect_grace_ends_at p"
  "p_disconnected_at (joinData t j p) = p_disconnected_at p"
  by (simp_all add: joinData_def split: option.split)

definition readyRow :: "tx_env \<Rightarrow> game_row \<Rightarrow> game_row" where
  "readyRow env g = g\<lparr>g_status := ''READY'', g_version := g_version g + 1, g_updated_at := te_appNow env\<rparr>"

lemma updateGameAtVersion_at:
  assumes "games_ok db" and "find_game db gid = Some g" and "g_id (data g) = gid"
  shows "updateGameAtVersion env gid (g_version g) data db =
    (let g' = (data g)\<lparr>g_version := g_version g + 1, g_updated_at := te_appNow env\<rparr> in
     if \<not> game_range g' then Inl out_of_range else if \<not> game_check g' then Inl check_violation
     else Inr (Some (g_version g + 1), set_game g' db))"
  using update_game_at [OF assms(1,2), of "\<lambda>g. (data g)\<lparr>g_version := g_version g + 1\<rparr>" "te_appNow env"] assms(3)
  by (simp add: updateGameAtVersion_def tbind_def Let_def)

lemma ready_inv:
  assumes inv: "game_inv g ps ms" and two: "length ps = 2"
    and ps': "ps' = map (\<lambda>p. if p_id p = p_id player then joinData t j p else p) ps"
    and status: "g_status g \<in> {''WAITING_FOR_PLAYERS'', ''READY'', ''IN_PROGRESS'', ''RECONNECTING''}"
  shows "g_status g = ''WAITING_FOR_PLAYERS'' \<Longrightarrow> all_joined ps' \<Longrightarrow> game_inv (readyRow env g) ps' ms"
    and "\<not> (g_status g = ''WAITING_FOR_PLAYERS'' \<and> all_joined ps') \<Longrightarrow> game_inv g ps' ms"
proof -
  have keep: "map p_slot ps' = map p_slot ps" "map p_color ps' = map p_color ps"
    using joinData_keeps by (simp_all only: ps' map_one_fields keeps_player_keysD)
  have grace: "graces ps' = graces ps"
    unfolding ps' by (induction ps) (auto split: option.splits)
  have joined: "all_joined ps \<Longrightarrow> all_joined ps'"
    unfolding ps' all_joined_def by auto
  have hist: "history_inv g ps' ms"
    using inv by (simp add: game_inv_def history_inv_def ps' update_one_mover [OF joinData_keeps] del: set_map)
  show "game_inv (readyRow env g) ps' ms" if "g_status g = ''WAITING_FOR_PLAYERS''" "all_joined ps'"
    using inv that hist keep grace
    by (auto simp: game_inv_def history_inv_def status_inv_def outcome_inv_def readyRow_def terminal_text_def)
  show "game_inv g ps' ms" if "\<not> (g_status g = ''WAITING_FOR_PLAYERS'' \<and> all_joined ps')"
  proof -
    from inv have "status_inv g ps ms" "outcome_inv g" by (simp_all add: game_inv_def)
    moreover from this(1) that joined have "status_inv g ps' ms"
      unfolding status_inv_def keep grace by blast
    ultimately show ?thesis using hist by (simp add: game_inv_def)
  qed
qed

lemma ready_cases:
  assumes sys: "system_ok db" and run: "markReadyInTransaction env input db = Inr (res, db')"
  obtains "db' = db"
  | g player db1 where "find_game db (mr_gameId input) = Some g" "player \<in> set (players_of db (mr_gameId input))"
      "p_guest_session_id player = mr_guestSessionId input"
      "g_status g \<in> {''WAITING_FOR_PLAYERS'', ''READY'', ''IN_PROGRESS'', ''RECONNECTING''}"
      "db1 = db\<lparr>players := update_rows (\<lambda>p. p_id p = p_id player)
         (joinData (mr_observedAt input) (p_joined_at player)) (players db)\<rparr>"
      "db' = (if g_status g = ''WAITING_FOR_PLAYERS'' \<and> all_joined (players_of db1 (mr_gameId input))
              then set_game (readyRow env g) db1 else db1)"
proof (cases "db' = db")
  case False
  let ?gid = "mr_gameId input"
  from run False obtain g where g: "find_game db ?gid = Some g"
    by (auto simp: markReadyInTransaction_def Let_def tbind_Inr_iff split: option.splits)
  note facts = system_ok_game [OF sys g]
  have ok: "tables_ok db" using sys by (rule system_ok_tables)
  have two: "length (players_of db ?gid) = 2" using facts(1) by (auto elim: game_inv_two)
  have ps: "map fst (pa_players (loadAllocation db g)) = players_of db ?gid"
    using loadAllocation_players [OF ok, of g] facts(4) by simp
  from run False g obtain player where
    find: "List.find (\<lambda>p. p_guest_session_id p = mr_guestSessionId input) (players_of db ?gid) = Some player"
    by (auto simp: markReadyInTransaction_def Let_def ps split: option.splits)
  have player: "player \<in> set (players_of db ?gid)" "p_guest_session_id player = mr_guestSessionId input"
    using list_find_SomeD [OF find] by simp_all
  let ?f = "joinData (mr_observedAt input) (p_joined_at player)"
  let ?db1 = "db\<lparr>players := update_rows (\<lambda>p. p_id p = p_id player) ?f (players db)\<rparr>"
  have ps1: "players_of ?db1 ?gid = map (\<lambda>p. if p_id p = p_id player then ?f p else p) (players_of db ?gid)"
    using players_of_update_one [OF ok player(1) joinData_keeps] by simp
  from run False g find obtain version where
    status: "g_status g \<in> {''WAITING_FOR_PLAYERS'', ''READY'', ''IN_PROGRESS'', ''RECONNECTING''}"
    and upd: "(if g_status g = ''WAITING_FOR_PLAYERS'' \<and>
        count_rows (\<lambda>p. p_game_id p = ?gid \<and> p_joined_at p \<noteq> None) (players ?db1) = 2
      then updateGameAtVersion env ?gid (g_version g) (\<lambda>r. r\<lparr>g_status := ''READY''\<rparr>)
      else ret (Some (g_version g))) ?db1 = Inr (version, db')"
    by (auto simp: markReadyInTransaction_def Let_def ps facts(4) tbind_Inr_iff update_player_Inr_iff
        joinData_def [abs_def] split: option.splits if_splits)
  have count: "count_rows (\<lambda>p. p_game_id p = ?gid \<and> p_joined_at p \<noteq> None) (players ?db1) = 2 \<longleftrightarrow>
      all_joined (players_of ?db1 ?gid)"
    unfolding count_players by (rule count_joined) (simp add: ps1 two)
  have gok: "games_ok ?db1" using ok by (simp add: tables_ok_def games_ok_def)
  have "db' = (if g_status g = ''WAITING_FOR_PLAYERS'' \<and> all_joined (players_of ?db1 ?gid)
      then set_game (readyRow env g) ?db1 else ?db1)"
    using upd g facts(4) updateGameAtVersion_at [OF gok, of ?gid g "\<lambda>r. r\<lparr>g_status := ''READY''\<rparr>" env]
    unfolding count by (auto simp: Let_def readyRow_def split: if_splits)
  with that(2) g player status show ?thesis by blast
qed (rule that(1))

lemma ready_advances: "advances (markReadyInTransaction env input)"
  unfolding advances_def
proof (intro allI impI)
  fix db res db'
  assume sys: "system_ok db" and run: "markReadyInTransaction env input db = Inr (res, db')"
  let ?gid = "mr_gameId input"
  from sys run show "games_inv db' \<and> evolves db db'"
  proof (cases rule: ready_cases)
    case (2 g player db1)
    note facts = system_ok_game [OF sys 2(1)]
    let ?f = "joinData (mr_observedAt input) (p_joined_at player)"
    have two: "length (players_of db ?gid) = 2" using facts(1) by (auto elim: game_inv_two)
    have ps1: "players_of db1 ?gid = map (\<lambda>p. if p_id p = p_id player then ?f p else p) (players_of db ?gid)"
      using players_of_update_one [OF system_ok_tables [OF sys] 2(2) joinData_keeps] by (simp add: 2(5))
    note inv = ready_inv [OF facts(1) two ps1 2(4)]
    show ?thesis
    proof (cases "g_status g = ''WAITING_FOR_PLAYERS'' \<and> all_joined (players_of db1 ?gid)")
      case True
      have "row_evolves g (readyRow env g)"
        using True by (simp add: row_evolves_def readyRow_def terminal_text_def)
      with True inv(1) [of env] 2 facts(4) ps1 show ?thesis
        by (intro player_and_game_advances [OF sys 2(1,2) joinData_keeps, of "readyRow env g"])
          (simp_all add: readyRow_def)
    next
      case False
      have same: "set_game g db1 = db1"
        using set_game_same [OF sys 2(1)] by (simp add: set_game_def 2(5))
      from False 2(6) have "db' = set_game g db1" by (auto simp: same)
      with inv(2) [OF False] facts(4) ps1 2(5) show ?thesis
        by (intro player_and_game_advances [OF sys 2(1,2) joinData_keeps, of g]) simp_all
    qed
  qed (use sys unchanged_advances in blast)
qed


section \<open>Start\<close>

definition startedRow :: "tx_env \<Rightarrow> int \<Rightarrow> game_row \<Rightarrow> game_row" where
  "startedRow env t g = (startData t g)\<lparr>g_version := g_version g + 1, g_updated_at := te_appNow env\<rparr>"

lemma start_cases:
  assumes sys: "system_ok db" and run: "startIfReadyInTransaction env gid db = Inr (res, db')"
  obtains "db' = db"
  | g where "find_game db gid = Some g" "g_status g = ''READY''"
      "db' = set_game (startedRow env (te_observedAt env) g) db"
      "res = start_found (loadAllocation db' (startedRow env (te_observedAt env) g)) True"
proof (cases "db' = db")
  case False
  from run obtain lock db1 where lock: "lockGameClock env gid db = Inr (lock, db1)"
    by (auto simp: startIfReadyInTransaction_def tbind_Inr_iff)
  show ?thesis
  proof (cases lock)
    case None
    with run lock False lockGameClock_None [of env gid db db1] show ?thesis
      by (simp add: startIfReadyInTransaction_def tbind_run_Inr)
  next
    case (Some locked)
    with lock obtain g where g: "find_game db gid = Some g" "db1 = db" "lk_status locked = g_status g"
      "lk_version locked = g_version g" "lk_observedAt locked = te_observedAt env"
      by (auto elim: lockGameClock_Some)
    note facts = system_ok_game [OF sys g(1)]
    have gok: "games_ok db" using system_ok_tables [OF sys] by (simp add: tables_ok_def)
    have gid: "g_id (startData (te_observedAt env) g) = gid" using facts(4) by (simp add: startData_def)
    from run lock Some g False have ready: "g_status g = ''READY''"
      by (auto simp: startIfReadyInTransaction_def tbind_run_Inr split: if_splits option.splits)
    note upd = updateGameAtVersion_at [where data = "startData (te_observedAt env)", OF gok g(1) gid, of env]
    from run lock Some g ready upd facts(4)
    have "db' = set_game (startedRow env (te_observedAt env) g) db"
      "res = start_found (loadAllocation db' (startedRow env (te_observedAt env) g)) True"
      by (auto simp: startIfReadyInTransaction_def tbind_run_Inr tbind_Inr_iff Let_def startedRow_def startData_def
        split: if_splits option.splits)
    with that(2) g ready show ?thesis by blast
  qed
qed (rule that(1))

lemma start_inv:
  assumes "game_inv g ps ms" and "g_status g = ''READY''"
  shows "game_inv (startedRow env t g) ps ms"
  using assms
  by (auto simp: game_inv_def history_inv_def status_inv_def outcome_inv_def startedRow_def startData_def
    terminal_text_def)

lemma set_game_advances:
  assumes sys: "system_ok db" and g: "find_game db gid = Some g"
    and g': "g_id g' = gid" "row_evolves g g'" "game_inv g' (players_of db gid) (moves_of db gid)"
  shows "games_inv (set_game g' db) \<and> evolves db (set_game g' db)"
proof
  show "games_inv (set_game g' db)"
    by (rule games_inv_change [of db _ g']) (use sys g' in \<open>simp_all add: system_ok_def\<close>)
  show "evolves db (set_game g' db)"
    by (rule evolves_change [of db g' g]) (use g g' in simp_all)
qed

lemma start_advances: "advances (startIfReadyInTransaction env gid)"
  unfolding advances_def
proof (intro allI impI)
  fix db res db'
  assume sys: "system_ok db" and run: "startIfReadyInTransaction env gid db = Inr (res, db')"
  from sys run show "games_inv db' \<and> evolves db db'"
  proof (cases rule: start_cases)
    case (2 g)
    note facts = system_ok_game [OF sys 2(1)]
    have "row_evolves g (startedRow env (te_observedAt env) g)"
      using 2(2) by (simp add: row_evolves_def startedRow_def startData_def terminal_text_def)
    with start_inv [OF facts(1) 2(2)] facts(4) show ?thesis
      unfolding 2(3) by (intro set_game_advances [OF sys 2(1)]) (simp_all add: startedRow_def startData_def)
  qed (use sys unchanged_advances in blast)
qed

section \<open>Allocation\<close>

text \<open>The database after the nested create.\<close>

definition allocatedDb :: "tx_env \<Rightarrow> AllocateGame \<Rightarrow> db \<Rightarrow> db" where
  "allocatedDb env input db =
     db\<lparr>games := games db @ [newGameRow env input],
        assignments := assignments db @
          map (\<lambda>guest. \<lparr>a_guest_session_id = guest, a_game_id = ag_gameId input\<rparr>)
            (sort [ag_whiteGuestSessionId input, ag_blackGuestSessionId input]),
        players := players db @
          [newPlayerRow (te_newId1 env) (ag_gameId input) (ag_whiteGuestSessionId input) ''w'' 0,
           newPlayerRow (te_newId2 env) (ag_gameId input) (ag_blackGuestSessionId input) ''b'' 1]\<rparr>"

lemma insert_game_Inr_iff:
  "insert_game g db = Inr (u, db') \<longleftrightarrow>
     game_range g \<and> game_check g \<and> (\<forall>r \<in> set (games db). g_id r \<noteq> g_id g \<and> g_match_id r \<noteq> g_match_id g) \<and>
     db' = db\<lparr>games := games db @ [g]\<rparr>"
  by (auto simp: insert_game_def list_ex_iff split: if_splits)

lemma createAssignment_Inr:
  "createAssignment gid guest db = Inr (u, db') \<Longrightarrow>
     db' = db\<lparr>assignments := assignments db @ [\<lparr>a_guest_session_id = guest, a_game_id = gid\<rparr>]\<rparr> \<and>
     guest \<notin> a_guest_session_id ` set (assignments db)"
  by (auto simp: createAssignment_def connect_guest_def tbind_Inr_iff insert_assignment_def list_ex_iff
    split: if_splits)

lemma createPlayer_Inr: "createPlayer p db = Inr (u, db') \<Longrightarrow> db' = db\<lparr>players := players db @ [p]\<rparr>"
  by (auto simp: createPlayer_def connect_guest_def tbind_Inr_iff insert_player_def split: if_splits)

lemma createGame_Inr:
  assumes "createGame env input db = Inr (u, db')"
  shows "db' = allocatedDb env input db \<and> game_check (newGameRow env input) \<and>
    (\<forall>r \<in> set (games db). g_id r \<noteq> ag_gameId input \<and> g_match_id r \<noteq> ag_matchId input)"
proof -
  let ?guests = "sort [ag_whiteGuestSessionId input, ag_blackGuestSessionId input]"
  have two: "[?guests ! 0, ?guests ! 1] = ?guests" by simp
  from assms show ?thesis
    by (auto simp: createGame_def Let_def tbind_Inr_iff insert_game_Inr_iff allocatedDb_def
        newGameRow_def [of env input] simp del: sort_key_simps
        dest!: createAssignment_Inr createPlayer_Inr) (simp_all add: two [symmetric] del: two)
qed

lemma allocate_cases:
  assumes "allocateInTransaction env input db = Inr (res, db')"
  obtains "db' = db"
  | "db' = allocatedDb env input db" "res = alloc_allocated (loadAllocation db' (newGameRow env input))"
      "\<forall>r \<in> set (games db). g_id r \<noteq> ag_gameId input \<and> g_match_id r \<noteq> ag_matchId input"
      "\<forall>a \<in> set (assignments db). a_guest_session_id a \<notin> {ag_whiteGuestSessionId input, ag_blackGuestSessionId input}"
      "eligibleGuests db input = 2"
proof (cases "db' = db")
  case False
  from assms False obtain u db1 where create: "createGame env input db = Inr (u, db1)" and "db' = db1"
    and res: "find_game db1 (ag_gameId input) \<noteq> None"
      "res = alloc_allocated (loadAllocation db1 (the (find_game db1 (ag_gameId input))))"
    and elig: "eligibleGuests db input = 2"
    and free: "find_row (\<lambda>a. a_guest_session_id a \<in> {ag_whiteGuestSessionId input, ag_blackGuestSessionId input})
      (assignments db) = None"
    by (auto simp: allocateInTransaction_def Let_def lockGuestSessions_def tbind_Inr_iff
      split: option.splits if_splits)
  note eff = createGame_Inr [OF create]
  have "find_game db (ag_gameId input) = None"
    using eff by (auto simp: find_game_None_iff game_ids_def)
  then have "find_game db1 (ag_gameId input) = Some (newGameRow env input)"
    using eff by (simp add: find_game_def allocatedDb_def find_row_append newGameRow_def)
  with that(2) eff res elig free \<open>db' = db1\<close> show ?thesis by (auto simp: find_row_None_iff)
qed (rule that(1))

lemma allocated_lookups:
  assumes ok: "tables_ok db" and new: "\<forall>r \<in> set (games db). g_id r \<noteq> ag_gameId input"
  shows "players_of (allocatedDb env input db) x =
      (if x = ag_gameId input
       then [newPlayerRow (te_newId1 env) x (ag_whiteGuestSessionId input) ''w'' 0,
             newPlayerRow (te_newId2 env) x (ag_blackGuestSessionId input) ''b'' 1]
       else players_of db x)"
    and "moves_of (allocatedDb env input db) x = (if x = ag_gameId input then [] else moves_of db x)"
    and "find_game (allocatedDb env input db) x =
      (if x = ag_gameId input then Some (newGameRow env input) else find_game db x)"
proof -
  have gid: "ag_gameId input \<notin> game_ids db" using new by (auto simp: game_ids_def)
  have none: "filter (\<lambda>p. p_game_id p = ag_gameId input) (players db) = []"
    "filter (\<lambda>m. m_game_id m = ag_gameId input) (moves db) = []"
    using ok gid by (auto simp: tables_ok_def players_ok_def moves_ok_def filter_empty_conv)
  show "players_of (allocatedDb env input db) x =
      (if x = ag_gameId input
       then [newPlayerRow (te_newId1 env) x (ag_whiteGuestSessionId input) ''w'' 0,
             newPlayerRow (te_newId2 env) x (ag_blackGuestSessionId input) ''b'' 1]
       else players_of db x)"
    using none by (auto simp: players_of_def allocatedDb_def newPlayerRow_def)
  show "moves_of (allocatedDb env input db) x = (if x = ag_gameId input then [] else moves_of db x)"
    using none by (auto simp: moves_of_def allocatedDb_def)
  have "find_game db (ag_gameId input) = None" using gid by (simp add: find_game_None_iff)
  then show "find_game (allocatedDb env input db) x =
      (if x = ag_gameId input then Some (newGameRow env input) else find_game db x)"
    by (auto simp: find_game_def allocatedDb_def find_row_append newGameRow_def split: option.split)
qed

lemma new_game_inv:
  "game_inv (newGameRow env input)
     [newPlayerRow i1 gid white ''w'' 0, newPlayerRow i2 gid black ''b'' 1] []"
  by (simp add: game_inv_def history_inv_def status_inv_def outcome_inv_def newGameRow_def newPlayerRow_def
    all_joined_def terminal_text_def turn_text_def)

lemma allocate_advances: "advances (allocateInTransaction env input)"
  unfolding advances_def
proof (intro allI impI)
  fix db res db'
  assume sys: "system_ok db" and run: "allocateInTransaction env input db = Inr (res, db')"
  from run show "games_inv db' \<and> evolves db db'"
  proof (cases rule: allocate_cases)
    case 2
    have new: "\<forall>r \<in> set (games db). g_id r \<noteq> ag_gameId input" using 2(3) by blast
    note look = allocated_lookups [OF system_ok_tables [OF sys] new, of env]
    have "games_inv db'"
      unfolding games_inv_def
    proof
      fix g
      assume "g \<in> set (games db')"
      then consider "g = newGameRow env input" | "g \<in> set (games db)"
        by (auto simp: 2(1) allocatedDb_def)
      then show "game_inv g (players_of db' (g_id g)) (moves_of db' (g_id g))"
      proof cases
        case 1
        then have "g_id g = ag_gameId input" by (simp add: newGameRow_def)
        with 1 new_game_inv show ?thesis by (simp add: 2(1) look)
      next
        case 2
        with new sys \<open>db' = allocatedDb env input db\<close> show ?thesis
          by (auto simp: look system_ok_def games_inv_def)
      qed
    qed
    moreover have "evolves db db'"
      using new look find_gameD
      by (fastforce simp: evolves_def 2(1) find_command_def allocatedDb_def)
    ultimately show ?thesis ..
  qed (use sys unchanged_advances in blast)
qed

section \<open>The contract\<close>

interpretation allocate_game: game_transaction "allocateInTransaction env" for env
  by unfold_locales (rule allocate_advances)

interpretation ready_game: game_transaction "markReadyInTransaction env" for env
  by unfold_locales (rule ready_advances)

interpretation start_game: game_transaction "startIfReadyInTransaction env" for env
  by unfold_locales (rule start_advances)

end
