(* ===== verification/Gameplay_Invariant.thy ===== *)
theory Gameplay_Invariant
  imports Game_Invariant
begin

text \<open>
  Submitting a move keeps the invariant: the effect of an accepted move as one
  change of the database (\<open>movedDb\<close>), the case analyses of the transaction body
  (\<open>submit_cases\<close>, \<open>played_effect\<close>), and that the body advances the system. The
  laws of the engine's port (\<open>chess_engine\<close>) are used through their
  interpretation on the adapter.
\<close>

section \<open>The effect of a move\<close>

definition movedRow ::
    "tx_env \<Rightarrow> PlayerColor \<Rightarrow> LockedGameClock \<Rightarrow> GameClock \<Rightarrow> MoveEvaluation \<Rightarrow> TerminalOutcome option \<Rightarrow>
     game_row \<Rightarrow> game_row" where
  "movedRow env color locked clock evaluation outcome g =
     (moveData g color locked clock evaluation outcome g)\<lparr>g_updated_at := te_appNow env\<rparr>"

definition movedDb ::
    "game_row \<Rightarrow> move_row \<Rightarrow> TerminalOutcome option \<Rightarrow> command_row \<Rightarrow> db \<Rightarrow> db" where
  "movedDb g' mv outcome c db =
     (set_game g' db)\<lparr>moves := moves db @ [mv],
       assignments := (if outcome \<noteq> None then delete_rows (\<lambda>a. a_game_id a = g_id g') (assignments db)
                       else assignments db),
       commands := commands db @ [c]\<rparr>"

lemma insert_move_Inr_iff:
  "insert_move m db = Inr (u, db') \<longleftrightarrow>
     int4 (m_ply m) \<and> move_check m \<and>
     (\<forall>r \<in> set (moves db). m_game_id r = m_game_id m \<longrightarrow>
        m_client_move_id r \<noteq> m_client_move_id m \<and> m_ply r \<noteq> m_ply m) \<and>
     find_game db (m_game_id m) \<noteq> None \<and> find_guest db (m_guest_session_id m) \<noteq> None \<and>
     db' = db\<lparr>moves := moves db @ [m]\<rparr>"
  by (auto simp: insert_move_def list_ex_iff split: if_splits)

lemma movedRow_fields [simp]:
  "g_id (movedRow env color locked clock ev out g) = g_id g"
  "g_match_id (movedRow env color locked clock ev out g) = g_match_id g"
  "g_initial_fen (movedRow env color locked clock ev out g) = g_initial_fen g"
  "g_current_fen (movedRow env color locked clock ev out g) = am_fenAfter (me_applied ev)"
  "g_turn_color (movedRow env color locked clock ev out g) = color_text (oppositeColor color)"
  "g_version (movedRow env color locked clock ev out g) = g_version g + (if g_status g = ''READY'' then 2 else 1)"
  "g_time_initial_ms (movedRow env color locked clock ev out g) = g_time_initial_ms g"
  "g_increment_ms (movedRow env color locked clock ev out g) = g_increment_ms g"
  "g_reconnect_deadline_at (movedRow env color locked clock ev out g) = g_reconnect_deadline_at g"
  "g_white_clock_ms (movedRow env color locked clock ev out g) = whiteMs clock"
  "g_black_clock_ms (movedRow env color locked clock ev out g) = blackMs clock"
  "g_pgn (movedRow env color locked clock ev out g) = me_pgn ev"
  "g_status (movedRow env color locked clock ev out g) =
     (case out of Some t \<Rightarrow> status_text (to_status t) | None \<Rightarrow> if g_status g = ''READY'' then ''IN_PROGRESS'' else g_status g)"
  "g_turn_started_at (movedRow env color locked clock ev out g) =
     (if out = None then Some (lk_observedAt locked) else None)"
  by (simp_all add: movedRow_def moveData_def Let_def split: option.split)

lemma movedRow_result [simp]:
  "g_result (movedRow env color locked clock ev (Some t) g) = Some (persistedResult (to_result t))"
  "g_termination (movedRow env color locked clock ev (Some t) g) = Some (persistedTermination (to_termination t))"
  by (simp_all add: movedRow_def moveData_def Let_def)

lemma persistMove_Inr:
  assumes sys: "system_ok db" and g: "find_game db gid = Some g" and game: "pg_game game = g"
    and run: "persistMove env game color input locked clock ev out sub db = Inr (res, db')"
  shows "res = move_accepted sub \<and>
    db' = movedDb (movedRow env color locked clock ev out g) (moveRow g color input locked (me_applied ev)) out
      (commandRow g input sub) db \<and>
    game_check (movedRow env color locked clock ev out g) \<and>
    (\<forall>r \<in> set (moves db). m_game_id r = gid \<longrightarrow> m_ply r \<noteq> am_plyNumber (me_applied ev))"
proof -
  note facts = system_ok_game [OF sys g]
  have gok: "games_ok db" using system_ok_tables [OF sys] by (simp add: tables_ok_def)
  let ?g' = "movedRow env color locked clock ev out g"
  have "update_games (te_appNow env) (\<lambda>r. g_id r = gid \<and> g_version r = g_version g)
      (moveData g color locked clock ev out) db =
    (if \<not> game_range ?g' then Inl out_of_range else if \<not> game_check ?g' then Inl check_violation
     else Inr (1, set_game ?g' db))"
    using update_game_at [OF gok g, of "moveData g color locked clock ev out" "te_appNow env"] facts(4)
    by (simp add: movedRow_def Let_def)
  with run game facts(4) show ?thesis
    by (auto simp: persistMove_def Let_def tbind_Inr_iff insert_move_Inr_iff insert_command_Inr_iff
      delete_assignments_def movedDb_def moveRow_def split: if_splits)
qed

lemma playMove_cases:
  assumes run: "playMove lib env game color input locked db = Inr (res, db')"
  obtains r where "db' = db" "res = move_refused r"
  | clock ev out sub where "moveGuards game color input = None"
      "admitMove (pg_game game) color locked = Inr clock"
      "evaluateSubmission lib game color input = Inr ev" "boardOutcome ev = Inr out"
      "moveSubmission game color input locked clock ev out = Inr sub"
      "persistMove env game color input locked clock ev out sub db = Inr (res, db')"
proof (cases "moveGuards game color input")
  case None
  show ?thesis
  proof (cases "admitMove (pg_game game) color locked")
    case (Inl r)
    with run None that(1) show ?thesis by (auto simp: playMove_def)
  next
    case adm: (Inr clock)
    show ?thesis
    proof (cases "evaluateSubmission lib game color input")
      case (Inl r)
      with run None adm that(1) show ?thesis by (auto simp: playMove_def)
    next
      case ev: (Inr ev)
      with run None adm obtain out where out: "boardOutcome ev = Inr out"
        by (cases "boardOutcome ev") (auto simp: playMove_def)
      show ?thesis
      proof (cases "moveSubmission game color input locked clock ev out")
        case (Inl r)
        with run None adm ev out that(1) show ?thesis by (auto simp: playMove_def)
      next
        case (Inr sub)
        with run None adm ev out that(2) show ?thesis by (auto simp: playMove_def)
      qed
    qed
  qed
next
  case (Some r)
  with run that(1) show ?thesis by (auto simp: playMove_def)
qed

lemma submit_cases:
  assumes run: "submitInTransaction lib uuidv4 env input db = Inr (res, db')"
  obtains (refused) r where "db' = db" "res = move_refused r"
  | (replayed) g command sub where "db' = db" "res = move_accepted sub"
      "find_game db (sm_gameId input) = Some g"
      "find_command db (sm_gameId input) (sm_clientMoveId input) = Some command"
      "replayResult uuidv4 command input = Inr sub"
  | (played) g locked player color where "find_game db (sm_gameId input) = Some g"
      "lockGameClock env (sm_gameId input) db = Inr (Some locked, db)"
      "findMover \<lparr>pg_game = g, pg_moves = moves_of db (sm_gameId input), pg_players = players_of db (sm_gameId input)\<rparr>
         (sm_guestSessionId input) = Some (player, color)"
      "find_command db (sm_gameId input) (sm_clientMoveId input) = None"
      "playMove lib env \<lparr>pg_game = g, pg_moves = moves_of db (sm_gameId input), pg_players = players_of db (sm_gameId input)\<rparr>
         color input locked db = Inr (res, db')"
proof -
  let ?gid = "sm_gameId input"
  from run obtain lock db1 where lock: "lockGameClock env ?gid db = Inr (lock, db1)"
    by (auto simp: submitInTransaction_def tbind_Inr_iff)
  show ?thesis
  proof (cases lock)
    case None
    with run lock lockGameClock_None [of env ?gid db db1] refused show ?thesis
      by (auto simp: submitInTransaction_def tbind_run_Inr)
  next
    case (Some locked)
    with lock obtain g where g: "find_game db ?gid = Some g" "db1 = db"
      by (auto elim: lockGameClock_Some)
    let ?game = "\<lparr>pg_game = g, pg_moves = moves_of db ?gid, pg_players = players_of db ?gid\<rparr>"
    have found: "findPersistedGame db ?gid = Some ?game" by (simp add: findPersistedGame_def g)
    show ?thesis
    proof (cases "findMover ?game (sm_guestSessionId input)")
      case None
      with run lock Some g found refused show ?thesis
        by (auto simp: submitInTransaction_def tbind_run_Inr)
    next
      case mover: (Some pc)
      obtain player color where pc: "pc = (player, color)" by (cases pc)
      show ?thesis
      proof (cases "find_command db ?gid (sm_clientMoveId input)")
        case None
        with run lock Some g found mover pc played show ?thesis
          by (simp add: submitInTransaction_def tbind_run_Inr)
      next
        case command: (Some c)
        then show ?thesis
          using run lock Some g found mover pc refused replayed [of _ g c]
          by (cases "replayResult uuidv4 c input") (auto simp: submitInTransaction_def tbind_run_Inr)
      qed
    qed
  qed
qed


section \<open>Moves keep the invariant\<close>

lemma moveGuards_None:
  assumes "moveGuards game color input = None"
  shows "g_status (pg_game game) \<in> {''IN_PROGRESS'', ''READY''}"
    "g_turn_color (pg_game game) = color_text color" "sm_expectedVersion input = g_version (pg_game game)"
  using assms by (auto simp: moveGuards_def Let_def as_color_Some_iff split: if_splits)

lemma evaluateSubmission_Inr:
  assumes "evaluateSubmission lib game color input = Inr ev"
  shows "evaluateMove lib
      \<lparr>ev_expectedCurrentFen = g_current_fen (pg_game game), ev_history = map m_uci (pg_moves game),
       ev_initialFen = g_initial_fen (pg_game game), ev_move = sm_move input\<rparr> = Inr ev"
    and "am_color (me_applied ev) = color"
  using assms by (auto simp: evaluateSubmission_def Let_def split: sum.splits if_splits)

lemma evaluateSubmission_applied:
  assumes "evaluateSubmission lib game color input = Inr ev"
  shows "am_plyNumber (me_applied ev) = int (length (pg_moves game)) + 1"
    and "am_fenBefore (me_applied ev) = g_current_fen (pg_game game)"
  using chessjs_engine.ply [OF evaluateSubmission_Inr(1) [OF assms]]
    chessjs_engine.fen_before [OF evaluateSubmission_Inr(1) [OF assms]] by simp_all

lemma boardOutcome_Inr:
  assumes "boardOutcome ev = Inr (Some t)"
  shows "outcome_ok t" "to_status t = COMPLETED"
proof -
  from assms obtain r w where "deriveTerminalOutcome (BOARD r w) = Inr t"
    by (auto simp: boardOutcome_def split: GameOver.splits sum.splits)
  then show "outcome_ok t" "to_status t = COMPLETED"
    by (auto simp: deriveBoardOutcome_ok deriveBoardOutcome_def winnerOutcome_def split: if_splits option.splits)
qed

text \<open>The engine never reports an end of the game that has no outcome.\<close>

lemma boardOutcome_total:
  assumes "evaluateSubmission lib game color input = Inr ev"
  obtains out where "boardOutcome ev = Inr out"
proof (cases "me_gameOver ev")
  case not_over
  with that show ?thesis by (simp add: boardOutcome_def)
next
  case (over r w)
  from chessjs_engine.board_outcome [OF evaluateSubmission_Inr(1) [OF assms] over]
  obtain t where "deriveTerminalOutcome (BOARD r w) = Inr t" by blast
  with over that show ?thesis by (simp add: boardOutcome_def)
qed

lemma findMover_Some:
  assumes "findMover game guest = Some (player, color)"
  shows "player \<in> set (pg_players game)" "p_guest_session_id player = guest" "p_color player = color_text color"
proof -
  from assms have find: "List.find (\<lambda>c. p_guest_session_id c = guest \<and> as_color (p_color c) \<noteq> None) (pg_players game) = Some player"
    and color: "as_color (p_color player) = Some color"
    by (auto simp: findMover_def split: option.splits)
  from list_find_SomeD [OF find] show "player \<in> set (pg_players game)" "p_guest_session_id player = guest"
    by simp_all
  from color show "p_color player = color_text color" by (simp add: as_color_Some_iff)
qed

lemma turn_text_next: "turn_text n = color_text c \<Longrightarrow> turn_text (Suc n) = color_text (oppositeColor c)"
  by (cases c) (auto simp: turn_text_def split: if_splits)

lemma moved_history:
  assumes inv: "history_inv g ps ms" and ev: "am_plyNumber (me_applied ev) = int (length ms) + 1"
    "am_fenBefore (me_applied ev) = g_current_fen g"
    and turn: "g_turn_color g = color_text color"
    and player: "player \<in> set ps" "p_guest_session_id player = sm_guestSessionId input" "p_color player = color_text color"
  shows "history_inv (movedRow env color locked clock ev out g) ps
    (ms @ [moveRow g color input locked (me_applied ev)])"
proof -
  have "turn_text (length ms) = color_text color" using inv turn by (simp add: history_inv_def)
  with inv ev player turn_text_next [of "length ms" color] show ?thesis
    by (auto simp: history_inv_def moveRow_def fen_chain_append)
qed

lemma moved_inv:
  assumes inv: "game_inv g ps ms" and ev: "am_plyNumber (me_applied ev) = int (length ms) + 1"
    "am_fenBefore (me_applied ev) = g_current_fen g"
    and turn: "g_turn_color g = color_text color" and status: "g_status g \<in> {''IN_PROGRESS'', ''READY''}"
    and player: "player \<in> set ps" "p_guest_session_id player = sm_guestSessionId input" "p_color player = color_text color"
    and out: "boardOutcome ev = Inr out"
  shows "game_inv (movedRow env color locked clock ev out g) ps
    (ms @ [moveRow g color input locked (me_applied ev)])"
proof -
  have st: "status_inv g ps ms" and hist: "history_inv g ps ms" using inv by (simp_all add: game_inv_def)
  let ?g' = "movedRow env color locked clock ev out g"
  have status': "g_status ?g' = (if out = None then ''IN_PROGRESS'' else ''COMPLETED'')"
    using status boardOutcome_Inr(2) out by (cases out) auto
  have "graces ps = []" "all_joined ps" using st status by (auto simp: status_inv_def)
  then have "status_inv ?g' ps (ms @ [moveRow g color input locked (me_applied ev)])"
    using st unfolding status_inv_def status' by auto
  moreover have "outcome_inv ?g'"
  proof (cases out)
    case None
    with status' show ?thesis by (simp add: outcome_inv_def terminal_text_def)
  next
    case (Some t)
    with out boardOutcome_Inr [of ev t] show ?thesis
      by (auto simp: outcome_inv_def intro!: exI [of _ t])
  qed
  ultimately show ?thesis
    using moved_history [OF hist ev turn player] by (simp add: game_inv_def)
qed

lemma movedDb_lookups [simp]:
  "games (movedDb g' mv out c db) = games (set_game g' db)"
  "players_of (movedDb g' mv out c db) x = players_of db x"
  "commands (movedDb g' mv out c db) = commands db @ [c]"
  "guests (movedDb g' mv out c db) = guests db"
  by (simp_all add: movedDb_def set_game_def players_of_def)

lemma movedDb_moves_of:
  assumes "\<And>m'. m' \<in> set (moves_of db gid) \<Longrightarrow> m_ply m' < m_ply mv" and "m_game_id mv = gid"
  shows "moves_of (movedDb g' mv out c db) x = moves_of db x @ (if x = gid then [mv] else [])"
  using moves_of_append [OF assms, where x = x] by (simp add: moves_of_def movedDb_def)

lemma history_plies:
  "map m_ply ms = map (\<lambda>i. int i + 1) [0..<length ms] \<Longrightarrow> m \<in> set ms \<Longrightarrow> m_ply m \<le> int (length ms)"
proof -
  assume plies: "map m_ply ms = map (\<lambda>i. int i + 1) [0..<length ms]" and "m \<in> set ms"
  then have "m_ply m \<in> set (map (\<lambda>i. int i + 1) [0..<length ms])" by (metis image_eqI set_map)
  then show ?thesis by auto
qed

text \<open>A move that was played, in full.\<close>

lemma played_effect:
  assumes sys: "system_ok db" and g: "find_game db (sm_gameId input) = Some g"
    and game: "game = \<lparr>pg_game = g, pg_moves = moves_of db (sm_gameId input), pg_players = players_of db (sm_gameId input)\<rparr>"
    and mover: "findMover game (sm_guestSessionId input) = Some (player, color)"
    and run: "playMove lib env game color input locked db = Inr (res, db')"
  obtains (refused) r where "db' = db" "res = move_refused r"
  | (played) clock ev out sub mv where "moveGuards game color input = None"
      "admitMove g color locked = Inr clock" "evaluateSubmission lib game color input = Inr ev"
      "boardOutcome ev = Inr out" "moveSubmission game color input locked clock ev out = Inr sub"
      "res = move_accepted sub" "mv = moveRow g color input locked (me_applied ev)"
      "db' = movedDb (movedRow env color locked clock ev out g) mv out (commandRow g input sub) db"
      "moves_of db' (sm_gameId input) = moves_of db (sm_gameId input) @ [mv]"
      "games_inv db'" "evolves db db'"
proof -
  let ?gid = "sm_gameId input"
  note facts = system_ok_game [OF sys g]
  from run show ?thesis
  proof (cases rule: playMove_cases)
    case (1 r)
    then show ?thesis by (rule refused)
  next
    case (2 clock ev out sub)
    let ?mv = "moveRow g color input locked (me_applied ev)"
    let ?g' = "movedRow env color locked clock ev out g"
    have eff: "res = move_accepted sub" "db' = movedDb ?g' ?mv out (commandRow g input sub) db"
      using persistMove_Inr [OF sys g _ 2(6)] game by auto
    note guards = moveGuards_None [OF 2(1)] and applied = evaluateSubmission_applied [OF 2(3)]
      and who = findMover_Some [OF mover]
    have inv': "game_inv ?g' (players_of db ?gid) (moves_of db ?gid @ [?mv])"
      using facts(1) guards applied who 2(4) by (intro moved_inv) (auto simp: game)
    have below: "m_ply m < m_ply ?mv" if "m \<in> set (moves_of db ?gid)" for m
      using that facts(1) applied(1) history_plies [of "moves_of db ?gid" m]
      by (auto simp: game game_inv_def history_inv_def moveRow_def)
    have gid: "m_game_id ?mv = ?gid" using facts(4) by (simp add: moveRow_def)
    have moves': "moves_of db' x = moves_of db x @ (if x = ?gid then [?mv] else [])" for x
      unfolding eff(2) using movedDb_moves_of [OF below gid] by blast
    have "games_inv db'"
    proof (rule games_inv_change [of db _ ?g'])
      show "games_inv db" using sys by (simp add: system_ok_def)
    qed (use inv' facts(4) moves' in \<open>simp_all add: eff(2)\<close>)
    moreover have "evolves db db'"
    proof (rule evolves_change [of db ?g' g])
      show "find_game db (g_id ?g') = Some g" using g facts(4) by simp
      show "row_evolves g ?g'"
        using guards(1) by (auto simp: game row_evolves_def terminal_text_def)
    qed (use facts(4) moves' in \<open>simp_all add: eff(2)\<close>)
    ultimately show ?thesis
      using played [OF 2(1) _ 2(3,4,5) eff(1) refl eff(2)] 2(2) moves' game by simp
  qed
qed

lemma submit_advances: "advances (submitInTransaction lib uuidv4 env input)"
  unfolding advances_def
proof (intro allI impI)
  fix db res db'
  assume sys: "system_ok db" and run: "submitInTransaction lib uuidv4 env input db = Inr (res, db')"
  from run show "games_inv db' \<and> evolves db db'"
  proof (cases rule: submit_cases)
    case (played g locked player color)
    from sys played(1) refl played(3,5) show ?thesis
      by (cases rule: played_effect) (use sys unchanged_advances in blast)+
  qed (use sys unchanged_advances in blast)+
qed

interpretation submit_game: game_transaction "submitInTransaction lib uuidv4 env" for lib uuidv4 env
  by unfold_locales (rule submit_advances)

end
