(* ===== verification/Game_System.thy ===== *)
theory Game_System
  imports Lifecycle_Invariant Allocation_Invariant Gameplay_Invariant
begin

text \<open>
  The three repositories together: \<open>perform\<close> is one call of an operation with
  its environment (clock readings, what was seen before the lock, failures),
  \<open>performs\<close> a sequence of calls, and \<open>reachable\<close> the databases that calls
  and changes of the guest sessions lead to, from an empty one. Each step rests
  on the contract \<open>game_transaction\<close> of its body.
\<close>

section \<open>Operations of the repositories\<close>

datatype operation =
    op_allocate AllocateGame | op_markReady MarkGameReady | op_startIfReady string
  | op_submitMove SubmitMove | op_resign ResignGame | op_terminateForReset string
  | op_markDisconnected string int | op_markReconnected string
  | op_adjudicateTimeout string | op_adjudicateNoShow string | op_adjudicateAbandonment string "string list"

fun perform :: "'p chessjs \<Rightarrow> (string \<Rightarrow> bool) \<Rightarrow> tx_env \<Rightarrow> operation \<Rightarrow> db \<Rightarrow> db" where
  "perform lib uuidv4 env (op_allocate input) db = snd (allocate env input db)"
| "perform lib uuidv4 env (op_markReady input) db = snd (markReady env input db)"
| "perform lib uuidv4 env (op_startIfReady gid) db = snd (startIfReady env gid db)"
| "perform lib uuidv4 env (op_submitMove input) db = snd (submitMove lib uuidv4 env input db)"
| "perform lib uuidv4 env (op_resign input) db = snd (resign uuidv4 env input db)"
| "perform lib uuidv4 env (op_terminateForReset guest) db = snd (terminateForReset env guest db)"
| "perform lib uuidv4 env (op_markDisconnected guest graceMs) db = snd (markDisconnected env guest graceMs db)"
| "perform lib uuidv4 env (op_markReconnected guest) db = snd (markReconnected env guest db)"
| "perform lib uuidv4 env (op_adjudicateTimeout gid) db = snd (adjudicateTimeout env gid db)"
| "perform lib uuidv4 env (op_adjudicateNoShow gid) db = snd (adjudicateNoShow env gid db)"
| "perform lib uuidv4 env (op_adjudicateAbandonment gid absent) db = snd (adjudicateAbandonment env gid absent db)"

fun performs :: "'p chessjs \<Rightarrow> (string \<Rightarrow> bool) \<Rightarrow> (tx_env \<times> operation) list \<Rightarrow> db \<Rightarrow> db" where
  "performs lib uuidv4 [] db = db"
| "performs lib uuidv4 ((env, op) # ops) db = performs lib uuidv4 ops (perform lib uuidv4 env op db)"

inductive reachable :: "'p chessjs \<Rightarrow> (string \<Rightarrow> bool) \<Rightarrow> db \<Rightarrow> bool" for lib uuidv4 where
  empty: "distinct (map gs_id gs) \<Longrightarrow>
    reachable lib uuidv4 \<lparr>games = [], players = [], assignments = [], moves = [], commands = [], guests = gs\<rparr>"
| sessions: "reachable lib uuidv4 db \<Longrightarrow> distinct (map gs_id gs) \<Longrightarrow> guest_ids db \<subseteq> gs_id ` set gs \<Longrightarrow>
    reachable lib uuidv4 (db\<lparr>guests := gs\<rparr>)"
| op: "reachable lib uuidv4 db \<Longrightarrow> reachable lib uuidv4 (perform lib uuidv4 env op db)"

lemma submitMove_snd:
  "snd (submitMove lib uuidv4 env input db) = snd (run (te_fault env) (submitInTransaction lib uuidv4 env input) db)"
  by (auto simp: submitMove_def split: prod.splits sum.splits MoveTransactionResult.splits)

lemma resign_snd:
  "snd (resign uuidv4 env input db) = snd (run (te_fault env) (resignInTransaction uuidv4 env input) db)"
  by (auto simp: resign_def split: prod.splits sum.splits ResignTransactionResult.splits)

lemma allocate_snd:
  "snd (allocate env input db) =
     (if ag_whiteGuestSessionId input = ag_blackGuestSessionId input then db
      else snd (run (te_fault env) (allocateInTransaction env input) db))"
  by (auto simp: allocate_def split: prod.splits sum.splits AllocationTransactionResult.splits)

lemma markReady_snd:
  "snd (markReady env input db) = snd (run (te_fault env) (markReadyInTransaction env input) db)"
  by (auto simp: markReady_def split: prod.splits sum.splits ReadyTransactionResult.splits)

lemma startIfReady_snd:
  "snd (startIfReady env gid db) = snd (run (te_fault env) (startIfReadyInTransaction env gid) db)"
  by (auto simp: startIfReady_def split: prod.splits sum.splits StartTransactionResult.splits)

lemma perform_system:
  assumes "system_ok db"
  shows "system_ok (perform lib uuidv4 env op db) \<and> evolves db (perform lib uuidv4 env op db)"
proof (cases op)
  case (op_allocate x)
  then show ?thesis using assms allocate_game.run_system by (simp add: allocate_snd)
next
  case (op_markReady x)
  then show ?thesis using assms ready_game.run_system by (simp add: markReady_snd)
next
  case (op_startIfReady x)
  then show ?thesis using assms start_game.run_system by (simp add: startIfReady_snd)
next
  case (op_submitMove x)
  then show ?thesis using assms submit_game.run_system by (simp add: submitMove_snd)
next
  case (op_resign x)
  then show ?thesis using assms resign_game.run_system by (simp add: resign_snd)
next
  case (op_terminateForReset x)
  then show ?thesis using assms reset_game.run_system by (simp add: terminateForReset_def)
next
  case (op_markDisconnected x y)
  then show ?thesis using disconnect_game.run_system [OF assms, of "te_fault env" env "(x, y)"]
    by (simp add: markDisconnected_def)
next
  case (op_markReconnected x)
  then show ?thesis using assms reconnect_game.run_system by (simp add: markReconnected_def)
next
  case (op_adjudicateTimeout x)
  then show ?thesis using assms timeout_game.run_system by (simp add: adjudicateTimeout_def)
next
  case (op_adjudicateNoShow x)
  then show ?thesis using assms no_show_game.run_system by (simp add: adjudicateNoShow_def)
next
  case (op_adjudicateAbandonment x y)
  then show ?thesis using abandonment_game.run_system [OF assms, of "te_fault env" env "(x, y)"]
    by (simp add: adjudicateAbandonment_def)
qed

lemma performs_system:
  "system_ok db \<Longrightarrow> system_ok (performs lib uuidv4 ops db) \<and> evolves db (performs lib uuidv4 ops db)"
proof (induction ops arbitrary: db)
  case (Cons x ops)
  obtain env op where x: "x = (env, op)" by (cases x)
  from perform_system [OF Cons.prems] Cons.IH [of "perform lib uuidv4 env op db"] evolves_trans
  show ?case unfolding x performs.simps by blast
qed simp

lemma sessions_system:
  assumes "system_ok db" and "distinct (map gs_id gs)" and "guest_ids db \<subseteq> gs_id ` set gs"
  shows "system_ok (db\<lparr>guests := gs\<rparr>)"
proof -
  let ?db = "db\<lparr>guests := gs\<rparr>"
  have ids: "game_ids ?db = game_ids db" "guest_ids db \<subseteq> guest_ids ?db"
    using assms(3) by (simp_all add: game_ids_def guest_ids_def)
  have ps: "players_of ?db x = players_of db x" "moves_of ?db x = moves_of db x"
    "assignments_of ?db x = assignments_of db x" for x
    by (simp_all add: players_of_def moves_of_def assignments_of_def)
  have "tables_ok ?db"
    using system_ok_tables [OF assms(1)] ids assms(2)
    by (auto simp: tables_ok_def games_ok_def players_ok_def assignments_ok_def moves_ok_def commands_ok_def)
  moreover have "commit_ok ?db"
  proof -
    have "allocation_ok ?db g = allocation_ok db g" for g by (simp add: allocation_ok_def ps)
    with assms(1) show ?thesis by (simp add: system_ok_def db_ok_def commit_ok_def list_all_iff)
  qed
  moreover have "games_inv ?db"
    using assms(1) by (simp add: system_ok_def games_inv_def ps)
  ultimately show ?thesis by (simp add: system_ok_def db_ok_def)
qed

lemma reachable_system: "reachable lib uuidv4 db \<Longrightarrow> system_ok db"
proof (induction rule: reachable.induct)
  case (empty gs)
  then show ?case
    by (simp add: system_ok_def db_ok_def tables_ok_def games_ok_def players_ok_def assignments_ok_def
      moves_ok_def commands_ok_def commit_ok_def games_inv_def)
next
  case (sessions db gs)
  then show ?case by (intro sessions_system)
next
  case (op db env op)
  with perform_system show ?case by blast
qed

section \<open>Active games of a guest\<close>

lemma active_player_assigned:
  assumes sys: "system_ok db" and g: "g \<in> set (games db)" "\<not> terminal_text (g_status g)"
    and p: "p \<in> set (players db)" "p_game_id p = g_id g"
  shows "find_assignment db (p_guest_session_id p) =
    Some \<lparr>a_guest_session_id = p_guest_session_id p, a_game_id = g_id g\<rparr>"
proof -
  let ?as = "assignments_of db (g_id g)"
  let ?ps = "filter (\<lambda>p. p_game_id p = g_id g) (players db)"
  have ok: "assignments_ok db" "players_ok db" using system_ok_tables [OF sys] by (simp_all add: tables_ok_def)
  from sys g have "allocation_ok db g" by (simp add: system_ok_def db_ok_def commit_ok_def list_all_iff)
  with g(2) have len: "length ?ps = 2" "length ?as = 2"
    and some: "\<forall>a \<in> set ?as. \<exists>p \<in> set ?ps. p_guest_session_id p = a_guest_session_id a"
    by (auto simp: allocation_ok_def list_all_iff list_ex_iff)
  from some have match: "a_guest_session_id ` set ?as \<subseteq> p_guest_session_id ` set ?ps"
  proof (intro image_subsetI)
    fix a
    assume "a \<in> set ?as"
    with some obtain p where p: "p \<in> set ?ps" "p_guest_session_id p = a_guest_session_id a" by blast
    from p(1) p(2) [symmetric] show "a_guest_session_id a \<in> p_guest_session_id ` set ?ps"
      by (rule rev_image_eqI)
  qed
  have "distinct (map a_guest_session_id ?as)"
    using ok(1) by (simp add: assignments_ok_def assignments_of_def distinct_map_filter)
  then have "card (a_guest_session_id ` set ?as) = 2"
    using len(2) distinct_card [of "map a_guest_session_id ?as"] by simp
  moreover have "card (p_guest_session_id ` set ?ps) \<le> 2"
    using len(1) card_length [of "map p_guest_session_id ?ps"] by simp
  ultimately have "a_guest_session_id ` set ?as = p_guest_session_id ` set ?ps"
    using match by (intro card_seteq) auto
  moreover have "p_guest_session_id p \<in> p_guest_session_id ` set ?ps" using p by auto
  ultimately obtain a where "a \<in> set ?as" "a_guest_session_id a = p_guest_session_id p" by (metis (no_types, lifting) imageE)
  then have a: "a \<in> set (assignments db)" "a_game_id a = g_id g" "a_guest_session_id a = p_guest_session_id p"
    by (simp_all add: assignments_of_def)
  have "distinct (map a_guest_session_id (assignments db))" using ok(1) by (simp add: assignments_ok_def)
  with a have "find_assignment db (p_guest_session_id p) = Some a"
    by (simp add: find_assignment_def find_row_unique)
  moreover have "a = \<lparr>a_guest_session_id = p_guest_session_id p, a_game_id = g_id g\<rparr>"
    by (rule assignment_row.equality) (use a in simp_all)
  ultimately show ?thesis by simp
qed

end
