(* ===== verification/Sample_Game.thy ===== *)
theory Sample_Game
  imports Game_System
begin

text \<open>
  One game from allocation to checkmate, with the two-move library of
  \<open>Chess_Engine\<close>: the databases after each call, evaluated from the model, and
  that they are reachable. The properties are shown to apply to them.
\<close>

definition sample_uuid :: "string \<Rightarrow> bool" where
  "sample_uuid s \<longleftrightarrow> s \<noteq> []"

definition sample_guests :: "guest_row list" where
  "sample_guests =
     [\<lparr>gs_id = ''u1'', gs_display_name = ''Ada'', gs_avatar_key = ''fox'', gs_current_jti = None,
       gs_issued_at = 0, gs_expires_at = 1000000, gs_revoked_at = None\<rparr>,
      \<lparr>gs_id = ''u2'', gs_display_name = ''Bob'', gs_avatar_key = ''owl'', gs_current_jti = None,
       gs_issued_at = 0, gs_expires_at = 1000000, gs_revoked_at = None\<rparr>]"

definition sample_empty :: db where
  "sample_empty =
     \<lparr>games = [], players = [], assignments = [], moves = [], commands = [], guests = sample_guests\<rparr>"

definition sample_env :: "int \<Rightarrow> db \<Rightarrow> tx_env" where
  "sample_env t earlier =
     \<lparr>te_observedAt = t, te_appNow = t, te_fault = NoFault, te_earlier = earlier, te_readFault = None,
      te_newId1 = ''p1'', te_newId2 = ''p2''\<rparr>"

definition sample_allocation :: AllocateGame where
  "sample_allocation =
     \<lparr>ag_blackGuestSessionId = ''u2'', ag_gameId = ''g'', ag_initialFen = ''start'', ag_joinDeadlineAt = 30000,
      ag_matchId = ''m'', ag_mode = ''BLITZ'', ag_observedAt = 1000, ag_pgn = [], ag_timeIncrementMs = 2000,
      ag_timeInitialMs = 180000, ag_whiteGuestSessionId = ''u1''\<rparr>"

definition sample_game :: game_row where
  "sample_game =
     \<lparr>g_id = ''g'', g_match_id = ''m'', g_mode = ''BLITZ'', g_status = ''WAITING_FOR_PLAYERS'',
      g_initial_fen = ''start'', g_current_fen = ''start'', g_turn_color = ''w'', g_pgn = [], g_version = 0,
      g_result = None, g_termination = None, g_time_initial_ms = 180000, g_increment_ms = 2000,
      g_white_clock_ms = 180000, g_black_clock_ms = 180000, g_turn_started_at = None,
      g_join_deadline_at = Some 30000, g_reconnect_deadline_at = None, g_started_at = None,
      g_ended_at = None, g_updated_at = 1000\<rparr>"

definition sample_player :: "string \<Rightarrow> string \<Rightarrow> string \<Rightarrow> int \<Rightarrow> int option \<Rightarrow> player_row" where
  "sample_player pid guest color slot joined =
     \<lparr>p_id = pid, p_game_id = ''g'', p_guest_session_id = guest, p_color = color, p_slot = slot,
      p_joined_at = joined, p_connected_at = joined, p_disconnected_at = None, p_reconnect_grace_ends_at = None\<rparr>"

definition sample_db :: "game_row \<Rightarrow> player_row list \<Rightarrow> move_row list \<Rightarrow> command_row list \<Rightarrow> db" where
  "sample_db g ps ms cs =
     \<lparr>games = [g], players = ps,
      assignments = (if terminal_text (g_status g) then [] else
        [\<lparr>a_guest_session_id = ''u1'', a_game_id = ''g''\<rparr>, \<lparr>a_guest_session_id = ''u2'', a_game_id = ''g''\<rparr>]),
      moves = ms, commands = cs, guests = sample_guests\<rparr>"

definition sample_waiting :: db where
  "sample_waiting = sample_db sample_game
     [sample_player ''p1'' ''u1'' ''w'' 0 None, sample_player ''p2'' ''u2'' ''b'' 1 None] [] []"

definition sample_ready_input :: "string \<Rightarrow> int \<Rightarrow> MarkGameReady" where
  "sample_ready_input guest t =
     \<lparr>mr_expectedVersion = 0, mr_gameId = ''g'', mr_guestSessionId = guest, mr_observedAt = t\<rparr>"

definition sample_joined :: "player_row list" where
  "sample_joined = [sample_player ''p1'' ''u1'' ''w'' 0 (Some 2000), sample_player ''p2'' ''u2'' ''b'' 1 (Some 3000)]"

definition sample_half_ready :: db where
  "sample_half_ready = sample_db sample_game
     [sample_player ''p1'' ''u1'' ''w'' 0 (Some 2000), sample_player ''p2'' ''u2'' ''b'' 1 None] [] []"

definition sample_ready_game :: game_row where
  "sample_ready_game = sample_game\<lparr>g_status := ''READY'', g_version := 1, g_updated_at := 3000\<rparr>"

definition sample_ready :: db where
  "sample_ready = sample_db sample_ready_game sample_joined [] []"

definition sample_playing_game :: game_row where
  "sample_playing_game = sample_ready_game\<lparr>g_status := ''IN_PROGRESS'', g_version := 2, g_updated_at := 4000,
     g_started_at := Some 4000, g_turn_started_at := Some 4000\<rparr>"

definition sample_playing :: db where
  "sample_playing = sample_db sample_playing_game sample_joined [] []"

definition sample_submit :: "string \<Rightarrow> int \<Rightarrow> string \<Rightarrow> string \<Rightarrow> string \<Rightarrow> SubmitMove" where
  "sample_submit event version guest source dest =
     \<lparr>sm_clientMoveId = event, sm_expectedVersion = version, sm_gameId = ''g'', sm_guestSessionId = guest,
      sm_move = \<lparr>mi_from = source, mi_promotion = None, mi_to = dest\<rparr>\<rparr>"

definition sample_first_move :: SubmitMove where
  "sample_first_move = sample_submit ''e1'' 2 ''u1'' ''e2'' ''e4''"

definition sample_second_move :: SubmitMove where
  "sample_second_move = sample_submit ''e2'' 3 ''u2'' ''e7'' ''e5''"

definition sample_moved_game :: game_row where
  "sample_moved_game = sample_playing_game\<lparr>g_current_fen := ''e2e4'', g_turn_color := ''b'', g_pgn := ''e2e4'',
     g_version := 3, g_white_clock_ms := 177000, g_turn_started_at := Some 9000, g_updated_at := 9000\<rparr>"

definition sample_move_row :: move_row where
  "sample_move_row =
     \<lparr>m_game_id = ''g'', m_ply = 1, m_client_move_id = ''e1'', m_guest_session_id = ''u1'', m_color = ''w'',
      m_san = ''e4'', m_uci = ''e2e4'', m_fen_before = ''start'', m_fen_after = ''e2e4'', m_server_received_at = 9000\<rparr>"

definition sample_submission :: MoveSubmission where
  "sample_submission =
     \<lparr>ms_accepted = \<lparr>ac_check = False, ac_clientMoveId = ''e1'',
        ac_clocks = \<lparr>gc_blackMs = 180000, gc_observedAt = 9000, gc_running = Some Black, gc_whiteMs = 177000\<rparr>,
        ac_fenAfter = ''e2e4'', ac_gameId = ''g'', ac_gameVersion = 3, ac_ply = 1, ac_san = ''e4'',
        ac_turn = Black, ac_uci = ''e2e4''\<rparr>,
      ms_duplicate = False, ms_ended = None, ms_guestSessionIds = (''u1'', ''u2''), ms_started = None\<rparr>"

definition sample_command :: command_row where
  "sample_command =
     \<lparr>c_game_id = ''g'', c_guest_session_id = ''u1'', c_event_id = ''e1'', c_command_type = ''MOVE'',
      c_result_version = 3, c_response = persistedSubmission sample_submission\<rparr>"

definition sample_moved :: db where
  "sample_moved = sample_db sample_moved_game sample_joined [sample_move_row] [sample_command]"

lemma sample_allocate: "snd (allocate (sample_env 1000 sample_empty) sample_allocation sample_empty) = sample_waiting"
  by code_simp

lemma sample_mark_ready:
  "snd (markReady (sample_env 2000 sample_waiting) (sample_ready_input ''u1'' 2000) sample_waiting) = sample_half_ready"
  "snd (markReady (sample_env 3000 sample_half_ready) (sample_ready_input ''u2'' 3000) sample_half_ready) = sample_ready"
  by code_simp+

lemma sample_start: "snd (startIfReady (sample_env 4000 sample_ready) ''g'' sample_ready) = sample_playing"
  by code_simp

lemma sample_submit_first:
  "submitMove sample_lib sample_uuid (sample_env 9000 sample_playing) sample_first_move sample_playing =
     (Inr sample_submission, sample_moved)"
  by code_simp

lemma sample_reachable:
  "reachable sample_lib sample_uuid sample_empty" "reachable sample_lib sample_uuid sample_waiting"
  "reachable sample_lib sample_uuid sample_half_ready" "reachable sample_lib sample_uuid sample_ready"
  "reachable sample_lib sample_uuid sample_playing" "reachable sample_lib sample_uuid sample_moved"
proof -
  show r0: "reachable sample_lib sample_uuid sample_empty"
    unfolding sample_empty_def by (rule reachable.empty) (simp add: sample_guests_def)
  from reachable.op [OF r0, of "sample_env 1000 sample_empty" "op_allocate sample_allocation"]
  show r1: "reachable sample_lib sample_uuid sample_waiting" by (simp add: sample_allocate)
  from reachable.op [OF r1, of "sample_env 2000 sample_waiting" "op_markReady (sample_ready_input ''u1'' 2000)"]
  show r2: "reachable sample_lib sample_uuid sample_half_ready" by (simp add: sample_mark_ready)
  from reachable.op [OF r2, of "sample_env 3000 sample_half_ready" "op_markReady (sample_ready_input ''u2'' 3000)"]
  show r3: "reachable sample_lib sample_uuid sample_ready" by (simp add: sample_mark_ready)
  from reachable.op [OF r3, of "sample_env 4000 sample_ready" "op_startIfReady ''g''"]
  show r4: "reachable sample_lib sample_uuid sample_playing" by (simp add: sample_start)
  from reachable.op [OF r4, of "sample_env 9000 sample_playing" "op_submitMove sample_first_move"]
  show r5: "reachable sample_lib sample_uuid sample_moved" by (simp add: sample_submit_first)
qed

lemmas sample_system = sample_reachable [THEN reachable_system]

definition sample_reconnecting :: db where
  "sample_reconnecting = perform sample_lib sample_uuid (sample_env 10000 sample_moved)
     (op_markDisconnected ''u2'' 60000) sample_moved"

definition sample_reconnecting_game :: game_row where
  "sample_reconnecting_game = sample_moved_game\<lparr>g_status := ''RECONNECTING'', g_version := 4,
     g_reconnect_deadline_at := Some 70000, g_updated_at := 10000\<rparr>"

lemma sample_reconnecting_reachable: "reachable sample_lib sample_uuid sample_reconnecting"
  unfolding sample_reconnecting_def by (rule reachable.op [OF sample_reachable(6)])

end
