(* ===== verification/System_Properties.thy ===== *)
theory System_Properties
  imports Sample_Game
begin

text \<open>
  What holds of the durable state as a whole, in every database that calls of
  the repositories lead to, and over every sequence of calls.
\<close>

lemma fen_chain_nth:
  assumes "fen_chain fen ms current"
  shows "\<And>i. i < length ms \<Longrightarrow> m_fen_before (ms ! i) = (if i = 0 then fen else m_fen_after (ms ! (i - 1)))"
    and "current = (if ms = [] then fen else m_fen_after (last ms))"
proof -
  show "m_fen_before (ms ! i) = (if i = 0 then fen else m_fen_after (ms ! (i - 1)))" if "i < length ms" for i
    using assms that
  proof (induction ms arbitrary: fen i)
    case (Cons m ms)
    then show ?case by (cases i; cases "i - 1") auto
  qed simp
  show "current = (if ms = [] then fen else m_fen_after (last ms))"
    using assms by (induction ms arbitrary: fen) auto
qed

section \<open>The invariant of the whole system\<close>

text \<open>
  C1. Whatever calls are made, with whatever clock readings, lost connections
  and interleavings, every game keeps a gapless move history: the moves are
  numbered from 1, white and black alternate starting with white, each was made
  by the guest who holds that colour, each starts in the position where the
  previous one ended, the first one in the initial position, the last one ends
  in the current position, and the side to move is the one the number of moves
  gives.
\<close>

theorem reachable_history:
  assumes "reachable lib uuidv4 db" and "find_game db gid = Some g"
  shows "let ms = moves_of db gid in
    (\<forall>i < length ms. m_ply (ms ! i) = int i + 1 \<and> m_color (ms ! i) = (if even i then ''w'' else ''b'') \<and>
       m_fen_before (ms ! i) = (if i = 0 then g_initial_fen g else m_fen_after (ms ! (i - 1))) \<and>
       (\<exists>p \<in> set (players db). p_game_id p = gid \<and> p_color p = m_color (ms ! i) \<and>
          p_guest_session_id p = m_guest_session_id (ms ! i))) \<and>
    g_current_fen g = (if ms = [] then g_initial_fen g else m_fen_after (last ms)) \<and>
    g_turn_color g = (if even (length ms) then ''w'' else ''b'')"
proof -
  let ?ms = "moves_of db gid"
  have inv: "history_inv g (players_of db gid) ?ms"
    using system_ok_game [OF reachable_system [OF assms(1)] assms(2)] by (simp add: game_inv_def)
  have ply: "m_ply (?ms ! i) = int i + 1" and color: "m_color (?ms ! i) = turn_text i" if "i < length ?ms" for i
  proof -
    from inv have "map m_ply ?ms ! i = map (\<lambda>i. int i + 1) [0..<length ?ms] ! i"
      "map m_color ?ms ! i = map turn_text [0..<length ?ms] ! i" by (simp_all add: history_inv_def)
    with that show "m_ply (?ms ! i) = int i + 1" "m_color (?ms ! i) = turn_text i" by simp_all
  qed
  have chain: "fen_chain (g_initial_fen g) ?ms (g_current_fen g)" using inv by (simp add: history_inv_def)
  have who: "\<exists>p \<in> set (players db). p_game_id p = gid \<and> p_color p = m_color m \<and>
      p_guest_session_id p = m_guest_session_id m" if "m \<in> set ?ms" for m
    using inv that unfolding history_inv_def by fastforce
  show ?thesis
    unfolding Let_def
  proof (intro conjI allI impI)
    fix i
    assume i: "i < length ?ms"
    show "m_ply (?ms ! i) = int i + 1" using i by (rule ply)
    show "m_color (?ms ! i) = (if even i then ''w'' else ''b'')" using color [OF i] by (simp add: turn_text_def)
    show "m_fen_before (?ms ! i) = (if i = 0 then g_initial_fen g else m_fen_after (?ms ! (i - 1)))"
      using i by (rule fen_chain_nth(1) [OF chain])
    show "\<exists>p \<in> set (players db). p_game_id p = gid \<and> p_color p = m_color (?ms ! i) \<and>
        p_guest_session_id p = m_guest_session_id (?ms ! i)"
      using i by (intro who nth_mem)
  qed (use fen_chain_nth(2) [OF chain] inv in \<open>simp_all add: turn_text_def history_inv_def\<close>)
qed

theorem reachable_history_witness:
  "m_fen_before (moves_of sample_moved ''g'' ! 0) = ''start'' \<and> g_turn_color sample_moved_game = ''b''"
proof -
  have len: "length (moves_of sample_moved ''g'') = 1" and g: "find_game sample_moved ''g'' = Some sample_moved_game"
    by code_simp+
  have "g_initial_fen sample_moved_game = ''start''" by code_simp
  with reachable_history [OF sample_reachable(6) g] len show ?thesis by (simp add: Let_def)
qed

text \<open>
  C9. A guest plays at most one unfinished game, and is found there: if a game
  of a reachable database is not over, the active assignment of each of its two
  players names this game, so that two unfinished games never share a player;
  when a game is over, no assignment points to it any more.
\<close>

theorem reachable_one_active_game:
  assumes "reachable lib uuidv4 db" and "g \<in> set (games db)"
  shows "(\<not> terminal_text (g_status g) \<longrightarrow>
      length (players_of db (g_id g)) = 2 \<and>
      (\<forall>p \<in> set (players_of db (g_id g)).
         map_option a_game_id (find_assignment db (p_guest_session_id p)) = Some (g_id g) \<and>
         (\<forall>g' \<in> set (games db). \<forall>p' \<in> set (players_of db (g_id g')).
            \<not> terminal_text (g_status g') \<and> p_guest_session_id p' = p_guest_session_id p \<longrightarrow> g' = g))) \<and>
    (terminal_text (g_status g) \<longrightarrow> assignments_of db (g_id g) = [])"
proof (intro conjI impI ballI)
  note sys = reachable_system [OF assms(1)]
  have alloc: "allocation_ok db g"
    using sys assms(2) by (simp add: system_ok_def db_ok_def commit_ok_def list_all_iff)
  {
    assume active: "\<not> terminal_text (g_status g)"
    show "length (players_of db (g_id g)) = 2"
      using alloc by (simp add: allocation_ok_def length_players_of)
    fix p
    assume p: "p \<in> set (players_of db (g_id g))"
    with active_player_assigned [OF sys assms(2) active, of p]
    have mine: "find_assignment db (p_guest_session_id p) =
        Some \<lparr>a_guest_session_id = p_guest_session_id p, a_game_id = g_id g\<rparr>" by simp
    then show "map_option a_game_id (find_assignment db (p_guest_session_id p)) = Some (g_id g)" by simp
    fix g' p'
    assume g': "g' \<in> set (games db)" and p': "p' \<in> set (players_of db (g_id g'))"
      and other: "\<not> terminal_text (g_status g') \<and> p_guest_session_id p' = p_guest_session_id p"
    with active_player_assigned [OF sys g', of p'] mine have "g_id g' = g_id g" by simp
    moreover have "distinct (map g_id (games db))"
      using system_ok_tables [OF sys] by (simp add: tables_ok_def games_ok_def)
    ultimately show "g' = g" using g' assms(2) by (auto simp: distinct_map dest: inj_onD)
  }
  assume "terminal_text (g_status g)"
  with alloc show "assignments_of db (g_id g) = []" by (simp add: allocation_ok_def)
qed

theorem reachable_one_active_game_witness:
  "map_option a_game_id (find_assignment sample_playing ''u2'') = Some ''g''"
proof -
  have g: "sample_playing_game \<in> set (games sample_playing)" and active: "\<not> terminal_text (g_status sample_playing_game)"
    and id: "g_id sample_playing_game = ''g''"
    by code_simp+
  have p: "sample_player ''p2'' ''u2'' ''b'' 1 (Some 3000) \<in> set (players_of sample_playing (g_id sample_playing_game))"
    by code_simp
  have guest: "p_guest_session_id (sample_player ''p2'' ''u2'' ''b'' 1 (Some 3000)) = ''u2''" by code_simp
  from reachable_one_active_game [OF sample_reachable(5) g] active p guest id show ?thesis by auto
qed

text \<open>
  C10. What was committed stays: over any sequence of calls, whoever makes them
  and however they fail, the version of a game never decreases, a row that
  changes gets a higher version, a finished game never changes again, the moves
  already stored stay a prefix of the moves, the seats stay as they are, and
  every stored command response is kept.
\<close>

theorem performs_keep_history:
  assumes "reachable lib uuidv4 db" and "find_game db gid = Some g"
  shows "\<exists>g'. find_game (performs lib uuidv4 ops db) gid = Some g' \<and>
      g_version g \<le> g_version g' \<and> (g' \<noteq> g \<longrightarrow> g_version g < g_version g') \<and>
      (terminal_text (g_status g) \<longrightarrow> g' = g) \<and>
      (\<exists>ms. moves_of (performs lib uuidv4 ops db) gid = moves_of db gid @ ms) \<and>
      map seat (players_of (performs lib uuidv4 ops db) gid) = map seat (players_of db gid) \<and>
      (\<forall>e c. find_command db gid e = Some c \<longrightarrow> find_command (performs lib uuidv4 ops db) gid e = Some c)"
proof -
  have ev: "evolves db (performs lib uuidv4 ops db)"
    using performs_system [OF reachable_system [OF assms(1)]] by blast
  with assms(2) obtain g' ms where g': "find_game (performs lib uuidv4 ops db) gid = Some g'" "row_evolves g g'"
    and "moves_of (performs lib uuidv4 ops db) gid = moves_of db gid @ ms"
    and "map seat (players_of (performs lib uuidv4 ops db) gid) = map seat (players_of db gid)"
    unfolding evolves_def by blast
  moreover have "g_version g \<le> g_version g'" "g' \<noteq> g \<longrightarrow> g_version g < g_version g'" "terminal_text (g_status g) \<longrightarrow> g' = g"
    using g'(2) by (auto simp: row_evolves_def)
  ultimately show ?thesis using ev unfolding evolves_def by blast
qed

theorem performs_keep_history_witness:
  "\<exists>ms. moves_of (performs sample_lib sample_uuid
      [(sample_env 9500 sample_moved, op_markDisconnected ''u2'' 60000),
       (sample_env 9900 sample_moved, op_resign \<lparr>rg_eventId = ''e9'', rg_expectedVersion = 4, rg_gameId = ''g'', rg_guestSessionId = ''u1''\<rparr>)]
      sample_moved) ''g'' = [sample_move_row] @ ms"
proof -
  have g: "find_game sample_moved ''g'' = Some sample_moved_game" and ms: "moves_of sample_moved ''g'' = [sample_move_row]"
    by code_simp+
  from performs_keep_history [OF sample_reachable(6) g] show ?thesis unfolding ms by blast
qed

end
