(* ===== verification/Clock_Agreement.thy ===== *)
theory Clock_Agreement
  imports Sample_Game
begin

text \<open>
  The clock a transaction computes in SQL when it locks a game, the clock of the
  domain that decides on a move, and the adjudication of timeouts: what they
  make of one stored game at one moment, and that they agree.
\<close>

section \<open>The clock of a stored game\<close>

definition moverClock :: "game_row \<Rightarrow> PlayerColor \<Rightarrow> int" where
  "moverClock g color = (if color = White then g_white_clock_ms g else g_black_clock_ms g)"

text \<open>The time a move received at \<open>t\<close> costs: none for the move that starts the game.\<close>

definition spentMs :: "game_row \<Rightarrow> int \<Rightarrow> int" where
  "spentMs g t =
     (if g_status g = ''READY'' then 0
      else case g_turn_started_at g of None \<Rightarrow> 0 | Some s \<Rightarrow> max 0 (t - s))"

lemma game_check_clock:
  assumes "game_check g" and "clock_text (g_status g)"
  obtains s where "g_turn_started_at g = Some s"
  using assms by (auto simp: game_check_def games_turn_clock_state_check_def)

lemma stored_durations:
  assumes "game_check g" and "game_range g"
  shows "duration (g_white_clock_ms g)" "duration (g_black_clock_ms g)" "duration (g_increment_ms g)"
    "duration (moverClock g color)"
  using assms
  by (auto simp: game_check_def games_number_check_def game_range_def duration_def int4_def isSafeInteger_def
    moverClock_def)

lemma running_clock_runs:
  assumes "game_check g" and "game_range g" and "g_status g = ''IN_PROGRESS''" and "g_turn_started_at g = Some s"
    and "time_value s"
  shows "clock_runs (baseClock g color) color s"
  using assms stored_durations [OF assms(1,2)]
  by (simp add: clock_runs_def clock_wf_def baseClock_def)

lemma assertClock_stored:
  assumes "game_check g" and "game_range g" and "g_status g \<noteq> ''READY'' \<Longrightarrow> g_turn_started_at g \<noteq> None"
  shows "assertClock (baseClock g color) = Inr ()"
  using assms(3) stored_durations [OF assms(1,2)]
  by (auto simp: assertClock_def sbind_Inr_iff baseClock_def assertTimestamp_def split: option.splits)

lemma safe_clock_sum:
  assumes "game_check g" and "game_range g" and "0 \<le> e" and "e < moverClock g color"
  shows "isSafeInteger (moverClock g color - e + g_increment_ms g)"
  using assms
  by (auto simp: game_check_def games_number_check_def game_range_def int4_def isSafeInteger_def moverClock_def)

text \<open>The clock an admitted move leaves.\<close>

definition movedClock :: "game_row \<Rightarrow> PlayerColor \<Rightarrow> int \<Rightarrow> GameClock \<Rightarrow> bool" where
  "movedClock g color t c \<longleftrightarrow>
     remainingFor c color = moverClock g color - spentMs g t + g_increment_ms g \<and>
     remainingFor c (oppositeColor color) = moverClock g (oppositeColor color)"

lemma admitMove_running:
  assumes ok: "game_check g" "game_range g" and status: "g_status g = ''IN_PROGRESS''"
    and t: "t = lk_observedAt locked"
  shows "if moverClock g color \<le> spentMs g t
    then admitMove g color locked = Inl (rejected CLOCK_EXPIRED
      (''The move arrived after the player'' @ apostrophe @ ''s clock expired.'') False (Some (g_version g)))
    else \<exists>c. admitMove g color locked = Inr c \<and> movedClock g color t c"
proof -
  let ?c = "baseClock g color"
  obtain s where s: "g_turn_started_at g = Some s"
    using ok(1) status by (auto elim: game_check_clock simp: clock_text_def)
  have run: "requireRunning ?c = Inr color" and elapsed: "elapsedAt ?c (Date t) = Inr (spentMs g t)"
    using assertClock_stored [OF ok, of color] s status
    by (simp_all add: requireRunning_def elapsedAt_def baseClock_def spentMs_def)
  have rem: "remainingFor ?c x = moverClock g x" for x
    by (simp add: remainingFor_def moverClock_def baseClock_def)
  have inc: "incrementMs ?c = g_increment_ms g" by (simp add: baseClock_def)
  have pos: "0 \<le> spentMs g t" by (simp add: spentMs_def split: option.split)
  show ?thesis
    using safe_clock_sum [OF ok pos, of color] status
    by (auto simp: admitMove_def Let_def admitMoveOnClock_def run elapsed rem inc checkedAdd_def
      flagFallClock_def movedClock_def t [symmetric])
qed

lemma admitMove_starting:
  assumes ok: "game_check g" "game_range g" and status: "g_status g = ''READY''" and t: "t = lk_observedAt locked"
    and time: "time_value t" and left: "0 < g_white_clock_ms g"
  shows "\<exists>c. admitMove g White locked = Inr c \<and> movedClock g White t c"
proof -
  let ?c = "(baseClock g White)\<lparr>running := Some White, turnStartedAt := Some (Date t)\<rparr>"
  have runs: "clock_runs ?c White t"
    using stored_durations [OF ok] time by (simp add: clock_runs_def clock_wf_def baseClock_def)
  have resume: "resumeClock (baseClock g White) White (Date t) = Inr ?c"
    using assertClock_stored [OF ok] status left time
    by (simp add: resumeClock_def baseClock_def remainingFor_def)
  have rem: "remainingFor (baseClock g White) x = moverClock g x" for x
    by (simp add: remainingFor_def moverClock_def baseClock_def)
  have inc: "incrementMs (baseClock g White) = g_increment_ms g" by (simp add: baseClock_def)
  have mover: "moverClock g White = g_white_clock_ms g" by (simp add: moverClock_def)
  show ?thesis
    using resume left safe_clock_sum [OF ok, of 0 White] status
    by (auto simp: admitMove_def Let_def t [symmetric] admitMoveOnClock_runs [OF runs] rem inc movedClock_def
      spentMs_def mover)
qed

section \<open>The clock computed by the database\<close>

definition lockedClock :: "LockedGameClock \<Rightarrow> PlayerColor \<Rightarrow> int" where
  "lockedClock locked color = (if color = White then lk_whiteClockMs locked else lk_blackClockMs locked)"

lemma lockGameClock_running:
  assumes g: "find_game db gid = Some g" and status: "clock_text (g_status g)" and turn: "g_turn_color g = color_text color"
    and s: "g_turn_started_at g = Some s" and lock: "lockGameClock env gid db = Inr (Some locked, db')"
  shows "lockedClock locked color = max 0 (moverClock g color - (te_observedAt env - s))"
    and "lockedClock locked (oppositeColor color) = moverClock g (oppositeColor color)"
    and "lk_status locked = g_status g" "lk_turnColor locked = g_turn_color g" "lk_observedAt locked = te_observedAt env"
    and "lk_version locked = g_version g"
proof -
  from lock g have
    "clock_sql g ''w'' (g_white_clock_ms g) (te_observedAt env) = Inr (lk_whiteClockMs locked)"
    "clock_sql g ''b'' (g_black_clock_ms g) (te_observedAt env) = Inr (lk_blackClockMs locked)"
    and rest: "lk_status locked = g_status g" "lk_turnColor locked = g_turn_color g"
      "lk_observedAt locked = te_observedAt env" "lk_version locked = g_version g"
    by (auto elim!: lockGameClock_Some)
  then show "lockedClock locked color = max 0 (moverClock g color - (te_observedAt env - s))"
    "lockedClock locked (oppositeColor color) = moverClock g (oppositeColor color)"
    using status turn s
    by (cases color; auto simp: clock_sql_def remaining_sql_def Let_def lockedClock_def moverClock_def split: if_splits)+
  from rest show "lk_status locked = g_status g" "lk_turnColor locked = g_turn_color g"
    "lk_observedAt locked = te_observedAt env" "lk_version locked = g_version g" .
qed

text \<open>The lock is granted while the turn has not lasted longer than \<open>INTEGER\<close> milliseconds.\<close>

lemma lockGameClock_granted:
  assumes g: "find_game db gid = Some g" and ok: "game_check g" "game_range g"
    and elapsed: "\<And>s. g_turn_started_at g = Some s \<Longrightarrow> s \<le> te_observedAt env \<and> te_observedAt env - s \<le> 2147483647"
  obtains locked where "lockGameClock env gid db = Inr (Some locked, db)"
    "0 \<le> lk_whiteClockMs locked" "int4 (lk_whiteClockMs locked)"
    "0 \<le> lk_blackClockMs locked" "int4 (lk_blackClockMs locked)"
proof -
  have sql: "\<exists>r. clock_sql g col clock (te_observedAt env) = Inr r \<and> 0 \<le> r \<and> int4 r"
    if "0 \<le> clock" "int4 clock" for clock col
    using that elapsed by (auto simp: clock_sql_def remaining_sql_def Let_def int4_def split: option.split)
  from ok have "0 \<le> g_white_clock_ms g" "int4 (g_white_clock_ms g)" "0 \<le> g_black_clock_ms g" "int4 (g_black_clock_ms g)"
    by (simp_all add: game_check_def games_number_check_def game_range_def)
  with sql [of "g_white_clock_ms g" "''w''"] sql [of "g_black_clock_ms g" "''b''"] obtain w b where
    "clock_sql g ''w'' (g_white_clock_ms g) (te_observedAt env) = Inr w" "0 \<le> w" "int4 w"
    "clock_sql g ''b'' (g_black_clock_ms g) (te_observedAt env) = Inr b" "0 \<le> b" "int4 b" by blast
  with that g show ?thesis by (auto simp: lockGameClock_def)
qed

lemma timeoutLoser_running:
  assumes "clock_text (g_status g)" and "lk_status locked = g_status g" and "lk_turnColor locked = color_text color"
  shows "timeoutLoser locked = (if lockedClock locked color > 0 then None else Some color)"
  using assms by (auto simp: timeoutLoser_def lockedClock_def clock_text_def Let_def)

lemma turn_color_cases:
  assumes "game_check g"
  obtains color where "g_turn_color g = color_text color"
proof -
  from assms have "g_turn_color g = ''w'' \<or> g_turn_color g = ''b''" by (simp add: game_check_def)
  then show ?thesis using that [of White] that [of Black] by auto
qed

section \<open>Properties\<close>

text \<open>
  C14. The clock that the lock computes in SQL is the clock of the domain: for a
  running game it shows both sides exactly what \<open>clockViewAt\<close> shows of the
  stored clock at the time of the observation, if that time is not before the
  start of the turn. Before it, and only then, the two differ: the SQL
  expression does not clamp the elapsed time and shows the side to move with
  more time than is stored.
\<close>

theorem locked_clock_is_view:
  assumes "reachable lib uuidv4 db" and "find_game db gid = Some g" and "g_status g = ''IN_PROGRESS''"
    and "g_turn_color g = color_text color" and "g_turn_started_at g = Some s" and "time_value s"
    and "lockGameClock env gid db = Inr (Some locked, db)"
  shows "\<exists>view. clockViewAt (baseClock g color) (Date (te_observedAt env)) = Inr view \<and>
    ((view_whiteMs view, view_blackMs view) = (lk_whiteClockMs locked, lk_blackClockMs locked) \<longleftrightarrow>
       s \<le> te_observedAt env)"
proof -
  note facts = system_ok_game [OF reachable_system [OF assms(1)] assms(2)]
  have status: "clock_text (g_status g)" using assms(3) by (simp add: clock_text_def)
  note runs = running_clock_runs [OF facts(2,3) assms(3,5,6), of color]
  note sql = lockGameClock_running [OF assms(2) status assms(4,5,7)]
  have rem: "remainingFor (baseClock g color) x = moverClock g x" for x
    by (simp add: remainingFor_def moverClock_def baseClock_def)
  have "0 \<le> moverClock g color" using stored_durations [OF facts(2,3)] by (simp add: duration_def)
  then show ?thesis
    using sql(1,2) clockViewAt_runs [OF runs, of "te_observedAt env"] rem
    by (cases color) (auto simp: Let_def lockedClock_def moverClock_def withRemaining_def baseClock_def max_def)
qed

theorem locked_clock_is_view_witness:
  "\<exists>view. clockViewAt (baseClock sample_playing_game White) (Date 9000) = Inr view \<and> view_whiteMs view = 175000"
proof -
  have g: "find_game sample_playing ''g'' = Some sample_playing_game" "g_status sample_playing_game = ''IN_PROGRESS''"
    "g_turn_color sample_playing_game = color_text White" "g_turn_started_at sample_playing_game = Some 4000"
    by code_simp+
  have t: "time_value 4000" "te_observedAt (sample_env 9000 sample_playing) = 9000"
    by (simp_all add: time_value_def sample_env_def)
  let ?lock = "\<lparr>lk_blackClockMs = 180000, lk_observedAt = 9000, lk_status = ''IN_PROGRESS'', lk_turnColor = ''w'',
    lk_turnStartedAt = Some 4000, lk_version = 2, lk_whiteClockMs = 175000\<rparr>"
  have "lockGameClock (sample_env 9000 sample_playing) ''g'' sample_playing = Inr (Some ?lock, sample_playing)"
    by code_simp
  from locked_clock_is_view [OF sample_reachable(5) g t(1) this] t(2) show ?thesis by auto
qed

text \<open>
  C13. The two places that decide on the flag agree: under the same lock, at a
  time not before the start of the turn, a move of the side to move is refused
  with \<open>CLOCK_EXPIRED\<close> exactly if the adjudication of a timeout would name that
  side as the loser; otherwise the move passes the clock with the elapsed time
  taken and the increment added.
\<close>

theorem move_refused_iff_timeout:
  assumes "reachable lib uuidv4 db" and "find_game db gid = Some g" and "g_status g = ''IN_PROGRESS''"
    and "g_turn_color g = color_text color" and "g_turn_started_at g = Some s" and "s \<le> te_observedAt env"
    and "lockGameClock env gid db = Inr (Some locked, db)"
  shows "case admitMove g color locked of
      Inl r \<Rightarrow> rj_code r = CLOCK_EXPIRED \<and> timeoutLoser locked = Some color
    | Inr c \<Rightarrow> timeoutLoser locked = None \<and>
        remainingFor c color = moverClock g color - (te_observedAt env - s) + g_increment_ms g \<and>
        remainingFor c (oppositeColor color) = moverClock g (oppositeColor color)"
proof -
  note facts = system_ok_game [OF reachable_system [OF assms(1)] assms(2)]
  have status: "clock_text (g_status g)" using assms(3) by (simp add: clock_text_def)
  note sql = lockGameClock_running [OF assms(2) status assms(4,5,7)]
  have spent: "spentMs g (te_observedAt env) = te_observedAt env - s"
    using assms(3,5,6) by (simp add: spentMs_def)
  have loser: "timeoutLoser locked = (if moverClock g color > te_observedAt env - s then None else Some color)"
    using timeoutLoser_running [OF status sql(3), of color] sql(1,4) assms(4) by auto
  show ?thesis
    using admitMove_running [OF facts(2,3) assms(3) sql(5) [symmetric], of color] spent loser
    by (auto simp: rejected_def movedClock_def split: if_splits)
qed

theorem move_refused_iff_timeout_witness:
  "\<exists>r. admitMove sample_playing_game White
      \<lparr>lk_blackClockMs = 180000, lk_observedAt = 184000, lk_status = ''IN_PROGRESS'', lk_turnColor = ''w'',
       lk_turnStartedAt = Some 4000, lk_version = 2, lk_whiteClockMs = 0\<rparr> = Inl r \<and> rj_code r = CLOCK_EXPIRED"
proof -
  have g: "find_game sample_playing ''g'' = Some sample_playing_game" "g_status sample_playing_game = ''IN_PROGRESS''"
    "g_turn_color sample_playing_game = color_text White" "g_turn_started_at sample_playing_game = Some 4000"
    by code_simp+
  let ?lock = "\<lparr>lk_blackClockMs = 180000, lk_observedAt = 184000, lk_status = ''IN_PROGRESS'', lk_turnColor = ''w'',
    lk_turnStartedAt = Some 4000, lk_version = 2, lk_whiteClockMs = 0\<rparr>"
  have t: "4000 \<le> te_observedAt (sample_env 184000 sample_playing)" by (simp add: sample_env_def)
  have lock: "lockGameClock (sample_env 184000 sample_playing) ''g'' sample_playing = Inr (Some ?lock, sample_playing)"
    by code_simp
  have lost: "timeoutLoser ?lock = Some White" by code_simp
  from move_refused_iff_timeout [OF sample_reachable(5) g t lock] lost show ?thesis
    by (auto split: sum.splits)
qed

end
