(* ===== verification/Game_Endings.thy ===== *)
theory Game_Endings
  imports Clock_Agreement
begin

text \<open>
  How games end without a move: that the end of a game commits whenever the
  clock reading allows it (\<open>finish_succeeds\<close>), and for timeout, no-show and
  abandonment exactly when the adjudication ends the game and who wins.
\<close>

section \<open>Ending a game succeeds\<close>

lemma update_rows_list_ex:
  assumes "\<And>p. q (f p) = q p"
  shows "list_ex q (update_rows w f t) = list_ex q t"
  using assms by (induction t) auto

lemma endedDb_commit:
  assumes ok: "commit_ok db" and g: "find_game db (g_id g') = Some g" and ended: "terminal_text (g_status g')"
  shows "commit_ok (endedDb g' db)"
  unfolding commit_ok_def list_all_iff
proof
  fix r
  assume r: "r \<in> set (games (endedDb g' db))"
  let ?db = "endedDb g' db"
  have len: "length (filter (\<lambda>p. p_game_id p = x) (players ?db)) = length (filter (\<lambda>p. p_game_id p = x) (players db))" for x
    using length_players_of [of ?db x] length_players_of [of db x] by (simp split: if_splits)
  have ex: "list_ex (\<lambda>p. p_game_id p = x \<and> p_guest_session_id p = u) (players ?db) =
      list_ex (\<lambda>p. p_game_id p = x \<and> p_guest_session_id p = u) (players db)" for x u
    unfolding endedDb_def by (simp add: update_rows_list_ex)
  from r consider "r = g'" | "r \<in> set (games db)" "g_id r \<noteq> g_id g'"
    by (auto simp: set_game_def set_update_rows split: if_splits)
  then show "allocation_ok ?db r"
  proof cases
    case 1
    from ok g have "allocation_ok db g" using find_gameD [OF g] by (simp add: commit_ok_def list_all_iff)
    with 1 ended find_gameD(1) [OF g] show ?thesis by (simp add: allocation_ok_def len)
  next
    case 2
    with ok have "allocation_ok db r" by (simp add: commit_ok_def list_all_iff)
    with 2(2) show ?thesis by (simp add: allocation_ok_def len ex)
  qed
qed

text \<open>
  When a game can be ended at the time of the observation: the clock reading is
  not before the start of the turn or of the game, the turn has not lasted
  longer than an \<open>INTEGER\<close> of milliseconds, and the version still fits.
\<close>

definition endable :: "tx_env \<Rightarrow> game_row \<Rightarrow> bool" where
  "endable env g \<longleftrightarrow>
     g_version g < 2147483647 \<and>
     (case g_turn_started_at g of None \<Rightarrow> True
      | Some s \<Rightarrow> s \<le> te_observedAt env \<and> te_observedAt env - s \<le> 2147483647) \<and>
     (case g_started_at g of None \<Rightarrow> True | Some s \<Rightarrow> s \<le> te_observedAt env)"

lemma outcome_columns:
  "persistedResult r \<in> {''1-0'', ''0-1'', ''1/2-1/2'', ''*''}"
  "persistedTermination t \<in> {''CHECKMATE'', ''RESIGNATION'', ''TIMEOUT'', ''STALEMATE'', ''INSUFFICIENT_MATERIAL'',
     ''THREEFOLD_REPETITION'', ''FIFTY_MOVE_RULE'', ''AGREEMENT'', ''ABANDONMENT'', ''JOIN_TIMEOUT'', ''SYSTEM''}"
proof -
  show "persistedResult r \<in> {''1-0'', ''0-1'', ''1/2-1/2'', ''*''}" by (cases r) simp_all
  show "persistedTermination t \<in> {''CHECKMATE'', ''RESIGNATION'', ''TIMEOUT'', ''STALEMATE'', ''INSUFFICIENT_MATERIAL'',
     ''THREEFOLD_REPETITION'', ''FIFTY_MOVE_RULE'', ''AGREEMENT'', ''ABANDONMENT'', ''JOIN_TIMEOUT'', ''SYSTEM''}"
  proof (cases t)
    case (Board b)
    then show ?thesis by (cases b) simp_all
  qed simp_all
qed

lemma endedRow_rest [simp]:
  "g_mode (endedRow env locked out g) = g_mode g" "g_turn_started_at (endedRow env locked out g) = None"
  "g_started_at (endedRow env locked out g) = g_started_at g"
  "g_ended_at (endedRow env locked out g) = Some (lk_observedAt locked)"
  "g_white_clock_ms (endedRow env locked out g) = lk_whiteClockMs locked"
  "g_black_clock_ms (endedRow env locked out g) = lk_blackClockMs locked"
  by (simp_all add: endedRow_def terminalData_def)

lemma endedRow_ok:
  assumes ok: "game_check g" "game_range g" and out: "outcome_ok out" and can: "endable env g"
    and t: "lk_observedAt locked = te_observedAt env"
    and clocks: "0 \<le> lk_whiteClockMs locked" "int4 (lk_whiteClockMs locked)"
      "0 \<le> lk_blackClockMs locked" "int4 (lk_blackClockMs locked)"
  shows "game_range (endedRow env locked out g)" "game_check (endedRow env locked out g)"
proof -
  have version: "0 \<le> g_version g" "g_version g < 2147483647"
    using ok(1) can by (simp_all add: game_check_def games_number_check_def endable_def)
  with ok clocks show "game_range (endedRow env locked out g)" by (simp add: game_range_def int4_def)
  let ?g' = "endedRow env locked out g"
  have ended: "terminal_text (g_status ?g')" using out by (simp add: outcome_ok_terminal)
  then have "games_status_check ?g'" "\<not> clock_text (g_status ?g')"
    by (auto simp: games_status_check_def terminal_text_def clock_text_def)
  moreover have "games_result_check ?g'"
    using outcome_columns(1) [of "to_result out"] outcome_columns(2) [of "to_termination out"]
    unfolding games_result_check_def by simp
  moreover have "games_number_check ?g'"
    using ok(1) version clocks by (simp add: game_check_def games_number_check_def)
  moreover have "games_ended_after_started_check ?g'"
    using can t by (auto simp: games_ended_after_started_check_def endable_def split: option.splits)
  ultimately show "game_check ?g'"
    using ok(1) ended
    by (simp add: game_check_def games_terminal_state_check_def games_turn_clock_state_check_def)
qed

text \<open>
  The summary of an end: what is returned, and what the game then looks like.
\<close>

definition game_ended ::
    "string \<Rightarrow> game_row \<Rightarrow> TerminalOutcome \<Rightarrow> TerminalSubmission \<Rightarrow> db \<Rightarrow> db \<Rightarrow> bool" where
  "game_ended gid g out sub db db' \<longleftrightarrow>
     ts_duplicate sub = False \<and> eg_gameId (ts_ended sub) = gid \<and>
     eg_gameVersion (ts_ended sub) = g_version g + 1 \<and> eg_finalFen (ts_ended sub) = g_current_fen g \<and>
     eg_result (ts_ended sub) = to_result out \<and> eg_termination (ts_ended sub) = to_termination out \<and>
     (\<exists>g'. find_game db' gid = Some g' \<and> g_status g' = status_text (to_status out) \<and>
        g_version g' = g_version g + 1 \<and> g_result g' = Some (persistedResult (to_result out)) \<and>
        g_termination g' = Some (persistedTermination (to_termination out)) \<and>
        g_ended_at g' = Some (gc_observedAt (eg_clocks (ts_ended sub))) \<and>
        g_white_clock_ms g' = gc_whiteMs (eg_clocks (ts_ended sub)) \<and>
        g_black_clock_ms g' = gc_blackMs (eg_clocks (ts_ended sub))) \<and>
     moves_of db' gid = moves_of db gid \<and> assignments_of db' gid = [] \<and>
     (\<forall>x. x \<noteq> gid \<longrightarrow> find_game db' x = find_game db x \<and> players_of db' x = players_of db x)"

lemma finish_succeeds:
  assumes sys: "system_ok db" and g: "find_game db gid = Some g"
    and game: "game = \<lparr>pg_game = g, pg_moves = ms, pg_players = players_of db gid\<rparr>"
    and out: "deriveTerminalOutcome event = Inr out" and can: "endable env g"
    and t: "lk_observedAt locked = te_observedAt env"
    and clocks: "0 \<le> lk_whiteClockMs locked" "int4 (lk_whiteClockMs locked)"
      "0 \<le> lk_blackClockMs locked" "int4 (lk_blackClockMs locked)"
  obtains sub where "finish env game locked event db = Inr (Some sub, endedDb (endedRow env locked out g) db)"
    "commit_ok (endedDb (endedRow env locked out g) db)"
    "game_ended gid g out sub db (endedDb (endedRow env locked out g) db)"
proof -
  note facts = system_ok_game [OF sys g]
  let ?g' = "endedRow env locked out g"
  have two: "length (players_of db gid) = 2" using facts(1) by (auto elim: game_inv_two)
  note ok' = endedRow_ok [OF facts(2,3) derived_outcome_ok [OF out] can t clocks]
  let ?sub = "\<lparr>ts_duplicate = False,
        ts_ended = \<lparr>eg_clocks = terminalClock locked, eg_finalFen = g_current_fen g, eg_gameId = gid,
          eg_gameVersion = g_version g + 1, eg_pgn = g_pgn g, eg_result = to_result out,
          eg_termination = to_termination out\<rparr>,
        ts_guestSessionIds = (p_guest_session_id (players_of db gid ! 0), p_guest_session_id (players_of db gid ! 1))\<rparr>"
  have fin: "finish env game locked event db = Inr (Some ?sub, endedDb ?g' db)"
    using out finalizeTerminal_eq [OF system_ok_tables [OF sys] g _ _ two, of game env locked out] game ok'
    by (simp add: finish_def derive_def)
  have "commit_ok (endedDb ?g' db)"
  proof (rule endedDb_commit)
    show "commit_ok db" using sys by (simp add: system_ok_def db_ok_def)
    show "find_game db (g_id ?g') = Some g" using g facts(4) by simp
    show "terminal_text (g_status ?g')" using derived_outcome_ok [OF out] by (simp add: outcome_ok_terminal)
  qed
  moreover have "find_game (endedDb ?g' db) x = (if x = gid then Some ?g' else find_game db x)" for x
    using g facts(4) find_game_set_game [of ?g' db x] by (simp add: find_game_def)
  then have "game_ended gid g out ?sub db (endedDb ?g' db)"
    using facts(4) by (simp add: game_ended_def terminalClock_def)
  ultimately show ?thesis using that fin by blast
qed

lemma withLockedGame_eq:
  assumes g: "find_game db gid = Some g" and lock: "lockGameClock env gid db = Inr (Some locked, db)"
  shows "withLockedGame env gid proceed work db =
    (if proceed locked then work locked \<lparr>pg_game = g, pg_moves = [], pg_players = players_of db gid\<rparr> db
     else Inr (None, db))"
  using assms by (simp add: withLockedGame_def tbind_run_Inr findGame_def)

lemma endable_lock:
  assumes sys: "system_ok db" and g: "find_game db gid = Some g" and can: "endable env g"
  obtains locked where "lockGameClock env gid db = Inr (Some locked, db)"
    "0 \<le> lk_whiteClockMs locked" "int4 (lk_whiteClockMs locked)"
    "0 \<le> lk_blackClockMs locked" "int4 (lk_blackClockMs locked)"
    "lk_status locked = g_status g" "lk_observedAt locked = te_observedAt env" "lk_turnColor locked = g_turn_color g"
proof -
  note facts = system_ok_game [OF sys g]
  have "s \<le> te_observedAt env \<and> te_observedAt env - s \<le> 2147483647" if "g_turn_started_at g = Some s" for s
    using can that by (simp add: endable_def)
  from lockGameClock_granted [OF g facts(2,3) this] obtain locked where
    lock: "lockGameClock env gid db = Inr (Some locked, db)"
    "0 \<le> lk_whiteClockMs locked" "int4 (lk_whiteClockMs locked)"
    "0 \<le> lk_blackClockMs locked" "int4 (lk_blackClockMs locked)" by blast
  moreover from lock(1) g have "lk_status locked = g_status g" "lk_observedAt locked = te_observedAt env"
    "lk_turnColor locked = g_turn_color g"
    by (auto elim!: lockGameClock_Some)
  ultimately show ?thesis using that by blast
qed

section \<open>Properties\<close>

lemma timeout_decides:
  assumes "reachable lib uuidv4 db" and "find_game db gid = Some g" and "clock_text (g_status g)"
    and "g_turn_color g = color_text color" and "g_turn_started_at g = Some s"
    and "endable env g" and "te_fault env = NoFault"
  shows "if s + moverClock g color \<le> te_observedAt env
    then \<exists>sub db'. adjudicateTimeout env gid db = (Inr (Some sub), db') \<and>
      game_ended gid g (winnerOutcome (oppositeColor color) COMPLETED timeout) sub db db'
    else adjudicateTimeout env gid db = (Inr None, db)"
proof -
  note sys = reachable_system [OF assms(1)]
  from endable_lock [OF sys assms(2,6)] obtain locked where lock: "lockGameClock env gid db = Inr (Some locked, db)"
    and clocks: "0 \<le> lk_whiteClockMs locked" "int4 (lk_whiteClockMs locked)"
      "0 \<le> lk_blackClockMs locked" "int4 (lk_blackClockMs locked)"
    and t: "lk_observedAt locked = te_observedAt env" by blast
  note sql = lockGameClock_running [OF assms(2-5) lock]
  have loser: "timeoutLoser locked = (if s + moverClock g color \<le> te_observedAt env then Some color else None)"
    using timeoutLoser_running [OF assms(3) sql(3), of color] sql(1,4) assms(4) by auto
  let ?game = "\<lparr>pg_game = g, pg_moves = [], pg_players = players_of db gid\<rparr>"
  show ?thesis
  proof (cases "s + moverClock g color \<le> te_observedAt env")
    case True
    have out: "deriveTerminalOutcome (TerminalEvent.TIMEOUT color) = Inr (winnerOutcome (oppositeColor color) COMPLETED timeout)"
      by simp
    obtain sub db' where fin: "finish env ?game locked (TerminalEvent.TIMEOUT color) db = Inr (Some sub, db')"
      and commit: "commit_ok db'"
      and ended: "game_ended gid g (winnerOutcome (oppositeColor color) COMPLETED timeout) sub db db'"
      by (rule finish_succeeds [OF sys assms(2) refl out assms(6) t clocks])
    have "adjudicateTimeout_body env gid db = Inr (Some sub, db')"
      using loser True fin by (simp add: adjudicateTimeout_body_def withLockedGame_eq [OF assms(2) lock])
    with commit assms(7) have "adjudicateTimeout env gid db = (Inr (Some sub), db')"
      by (simp add: adjudicateTimeout_def run_Inr_iff)
    with True ended show ?thesis by auto
  next
    case False
    then have "adjudicateTimeout_body env gid db = Inr (None, db)"
      using loser lock by (simp add: adjudicateTimeout_body_def withLockedGame_def tbind_run_Inr)
    with False assms(7) sys show ?thesis
      by (simp add: adjudicateTimeout_def run_Inr_iff system_ok_def db_ok_def)
  qed
qed

text \<open>
  A flag that has fallen ends the game, and nothing else does: adjudicating
  the timeout of a running game ends it as lost on time by the side to move
  exactly if its deadline (start of the turn plus time left) has been reached,
  with the version raised by one, the assignments removed and no other game
  touched; before the deadline it changes nothing.
\<close>

theorem adjudicateTimeout_decides:
  assumes "reachable lib uuidv4 db" and "find_game db gid = Some g" and "clock_text (g_status g)"
    and "g_turn_color g = color_text color" and "g_turn_started_at g = Some s"
    and "endable env g" and "te_fault env = NoFault"
  shows "if s + moverClock g color \<le> te_observedAt env
    then \<exists>sub db'. adjudicateTimeout env gid db = (Inr (Some sub), db') \<and>
      game_ended gid g (winnerOutcome (oppositeColor color) COMPLETED timeout) sub db db'
    else adjudicateTimeout env gid db = (Inr None, db)"
  using assms by (rule timeout_decides)

theorem adjudicateTimeout_decides_witness:
  "\<exists>sub db'. adjudicateTimeout (sample_env 184000 sample_playing) ''g'' sample_playing = (Inr (Some sub), db') \<and>
     eg_result (ts_ended sub) = black_win"
proof -
  have g: "find_game sample_playing ''g'' = Some sample_playing_game" "clock_text (g_status sample_playing_game)"
    "g_turn_color sample_playing_game = color_text White" "g_turn_started_at sample_playing_game = Some 4000"
    "endable (sample_env 184000 sample_playing) sample_playing_game"
    "te_fault (sample_env 184000 sample_playing) = NoFault"
    by code_simp+
  have due: "4000 + moverClock sample_playing_game White \<le> te_observedAt (sample_env 184000 sample_playing)"
    by code_simp
  from adjudicateTimeout_decides [OF sample_reachable(5) g] due
  obtain sub db' where "adjudicateTimeout (sample_env 184000 sample_playing) ''g'' sample_playing = (Inr (Some sub), db')"
    "game_ended ''g'' sample_playing_game (winnerOutcome Black COMPLETED timeout) sub sample_playing db'" by auto
  then show ?thesis by (auto simp: game_ended_def winnerOutcome_def)
qed

lemma player_colors_cases:
  assumes "p_color white = ''w''" and "p_color black = ''b''"
  shows "player_colors (filter q [white, black]) = (if q white then [White] else []) @ (if q black then [Black] else [])"
proof -
  have "colorSchema (JStr ''w'') = Some White" "colorSchema (JStr ''b'') = Some Black" by code_simp+
  with assms show ?thesis by (simp add: player_colors_def List.map_filter_simps)
qed

lemma noShow_outcome:
  assumes inv: "game_inv g ps ms" and status: "g_status g = ''WAITING_FOR_PLAYERS''"
  obtains out where "deriveTerminalOutcome (NO_SHOW (player_colors (filter (\<lambda>p. p_joined_at p \<noteq> None) ps))) = Inr out"
    "to_status out = EXPIRED" "to_termination out = no_show"
    "\<And>c. to_winner out = Some c \<longleftrightarrow> (\<exists>p \<in> set ps. p_color p = color_text c \<and> p_joined_at p \<noteq> None)"
proof -
  from inv obtain white black where ps: "ps = [white, black]" and col: "p_color white = ''w''" "p_color black = ''b''"
    by (rule game_inv_two)
  have "\<not> all_joined ps" using inv status by (simp add: game_inv_def status_inv_def)
  then have one: "p_joined_at white = None \<or> p_joined_at black = None" by (auto simp: ps all_joined_def)
  have color: "(color_text c = ''w'') = (c = White)" "(''w'' = color_text c) = (c = White)"
    "(color_text c = ''b'') = (c = Black)" "(''b'' = color_text c) = (c = Black)" for c
    by (cases c; simp)+
  show ?thesis
    using one that unfolding ps player_colors_cases [OF col]
    by (cases "p_joined_at white"; cases "p_joined_at black")
      (auto simp: deriveNoShow_cases winnerOutcome_def col color)
qed

lemma no_show_decides:
  assumes "reachable lib uuidv4 db" and "find_game db gid = Some g" and "g_status g = ''WAITING_FOR_PLAYERS''"
    and "g_join_deadline_at g = Some d" and "endable env g" and "te_fault env = NoFault"
  shows "if d \<le> te_observedAt env
    then \<exists>sub db' out. adjudicateNoShow env gid db = (Inr (Some sub), db') \<and> game_ended gid g out sub db db' \<and>
      to_status out = EXPIRED \<and> to_termination out = no_show \<and>
      (\<forall>c. to_winner out = Some c \<longleftrightarrow>
         (\<exists>p \<in> set (players_of db gid). p_color p = color_text c \<and> p_joined_at p \<noteq> None))
    else adjudicateNoShow env gid db = (Inr None, db)"
proof -
  note sys = reachable_system [OF assms(1)]
  note facts = system_ok_game [OF sys assms(2)]
  from endable_lock [OF sys assms(2,5)] obtain locked where lock: "lockGameClock env gid db = Inr (Some locked, db)"
    and clocks: "0 \<le> lk_whiteClockMs locked" "int4 (lk_whiteClockMs locked)"
      "0 \<le> lk_blackClockMs locked" "int4 (lk_blackClockMs locked)"
    and status: "lk_status locked = g_status g" and t: "lk_observedAt locked = te_observedAt env" by blast
  let ?game = "\<lparr>pg_game = g, pg_moves = [], pg_players = players_of db gid\<rparr>"
  let ?event = "NO_SHOW (player_colors (filter (\<lambda>p. p_joined_at p \<noteq> None) (players_of db gid)))"
  have body: "adjudicateNoShow_body env gid db =
      (if d > te_observedAt env then ret None else finish env ?game locked ?event) db"
    using status t assms(3,4) by (simp add: adjudicateNoShow_body_def withLockedGame_eq [OF assms(2) lock])
  show ?thesis
  proof (cases "d \<le> te_observedAt env")
    case True
    from noShow_outcome [OF facts(1) assms(3)] obtain out where out: "deriveTerminalOutcome ?event = Inr out"
      and props: "to_status out = EXPIRED" "to_termination out = no_show"
      "\<And>c. to_winner out = Some c \<longleftrightarrow>
         (\<exists>p \<in> set (players_of db gid). p_color p = color_text c \<and> p_joined_at p \<noteq> None)" by blast
    obtain sub db' where fin: "finish env ?game locked ?event db = Inr (Some sub, db')"
      and commit: "commit_ok db'" and ended: "game_ended gid g out sub db db'"
      by (rule finish_succeeds [OF sys assms(2) refl out assms(5) t clocks])
    have "adjudicateNoShow env gid db = (Inr (Some sub), db')"
      using body True fin commit assms(6) by (simp add: adjudicateNoShow_def run_Inr_iff)
    with True ended props show ?thesis by auto
  next
    case False
    with body assms(6) sys show ?thesis
      by (simp add: adjudicateNoShow_def run_Inr_iff system_ok_def db_ok_def)
  qed
qed

text \<open>
  A game that was never joined by both players expires: from the join
  deadline on, adjudicating the no-show of a waiting game ends it as expired,
  and its winner is exactly the player who has joined, if there is one; before
  the deadline it changes nothing.
\<close>

theorem adjudicateNoShow_decides:
  assumes "reachable lib uuidv4 db" and "find_game db gid = Some g" and "g_status g = ''WAITING_FOR_PLAYERS''"
    and "g_join_deadline_at g = Some d" and "endable env g" and "te_fault env = NoFault"
  shows "if d \<le> te_observedAt env
    then \<exists>sub db' out. adjudicateNoShow env gid db = (Inr (Some sub), db') \<and> game_ended gid g out sub db db' \<and>
      to_status out = EXPIRED \<and> to_termination out = no_show \<and>
      (\<forall>c. to_winner out = Some c \<longleftrightarrow>
         (\<exists>p \<in> set (players_of db gid). p_color p = color_text c \<and> p_joined_at p \<noteq> None))
    else adjudicateNoShow env gid db = (Inr None, db)"
  using assms by (rule no_show_decides)

theorem adjudicateNoShow_decides_witness:
  "\<exists>sub db' out. adjudicateNoShow (sample_env 30000 sample_half_ready) ''g'' sample_half_ready = (Inr (Some sub), db') \<and>
     to_winner out = Some White \<and> game_ended ''g'' sample_game out sub sample_half_ready db'"
proof -
  have g: "find_game sample_half_ready ''g'' = Some sample_game" "g_status sample_game = ''WAITING_FOR_PLAYERS''"
    "g_join_deadline_at sample_game = Some 30000" "endable (sample_env 30000 sample_half_ready) sample_game"
    "te_fault (sample_env 30000 sample_half_ready) = NoFault"
    by code_simp+
  have due: "30000 \<le> te_observedAt (sample_env 30000 sample_half_ready)" by code_simp
  have joined: "\<exists>p \<in> set (players_of sample_half_ready ''g''). p_color p = color_text White \<and> p_joined_at p \<noteq> None"
    by code_simp
  from adjudicateNoShow_decides [OF sample_reachable(3) g] joined show ?thesis
    unfolding if_P [OF due] by blast
qed

lemma abandonment_outcome:
  assumes inv: "game_inv g ps ms" and some: "filter q ps \<noteq> []"
  obtains out where "deriveTerminalOutcome (ABANDONMENT (player_colors (filter q ps))) = Inr out"
    "to_status out = ABANDONED"
    "\<And>c. to_winner out = Some c \<longleftrightarrow> \<not> (\<exists>p \<in> set ps. p_color p = color_text c \<and> q p)"
proof -
  from inv obtain white black where ps: "ps = [white, black]" and col: "p_color white = ''w''" "p_color black = ''b''"
    by (rule game_inv_two)
  have color: "(color_text c = ''w'') = (c = White)" "(''w'' = color_text c) = (c = White)"
    "(color_text c = ''b'') = (c = Black)" "(''b'' = color_text c) = (c = Black)" for c
    by (cases c; simp)+
  have both: "{White, Black} = UNIV" "c = White \<or> c = Black" for c by (cases c; auto simp: UNIV_color)+
  have split: "(White = c) = (c \<noteq> Black)" "(Black = c) = (c \<noteq> White)" for c by (cases c; simp)+
  show ?thesis
    using some that both unfolding ps player_colors_cases [OF col]
    by (cases "q white"; cases "q black")
      (auto simp: deriveAbandonment_cases winnerOutcome_def col color split)
qed

definition absentAmong :: "string list \<Rightarrow> player_row \<Rightarrow> bool" where
  "absentAmong ids p \<longleftrightarrow> p_guest_session_id p \<in> set ids"

lemma abandonment_decides:
  assumes "reachable lib uuidv4 db" and "find_game db gid = Some g" and "g_status g = ''RECONNECTING''"
    and "endable env g" and "te_fault env = NoFault"
  shows "if (\<exists>p \<in> set (players_of db gid). absentAmong ids p \<and> graceExpired (te_observedAt env) p) \<and>
       (\<forall>p \<in> set (players_of db gid). absentAmong ids p \<longrightarrow> p_disconnected_at p \<noteq> None)
    then \<exists>sub db' out. adjudicateAbandonment env gid ids db = (Inr (Some sub), db') \<and> game_ended gid g out sub db db' \<and>
      to_status out = ABANDONED \<and>
      (\<forall>c. to_winner out = Some c \<longleftrightarrow> \<not> (\<exists>p \<in> set (players_of db gid). p_color p = color_text c \<and> absentAmong ids p))
    else adjudicateAbandonment env gid ids db = (Inr None, db)"
proof -
  note sys = reachable_system [OF assms(1)]
  note facts = system_ok_game [OF sys assms(2)]
  from endable_lock [OF sys assms(2,4)] obtain locked where lock: "lockGameClock env gid db = Inr (Some locked, db)"
    and clocks: "0 \<le> lk_whiteClockMs locked" "int4 (lk_whiteClockMs locked)"
      "0 \<le> lk_blackClockMs locked" "int4 (lk_blackClockMs locked)"
    and status: "lk_status locked = g_status g" and t: "lk_observedAt locked = te_observedAt env" by blast
  let ?ps = "players_of db gid" and ?game = "\<lparr>pg_game = g, pg_moves = [], pg_players = players_of db gid\<rparr>"
  let ?due = "(\<exists>p \<in> set ?ps. absentAmong ids p \<and> graceExpired (te_observedAt env) p) \<and>
       (\<forall>p \<in> set ?ps. absentAmong ids p \<longrightarrow> p_disconnected_at p \<noteq> None)"
  let ?event = "ABANDONMENT (player_colors (filter (absentAmong ids) ?ps))"
  have grace: "(p_disconnected_at p = None) = (p_reconnect_grace_ends_at p = None)" if "p \<in> set ?ps" for p
  proof -
    have "player_check p" using players_of_ids(2) [OF system_ok_tables [OF sys], of gid] that by blast
    then show ?thesis by (auto simp: player_check_def split: option.splits)
  qed
  let ?skip = "filter (absentAmong ids) ?ps = [] \<or>
      list_ex (\<lambda>p. p_disconnected_at p = None \<or> p_reconnect_grace_ends_at p = None) (filter (absentAmong ids) ?ps) \<or>
      \<not> list_ex (graceExpired (te_observedAt env)) (filter (absentAmong ids) ?ps)"
  have skip: "?skip = (\<not> ?due)"
    using grace by (auto simp: list_ex_iff filter_empty_conv simp del: set_players_of)
  have "adjudicateAbandonment_body env gid ids db =
      (if ?skip then Inr (None, db) else finish env ?game locked ?event db)"
    using status t assms(3)
    by (simp add: adjudicateAbandonment_body_def withLockedGame_eq [OF assms(2) lock]
      absentAmong_def [symmetric, abs_def] Let_def)
  then have body: "adjudicateAbandonment_body env gid ids db =
      (if \<not> ?due then Inr (None, db) else finish env ?game locked ?event db)"
    unfolding skip .
  show ?thesis
  proof (cases ?due)
    case True
    then have "filter (absentAmong ids) ?ps \<noteq> []" by (auto simp: filter_empty_conv simp del: set_players_of)
    from abandonment_outcome [OF facts(1) this] obtain out where out: "deriveTerminalOutcome ?event = Inr out"
      and props: "to_status out = ABANDONED"
      "\<And>c. to_winner out = Some c \<longleftrightarrow> \<not> (\<exists>p \<in> set ?ps. p_color p = color_text c \<and> absentAmong ids p)" by blast
    obtain sub db' where fin: "finish env ?game locked ?event db = Inr (Some sub, db')"
      and commit: "commit_ok db'" and ended: "game_ended gid g out sub db db'"
      by (rule finish_succeeds [OF sys assms(2) refl out assms(4) t clocks])
    have "adjudicateAbandonment_body env gid ids db = Inr (Some sub, db')"
      unfolding body if_not_P [OF True [THEN not_not [THEN iffD2]]] by (rule fin)
    with commit assms(5) have "adjudicateAbandonment env gid ids db = (Inr (Some sub), db')"
      by (simp add: adjudicateAbandonment_def run_Inr_iff)
    with ended props show ?thesis unfolding if_P [OF True] by blast
  next
    case False
    then have "adjudicateAbandonment_body env gid ids db = Inr (None, db)" unfolding body by (rule if_P)
    with assms(5) sys show ?thesis
      unfolding if_not_P [OF False] by (simp add: adjudicateAbandonment_def run_Inr_iff system_ok_def db_ok_def)
  qed
qed

text \<open>
  C22. Abandonment is decided by the grace periods: with the guests named as
  absent, a reconnecting game is ended exactly if one of its players is among
  them, all of its players among them are disconnected, and the grace period of
  one of those has run out. Then the winner is the player who is not absent; if
  both are absent there is none. In every other case nothing changes.
\<close>

theorem adjudicateAbandonment_decides:
  assumes "reachable lib uuidv4 db" and "find_game db gid = Some g" and "g_status g = ''RECONNECTING''"
    and "endable env g" and "te_fault env = NoFault"
  shows "if (\<exists>p \<in> set (players_of db gid). absentAmong ids p \<and> graceExpired (te_observedAt env) p) \<and>
       (\<forall>p \<in> set (players_of db gid). absentAmong ids p \<longrightarrow> p_disconnected_at p \<noteq> None)
    then \<exists>sub db' out. adjudicateAbandonment env gid ids db = (Inr (Some sub), db') \<and> game_ended gid g out sub db db' \<and>
      to_status out = ABANDONED \<and>
      (\<forall>c. to_winner out = Some c \<longleftrightarrow> \<not> (\<exists>p \<in> set (players_of db gid). p_color p = color_text c \<and> absentAmong ids p))
    else adjudicateAbandonment env gid ids db = (Inr None, db)"
  using assms by (rule abandonment_decides)

theorem adjudicateAbandonment_decides_witness:
  "\<exists>sub db' out. adjudicateAbandonment (sample_env 70000 sample_moved) ''g'' [''u2''] sample_reconnecting =
     (Inr (Some sub), db') \<and> game_ended ''g'' sample_reconnecting_game out sub sample_reconnecting db' \<and>
     to_winner out = Some White"
proof -
  let ?db = sample_reconnecting and ?env = "sample_env 70000 sample_moved"
  have g: "find_game ?db ''g'' = Some sample_reconnecting_game" "g_status sample_reconnecting_game = ''RECONNECTING''"
    "endable ?env sample_reconnecting_game" "te_fault ?env = NoFault"
    by code_simp+
  have due: "(\<exists>p \<in> set (players_of ?db ''g''). absentAmong [''u2''] p \<and> graceExpired (te_observedAt ?env) p) \<and>
      (\<forall>p \<in> set (players_of ?db ''g''). absentAmong [''u2''] p \<longrightarrow> p_disconnected_at p \<noteq> None)"
    by code_simp
  have white: "\<not> (\<exists>p \<in> set (players_of ?db ''g''). p_color p = color_text White \<and> absentAmong [''u2''] p)"
    by code_simp
  from adjudicateAbandonment_decides [OF sample_reconnecting_reachable g, of "[''u2'']"] white show ?thesis
    unfolding if_P [OF due] by blast
qed

end
