(* ===== verification/Move_Properties.thy ===== *)
theory Move_Properties
  imports Game_Endings
begin

text \<open>
  Submitting a move: what every call that changes the database has done
  (\<open>submitMove_played\<close>), what it has written, and when a move is accepted.
\<close>

section \<open>What changes a database by a move\<close>

lemma admitMove_Inr:
  assumes sys: "system_ok db" and g: "find_game db gid = Some g" and status: "g_status g \<in> {''IN_PROGRESS'', ''READY''}"
    and turn: "g_turn_color g = color_text color" and t: "lk_observedAt locked = t" "time_value t"
    and adm: "admitMove g color locked = Inr c"
  shows "movedClock g color t c \<and> spentMs g t < moverClock g color"
proof (cases "g_status g = ''READY''")
  case False
  note facts = system_ok_game [OF sys g]
  from False status have "g_status g = ''IN_PROGRESS''" by simp
  from admitMove_running [OF facts(2,3) this t(1) [symmetric], of color] adm show ?thesis
    by (auto split: if_splits)
next
  case True
  note facts = system_ok_game [OF sys g]
  have init: "0 < g_time_initial_ms g" using facts(2) by (simp add: game_check_def games_number_check_def)
  have ready: "moves_of db gid = []" "g_white_clock_ms g = g_time_initial_ms g" "g_black_clock_ms g = g_time_initial_ms g"
    using facts(1) True by (simp_all add: game_inv_def status_inv_def)
  have "g_turn_color g = ''w''" using facts(1) ready by (simp add: game_inv_def history_inv_def turn_text_def)
  with turn have white: "color = White" by (cases color) simp_all
  have "spentMs g t = 0" using True by (simp add: spentMs_def)
  moreover from admitMove_starting [OF facts(2,3) True t(1) [symmetric] t(2)] ready init adm
  have "movedClock g color t c" by (auto simp: white)
  ultimately show ?thesis using ready init by (simp add: moverClock_def)
qed

text \<open>Every call that changes the database has played a move.\<close>

lemma submitMove_played:
  assumes sys: "system_ok db" and run: "submitMove lib uuidv4 env input db = (r, db')" and changed: "db' \<noteq> db"
  obtains g locked player color clock ev out sub game where
    "find_game db (sm_gameId input) = Some g" "lockGameClock env (sm_gameId input) db = Inr (Some locked, db)"
    "game = \<lparr>pg_game = g, pg_moves = moves_of db (sm_gameId input), pg_players = players_of db (sm_gameId input)\<rparr>"
    "findMover game (sm_guestSessionId input) = Some (player, color)"
    "find_command db (sm_gameId input) (sm_clientMoveId input) = None"
    "moveGuards game color input = None" "admitMove g color locked = Inr clock"
    "evaluateSubmission lib game color input = Inr ev" "boardOutcome ev = Inr out"
    "moveSubmission game color input locked clock ev out = Inr sub"
    "db' = movedDb (movedRow env color locked clock ev out g) (moveRow g color input locked (me_applied ev)) out
       (commandRow g input sub) db"
    "moves_of db' (sm_gameId input) = moves_of db (sm_gameId input) @ [moveRow g color input locked (me_applied ev)]"
    "submitInTransaction lib uuidv4 env input db = Inr (move_accepted sub, db')" "commit_ok db'"
proof -
  have "snd (run (te_fault env) (submitInTransaction lib uuidv4 env input) db) = db'"
    using run submitMove_snd [of lib uuidv4 env input db] by simp
  then obtain q where "run (te_fault env) (submitInTransaction lib uuidv4 env input) db = (q, db')"
    by (metis prod.collapse)
  from run_changes [OF this changed] obtain res where tx: "submitInTransaction lib uuidv4 env input db = Inr (res, db')"
    and commit: "commit_ok db'" by blast
  from tx show ?thesis
  proof (cases rule: submit_cases)
    case (played g locked player color)
    from sys played(1) refl played(3,5) show ?thesis
    proof (cases rule: played_effect)
      case (refused r)
      with changed show ?thesis by simp
    next
      case played': (played clock ev out sub mv)
      show ?thesis
        using that [OF played(1,2) refl played(3,4) played'(1,2,3,4,5)] played'(6-9) tx commit by simp
    qed
  qed (use changed in simp_all)
qed

lemma remaining_moverClock:
  "remainingFor c White = whiteMs c" "remainingFor c Black = blackMs c"
  by (simp_all add: remainingFor_def)

lemma movedRow_clock:
  "moverClock (movedRow env color locked c ev out g) x = remainingFor c x"
  by (simp add: moverClock_def remainingFor_def)

text \<open>
  What an accepted move has written, column by column: the game row, the move row and the answer stored with the command,
  for the game \<open>g\<close>, the mover's colour, the evaluation, the time \<open>t\<close> it was received and the time \<open>now\<close>
  the client of the database stamps.
\<close>

definition decided_result :: "PlayerColor option \<Rightarrow> GameResult" where
  "decided_result winner = (case winner of None \<Rightarrow> draw | Some White \<Rightarrow> white_win | Some Black \<Rightarrow> black_win)"

definition clock_after :: "int \<Rightarrow> game_row \<Rightarrow> PlayerColor \<Rightarrow> PlayerColor \<Rightarrow> int" where
  "clock_after t g mover side =
     (if side = mover then moverClock g mover - spentMs g t + g_increment_ms g else moverClock g side)"

definition version_after :: "game_row \<Rightarrow> int" where
  "version_after g = g_version g + (if g_status g = ''READY'' then 2 else 1)"

definition game_after :: "int \<Rightarrow> int \<Rightarrow> game_row \<Rightarrow> PlayerColor \<Rightarrow> MoveEvaluation \<Rightarrow> game_row" where
  "game_after t now g color ev =
     (let played = g\<lparr>g_current_fen := am_fenAfter (me_applied ev), g_turn_color := color_text (oppositeColor color),
            g_pgn := me_pgn ev, g_version := version_after g, g_white_clock_ms := clock_after t g color White,
            g_black_clock_ms := clock_after t g color Black,
            g_started_at := (if g_status g = ''READY'' then Some t else g_started_at g), g_updated_at := now\<rparr>
      in case me_gameOver ev of
           not_over \<Rightarrow> played\<lparr>g_status := ''IN_PROGRESS'', g_turn_started_at := Some t\<rparr>
         | over reason winner \<Rightarrow> played\<lparr>g_status := ''COMPLETED'', g_turn_started_at := None, g_ended_at := Some t,
             g_termination := Some (persistedTermination (Board reason)),
             g_result := Some (case winner of None \<Rightarrow> ''1/2-1/2'' | Some White \<Rightarrow> ''1-0'' | Some Black \<Rightarrow> ''0-1'')\<rparr>)"

definition answer_after ::
    "SubmitMove \<Rightarrow> int \<Rightarrow> string \<times> string \<Rightarrow> game_row \<Rightarrow> PlayerColor \<Rightarrow> MoveEvaluation \<Rightarrow> MoveSubmission" where
  "answer_after input t guestIds g color ev =
     (let gid = sm_gameId input; applied = me_applied ev; goes_on = (me_gameOver ev = not_over);
          clocks = \<lparr>gc_blackMs = clock_after t g color Black, gc_observedAt = t,
            gc_running = (if goes_on then Some (oppositeColor color) else None), gc_whiteMs = clock_after t g color White\<rparr>
      in \<lparr>ms_accepted = \<lparr>ac_check = am_check applied, ac_clientMoveId = sm_clientMoveId input, ac_clocks = clocks,
              ac_fenAfter = am_fenAfter applied, ac_gameId = gid, ac_gameVersion = version_after g,
              ac_ply = am_plyNumber applied, ac_san = am_san applied, ac_turn = oppositeColor color, ac_uci = am_uci applied\<rparr>,
          ms_duplicate = False,
          ms_ended = (case me_gameOver ev of
              not_over \<Rightarrow> None
            | over reason winner \<Rightarrow> Some \<lparr>eg_clocks = clocks, eg_finalFen = am_fenAfter applied, eg_gameId = gid,
                eg_gameVersion = version_after g, eg_pgn = me_pgn ev, eg_result = decided_result winner,
                eg_termination = Board reason\<rparr>),
          ms_guestSessionIds = guestIds,
          ms_started = (if g_status g = ''READY''
            then Some \<lparr>sg_clocks = \<lparr>gc_blackMs = g_black_clock_ms g, gc_observedAt = t, gc_running = Some White,
                  gc_whiteMs = g_white_clock_ms g\<rparr>,
                sg_gameId = gid, sg_gameVersion = g_version g + 1, sg_initialFen = g_initial_fen g\<rparr>
            else None)\<rparr>)"

text \<open>All the tables after the move.\<close>

definition move_written ::
    "SubmitMove \<Rightarrow> int \<Rightarrow> int \<Rightarrow> game_row \<Rightarrow> PlayerColor \<Rightarrow> MoveEvaluation \<Rightarrow> MoveSubmission \<Rightarrow> db \<Rightarrow> db \<Rightarrow> bool" where
  "move_written input t now g color ev answer db db' \<longleftrightarrow>
     (let gid = sm_gameId input; applied = me_applied ev in
      games db' = map (\<lambda>r. if g_id r = gid then game_after t now g color ev else r) (games db) \<and>
      moves db' = moves db @ [\<lparr>m_game_id = gid, m_ply = int (length (moves_of db gid)) + 1,
        m_client_move_id = sm_clientMoveId input, m_guest_session_id = sm_guestSessionId input, m_color = color_text color,
        m_san = am_san applied, m_uci = am_uci applied, m_fen_before = g_current_fen g, m_fen_after = am_fenAfter applied,
        m_server_received_at = t\<rparr>] \<and>
      commands db' = commands db @ [\<lparr>c_game_id = gid, c_guest_session_id = sm_guestSessionId input,
        c_event_id = sm_clientMoveId input, c_command_type = ''MOVE'', c_result_version = version_after g,
        c_response = persistedSubmission answer\<rparr>] \<and>
      assignments db' =
        (if me_gameOver ev = not_over then assignments db else filter (\<lambda>a. a_game_id a \<noteq> gid) (assignments db)) \<and>
      players db' = players db \<and> guests db' = guests db)"

lemma boardOutcome_columns:
  assumes "evaluateSubmission lib game color input = Inr ev" and "boardOutcome ev = Inr out"
  shows "case me_gameOver ev of not_over \<Rightarrow> out = None
    | over reason winner \<Rightarrow> (\<exists>t. out = Some t \<and> to_status t = COMPLETED \<and> to_termination t = Board reason \<and>
        to_result t = decided_result winner)"
proof (cases "me_gameOver ev")
  case (over reason winner)
  from chessjs_engine.winner [OF evaluateSubmission_Inr(1) [OF assms(1)] over] assms(2) over show ?thesis
    by (cases winner; cases "the winner")
      (auto simp: boardOutcome_def deriveBoardOutcome_def winnerOutcome_def decided_result_def
        split: if_splits sum.splits option.splits)
qed (use assms in \<open>auto simp: boardOutcome_def\<close>)

lemma movedClock_after:
  "movedClock g color t c \<Longrightarrow> whiteMs c = clock_after t g color White \<and> blackMs c = clock_after t g color Black"
  by (cases color) (simp_all add: movedClock_def clock_after_def remainingFor_def)

lemma resultVersion_after: "resultVersion g = version_after g"
  by (simp add: resultVersion_def startedVersion_def version_after_def)

lemma persistedResult_decided:
  "persistedResult (decided_result winner) =
     (case winner of None \<Rightarrow> ''1/2-1/2'' | Some White \<Rightarrow> ''1-0'' | Some Black \<Rightarrow> ''0-1'')"
  by (cases winner; cases "the winner") (auto simp: decided_result_def)

lemma movedRow_after:
  assumes "movedClock g color t clock" and "lk_observedAt locked = t" and "g_status g = ''READY'' \<or> g_status g = ''IN_PROGRESS''"
    and "evaluateSubmission lib game color input = Inr ev" and "boardOutcome ev = Inr out"
  shows "movedRow env color locked clock ev out g = game_after t (te_appNow env) g color ev"
  using boardOutcome_columns [OF assms(4,5)] movedClock_after [OF assms(1)] assms(2,3)
  by (cases "me_gameOver ev"; cases "g_status g = ''READY''")
    (auto simp: movedRow_def moveData_def game_after_def Let_def persistedResult_decided version_after_def)

lemma moveSubmission_after:
  assumes "moveSubmission game color input locked clock ev out = Inr sub"
    and "movedClock (pg_game game) color t clock" and "lk_observedAt locked = t" and "g_id (pg_game game) = sm_gameId input"
    and "evaluateSubmission lib game color input = Inr ev" and "boardOutcome ev = Inr out"
  obtains first second where "map p_guest_session_id (pg_players game) = [first, second]"
    "sub = answer_after input t (first, second) (pg_game game) color ev"
proof -
  obtain first second where ids: "map p_guest_session_id (pg_players game) = [first, second]"
    using assms(1) by (auto simp: moveSubmission_def Let_def split: list.splits)
  have "sub = answer_after input t (first, second) (pg_game game) color ev"
    using assms(1) boardOutcome_columns [OF assms(5,6)] movedClock_after [OF assms(2)] assms(3,4)
    by (cases "me_gameOver ev")
      (auto simp: moveSubmission_def Let_def ids answer_after_def acceptedMove_def moveClocks_def endedGame_def startedGame_def
        startedVersion_def resultVersion_after)
  with ids show ?thesis by (rule that)
qed

lemma movedDb_find_game:
  assumes "find_game db (g_id g') = Some g"
  shows "find_game (movedDb g' mv out c db) x = (if x = g_id g' then Some g' else find_game db x)"
  using assms find_game_set_game [of g' db x] by (simp add: find_game_def)

lemma movedDb_assignments_of:
  "assignments_of (movedDb g' mv out c db) x =
     (if out \<noteq> None \<and> x = g_id g' then [] else assignments_of db x)"
  using assignments_of_delete [where db = db and gid = "g_id g'" and x = x]
  by (simp add: movedDb_def assignments_of_def)

text \<open>
  C2. What a move does: if a submitted move changes anything, then the game was ready or in progress at exactly the
  version the player expected, it was the turn of that player, the engine accepted the move in the stored position, and
  the mover had more time left than the move took. The tables are then these: in the row of that game the new position and
  PGN, the opponent's turn, the mover's clock less the time taken plus the increment, a version raised by one (by two if
  the move also started the game, which is stamped as started then), and, if the board is decided, the completed status
  with its termination, result and end; one more row of moves; one more stored command, with the answer for a retry; both
  guests free again if the board is decided. Every other column and every other row is what it was. Unless the connection
  failed, the player gets the answer that was stored.
\<close>

theorem submitMove_effect:
  assumes "reachable lib uuidv4 db" and "submitMove lib uuidv4 env input db = (r, db')" and "db' \<noteq> db"
    and "time_value (te_observedAt env)"
  shows "\<exists>g color p ev first second answer.
    find_game db (sm_gameId input) = Some g \<and> g_status g \<in> {''READY'', ''IN_PROGRESS''} \<and>
    g_version g = sm_expectedVersion input \<and> g_turn_color g = color_text color \<and>
    p \<in> set (players_of db (sm_gameId input)) \<and> p_color p = color_text color \<and>
    p_guest_session_id p = sm_guestSessionId input \<and>
    evaluateMove lib \<lparr>ev_expectedCurrentFen = g_current_fen g, ev_history = map m_uci (moves_of db (sm_gameId input)),
      ev_initialFen = g_initial_fen g, ev_move = sm_move input\<rparr> = Inr ev \<and>
    spentMs g (te_observedAt env) < moverClock g color \<and>
    map p_guest_session_id (players_of db (sm_gameId input)) = [first, second] \<and>
    answer = answer_after input (te_observedAt env) (first, second) g color ev \<and>
    move_written input (te_observedAt env) (te_appNow env) g color ev answer db db' \<and>
    (te_fault env = NoFault \<longrightarrow> r = Inr answer)"
proof -
  note sys = reachable_system [OF assms(1)]
  let ?gid = "sm_gameId input" and ?t = "te_observedAt env"
  from sys assms(2,3) obtain g locked player color clock ev out sub game where
    g: "find_game db ?gid = Some g" and lock: "lockGameClock env ?gid db = Inr (Some locked, db)"
    and game: "game = \<lparr>pg_game = g, pg_moves = moves_of db ?gid, pg_players = players_of db ?gid\<rparr>"
    and mover: "findMover game (sm_guestSessionId input) = Some (player, color)"
    and guards: "moveGuards game color input = None" and adm: "admitMove g color locked = Inr clock"
    and ev: "evaluateSubmission lib game color input = Inr ev" and out: "boardOutcome ev = Inr out"
    and sub: "moveSubmission game color input locked clock ev out = Inr sub"
    and db': "db' = movedDb (movedRow env color locked clock ev out g) (moveRow g color input locked (me_applied ev)) out
       (commandRow g input sub) db"
    and tx: "submitInTransaction lib uuidv4 env input db = Inr (move_accepted sub, db')" and commit: "commit_ok db'"
    by (rule submitMove_played)
  note facts = system_ok_game [OF sys g] and guard = moveGuards_None [OF guards, unfolded game]
    and who = findMover_Some [OF mover, unfolded game] and applied = evaluateSubmission_applied [OF ev, unfolded game]
  have t: "lk_observedAt locked = ?t" using lock g by (auto elim: lockGameClock_Some)
  have clocks: "movedClock g color ?t clock \<and> spentMs g ?t < moverClock g color"
    using guard adm t assms(4) by (intro admitMove_Inr [OF sys g]) simp_all
  have row: "movedRow env color locked clock ev out g = game_after ?t (te_appNow env) g color ev"
    using guard clocks t ev out by (intro movedRow_after) auto
  obtain first second where ids: "map p_guest_session_id (players_of db ?gid) = [first, second]"
    and answer: "sub = answer_after input ?t (first, second) g color ev"
    using sub clocks t facts(4) ev out by (elim moveSubmission_after [of game]) (simp_all add: game)
  have "out = None \<longleftrightarrow> me_gameOver ev = not_over"
    using boardOutcome_columns [OF ev out] by (cases "me_gameOver ev") auto
  then have "move_written input ?t (te_appNow env) g color ev sub db db'"
    using t applied facts(4)
    by (auto simp: move_written_def Let_def db' movedDb_def set_game_def row [symmetric] update_rows_def delete_rows_def
        moveRow_def commandRow_def resultVersion_after)
  moreover have "r = Inr sub" if "te_fault env = NoFault"
    using assms(2) that by (simp add: submitMove_def run_def tx commit)
  ultimately show ?thesis
    using g guard who clocks evaluateSubmission_Inr(1) [OF ev] ids answer
    by (intro exI [of _ g] exI [of _ color] exI [of _ player] exI [of _ ev] exI [of _ first] exI [of _ second] exI [of _ sub])
      (auto simp: game)
qed

theorem submitMove_effect_witness:
  "\<exists>g color ev. find_game sample_playing (sm_gameId sample_first_move) = Some g \<and>
     move_written sample_first_move 9000 (te_appNow (sample_env 9000 sample_playing)) g color ev sample_submission
       sample_playing sample_moved"
proof -
  have facts: "sample_moved \<noteq> sample_playing" "time_value (te_observedAt (sample_env 9000 sample_playing))"
    "te_observedAt (sample_env 9000 sample_playing) = 9000" "te_fault (sample_env 9000 sample_playing) = NoFault"
    by (code_simp, simp_all add: sample_env_def time_value_def)
  from submitMove_effect [OF sample_reachable(5) sample_submit_first facts(1,2)] facts(3,4) show ?thesis
    by (elim exE conjE) (intro exI conjI, assumption, simp)
qed

lemma movedDb_players [simp]: "players (movedDb g' mv out c db) = players db"
  by (simp add: movedDb_def)

lemma movedDb_commit:
  assumes ok: "commit_ok db" and g: "find_game db (g_id g') = Some g" and active: "\<not> terminal_text (g_status g)"
    and ended: "terminal_text (g_status g') \<longleftrightarrow> out \<noteq> None"
  shows "commit_ok (movedDb g' mv out c db)"
  unfolding commit_ok_def list_all_iff
proof
  fix r
  assume r: "r \<in> set (games (movedDb g' mv out c db))"
  from r consider "r = g'" | "r \<in> set (games db)" "g_id r \<noteq> g_id g'"
    by (auto simp: set_game_def set_update_rows split: if_splits)
  then show "allocation_ok (movedDb g' mv out c db) r"
  proof cases
    case 1
    from ok g have "allocation_ok db g" using find_gameD [OF g] by (simp add: commit_ok_def list_all_iff)
    with 1 ended active find_gameD(1) [OF g] show ?thesis
      by (auto simp: allocation_ok_def movedDb_assignments_of)
  next
    case 2
    with ok have "allocation_ok db r" by (simp add: commit_ok_def list_all_iff)
    with 2(2) show ?thesis by (simp add: allocation_ok_def movedDb_assignments_of)
  qed
qed

lemma persistMove_succeeds:
  assumes sys: "system_ok db" and g: "find_game db gid = Some g" and game: "pg_game game = g"
    and row: "game_range (movedRow env color locked clock ev out g)" "game_check (movedRow env color locked clock ev out g)"
    and ply: "int4 (am_plyNumber (me_applied ev))" "0 < am_plyNumber (me_applied ev)"
    and fresh: "\<forall>r \<in> set (moves db). m_game_id r = gid \<longrightarrow>
      m_client_move_id r \<noteq> sm_clientMoveId input \<and> m_ply r \<noteq> am_plyNumber (me_applied ev)"
    and guest: "find_guest db (sm_guestSessionId input) \<noteq> None"
    and command: "find_command db gid (sm_clientMoveId input) = None" "int4 (resultVersion g)" "0 \<le> resultVersion g"
  shows "persistMove env game color input locked clock ev out sub db = Inr (move_accepted sub,
    movedDb (movedRow env color locked clock ev out g) (moveRow g color input locked (me_applied ev)) out
      (commandRow g input sub) db)"
proof -
  note facts = system_ok_game [OF sys g]
  have gok: "games_ok db" using system_ok_tables [OF sys] by (simp add: tables_ok_def)
  let ?g' = "movedRow env color locked clock ev out g"
  let ?mv = "moveRow g color input locked (me_applied ev)"
  have upd: "update_games (te_appNow env) (\<lambda>r. g_id r = gid \<and> g_version r = g_version g)
      (moveData g color locked clock ev out) db = Inr (1, set_game ?g' db)"
    using update_game_at [OF gok g, of "moveData g color locked clock ev out" "te_appNow env"] facts(4) row
    by (simp add: movedRow_def Let_def)
  have ins: "insert_move ?mv (set_game ?g' db) = Inr ((), (set_game ?g' db)\<lparr>moves := moves db @ [?mv]\<rparr>)"
    using ply fresh guest g facts(4)
    by (cases color) (simp_all add: insert_move_Inr_iff moveRow_def move_check_def find_guest_def)
  have cmd: "insert_command (commandRow g input sub) db2 = Inr ((), db2\<lparr>commands := commands db @ [commandRow g input sub]\<rparr>)"
    if "commands db2 = commands db" "find_game db2 gid \<noteq> None" "guests db2 = guests db" for db2
    using that command guest facts(4)
    by (auto simp: insert_command_Inr_iff commandRow_def command_check_def find_command_def find_guest_def)
  show ?thesis
    using upd ins cmd g facts(4)
    by (auto simp: persistMove_def Let_def game tbind_run_Inr delete_assignments_def movedDb_def)
qed

lemma movedRow_rest [simp]:
  "g_mode (movedRow env color locked clock ev out g) = g_mode g"
  "g_started_at (movedRow env color locked clock ev out g) =
     (if g_status g = ''READY'' then Some (lk_observedAt locked) else g_started_at g)"
  "g_ended_at (movedRow env color locked clock ev out g) =
     (if out = None then g_ended_at g else Some (lk_observedAt locked))"
  "g_result (movedRow env color locked clock ev None g) = g_result g"
  "g_termination (movedRow env color locked clock ev None g) = g_termination g"
  by (simp_all add: movedRow_def moveData_def Let_def split: option.split)

lemma movedRow_ok:
  assumes ok: "game_check g" "game_range g" and status: "g_status g \<in> {''IN_PROGRESS'', ''READY''}"
    and clock: "movedClock g color t clock" "spentMs g t < moverClock g color"
      "moverClock g color - spentMs g t + g_increment_ms g \<le> 2147483647"
    and t: "lk_observedAt locked = t" and started: "\<And>s. g_started_at g = Some s \<Longrightarrow> s \<le> t"
    and version: "g_version g < 2147483646" and out: "boardOutcome ev = Inr out"
  shows "game_range (movedRow env color locked clock ev out g)" "game_check (movedRow env color locked clock ev out g)"
proof -
  let ?g' = "movedRow env color locked clock ev out g"
  have spent: "0 \<le> spentMs g t" by (simp add: spentMs_def split: option.split)
  have both: "0 \<le> remainingFor clock x \<and> remainingFor clock x \<le> 2147483647" for x
  proof (cases "x = color")
    case True
    with clock ok(1) show ?thesis by (simp add: movedClock_def game_check_def games_number_check_def)
  next
    case False
    then have "x = oppositeColor color" using color_cases_neq by metis
    with clock(1) ok show ?thesis
      by (simp add: movedClock_def moverClock_def game_check_def games_number_check_def game_range_def int4_def)
  qed
  from both [of White] both [of Black] have clocks: "0 \<le> whiteMs clock" "whiteMs clock \<le> 2147483647"
    "0 \<le> blackMs clock" "blackMs clock \<le> 2147483647" by (simp_all add: remainingFor_def)
  have v: "0 \<le> g_version g" using ok(1) by (simp add: game_check_def games_number_check_def)
  from ok clocks version v show "game_range ?g'" by (simp add: game_range_def int4_def)
  have status': "g_status ?g' = (if out = None then ''IN_PROGRESS'' else ''COMPLETED'')"
    using status boardOutcome_Inr(2) out by (cases out) auto
  have active: "\<not> terminal_text (g_status g)" using status by (auto simp: terminal_text_def)
  have none: "g_result g = None" "g_termination g = None" "g_ended_at g = None"
    using ok(1) active by (simp_all add: game_check_def games_terminal_state_check_def)
  have has_start: "\<exists>s. g_started_at ?g' = Some s \<and> s \<le> t"
    using ok(1) status started t
    by (auto simp: game_check_def games_turn_clock_state_check_def clock_text_def split: if_splits)
  have "games_status_check ?g'" unfolding games_status_check_def status' by simp
  moreover have "games_result_check ?g'"
  proof (cases out)
    case None
    then show ?thesis by (simp add: games_result_check_def none)
  next
    case (Some o')
    then show ?thesis
      using outcome_columns(1) [of "to_result o'"] outcome_columns(2) [of "to_termination o'"]
      unfolding games_result_check_def by simp
  qed
  moreover have "games_number_check ?g'" using ok(1) clocks v by (simp add: game_check_def games_number_check_def)
  moreover have "games_ended_after_started_check ?g'"
    using has_start t none by (auto simp: games_ended_after_started_check_def split: option.splits)
  moreover have "games_terminal_state_check ?g'"
    unfolding games_terminal_state_check_def status'
    by (cases out) (simp_all add: terminal_text_def none)
  moreover have "games_turn_clock_state_check ?g'"
    unfolding games_turn_clock_state_check_def status'
    using has_start by (cases out) (auto simp: clock_text_def)
  ultimately show "game_check ?g'" using ok(1) by (cases color) (simp_all add: game_check_def)
qed

lemma findMover_player:
  assumes sys: "system_ok db" and p: "p \<in> set (players_of db gid)" and color: "p_color p = color_text color"
  shows "findMover \<lparr>pg_game = g, pg_moves = ms, pg_players = players_of db gid\<rparr> (p_guest_session_id p) = Some (p, color)"
proof -
  have "distinct (map (\<lambda>p. (p_game_id p, p_guest_session_id p)) (players db))"
    using system_ok_tables [OF sys] by (simp add: tables_ok_def players_ok_def)
  then have only: "q = p" if "q \<in> set (players_of db gid)" "p_guest_session_id q = p_guest_session_id p" for q
    using that p by (auto simp: distinct_map dest: inj_onD)
  have "List.find (\<lambda>c. p_guest_session_id c = p_guest_session_id p \<and> as_color (p_color c) \<noteq> None) (players_of db gid) = Some p"
  proof -
    obtain q where q: "List.find (\<lambda>c. p_guest_session_id c = p_guest_session_id p \<and> as_color (p_color c) \<noteq> None)
        (players_of db gid) = Some q"
      using p color by (cases "List.find (\<lambda>c. p_guest_session_id c = p_guest_session_id p \<and> as_color (p_color c) \<noteq> None)
        (players_of db gid)") (auto simp: find_None_iff simp del: set_players_of)
    from list_find_SomeD [OF q] only q show ?thesis by blast
  qed
  then show ?thesis by (simp add: findMover_def color)
qed

lemma contiguous_history:
  assumes "history_inv g ps ms"
  shows "hasContiguousHistory \<lparr>pg_game = g', pg_moves = ms, pg_players = ps'\<rparr>"
proof -
  have "m_ply (ms ! i) = int i + 1" if "i < length ms" for i
  proof -
    have "map m_ply ms ! i = map (\<lambda>i. int i + 1) [0..<length ms] ! i" using assms by (simp add: history_inv_def)
    with that show ?thesis by simp
  qed
  then show ?thesis
    by (auto simp: hasContiguousHistory_def list_all_iff enumerate_eq_zip set_zip)
qed

text \<open>The conditions under which a move is accepted, apart from the move itself being legal.\<close>

definition move_timely :: "tx_env \<Rightarrow> game_row \<Rightarrow> PlayerColor \<Rightarrow> bool" where
  "move_timely env g color \<longleftrightarrow>
     endable env g \<and> time_value (te_observedAt env) \<and> g_version g < 2147483646 \<and>
     spentMs g (te_observedAt env) < moverClock g color \<and>
     moverClock g color - spentMs g (te_observedAt env) + g_increment_ms g \<le> 2147483647"

lemma admitMove_timely:
  assumes sys: "system_ok db" and g: "find_game db gid = Some g" and status: "g_status g \<in> {''IN_PROGRESS'', ''READY''}"
    and turn: "g_turn_color g = color_text color" and t: "lk_observedAt locked = te_observedAt env"
    and timely: "move_timely env g color"
  obtains c where "admitMove g color locked = Inr c" "movedClock g color (te_observedAt env) c"
proof (cases "g_status g = ''READY''")
  case False
  note facts = system_ok_game [OF sys g]
  from False status have "g_status g = ''IN_PROGRESS''" by simp
  from admitMove_running [OF facts(2,3) this t [symmetric], of color] timely that show ?thesis
    by (auto simp: move_timely_def)
next
  case True
  note facts = system_ok_game [OF sys g]
  have ready: "moves_of db gid = []" using facts(1) True by (simp_all add: game_inv_def status_inv_def)
  have "g_turn_color g = ''w''" using facts(1) ready by (simp add: game_inv_def history_inv_def turn_text_def)
  with turn have white: "color = White" by (cases color) simp_all
  have "0 < g_white_clock_ms g"
    using timely True by (simp add: move_timely_def spentMs_def white moverClock_def)
  from admitMove_starting [OF facts(2,3) True t [symmetric] _ this] timely that show ?thesis
    by (auto simp: move_timely_def white)
qed

lemma playMove_accepts:
  assumes sys: "system_ok db" and g: "find_game db gid = Some g" and gid: "gid = sm_gameId input"
    and game: "game = \<lparr>pg_game = g, pg_moves = moves_of db gid, pg_players = players_of db gid\<rparr>"
    and guards: "moveGuards game color input = None" and t: "lk_observedAt locked = te_observedAt env"
    and timely: "move_timely env g color" and ev: "evaluateSubmission lib game color input = Inr ev"
    and guest: "find_guest db (sm_guestSessionId input) \<noteq> None"
    and command: "find_command db gid (sm_clientMoveId input) = None"
    and unused: "\<forall>m \<in> set (moves_of db gid). m_client_move_id m \<noteq> sm_clientMoveId input"
  obtains sub db' where "playMove lib env game color input locked db = Inr (move_accepted sub, db')" "commit_ok db'"
    "ms_duplicate sub = False" "ac_gameVersion (ms_accepted sub) = resultVersion g"
    "find_command db' gid (sm_clientMoveId input) = Some (commandRow g input sub)"
proof -
  note facts = system_ok_game [OF sys g] and guard = moveGuards_None [OF guards, unfolded game]
  have status: "g_status g \<in> {''IN_PROGRESS'', ''READY''}" and turn: "g_turn_color g = color_text color"
    using guard by simp_all
  obtain c where adm: "admitMove g color locked = Inr c" and clock: "movedClock g color (te_observedAt env) c"
    by (rule admitMove_timely [OF sys g status turn t timely])
  obtain out where out: "boardOutcome ev = Inr out" by (rule boardOutcome_total [OF ev])
  obtain sub where sub: "moveSubmission game color input locked c ev out = Inr sub" "ms_duplicate sub = False"
    "ac_gameVersion (ms_accepted sub) = resultVersion g"
    using facts(1) by (auto elim!: game_inv_two simp: moveSubmission_def Let_def acceptedMove_def game)
  note applied = evaluateSubmission_applied [OF ev, unfolded game]
  have row: "game_range (movedRow env color locked c ev out g)" "game_check (movedRow env color locked c ev out g)"
    using status timely clock t out
    by (intro movedRow_ok [OF facts(2,3), where t = "te_observedAt env"]; auto simp: move_timely_def endable_def)+
  have hist: "history_inv g (players_of db gid) (moves_of db gid)" using facts(1) by (simp add: game_inv_def)
  have version: "0 \<le> g_version g" "g_version g < 2147483646" "int (length (moves_of db gid)) \<le> g_version g"
    using facts(2) timely hist by (simp_all add: game_check_def games_number_check_def move_timely_def history_inv_def)
  have "m_ply m \<le> int (length (moves_of db gid))" if "m \<in> set (moves_of db gid)" for m
    using hist that by (intro history_plies) (simp_all add: history_inv_def)
  then have fresh: "\<forall>r \<in> set (moves db). m_game_id r = gid \<longrightarrow>
      m_client_move_id r \<noteq> sm_clientMoveId input \<and> m_ply r \<noteq> am_plyNumber (me_applied ev)"
    using unused applied(1) by fastforce
  let ?db' = "movedDb (movedRow env color locked c ev out g) (moveRow g color input locked (me_applied ev)) out
    (commandRow g input sub) db"
  have "persistMove env game color input locked c ev out sub db = Inr (move_accepted sub, ?db')"
    using applied version fresh guest command
    by (intro persistMove_succeeds [OF sys g _ row])
      (simp_all add: int4_def resultVersion_def startedVersion_def game)
  then have "playMove lib env game color input locked db = Inr (move_accepted sub, ?db')"
    using guards adm ev out sub by (simp add: playMove_def game)
  moreover have "commit_ok ?db'"
  proof (rule movedDb_commit)
    show "commit_ok db" using sys by (simp add: system_ok_def db_ok_def)
    show "find_game db (g_id (movedRow env color locked c ev out g)) = Some g" using g facts(4) by simp
    show "\<not> terminal_text (g_status g)" using status by (auto simp: terminal_text_def)
    show "terminal_text (g_status (movedRow env color locked c ev out g)) \<longleftrightarrow> out \<noteq> None"
      using status boardOutcome_Inr(2) out by (cases out) (auto simp: terminal_text_def)
  qed
  moreover have "find_command ?db' gid (sm_clientMoveId input) = Some (commandRow g input sub)"
    using command facts(4) by (simp add: find_command_def find_row_append commandRow_def)
  ultimately show ?thesis using sub that by blast
qed

text \<open>
  C11. A legal move in time is accepted: if the game is ready or in progress at
  the expected version, it is the player's turn, the engine accepts the move for
  that colour in the stored position, the move is in time, and neither the move
  nor its identifier was used before, then the call returns a new submission
  (not a duplicate) and commits it.
\<close>

theorem submitMove_accepts:
  assumes "reachable lib uuidv4 db" and "find_game db (sm_gameId input) = Some g"
    and "g_status g \<in> {''IN_PROGRESS'', ''READY''}" and "sm_expectedVersion input = g_version g"
    and "g_turn_color g = color_text color" and "p \<in> set (players_of db (sm_gameId input))"
    and "p_color p = color_text color" and "p_guest_session_id p = sm_guestSessionId input"
    and "evaluateMove lib \<lparr>ev_expectedCurrentFen = g_current_fen g, ev_history = map m_uci (moves_of db (sm_gameId input)),
      ev_initialFen = g_initial_fen g, ev_move = sm_move input\<rparr> = Inr ev" and "am_color (me_applied ev) = color"
    and "move_timely env g color" and "te_fault env = NoFault"
    and "find_command db (sm_gameId input) (sm_clientMoveId input) = None"
    and "\<forall>m \<in> set (moves_of db (sm_gameId input)). m_client_move_id m \<noteq> sm_clientMoveId input"
  shows "\<exists>sub db'. submitMove lib uuidv4 env input db = (Inr sub, db') \<and> ms_duplicate sub = False \<and>
    ac_gameVersion (ms_accepted sub) = g_version g + (if g_status g = ''READY'' then 2 else 1) \<and>
    find_command db' (sm_gameId input) (sm_clientMoveId input) = Some (commandRow g input sub)"
proof -
  note sys = reachable_system [OF assms(1)]
  let ?gid = "sm_gameId input"
  let ?game = "\<lparr>pg_game = g, pg_moves = moves_of db ?gid, pg_players = players_of db ?gid\<rparr>"
  note facts = system_ok_game [OF sys assms(2)]
  have can: "endable env g" using assms(11) by (simp add: move_timely_def)
  obtain locked where lock: "lockGameClock env ?gid db = Inr (Some locked, db)"
    and t: "lk_observedAt locked = te_observedAt env"
    using endable_lock [OF sys assms(2) can] by blast
  have mover: "findMover ?game (sm_guestSessionId input) = Some (p, color)"
    using findMover_player [OF sys assms(6,7)] assms(8) by simp
  have guards: "moveGuards ?game color input = None"
    using assms(3-5) contiguous_history [of g "players_of db ?gid" "moves_of db ?gid"] facts(1)
    by (auto simp: moveGuards_def Let_def isTerminalStatus_def game_inv_def)
  have ev: "evaluateSubmission lib ?game color input = Inr ev"
    using assms(9,10) by (simp add: evaluateSubmission_def Let_def)
  have guest: "find_guest db (sm_guestSessionId input) \<noteq> None"
    using assms(6,8) system_ok_tables [OF sys] by (auto simp: tables_ok_def players_ok_def find_guest_None_iff)
  obtain sub db' where play: "playMove lib env ?game color input locked db = Inr (move_accepted sub, db')"
    and commit: "commit_ok db'"
    and sub: "ms_duplicate sub = False" "ac_gameVersion (ms_accepted sub) = resultVersion g"
      "find_command db' ?gid (sm_clientMoveId input) = Some (commandRow g input sub)"
    by (rule playMove_accepts [OF sys assms(2) refl refl guards t assms(11) ev guest assms(13,14)])
  from play have "submitInTransaction lib uuidv4 env input db = Inr (move_accepted sub, db')"
    using lock assms(2,13) mover by (simp add: submitInTransaction_def tbind_run_Inr findPersistedGame_def)
  with commit assms(12) have "submitMove lib uuidv4 env input db = (Inr sub, db')"
    by (simp add: submitMove_def run_def)
  with sub show ?thesis by (auto simp: resultVersion_def startedVersion_def)
qed

theorem submitMove_accepts_witness:
  "\<exists>sub db'. submitMove sample_lib sample_uuid (sample_env 12000 sample_moved) sample_second_move sample_moved = (Inr sub, db') \<and>
     ms_duplicate sub = False"
proof -
  let ?p = "sample_player ''p2'' ''u2'' ''b'' 1 (Some 3000)" and ?env = "sample_env 12000 sample_moved"
  have gid: "sm_gameId sample_second_move = ''g''" by code_simp
  let ?ev = "\<lparr>me_applied = \<lparr>am_capture = False, am_check = False, am_color = Black, am_fenAfter = ''e2e4e7e5'',
     am_fenBefore = ''e2e4'', am_plyNumber = 2, am_san = ''e5'', am_uci = ''e7e5''\<rparr>,
     me_gameOver = over checkmate (Some Black), me_pgn = ''e2e4e7e5''\<rparr>"
  have h1: "find_game sample_moved (sm_gameId sample_second_move) = Some sample_moved_game"
    "g_status sample_moved_game \<in> {''IN_PROGRESS'', ''READY''}"
    "sm_expectedVersion sample_second_move = g_version sample_moved_game"
    "g_turn_color sample_moved_game = color_text Black"
    "?p \<in> set (players_of sample_moved (sm_gameId sample_second_move))"
    by code_simp+
  have h2: "p_color ?p = color_text Black" "p_guest_session_id ?p = sm_guestSessionId sample_second_move"
    "evaluateMove sample_lib \<lparr>ev_expectedCurrentFen = g_current_fen sample_moved_game,
       ev_history = map m_uci (moves_of sample_moved (sm_gameId sample_second_move)),
       ev_initialFen = g_initial_fen sample_moved_game, ev_move = sm_move sample_second_move\<rparr> = Inr ?ev"
    "am_color (me_applied ?ev) = Black"
    by code_simp+
  have h3: "move_timely ?env sample_moved_game Black" "te_fault ?env = NoFault"
    "find_command sample_moved (sm_gameId sample_second_move) (sm_clientMoveId sample_second_move) = None"
    "\<forall>m \<in> set (moves_of sample_moved (sm_gameId sample_second_move)). m_client_move_id m \<noteq> sm_clientMoveId sample_second_move"
    by code_simp+
  from submitMove_accepts [OF sample_reachable(6) h1 h2 h3] show ?thesis by blast
qed

end
