(* ===== verification/Idempotency.thy ===== *)
theory Idempotency
  imports Move_Properties
begin

text \<open>
  Retries: everything that a move stores as its response can be read back
  (\<open>submission_storable\<close>), so that a repeated command is answered from it.
\<close>

section \<open>Stored acknowledgements\<close>

text \<open>The texts that chess.js produces are not empty.\<close>

definition chessjs_texts :: "'p chessjs \<Rightarrow> bool" where
  "chessjs_texts lib \<longleftrightarrow>
     (\<forall>p. cj_fen lib p \<noteq> [] \<and> (\<forall>m p' mv. cj_move lib p m = Some (p', mv) \<longrightarrow> mv_san mv \<noteq> []))"

lemma evaluated_texts:
  assumes "chessjs_texts lib" and ev: "evaluateMove lib i = Inr e"
  shows "am_fenAfter (me_applied e) \<noteq> []" "am_fenBefore (me_applied e) \<noteq> []" "am_san (me_applied e) \<noteq> []"
proof -
  from ev obtain chess chess' applied where
    app: "applyProposal lib chess (ev_move i) (int (length (ev_history i)) + 1) (cj_fen lib chess) = Inr (applied, chess')"
    and e: "e = \<lparr>me_applied = applied, me_gameOver = getGameOver lib chess',
      me_pgn = getPgn lib chess' (getGameOver lib chess')\<rparr>"
    by (rule evaluateMove_InrE)
  from app obtain mv where "cj_move lib chess (ev_move i) = Some (chess', mv)" "am_san applied = mv_san mv"
    "am_fenAfter applied = cj_fen lib chess'" "am_fenBefore applied = cj_fen lib chess"
    by (auto simp: applyProposal_def split: if_splits option.splits)
  with assms(1) show "am_fenAfter (me_applied e) \<noteq> []" "am_fenBefore (me_applied e) \<noteq> []" "am_san (me_applied e) \<noteq> []"
    by (auto simp: chessjs_texts_def e)
qed

lemma movedClock_storable:
  assumes ok: "game_check g" "game_range g" and clock: "movedClock g color t c" "spentMs g t < moverClock g color"
  shows "storable_int (whiteMs c)" "storable_int (blackMs c)"
proof -
  have spent: "0 \<le> spentMs g t" by (simp add: spentMs_def split: option.split)
  have "storable_int (remainingFor c x)" for x
  proof (cases "x = color")
    case True
    with clock spent ok show ?thesis
      by (auto simp: movedClock_def storable_int_def isSafeInteger_def moverClock_def game_check_def
        games_number_check_def game_range_def int4_def split: if_splits)
  next
    case False
    then have "x = oppositeColor color" using color_cases_neq by metis
    with clock(1) ok show ?thesis
      by (auto simp: movedClock_def storable_int_def isSafeInteger_def moverClock_def game_check_def
        games_number_check_def game_range_def int4_def)
  qed
  from this [of White] this [of Black] show "storable_int (whiteMs c)" "storable_int (blackMs c)"
    by (simp_all add: remainingFor_def)
qed

text \<open>Everything a move stores can be read back.\<close>

lemma submission_storable:
  assumes sys: "system_ok db" and g: "find_game db gid = Some g" and ok: "chessjs_ok lib" "chessjs_texts lib"
    and game: "game = \<lparr>pg_game = g, pg_moves = moves_of db gid, pg_players = players_of db gid\<rparr>"
    and ids: "uuidv4 gid" "uuidv4 (sm_clientMoveId input)" "\<forall>p \<in> set (players_of db gid). uuidv4 (p_guest_session_id p)"
    and guards: "moveGuards game color input = None" and adm: "admitMove g color locked = Inr clock"
    and t: "0 \<le> lk_observedAt locked" "time_value (lk_observedAt locked)"
    and ev: "evaluateSubmission lib game color input = Inr ev"
    and sub: "moveSubmission game color input locked clock ev out = Inr sub"
  shows "storable_submission uuidv4 sub"
proof -
  note facts = system_ok_game [OF sys g] and guard = moveGuards_None [OF guards, unfolded game]
    and eval = evaluateSubmission_Inr(1) [OF ev, unfolded game] and applied = evaluateSubmission_applied [OF ev, unfolded game]
  obtain white black where ps: "players_of db gid = [white, black]" using facts(1) by (rule game_inv_two)
  have clock: "movedClock g color (lk_observedAt locked) clock" "spentMs g (lk_observedAt locked) < moverClock g color"
    using admitMove_Inr [OF sys g _ _ refl t(2) adm] guard by simp_all
  note clocks = movedClock_storable [OF facts(2,3) clock]
  have time: "storable_int (lk_observedAt locked)"
    using t by (simp add: storable_int_def time_value_def isSafeInteger_def)
  have version: "0 \<le> g_version g" "int4 (g_version g)" "int (length (moves_of db gid)) \<le> g_version g"
    using facts(1-3) by (simp_all add: game_check_def games_number_check_def game_range_def game_inv_def history_inv_def)
  have stored: "storable_int (g_white_clock_ms g)" "storable_int (g_black_clock_ms g)"
    using stored_durations [OF facts(2,3)] by (simp_all add: duration_def storable_int_def)
  obtain uci: "UCI_PATTERN (am_uci (me_applied ev))" using evaluateMove_replays [OF ok(1) eval] by blast
  note texts = evaluated_texts [OF ok(2) eval]
  have fen: "g_initial_fen g \<noteq> []" if "g_status g = ''READY''"
    using facts(1) that texts(2) applied(2) by (auto simp: game_inv_def status_inv_def history_inv_def)
  have versions: "storable_int (resultVersion g)" "storable_int (startedVersion g)"
    using version by (simp_all add: storable_int_def resultVersion_def startedVersion_def isSafeInteger_def int4_def)
  have ply: "storable_int (am_plyNumber (me_applied ev))" "am_plyNumber (me_applied ev) \<noteq> 0"
    using version applied(1) by (simp_all add: storable_int_def isSafeInteger_def int4_def)
  have "storable_clock (moveClocks color clock locked out)"
    using clocks time by (simp add: storable_clock_def moveClocks_def)
  moreover have "pred_option (storable_started uuidv4) (startedGame g locked)"
    using stored time versions fen ids facts(4) by (simp add: startedGame_def storable_started_def storable_clock_def)
  ultimately show ?thesis
    using sub ids facts(4) versions ply uci texts
    by (cases out)
      (auto simp: moveSubmission_def Let_def game ps storable_submission_def storable_accepted_def acceptedMove_def
        endedGame_def storable_ended_def)
qed

lemma replay_stored:
  assumes "storable_submission uuidv4 sub"
  shows "replayResult uuidv4 (commandRow g input sub) input = Inr (sub\<lparr>ms_duplicate := True\<rparr>)"
  using assms by (simp add: replayResult_def commandRow_def persistedSubmissionSchema_json)

section \<open>Retries\<close>

lemma evolves_player:
  assumes "evolves db db'" and "find_game db gid = Some g" and "p \<in> set (players_of db gid)"
  obtains p' where "p' \<in> set (players_of db' gid)" "p_guest_session_id p' = p_guest_session_id p" "p_color p' = p_color p"
proof -
  from assms(1,2) have "map seat (players_of db' gid) = map seat (players_of db gid)"
    unfolding evolves_def by blast
  with assms(3) have "seat p \<in> set (map seat (players_of db' gid))" by (simp del: set_players_of)
  then obtain p' where "p' \<in> set (players_of db' gid)" "seat p = seat p'" by (auto simp del: set_players_of)
  with that show ?thesis by (auto simp: seat_def)
qed

lemma lockGameClock_found:
  assumes "find_game db gid = Some g" and "\<not> isl (lockGameClock env gid db)"
  obtains locked where "lockGameClock env gid db = Inr (Some locked, db)"
  using assms that by (cases "lockGameClock env gid db") (auto simp: lockGameClock_def sbind_Inr_iff)

text \<open>A call whose response is stored answers with it and writes nothing.\<close>

lemma submitMove_replays:
  assumes sys: "system_ok db" and g: "find_game db (sm_gameId input) = Some g"
    and p: "p \<in> set (players_of db (sm_gameId input))" "p_color p = color_text color"
      "p_guest_session_id p = sm_guestSessionId input"
    and command: "find_command db (sm_gameId input) (sm_clientMoveId input) = Some c"
    and replay: "replayResult uuidv4 c input = Inr sub"
    and calm: "te_fault env = NoFault" "\<not> isl (lockGameClock env (sm_gameId input) db)"
  shows "submitMove lib uuidv4 env input db = (Inr sub, db)"
proof -
  obtain locked where lock: "lockGameClock env (sm_gameId input) db = Inr (Some locked, db)"
    by (rule lockGameClock_found [OF g calm(2)])
  have "findMover \<lparr>pg_game = g, pg_moves = moves_of db (sm_gameId input), pg_players = players_of db (sm_gameId input)\<rparr>
      (sm_guestSessionId input) = Some (p, color)"
    using findMover_player [OF sys p(1,2)] p(3) by simp
  with lock g command replay have "submitInTransaction lib uuidv4 env input db = Inr (move_accepted sub, db)"
    by (simp add: submitInTransaction_def tbind_run_Inr findPersistedGame_def)
  with sys calm(1) show ?thesis by (simp add: submitMove_def run_def system_ok_def db_ok_def)
qed

lemma findReplay_stored:
  assumes "find_command db (sm_gameId input) (sm_clientMoveId input) = Some c" "replayResult uuidv4 c input = Inr sub"
    and "findReplay uuidv4 env input db = Inr (Some s)"
  shows "s = sub"
  using assms by (auto simp: findReplay_def split: option.splits)

text \<open>
  C3. Submitting a move is idempotent across lost answers: if a call has changed
  the database, then however it was answered (accepted, or with an error because
  the connection was lost after the commit), and whatever calls were made since,
  repeating it returns the submission that was stored, marked as a duplicate,
  and changes nothing. An answer the first call did give has the same content.
\<close>

theorem submitMove_retry:
  assumes "reachable lib uuidv4 db" and "chessjs_ok lib" and "chessjs_texts lib"
    and "uuidv4 (sm_gameId input)" and "uuidv4 (sm_clientMoveId input)"
    and "\<forall>p \<in> set (players_of db (sm_gameId input)). uuidv4 (p_guest_session_id p)"
    and "0 \<le> te_observedAt env" and "time_value (te_observedAt env)"
    and "submitMove lib uuidv4 env input db = (r, db')" and "db' \<noteq> db"
    and "later = performs lib uuidv4 ops db'"
    and "te_fault env' = NoFault" and "\<not> isl (lockGameClock env' (sm_gameId input) later)"
  shows "\<exists>sub. submitMove lib uuidv4 env' input later = (Inr (sub\<lparr>ms_duplicate := True\<rparr>), later) \<and>
    (r = Inr sub \<or> r = Inr (sub\<lparr>ms_duplicate := True\<rparr>) \<or> (\<exists>e. r = Inl e \<and> te_fault env \<noteq> NoFault))"
proof -
  note sys = reachable_system [OF assms(1)]
  let ?gid = "sm_gameId input"
  from sys assms(9,10) obtain g locked player color clock ev out sub game where
    g: "find_game db ?gid = Some g" and lock: "lockGameClock env ?gid db = Inr (Some locked, db)"
    and game: "game = \<lparr>pg_game = g, pg_moves = moves_of db ?gid, pg_players = players_of db ?gid\<rparr>"
    and mover: "findMover game (sm_guestSessionId input) = Some (player, color)"
    and fresh: "find_command db ?gid (sm_clientMoveId input) = None"
    and guards: "moveGuards game color input = None" and adm: "admitMove g color locked = Inr clock"
    and ev: "evaluateSubmission lib game color input = Inr ev" and out: "boardOutcome ev = Inr out"
    and sub: "moveSubmission game color input locked clock ev out = Inr sub"
    and db': "db' = movedDb (movedRow env color locked clock ev out g) (moveRow g color input locked (me_applied ev)) out
       (commandRow g input sub) db"
    and tx: "submitInTransaction lib uuidv4 env input db = Inr (move_accepted sub, db')" "commit_ok db'"
    by (rule submitMove_played)
  have t: "lk_observedAt locked = te_observedAt env" using lock g by (auto elim: lockGameClock_Some)
  have stored: "storable_submission uuidv4 sub"
    using assms(7,8) t by (intro submission_storable [OF sys g assms(2,3) game assms(4,5,6) guards adm _ _ ev sub]) simp_all
  note replay = replay_stored [OF stored, of g input]
  have gid: "g_id g = ?gid" using g by (rule find_gameD)
  have cmd: "find_command db' ?gid (sm_clientMoveId input) = Some (commandRow g input sub)"
    using fresh gid by (simp add: db' find_command_def find_row_append commandRow_def)
  have sys': "system_ok db' \<and> evolves db db'"
    using perform_system [OF sys, of lib uuidv4 env "op_submitMove input"] assms(9) by simp
  have late: "system_ok later \<and> evolves db' later" using performs_system sys' assms(11) by blast
  with sys' have ev': "evolves db later" using evolves_trans by blast
  obtain g' where g': "find_game later ?gid = Some g'" using ev' g unfolding evolves_def by blast
  note who = findMover_Some [OF mover, unfolded game]
  obtain p' where p': "p' \<in> set (players_of later ?gid)" "p_guest_session_id p' = sm_guestSessionId input"
    "p_color p' = color_text color"
    using evolves_player [OF ev' g, of player] who by auto
  have cmd': "find_command later ?gid (sm_clientMoveId input) = Some (commandRow g input sub)"
    using late cmd unfolding evolves_def by blast
  have "submitMove lib uuidv4 env' input later = (Inr (sub\<lparr>ms_duplicate := True\<rparr>), later)"
    using late by (intro submitMove_replays [OF _ g' p'(1,3,2) cmd' replay assms(12,13)]) simp
  moreover have "r = Inr sub \<or> r = Inr (sub\<lparr>ms_duplicate := True\<rparr>) \<or> (\<exists>e. r = Inl e \<and> te_fault env \<noteq> NoFault)"
    using assms(9) tx cmd findReplay_stored [OF cmd replay, of env]
    by (cases "te_fault env") (auto simp: submitMove_def run_def split: if_splits sum.splits option.splits)
  ultimately show ?thesis by blast
qed

theorem submitMove_retry_witness:
  "\<exists>sub. submitMove sample_lib sample_uuid (sample_env 20000 sample_moved) sample_first_move
      (performs sample_lib sample_uuid [(sample_env 12000 sample_moved, op_submitMove sample_second_move)] sample_moved) =
    (Inr (sub\<lparr>ms_duplicate := True\<rparr>),
     performs sample_lib sample_uuid [(sample_env 12000 sample_moved, op_submitMove sample_second_move)] sample_moved)"
proof -
  let ?later = "performs sample_lib sample_uuid [(sample_env 12000 sample_moved, op_submitMove sample_second_move)] sample_moved"
  have texts: "chessjs_texts sample_lib"
    by (auto simp: chessjs_texts_def sample_lib_def sample_move_def split: if_splits)
  have h: "sample_uuid (sm_gameId sample_first_move)" "sample_uuid (sm_clientMoveId sample_first_move)"
    "\<forall>p \<in> set (players_of sample_playing (sm_gameId sample_first_move)). sample_uuid (p_guest_session_id p)"
    "0 \<le> te_observedAt (sample_env 9000 sample_playing)"
    by code_simp+
  have t: "time_value (te_observedAt (sample_env 9000 sample_playing))" by (simp add: time_value_def sample_env_def)
  have k: "sample_moved \<noteq> sample_playing" "te_fault (sample_env 20000 sample_moved) = NoFault"
    "\<not> isl (lockGameClock (sample_env 20000 sample_moved) (sm_gameId sample_first_move) ?later)"
    by code_simp+
  from submitMove_retry [OF sample_reachable(5) sample_lib_ok texts h t sample_submit_first k(1) refl k(2,3)]
  show ?thesis by blast
qed

end
