(* ===== verification/Game_State_Machine.thy ===== *)
theory Game_State_Machine
  imports Terminal_Result
begin

text \<open>
  The lifecycle state machine, \<open>src/src/modules/game/domain/game-state-machine.ts\<close>:
  the transition table, the validation of the terminal outcome a transition
  carries, and \<open>transitionGame\<close>. \<open>game_step\<close> is the step relation of the
  machine and \<open>transitions\<close> runs a sequence of transitions.
\<close>

section \<open>Data\<close>

datatype GameTransition =
    ABANDON | ACCEPT_MOVE | ACCEPT_TERMINAL_MOVE | ALLOCATE | EXPIRE_NO_SHOW
  | MARK_PLAYERS_READY | PLAYER_DISCONNECTED | PLAYER_RECONNECTED | RESIGN | START | TIMEOUT_MOVE

text \<open>\<open>TIMEOUT_MOVE\<close> is the transition the source calls \<open>'TIMEOUT'\<close>.\<close>

primrec transition_text :: "GameTransition \<Rightarrow> string" where
  "transition_text ABANDON = ''ABANDON''"
| "transition_text ACCEPT_MOVE = ''ACCEPT_MOVE''"
| "transition_text ACCEPT_TERMINAL_MOVE = ''ACCEPT_TERMINAL_MOVE''"
| "transition_text ALLOCATE = ''ALLOCATE''"
| "transition_text EXPIRE_NO_SHOW = ''EXPIRE_NO_SHOW''"
| "transition_text MARK_PLAYERS_READY = ''MARK_PLAYERS_READY''"
| "transition_text PLAYER_DISCONNECTED = ''PLAYER_DISCONNECTED''"
| "transition_text PLAYER_RECONNECTED = ''PLAYER_RECONNECTED''"
| "transition_text RESIGN = ''RESIGN''"
| "transition_text START = ''START''"
| "transition_text TIMEOUT_MOVE = ''TIMEOUT''"

record GameTransitionInput =
  ti_outcome :: "TerminalOutcome option"
  ti_status :: GameStatus
  ti_transition :: GameTransition
  ti_version :: int

record GameTransitionResult =
  tr_outcome :: "TerminalOutcome option"
  tr_previousStatus :: GameStatus
  tr_previousVersion :: int
  tr_status :: GameStatus
  tr_version :: int

record TransitionRule =
  rule_from :: "GameStatus list"
  rule_outcomeStatus :: "GameStatus option"
  rule_to :: GameStatus
  rule_versionDelta :: int

primrec TRANSITION_RULES :: "GameTransition \<Rightarrow> TransitionRule" where
  "TRANSITION_RULES ABANDON =
     \<lparr>rule_from = [IN_PROGRESS, RECONNECTING], rule_outcomeStatus = Some ABANDONED,
      rule_to = ABANDONED, rule_versionDelta = 1\<rparr>"
| "TRANSITION_RULES ACCEPT_MOVE =
     \<lparr>rule_from = [IN_PROGRESS], rule_outcomeStatus = None,
      rule_to = IN_PROGRESS, rule_versionDelta = 1\<rparr>"
| "TRANSITION_RULES ACCEPT_TERMINAL_MOVE =
     \<lparr>rule_from = [IN_PROGRESS], rule_outcomeStatus = Some COMPLETED,
      rule_to = COMPLETED, rule_versionDelta = 1\<rparr>"
| "TRANSITION_RULES ALLOCATE =
     \<lparr>rule_from = [CREATED], rule_outcomeStatus = None,
      rule_to = WAITING_FOR_PLAYERS, rule_versionDelta = 0\<rparr>"
| "TRANSITION_RULES EXPIRE_NO_SHOW =
     \<lparr>rule_from = [WAITING_FOR_PLAYERS], rule_outcomeStatus = Some EXPIRED,
      rule_to = EXPIRED, rule_versionDelta = 1\<rparr>"
| "TRANSITION_RULES MARK_PLAYERS_READY =
     \<lparr>rule_from = [WAITING_FOR_PLAYERS], rule_outcomeStatus = None,
      rule_to = READY, rule_versionDelta = 1\<rparr>"
| "TRANSITION_RULES PLAYER_DISCONNECTED =
     \<lparr>rule_from = [IN_PROGRESS, RECONNECTING], rule_outcomeStatus = None,
      rule_to = RECONNECTING, rule_versionDelta = 1\<rparr>"
| "TRANSITION_RULES PLAYER_RECONNECTED =
     \<lparr>rule_from = [RECONNECTING], rule_outcomeStatus = None,
      rule_to = IN_PROGRESS, rule_versionDelta = 1\<rparr>"
| "TRANSITION_RULES RESIGN =
     \<lparr>rule_from = [IN_PROGRESS, RECONNECTING], rule_outcomeStatus = Some COMPLETED,
      rule_to = COMPLETED, rule_versionDelta = 1\<rparr>"
| "TRANSITION_RULES START =
     \<lparr>rule_from = [READY], rule_outcomeStatus = None,
      rule_to = IN_PROGRESS, rule_versionDelta = 1\<rparr>"
| "TRANSITION_RULES TIMEOUT_MOVE =
     \<lparr>rule_from = [IN_PROGRESS, RECONNECTING], rule_outcomeStatus = Some COMPLETED,
      rule_to = COMPLETED, rule_versionDelta = 1\<rparr>"

section \<open>The transition function\<close>

definition validTermination :: "GameTransition \<Rightarrow> GameTermination \<Rightarrow> bool" where
  "validTermination transition t \<longleftrightarrow>
     transition = ACCEPT_TERMINAL_MOVE \<and>
       t \<in> {Board checkmate, Board fifty_move, Board insufficient_material, Board stalemate,
            Board threefold_repetition} \<or>
     transition = RESIGN \<and> t = resignation \<or>
     transition = TIMEOUT_MOVE \<and> t = timeout \<or>
     transition = EXPIRE_NO_SHOW \<and> t = no_show \<or>
     transition = ABANDON \<and> t \<in> {abandonment, double_abandon}"

definition validateOutcome ::
    "TerminalOutcome option \<Rightarrow> TransitionRule \<Rightarrow> GameTransition \<Rightarrow> GameDomainError + unit" where
  "validateOutcome outcome rule transition =
     (case rule_outcomeStatus rule of
        None \<Rightarrow> throw_if (outcome \<noteq> None)
          (GameDomainError INVALID_GAME_STATE
             (transition_text transition @ '' cannot carry a terminal outcome.''))
      | Some required \<Rightarrow>
          (case outcome of
             None \<Rightarrow> Inl (GameDomainError INVALID_GAME_STATE
               (transition_text transition @ '' requires a '' @ status_text required @
                '' terminal outcome.''))
           | Some out \<Rightarrow>
               sbind (throw_if (to_status out \<noteq> required)
                 (GameDomainError INVALID_GAME_STATE
                    (transition_text transition @ '' requires a '' @ status_text required @
                     '' terminal outcome.''))) (\<lambda>_.
               throw_if (\<not> validTermination transition (to_termination out))
                 (GameDomainError INVALID_GAME_STATE
                    (transition_text transition @ '' received an incompatible terminal outcome.'')))))"

definition transitionGame :: "GameTransitionInput \<Rightarrow> GameDomainError + GameTransitionResult" where
  "transitionGame input =
     (let rule = TRANSITION_RULES (ti_transition input) in
      sbind (throw_if (\<not> isSafeInteger (ti_version input) \<or> ti_version input < 0)
        (GameDomainError INVALID_GAME_STATE ''A game version must be a non-negative safe integer.'')) (\<lambda>_.
      sbind (throw_if (ti_status input \<notin> set (rule_from rule))
        (GameDomainError ILLEGAL_GAME_TRANSITION
           (transition_text (ti_transition input) @ '' is not allowed from '' @
            status_text (ti_status input) @ ''.''))) (\<lambda>_.
      sbind (validateOutcome (ti_outcome input) rule (ti_transition input)) (\<lambda>_.
      let version = ti_version input + rule_versionDelta rule in
      sbind (throw_if (\<not> isSafeInteger version)
        (GameDomainError INVALID_GAME_STATE
           ''The resulting game version is outside the safe integer range.'')) (\<lambda>_.
      Inr \<lparr>tr_outcome = ti_outcome input, tr_previousStatus = ti_status input,
           tr_previousVersion = ti_version input, tr_status = rule_to rule, tr_version = version\<rparr>)))))"

section \<open>Steps and runs\<close>

definition terminal :: "GameStatus \<Rightarrow> bool" where
  "terminal s \<longleftrightarrow> s \<in> {COMPLETED, ABANDONED, EXPIRED}"

inductive game_step ::
    "GameStatus \<times> int \<Rightarrow> GameTransition \<Rightarrow> TerminalOutcome option \<Rightarrow> GameStatus \<times> int \<Rightarrow> bool" where
  step: "transitionGame \<lparr>ti_outcome = out, ti_status = s, ti_transition = tr, ti_version = v\<rparr> = Inr res \<Longrightarrow>
     game_step (s, v) tr out (tr_status res, tr_version res)"

inductive_simps game_step_iff: "game_step (s, v) tr out q"

fun transitions ::
    "GameStatus \<times> int \<Rightarrow> (GameTransition \<times> TerminalOutcome option) list \<Rightarrow>
     GameDomainError + GameStatus \<times> int" where
  "transitions (s, v) [] = Inr (s, v)"
| "transitions (s, v) ((tr, out) # rest) =
     (case transitionGame \<lparr>ti_outcome = out, ti_status = s, ti_transition = tr, ti_version = v\<rparr> of
        Inl e \<Rightarrow> Inl e
      | Inr res \<Rightarrow> transitions (tr_status res, tr_version res) rest)"

text \<open>The transition the code performs for a terminal event.\<close>

primrec event_transition :: "TerminalEvent \<Rightarrow> GameTransition" where
  "event_transition (BOARD r w) = ACCEPT_TERMINAL_MOVE"
| "event_transition (RESIGNATION l) = RESIGN"
| "event_transition (TerminalEvent.TIMEOUT l) = TIMEOUT_MOVE"
| "event_transition (ABANDONMENT cs) = ABANDON"
| "event_transition (NO_SHOW cs) = EXPIRE_NO_SHOW"

lemma validateOutcome_iff:
  "validateOutcome outcome (TRANSITION_RULES tr) tr = Inr u \<longleftrightarrow>
     (case rule_outcomeStatus (TRANSITION_RULES tr) of
        None \<Rightarrow> outcome = None
      | Some required \<Rightarrow>
          (\<exists>out. outcome = Some out \<and> to_status out = required \<and> validTermination tr (to_termination out)))"
  by (auto simp: validateOutcome_def sbind_Inr_iff split: option.splits)

text \<open>When a transition is accepted, and what it then returns.\<close>

definition outcome_fits :: "GameTransition \<Rightarrow> TerminalOutcome option \<Rightarrow> bool" where
  "outcome_fits tr outcome \<longleftrightarrow>
     (case rule_outcomeStatus (TRANSITION_RULES tr) of
        None \<Rightarrow> outcome = None
      | Some required \<Rightarrow>
          (case outcome of
             None \<Rightarrow> False
           | Some out \<Rightarrow> to_status out = required \<and> validTermination tr (to_termination out)))"

lemma transitionGame_accepts:
  assumes "isSafeInteger v" "0 \<le> v" "s \<in> set (rule_from (TRANSITION_RULES tr))"
    and "outcome_fits tr out" and "isSafeInteger (v + rule_versionDelta (TRANSITION_RULES tr))"
  shows "transitionGame \<lparr>ti_outcome = out, ti_status = s, ti_transition = tr, ti_version = v\<rparr> =
    Inr \<lparr>tr_outcome = out, tr_previousStatus = s, tr_previousVersion = v,
         tr_status = rule_to (TRANSITION_RULES tr),
         tr_version = v + rule_versionDelta (TRANSITION_RULES tr)\<rparr>"
proof -
  have "validateOutcome out (TRANSITION_RULES tr) tr = Inr ()"
    using assms(4) by (auto simp: validateOutcome_iff outcome_fits_def split: option.splits)
  with assms show ?thesis by (simp add: transitionGame_def Let_def)
qed

lemma game_step_alt:
  "game_step (s, v) tr out q \<longleftrightarrow>
     isSafeInteger v \<and> 0 \<le> v \<and> s \<in> set (rule_from (TRANSITION_RULES tr)) \<and>
     validateOutcome out (TRANSITION_RULES tr) tr = Inr () \<and>
     isSafeInteger (v + rule_versionDelta (TRANSITION_RULES tr)) \<and>
     q = (rule_to (TRANSITION_RULES tr), v + rule_versionDelta (TRANSITION_RULES tr))"
  by (auto simp: game_step_iff transitionGame_def Let_def sbind_Inr_iff)

lemma transitions_Cons_iff:
  "transitions (s, v) ((tr, out) # rest) = Inr q \<longleftrightarrow>
     (\<exists>p. game_step (s, v) tr out p \<and> transitions p rest = Inr q)"
  by (auto simp: game_step_iff split: sum.splits)

lemma rule_from_not_terminal: "s \<in> set (rule_from (TRANSITION_RULES tr)) \<Longrightarrow> \<not> terminal s"
  by (cases tr) (auto simp: terminal_def)

lemma rule_to_terminal_iff:
  "terminal (rule_to (TRANSITION_RULES tr)) \<longleftrightarrow> rule_outcomeStatus (TRANSITION_RULES tr) \<noteq> None"
  by (cases tr) (auto simp: terminal_def)

lemma game_step_outcome_iff:
  "game_step (s, v) tr out (s', v') \<Longrightarrow> terminal s' \<longleftrightarrow> out \<noteq> None"
  by (auto simp: game_step_alt validateOutcome_iff rule_to_terminal_iff split: option.splits)

lemma game_step_not_terminal: "game_step (s, v) tr out q \<Longrightarrow> \<not> terminal s"
  by (auto simp: game_step_alt dest: rule_from_not_terminal)

lemma transitions_terminal:
  "terminal s \<Longrightarrow> transitions (s, v) trs = Inr q \<Longrightarrow> trs = []"
  by (cases trs) (auto simp: transitions_Cons_iff simp del: transitions.simps
    dest: game_step_not_terminal)

lemma game_step_version:
  "game_step (s, v) tr out (s', v') \<Longrightarrow> v' = v + (if tr = ALLOCATE then 0 else 1)"
  by (cases tr) (auto simp: game_step_alt)

lemma transitions_version:
  "transitions (s, v) trs = Inr (s', v') \<Longrightarrow>
     v' = v + int (length (filter (\<lambda>(tr, _). tr \<noteq> ALLOCATE) trs))"
proof (induction trs arbitrary: s v)
  case (Cons x trs)
  obtain tr out where x: "x = (tr, out)" by (cases x)
  from Cons.prems obtain s1 v1 where "game_step (s, v) tr out (s1, v1)"
    and "transitions (s1, v1) trs = Inr (s', v')"
    unfolding x transitions_Cons_iff by auto
  with Cons.IH [of s1 v1] game_step_version [of s v tr out s1 v1] show ?case
    by (auto simp: x)
qed simp

lemma transitions_outcomes:
  "transitions (s, v) trs = Inr (s', v') \<Longrightarrow> \<not> terminal s \<Longrightarrow>
     (if terminal s' then \<exists>xs tr out. trs = xs @ [(tr, Some out)] \<and> (\<forall>x \<in> set xs. snd x = None)
      else \<forall>x \<in> set trs. snd x = None)"
proof (induction trs arbitrary: s v)
  case (Cons x trs)
  obtain tr out where x: "x = (tr, out)" by (cases x)
  from Cons.prems obtain s1 v1 where step: "game_step (s, v) tr out (s1, v1)"
    and rest: "transitions (s1, v1) trs = Inr (s', v')"
    unfolding x transitions_Cons_iff by auto
  show ?case
  proof (cases "terminal s1")
    case True
    with rest have "trs = []" by (rule transitions_terminal [rotated])
    moreover from this rest have "s' = s1" by simp
    ultimately have "trs = []" "s' = s1" by simp_all
    with True game_step_outcome_iff [OF step] show ?thesis by (auto simp: x)
  next
    case False
    with game_step_outcome_iff [OF step] have "out = None" by simp
    with Cons.IH [OF rest False] show ?thesis
      by (auto simp: x Cons_eq_append_conv)
  qed
qed simp

lemma event_rule:
  "rule_outcomeStatus (TRANSITION_RULES (event_transition event)) =
     Some (rule_to (TRANSITION_RULES (event_transition event)))"
  "rule_versionDelta (TRANSITION_RULES (event_transition event)) = 1"
  by (cases event; simp)+

lemma event_outcome:
  assumes "deriveTerminalOutcome event = Inr out"
  shows "to_status out = rule_to (TRANSITION_RULES (event_transition event)) \<and>
    validTermination (event_transition event) (to_termination out)"
proof (cases event)
  case (BOARD r w)
  with assms show ?thesis
    by (cases r) (auto simp: validTermination_def deriveBoardOutcome_def
      winnerOutcome_def split: option.splits if_splits)
next
  case (ABANDONMENT cs)
  with assms show ?thesis
    by (auto simp: validTermination_def deriveAbandonment_cases winnerOutcome_def split: if_splits)
next
  case (NO_SHOW cs)
  with assms show ?thesis
    by (auto simp: validTermination_def deriveNoShow_cases winnerOutcome_def split: if_splits)
qed (use assms in \<open>auto simp: validTermination_def winnerOutcome_def\<close>)

lemma event_outcome_valid:
  assumes "deriveTerminalOutcome event = Inr out"
  shows "validateOutcome (Some out) (TRANSITION_RULES (event_transition event)) (event_transition event) = Inr ()"
  using event_outcome [OF assms] by (simp add: validateOutcome_iff event_rule)

section \<open>Properties\<close>

text \<open>
  A game has at most one terminal outcome and it ends the game: in any
  sequence of transitions the machine accepts from a non-terminal status, only
  the last transition can carry an outcome, and it carries one exactly if the
  sequence ends in a terminal status. The version has then grown by one for
  every transition other than the allocation.
\<close>

theorem transitions_single_outcome:
  assumes "transitions (s, v) trs = Inr (s', v')" and "\<not> terminal s"
  shows "v' = v + int (length (filter (\<lambda>(tr, _). tr \<noteq> ALLOCATE) trs)) \<and>
    (if terminal s' then \<exists>xs tr out. trs = xs @ [(tr, Some out)] \<and> (\<forall>x \<in> set xs. snd x = None)
     else \<forall>x \<in> set trs. snd x = None)"
  using transitions_version [OF assms(1)] transitions_outcomes [OF assms] by blast

theorem transitions_single_outcome_witness:
  "let trs = [(ALLOCATE, None), (MARK_PLAYERS_READY, None), (START, None), (ACCEPT_MOVE, None),
              (RESIGN, Some (winnerOutcome Black COMPLETED resignation))]
   in transitions (CREATED, 0) trs = Inr (COMPLETED, 4) \<and>
      (4::int) = 0 + int (length (filter (\<lambda>(tr, _). tr \<noteq> ALLOCATE) trs))"
proof -
  let ?trs = "[(ALLOCATE, None), (MARK_PLAYERS_READY, None), (START, None), (ACCEPT_MOVE, None),
    (RESIGN, Some (winnerOutcome Black COMPLETED resignation))]"
  have run: "transitions (CREATED, 0) ?trs = Inr (COMPLETED, 4)"
    by (simp add: transitionGame_accepts outcome_fits_def validTermination_def winnerOutcome_def
      isSafeInteger_def)
  from transitions_single_outcome [OF run] have
    "(4::int) = 0 + int (length (filter (\<lambda>(tr, _). tr \<noteq> ALLOCATE) ?trs))"
    by (simp add: terminal_def)
  with run show ?thesis unfolding Let_def by (rule conjI)
qed

text \<open>
  The two halves of the domain fit together: every outcome that
  \<open>deriveTerminalOutcome\<close> produces for an event is accepted by
  \<open>transitionGame\<close> for the transition of that event from every status the
  table allows, moves the game to the outcome's own status and raises the
  version by one.
\<close>

theorem derived_outcome_accepted:
  assumes "deriveTerminalOutcome event = Inr out"
    and "s \<in> set (rule_from (TRANSITION_RULES (event_transition event)))"
    and "0 \<le> v" and "isSafeInteger (v + 1)"
  shows "transitionGame \<lparr>ti_outcome = Some out, ti_status = s, ti_transition = event_transition event,
      ti_version = v\<rparr> =
    Inr \<lparr>tr_outcome = Some out, tr_previousStatus = s, tr_previousVersion = v,
         tr_status = to_status out, tr_version = v + 1\<rparr>"
proof -
  let ?rule = "TRANSITION_RULES (event_transition event)"
  note valid = event_outcome_valid [OF assms(1)]
  have "rule_to ?rule = to_status out" "rule_versionDelta ?rule = 1"
    using event_outcome [OF assms(1)] by (simp_all add: event_rule)
  moreover have "isSafeInteger v" using assms(3,4) by (simp add: isSafeInteger_def)
  ultimately show ?thesis
    using assms(2-4) valid by (simp add: transitionGame_def Let_def)
qed

theorem derived_outcome_accepted_witness:
  "transitionGame \<lparr>ti_outcome = Some (winnerOutcome White COMPLETED timeout), ti_status = RECONNECTING,
      ti_transition = TIMEOUT_MOVE, ti_version = 7\<rparr> =
   Inr \<lparr>tr_outcome = Some (winnerOutcome White COMPLETED timeout), tr_previousStatus = RECONNECTING,
        tr_previousVersion = 7, tr_status = COMPLETED, tr_version = 8\<rparr>"
  using derived_outcome_accepted [of "TerminalEvent.TIMEOUT Black" _ RECONNECTING 7]
  by (simp add: isSafeInteger_def winnerOutcome_def)

text \<open>
  No status is a dead end before the end of the game, and the end is final:
  from every non-terminal status some sequence of transitions reaches a terminal
  one, and from a terminal status every transition is refused as
  \<open>ILLEGAL_GAME_TRANSITION\<close>, whatever outcome it carries.
\<close>

theorem transitions_reach_end:
  assumes "0 \<le> v" and "isSafeInteger (v + 3)"
  shows "(\<not> terminal s \<longrightarrow> (\<exists>trs s' v'. transitions (s, v) trs = Inr (s', v') \<and> terminal s')) \<and>
    (terminal s \<longrightarrow> (\<forall>tr out. \<exists>m. transitionGame \<lparr>ti_outcome = out, ti_status = s, ti_transition = tr,
        ti_version = v\<rparr> = Inl (GameDomainError ILLEGAL_GAME_TRANSITION m)))"
proof (intro conjI impI)
  have safe: "isSafeInteger v" "isSafeInteger (v + 1)" "isSafeInteger (v + 1 + 1)"
    using assms by (simp_all add: isSafeInteger_def)
  let ?resign = "(RESIGN, Some (winnerOutcome White COMPLETED resignation))"
  let ?expire = "(EXPIRE_NO_SHOW, Some (winnerOutcome White EXPIRED no_show))"
  assume "\<not> terminal s"
  then have "\<exists>s' v'. transitions (s, v) (case s of
      CREATED \<Rightarrow> [(ALLOCATE, None), ?expire] | WAITING_FOR_PLAYERS \<Rightarrow> [?expire]
    | READY \<Rightarrow> [(START, None), ?resign] | _ \<Rightarrow> [?resign]) = Inr (s', v') \<and> terminal s'"
    using assms(1) safe
    by (cases s) (simp_all add: transitionGame_accepts outcome_fits_def validTermination_def
      winnerOutcome_def terminal_def)
  then show "\<exists>trs s' v'. transitions (s, v) trs = Inr (s', v') \<and> terminal s'" by blast
next
  have safe: "isSafeInteger v" using assms by (simp add: isSafeInteger_def)
  assume end_of_game: "terminal s"
  show "\<forall>tr out. \<exists>m. transitionGame \<lparr>ti_outcome = out, ti_status = s, ti_transition = tr,
      ti_version = v\<rparr> = Inl (GameDomainError ILLEGAL_GAME_TRANSITION m)"
  proof (intro allI)
    fix tr out
    have "s \<notin> set (rule_from (TRANSITION_RULES tr))"
      using end_of_game rule_from_not_terminal by blast
    with safe assms(1) show "\<exists>m. transitionGame \<lparr>ti_outcome = out, ti_status = s, ti_transition = tr,
      ti_version = v\<rparr> = Inl (GameDomainError ILLEGAL_GAME_TRANSITION m)"
      by (simp add: transitionGame_def Let_def)
  qed
qed

theorem transitions_reach_end_witness:
  "(\<exists>trs s' v'. transitions (READY, 3) trs = Inr (s', v') \<and> terminal s') \<and>
   (\<exists>m. transitionGame \<lparr>ti_outcome = None, ti_status = EXPIRED, ti_transition = START, ti_version = 3\<rparr> =
      Inl (GameDomainError ILLEGAL_GAME_TRANSITION m))"
  using transitions_reach_end [of 3 READY] transitions_reach_end [of 3 EXPIRED]
  by (simp add: isSafeInteger_def terminal_def)

end
