(* ===== verification/Status_Refinement.thy ===== *)
theory Status_Refinement
  imports Move_Properties Sample_Game Game_State_Machine
begin

text \<open>
  The repositories write statuses and versions directly; the domain describes
  the same changes with \<open>transitionGame\<close>. This theory connects the two:
  \<open>machine_steps\<close> relates two rows of the games table by a run of the machine,
  the locale \<open>machine_transaction\<close> is the contract of a transaction that
  changes games by such runs only, and it is interpreted for every operation of
  the repositories but the reset of a session.
\<close>

section \<open>Rows and states of the machine\<close>

definition machine_steps :: "GameTransition list list \<Rightarrow> game_row \<Rightarrow> game_row \<Rightarrow> bool" where
  "machine_steps T g g' \<longleftrightarrow>
     (\<exists>trs s s'. g_status g = status_text s \<and> g_status g' = status_text s' \<and> map fst trs \<in> set T \<and>
        transitions (s, g_version g) trs = Inr (s', g_version g'))"

lemma stored_version:
  assumes "game_check g" and "game_range g"
  shows "0 \<le> g_version g" "isSafeInteger (g_version g)" "isSafeInteger (g_version g + 1)" "isSafeInteger (g_version g + 2)"
  using assms by (auto simp: game_check_def games_number_check_def game_range_def int4_def isSafeInteger_def)

lemma one_machine_step:
  assumes ok: "game_check g" "game_range g" and s: "g_status g = status_text s"
    and rule: "s \<in> set (rule_from (TRANSITION_RULES tr))" "outcome_fits tr out" "rule_versionDelta (TRANSITION_RULES tr) = 1"
    and g': "g_status g' = status_text (rule_to (TRANSITION_RULES tr))" "g_version g' = g_version g + 1"
    and T: "[tr] \<in> set T"
  shows "machine_steps T g g'"
proof -
  have "transitions (s, g_version g) [(tr, out)] = Inr (rule_to (TRANSITION_RULES tr), g_version g')"
    using stored_version [OF ok] rule g' by (simp add: transitionGame_accepts)
  moreover have "map fst [(tr, out)] \<in> set T" using T by simp
  ultimately show ?thesis using s g' unfolding machine_steps_def by blast
qed

lemma ended_machine_step:
  assumes ok: "game_check g" "game_range g" and out: "deriveTerminalOutcome event = Inr out"
    and s: "g_status g = status_text s" "s \<in> set (rule_from (TRANSITION_RULES (event_transition event)))"
  shows "machine_steps [[event_transition event]] g (endedRow env locked out g)"
proof -
  have "outcome_fits (event_transition event) (Some out)"
    using event_outcome [OF out] by (simp add: outcome_fits_def event_rule)
  with event_outcome [OF out] show ?thesis
    by (intro one_machine_step [OF ok s, of "Some out"]) (simp_all add: event_rule)
qed

lemma clock_text_status:
  assumes "clock_text t"
  obtains s where "t = status_text s" "s \<in> {IN_PROGRESS, RECONNECTING}"
  using assms that [of IN_PROGRESS] that [of RECONNECTING] by (auto simp: clock_text_def)

lemma terminal_text_status [simp]: "terminal_text (status_text s) \<longleftrightarrow> terminal s"
  by (cases s) (simp_all add: terminal_text_def terminal_def)

section \<open>Bodies that follow the machine\<close>

definition follows_machine :: "GameTransition list list \<Rightarrow> 'a tx \<Rightarrow> bool" where
  "follows_machine T m \<longleftrightarrow>
     (\<forall>db r db' gid g g'. system_ok db \<longrightarrow> m db = Inr (r, db') \<longrightarrow> find_game db gid = Some g \<longrightarrow>
        find_game db' gid = Some g' \<longrightarrow> g' \<noteq> g \<longrightarrow> machine_steps T g g')"

locale machine_transaction = game_transaction +
  fixes T :: "GameTransition list list"
  assumes follows: "follows_machine T (body i)"
begin

lemma run_follows:
  assumes "system_ok db" and "find_game db gid = Some g"
    and "find_game (snd (run fault (body i) db)) gid = Some g'" and "g' \<noteq> g"
  shows "machine_steps T g g'"
proof -
  from assms(2-4) have "snd (run fault (body i) db) \<noteq> db" by auto
  with run_atomic [of fault i db] obtain a where "body i db = Inr (a, snd (run fault (body i) db))" by blast
  with follows assms show ?thesis unfolding follows_machine_def by blast
qed

end

lemma follows_change:
  assumes "\<And>x. find_game db' x = (if x = gid then Some g1 else find_game db x)" and "machine_steps T g g1"
    and "find_game db gid = Some g"
    and "find_game db x = Some r" "find_game db' x = Some r'" "r' \<noteq> r"
  shows "machine_steps T r r'"
  using assms by (auto split: if_splits)

lemma follows_withLockedGame:
  assumes "\<And>db g locked r db'. system_ok db \<Longrightarrow> find_game db gid = Some g \<Longrightarrow>
      lockGameClock env gid db = Inr (Some locked, db) \<Longrightarrow> lk_status locked = g_status g \<Longrightarrow> proceed locked \<Longrightarrow>
      work locked \<lparr>pg_game = g, pg_moves = [], pg_players = players_of db gid\<rparr> db = Inr (r, db') \<Longrightarrow> games db' \<noteq> games db \<Longrightarrow>
      \<exists>g1. machine_steps T g g1 \<and> (\<forall>x. find_game db' x = (if x = gid then Some g1 else find_game db x))"
  shows "follows_machine T (withLockedGame env gid proceed work)"
  unfolding follows_machine_def
proof (intro allI impI)
  fix db r db' x g g'
  assume sys: "system_ok db" and run: "withLockedGame env gid proceed work db = Inr (r, db')"
    and g: "find_game db x = Some g" "find_game db' x = Some g'" "g' \<noteq> g"
  have changed: "games db' \<noteq> games db" using g by (auto simp: find_game_def)
  from run show "machine_steps T g g'"
  proof (cases rule: withLockedGame_cases)
    case 1
    with changed show ?thesis by simp
  next
    case (2 g0 locked)
    from assms [OF sys 2 changed] obtain g1 where "machine_steps T g0 g1"
      and "\<And>x. find_game db' x = (if x = gid then Some g1 else find_game db x)" by blast
    with 2(1) g show ?thesis by (intro follows_change [of db' gid g1 db _ g0 x g g'])
  qed
qed

lemma follows_withAssignedGame:
  assumes "\<And>gid. follows_machine T (withLockedGame env gid (\<lambda>_. True) work)"
  shows "follows_machine T (withAssignedGame env guest work)"
proof (cases "find_assignment (te_earlier env) guest")
  case None
  then show ?thesis by (auto simp: withAssignedGame_def follows_machine_def)
next
  case (Some a)
  with assms show ?thesis by (simp add: withAssignedGame_def)
qed

lemma endedDb_find_game:
  assumes "find_game db (g_id g') = Some g"
  shows "find_game (endedDb g' db) x = (if x = g_id g' then Some g' else find_game db x)"
  using assms find_game_set_game [of g' db x] by (simp add: find_game_def)

lemma finish_follows:
  assumes sys: "system_ok db" and g: "find_game db gid = Some g"
    and fin: "finish env \<lparr>pg_game = g, pg_moves = [], pg_players = players_of db gid\<rparr> locked event db = Inr (r, db')"
    and s: "g_status g = status_text s" "s \<in> set (rule_from (TRANSITION_RULES (event_transition event)))"
  shows "\<exists>g1. machine_steps [[event_transition event]] g g1 \<and> (\<forall>x. find_game db' x = (if x = gid then Some g1 else find_game db x))"
proof -
  note facts = system_ok_game [OF sys g]
  have active: "\<not> terminal_text (g_status g)"
    using rule_from_not_terminal [OF s(2)] by (simp add: s(1))
  have clock: "clock_text (g_status g)" if "completing event"
    using that s by (cases event) (auto simp: clock_text_def)
  from finish_effect [OF sys g refl active clock fin] obtain out where
    out: "deriveTerminalOutcome event = Inr out" and db': "db' = endedDb (endedRow env locked out g) db" by blast
  have "machine_steps [[event_transition event]] g (endedRow env locked out g)" by (rule ended_machine_step [OF facts(2,3) out s])
  with endedDb_find_game [of db "endedRow env locked out g" g] g facts(4) db' show ?thesis by auto
qed

lemma written_row:
  assumes "find_game db (g_id g') = Some g"
  shows "find_game (set_game g' db) x = (if x = g_id g' then Some g' else find_game db x)"
  using assms find_game_set_game [of g' db x] by simp

section \<open>Every operation but the reset follows the machine\<close>

lemma timeout_follows: "follows_machine [[TIMEOUT_MOVE]] (adjudicateTimeout_body env gid)"
  unfolding adjudicateTimeout_body_def
proof (rule follows_withLockedGame)
  fix db g locked r db'
  let ?game = "\<lparr>pg_game = g, pg_moves = [], pg_players = players_of db gid\<rparr>"
  assume sys: "system_ok db" and g: "find_game db gid = Some g"
    and status: "lk_status locked = g_status g" and loser: "timeoutLoser locked \<noteq> None"
    and work: "(case timeoutLoser locked of None \<Rightarrow> ret None
      | Some loser \<Rightarrow> finish env ?game locked (TerminalEvent.TIMEOUT loser)) db = Inr (r, db')"
  from loser status have "clock_text (g_status g)"
    by (auto simp: timeoutLoser_def clock_text_def split: if_splits)
  then obtain s where s: "g_status g = status_text s" "s \<in> {IN_PROGRESS, RECONNECTING}" by (rule clock_text_status)
  from work loser obtain l where "finish env ?game locked (TerminalEvent.TIMEOUT l) db = Inr (r, db')" by auto
  from finish_follows [OF sys g this s(1)] s(2)
  show "\<exists>g1. machine_steps [[TIMEOUT_MOVE]] g g1 \<and> (\<forall>x. find_game db' x = (if x = gid then Some g1 else find_game db x))"
    by simp
qed

lemma no_show_follows: "follows_machine [[EXPIRE_NO_SHOW]] (adjudicateNoShow_body env gid)"
  unfolding adjudicateNoShow_body_def
proof (rule follows_withLockedGame)
  fix db g locked r db'
  let ?game = "\<lparr>pg_game = g, pg_moves = [], pg_players = players_of db gid\<rparr>"
  let ?event = "NO_SHOW (player_colors (filter (\<lambda>p. p_joined_at p \<noteq> None) (pg_players ?game)))"
  assume sys: "system_ok db" and g: "find_game db gid = Some g"
    and status: "lk_status locked = g_status g" "lk_status locked = ''WAITING_FOR_PLAYERS''"
    and work: "(case g_join_deadline_at (pg_game ?game) of None \<Rightarrow> ret None
      | Some joinDeadlineAt \<Rightarrow> if lk_observedAt locked < joinDeadlineAt then ret None
          else finish env ?game locked ?event) db = Inr (r, db')"
    and changed: "games db' \<noteq> games db"
  from work changed have "finish env ?game locked ?event db = Inr (r, db')"
    by (auto split: if_splits option.splits)
  from finish_follows [OF sys g this, of WAITING_FOR_PLAYERS] status
  show "\<exists>g1. machine_steps [[EXPIRE_NO_SHOW]] g g1 \<and> (\<forall>x. find_game db' x = (if x = gid then Some g1 else find_game db x))"
    by simp
qed

lemma abandonment_follows: "follows_machine [[ABANDON]] (adjudicateAbandonment_body env gid absent)"
  unfolding adjudicateAbandonment_body_def
proof (rule follows_withLockedGame)
  fix db g locked r db'
  let ?game = "\<lparr>pg_game = g, pg_moves = [], pg_players = players_of db gid\<rparr>"
  let ?absent = "filter (\<lambda>p. p_guest_session_id p \<in> set absent) (pg_players ?game)"
  assume sys: "system_ok db" and g: "find_game db gid = Some g"
    and status: "lk_status locked = g_status g" "lk_status locked = ''RECONNECTING''"
    and work: "(let absentPlayers = ?absent in
       if absentPlayers = [] \<or>
          list_ex (\<lambda>p. p_disconnected_at p = None \<or> p_reconnect_grace_ends_at p = None) absentPlayers \<or>
          \<not> list_ex (graceExpired (lk_observedAt locked)) absentPlayers then ret None
       else finish env ?game locked (ABANDONMENT (player_colors absentPlayers))) db = Inr (r, db')"
    and changed: "games db' \<noteq> games db"
  from work changed have "finish env ?game locked (ABANDONMENT (player_colors ?absent)) db = Inr (r, db')"
    by (auto simp: Let_def split: if_splits)
  from finish_follows [OF sys g this, of RECONNECTING] status
  show "\<exists>g1. machine_steps [[ABANDON]] g g1 \<and> (\<forall>x. find_game db' x = (if x = gid then Some g1 else find_game db x))"
    by simp
qed

lemma resign_follows: "follows_machine [[RESIGN]] (resignInTransaction uuidv4 env input)"
  unfolding follows_machine_def
proof (intro allI impI)
  fix db r db' x g g'
  assume sys: "system_ok db" and run: "resignInTransaction uuidv4 env input db = Inr (r, db')"
    and g: "find_game db x = Some g" "find_game db' x = Some g'" "g' \<noteq> g"
  from sys run show "machine_steps [[RESIGN]] g g'"
  proof (cases rule: resign_cases)
    case 1
    with g show ?thesis by simp
  next
    case (2 g0 locked player color sub db1)
    from 2(4) obtain s where s: "g_status g0 = status_text s" "s \<in> {IN_PROGRESS, RECONNECTING}"
      by (rule clock_text_status)
    from finish_follows [OF sys 2(1,6) s(1)] s(2) obtain g1 where "machine_steps [[RESIGN]] g0 g1"
      and db1: "\<And>x. find_game db1 x = (if x = rg_gameId input then Some g1 else find_game db x)" by auto
    moreover from 2(7) have "find_game db' x = find_game db1 x" for x
      by (auto simp: insert_command_Inr_iff)
    ultimately show ?thesis using 2(1) g by (intro follows_change [of db' "rg_gameId input" g1 db _ g0 x g g']) simp_all
  qed
qed


lemma disconnect_follows: "follows_machine [[PLAYER_DISCONNECTED]] (markDisconnected_body env guest graceMs)"
  unfolding markDisconnected_body_def
proof (intro follows_withAssignedGame follows_withLockedGame)
  fix gid db g locked r db'
  let ?game = "\<lparr>pg_game = g, pg_moves = [], pg_players = players_of db gid\<rparr>"
  assume sys: "system_ok db" and g: "find_game db gid = Some g" and changed: "games db' \<noteq> games db"
    and work: "(let status = g_status (pg_game ?game) in
       case playerFor ?game guest of
         None \<Rightarrow> ret None
       | Some (player, color) \<Rightarrow>
           if status \<noteq> ''IN_PROGRESS'' \<and> status \<noteq> ''RECONNECTING'' then
             (if status = ''WAITING_FOR_PLAYERS'' then
                tbind (update_player (p_id player) (\<lambda>p. p\<lparr>p_connected_at := None\<rparr>)) (\<lambda>_. ret None)
              else ret None)
           else if p_disconnected_at player \<noteq> None then ret None
           else disconnectPlayer env ?game locked player color graceMs) db = Inr (r, db')"
  note facts = system_ok_game [OF sys g]
  from work changed obtain player color where who: "playerFor ?game guest = Some (player, color)"
    and clock: "clock_text (g_status g)"
    and run: "disconnectPlayer env ?game locked player color graceMs db = Inr (r, db')"
    by (auto simp: Let_def clock_text_def tbind_Inr_iff update_player_Inr_iff split: if_splits option.splits)
  from playerFor_Some(1) [OF who] have player: "player \<in> set (players_of db gid)" by simp
  from clock obtain s where s: "g_status g = status_text s" "s \<in> {IN_PROGRESS, RECONNECTING}" by (rule clock_text_status)
  from disconnect_effect [OF sys g refl player clock run] obtain d where
    row: "\<forall>x. find_game db' x = (if x = gid then Some ((reconnectingData d ''RECONNECTING'' g)\<lparr>g_updated_at := te_appNow env\<rparr>)
      else find_game db x)" by blast
  have "machine_steps [[PLAYER_DISCONNECTED]] g ((reconnectingData d ''RECONNECTING'' g)\<lparr>g_updated_at := te_appNow env\<rparr>)"
    using s(2) by (intro one_machine_step [OF facts(2,3) s(1), of PLAYER_DISCONNECTED None])
      (auto simp: outcome_fits_def reconnectingData_def)
  with row show "\<exists>g1. machine_steps [[PLAYER_DISCONNECTED]] g g1 \<and>
      (\<forall>x. find_game db' x = (if x = gid then Some g1 else find_game db x))" by blast
qed

lemma reconnect_follows:
  "follows_machine [[PLAYER_RECONNECTED], [PLAYER_DISCONNECTED]] (markReconnected_body env guest)"
  unfolding markReconnected_body_def
proof (intro follows_withAssignedGame follows_withLockedGame)
  fix gid db g locked r db'
  let ?game = "\<lparr>pg_game = g, pg_moves = [], pg_players = players_of db gid\<rparr>"
  let ?T = "[[PLAYER_RECONNECTED], [PLAYER_DISCONNECTED]]"
  assume sys: "system_ok db" and g: "find_game db gid = Some g" and changed: "games db' \<noteq> games db"
    and work: "(let g = pg_game ?game in
       if g_status g \<noteq> ''RECONNECTING'' then ret None
       else case playerFor ?game guest of
           None \<Rightarrow> ret None
         | Some (player, color) \<Rightarrow>
             if p_disconnected_at player = None then ret None
             else
               tbind (update_player (p_id player) (reconnectData (lk_observedAt locked))) (\<lambda>_.
               let remainingDeadlines = otherDeadlines ?game player;
                   status = (if remainingDeadlines = [] then ''IN_PROGRESS'' else ''RECONNECTING'');
                   reconnectDeadlineAt =
                     (if remainingDeadlines = [] then None else earliest remainingDeadlines) in
               tbind (update_games (te_appNow env) (\<lambda>r. g_id r = g_id g \<and> g_version r = g_version g)
                 (reconnectingData reconnectDeadlineAt status)) (\<lambda>count.
               if count \<noteq> 1 then ret None
               else ret (Some \<lparr>pr_color = color, pr_gameId = g_id g, pr_gameVersion = g_version g + 1\<rparr>)))) db =
       Inr (r, db')"
  note facts = system_ok_game [OF sys g]
  from work changed obtain player color where who: "playerFor ?game guest = Some (player, color)"
    and status: "g_status g = ''RECONNECTING''"
    by (auto simp: Let_def split: option.splits if_splits)
  from playerFor_Some(1) [OF who] have player: "player \<in> set (players_of db gid)" by simp
  define d where "d = (if otherDeadlines ?game player = [] then None else earliest (otherDeadlines ?game player))"
  define st where "st = (if otherDeadlines ?game player = [] then ''IN_PROGRESS'' else ''RECONNECTING'')"
  from work who status changed obtain u db1 n where
    upd: "update_player (p_id player) (reconnectData (lk_observedAt locked)) db = Inr (u, db1)"
    and row: "update_games (te_appNow env) (\<lambda>r. g_id r = gid \<and> g_version r = g_version g) (reconnectingData d st) db1 =
      Inr (n, db')"
    by (auto simp: Let_def tbind_Inr_iff facts(4) d_def st_def split: if_splits)
  let ?g' = "(reconnectingData d st g)\<lparr>g_updated_at := te_appNow env\<rparr>"
  have "clock_text (g_status g)" using status by (simp add: clock_text_def)
  from reconnect_effect [OF sys g refl player this st_def d_def upd row]
  have "db' = set_game ?g' db1" by blast
  with upd have find: "find_game db' x = (if x = gid then Some ?g' else find_game db x)" for x
    using g facts(4) by (simp add: written_row update_player_Inr_iff reconnectingData_def)
  have "machine_steps ?T g ?g'"
  proof (cases "otherDeadlines ?game player = []")
    case True
    with status show ?thesis
      by (intro one_machine_step [OF facts(2,3), of RECONNECTING PLAYER_RECONNECTED None])
        (auto simp: outcome_fits_def reconnectingData_def st_def)
  next
    case False
    with status show ?thesis
      by (intro one_machine_step [OF facts(2,3), of RECONNECTING PLAYER_DISCONNECTED None])
        (auto simp: outcome_fits_def reconnectingData_def st_def)
  qed
  with find show "\<exists>g1. machine_steps ?T g g1 \<and>
      (\<forall>x. find_game db' x = (if x = gid then Some g1 else find_game db x))" by blast
qed

lemma ready_follows: "follows_machine [[MARK_PLAYERS_READY]] (markReadyInTransaction env input)"
  unfolding follows_machine_def
proof (intro allI impI)
  fix db r db' x g g'
  assume sys: "system_ok db" and run: "markReadyInTransaction env input db = Inr (r, db')"
    and g: "find_game db x = Some g" "find_game db' x = Some g'" "g' \<noteq> g"
  from sys run show "machine_steps [[MARK_PLAYERS_READY]] g g'"
  proof (cases rule: ready_cases)
    case 1
    with g show ?thesis by simp
  next
    case (2 g0 player db1)
    note facts = system_ok_game [OF sys 2(1)]
    have db1: "find_game db1 y = find_game db y" for y by (simp add: 2(5) find_game_def)
    with 2(6) g have waiting: "g_status g0 = ''WAITING_FOR_PLAYERS''" and db': "db' = set_game (readyRow env g0) db1"
      by (auto split: if_splits)
    have "machine_steps [[MARK_PLAYERS_READY]] g0 (readyRow env g0)"
      using waiting by (intro one_machine_step [OF facts(2,3), of WAITING_FOR_PLAYERS MARK_PLAYERS_READY None])
        (auto simp: outcome_fits_def readyRow_def)
    with 2(1) g show ?thesis
      by (intro follows_change [of db' "mr_gameId input" "readyRow env g0" db _ g0 x g g'])
        (simp_all add: db' written_row db1 readyRow_def facts(4))
  qed
qed

lemma start_follows: "follows_machine [[START]] (startIfReadyInTransaction env gid)"
  unfolding follows_machine_def
proof (intro allI impI)
  fix db r db' x g g'
  assume sys: "system_ok db" and run: "startIfReadyInTransaction env gid db = Inr (r, db')"
    and g: "find_game db x = Some g" "find_game db' x = Some g'" "g' \<noteq> g"
  from sys run show "machine_steps [[START]] g g'"
  proof (cases rule: start_cases)
    case 1
    with g show ?thesis by simp
  next
    case (2 g0)
    note facts = system_ok_game [OF sys 2(1)]
    let ?g' = "startedRow env (te_observedAt env) g0"
    have "machine_steps [[START]] g0 ?g'"
      using 2(2) by (intro one_machine_step [OF facts(2,3), of READY START None])
        (auto simp: outcome_fits_def startedRow_def startData_def)
    with 2(1) g show ?thesis
      by (intro follows_change [of db' gid ?g' db _ g0 x g g'])
        (simp_all add: 2(3) written_row startedRow_def startData_def facts(4))
  qed
qed

lemma allocate_follows: "follows_machine [] (allocateInTransaction env input)"
  unfolding follows_machine_def
proof (intro allI impI)
  fix db r db' x g g'
  assume sys: "system_ok db" and run: "allocateInTransaction env input db = Inr (r, db')"
    and g: "find_game db x = Some g" "find_game db' x = Some g'" "g' \<noteq> g"
  from run have "find_game db' x = find_game db x"
    by (cases rule: allocate_cases) (use g(1) in \<open>auto simp: find_game_def allocatedDb_def find_row_append\<close>)
  with g show "machine_steps [] g g'" by simp
qed


definition MOVE_TRANSITIONS :: "GameTransition list list" where
  "MOVE_TRANSITIONS = [[ACCEPT_MOVE], [ACCEPT_TERMINAL_MOVE], [START, ACCEPT_MOVE], [START, ACCEPT_TERMINAL_MOVE]]"

lemma moved_machine_step:
  assumes ok: "game_check g" "game_range g" and status: "g_status g \<in> {''IN_PROGRESS'', ''READY''}"
    and out: "boardOutcome ev = Inr out"
  shows "machine_steps MOVE_TRANSITIONS g (movedRow env color locked clock ev out g)"
proof -
  note v = stored_version [OF ok]
  define tr where "tr = (if out = None then ACCEPT_MOVE else ACCEPT_TERMINAL_MOVE)"
  have fits: "outcome_fits tr out" "(case out of None \<Rightarrow> IN_PROGRESS | Some t \<Rightarrow> to_status t) = rule_to (TRANSITION_RULES tr)"
  proof -
    have "outcome_fits tr out \<and> (case out of None \<Rightarrow> IN_PROGRESS | Some t \<Rightarrow> to_status t) = rule_to (TRANSITION_RULES tr)"
    proof (cases out)
      case (Some t)
      with out obtain r w where "deriveTerminalOutcome (BOARD r w) = Inr t"
        by (auto simp: boardOutcome_def split: GameOver.splits sum.splits)
      from event_outcome [OF this] Some show ?thesis by (simp add: tr_def outcome_fits_def)
    qed (simp add: tr_def outcome_fits_def)
    then show "outcome_fits tr out"
      "(case out of None \<Rightarrow> IN_PROGRESS | Some t \<Rightarrow> to_status t) = rule_to (TRANSITION_RULES tr)" by blast+
  qed
  have from_playing: "IN_PROGRESS \<in> set (rule_from (TRANSITION_RULES tr))" "rule_versionDelta (TRANSITION_RULES tr) = 1"
    by (simp_all add: tr_def)
  let ?g' = "movedRow env color locked clock ev out g"
  have status': "g_status ?g' = status_text (rule_to (TRANSITION_RULES tr))"
    using status unfolding fits(2) [symmetric] by (auto split: option.splits)
  show ?thesis
  proof (cases "g_status g = ''READY''")
    case True
    have "transitions (READY, g_version g) [(START, None), (tr, out)] = Inr (rule_to (TRANSITION_RULES tr), g_version ?g')"
      using v True fits(1) from_playing by (simp add: transitionGame_accepts outcome_fits_def [of START] add.assoc)
    moreover have "map fst [(START, None), (tr, out)] \<in> set MOVE_TRANSITIONS"
      by (simp add: MOVE_TRANSITIONS_def tr_def)
    moreover have "g_status g = status_text READY" using True by simp
    ultimately show ?thesis using status' unfolding machine_steps_def by blast
  next
    case False
    with status have "g_status g = status_text IN_PROGRESS" by simp
    with fits(1) from_playing status' False show ?thesis
      by (intro one_machine_step [OF ok, of IN_PROGRESS tr out]) (auto simp: MOVE_TRANSITIONS_def tr_def)
  qed
qed

lemma submit_follows: "follows_machine MOVE_TRANSITIONS (submitInTransaction lib uuidv4 env input)"
  unfolding follows_machine_def
proof (intro allI impI)
  fix db r db' x g g'
  assume sys: "system_ok db" and run: "submitInTransaction lib uuidv4 env input db = Inr (r, db')"
    and g: "find_game db x = Some g" "find_game db' x = Some g'" "g' \<noteq> g"
  from run show "machine_steps MOVE_TRANSITIONS g g'"
  proof (cases rule: submit_cases)
    case (played g0 locked player color)
    note facts = system_ok_game [OF sys played(1)]
    from sys played(1) refl played(3,5) show ?thesis
    proof (cases rule: played_effect)
      case (played clock ev out sub mv)
      have "machine_steps MOVE_TRANSITIONS g0 (movedRow env color locked clock ev out g0)"
        using moveGuards_None(1) [OF played(1)] by (intro moved_machine_step [OF facts(2,3) _ played(4)]) simp
      with g \<open>find_game db (sm_gameId input) = Some g0\<close> show ?thesis
        by (intro follows_change [of db' "sm_gameId input" "movedRow env color locked clock ev out g0" db _ g0 x g g'])
          (simp_all add: played(8) movedDb_find_game facts(4))
    qed (use g in simp)
  qed (use g in simp_all)
qed

text \<open>
  The reset of a session ends a game from every active status: from
  \<open>IN_PROGRESS\<close> and \<open>RECONNECTING\<close> it is the transition \<open>ABANDON\<close>, from
  \<open>WAITING_FOR_PLAYERS\<close> and \<open>READY\<close> the table has no such transition.
\<close>

definition reset_step :: "game_row \<Rightarrow> game_row \<Rightarrow> bool" where
  "reset_step g g' \<longleftrightarrow> g_status g \<in> {''WAITING_FOR_PLAYERS'', ''READY''} \<and> g_status g' = ''ABANDONED'' \<and>
     g_version g' = g_version g + 1"

lemma reset_follows:
  assumes sys: "system_ok db" and run: "terminateForReset_body env guest db = Inr (r, db')"
    and g: "find_game db x = Some g" "find_game db' x = Some g'" "g' \<noteq> g"
  shows "machine_steps [[ABANDON]] g g' \<or> reset_step g g'"
proof -
  from run g obtain gid where "withLockedGame env gid (\<lambda>_. True) (\<lambda>locked game.
      if g_status (pg_game game) \<notin> {''IN_PROGRESS'', ''READY'', ''RECONNECTING'', ''WAITING_FOR_PLAYERS''}
      then ret None else case playerFor game guest of None \<Rightarrow> ret None
      | Some (player, color) \<Rightarrow> finish env game locked (ABANDONMENT [color])) db = Inr (r, db')"
    unfolding terminateForReset_body_def withAssignedGame_def by (auto split: option.splits)
  then show ?thesis
  proof (cases rule: withLockedGame_cases)
    case 1
    with g show ?thesis by simp
  next
    case (2 g0 locked)
    let ?game = "\<lparr>pg_game = g0, pg_moves = [], pg_players = players_of db gid\<rparr>"
    note facts = system_ok_game [OF sys 2(1)]
    have changed: "db' \<noteq> db" using g by auto
    from 2 changed obtain player color where
      fin: "finish env ?game locked (ABANDONMENT [color]) db = Inr (r, db')"
      and status: "g_status g0 \<in> {''IN_PROGRESS'', ''READY'', ''RECONNECTING'', ''WAITING_FOR_PLAYERS''}"
      by (auto split: if_splits option.splits)
    have active: "\<not> terminal_text (g_status g0)" using status by (auto simp: terminal_text_def)
    from finish_effect [OF sys 2(1) refl active _ fin] obtain out where
      out: "deriveTerminalOutcome (ABANDONMENT [color]) = Inr out"
      and db': "db' = endedDb (endedRow env locked out g0) db" by (metis completing.simps(4))
    have find: "find_game db' y = (if y = gid then Some (endedRow env locked out g0) else find_game db y)" for y
      using endedDb_find_game [of db "endedRow env locked out g0" g0 y] 2(1) facts(4) db' by simp
    have here: "g = g0 \<and> g' = endedRow env locked out g0" using g find 2(1) by (auto split: if_splits)
    show ?thesis
    proof (cases "clock_text (g_status g0)")
      case True
      then obtain s where s: "g_status g0 = status_text s" "s \<in> {IN_PROGRESS, RECONNECTING}" by (rule clock_text_status)
      from ended_machine_step [OF facts(2,3) out s(1)] s(2) here show ?thesis by simp
    next
      case False
      with status have "g_status g0 \<in> {''WAITING_FOR_PLAYERS'', ''READY''}" by (auto simp: clock_text_def)
      moreover have "to_status out = ABANDONED" using event_outcome [OF out] by simp
      ultimately show ?thesis using here by (simp add: reset_step_def)
    qed
  qed
qed


section \<open>The contract, for each operation\<close>

interpretation allocate_machine: machine_transaction "allocateInTransaction env" "[]" for env
  by unfold_locales (rule allocate_follows)

interpretation ready_machine: machine_transaction "markReadyInTransaction env" "[[MARK_PLAYERS_READY]]" for env
  by unfold_locales (rule ready_follows)

interpretation start_machine: machine_transaction "startIfReadyInTransaction env" "[[START]]" for env
  by unfold_locales (rule start_follows)

interpretation submit_machine: machine_transaction "submitInTransaction lib uuidv4 env" MOVE_TRANSITIONS for lib uuidv4 env
  by unfold_locales (rule submit_follows)

interpretation resign_machine: machine_transaction "resignInTransaction uuidv4 env" "[[RESIGN]]" for uuidv4 env
  by unfold_locales (rule resign_follows)

interpretation disconnect_machine:
  machine_transaction "\<lambda>(guest, graceMs). markDisconnected_body env guest graceMs" "[[PLAYER_DISCONNECTED]]" for env
  by unfold_locales (simp add: disconnect_follows split: prod.split)

interpretation reconnect_machine:
  machine_transaction "markReconnected_body env" "[[PLAYER_RECONNECTED], [PLAYER_DISCONNECTED]]" for env
  by unfold_locales (rule reconnect_follows)

interpretation timeout_machine: machine_transaction "adjudicateTimeout_body env" "[[TIMEOUT_MOVE]]" for env
  by unfold_locales (rule timeout_follows)

interpretation no_show_machine: machine_transaction "adjudicateNoShow_body env" "[[EXPIRE_NO_SHOW]]" for env
  by unfold_locales (rule no_show_follows)

interpretation abandonment_machine:
  machine_transaction "\<lambda>(gid, absent). adjudicateAbandonment_body env gid absent" "[[ABANDON]]" for env
  by unfold_locales (simp add: abandonment_follows split: prod.split)

text \<open>The runs of the machine an operation may perform on the game it changes.\<close>

primrec operation_transitions :: "operation \<Rightarrow> GameTransition list list" where
  "operation_transitions (op_allocate i) = []"
| "operation_transitions (op_markReady i) = [[MARK_PLAYERS_READY]]"
| "operation_transitions (op_startIfReady gid) = [[START]]"
| "operation_transitions (op_submitMove i) = MOVE_TRANSITIONS"
| "operation_transitions (op_resign i) = [[RESIGN]]"
| "operation_transitions (op_terminateForReset u) = [[ABANDON]]"
| "operation_transitions (op_markDisconnected u t) = [[PLAYER_DISCONNECTED]]"
| "operation_transitions (op_markReconnected u) = [[PLAYER_RECONNECTED], [PLAYER_DISCONNECTED]]"
| "operation_transitions (op_adjudicateTimeout gid) = [[TIMEOUT_MOVE]]"
| "operation_transitions (op_adjudicateNoShow gid) = [[EXPIRE_NO_SHOW]]"
| "operation_transitions (op_adjudicateAbandonment gid us) = [[ABANDON]]"

lemma perform_follows:
  assumes sys: "system_ok db" and g: "find_game db gid = Some g"
    and g': "find_game (perform lib uuidv4 env op db) gid = Some g'" "g' \<noteq> g"
    and other: "\<And>u. op \<noteq> op_terminateForReset u"
  shows "machine_steps (operation_transitions op) g g'"
proof (cases op)
  case (op_allocate x)
  with g' g have "ag_whiteGuestSessionId x \<noteq> ag_blackGuestSessionId x" by (auto simp: allocate_snd)
  with op_allocate g' show ?thesis
    using allocate_machine.run_follows [OF sys g _ g'(2)] by (simp add: allocate_snd)
next
  case (op_markReady x)
  then show ?thesis using ready_machine.run_follows [OF sys g _ g'(2)] g' by (simp add: markReady_snd)
next
  case (op_startIfReady x)
  then show ?thesis using start_machine.run_follows [OF sys g _ g'(2)] g' by (simp add: startIfReady_snd)
next
  case (op_submitMove x)
  then show ?thesis using submit_machine.run_follows [OF sys g _ g'(2)] g' by (simp add: submitMove_snd)
next
  case (op_resign x)
  then show ?thesis using resign_machine.run_follows [OF sys g _ g'(2)] g' by (simp add: resign_snd)
next
  case (op_markDisconnected x y)
  then show ?thesis using disconnect_machine.run_follows [OF sys g _ g'(2), of "te_fault env" env "(x, y)"] g'
    by (simp add: markDisconnected_def)
next
  case (op_markReconnected x)
  then show ?thesis using reconnect_machine.run_follows [OF sys g _ g'(2)] g' by (simp add: markReconnected_def)
next
  case (op_adjudicateTimeout x)
  then show ?thesis using timeout_machine.run_follows [OF sys g _ g'(2)] g' by (simp add: adjudicateTimeout_def)
next
  case (op_adjudicateNoShow x)
  then show ?thesis using no_show_machine.run_follows [OF sys g _ g'(2)] g' by (simp add: adjudicateNoShow_def)
next
  case (op_adjudicateAbandonment x y)
  then show ?thesis using abandonment_machine.run_follows [OF sys g _ g'(2), of "te_fault env" env "(x, y)"] g'
    by (simp add: adjudicateAbandonment_def)
qed (use other in blast)

lemma perform_reset_follows:
  assumes sys: "system_ok db" and g: "find_game db gid = Some g"
    and g': "find_game (snd (terminateForReset env guest db)) gid = Some g'" "g' \<noteq> g"
  shows "machine_steps [[ABANDON]] g g' \<or> reset_step g g'"
proof -
  let ?db' = "snd (run (te_fault env) (terminateForReset_body env guest) db)"
  have g'': "find_game ?db' gid = Some g'" using g'(1) by (simp add: terminateForReset_def)
  with g g'(2) have "?db' \<noteq> db" by auto
  with reset_tx.run_atomic [of "te_fault env" env guest db] obtain a
    where "terminateForReset_body env guest db = Inr (a, ?db')" by blast
  from reset_follows [OF sys this g g'' g'(2)] show ?thesis .
qed

section \<open>Refinement\<close>

text \<open>
  C6. The stored games refine the domain's state machine: whatever operation of
  the three repositories is called, with whatever clock readings and failures,
  every stored game still exists afterwards and is either unchanged or has made
  one of the runs of \<open>transitionGame\<close> that the operation stands for: status and
  version of the new row are those the machine computes from the old row. The
  one exception is the reset of a guest session, which also ends a game that is
  \<open>WAITING_FOR_PLAYERS\<close> or \<open>READY\<close> as \<open>ABANDONED\<close>.
\<close>

theorem operations_refine_state_machine:
  assumes "reachable lib uuidv4 db" and "find_game db gid = Some g"
  shows "\<exists>g'. find_game (perform lib uuidv4 env op db) gid = Some g' \<and>
    (g' = g \<or> machine_steps (operation_transitions op) g g' \<or>
     (\<exists>guest. op = op_terminateForReset guest) \<and> reset_step g g')"
proof -
  have sys: "system_ok db" using assms(1) by (rule reachable_system)
  from perform_system [OF sys] assms(2) obtain g' where g': "find_game (perform lib uuidv4 env op db) gid = Some g'"
    unfolding evolves_def by blast
  moreover have "machine_steps (operation_transitions op) g g' \<or>
     (\<exists>guest. op = op_terminateForReset guest) \<and> reset_step g g'" if "g' \<noteq> g"
  proof (cases "\<exists>guest. op = op_terminateForReset guest")
    case True
    with perform_reset_follows [OF sys assms(2) _ that] g' show ?thesis by auto
  next
    case False
    with perform_follows [OF sys assms(2) g' that] show ?thesis by blast
  qed
  ultimately show ?thesis by blast
qed

theorem operations_refine_state_machine_witness:
  "machine_steps [[PLAYER_DISCONNECTED]] sample_moved_game sample_reconnecting_game"
proof -
  have k: "find_game sample_moved ''g'' = Some sample_moved_game"
    "find_game sample_reconnecting ''g'' = Some sample_reconnecting_game"
    "sample_reconnecting_game \<noteq> sample_moved_game"
    by code_simp+
  from operations_refine_state_machine [OF sample_reachable(6) k(1),
      of "sample_env 10000 sample_moved" "op_markDisconnected ''u2'' 60000"] k(2,3)
  show ?thesis by (simp add: sample_reconnecting_def)
qed

end
