(* ===== verification/Protocol_Schemas.thy ===== *)
theory Protocol_Schemas
  imports Json
begin

text \<open>
  The realtime protocol, \<open>src/src/modules/realtime/protocol/protocol.schemas.ts\<close> and
  \<open>protocol.constants.ts\<close>. A schema is the predicate on JSON values for which
  \<open>safeParse\<close> succeeds; no schema transforms its input. The format checks of the zod
  library for UUIDs and ISO dates are the parameters \<open>uuidv4\<close> and \<open>datetime\<close>.
\<close>

section \<open>Combinators\<close>

text \<open>
  \<open>z.object({...}).strict()\<close>, with for every field its name, whether it is optional, and
  its schema.
\<close>

type_synonym schema = "json \<Rightarrow> bool"
type_synonym fields = "(string \<times> bool \<times> schema) list"

definition zstrict :: "fields \<Rightarrow> schema" where
  "zstrict fs j \<longleftrightarrow>
     (case j of
        JObj kvs \<Rightarrow> list_all (\<lambda>(k, _). k \<in> fst ` set fs) kvs \<and>
          list_all (\<lambda>(k, optional, p). case map_of kvs k of None \<Rightarrow> optional | Some v \<Rightarrow> p v) fs
      | _ \<Rightarrow> False)"

definition req :: "string \<Rightarrow> schema \<Rightarrow> string \<times> bool \<times> schema" where
  "req k p = (k, False, p)"

definition opt :: "string \<Rightarrow> schema \<Rightarrow> string \<times> bool \<times> schema" where
  "opt k p = (k, True, p)"

definition zlit :: "string \<Rightarrow> schema" where
  "zlit s j \<longleftrightarrow> j = JStr s"

definition ztrue :: schema where
  "ztrue j \<longleftrightarrow> j = JBool True"

definition zfalse :: schema where
  "zfalse j \<longleftrightarrow> j = JBool False"

definition znull :: schema where
  "znull j \<longleftrightarrow> j = JNull"

definition zboolean :: schema where
  "zboolean j \<longleftrightarrow> (case j of JBool b \<Rightarrow> True | _ \<Rightarrow> False)"

definition zstring :: "(string \<Rightarrow> bool) \<Rightarrow> schema" where
  "zstring p j \<longleftrightarrow> (case j of JStr s \<Rightarrow> p s | _ \<Rightarrow> False)"

definition zint :: "(int \<Rightarrow> bool) \<Rightarrow> schema" where
  "zint p j \<longleftrightarrow> (case j of JNum n \<Rightarrow> isSafeInteger n \<and> p n | _ \<Rightarrow> False)"

definition zenum :: "string list \<Rightarrow> schema" where
  "zenum vals j \<longleftrightarrow> (case j of JStr s \<Rightarrow> s \<in> set vals | _ \<Rightarrow> False)"

definition znullable :: "schema \<Rightarrow> schema" where
  "znullable p j \<longleftrightarrow> j = JNull \<or> p j"

definition zarray :: "schema \<Rightarrow> schema" where
  "zarray p j \<longleftrightarrow> (case j of JArr js \<Rightarrow> list_all p js | _ \<Rightarrow> False)"

definition zunion :: "(string \<times> schema) list \<Rightarrow> schema" where
  "zunion table j \<longleftrightarrow>
     (case field ''type'' j of
        JStr t \<Rightarrow> (case map_of table t of None \<Rightarrow> False | Some p \<Rightarrow> p j)
      | _ \<Rightarrow> False)"

text \<open>\<open>.min(lo).max(hi)\<close> on strings.\<close>

definition sized :: "nat \<Rightarrow> nat \<Rightarrow> string \<Rightarrow> bool" where
  "sized lo hi s \<longleftrightarrow> lo \<le> length s \<and> length s \<le> hi"

section \<open>Constants\<close>

definition PROTOCOL_VERSION :: int where
  "PROTOCOL_VERSION = 1"

definition CLIENT_EVENT_NAMES :: "string list" where
  "CLIENT_EVENT_NAMES =
     [''queue.join'', ''queue.leave'', ''game.ready'', ''move.submit'', ''game.resign'', ''game.sync'', ''heartbeat.ping'']"

definition SERVER_EVENT_NAMES :: "string list" where
  "SERVER_EVENT_NAMES =
     [''session.ready'', ''queue.joined'', ''queue.left'', ''match.found'', ''game.snapshot'', ''game.started'',
      ''move.accepted'', ''move.rejected'', ''player.disconnected'', ''player.reconnected'', ''game.ended'',
      ''heartbeat.pong'', ''server.error'']"

datatype ProtocolErrorCode =
    UNAUTHORIZED | INVALID_PAYLOAD | UNSUPPORTED_PROTOCOL_VERSION | UNSUPPORTED_EVENT | IDEMPOTENCY_KEY_REUSED
  | ALREADY_QUEUED | ALREADY_IN_GAME | GAME_NOT_FOUND | GAME_ALREADY_ENDED | NOT_A_PLAYER | NOT_YOUR_TURN | ILLEGAL_MOVE
  | STALE_GAME_VERSION | CLOCK_EXPIRED | RATE_LIMITED | SERVICE_UNAVAILABLE | INTERNAL_ERROR

fun protocol_code_text :: "ProtocolErrorCode \<Rightarrow> string" where
  "protocol_code_text UNAUTHORIZED = ''UNAUTHORIZED''"
| "protocol_code_text INVALID_PAYLOAD = ''INVALID_PAYLOAD''"
| "protocol_code_text UNSUPPORTED_PROTOCOL_VERSION = ''UNSUPPORTED_PROTOCOL_VERSION''"
| "protocol_code_text UNSUPPORTED_EVENT = ''UNSUPPORTED_EVENT''"
| "protocol_code_text IDEMPOTENCY_KEY_REUSED = ''IDEMPOTENCY_KEY_REUSED''"
| "protocol_code_text ALREADY_QUEUED = ''ALREADY_QUEUED''"
| "protocol_code_text ALREADY_IN_GAME = ''ALREADY_IN_GAME''"
| "protocol_code_text GAME_NOT_FOUND = ''GAME_NOT_FOUND''"
| "protocol_code_text GAME_ALREADY_ENDED = ''GAME_ALREADY_ENDED''"
| "protocol_code_text NOT_A_PLAYER = ''NOT_A_PLAYER''"
| "protocol_code_text NOT_YOUR_TURN = ''NOT_YOUR_TURN''"
| "protocol_code_text ILLEGAL_MOVE = ''ILLEGAL_MOVE''"
| "protocol_code_text STALE_GAME_VERSION = ''STALE_GAME_VERSION''"
| "protocol_code_text CLOCK_EXPIRED = ''CLOCK_EXPIRED''"
| "protocol_code_text RATE_LIMITED = ''RATE_LIMITED''"
| "protocol_code_text SERVICE_UNAVAILABLE = ''SERVICE_UNAVAILABLE''"
| "protocol_code_text INTERNAL_ERROR = ''INTERNAL_ERROR''"

definition PROTOCOL_ERROR_CODES :: "ProtocolErrorCode list" where
  "PROTOCOL_ERROR_CODES =
     [UNAUTHORIZED, INVALID_PAYLOAD, UNSUPPORTED_PROTOCOL_VERSION, UNSUPPORTED_EVENT, IDEMPOTENCY_KEY_REUSED,
      ALREADY_QUEUED, ALREADY_IN_GAME, GAME_NOT_FOUND, GAME_ALREADY_ENDED, NOT_A_PLAYER, NOT_YOUR_TURN, ILLEGAL_MOVE,
      STALE_GAME_VERSION, CLOCK_EXPIRED, RATE_LIMITED, SERVICE_UNAVAILABLE, INTERNAL_ERROR]"

section \<open>Fields\<close>

definition uuidV4 :: "(string \<Rightarrow> bool) \<Rightarrow> schema" where
  "uuidV4 uuidv4 = zstring uuidv4"

definition epochMs :: schema where
  "epochMs = zint (\<lambda>n. 0 \<le> n)"

definition gameVersion :: schema where
  "gameVersion = zint (\<lambda>n. 0 \<le> n)"

definition clockMs :: schema where
  "clockMs = zint (\<lambda>n. 0 \<le> n)"

definition positiveInt :: schema where
  "positiveInt = zint (\<lambda>n. 0 < n)"

definition emptyPayload :: schema where
  "emptyPayload = zstrict []"

definition protocolVersion :: schema where
  "protocolVersion j \<longleftrightarrow> j = JNum PROTOCOL_VERSION"

definition clientFields :: "(string \<Rightarrow> bool) \<Rightarrow> fields" where
  "clientFields uuidv4 =
     [opt ''correlationId'' (uuidV4 uuidv4), req ''eventId'' (uuidV4 uuidv4), req ''protocolVersion'' protocolVersion,
      req ''timestamp'' epochMs]"

definition serverFields :: "(string \<Rightarrow> bool) \<Rightarrow> fields" where
  "serverFields uuidv4 =
     [opt ''correlationId'' (uuidV4 uuidv4), req ''eventId'' (uuidV4 uuidv4), req ''protocolVersion'' protocolVersion,
      req ''timestamp'' epochMs]"

text \<open>\<open>/^[a-h][1-8]$/\<close>; the engine's \<open>SQUARE_PATTERN\<close> is the same expression.\<close>

definition square_regex :: "string \<Rightarrow> bool" where
  "square_regex s \<longleftrightarrow>
     (case s of [f, r] \<Rightarrow> f \<in> set ''abcdefgh'' \<and> r \<in> set ''12345678'' | _ \<Rightarrow> False)"

section \<open>What clients send\<close>

definition queueJoinEnvelopeSchema :: "(string \<Rightarrow> bool) \<Rightarrow> schema" where
  "queueJoinEnvelopeSchema uuidv4 = zstrict (clientFields uuidv4 @
     [req ''payload'' (zstrict [req ''mode'' (zlit ''blitz'')]), req ''type'' (zlit ''queue.join'')])"

definition queueLeaveEnvelopeSchema :: "(string \<Rightarrow> bool) \<Rightarrow> schema" where
  "queueLeaveEnvelopeSchema uuidv4 = zstrict (clientFields uuidv4 @
     [req ''payload'' (zstrict [req ''mode'' (zlit ''blitz'')]), req ''type'' (zlit ''queue.leave'')])"

definition gameReadyEnvelopeSchema :: "(string \<Rightarrow> bool) \<Rightarrow> schema" where
  "gameReadyEnvelopeSchema uuidv4 = zstrict (clientFields uuidv4 @
     [req ''gameId'' (uuidV4 uuidv4), req ''gameVersion'' gameVersion, req ''payload'' emptyPayload,
      req ''type'' (zlit ''game.ready'')])"

definition moveSubmitEnvelopeSchema :: "(string \<Rightarrow> bool) \<Rightarrow> schema" where
  "moveSubmitEnvelopeSchema uuidv4 = zstrict (clientFields uuidv4 @
     [req ''clientMoveId'' (uuidV4 uuidv4), req ''gameId'' (uuidV4 uuidv4), req ''gameVersion'' gameVersion,
      req ''payload'' (zstrict
        [req ''from'' (zstring square_regex), opt ''promotion'' (zenum [''q'', ''r'', ''b'', ''n'']),
         req ''to'' (zstring square_regex)]),
      req ''type'' (zlit ''move.submit'')])"

definition gameResignEnvelopeSchema :: "(string \<Rightarrow> bool) \<Rightarrow> schema" where
  "gameResignEnvelopeSchema uuidv4 = zstrict (clientFields uuidv4 @
     [req ''gameId'' (uuidV4 uuidv4), req ''gameVersion'' gameVersion, req ''payload'' emptyPayload,
      req ''type'' (zlit ''game.resign'')])"

definition gameSyncEnvelopeSchema :: "(string \<Rightarrow> bool) \<Rightarrow> schema" where
  "gameSyncEnvelopeSchema uuidv4 = zstrict (clientFields uuidv4 @
     [opt ''gameId'' (uuidV4 uuidv4), opt ''gameVersion'' gameVersion, req ''payload'' emptyPayload,
      req ''type'' (zlit ''game.sync'')])"

definition heartbeatPingEnvelopeSchema :: "(string \<Rightarrow> bool) \<Rightarrow> schema" where
  "heartbeatPingEnvelopeSchema uuidv4 = zstrict (clientFields uuidv4 @
     [req ''payload'' (zstrict [opt ''lastKnownGameVersion'' gameVersion]), req ''type'' (zlit ''heartbeat.ping'')])"

definition clientEnvelopeSchema :: "(string \<Rightarrow> bool) \<Rightarrow> schema" where
  "clientEnvelopeSchema uuidv4 = zunion
     [(''queue.join'', queueJoinEnvelopeSchema uuidv4), (''queue.leave'', queueLeaveEnvelopeSchema uuidv4),
      (''game.ready'', gameReadyEnvelopeSchema uuidv4), (''move.submit'', moveSubmitEnvelopeSchema uuidv4),
      (''game.resign'', gameResignEnvelopeSchema uuidv4), (''game.sync'', gameSyncEnvelopeSchema uuidv4),
      (''heartbeat.ping'', heartbeatPingEnvelopeSchema uuidv4)]"

section \<open>Payloads the server sends\<close>

definition protocolErrorSchema :: schema where
  "protocolErrorSchema = zstrict
     [opt ''authoritativeVersion'' gameVersion, req ''code'' (zenum (map protocol_code_text PROTOCOL_ERROR_CODES)),
      req ''message'' (zstring (sized 1 256)), opt ''retryAfterMs'' positiveInt, req ''retryable'' zboolean]"

definition wireColorSchema :: schema where
  "wireColorSchema = zenum [''white'', ''black'']"

definition gameStatusSchema :: schema where
  "gameStatusSchema = zenum
     [''CREATED'', ''WAITING_FOR_PLAYERS'', ''READY'', ''IN_PROGRESS'', ''RECONNECTING'', ''COMPLETED'', ''ABANDONED'',
      ''EXPIRED'']"

definition wireResultSchema :: schema where
  "wireResultSchema = zenum [''white_win'', ''black_win'', ''draw'', ''void'']"

definition wireTerminationSchema :: schema where
  "wireTerminationSchema = zenum
     [''checkmate'', ''stalemate'', ''insufficient_material'', ''threefold_repetition'', ''fifty_move'', ''resignation'',
      ''timeout'', ''abandonment'', ''double_abandon'', ''no_show'']"

definition clocksSchema :: schema where
  "clocksSchema = zstrict
     [req ''blackMs'' clockMs, req ''running'' (znullable wireColorSchema), req ''serverTime'' epochMs,
      req ''whiteMs'' clockMs]"

definition publicPlayerSchema :: schema where
  "publicPlayerSchema = zstrict
     [req ''avatar'' (zstring (sized 1 128)), req ''color'' wireColorSchema, req ''connected'' zboolean,
      req ''name'' (zstring (sized 1 128))]"

definition sessionReadyPayloadSchema :: "(string \<Rightarrow> bool) \<Rightarrow> (string \<Rightarrow> bool) \<Rightarrow> schema" where
  "sessionReadyPayloadSchema uuidv4 datetime = zstrict
     [req ''activeGameId'' (znullable (uuidV4 uuidv4)),
      req ''guest'' (zstrict
        [req ''avatar'' (zstring (sized 1 128)), req ''expiresAt'' (zstring datetime), req ''id'' (uuidV4 uuidv4),
         req ''name'' (zstring (sized 1 128))])]"

definition queueJoinedPayloadSchema :: schema where
  "queueJoinedPayloadSchema = zstrict
     [req ''mode'' (zlit ''blitz''), opt ''position'' positiveInt, req ''since'' epochMs]"

definition queueLeftPayloadSchema :: schema where
  "queueLeftPayloadSchema = zstrict
     [req ''mode'' (zlit ''blitz''),
      req ''reason'' (zenum [''requested'', ''matched'', ''disconnected'', ''timeout'', ''stale''])]"

definition matchFoundPayloadSchema :: schema where
  "matchFoundPayloadSchema = zstrict
     [req ''color'' wireColorSchema, req ''joinDeadline'' epochMs,
      req ''opponent'' (zstrict [req ''avatar'' (zstring (sized 1 128)), req ''name'' (zstring (sized 1 128))]),
      req ''timeControl'' (zstrict [req ''incrementMs'' clockMs, req ''initialMs'' clockMs])]"

definition wireMoveSchema :: schema where
  "wireMoveSchema = zstrict
     [req ''color'' wireColorSchema, req ''ply'' positiveInt, req ''san'' (zstring (sized 1 32)),
      req ''uci'' (zstring (sized 4 5))]"

definition gameSnapshotPayloadSchema :: schema where
  "gameSnapshotPayloadSchema = zstrict
     [req ''clocks'' clocksSchema, req ''currentFen'' (zstring (sized 1 256)), req ''initialFen'' (zstring (sized 1 256)),
      req ''moves'' (zarray wireMoveSchema), req ''opponent'' publicPlayerSchema,
      req ''result'' (znullable wireResultSchema), req ''status'' gameStatusSchema,
      req ''termination'' (znullable wireTerminationSchema), req ''turn'' wireColorSchema, req ''you'' publicPlayerSchema]"

definition gameStartedPayloadSchema :: schema where
  "gameStartedPayloadSchema = zstrict
     [req ''clocks'' (zstrict
        [req ''blackMs'' clockMs, req ''running'' (zlit ''white''), req ''serverTime'' epochMs, req ''whiteMs'' clockMs]),
      req ''initialFen'' (zstring (sized 1 256)), req ''turn'' (zlit ''white'')]"

definition moveAcceptedPayloadSchema :: schema where
  "moveAcceptedPayloadSchema = zstrict
     [req ''check'' zboolean, req ''clocks'' clocksSchema, req ''fenAfter'' (zstring (sized 1 256)),
      req ''ply'' positiveInt, req ''san'' (zstring (sized 1 32)), req ''turn'' wireColorSchema,
      req ''uci'' (zstring (sized 4 5))]"

definition playerDisconnectedPayloadSchema :: schema where
  "playerDisconnectedPayloadSchema = zstrict
     [req ''clocksContinue'' ztrue, req ''color'' wireColorSchema, req ''graceDeadline'' epochMs]"

definition playerReconnectedPayloadSchema :: schema where
  "playerReconnectedPayloadSchema = zstrict [req ''color'' wireColorSchema]"

definition gameEndedPayloadSchema :: schema where
  "gameEndedPayloadSchema = zstrict
     [req ''clocks'' (zstrict
        [req ''blackMs'' clockMs, req ''running'' znull, req ''serverTime'' epochMs, req ''whiteMs'' clockMs]),
      req ''finalFen'' (zstring (sized 1 256)), req ''pgn'' (zstring (sized 0 16384)), req ''result'' wireResultSchema,
      req ''termination'' wireTerminationSchema]"

definition heartbeatPongPayloadSchema :: schema where
  "heartbeatPongPayloadSchema = zstrict [req ''presenceExpiresInMs'' positiveInt, req ''serverTime'' epochMs]"

section \<open>Envelopes the server sends\<close>

definition gameServerEnvelope :: "(string \<Rightarrow> bool) \<Rightarrow> string \<Rightarrow> schema \<Rightarrow> schema" where
  "gameServerEnvelope uuidv4 type payload = zstrict (serverFields uuidv4 @
     [req ''gameId'' (uuidV4 uuidv4), req ''gameVersion'' gameVersion, req ''payload'' payload, req ''type'' (zlit type)])"

definition plainServerEnvelope :: "(string \<Rightarrow> bool) \<Rightarrow> string \<Rightarrow> schema \<Rightarrow> schema" where
  "plainServerEnvelope uuidv4 type payload =
     zstrict (serverFields uuidv4 @ [req ''payload'' payload, req ''type'' (zlit type)])"

definition moveAcceptedEnvelopeSchema :: "(string \<Rightarrow> bool) \<Rightarrow> schema" where
  "moveAcceptedEnvelopeSchema uuidv4 = zstrict (serverFields uuidv4 @
     [req ''clientMoveId'' (uuidV4 uuidv4), req ''gameId'' (uuidV4 uuidv4), req ''gameVersion'' gameVersion,
      req ''payload'' moveAcceptedPayloadSchema, req ''type'' (zlit ''move.accepted'')])"

definition moveRejectedEnvelopeSchema :: "(string \<Rightarrow> bool) \<Rightarrow> schema" where
  "moveRejectedEnvelopeSchema uuidv4 = zstrict (serverFields uuidv4 @
     [req ''clientMoveId'' (uuidV4 uuidv4), req ''gameId'' (uuidV4 uuidv4), req ''gameVersion'' gameVersion,
      req ''payload'' protocolErrorSchema, req ''type'' (zlit ''move.rejected'')])"

definition serverErrorEnvelopeSchema :: "(string \<Rightarrow> bool) \<Rightarrow> schema" where
  "serverErrorEnvelopeSchema uuidv4 = zstrict (serverFields uuidv4 @
     [opt ''clientMoveId'' (uuidV4 uuidv4), opt ''gameId'' (uuidV4 uuidv4), opt ''gameVersion'' gameVersion,
      req ''payload'' protocolErrorSchema, req ''type'' (zlit ''server.error'')])"

definition serverEnvelopeSchema :: "(string \<Rightarrow> bool) \<Rightarrow> (string \<Rightarrow> bool) \<Rightarrow> schema" where
  "serverEnvelopeSchema uuidv4 datetime = zunion
     [(''session.ready'', plainServerEnvelope uuidv4 ''session.ready'' (sessionReadyPayloadSchema uuidv4 datetime)),
      (''queue.joined'', plainServerEnvelope uuidv4 ''queue.joined'' queueJoinedPayloadSchema),
      (''queue.left'', plainServerEnvelope uuidv4 ''queue.left'' queueLeftPayloadSchema),
      (''match.found'', gameServerEnvelope uuidv4 ''match.found'' matchFoundPayloadSchema),
      (''game.snapshot'', gameServerEnvelope uuidv4 ''game.snapshot'' gameSnapshotPayloadSchema),
      (''game.started'', gameServerEnvelope uuidv4 ''game.started'' gameStartedPayloadSchema),
      (''move.accepted'', moveAcceptedEnvelopeSchema uuidv4),
      (''move.rejected'', moveRejectedEnvelopeSchema uuidv4),
      (''player.disconnected'', gameServerEnvelope uuidv4 ''player.disconnected'' playerDisconnectedPayloadSchema),
      (''player.reconnected'', gameServerEnvelope uuidv4 ''player.reconnected'' playerReconnectedPayloadSchema),
      (''game.ended'', gameServerEnvelope uuidv4 ''game.ended'' gameEndedPayloadSchema),
      (''heartbeat.pong'', plainServerEnvelope uuidv4 ''heartbeat.pong'' heartbeatPongPayloadSchema),
      (''server.error'', serverErrorEnvelopeSchema uuidv4)]"

section \<open>Acknowledgements\<close>

definition ackFields :: "(string \<Rightarrow> bool) \<Rightarrow> fields" where
  "ackFields uuidv4 =
     [req ''correlationId'' (uuidV4 uuidv4), req ''ok'' ztrue, req ''protocolVersion'' protocolVersion,
      req ''requestEventId'' (uuidV4 uuidv4)]"

definition ackSuccess :: "(string \<Rightarrow> bool) \<Rightarrow> string \<Rightarrow> schema \<Rightarrow> bool \<Rightarrow> schema" where
  "ackSuccess uuidv4 type payload requiresGameVersion = zstrict (ackFields uuidv4 @
     (if requiresGameVersion then [req ''gameVersion'' gameVersion] else []) @
     [req ''payload'' payload, req ''type'' (zlit type)])"

definition ackSuccessSchema :: "(string \<Rightarrow> bool) \<Rightarrow> (string \<Rightarrow> bool) \<Rightarrow> schema" where
  "ackSuccessSchema uuidv4 datetime = zunion
     [(''session.ready'', ackSuccess uuidv4 ''session.ready'' (sessionReadyPayloadSchema uuidv4 datetime) False),
      (''queue.joined'', ackSuccess uuidv4 ''queue.joined'' queueJoinedPayloadSchema False),
      (''queue.left'', ackSuccess uuidv4 ''queue.left'' queueLeftPayloadSchema False),
      (''game.snapshot'', ackSuccess uuidv4 ''game.snapshot'' gameSnapshotPayloadSchema True),
      (''move.accepted'', ackSuccess uuidv4 ''move.accepted'' moveAcceptedPayloadSchema True),
      (''game.ended'', ackSuccess uuidv4 ''game.ended'' gameEndedPayloadSchema True),
      (''heartbeat.pong'', ackSuccess uuidv4 ''heartbeat.pong'' heartbeatPongPayloadSchema False)]"

definition ackFailureSchema :: "(string \<Rightarrow> bool) \<Rightarrow> schema" where
  "ackFailureSchema uuidv4 = zstrict
     [req ''correlationId'' (uuidV4 uuidv4), req ''error'' protocolErrorSchema, opt ''gameVersion'' gameVersion,
      req ''ok'' zfalse, req ''protocolVersion'' protocolVersion, req ''requestEventId'' (uuidV4 uuidv4),
      req ''type'' (zenum [''server.error'', ''move.rejected''])]"

definition realtimeAckSchema :: "(string \<Rightarrow> bool) \<Rightarrow> (string \<Rightarrow> bool) \<Rightarrow> schema" where
  "realtimeAckSchema uuidv4 datetime j \<longleftrightarrow> ackSuccessSchema uuidv4 datetime j \<or> ackFailureSchema uuidv4 j"

section \<open>Rules\<close>

lemma zstrict_JObj:
  "zstrict fs (JObj kvs) \<longleftrightarrow> list_all (\<lambda>(k, _). k \<in> fst ` set fs) kvs \<and>
     list_all (\<lambda>(k, optional, p). case map_of kvs k of None \<Rightarrow> optional | Some v \<Rightarrow> p v) fs"
  by (simp add: zstrict_def)

lemma schema_simps [simp]:
  "zstring p (JStr s) = p s" "zint q (JNum n) = (isSafeInteger n \<and> q n)" "zenum vals (JStr s) = (s \<in> set vals)"
  "znullable r JNull = True" "znullable r (JStr s) = r (JStr s)" "znullable r (JObj kvs) = r (JObj kvs)"
  "zarray r (JArr js) = list_all r js" "zboolean (JBool b) = True" "zlit t (JStr s) = (s = t)"
  "ztrue (JBool b) = b" "zfalse (JBool b) = (\<not> b)" "znull JNull = True"
  by (auto simp: zstring_def zint_def zenum_def znullable_def zarray_def zboolean_def zlit_def ztrue_def zfalse_def znull_def)

lemmas zstrict_simps = zstrict_JObj req_def opt_def

lemma protocol_codes_complete [simp]: "c \<in> set PROTOCOL_ERROR_CODES"
  by (cases c) (simp_all add: PROTOCOL_ERROR_CODES_def)

lemmas field_schema_defs = uuidV4_def epochMs_def gameVersion_def clockMs_def positiveInt_def protocolVersion_def sized_def

end
