(* ===== verification/Game_Snapshot.thy ===== *)
theory Game_Snapshot
  imports Game_Repository Protocol_Schemas
begin

text \<open>
  The read side of \<open>src/src/modules/game/game-room.service.ts\<close> and the presenter
  \<open>src/src/modules/game/game-snapshot.presenter.ts\<close>: who may see a game, the clock a
  snapshot shows, and the payload sent to the client.
\<close>

section \<open>Reading a game\<close>

record GameSnapshotView = GameSnapshotRecord +
  sn_clocks :: ClockView

definition game_not_found :: thrown where
  "game_not_found = ServiceErr (serviceError GameServiceErrorCode.GAME_NOT_FOUND ''The requested game does not exist.'' False)"

definition not_a_player :: thrown where
  "not_a_player =
     ServiceErr (serviceError GameServiceErrorCode.NOT_A_PLAYER ''The authenticated guest is not a member of this game.'' False)"

definition is_member :: "string \<Rightarrow> GamePlayerRecord \<times> GamePlayerRecord \<Rightarrow> bool" where
  "is_member guestSessionId seats \<longleftrightarrow>
     list_ex (\<lambda>player. gp_guestSessionId player = guestSessionId) [fst seats, snd seats]"

definition authorize :: "tx_env \<Rightarrow> string \<Rightarrow> string \<Rightarrow> db \<Rightarrow> thrown + GameAllocation" where
  "authorize env gameId guestSessionId db =
     sbind (findById env gameId db) (\<lambda>found.
     case found of
       None \<Rightarrow> Inl game_not_found
     | Some allocation \<Rightarrow>
         if \<not> is_member guestSessionId (al_players allocation) then Inl not_a_player else Inr allocation)"

definition snapshotClock :: "GameRecord \<Rightarrow> GameClock" where
  "snapshotClock game =
     (let running = (if gm_status game = IN_PROGRESS \<or> gm_status game = RECONNECTING then Some (gm_turnColor game) else None) in
      \<lparr>blackMs = gm_blackClockMs game, incrementMs = gm_incrementMs game, running = running,
       turnStartedAt = (if running = None then None else map_option Date (gm_turnStartedAt game)),
       whiteMs = gm_whiteClockMs game\<rparr>)"

definition room_snapshot :: "tx_env \<Rightarrow> string \<Rightarrow> string \<Rightarrow> db \<Rightarrow> thrown + GameSnapshotView" where
  "room_snapshot env gameId guestSessionId db =
     sbind (findSnapshot env gameId db) (\<lambda>found.
     case found of
       None \<Rightarrow> Inl game_not_found
     | Some snapshot \<Rightarrow>
         if \<not> is_member guestSessionId (al_players (sn_allocation snapshot)) then Inl not_a_player
         else case clockViewAt (snapshotClock (al_game (sn_allocation snapshot))) (Date (sn_observedAt snapshot)) of
             Inl _ \<Rightarrow> Inl (ServiceErr (serviceError GAME_STATE_CORRUPT ''The persisted game clock is inconsistent.'' False))
           | Inr clocks \<Rightarrow> Inr (GameSnapshotRecord.extend snapshot \<lparr>sn_clocks = clocks\<rparr>))"

definition room_activeSnapshot :: "tx_env \<Rightarrow> tx_env \<Rightarrow> string \<Rightarrow> int \<Rightarrow> db \<Rightarrow> thrown + GameSnapshotView" where
  "room_activeSnapshot eligibility env guestSessionId now db =
     sbind (getGuestMatchEligibility eligibility guestSessionId now db) (\<lambda>e.
     case ge_activeGameId e of
       None \<Rightarrow> Inl (ServiceErr (serviceError GameServiceErrorCode.GAME_NOT_FOUND ''The guest has no active game.'' False))
     | Some gameId \<Rightarrow> room_snapshot env gameId guestSessionId db)"

section \<open>The payload\<close>

definition wireColor :: "PlayerColor \<Rightarrow> string" where
  "wireColor color = (if color = White then ''white'' else ''black'')"

definition publicPlayer :: "GamePlayerRecord \<Rightarrow> json" where
  "publicPlayer player = JObj
     [(''avatar'', JStr (gp_avatarKey player)), (''color'', JStr (wireColor (gp_color player))),
      (''connected'', JBool (gp_connectedAt player \<noteq> None)), (''name'', JStr (gp_displayName player))]"

text \<open>A number that is not a number is written as null.\<close>

definition getTime_json :: "jsdate \<Rightarrow> json" where
  "getTime_json d = (case getTime d of None \<Rightarrow> JNull | Some t \<Rightarrow> JNum t)"

definition wireMove :: "GameMove \<Rightarrow> json" where
  "wireMove move = JObj
     [(''color'', JStr (wireColor (gv_color move))), (''ply'', JNum (gv_ply move)), (''san'', JStr (gv_san move)),
      (''uci'', JStr (gv_uci move))]"

definition wireClocks :: "ClockView \<Rightarrow> json" where
  "wireClocks clocks = JObj
     [(''blackMs'', JNum (view_blackMs clocks)), (''running'', nullable (JStr \<circ> wireColor) (view_running clocks)),
      (''serverTime'', getTime_json (view_observedAt clocks)), (''whiteMs'', JNum (view_whiteMs clocks))]"

text \<open>\<open>None\<close> where the presenter throws.\<close>

definition present_snapshot :: "GameSnapshotView \<Rightarrow> string \<Rightarrow> json option" where
  "present_snapshot snapshot guestSessionId =
     (let (a, b) = al_players (sn_allocation snapshot); game = al_game (sn_allocation snapshot) in
      case (List.find (\<lambda>p. gp_guestSessionId p = guestSessionId) [a, b],
            List.find (\<lambda>p. gp_guestSessionId p \<noteq> guestSessionId) [a, b]) of
        (Some you, Some opponent) \<Rightarrow> Some (JObj
          [(''clocks'', wireClocks (sn_clocks snapshot)), (''currentFen'', JStr (gm_currentFen game)),
           (''initialFen'', JStr (gm_initialFen game)), (''moves'', JArr (map wireMove (sn_moves snapshot))),
           (''opponent'', publicPlayer opponent), (''result'', nullable (JStr \<circ> result_text) (gm_result game)),
           (''status'', JStr (status_text (gm_status game))),
           (''termination'', nullable (JStr \<circ> termination_text) (gm_termination game)),
           (''turn'', JStr (wireColor (gm_turnColor game))), (''you'', publicPlayer you)])
      | _ \<Rightarrow> None)"

end
