(* ===== verification/Redis_Store.thy ===== *)
theory Redis_Store
  imports Prelude "HOL-Library.List_Lexorder" "HOL-Library.Char_ord" "HOL-Library.Product_Lexorder"
    "HOL-Library.AList" "HOL-Library.Multiset"
begin

text \<open>
  Redis as the program uses it. The server is not part of the program, so it is
  a parameter: a record of the commands the program issues, over an abstract
  type of server states. \<open>redis_ok\<close> collects what the documentation of those
  commands says about the values they return, command by command.

  A script runs atomically, so within a script no key expires; the time to live
  that a command sets matters only through its sign, and a time that passes
  between scripts is a step to another state. Scores are integers (the program
  uses milliseconds), the values of a hash are texts or numbers.
\<close>

section \<open>Commands\<close>

datatype redis_value = RText string | RNumber int

record 'r redis =
  rd_get :: "string \<Rightarrow> 'r \<Rightarrow> string option"
  rd_zrange :: "string \<Rightarrow> 'r \<Rightarrow> (string \<times> int) list"
  rd_hgetall :: "string \<Rightarrow> 'r \<Rightarrow> (string \<times> redis_value) list"
  rd_set :: "string \<Rightarrow> string \<Rightarrow> int option \<Rightarrow> 'r \<Rightarrow> 'r"
  rd_del :: "string \<Rightarrow> 'r \<Rightarrow> 'r"
  rd_pexpire :: "string \<Rightarrow> int \<Rightarrow> 'r \<Rightarrow> 'r"
  rd_zadd :: "string \<Rightarrow> int \<Rightarrow> string \<Rightarrow> 'r \<Rightarrow> 'r"
  rd_zrem :: "string \<Rightarrow> string \<Rightarrow> 'r \<Rightarrow> 'r"
  rd_zremrangebyscore :: "string \<Rightarrow> int \<Rightarrow> 'r \<Rightarrow> 'r"
  rd_hset :: "string \<Rightarrow> (string \<times> redis_value) list \<Rightarrow> 'r \<Rightarrow> 'r"

text \<open>
  \<open>rd_zrange k\<close> is \<open>ZRANGE k 0 -1 WITHSCORES\<close>, \<open>rd_set k v (Some t)\<close> is
  \<open>SET k v PX t\<close>, \<open>rd_zrange_to R k n\<close> is \<open>ZRANGE k 0 n WITHSCORES\<close> and \<open>rd_zremrangebyscore k t\<close> is \<open>ZREMRANGEBYSCORE k -inf t\<close>. The
  other readings of a sorted set and of the existence of a key follow from these.
\<close>

definition rd_zscore :: "'r redis \<Rightarrow> string \<Rightarrow> string \<Rightarrow> 'r \<Rightarrow> int option" where
  "rd_zscore R k m s = map_of (rd_zrange R k s) m"

definition rd_zrank :: "'r redis \<Rightarrow> string \<Rightarrow> string \<Rightarrow> 'r \<Rightarrow> int option" where
  "rd_zrank R k m s =
     (if m \<in> fst ` set (rd_zrange R k s)
      then Some (int (length (takeWhile (\<lambda>x. fst x \<noteq> m) (rd_zrange R k s)))) else None)"

definition rd_zcard :: "'r redis \<Rightarrow> string \<Rightarrow> 'r \<Rightarrow> int" where
  "rd_zcard R k s = int (length (rd_zrange R k s))"

definition rd_zrange_to :: "'r redis \<Rightarrow> string \<Rightarrow> int \<Rightarrow> 'r \<Rightarrow> (string \<times> int) list" where
  "rd_zrange_to R k stop s =
     (let xs = rd_zrange R k s in take (nat ((if stop < 0 then int (length xs) + stop else stop) + 1)) xs)"

definition rd_zpopmin :: "'r redis \<Rightarrow> string \<Rightarrow> 'r \<Rightarrow> (string \<times> int) option \<times> 'r" where
  "rd_zpopmin R k s =
     (case rd_zrange R k s of [] \<Rightarrow> (None, s) | x # _ \<Rightarrow> (Some x, rd_zrem R k (fst x) s))"

definition rd_zadd_nx :: "'r redis \<Rightarrow> string \<Rightarrow> int \<Rightarrow> string \<Rightarrow> 'r \<Rightarrow> 'r" where
  "rd_zadd_nx R k score m s = (if rd_zscore R k m s = None then rd_zadd R k score m s else s)"

definition rd_exists :: "'r redis \<Rightarrow> string \<Rightarrow> 'r \<Rightarrow> bool" where
  "rd_exists R k s \<longleftrightarrow> rd_get R k s \<noteq> None \<or> rd_zrange R k s \<noteq> [] \<or> rd_hgetall R k s \<noteq> []"

section \<open>What the commands are documented to do\<close>

text \<open>Sorted sets list their members by score, ties in lexicographical order.\<close>

definition zkey :: "string \<times> int \<Rightarrow> int \<times> string" where
  "zkey x = (snd x, fst x)"

definition zset :: "(string \<times> int) list \<Rightarrow> bool" where
  "zset xs \<longleftrightarrow> sorted (map zkey xs) \<and> distinct (map fst xs)"

definition zremove :: "string \<Rightarrow> (string \<times> int) list \<Rightarrow> (string \<times> int) list" where
  "zremove m xs = filter (\<lambda>x. fst x \<noteq> m) xs"

definition zinsert :: "int \<Rightarrow> string \<Rightarrow> (string \<times> int) list \<Rightarrow> (string \<times> int) list" where
  "zinsert score m xs = insort_key zkey (m, score) (zremove m xs)"

definition positive_ttl :: "int option \<Rightarrow> bool" where
  "positive_ttl ttl \<longleftrightarrow> (case ttl of None \<Rightarrow> True | Some t \<Rightarrow> 0 < t)"

definition keys_law :: "'r redis \<Rightarrow> bool" where
  "keys_law R \<longleftrightarrow>
     (\<forall>k s. zset (rd_zrange R k s) \<and> distinct (map fst (rd_hgetall R k s)))"

definition set_law :: "'r redis \<Rightarrow> bool" where
  "set_law R \<longleftrightarrow>
     (\<forall>k v ttl s k'. positive_ttl ttl \<longrightarrow>
        rd_get R k' (rd_set R k v ttl s) = (if k' = k then Some v else rd_get R k' s) \<and>
        rd_zrange R k' (rd_set R k v ttl s) = (if k' = k then [] else rd_zrange R k' s) \<and>
        rd_hgetall R k' (rd_set R k v ttl s) = (if k' = k then [] else rd_hgetall R k' s))"

definition del_law :: "'r redis \<Rightarrow> bool" where
  "del_law R \<longleftrightarrow>
     (\<forall>k s k'. rd_get R k' (rd_del R k s) = (if k' = k then None else rd_get R k' s) \<and>
        rd_zrange R k' (rd_del R k s) = (if k' = k then [] else rd_zrange R k' s) \<and>
        rd_hgetall R k' (rd_del R k s) = (if k' = k then [] else rd_hgetall R k' s))"

definition pexpire_law :: "'r redis \<Rightarrow> bool" where
  "pexpire_law R \<longleftrightarrow>
     (\<forall>k t s k'. 0 < t \<longrightarrow> rd_get R k' (rd_pexpire R k t s) = rd_get R k' s \<and>
        rd_zrange R k' (rd_pexpire R k t s) = rd_zrange R k' s \<and>
        rd_hgetall R k' (rd_pexpire R k t s) = rd_hgetall R k' s)"

definition zadd_law :: "'r redis \<Rightarrow> bool" where
  "zadd_law R \<longleftrightarrow>
     (\<forall>k score m s k'. rd_get R k s = None \<and> rd_hgetall R k s = [] \<longrightarrow>
        rd_get R k' (rd_zadd R k score m s) = rd_get R k' s \<and>
        rd_zrange R k' (rd_zadd R k score m s) = (if k' = k then zinsert score m (rd_zrange R k s) else rd_zrange R k' s) \<and>
        rd_hgetall R k' (rd_zadd R k score m s) = rd_hgetall R k' s)"

definition zrem_law :: "'r redis \<Rightarrow> bool" where
  "zrem_law R \<longleftrightarrow>
     (\<forall>k m s k'. rd_get R k s = None \<and> rd_hgetall R k s = [] \<longrightarrow>
        rd_get R k' (rd_zrem R k m s) = rd_get R k' s \<and>
        rd_zrange R k' (rd_zrem R k m s) = (if k' = k then zremove m (rd_zrange R k s) else rd_zrange R k' s) \<and>
        rd_hgetall R k' (rd_zrem R k m s) = rd_hgetall R k' s)"

definition zremrangebyscore_law :: "'r redis \<Rightarrow> bool" where
  "zremrangebyscore_law R \<longleftrightarrow>
     (\<forall>k t s k'. rd_get R k s = None \<and> rd_hgetall R k s = [] \<longrightarrow>
        rd_get R k' (rd_zremrangebyscore R k t s) = rd_get R k' s \<and>
        rd_zrange R k' (rd_zremrangebyscore R k t s) =
          (if k' = k then filter (\<lambda>x. t < snd x) (rd_zrange R k s) else rd_zrange R k' s) \<and>
        rd_hgetall R k' (rd_zremrangebyscore R k t s) = rd_hgetall R k' s)"

definition hset_law :: "'r redis \<Rightarrow> bool" where
  "hset_law R \<longleftrightarrow>
     (\<forall>k fs s k'. rd_get R k s = None \<and> rd_zrange R k s = [] \<longrightarrow>
        rd_get R k' (rd_hset R k fs s) = rd_get R k' s \<and>
        rd_zrange R k' (rd_hset R k fs s) = rd_zrange R k' s \<and>
        (k' \<noteq> k \<longrightarrow> rd_hgetall R k' (rd_hset R k fs s) = rd_hgetall R k' s) \<and>
        map_of (rd_hgetall R k (rd_hset R k fs s)) = map_of (rd_hgetall R k s) ++ map_of fs)"

definition redis_ok :: "'r redis \<Rightarrow> bool" where
  "redis_ok R \<longleftrightarrow> keys_law R \<and> set_law R \<and> del_law R \<and> pexpire_law R \<and>
     zadd_law R \<and> zrem_law R \<and> zremrangebyscore_law R \<and> hset_law R"

named_theorems redis_laws \<open>what the commands return after another command\<close>

lemma redis_set [redis_laws]:
  assumes "redis_ok R" and "positive_ttl ttl"
  shows "rd_get R k' (rd_set R k v ttl s) = (if k' = k then Some v else rd_get R k' s)"
    "rd_zrange R k' (rd_set R k v ttl s) = (if k' = k then [] else rd_zrange R k' s)"
    "rd_hgetall R k' (rd_set R k v ttl s) = (if k' = k then [] else rd_hgetall R k' s)"
  using assms by (simp_all add: redis_ok_def set_law_def)

lemma redis_del [redis_laws]:
  assumes "redis_ok R"
  shows "rd_get R k' (rd_del R k s) = (if k' = k then None else rd_get R k' s)"
    "rd_zrange R k' (rd_del R k s) = (if k' = k then [] else rd_zrange R k' s)"
    "rd_hgetall R k' (rd_del R k s) = (if k' = k then [] else rd_hgetall R k' s)"
  using assms by (simp_all add: redis_ok_def del_law_def)

lemma redis_pexpire [redis_laws]:
  assumes "redis_ok R" and "0 < t"
  shows "rd_get R k' (rd_pexpire R k t s) = rd_get R k' s"
    "rd_zrange R k' (rd_pexpire R k t s) = rd_zrange R k' s"
    "rd_hgetall R k' (rd_pexpire R k t s) = rd_hgetall R k' s"
  using assms by (simp_all add: redis_ok_def pexpire_law_def)

lemma redis_zadd [redis_laws]:
  assumes "redis_ok R" and "rd_get R k s = None" and "rd_hgetall R k s = []"
  shows "rd_get R k' (rd_zadd R k score m s) = rd_get R k' s"
    "rd_zrange R k' (rd_zadd R k score m s) = (if k' = k then zinsert score m (rd_zrange R k s) else rd_zrange R k' s)"
    "rd_hgetall R k' (rd_zadd R k score m s) = rd_hgetall R k' s"
  using assms by (simp_all add: redis_ok_def zadd_law_def)

lemma redis_zrem [redis_laws]:
  assumes "redis_ok R" and "rd_get R k s = None" and "rd_hgetall R k s = []"
  shows "rd_get R k' (rd_zrem R k m s) = rd_get R k' s"
    "rd_zrange R k' (rd_zrem R k m s) = (if k' = k then zremove m (rd_zrange R k s) else rd_zrange R k' s)"
    "rd_hgetall R k' (rd_zrem R k m s) = rd_hgetall R k' s"
  using assms by (simp_all add: redis_ok_def zrem_law_def)

lemma redis_zremrangebyscore [redis_laws]:
  assumes "redis_ok R" and "rd_get R k s = None" and "rd_hgetall R k s = []"
  shows "rd_get R k' (rd_zremrangebyscore R k t s) = rd_get R k' s"
    "rd_zrange R k' (rd_zremrangebyscore R k t s) =
       (if k' = k then filter (\<lambda>x. t < snd x) (rd_zrange R k s) else rd_zrange R k' s)"
    "rd_hgetall R k' (rd_zremrangebyscore R k t s) = rd_hgetall R k' s"
  using assms by (simp_all add: redis_ok_def zremrangebyscore_law_def)

lemma redis_hset [redis_laws]:
  assumes "redis_ok R" and "rd_get R k s = None" and "rd_zrange R k s = []"
  shows "rd_get R k' (rd_hset R k fs s) = rd_get R k' s"
    "rd_zrange R k' (rd_hset R k fs s) = rd_zrange R k' s"
    "k' \<noteq> k \<Longrightarrow> rd_hgetall R k' (rd_hset R k fs s) = rd_hgetall R k' s"
    "map_of (rd_hgetall R k (rd_hset R k fs s)) = map_of (rd_hgetall R k s) ++ map_of fs"
  using assms by (simp_all add: redis_ok_def hset_law_def)

lemma redis_zset: "redis_ok R \<Longrightarrow> zset (rd_zrange R k s)"
  by (simp add: redis_ok_def keys_law_def)

section \<open>Sorted sets\<close>

lemma zset_Nil [simp]: "zset []"
  by (simp add: zset_def)

lemma zset_Cons:
  "zset (x # xs) \<longleftrightarrow> (\<forall>y \<in> set xs. zkey x \<le> zkey y \<and> fst y \<noteq> fst x) \<and> zset xs"
proof -
  have "fst x \<notin> fst ` set xs \<longleftrightarrow> (\<forall>y \<in> set xs. fst y \<noteq> fst x)" unfolding image_iff by metis
  then show ?thesis by (simp add: zset_def ball_conj_distrib) blast
qed

lemma zset_append:
  "zset (xs @ ys) \<longleftrightarrow> zset xs \<and> zset ys \<and> (\<forall>x \<in> set xs. \<forall>y \<in> set ys. zkey x \<le> zkey y \<and> fst y \<noteq> fst x)"
  by (induction xs) (auto simp: zset_Cons)

lemma zset_filter: "zset xs \<Longrightarrow> zset (filter P xs)"
  by (induction xs) (auto simp: zset_Cons)

lemma zremove_absent: "m \<notin> fst ` set xs \<Longrightarrow> zremove m xs = xs"
  by (auto simp: zremove_def filter_id_conv)

lemma zremove_head [simp]: "zset (x # xs) \<Longrightarrow> zremove (fst x) (x # xs) = xs"
  by (auto simp: zset_Cons zremove_def filter_id_conv)

lemma zset_zremove: "zset xs \<Longrightarrow> zset (zremove m xs)"
  by (simp add: zremove_def zset_filter)

lemma zinsert_front: "zset (x # xs) \<Longrightarrow> zinsert (snd x) (fst x) xs = x # xs"
proof -
  assume z: "zset (x # xs)"
  then have "zremove (fst x) xs = xs" by (intro zremove_absent) (auto simp: zset_Cons)
  with z show ?thesis by (cases xs) (auto simp: zinsert_def zset_Cons)
qed

lemma set_zinsert: "set (zinsert sc m xs) = insert (m, sc) (set (zremove m xs))"
  by (simp add: zinsert_def set_insort_key)

lemma zset_zinsert: "zset xs \<Longrightarrow> zset (zinsert sc m xs)"
proof -
  assume "zset xs"
  then have "sorted (map zkey (zremove m xs))" "distinct (map fst (zremove m xs))"
    using zset_zremove by (simp_all add: zset_def)
  moreover have "mset (map fst (insort_key zkey (m, sc) ys)) = mset (m # map fst ys)" for ys
    by simp
  then have "distinct (map fst (insort_key zkey (m, sc) ys)) \<longleftrightarrow> distinct (m # map fst ys)" for ys
    by (metis mset_eq_imp_distinct_iff)
  ultimately show ?thesis by (auto simp: zset_def zinsert_def sorted_insort_key zremove_def)
qed

lemma zset_unique: "zset xs \<Longrightarrow> x \<in> set xs \<Longrightarrow> y \<in> set xs \<Longrightarrow> fst x = fst y \<Longrightarrow> x = y"
  unfolding zset_def by (metis eq_key_imp_eq_value prod.collapse)

section \<open>A server for the witnesses\<close>

text \<open>Keys and their contents; lists of a sorted set or a hash in any order.\<close>

record sample_state =
  ss_strings :: "(string \<times> string) list"
  ss_zsets :: "(string \<times> (string \<times> int) list) list"
  ss_hashes :: "(string \<times> (string \<times> redis_value) list) list"

definition ss_lookup :: "(string \<times> 'a list) list \<Rightarrow> string \<Rightarrow> 'a list" where
  "ss_lookup xs k = (case map_of xs k of None \<Rightarrow> [] | Some v \<Rightarrow> v)"

definition ss_remove :: "string \<Rightarrow> (string \<times> 'a) list \<Rightarrow> (string \<times> 'a) list" where
  "ss_remove k xs = filter (\<lambda>x. fst x \<noteq> k) xs"

definition ss_put :: "string \<Rightarrow> 'a \<Rightarrow> (string \<times> 'a) list \<Rightarrow> (string \<times> 'a) list" where
  "ss_put k v xs = (k, v) # ss_remove k xs"

definition sample_redis :: "sample_state redis" where
  "sample_redis = \<lparr>
     rd_get = (\<lambda>k s. map_of (ss_strings s) k),
     rd_zrange = (\<lambda>k s. sort_key zkey (AList.clearjunk (ss_lookup (ss_zsets s) k))),
     rd_hgetall = (\<lambda>k s. AList.clearjunk (ss_lookup (ss_hashes s) k)),
     rd_set = (\<lambda>k v ttl s. \<lparr>ss_strings = ss_put k v (ss_strings s), ss_zsets = ss_remove k (ss_zsets s),
       ss_hashes = ss_remove k (ss_hashes s)\<rparr>),
     rd_del = (\<lambda>k s. \<lparr>ss_strings = ss_remove k (ss_strings s), ss_zsets = ss_remove k (ss_zsets s),
       ss_hashes = ss_remove k (ss_hashes s)\<rparr>),
     rd_pexpire = (\<lambda>k t s. s),
     rd_zadd = (\<lambda>k sc m s. s\<lparr>ss_zsets := ss_put k ((m, sc) # ss_lookup (ss_zsets s) k) (ss_zsets s)\<rparr>),
     rd_zrem = (\<lambda>k m s. s\<lparr>ss_zsets := ss_put k (filter (\<lambda>x. fst x \<noteq> m) (ss_lookup (ss_zsets s) k)) (ss_zsets s)\<rparr>),
     rd_zremrangebyscore = (\<lambda>k t s. s\<lparr>ss_zsets := ss_put k
       (filter (\<lambda>x. t < snd x) (AList.clearjunk (ss_lookup (ss_zsets s) k))) (ss_zsets s)\<rparr>),
     rd_hset = (\<lambda>k fs s. s\<lparr>ss_hashes := ss_put k (fs @ ss_lookup (ss_hashes s) k) (ss_hashes s)\<rparr>)\<rparr>"

definition sample_redis_empty :: sample_state where
  "sample_redis_empty = \<lparr>ss_strings = [], ss_zsets = [], ss_hashes = []\<rparr>"

lemma map_of_ss [simp]:
  "map_of (ss_remove k xs) k' = (if k' = k then None else map_of xs k')"
  "map_of (ss_put k v xs) k' = (if k' = k then Some v else map_of xs k')"
proof -
  show r: "map_of (ss_remove k xs) k' = (if k' = k then None else map_of xs k')"
    by (induction xs) (auto simp: ss_remove_def)
  then show "map_of (ss_put k v xs) k' = (if k' = k then Some v else map_of xs k')"
    by (simp add: ss_put_def)
qed

lemma ss_lookup_simps [simp]:
  "ss_lookup (ss_remove k xs) k' = (if k' = k then [] else ss_lookup xs k')"
  "ss_lookup (ss_put k v xs) k' = (if k' = k then v else ss_lookup xs k')"
  by (simp_all add: ss_lookup_def)

lemma clearjunk_remove: "AList.clearjunk (filter (\<lambda>x. fst x \<noteq> m) xs) = filter (\<lambda>x. fst x \<noteq> m) (AList.clearjunk xs)"
  using AList.clearjunk_delete [of m xs] by (simp add: AList.delete_eq case_prod_unfold eq_commute)

lemma clearjunk_distinct: "distinct (map fst xs) \<Longrightarrow> AList.clearjunk xs = xs"
  by (simp add: AList.distinct_clearjunk_id)

lemma sort_clearjunk_zset: "zset (sort_key zkey (AList.clearjunk xs))"
proof -
  have "mset (map fst (sort_key zkey (AList.clearjunk xs))) = mset (map fst (AList.clearjunk xs))" by simp
  with AList.distinct_clearjunk [of xs] show ?thesis
    unfolding zset_def by (metis mset_eq_imp_distinct_iff sorted_sort_key)
qed

lemma sample_zadd:
  "sort_key zkey (AList.clearjunk ((m, sc) # xs)) = zinsert sc m (sort_key zkey (AList.clearjunk xs))"
  using clearjunk_remove [of m xs]
  by (simp add: zinsert_def zremove_def filter_sort AList.delete_eq case_prod_unfold eq_commute)

lemma sample_redis_ok: "redis_ok sample_redis"
proof -
  have [simp]: "distinct (map fst (filter P (AList.clearjunk xs)))" for P and xs :: "(string \<times> int) list"
    by (simp add: distinct_map_filter AList.distinct_clearjunk)
  note laws = sample_redis_def sort_clearjunk_zset AList.distinct_clearjunk sample_zadd zremove_def
    clearjunk_remove clearjunk_distinct filter_sort AList.map_of_clearjunk
  have "keys_law sample_redis" "set_law sample_redis" "del_law sample_redis" "pexpire_law sample_redis"
    by (simp_all add: keys_law_def set_law_def del_law_def pexpire_law_def laws)
  moreover have "zadd_law sample_redis"
    by (simp add: zadd_law_def laws del: AList.clearjunk.simps)
  moreover have "zrem_law sample_redis" "zremrangebyscore_law sample_redis"
    by (simp_all add: zrem_law_def zremrangebyscore_law_def laws)
  moreover have "hset_law sample_redis"
    by (simp add: hset_law_def laws)
  ultimately show ?thesis by (simp add: redis_ok_def)
qed

end
