(* ===== verification/Matchmaking_Scripts.thy ===== *)
theory Matchmaking_Scripts
  imports Redis_Store
begin

text \<open>
  The matchmaking types of \<open>src/src/modules/matchmaking/domain\<close>, the Redis keys
  of \<open>matchmaking-script.service.ts\<close> and the seven Lua scripts under
  \<open>src/src/modules/matchmaking/infrastructure/lua\<close>. A script is a function of its
  \<open>KEYS\<close>, its \<open>ARGV\<close> and the state of the server; it returns the table it
  encodes, or \<open>None\<close> where it raises a Lua error, and the new state. Numeric
  arguments are passed as numbers, not as their decimal text.
\<close>

section \<open>Types\<close>

datatype MatchmakingErrorCode =
    ALREADY_IN_GAME | DEPENDENCY_UNAVAILABLE | MATCH_ALLOCATION_CONFLICT | NOT_PRESENT | RESERVATION_MISMATCH

datatype MatchmakingError = MatchmakingError (me_code: MatchmakingErrorCode) (me_message: string) (me_retryable: bool)

datatype MatchMode = blitz

primrec mode_text :: "MatchMode \<Rightarrow> string" where
  "mode_text blitz = ''blitz''"

datatype QueueExitReason = disconnected | stale | timed_out

text \<open>\<open>timed_out\<close> is the reason the source writes \<open>'timeout'\<close>.\<close>

record MatchReservation =
  rv_a :: string
  rv_aScore :: int
  rv_b :: string
  rv_bScore :: int
  rv_createdAt :: int
  rv_gameId :: string
  rv_matchId :: string
  rv_mode :: MatchMode

record RemovedQueueGuest =
  rq_guestSessionId :: string
  rq_reason :: QueueExitReason

record QueueJoin =
  qj_duplicate :: bool
  qj_position :: int
  qj_since :: int

record RequeuedGuest =
  rqg_guestSessionId :: string
  rqg_since :: int

section \<open>Keys\<close>

definition activeGameKey :: "string \<Rightarrow> string" where
  "activeGameKey guest = ''user:'' @ guest @ '':active-game''"

definition guardKey :: "string \<Rightarrow> string" where
  "guardKey guest = ''mm:queued:'' @ guest"

definition presenceKey :: "string \<Rightarrow> string" where
  "presenceKey guest = ''presence:'' @ guest"

definition queueKey :: "MatchMode \<Rightarrow> string" where
  "queueKey mode = ''mm:queue:'' @ mode_text mode"

definition reservationKey :: "string \<Rightarrow> string" where
  "reservationKey matchId = ''match:'' @ matchId @ '':reservation''"

definition stateKey :: "string \<Rightarrow> string" where
  "stateKey guest = ''user:'' @ guest @ '':state''"

lemmas key_defs = activeGameKey_def guardKey_def presenceKey_def queueKey_def reservationKey_def stateKey_def

text \<open>Different guests, matches and purposes have different keys, whatever text the ids are.\<close>

lemma key_inject [simp]:
  "activeGameKey a = activeGameKey b \<longleftrightarrow> a = b" "guardKey a = guardKey b \<longleftrightarrow> a = b"
  "presenceKey a = presenceKey b \<longleftrightarrow> a = b" "queueKey m = queueKey m' \<longleftrightarrow> m = m'"
  "reservationKey a = reservationKey b \<longleftrightarrow> a = b" "stateKey a = stateKey b \<longleftrightarrow> a = b"
  by (simp_all add: key_defs) (cases m; cases m'; simp)

lemma user_keys_disjoint: "stateKey a \<noteq> activeGameKey b"
proof
  assume "stateKey a = activeGameKey b"
  then have "last (stateKey a) = last (activeGameKey b)"
    "last (butlast (stateKey a)) = last (butlast (activeGameKey b))" by simp_all
  then show False by (simp add: key_defs butlast_append)
qed

lemma keys_disjoint [simp]:
  "activeGameKey a \<noteq> guardKey b" "activeGameKey a \<noteq> presenceKey b" "activeGameKey a \<noteq> queueKey m"
  "activeGameKey a \<noteq> reservationKey b" "activeGameKey a \<noteq> stateKey b"
  "guardKey a \<noteq> activeGameKey b" "guardKey a \<noteq> presenceKey b" "guardKey a \<noteq> queueKey m"
  "guardKey a \<noteq> reservationKey b" "guardKey a \<noteq> stateKey b"
  "presenceKey a \<noteq> activeGameKey b" "presenceKey a \<noteq> guardKey b" "presenceKey a \<noteq> queueKey m"
  "presenceKey a \<noteq> reservationKey b" "presenceKey a \<noteq> stateKey b"
  "queueKey m \<noteq> activeGameKey b" "queueKey m \<noteq> guardKey b" "queueKey m \<noteq> presenceKey b"
  "queueKey m \<noteq> reservationKey b" "queueKey m \<noteq> stateKey b"
  "reservationKey a \<noteq> activeGameKey b" "reservationKey a \<noteq> guardKey b" "reservationKey a \<noteq> presenceKey b"
  "reservationKey a \<noteq> queueKey m" "reservationKey a \<noteq> stateKey b"
  "stateKey a \<noteq> activeGameKey b" "stateKey a \<noteq> guardKey b" "stateKey a \<noteq> presenceKey b" "stateKey a \<noteq> queueKey m"
  "stateKey a \<noteq> reservationKey b"
  using user_keys_disjoint [of a b] user_keys_disjoint [of b a] by (auto simp: key_defs)

section \<open>Scripts\<close>

text \<open>What stands in \<open>KEYS\<close>.\<close>

type_synonym rkey = string

type_synonym ('r, 'a) lua = "'r \<Rightarrow> 'a option \<times> 'r"

datatype enqueue_response = enqueue_error | enqueue_queued QueueJoin

definition enqueue_lua ::
    "'r redis \<Rightarrow> rkey \<Rightarrow> rkey \<Rightarrow> rkey \<Rightarrow> rkey \<Rightarrow>
     string \<Rightarrow> string \<Rightarrow> int \<Rightarrow> int \<Rightarrow> int \<Rightarrow>
     ('r, enqueue_response) lua" where
  "enqueue_lua R queue guard state active guest mode score guardTtl stateTtl s =
     (if rd_get R active s \<noteq> None \<or> rd_get R state s = Some ''RESERVED'' \<or> rd_get R state s = Some ''IN_GAME'' then
        (Some enqueue_error, s)
      else case rd_zscore R queue guest s of
          Some since \<Rightarrow>
            (let s1 = rd_set R state ''QUEUED'' (Some stateTtl) (rd_set R guard mode (Some guardTtl) s) in
             case rd_zrank R queue guest s1 of
               None \<Rightarrow> (None, s1)
             | Some rank \<Rightarrow>
                 (Some (enqueue_queued \<lparr>qj_duplicate = True, qj_position = rank + 1, qj_since = since\<rparr>), s1))
        | None \<Rightarrow>
            (let s1 = rd_set R state ''QUEUED'' (Some stateTtl)
                 (rd_set R guard mode (Some guardTtl) (rd_zadd_nx R queue score guest s)) in
             case rd_zrank R queue guest s1 of
               None \<Rightarrow> (None, s1)
             | Some rank \<Rightarrow>
                 (Some (enqueue_queued \<lparr>qj_duplicate = False, qj_position = rank + 1, qj_since = score\<rparr>), s1)))"

definition leave_lua ::
    "'r redis \<Rightarrow> rkey \<Rightarrow> rkey \<Rightarrow> rkey \<Rightarrow> string \<Rightarrow> int \<Rightarrow> ('r, bool) lua" where
  "leave_lua R queue guard state guest stateTtl s =
     (let removed = rd_zscore R queue guest s \<noteq> None;
          s1 = rd_del R guard (rd_zrem R queue guest s);
          s2 = (if rd_get R state s1 = Some ''QUEUED'' then rd_set R state ''IDLE'' (Some stateTtl) s1 else s1) in
      (Some removed, s2))"

text \<open>The function \<open>is_present\<close> that three of the scripts define.\<close>

definition is_present :: "'r redis \<Rightarrow> int \<Rightarrow> string \<Rightarrow> 'r \<Rightarrow> bool \<times> 'r" where
  "is_present R now key s =
     (let s1 = rd_zremrangebyscore R key now s; count = rd_zcard R key s1 in
      (0 < count, if count = 0 then rd_del R key s1 else s1))"

datatype match_response =
    match_error | no_match "RemovedQueueGuest list" | matched MatchReservation "RemovedQueueGuest list"

definition try_match_reason ::
    "'r redis \<Rightarrow> string \<Rightarrow> int \<Rightarrow> int \<Rightarrow> string \<Rightarrow> int \<Rightarrow> 'r \<Rightarrow> QueueExitReason option \<times> 'r" where
  "try_match_reason R mode now maxWait guest score s =
     (if score \<le> now - maxWait then (Some timed_out, s)
      else case is_present R now (presenceKey guest) s of
          (False, s1) \<Rightarrow> (Some disconnected, s1)
        | (True, s1) \<Rightarrow>
            if rd_get R (stateKey guest) s1 \<noteq> Some ''QUEUED'' \<or> rd_get R (guardKey guest) s1 \<noteq> Some mode \<or>
               rd_exists R (activeGameKey guest) s1
            then (Some stale, s1) else (None, s1))"

definition discard :: "'r redis \<Rightarrow> string \<Rightarrow> 'r \<Rightarrow> 'r" where
  "discard R guest s =
     (let s1 = rd_del R (guardKey guest) s in
      if rd_get R (stateKey guest) s1 = Some ''QUEUED'' then rd_del R (stateKey guest) s1 else s1)"

fun try_match_scan ::
    "'r redis \<Rightarrow> string \<Rightarrow> string \<Rightarrow> int \<Rightarrow> int \<Rightarrow> nat \<Rightarrow> (string \<times> int) list \<Rightarrow> RemovedQueueGuest list \<Rightarrow> 'r \<Rightarrow>
     (string \<times> int) list \<times> RemovedQueueGuest list \<times> 'r" where
  "try_match_scan R queue mode now maxWait 0 candidates discarded s = (candidates, discarded, s)"
| "try_match_scan R queue mode now maxWait (Suc n) candidates discarded s =
     (if length candidates = 2 then (candidates, discarded, s)
      else case rd_zpopmin R queue s of
          (None, s1) \<Rightarrow> (candidates, discarded, s1)
        | (Some (guest, score), s1) \<Rightarrow>
            (case try_match_reason R mode now maxWait guest score s1 of
               (Some reason, s2) \<Rightarrow>
                 try_match_scan R queue mode now maxWait n candidates
                   (discarded @ [\<lparr>rq_guestSessionId = guest, rq_reason = reason\<rparr>]) (discard R guest s2)
             | (None, s2) \<Rightarrow>
                 try_match_scan R queue mode now maxWait n (candidates @ [(guest, score)]) discarded s2))"

fun requeue_candidates :: "'r redis \<Rightarrow> string \<Rightarrow> int \<Rightarrow> (string \<times> int) list \<Rightarrow> 'r \<Rightarrow> 'r" where
  "requeue_candidates R queue guardTtl [] s = s"
| "requeue_candidates R queue guardTtl ((guest, score) # cs) s =
     requeue_candidates R queue guardTtl cs
       (rd_pexpire R (guardKey guest) guardTtl (rd_zadd R queue score guest s))"

definition reservation_fields :: "MatchReservation \<Rightarrow> (string \<times> redis_value) list" where
  "reservation_fields rv =
     [(''matchId'', RText (rv_matchId rv)), (''gameId'', RText (rv_gameId rv)),
      (''mode'', RText (mode_text (rv_mode rv))), (''a'', RText (rv_a rv)), (''b'', RText (rv_b rv)),
      (''aScore'', RNumber (rv_aScore rv)), (''bScore'', RNumber (rv_bScore rv)),
      (''createdAt'', RNumber (rv_createdAt rv))]"

definition try_match_lua ::
    "'r redis \<Rightarrow> string \<Rightarrow> string \<Rightarrow> MatchMode \<Rightarrow> int \<Rightarrow> int \<Rightarrow> string \<Rightarrow> string \<Rightarrow> int \<Rightarrow> int \<Rightarrow> int \<Rightarrow>
     ('r, match_response) lua" where
  "try_match_lua R queue reservation mode now maxWait matchId gameId reservationTtl guardTtl maxScan s =
     (if rd_exists R reservation s then (Some match_error, s)
      else case try_match_scan R queue (mode_text mode) now maxWait (nat maxScan) [] [] s of
          ((a, aScore) # (b, bScore) # _, discarded, s1) \<Rightarrow>
            (if a = b then (Some (no_match []), rd_zadd R queue aScore a s1)
             else
               (let rv = \<lparr>rv_a = a, rv_aScore = aScore, rv_b = b, rv_bScore = bScore, rv_createdAt = now,
                    rv_gameId = gameId, rv_matchId = matchId, rv_mode = mode\<rparr>;
                    s2 = rd_set R (stateKey a) ''RESERVED'' (Some reservationTtl) s1;
                    s3 = rd_set R (stateKey b) ''RESERVED'' (Some reservationTtl) s2;
                    s4 = rd_del R (guardKey b) (rd_del R (guardKey a) s3);
                    s5 = rd_hset R reservation (reservation_fields rv) s4;
                    s6 = rd_pexpire R reservation reservationTtl s5 in
                (Some (matched rv discarded), s6)))
        | (candidates, discarded, s1) \<Rightarrow>
            (Some (no_match discarded), requeue_candidates R queue guardTtl candidates s1))"

text \<open>Scripts that compare a stored reservation with the expected one.\<close>

definition reservation_matches :: "(string \<times> redis_value) list \<Rightarrow> string \<Rightarrow> string \<Rightarrow> string \<Rightarrow> string \<Rightarrow> bool" where
  "reservation_matches reservation matchId a b gameId \<longleftrightarrow>
     (let values = map_of reservation in
      values ''matchId'' = Some (RText matchId) \<and> values ''a'' = Some (RText a) \<and>
      values ''b'' = Some (RText b) \<and> values ''gameId'' = Some (RText gameId))"

datatype finalize_response = finalize_error | finalized bool

definition finalize_lua ::
    "'r redis \<Rightarrow> rkey \<Rightarrow> rkey \<Rightarrow> rkey \<Rightarrow> rkey \<Rightarrow>
     rkey \<Rightarrow> rkey \<Rightarrow> rkey \<Rightarrow> string \<Rightarrow> string \<Rightarrow>
     string \<Rightarrow> string \<Rightarrow> int \<Rightarrow> ('r, finalize_response) lua" where
  "finalize_lua R reservation guardA stateA activeA stateB activeB guardB matchId a b gameId stateTtl s =
     (if rd_hgetall R reservation s = [] then
        (if rd_get R activeA s = Some gameId \<and> rd_get R activeB s = Some gameId then (Some (finalized True), s)
         else (Some finalize_error, s))
      else if \<not> reservation_matches (rd_hgetall R reservation s) matchId a b gameId then (Some finalize_error, s)
      else
        (let s1 = rd_set R stateA ''IN_GAME'' (Some stateTtl) s;
             s2 = rd_set R activeA gameId None s1;
             s3 = rd_set R stateB ''IN_GAME'' (Some stateTtl) s2;
             s4 = rd_set R activeB gameId None s3 in
         (Some (finalized False), rd_del R guardB (rd_del R guardA (rd_del R reservation s4)))))"

datatype rollback_response = rollback_error | rolled_back "RequeuedGuest list"

definition is_settled ::
    "'r redis \<Rightarrow> rkey \<Rightarrow> string \<Rightarrow> string \<Rightarrow> string \<Rightarrow>
     rkey \<Rightarrow> rkey \<Rightarrow> rkey \<Rightarrow> 'r \<Rightarrow> bool" where
  "is_settled R queue mode guest assignment stateK activeK guardK s \<longleftrightarrow>
     (if assignment \<noteq> '''' then rd_get R activeK s = Some assignment \<and> rd_get R stateK s = Some ''IN_GAME''
      else
        (let score = rd_zscore R queue guest s;
             queued = score \<noteq> None \<and> rd_get R stateK s = Some ''QUEUED'' \<and> rd_get R guardK s = Some mode;
             idle = score = None \<and> rd_get R activeK s = None \<and> rd_get R stateK s \<noteq> Some ''RESERVED'' in
         queued \<or> idle))"

definition restore ::
    "'r redis \<Rightarrow> rkey \<Rightarrow> string \<Rightarrow> int \<Rightarrow> int \<Rightarrow>
     int \<Rightarrow> string \<Rightarrow> int \<Rightarrow> string \<Rightarrow> bool \<Rightarrow>
     rkey \<Rightarrow> rkey \<Rightarrow> rkey \<Rightarrow> rkey \<Rightarrow> 'r \<Rightarrow>
     RequeuedGuest list \<times> 'r" where
  "restore R queue mode now guardTtl stateTtl guest score assignment eligible stateK activeK guardK presenceK s =
     (if assignment \<noteq> '''' then
        ([], rd_set R activeK assignment None
               (rd_set R stateK ''IN_GAME'' (Some stateTtl) (rd_del R guardK (rd_zrem R queue guest s))))
      else
        (let s1 = rd_del R activeK s;
             (present, s2) = (if eligible then is_present R now presenceK s1 else (False, s1)) in
         if present then
           (let s3 = (case rd_zscore R queue guest s2 of
                  None \<Rightarrow> rd_zadd R queue score guest s2
                | Some current \<Rightarrow> if score < current then rd_zadd R queue score guest s2 else s2) in
            ([\<lparr>rqg_guestSessionId = guest, rqg_since = score\<rparr>],
             rd_set R stateK ''QUEUED'' (Some stateTtl) (rd_set R guardK mode (Some guardTtl) s3)))
         else
           ([], rd_set R stateK ''IDLE'' (Some stateTtl) (rd_del R guardK (rd_zrem R queue guest s2)))))"

definition rollback_lua ::
    "'r redis \<Rightarrow> rkey \<Rightarrow> rkey \<Rightarrow> rkey \<Rightarrow> rkey \<Rightarrow>
     rkey \<Rightarrow> rkey \<Rightarrow> rkey \<Rightarrow> rkey \<Rightarrow> rkey \<Rightarrow>
     rkey \<Rightarrow> string \<Rightarrow> string \<Rightarrow> string \<Rightarrow> string \<Rightarrow>
     string \<Rightarrow> int \<Rightarrow> int \<Rightarrow> int \<Rightarrow> int \<Rightarrow> int \<Rightarrow>
     string \<Rightarrow> string \<Rightarrow> bool \<Rightarrow> bool \<Rightarrow> ('r, rollback_response) lua" where
  "rollback_lua R queue reservation stateA activeA guardA presenceA stateB activeB guardB presenceB
     matchId a b gameId mode aScore bScore now guardTtl stateTtl assignmentA assignmentB eligibleA eligibleB s =
     (if rd_hgetall R reservation s = [] then
        (if is_settled R queue mode a assignmentA stateA activeA guardA s \<and>
            is_settled R queue mode b assignmentB stateB activeB guardB s
         then (Some (rolled_back []), s) else (Some rollback_error, s))
      else if \<not> reservation_matches (rd_hgetall R reservation s) matchId a b gameId then (Some rollback_error, s)
      else
        (let (requeuedA, s1) = restore R queue mode now guardTtl stateTtl a aScore assignmentA eligibleA
               stateA activeA guardA presenceA s;
             (requeuedB, s2) = restore R queue mode now guardTtl stateTtl b bScore assignmentB eligibleB
               stateB activeB guardB presenceB s1 in
         (Some (rolled_back (requeuedA @ requeuedB)), rd_del R reservation s2)))"

definition sweep_reason ::
    "'r redis \<Rightarrow> string \<Rightarrow> int \<Rightarrow> int \<Rightarrow> string \<Rightarrow> int \<Rightarrow> 'r \<Rightarrow> QueueExitReason option \<times> 'r" where
  "sweep_reason R mode now maxWait guest score s =
     (if score \<le> now - maxWait then (Some timed_out, s)
      else case is_present R now (presenceKey guest) s of
          (False, s1) \<Rightarrow> (Some disconnected, s1)
        | (True, s1) \<Rightarrow>
            if rd_get R (guardKey guest) s1 \<noteq> Some mode \<or> rd_get R (stateKey guest) s1 \<noteq> Some ''QUEUED'' \<or>
               rd_exists R (activeGameKey guest) s1
            then (Some stale, s1) else (None, s1))"

fun sweep_entries ::
    "'r redis \<Rightarrow> string \<Rightarrow> string \<Rightarrow> int \<Rightarrow> int \<Rightarrow> int \<Rightarrow> (string \<times> int) list \<Rightarrow> RemovedQueueGuest list \<Rightarrow> 'r \<Rightarrow>
     RemovedQueueGuest list \<times> 'r" where
  "sweep_entries R queue mode now maxWait stateTtl [] removed s = (removed, s)"
| "sweep_entries R queue mode now maxWait stateTtl ((guest, score) # entries) removed s =
     (case sweep_reason R mode now maxWait guest score s of
        (None, s1) \<Rightarrow> sweep_entries R queue mode now maxWait stateTtl entries removed s1
      | (Some reason, s1) \<Rightarrow>
          if rd_zscore R queue guest s1 \<noteq> None then
            (let s2 = rd_del R (guardKey guest) (rd_zrem R queue guest s1);
                 s3 = (if rd_get R (stateKey guest) s2 = Some ''QUEUED''
                       then rd_set R (stateKey guest) ''IDLE'' (Some stateTtl) s2 else s2) in
             sweep_entries R queue mode now maxWait stateTtl entries
               (removed @ [\<lparr>rq_guestSessionId = guest, rq_reason = reason\<rparr>]) s3)
          else sweep_entries R queue mode now maxWait stateTtl entries removed (rd_zrem R queue guest s1))"

definition sweep_lua ::
    "'r redis \<Rightarrow> string \<Rightarrow> int \<Rightarrow> int \<Rightarrow> int \<Rightarrow> string \<Rightarrow> int \<Rightarrow> ('r, RemovedQueueGuest list) lua" where
  "sweep_lua R queue now maxWait batch mode stateTtl s =
     (let entries = rd_zrange_to R queue (batch - 1) s;
          (removed, s1) = sweep_entries R queue mode now maxWait stateTtl entries [] s in
      (Some removed, s1))"

datatype repair_response = repair_error | repaired bool

definition repair_committed_lua ::
    "'r redis \<Rightarrow> rkey \<Rightarrow> rkey \<Rightarrow> rkey \<Rightarrow> rkey \<Rightarrow>
     rkey \<Rightarrow> rkey \<Rightarrow> rkey \<Rightarrow> string \<Rightarrow> int \<Rightarrow>
     string \<Rightarrow> string \<Rightarrow> ('r, repair_response) lua" where
  "repair_committed_lua R stateA activeA stateB activeB queue guardA guardB gameId stateTtl a b s =
     (let currentA = rd_get R activeA s; currentB = rd_get R activeB s in
      if currentA \<noteq> None \<and> currentA \<noteq> Some gameId \<or> currentB \<noteq> None \<and> currentB \<noteq> Some gameId then
        (Some repair_error, s)
      else
        (let changed = currentA \<noteq> Some gameId \<or> currentB \<noteq> Some gameId \<or>
               rd_get R stateA s \<noteq> Some ''IN_GAME'' \<or> rd_get R stateB s \<noteq> Some ''IN_GAME'';
             s1 = rd_set R stateA ''IN_GAME'' (Some stateTtl) s;
             s2 = rd_set R activeA gameId None s1;
             s3 = rd_set R stateB ''IN_GAME'' (Some stateTtl) s2;
             s4 = rd_set R activeB gameId None s3;
             s5 = rd_zrem R queue b (rd_zrem R queue a s4) in
         (Some (repaired changed), rd_del R guardB (rd_del R guardA s5))))"

end
