(* ===== verification/Matchmaking_Script_Service.thy ===== *)
theory Matchmaking_Script_Service
  imports Matchmaking_Scripts
begin

text \<open>
  The class \<open>MatchmakingScriptService\<close> of
  \<open>src/src/modules/matchmaking/infrastructure/matchmaking-script.service.ts\<close>: the
  response schemas, \<open>execute\<close> and one definition per method. A method takes the
  failure that its call meets: the connection is refused before the script runs,
  or lost after it. \<open>evalsha\<close> with its reload after \<open>NOSCRIPT\<close> runs the script
  once and is not distinguished from running it.
\<close>

section \<open>The service\<close>

record MatchmakingScriptService =
  sv_guardTtlMs :: int
  sv_maxWaitMs :: int
  sv_reservationTtlMs :: int
  sv_stateTtlMs :: int

text \<open>The durations of the configuration are positive (\<open>duration\<close> in \<open>config.schema.ts\<close>).\<close>

definition service_ok :: "MatchmakingScriptService \<Rightarrow> bool" where
  "service_ok sv \<longleftrightarrow> 0 < sv_guardTtlMs sv \<and> 0 < sv_maxWaitMs sv \<and> 0 < sv_reservationTtlMs sv \<and> 0 < sv_stateTtlMs sv"

datatype redis_fault = redis_up | redis_refused | redis_lost

text \<open>The identifiers that the schemas accept, \<open>z.uuid()\<close> and \<open>z.uuidv4()\<close>.\<close>

record uuids =
  is_uuid :: "string \<Rightarrow> bool"
  is_uuidv4 :: "string \<Rightarrow> bool"

definition unavailable :: MatchmakingError where
  "unavailable = MatchmakingError DEPENDENCY_UNAVAILABLE ''Matchmaking Redis state is temporarily unavailable.'' True"

definition reservationMismatch :: MatchmakingError where
  "reservationMismatch = MatchmakingError RESERVATION_MISMATCH
     ''The match reservation no longer matches its expected owner or members.'' False"

section \<open>Response schemas\<close>

definition removedGuestSchema :: "uuids \<Rightarrow> RemovedQueueGuest \<Rightarrow> bool" where
  "removedGuestSchema U x \<longleftrightarrow> is_uuid U (rq_guestSessionId x)"

definition reservationSchema :: "uuids \<Rightarrow> MatchReservation \<Rightarrow> bool" where
  "reservationSchema U rv \<longleftrightarrow>
     is_uuid U (rv_a rv) \<and> 0 \<le> rv_aScore rv \<and> is_uuid U (rv_b rv) \<and> 0 \<le> rv_bScore rv \<and> 0 \<le> rv_createdAt rv \<and>
     is_uuidv4 U (rv_gameId rv) \<and> is_uuidv4 U (rv_matchId rv) \<and> rv_mode rv = blitz"

primrec enqueueResponseSchema :: "enqueue_response \<Rightarrow> bool" where
  "enqueueResponseSchema enqueue_error = True"
| "enqueueResponseSchema (enqueue_queued q) = (0 < qj_position q \<and> 0 \<le> qj_since q)"

primrec matchResponseSchema :: "uuids \<Rightarrow> match_response \<Rightarrow> bool" where
  "matchResponseSchema U match_error = True"
| "matchResponseSchema U (no_match discarded) = list_all (removedGuestSchema U) discarded"
| "matchResponseSchema U (matched rv discarded) =
     (list_all (removedGuestSchema U) discarded \<and> reservationSchema U rv)"

primrec rollbackResponseSchema :: "uuids \<Rightarrow> rollback_response \<Rightarrow> bool" where
  "rollbackResponseSchema U rollback_error = True"
| "rollbackResponseSchema U (rolled_back requeued) =
     list_all (\<lambda>x. is_uuid U (rqg_guestSessionId x) \<and> 0 \<le> rqg_since x) requeued"

definition sweepResponseSchema :: "uuids \<Rightarrow> RemovedQueueGuest list \<Rightarrow> bool" where
  "sweepResponseSchema U removed \<longleftrightarrow> list_all (removedGuestSchema U) removed"

section \<open>Methods\<close>

definition execute ::
    "redis_fault \<Rightarrow> ('r, 'a) lua \<Rightarrow> ('a \<Rightarrow> bool) \<Rightarrow> 'r \<Rightarrow> (MatchmakingError + 'a) \<times> 'r" where
  "execute fault script schema s =
     (case fault of
        redis_refused \<Rightarrow> (Inl unavailable, s)
      | redis_lost \<Rightarrow> (Inl unavailable, snd (script s))
      | redis_up \<Rightarrow>
          (case script s of
             (None, s1) \<Rightarrow> (Inl unavailable, s1)
           | (Some response, s1) \<Rightarrow> (if schema response then Inr response else Inl unavailable, s1)))"

definition enqueue ::
    "'r redis \<Rightarrow> MatchmakingScriptService \<Rightarrow> redis_fault \<Rightarrow> string \<Rightarrow> MatchMode \<Rightarrow> int \<Rightarrow> 'r \<Rightarrow>
     (MatchmakingError + QueueJoin) \<times> 'r" where
  "enqueue R sv fault guest mode nowMs s =
     (case execute fault
        (enqueue_lua R (queueKey mode) (guardKey guest) (stateKey guest) (activeGameKey guest)
           guest (mode_text mode) nowMs (sv_guardTtlMs sv) (sv_stateTtlMs sv)) enqueueResponseSchema s of
        (Inl e, s1) \<Rightarrow> (Inl e, s1)
      | (Inr enqueue_error, s1) \<Rightarrow>
          (Inl (MatchmakingError ALREADY_IN_GAME ''The guest already has an active or reserved game.'' False), s1)
      | (Inr (enqueue_queued q), s1) \<Rightarrow> (Inr q, s1))"

definition leave ::
    "'r redis \<Rightarrow> MatchmakingScriptService \<Rightarrow> redis_fault \<Rightarrow> string \<Rightarrow> MatchMode \<Rightarrow> 'r \<Rightarrow>
     (MatchmakingError + bool) \<times> 'r" where
  "leave R sv fault guest mode s =
     execute fault (leave_lua R (queueKey mode) (guardKey guest) (stateKey guest) guest (sv_stateTtlMs sv)) (\<lambda>_. True) s"

record MatchAttempt =
  ma_discarded :: "RemovedQueueGuest list"
  ma_reservation :: "MatchReservation option"

definition tryMatch ::
    "'r redis \<Rightarrow> uuids \<Rightarrow> MatchmakingScriptService \<Rightarrow> redis_fault \<Rightarrow> MatchMode \<Rightarrow> string \<Rightarrow> string \<Rightarrow> int \<Rightarrow> int \<Rightarrow> 'r \<Rightarrow>
     (MatchmakingError + MatchAttempt) \<times> 'r" where
  "tryMatch R U sv fault mode matchId gameId nowMs maxScan s =
     (case execute fault
        (try_match_lua R (queueKey mode) (reservationKey matchId) mode nowMs (sv_maxWaitMs sv) matchId gameId
           (sv_reservationTtlMs sv) (sv_guardTtlMs sv) maxScan) (matchResponseSchema U) s of
        (Inl e, s1) \<Rightarrow> (Inl e, s1)
      | (Inr match_error, s1) \<Rightarrow> (Inl reservationMismatch, s1)
      | (Inr (no_match discarded), s1) \<Rightarrow> (Inr \<lparr>ma_discarded = discarded, ma_reservation = None\<rparr>, s1)
      | (Inr (matched rv discarded), s1) \<Rightarrow> (Inr \<lparr>ma_discarded = discarded, ma_reservation = Some rv\<rparr>, s1))"

definition finalize ::
    "'r redis \<Rightarrow> MatchmakingScriptService \<Rightarrow> redis_fault \<Rightarrow> MatchReservation \<Rightarrow> 'r \<Rightarrow> (MatchmakingError + bool) \<times> 'r" where
  "finalize R sv fault rv s =
     (case execute fault
        (finalize_lua R (reservationKey (rv_matchId rv)) (guardKey (rv_a rv)) (stateKey (rv_a rv))
           (activeGameKey (rv_a rv)) (stateKey (rv_b rv)) (activeGameKey (rv_b rv)) (guardKey (rv_b rv))
           (rv_matchId rv) (rv_a rv) (rv_b rv) (rv_gameId rv) (sv_stateTtlMs sv)) (\<lambda>_. True) s of
        (Inl e, s1) \<Rightarrow> (Inl e, s1)
      | (Inr finalize_error, s1) \<Rightarrow> (Inl reservationMismatch, s1)
      | (Inr (finalized duplicate), s1) \<Rightarrow> (Inr (\<not> duplicate), s1))"

record DurableGuest =
  dg_activeGameId :: "string option"
  dg_eligible :: bool

definition assignment_text :: "string option \<Rightarrow> string" where
  "assignment_text gameId = (case gameId of None \<Rightarrow> '''' | Some gid \<Rightarrow> gid)"

definition rollback ::
    "'r redis \<Rightarrow> uuids \<Rightarrow> MatchmakingScriptService \<Rightarrow> redis_fault \<Rightarrow> MatchReservation \<Rightarrow> DurableGuest \<Rightarrow> DurableGuest \<Rightarrow> int \<Rightarrow>
     'r \<Rightarrow> (MatchmakingError + RequeuedGuest list) \<times> 'r" where
  "rollback R U sv fault rv a b nowMs s =
     (case execute fault
        (rollback_lua R (queueKey (rv_mode rv)) (reservationKey (rv_matchId rv))
           (stateKey (rv_a rv)) (activeGameKey (rv_a rv)) (guardKey (rv_a rv)) (presenceKey (rv_a rv))
           (stateKey (rv_b rv)) (activeGameKey (rv_b rv)) (guardKey (rv_b rv)) (presenceKey (rv_b rv))
           (rv_matchId rv) (rv_a rv) (rv_b rv) (rv_gameId rv) (mode_text (rv_mode rv)) (rv_aScore rv) (rv_bScore rv)
           nowMs (sv_guardTtlMs sv) (sv_stateTtlMs sv)
           (assignment_text (dg_activeGameId a)) (assignment_text (dg_activeGameId b)) (dg_eligible a) (dg_eligible b))
        (rollbackResponseSchema U) s of
        (Inl e, s1) \<Rightarrow> (Inl e, s1)
      | (Inr rollback_error, s1) \<Rightarrow> (Inl reservationMismatch, s1)
      | (Inr (rolled_back requeued), s1) \<Rightarrow> (Inr requeued, s1))"

definition sweep ::
    "'r redis \<Rightarrow> uuids \<Rightarrow> MatchmakingScriptService \<Rightarrow> redis_fault \<Rightarrow> MatchMode \<Rightarrow> int \<Rightarrow> int \<Rightarrow> 'r \<Rightarrow>
     (MatchmakingError + RemovedQueueGuest list) \<times> 'r" where
  "sweep R U sv fault mode nowMs batchSize s =
     execute fault
       (sweep_lua R (queueKey mode) nowMs (sv_maxWaitMs sv) batchSize (mode_text mode) (sv_stateTtlMs sv))
       (sweepResponseSchema U) s"

definition repairCommitted ::
    "'r redis \<Rightarrow> MatchmakingScriptService \<Rightarrow> redis_fault \<Rightarrow> MatchMode \<Rightarrow> string \<Rightarrow> string \<Rightarrow> string \<Rightarrow> 'r \<Rightarrow>
     (MatchmakingError + bool) \<times> 'r" where
  "repairCommitted R sv fault mode gameId a b s =
     (case execute fault
        (repair_committed_lua R (stateKey a) (activeGameKey a) (stateKey b) (activeGameKey b) (queueKey mode)
           (guardKey a) (guardKey b) gameId (sv_stateTtlMs sv) a b) (\<lambda>_. True) s of
        (Inl e, s1) \<Rightarrow> (Inl e, s1)
      | (Inr repair_error, s1) \<Rightarrow> (Inl reservationMismatch, s1)
      | (Inr (repaired changed), s1) \<Rightarrow> (Inr changed, s1))"

definition queueSize :: "'r redis \<Rightarrow> redis_fault \<Rightarrow> MatchMode \<Rightarrow> 'r \<Rightarrow> MatchmakingError + int" where
  "queueSize R fault mode s =
     (case fault of redis_up \<Rightarrow> Inr (rd_zcard R (queueKey mode) s) | _ \<Rightarrow> Inl unavailable)"

text \<open>
  \<open>listReservations\<close> walks the pages of keys that \<open>SCAN\<close> returns until its cursor
  is zero again; the pages are a parameter.
\<close>

definition parseReservation :: "uuids \<Rightarrow> (string \<times> redis_value) list \<Rightarrow> MatchReservation option" where
  "parseReservation U hash =
     (let values = map_of hash in
      case (values ''a'', values ''b'', values ''gameId'', values ''matchId'', values ''mode'') of
        (Some (RText a), Some (RText b), Some (RText gameId), Some (RText matchId), Some (RText mode)) \<Rightarrow>
          (case (values ''aScore'', values ''bScore'', values ''createdAt'') of
             (Some (RNumber aScore), Some (RNumber bScore), Some (RNumber createdAt)) \<Rightarrow>
               (let rv = \<lparr>rv_a = a, rv_aScore = aScore, rv_b = b, rv_bScore = bScore, rv_createdAt = createdAt,
                    rv_gameId = gameId, rv_matchId = matchId, rv_mode = blitz\<rparr> in
                if mode = mode_text blitz \<and> length hash = 8 \<and> reservationSchema U rv then Some rv else None)
           | _ \<Rightarrow> None)
      | _ \<Rightarrow> None)"

fun collectReservations ::
    "'r redis \<Rightarrow> uuids \<Rightarrow> int \<Rightarrow> string list \<Rightarrow> MatchReservation list \<Rightarrow> 'r \<Rightarrow> MatchmakingError + MatchReservation list" where
  "collectReservations R U limit [] reservations s = Inr reservations"
| "collectReservations R U limit (key # keys) reservations s =
     (if rd_hgetall R key s = [] then collectReservations R U limit keys reservations s
      else case parseReservation U (rd_hgetall R key s) of
          None \<Rightarrow> Inl (MatchmakingError RESERVATION_MISMATCH ''A Redis match reservation is malformed.'' False)
        | Some rv \<Rightarrow>
            if limit \<le> int (length reservations) + 1 then Inr (reservations @ [rv])
            else collectReservations R U limit keys (reservations @ [rv]) s)"

definition listReservations ::
    "'r redis \<Rightarrow> uuids \<Rightarrow> redis_fault \<Rightarrow> string list list \<Rightarrow> int \<Rightarrow> 'r \<Rightarrow> MatchmakingError + MatchReservation list" where
  "listReservations R U fault pages limit s =
     (case fault of
        redis_up \<Rightarrow> collectReservations R U limit (concat pages) [] s
      | _ \<Rightarrow> Inl unavailable)"

end
