(* ===== verification/Ephemeral_State.thy ===== *)
theory Ephemeral_State
  imports Game_Snapshot Matchmaking_Script_Service
begin

text \<open>
  The copies of committed state in Redis,
  \<open>src/src/modules/game/game-ephemeral-state.service.ts\<close>: the active game and state of
  a guest, the cached snapshot of a game and the grace keys. Every method swallows its
  failures and reports at most whether it succeeded. \<open>JSON.stringify\<close> and
  \<open>JSON.parse\<close> are the two fields of \<open>json_text\<close>; log messages are left out.
\<close>

section \<open>State and keys\<close>

record GameEphemeralStateService =
  es_snapshotTtlMs :: int
  es_stateTtlMs :: int

record json_text =
  js_stringify :: "json \<Rightarrow> string"
  js_parse :: "string \<Rightarrow> json option"

definition json_text_ok :: "json_text \<Rightarrow> bool" where
  "json_text_ok J \<longleftrightarrow> (\<forall>j. js_parse J (js_stringify J j) = Some j)"

definition ACTIVE_STATUSES :: "GameStatus list" where
  "ACTIVE_STATUSES = [CREATED, WAITING_FOR_PLAYERS, READY, IN_PROGRESS, RECONNECTING]"

record EphemeralAllocationState =
  ea_available :: bool
  ea_graceDriftGuestSessionIds :: "string list"
  ea_missingActiveGuestSessionIds :: "string list"
  ea_missingStateGuestSessionIds :: "string list"
  ea_snapshotMissing :: bool

record CachedGameSnapshot =
  cs_gameVersion :: int
  cs_payload :: json

definition graceKey :: "string \<Rightarrow> string \<Rightarrow> string" where
  "graceKey gameId guest = ''game:'' @ gameId @ '':grace:'' @ guest"

definition snapshotKey :: "string \<Rightarrow> string" where
  "snapshotKey gameId = ''game:'' @ gameId @ '':snapshot''"

text \<open>\<open>String(n)\<close> of an integer.\<close>

fun nat_text :: "nat \<Rightarrow> string" where
  "nat_text n = (if n < 10 then [char_of (48 + n)] else nat_text (n div 10) @ [char_of (48 + n mod 10)])"

definition int_text :: "int \<Rightarrow> string" where
  "int_text n = (if n < 0 then ''-'' @ nat_text (nat (- n)) else nat_text (nat n))"

section \<open>Pipelines\<close>

text \<open>
  Commands that are sent together. When the connection is lost only a prefix may be
  executed; then \<open>exec\<close> either throws or returns an error for every other command.
\<close>

datatype pipe = pipe_done | pipe_errors nat | pipe_throws nat

definition run_pipeline :: "pipe \<Rightarrow> ('r \<Rightarrow> 'r) list \<Rightarrow> 'r \<Rightarrow> 'r" where
  "run_pipeline p cmds s =
     (case p of
        pipe_done \<Rightarrow> fold (\<lambda>c. c) cmds s
      | pipe_errors n \<Rightarrow> fold (\<lambda>c. c) (take n cmds) s
      | pipe_throws n \<Rightarrow> fold (\<lambda>c. c) (take n cmds) s)"

section \<open>Methods\<close>

definition clear_active_lua :: "'r redis \<Rightarrow> rkey \<Rightarrow> rkey \<Rightarrow> string \<Rightarrow> int \<Rightarrow> 'r \<Rightarrow> bool \<times> 'r" where
  "clear_active_lua R activeK stateK expectedGameId stateTtl s =
     (let current = rd_get R activeK s; state = rd_get R stateK s in
      if current = Some expectedGameId then (True, rd_set R stateK ''IDLE'' (Some stateTtl) (rd_del R activeK s))
      else if current = None \<and> state = Some ''IN_GAME'' then (True, rd_set R stateK ''IDLE'' (Some stateTtl) s)
      else (False, s))"

definition clearActiveGame ::
    "'r redis \<Rightarrow> GameEphemeralStateService \<Rightarrow> redis_fault \<Rightarrow> string \<Rightarrow> string \<Rightarrow> 'r \<Rightarrow> bool \<times> 'r" where
  "clearActiveGame R es fault guest expectedGameId s =
     (let script = clear_active_lua R (activeGameKey guest) (stateKey guest) expectedGameId (es_stateTtlMs es) in
      case fault of
        redis_up \<Rightarrow> script s
      | redis_refused \<Rightarrow> (False, s)
      | redis_lost \<Rightarrow> (False, snd (script s)))"

text \<open>A read that fails is \<open>undefined\<close>, here \<open>None\<close>; a missing value is null, here \<open>Some None\<close>.\<close>

definition readSnapshot ::
    "'r redis \<Rightarrow> json_text \<Rightarrow> redis_fault \<Rightarrow> string \<Rightarrow> string \<Rightarrow> 'r \<Rightarrow> CachedGameSnapshot option option" where
  "readSnapshot R J fault gameId guest s =
     (if fault \<noteq> redis_up then None
      else case rd_get R (snapshotKey gameId) s of
          None \<Rightarrow> Some None
        | Some value \<Rightarrow>
            (case js_parse J value of
               None \<Rightarrow> None
             | Some parsed \<Rightarrow>
                 (case parsed of
                    JObj kvs \<Rightarrow>
                      (case (map_of kvs ''gameVersion'', map_of kvs ''payloads'') of
                         (Some (JNum version), Some (JObj payloads)) \<Rightarrow>
                           Some (map_option (\<lambda>payload. \<lparr>cs_gameVersion = version, cs_payload = payload\<rparr>) (map_of payloads guest))
                       | _ \<Rightarrow> Some None)
                  | _ \<Rightarrow> Some None)))"

definition unavailable_state :: EphemeralAllocationState where
  "unavailable_state =
     \<lparr>ea_available = False, ea_graceDriftGuestSessionIds = [], ea_missingActiveGuestSessionIds = [],
      ea_missingStateGuestSessionIds = [], ea_snapshotMissing = False\<rparr>"

definition inspectAllocation ::
    "'r redis \<Rightarrow> pipe \<Rightarrow> GameAllocation \<Rightarrow> int \<Rightarrow> 'r \<Rightarrow> EphemeralAllocationState" where
  "inspectAllocation R p allocation now s =
     (if p \<noteq> pipe_done then unavailable_state
      else
        (let ps = [fst (al_players allocation), snd (al_players allocation)]; gameId = gm_id (al_game allocation);
             grace_expected = (\<lambda>p. case gp_reconnectGraceEndsAt p of None \<Rightarrow> False | Some e \<Rightarrow> now < e) in
         \<lparr>ea_available = True,
          ea_graceDriftGuestSessionIds = map gp_guestSessionId
            (filter (\<lambda>p. grace_expected p \<noteq> rd_exists R (graceKey gameId (gp_guestSessionId p)) s) ps),
          ea_missingActiveGuestSessionIds = map gp_guestSessionId
            (filter (\<lambda>p. rd_get R (activeGameKey (gp_guestSessionId p)) s \<noteq> Some gameId) ps),
          ea_missingStateGuestSessionIds = map gp_guestSessionId
            (filter (\<lambda>p. rd_get R (stateKey (gp_guestSessionId p)) s \<noteq> Some ''IN_GAME'') ps),
          ea_snapshotMissing = (\<not> rd_exists R (snapshotKey gameId) s)\<rparr>))"

definition readActiveGame :: "'r redis \<Rightarrow> redis_fault \<Rightarrow> string \<Rightarrow> 'r \<Rightarrow> string option option" where
  "readActiveGame R fault guest s = (if fault \<noteq> redis_up then None else Some (rd_get R (activeGameKey guest) s))"

definition active_commands :: "'r redis \<Rightarrow> GameEphemeralStateService \<Rightarrow> string \<Rightarrow> string \<Rightarrow> ('r \<Rightarrow> 'r) list" where
  "active_commands R es gameId guest =
     [rd_set R (activeGameKey guest) gameId None, rd_set R (stateKey guest) ''IN_GAME'' (Some (es_stateTtlMs es))]"

definition restoreActiveGame ::
    "'r redis \<Rightarrow> GameEphemeralStateService \<Rightarrow> pipe \<Rightarrow> string \<Rightarrow> string \<Rightarrow> 'r \<Rightarrow> bool \<times> 'r" where
  "restoreActiveGame R es p gameId guest s = (p = pipe_done, run_pipeline p (active_commands R es gameId guest) s)"

definition snapshot_json :: "GameSnapshotView \<Rightarrow> json option" where
  "snapshot_json snapshot =
     (let game = al_game (sn_allocation snapshot); (a, b) = al_players (sn_allocation snapshot) in
      case (present_snapshot snapshot (gp_guestSessionId a), present_snapshot snapshot (gp_guestSessionId b)) of
        (Some pa, Some pb) \<Rightarrow> Some (JObj
          [(''gameId'', JStr (gm_id game)), (''gameVersion'', JNum (gm_version game)),
           (''payloads'', JObj [(gp_guestSessionId a, pa), (gp_guestSessionId b, pb)])])
      | _ \<Rightarrow> None)"

definition grace_command :: "'r redis \<Rightarrow> string \<Rightarrow> int \<Rightarrow> GamePlayerRecord \<Rightarrow> 'r \<Rightarrow> 'r" where
  "grace_command R gameId now player =
     (case gp_reconnectGraceEndsAt player of
        None \<Rightarrow> rd_del R (graceKey gameId (gp_guestSessionId player))
      | Some e \<Rightarrow>
          if now < e then rd_set R (graceKey gameId (gp_guestSessionId player)) (int_text e) (Some (max 1 (e - now)))
          else rd_del R (graceKey gameId (gp_guestSessionId player)))"

record restore_faults =
  rf_pipe :: pipe
  rf_clearA :: redis_fault
  rf_clearB :: redis_fault

definition restoreSnapshot ::
    "'r redis \<Rightarrow> json_text \<Rightarrow> GameEphemeralStateService \<Rightarrow> restore_faults \<Rightarrow> GameSnapshotView \<Rightarrow> int \<Rightarrow> 'r \<Rightarrow> bool \<times> 'r" where
  "restoreSnapshot R J es faults snapshot now s =
     (let game = al_game (sn_allocation snapshot); gameId = gm_id game; (a, b) = al_players (sn_allocation snapshot);
          active = gm_status game \<in> set ACTIVE_STATUSES in
      case snapshot_json snapshot of
        None \<Rightarrow> (False, s)
      | Some json \<Rightarrow>
          (let cmds = [rd_set R (snapshotKey gameId) (js_stringify J json) (Some (es_snapshotTtlMs es))] @
                 (if active then active_commands R es gameId (gp_guestSessionId a) @ active_commands R es gameId (gp_guestSessionId b)
                  else []) @ [grace_command R gameId now a, grace_command R gameId now b];
               s1 = run_pipeline (rf_pipe faults) cmds s in
           if rf_pipe faults \<noteq> pipe_done then (False, s1)
           else if active then (True, s1)
           else
             (let s2 = snd (clearActiveGame R es (rf_clearA faults) (gp_guestSessionId a) gameId s1) in
              (True, snd (clearActiveGame R es (rf_clearB faults) (gp_guestSessionId b) gameId s2)))))"

text \<open>
  Between the pipeline of \<open>afterTerminal\<close> and its two scripts other requests run.
\<close>

record 'r terminal_faults =
  tf_others :: "nat \<Rightarrow> 'r \<Rightarrow> 'r"
  tf_pipe :: pipe
  tf_clearA :: redis_fault
  tf_clearB :: redis_fault

definition afterTerminal ::
    "'r redis \<Rightarrow> GameEphemeralStateService \<Rightarrow> 'r terminal_faults \<Rightarrow> string \<Rightarrow> string \<times> string \<Rightarrow> 'r \<Rightarrow> 'r" where
  "afterTerminal R es faults gameId guestSessionIds s =
     (let (a, b) = guestSessionIds;
          cmds = [rd_del R (snapshotKey gameId), rd_del R (graceKey gameId a), rd_del R (guardKey a),
            rd_del R (graceKey gameId b), rd_del R (guardKey b)];
          s1 = run_pipeline (tf_pipe faults) cmds s in
      case tf_pipe faults of
        pipe_throws _ \<Rightarrow> s1
      | _ \<Rightarrow>
          (let s2 = snd (clearActiveGame R es (tf_clearA faults) a gameId (tf_others faults 0 s1)) in
           snd (clearActiveGame R es (tf_clearB faults) b gameId (tf_others faults 1 s2))))"

text \<open>A single command: refused, lost after its execution, or answered.\<close>

definition command :: "redis_fault \<Rightarrow> ('r \<Rightarrow> 'r) \<Rightarrow> 'r \<Rightarrow> 'r" where
  "command fault c s = (if fault = redis_refused then s else c s)"

definition afterStart :: "'r redis \<Rightarrow> redis_fault \<Rightarrow> string \<Rightarrow> 'r \<Rightarrow> 'r" where
  "afterStart R fault gameId s = command fault (rd_del R (snapshotKey gameId)) s"

record 'r move_faults =
  mv_delete :: redis_fault
  mv_terminal :: "'r terminal_faults"

definition afterMove ::
    "'r redis \<Rightarrow> GameEphemeralStateService \<Rightarrow> 'r move_faults \<Rightarrow> MoveSubmission \<Rightarrow> 'r \<Rightarrow> 'r" where
  "afterMove R es faults submission s =
     (if ms_ended submission \<noteq> None
      then afterTerminal R es (mv_terminal faults) (ac_gameId (ms_accepted submission)) (ms_guestSessionIds submission) s
      else command (mv_delete faults) (rd_del R (snapshotKey (ac_gameId (ms_accepted submission)))) s)"

definition afterDisconnect ::
    "'r redis \<Rightarrow> redis_fault \<Rightarrow> redis_fault \<Rightarrow> string \<Rightarrow> string \<Rightarrow> int \<Rightarrow> int \<Rightarrow> 'r \<Rightarrow> 'r" where
  "afterDisconnect R faultSet faultDel gameId guest graceDeadline now s =
     (let s1 = command faultSet (rd_set R (graceKey gameId guest) (int_text graceDeadline)
            (Some (max 1 (graceDeadline - now)))) s in
      if faultSet \<noteq> redis_up then s1 else command faultDel (rd_del R (snapshotKey gameId)) s1)"

definition afterReconnect :: "'r redis \<Rightarrow> redis_fault \<Rightarrow> string \<Rightarrow> string \<Rightarrow> 'r \<Rightarrow> 'r" where
  "afterReconnect R fault gameId guest s =
     command fault (\<lambda>s. rd_del R (snapshotKey gameId) (rd_del R (graceKey gameId guest) s)) s"

end
