(* ===== verification/Presence_Service.thy ===== *)
theory Presence_Service
  imports Matchmaking_Script_Service
begin

text \<open>
  Live connections of a guest, \<open>src/src/modules/presence/presence.service.ts\<close>: a
  sorted set per guest with the time at which each connection is forgotten. Each
  method is one script; a failure of the connection is the only error.
\<close>

record PresenceService =
  ps_keyTtlMs :: int
  ps_presenceTtlMs :: int
  ps_queueGuardTtlMs :: int

definition presence_config :: "int \<Rightarrow> int \<Rightarrow> int \<Rightarrow> PresenceService" where
  "presence_config presenceTtl pingTimeout guardTtl =
     \<lparr>ps_keyTtlMs = presenceTtl + pingTimeout, ps_presenceTtlMs = presenceTtl, ps_queueGuardTtlMs = guardTtl\<rparr>"

datatype realtime_error = RealtimeRedisUnavailableError

definition eval_script :: "redis_fault \<Rightarrow> ('r \<Rightarrow> 'a \<times> 'r) \<Rightarrow> 'r \<Rightarrow> (realtime_error + 'a) \<times> 'r" where
  "eval_script fault script s =
     (case fault of
        redis_refused \<Rightarrow> (Inl RealtimeRedisUnavailableError, s)
      | redis_lost \<Rightarrow> (Inl RealtimeRedisUnavailableError, snd (script s))
      | redis_up \<Rightarrow> (case script s of (r, s1) \<Rightarrow> (Inr r, s1)))"

definition refresh ::
    "'r redis \<Rightarrow> PresenceService \<Rightarrow> redis_fault \<Rightarrow> string \<Rightarrow> string \<Rightarrow> int \<Rightarrow> 'r \<Rightarrow> (realtime_error + int) \<times> 'r" where
  "refresh R ps fault guest socketMember nowMs =
     eval_script fault (\<lambda>s.
       let key = presenceKey guest;
           s1 = rd_zremrangebyscore R key nowMs s;
           s2 = rd_zadd R key (nowMs + ps_presenceTtlMs ps) socketMember s1;
           s3 = rd_pexpire R key (ps_keyTtlMs ps) s2;
           s4 = (if rd_exists R (guardKey guest) s3 then rd_pexpire R (guardKey guest) (ps_queueGuardTtlMs ps) s3 else s3) in
       (rd_zcard R key s4, s4))"

definition markConnected ::
    "'r redis \<Rightarrow> PresenceService \<Rightarrow> redis_fault \<Rightarrow> string \<Rightarrow> string \<Rightarrow> int \<Rightarrow> 'r \<Rightarrow> (realtime_error + int) \<times> 'r" where
  "markConnected R ps fault guest socketMember nowMs = refresh R ps fault guest socketMember nowMs"

definition remove ::
    "'r redis \<Rightarrow> redis_fault \<Rightarrow> string \<Rightarrow> string \<Rightarrow> int \<Rightarrow> 'r \<Rightarrow> (realtime_error + int) \<times> 'r" where
  "remove R fault guest socketMember nowMs =
     eval_script fault (\<lambda>s.
       let key = presenceKey guest;
           s1 = rd_zrem R key socketMember (rd_zremrangebyscore R key nowMs s);
           count = rd_zcard R key s1 in
       (count, if count = 0 then rd_del R key s1 else s1))"

definition presence_count ::
    "'r redis \<Rightarrow> redis_fault \<Rightarrow> string \<Rightarrow> int \<Rightarrow> 'r \<Rightarrow> (realtime_error + int) \<times> 'r" where
  "presence_count R fault guest nowMs =
     eval_script fault (\<lambda>s.
       let key = presenceKey guest;
           s1 = rd_zremrangebyscore R key nowMs s;
           count = rd_zcard R key s1 in
       (count, if count = 0 then rd_del R key s1 else s1))"

definition isPresent :: "'r redis \<Rightarrow> redis_fault \<Rightarrow> string \<Rightarrow> int \<Rightarrow> 'r \<Rightarrow> (realtime_error + bool) \<times> 'r" where
  "isPresent R fault guest nowMs s =
     (case presence_count R fault guest nowMs s of
        (Inl e, s1) \<Rightarrow> (Inl e, s1) | (Inr n, s1) \<Rightarrow> (Inr (0 < n), s1))"

end
