(* ===== verification/Matchmaking_Service.thy ===== *)
theory Matchmaking_Service
  imports Presence_Service Game_Repository Chess_Engine
begin

text \<open>
  \<open>GameAllocationService\<close> (\<open>src/src/modules/game/game-allocation.service.ts\<close>) and
  \<open>MatchmakingService\<close> (\<open>src/src/modules/matchmaking/matchmaking.service.ts\<close>). They
  work on Redis and on the database, so a state is a pair. Between two awaits of a
  request other requests run: \<open>wo_others i\<close> is what they do to the state before the
  \<open>i\<close>-th call of a request, and each call meets its own failure. Metrics and trace
  spans are left out.
\<close>

section \<open>Allocation service\<close>

record GameAllocationService =
  gas_incrementMs :: int
  gas_initialMs :: int
  gas_joinDeadlineMs :: int

datatype service_thrown =
    MatchmakingErr MatchmakingError | GameErr thrown | ChessErr ChessEngineError | RealtimeErr realtime_error

definition allocation_input ::
    "GameAllocationService \<Rightarrow> bool \<Rightarrow> ReplayedPosition \<Rightarrow> MatchReservation \<Rightarrow> int \<Rightarrow> int \<Rightarrow> AllocateGame" where
  "allocation_input gas firstGuestIsWhite initial rv observedAt joinDeadlineAt =
     \<lparr>ag_blackGuestSessionId = (if firstGuestIsWhite then rv_b rv else rv_a rv), ag_gameId = rv_gameId rv,
      ag_initialFen = rp_fen initial, ag_joinDeadlineAt = joinDeadlineAt, ag_matchId = rv_matchId rv,
      ag_mode = ''BLITZ'', ag_observedAt = observedAt, ag_pgn = rp_pgn initial,
      ag_timeIncrementMs = gas_incrementMs gas, ag_timeInitialMs = gas_initialMs gas,
      ag_whiteGuestSessionId = (if firstGuestIsWhite then rv_a rv else rv_b rv)\<rparr>"

text \<open>A deadline outside the range of dates is refused by the database client.\<close>

definition allocateReservation ::
    "'p chessjs \<Rightarrow> GameAllocationService \<Rightarrow> bool \<Rightarrow> tx_env \<Rightarrow> MatchReservation \<Rightarrow> int \<Rightarrow> db \<Rightarrow>
     (service_thrown + GameAllocation) \<times> db" where
  "allocateReservation lib gas firstGuestIsWhite env rv observedAt db =
     (case newGame lib of
        Inl e \<Rightarrow> (Inl (ChessErr e), db)
      | Inr initial \<Rightarrow>
          (case new_Date (observedAt + gas_joinDeadlineMs gas) of
             InvalidDate \<Rightarrow> (Inl (GameErr (toDatabaseError (ErrorObject None None None))), db)
           | Date joinDeadlineAt \<Rightarrow>
               (case allocate env (allocation_input gas firstGuestIsWhite initial rv observedAt joinDeadlineAt) db of
                  (Inl e, db') \<Rightarrow> (Inl (GameErr e), db')
                | (Inr allocation, db') \<Rightarrow> (Inr allocation, db'))))"

section \<open>Effects\<close>

record MatchmakingEffects =
  fx_allocations :: "GameAllocation list"
  fx_requeued :: "RequeuedGuest list"
  fx_removed :: "RemovedQueueGuest list"

definition EMPTY_EFFECTS :: MatchmakingEffects where
  "EMPTY_EFFECTS = \<lparr>fx_allocations = [], fx_requeued = [], fx_removed = []\<rparr>"

definition mergeEffects :: "MatchmakingEffects \<Rightarrow> MatchmakingEffects \<Rightarrow> MatchmakingEffects" where
  "mergeEffects target source =
     \<lparr>fx_allocations = fx_allocations target @ fx_allocations source,
      fx_requeued = fx_requeued target @ fx_requeued source, fx_removed = fx_removed target @ fx_removed source\<rparr>"

definition matchesReservation_service :: "GameAllocation \<Rightarrow> MatchReservation \<Rightarrow> bool" where
  "matchesReservation_service allocation rv \<longleftrightarrow>
     (let expected = sort [rv_a rv, rv_b rv];
          actual = sort [gp_guestSessionId (fst (al_players allocation)), gp_guestSessionId (snd (al_players allocation))]
      in gm_id (al_game allocation) = rv_gameId rv \<and> gm_matchId (al_game allocation) = rv_matchId rv \<and>
         length actual = 2 \<and> list_all (\<lambda>(index, guest). guest = expected ! index) (enumerate 0 actual))"

section \<open>One reservation\<close>

type_synonym 'r world = "'r \<times> db"

record 'r reservation_env =
  wo_others :: "nat \<Rightarrow> 'r \<times> db \<Rightarrow> 'r \<times> db"
  wo_white :: bool
  wo_allocate :: tx_env
  wo_finalize :: redis_fault
  wo_repair :: redis_fault
  wo_find :: tx_env
  wo_eligibilityA :: tx_env
  wo_eligibilityB :: tx_env
  wo_finalize2 :: redis_fault
  wo_repair2 :: redis_fault
  wo_rollback :: redis_fault

text \<open>A call on one half of the state.\<close>

definition on_redis :: "('r \<Rightarrow> 'a \<times> 'r) \<Rightarrow> 'r world \<Rightarrow> 'a \<times> 'r world" where
  "on_redis f w = (case f (fst w) of (r, s) \<Rightarrow> (r, s, snd w))"

definition on_db :: "(db \<Rightarrow> 'a \<times> db) \<Rightarrow> 'r world \<Rightarrow> 'a \<times> 'r world" where
  "on_db f w = (case f (snd w) of (r, db) \<Rightarrow> (r, fst w, db))"

definition finalizeCommitted ::
    "'r redis \<Rightarrow> MatchmakingScriptService \<Rightarrow> (nat \<Rightarrow> 'r world \<Rightarrow> 'r world) \<Rightarrow> nat \<Rightarrow> redis_fault \<Rightarrow> redis_fault \<Rightarrow>
     MatchReservation \<Rightarrow> GameAllocation \<Rightarrow> 'r world \<Rightarrow> (service_thrown + unit) \<times> 'r world" where
  "finalizeCommitted R sv others i faultF faultR rv allocation w =
     (case on_redis (finalize R sv faultF rv) (others i w) of
        (Inr _, w1) \<Rightarrow> (Inr (), w1)
      | (Inl e, w1) \<Rightarrow>
          if me_code e = RESERVATION_MISMATCH then
            (case on_redis (repairCommitted R sv faultR (rv_mode rv) (gm_id (al_game allocation))
                 (gp_guestSessionId (fst (al_players allocation))) (gp_guestSessionId (snd (al_players allocation))))
                 (others (i + 1) w1) of
               (Inl e', w2) \<Rightarrow> (Inl (MatchmakingErr e'), w2)
             | (Inr _, w2) \<Rightarrow> (Inr (), w2))
          else if me_code e = MatchmakingErrorCode.DEPENDENCY_UNAVAILABLE then (Inr (), w1)
          else (Inl (MatchmakingErr e), w1))"

definition durable_guest :: "GuestMatchEligibility \<Rightarrow> DurableGuest" where
  "durable_guest e = \<lparr>dg_activeGameId = ge_activeGameId e, dg_eligible = ge_eligible e\<rparr>"

definition recoverAfterAllocationFailure ::
    "'r redis \<Rightarrow> uuids \<Rightarrow> MatchmakingScriptService \<Rightarrow> 'r reservation_env \<Rightarrow> MatchReservation \<Rightarrow> int \<Rightarrow> 'r world \<Rightarrow>
     (service_thrown + MatchmakingEffects option) \<times> 'r world" where
  "recoverAfterAllocationFailure R U sv env rv observedAt w =
     (let others = wo_others env;
          w1 = others 3 w; existing = findByMatchId (wo_find env) (rv_matchId rv) (snd w1);
          w2 = others 4 w1; a = getGuestMatchEligibility (wo_eligibilityA env) (rv_a rv) observedAt (snd w2);
          w3 = others 5 w2; b = getGuestMatchEligibility (wo_eligibilityB env) (rv_b rv) observedAt (snd w3) in
      case (existing, a, b) of
        (Inr found, Inr ea, Inr eb) \<Rightarrow>
          (case found of
             Some allocation \<Rightarrow>
               if matchesReservation_service allocation rv then
                 (case finalizeCommitted R sv others 6 (wo_finalize2 env) (wo_repair2 env) rv allocation w3 of
                    (Inl e, w4) \<Rightarrow> (Inl e, w4)
                  | (Inr _, w4) \<Rightarrow> (Inr (Some (EMPTY_EFFECTS\<lparr>fx_allocations := [allocation]\<rparr>)), w4))
               else
                 (case on_redis (rollback R U sv (wo_rollback env) rv (durable_guest ea) (durable_guest eb) observedAt)
                      (others 8 w3) of
                    (Inl e, w4) \<Rightarrow> (Inl (MatchmakingErr e), w4)
                  | (Inr requeued, w4) \<Rightarrow> (Inr (Some (EMPTY_EFFECTS\<lparr>fx_requeued := requeued\<rparr>)), w4))
           | None \<Rightarrow>
               (case on_redis (rollback R U sv (wo_rollback env) rv (durable_guest ea) (durable_guest eb) observedAt)
                    (others 8 w3) of
                  (Inl e, w4) \<Rightarrow> (Inl (MatchmakingErr e), w4)
                | (Inr requeued, w4) \<Rightarrow> (Inr (Some (EMPTY_EFFECTS\<lparr>fx_requeued := requeued\<rparr>)), w4)))
      | _ \<Rightarrow> (Inr None, w3))"

definition processReservation ::
    "'p chessjs \<Rightarrow> 'r redis \<Rightarrow> uuids \<Rightarrow> GameAllocationService \<Rightarrow> MatchmakingScriptService \<Rightarrow> 'r reservation_env \<Rightarrow>
     MatchReservation \<Rightarrow> int \<Rightarrow> 'r world \<Rightarrow> (service_thrown + MatchmakingEffects) \<times> 'r world" where
  "processReservation lib R U gas sv env rv observedAt w =
     (let attempt =
        (case on_db (allocateReservation lib gas (wo_white env) (wo_allocate env) rv observedAt) (wo_others env 0 w) of
           (Inl e, w1) \<Rightarrow> (Inl e, w1)
         | (Inr allocation, w1) \<Rightarrow>
             (case finalizeCommitted R sv (wo_others env) 1 (wo_finalize env) (wo_repair env) rv allocation w1 of
                (Inl e, w2) \<Rightarrow> (Inl e, w2)
              | (Inr _, w2) \<Rightarrow> (Inr (EMPTY_EFFECTS\<lparr>fx_allocations := [allocation]\<rparr>), w2)))
      in case attempt of
           (Inr effects, w1) \<Rightarrow> (Inr effects, w1)
         | (Inl e, w1) \<Rightarrow>
             (case recoverAfterAllocationFailure R U sv env rv observedAt w1 of
                (Inl e', w2) \<Rightarrow> (Inl e', w2)
              | (Inr (Some recovered), w2) \<Rightarrow> (Inr recovered, w2)
              | (Inr None, w2) \<Rightarrow> (Inl e, w2)))"

section \<open>Match attempts\<close>

record 'r attempt_env =
  at_others :: "'r \<times> db \<Rightarrow> 'r \<times> db"
  at_matchId :: string
  at_gameId :: string
  at_fault :: redis_fault
  at_reservation :: "'r reservation_env"

text \<open>The constant parts of the service.\<close>

record ('p, 'r) matchmaking =
  mk_lib :: "'p chessjs"
  mk_redis :: "'r redis"
  mk_uuids :: uuids
  mk_allocations :: GameAllocationService
  mk_scripts :: MatchmakingScriptService
  mk_batchSize :: int

definition effectsFromAttempt ::
    "('p, 'r) matchmaking \<Rightarrow> 'r reservation_env \<Rightarrow> MatchAttempt \<Rightarrow> int \<Rightarrow> 'r world \<Rightarrow>
     (service_thrown + MatchmakingEffects) \<times> 'r world" where
  "effectsFromAttempt M env attempt observedAt w =
     (case ma_reservation attempt of
        None \<Rightarrow> (Inr (EMPTY_EFFECTS\<lparr>fx_removed := ma_discarded attempt\<rparr>), w)
      | Some rv \<Rightarrow>
          (case processReservation (mk_lib M) (mk_redis M) (mk_uuids M) (mk_allocations M) (mk_scripts M) env rv observedAt w of
             (Inl e, w1) \<Rightarrow> (Inl e, w1)
           | (Inr result, w1) \<Rightarrow> (Inr (result\<lparr>fx_removed := ma_discarded attempt @ fx_removed result\<rparr>), w1)))"

definition attemptMatch ::
    "('p, 'r) matchmaking \<Rightarrow> 'r attempt_env \<Rightarrow> MatchMode \<Rightarrow> int \<Rightarrow> 'r world \<Rightarrow>
     (service_thrown + MatchmakingEffects) \<times> 'r world" where
  "attemptMatch M env mode observedAt w =
     (case on_redis (tryMatch (mk_redis M) (mk_uuids M) (mk_scripts M) (at_fault env) mode (at_matchId env) (at_gameId env)
          observedAt (mk_batchSize M)) (at_others env w) of
        (Inl e, w1) \<Rightarrow> (Inl (MatchmakingErr e), w1)
      | (Inr attempt, w1) \<Rightarrow> effectsFromAttempt M (at_reservation env) attempt observedAt w1)"

section \<open>Requests and jobs\<close>

record 'r join_env =
  jo_others :: "nat \<Rightarrow> 'r \<times> db \<Rightarrow> 'r \<times> db"
  jo_eligibility :: tx_env
  jo_presence :: redis_fault
  jo_presenceFailsFirst :: bool
  jo_enqueue :: redis_fault
  jo_attempt :: "'r attempt_env"

text \<open>
  \<open>Promise.all\<close> rejects with the failure that comes first. The queue depth gauge at
  the end reads the size of the queue and swallows errors.
\<close>

definition join ::
    "('p, 'r) matchmaking \<Rightarrow> 'r join_env \<Rightarrow> string \<Rightarrow> MatchMode \<Rightarrow> int \<Rightarrow> 'r world \<Rightarrow>
     (service_thrown + QueueJoin \<times> MatchmakingEffects) \<times> 'r world" where
  "join M env guest mode observedAt w =
     (let w1 = jo_others env 0 w;
          eligibility = getGuestMatchEligibility (jo_eligibility env) guest observedAt (snd w1);
          (present, w2) = on_redis (isPresent (mk_redis M) (jo_presence env) guest observedAt) w1 in
      case (eligibility, present) of
        (Inl e, Inl p) \<Rightarrow> (Inl (if jo_presenceFailsFirst env then RealtimeErr p else GameErr e), w2)
      | (Inl e, Inr _) \<Rightarrow> (Inl (GameErr e), w2)
      | (Inr _, Inl p) \<Rightarrow> (Inl (RealtimeErr p), w2)
      | (Inr el, Inr here) \<Rightarrow>
          if ge_activeGameId el \<noteq> None then
            (Inl (MatchmakingErr (MatchmakingError ALREADY_IN_GAME ''The guest already has a durable active game.'' False)), w2)
          else if \<not> ge_eligible el then
            (Inl (MatchmakingErr (MatchmakingError ALREADY_IN_GAME
              ''The guest session is no longer eligible for matchmaking.'' False)), w2)
          else if \<not> here then
            (Inl (MatchmakingErr (MatchmakingError NOT_PRESENT
              ''A live guest connection is required for matchmaking.'' True)), w2)
          else
            (case on_redis (enqueue (mk_redis M) (mk_scripts M) (jo_enqueue env) guest mode observedAt) (jo_others env 1 w2) of
               (Inl e, w3) \<Rightarrow> (Inl (MatchmakingErr e), w3)
             | (Inr queue, w3) \<Rightarrow>
                 (case attemptMatch M (jo_attempt env) mode observedAt w3 of
                    (Inl e, w4) \<Rightarrow> (Inl e, w4)
                  | (Inr effects, w4) \<Rightarrow> (Inr (queue, effects), w4))))"

definition leaveQueue ::
    "('p, 'r) matchmaking \<Rightarrow> redis_fault \<Rightarrow> string \<Rightarrow> MatchMode \<Rightarrow> 'r world \<Rightarrow> (MatchmakingError + bool) \<times> 'r world" where
  "leaveQueue M fault guest mode = on_redis (leave (mk_redis M) (mk_scripts M) fault guest mode)"

definition finallyDisconnected ::
    "('p, 'r) matchmaking \<Rightarrow> redis_fault \<Rightarrow> string \<Rightarrow> MatchMode \<Rightarrow> 'r world \<Rightarrow> (MatchmakingError + bool) \<times> 'r world" where
  "finallyDisconnected M fault guest mode = on_redis (leave (mk_redis M) (mk_scripts M) fault guest mode)"

fun drain_cycles ::
    "('p, 'r) matchmaking \<Rightarrow> (nat \<Rightarrow> 'r attempt_env) \<Rightarrow> MatchMode \<Rightarrow> int \<Rightarrow> nat \<Rightarrow> nat \<Rightarrow> MatchmakingEffects \<Rightarrow> 'r world \<Rightarrow>
     (service_thrown + MatchmakingEffects) \<times> 'r world" where
  "drain_cycles M envs mode observedAt index 0 effects w = (Inr effects, w)"
| "drain_cycles M envs mode observedAt index (Suc budget) effects w =
     (case attemptMatch M (envs index) mode observedAt w of
        (Inl e, w1) \<Rightarrow> (Inl e, w1)
      | (Inr cycle, w1) \<Rightarrow>
          if fx_allocations cycle = [] then (Inr (mergeEffects effects cycle), w1)
          else drain_cycles M envs mode observedAt (index + 1) budget (mergeEffects effects cycle) w1)"

definition drain ::
    "('p, 'r) matchmaking \<Rightarrow> redis_fault \<Rightarrow> (nat \<Rightarrow> 'r attempt_env) \<Rightarrow> MatchMode \<Rightarrow> int \<Rightarrow> 'r world \<Rightarrow>
     (service_thrown + MatchmakingEffects) \<times> 'r world" where
  "drain M fault envs mode observedAt w =
     (case queueSize (mk_redis M) fault mode (fst w) of
        Inl e \<Rightarrow> (Inl (MatchmakingErr e), w)
      | Inr depth \<Rightarrow>
          if depth < 2 then (Inr EMPTY_EFFECTS, w)
          else drain_cycles M envs mode observedAt 0 (nat (max 1 (mk_batchSize M div 2))) EMPTY_EFFECTS w)"

definition sweepQueue ::
    "('p, 'r) matchmaking \<Rightarrow> redis_fault \<Rightarrow> MatchMode \<Rightarrow> int \<Rightarrow> 'r world \<Rightarrow> (MatchmakingError + MatchmakingEffects) \<times> 'r world" where
  "sweepQueue M fault mode observedAt w =
     (case on_redis (sweep (mk_redis M) (mk_uuids M) (mk_scripts M) fault mode observedAt (mk_batchSize M)) w of
        (Inl e, w1) \<Rightarrow> (Inl e, w1)
      | (Inr removed, w1) \<Rightarrow> (Inr (EMPTY_EFFECTS\<lparr>fx_removed := removed\<rparr>), w1))"

fun reconcile_reservations ::
    "('p, 'r) matchmaking \<Rightarrow> (nat \<Rightarrow> 'r reservation_env) \<Rightarrow> int \<Rightarrow> nat \<Rightarrow> MatchReservation list \<Rightarrow> MatchmakingEffects \<Rightarrow> 'r world \<Rightarrow>
     (service_thrown + MatchmakingEffects) \<times> 'r world" where
  "reconcile_reservations M envs observedAt index [] effects w = (Inr effects, w)"
| "reconcile_reservations M envs observedAt index (rv # rvs) effects w =
     (case processReservation (mk_lib M) (mk_redis M) (mk_uuids M) (mk_allocations M) (mk_scripts M) (envs index) rv observedAt w of
        (Inl e, w1) \<Rightarrow> (Inl e, w1)
      | (Inr cycle, w1) \<Rightarrow>
          reconcile_reservations M envs observedAt (index + 1) rvs (mergeEffects effects cycle) w1)"

fun reconcile_active ::
    "('p, 'r) matchmaking \<Rightarrow> (nat \<Rightarrow> 'r world \<Rightarrow> 'r world) \<Rightarrow> (nat \<Rightarrow> redis_fault) \<Rightarrow> nat \<Rightarrow> string list \<Rightarrow> GameAllocation list \<Rightarrow> MatchmakingEffects \<Rightarrow> 'r world \<Rightarrow>
     (service_thrown + MatchmakingEffects) \<times> 'r world" where
  "reconcile_active M others faults index handled [] effects w = (Inr effects, w)"
| "reconcile_active M others faults index handled (allocation # rest) effects w =
     (if gm_id (al_game allocation) \<in> set handled then reconcile_active M others faults (index + 1) handled rest effects w
      else
        (case on_redis (repairCommitted (mk_redis M) (mk_scripts M) (faults index) blitz (gm_id (al_game allocation))
             (gp_guestSessionId (fst (al_players allocation))) (gp_guestSessionId (snd (al_players allocation)))) (others (Suc index) w) of
           (Inl e, w1) \<Rightarrow> (Inl (MatchmakingErr e), w1)
         | (Inr changed, w1) \<Rightarrow>
             reconcile_active M others faults (index + 1) handled rest
               (if changed then effects\<lparr>fx_allocations := fx_allocations effects @ [allocation]\<rparr> else effects) w1))"

record 'r reconcile_env =
  rc_others :: "nat \<Rightarrow> 'r \<times> db \<Rightarrow> 'r \<times> db"
  rc_list :: redis_fault
  rc_pages :: "string list list"
  rc_reservations :: "nat \<Rightarrow> 'r reservation_env"
  rc_active :: tx_env
  rc_repairs :: "nat \<Rightarrow> redis_fault"

definition reconcile ::
    "('p, 'r) matchmaking \<Rightarrow> 'r reconcile_env \<Rightarrow> int \<Rightarrow> 'r world \<Rightarrow> (service_thrown + MatchmakingEffects) \<times> 'r world" where
  "reconcile M env observedAt w =
     (case listReservations (mk_redis M) (mk_uuids M) (rc_list env) (rc_pages env) (mk_batchSize M) (fst w) of
        Inl e \<Rightarrow> (Inl (MatchmakingErr e), w)
      | Inr reservations \<Rightarrow>
          (case reconcile_reservations M (rc_reservations env) observedAt 0 reservations EMPTY_EFFECTS w of
             (Inl e, w1) \<Rightarrow> (Inl e, w1)
           | (Inr effects, w1) \<Rightarrow>
               (let w2 = rc_others env 0 w1 in
                case findActiveAllocations (rc_active env) (nat (mk_batchSize M)) None (snd w2) of
                  Inl e \<Rightarrow> (Inl (GameErr e), w2)
                | Inr active \<Rightarrow>
                    reconcile_active M (rc_others env) (rc_repairs env) 0
                      (map (gm_id \<circ> al_game) (fx_allocations effects)) active effects w2)))"

end
