(* ===== verification/Game_Services.thy ===== *)
theory Game_Services
  imports Ephemeral_State Matchmaking_Service Lifecycle_Repository
begin

text \<open>
  The services that put the repositories, the copies in Redis, the deadline timers and
  the delivery to clients together: \<open>game-lifecycle.service.ts\<close>, \<open>game-move.service.ts\<close>,
  the write side of \<open>game-room.service.ts\<close>, \<open>game-recovery.service.ts\<close> and
  \<open>game-lifecycle-delivery.registry.ts\<close>, all under \<open>src/src/modules/game\<close>. A service
  method works on the two stores; \<open>others i\<close> is what other requests do to them before
  its \<open>i\<close>-th call, each call meets its own failure, and the events it delivers and the
  calls it makes of the deadline service are returned in order. Metrics and trace spans
  are left out.
\<close>

section \<open>Deliveries and timers\<close>

datatype delivery =
    deliver_ended TerminalSubmission | deliver_disconnected PlayerDisconnected | deliver_reconnected PlayerReconnected

datatype timer_call = schedule_timer string | cancel_timer string

text \<open>The registry holds the gateway, once it is bound.\<close>

definition bind_delegate :: "'d \<Rightarrow> 'd option \<Rightarrow> 'd option" where
  "bind_delegate delegate registry = Some delegate"

definition unbind_delegate :: "'d \<Rightarrow> 'd option \<Rightarrow> 'd option" where
  "unbind_delegate delegate registry = (if registry = Some delegate then None else registry)"

definition through_registry :: "'d option \<Rightarrow> delivery \<Rightarrow> ('d \<times> delivery) list" where
  "through_registry registry event = (case registry of None \<Rightarrow> [] | Some delegate \<Rightarrow> [(delegate, event)])"

definition touch_redis :: "('r \<Rightarrow> 'r) \<Rightarrow> 'r world \<Rightarrow> 'r world" where
  "touch_redis f w = (f (fst w), snd w)"

section \<open>Lifecycle service\<close>

text \<open>The constant parts of the services.\<close>

record ('p, 'r) game_services =
  gl_lib :: "'p chessjs"
  gl_redis :: "'r redis"
  gl_json :: json_text
  gl_uuidv4 :: "string \<Rightarrow> bool"
  gl_ephemeral :: GameEphemeralStateService
  gl_graceMs :: int
  gl_jobBatchSize :: int

definition dependency_unavailable :: "response_type \<Rightarrow> thrown" where
  "dependency_unavailable response = ServiceErr \<lparr>se_code = GameServiceErrorCode.DEPENDENCY_UNAVAILABLE,
     se_message = ''The authoritative game store is temporarily unavailable.'', se_retryable = True,
     se_authoritativeVersion = None, se_responseType = response\<rparr>"

text \<open>Errors of the database do not leave a service.\<close>

definition mapDatabaseFailure :: "response_type \<Rightarrow> thrown \<Rightarrow> thrown" where
  "mapDatabaseFailure response error =
     (case error of
        ServiceErr e \<Rightarrow> error
      | _ \<Rightarrow> if is_DatabaseError error then dependency_unavailable response else error)"

definition completeTerminal ::
    "('p, 'r) game_services \<Rightarrow> 'r terminal_faults \<Rightarrow> TerminalSubmission \<Rightarrow> 'r world \<Rightarrow> delivery list \<times> 'r world" where
  "completeTerminal S faults submission w =
     (if ts_duplicate submission then [] else [deliver_ended submission],
      touch_redis (afterTerminal (gl_redis S) (gl_ephemeral S) faults (eg_gameId (ts_ended submission))
        (ts_guestSessionIds submission)) w)"

record 'r terminal_env =
  te_others :: "nat \<Rightarrow> 'r \<times> db \<Rightarrow> 'r \<times> db"
  te_tx :: tx_env
  te_redis :: "'r terminal_faults"

definition service_resign ::
    "('p, 'r) game_services \<Rightarrow> 'r terminal_env \<Rightarrow> ResignGame \<Rightarrow> 'r world \<Rightarrow>
     (thrown + TerminalSubmission) \<times> delivery list \<times> 'r world" where
  "service_resign S env input w =
     (case on_db (resign (gl_uuidv4 S) (te_tx env) input) w of
        (Inl e, w1) \<Rightarrow> (Inl (mapDatabaseFailure server_error e), [], w1)
      | (Inr submission, w1) \<Rightarrow>
          (Inr submission, completeTerminal S (te_redis env) submission (te_others env 0 w1)))"

definition service_terminateForReset ::
    "('p, 'r) game_services \<Rightarrow> 'r terminal_env \<Rightarrow> string \<Rightarrow> 'r world \<Rightarrow> (thrown + unit) \<times> delivery list \<times> 'r world" where
  "service_terminateForReset S env guestSessionId w =
     (case on_db (terminateForReset (te_tx env) guestSessionId) w of
        (Inl e, w1) \<Rightarrow> (Inl e, [], w1)
      | (Inr None, w1) \<Rightarrow> (Inr (), [], w1)
      | (Inr (Some submission), w1) \<Rightarrow>
          (Inr (), completeTerminal S (te_redis env) submission (te_others env 0 w1)))"

record 'r connection_env =
  ce_others :: "nat \<Rightarrow> 'r \<times> db \<Rightarrow> 'r \<times> db"
  ce_tx :: tx_env
  ce_first :: redis_fault
  ce_second :: redis_fault
  ce_now :: int

definition service_disconnected ::
    "('p, 'r) game_services \<Rightarrow> 'r connection_env \<Rightarrow> string \<Rightarrow> 'r world \<Rightarrow>
     (thrown + PlayerDisconnected option) \<times> delivery list \<times> 'r world" where
  "service_disconnected S env guestSessionId w =
     (case on_db (markDisconnected (ce_tx env) guestSessionId (gl_graceMs S)) w of
        (Inl e, w1) \<Rightarrow> (Inl e, [], w1)
      | (Inr None, w1) \<Rightarrow> (Inr None, [], w1)
      | (Inr (Some event), w1) \<Rightarrow>
          (Inr (Some event), [deliver_disconnected event],
           touch_redis (afterDisconnect (gl_redis S) (ce_first env) (ce_second env) (pd_gameId event) guestSessionId
             (pd_graceDeadline event) (ce_now env)) (ce_others env 0 w1)))"

definition service_reconnected ::
    "('p, 'r) game_services \<Rightarrow> 'r connection_env \<Rightarrow> string \<Rightarrow> 'r world \<Rightarrow>
     (thrown + PlayerReconnected option) \<times> delivery list \<times> 'r world" where
  "service_reconnected S env guestSessionId w =
     (case on_db (markReconnected (ce_tx env) guestSessionId) w of
        (Inl e, w1) \<Rightarrow> (Inl e, [], w1)
      | (Inr None, w1) \<Rightarrow> (Inr None, [], w1)
      | (Inr (Some event), w1) \<Rightarrow>
          (Inr (Some event), [deliver_reconnected event],
           touch_redis (afterReconnect (gl_redis S) (ce_first env) (pr_gameId event) guestSessionId) (ce_others env 0 w1)))"

text \<open>
  \<open>Promise.all\<close> over the two players asks for both presences before it fails.
\<close>

record 'r adjudication_env =
  ad_others :: "nat \<Rightarrow> 'r \<times> db \<Rightarrow> 'r \<times> db"
  ad_noShow :: tx_env
  ad_timeout :: tx_env
  ad_grace :: tx_env
  ad_presenceA :: redis_fault
  ad_presenceB :: redis_fault
  ad_now :: int
  ad_abandonment :: tx_env
  ad_redis :: "'r terminal_faults"

definition ended_by ::
    "('p, 'r) game_services \<Rightarrow> 'r adjudication_env \<Rightarrow> TerminalSubmission \<Rightarrow> 'r world \<Rightarrow>
     (thrown + TerminalSubmission option) \<times> delivery list \<times> 'r world" where
  "ended_by S env submission w =
     (Inr (Some submission), completeTerminal S (ad_redis env) submission (ad_others env 9 w))"

definition absentGuests ::
    "('p, 'r) game_services \<Rightarrow> 'r adjudication_env \<Rightarrow> string \<times> string \<Rightarrow> 'r world \<Rightarrow> string list option \<times> 'r world" where
  "absentGuests S env guestSessionIds w =
     (let (a, b) = guestSessionIds;
          (ra, w1) = on_redis (isPresent (gl_redis S) (ad_presenceA env) a (ad_now env)) w;
          (rb, w2) = on_redis (isPresent (gl_redis S) (ad_presenceB env) b (ad_now env)) (ad_others env 3 w1) in
      case (ra, rb) of
        (Inr here_a, Inr here_b) \<Rightarrow>
          (Some (map fst (filter (\<lambda>x. \<not> snd x) [(a, here_a), (b, here_b)])), w2)
      | _ \<Rightarrow> (None, w2))"

definition adjudicateGrace ::
    "('p, 'r) game_services \<Rightarrow> 'r adjudication_env \<Rightarrow> string \<Rightarrow> 'r world \<Rightarrow>
     (thrown + TerminalSubmission option) \<times> delivery list \<times> 'r world" where
  "adjudicateGrace S env gameId w =
     (case findGraceState (ad_grace env) gameId (snd w) of
        Inl e \<Rightarrow> (Inl e, [], w)
      | Inr None \<Rightarrow> (Inr None, [], w)
      | Inr (Some grace) \<Rightarrow>
          (case absentGuests S env (gr_guestSessionIds grace) (ad_others env 2 w) of
             (None, w1) \<Rightarrow> (Inr None, [], w1)
           | (Some absent, w1) \<Rightarrow>
               if \<not> list_ex (\<lambda>guest. guest \<in> set absent) (gr_dueGuestSessionIds grace) then (Inr None, [], w1)
               else
                 (case on_db (adjudicateAbandonment (ad_abandonment env) gameId absent) (ad_others env 4 w1) of
                    (Inl e, w2) \<Rightarrow> (Inl e, [], w2)
                  | (Inr None, w2) \<Rightarrow> (Inr None, [], w2)
                  | (Inr (Some submission), w2) \<Rightarrow> ended_by S env submission w2)))"

definition adjudicateGame ::
    "('p, 'r) game_services \<Rightarrow> 'r adjudication_env \<Rightarrow> string \<Rightarrow> 'r world \<Rightarrow>
     (thrown + TerminalSubmission option) \<times> delivery list \<times> 'r world" where
  "adjudicateGame S env gameId w =
     (case on_db (adjudicateNoShow (ad_noShow env) gameId) w of
        (Inl e, w1) \<Rightarrow> (Inl e, [], w1)
      | (Inr (Some noShow), w1) \<Rightarrow> ended_by S env noShow w1
      | (Inr None, w1) \<Rightarrow>
          (case on_db (adjudicateTimeout (ad_timeout env) gameId) (ad_others env 0 w1) of
             (Inl e, w2) \<Rightarrow> (Inl e, [], w2)
           | (Inr (Some expired), w2) \<Rightarrow> ended_by S env expired w2
           | (Inr None, w2) \<Rightarrow> adjudicateGrace S env gameId (ad_others env 1 w2)))"

definition service_findDueGameIds :: "('p, 'r) game_services \<Rightarrow> tx_env \<Rightarrow> db \<Rightarrow> thrown + string list" where
  "service_findDueGameIds S env db = findDueGameIds env (nat (gl_jobBatchSize S)) db"

definition service_findSchedulableGameIds :: "('p, 'r) game_services \<Rightarrow> tx_env \<Rightarrow> db \<Rightarrow> thrown + string list" where
  "service_findSchedulableGameIds S env db = findSchedulableGameIds env (nat (gl_jobBatchSize S)) db"

section \<open>Move service\<close>

record 'r submit_env =
  sb_others :: "'r \<times> db \<Rightarrow> 'r \<times> db"
  sb_tx :: tx_env
  sb_redis :: "'r move_faults"

definition service_submit ::
    "('p, 'r) game_services \<Rightarrow> 'r submit_env \<Rightarrow> SubmitMove \<Rightarrow> 'r world \<Rightarrow>
     (thrown + MoveSubmission) \<times> timer_call list \<times> 'r world" where
  "service_submit S env input w =
     (case on_db (submitMove (gl_lib S) (gl_uuidv4 S) (sb_tx env) input) w of
        (Inl e, w1) \<Rightarrow> (Inl (mapDatabaseFailure move_rejected e), [], w1)
      | (Inr submission, w1) \<Rightarrow>
          (let gameId = ac_gameId (ms_accepted submission) in
           (Inr submission,
            if ms_ended submission = None then [schedule_timer gameId] else [cancel_timer gameId],
            touch_redis (afterMove (gl_redis S) (gl_ephemeral S) (sb_redis env) submission) (sb_others env w1))))"

section \<open>Room service\<close>

record ReadyGameResult =
  ry_snapshot :: GameSnapshotView
  ry_started :: "StartedGame option"

record 'r ready_env =
  ry_others :: "nat \<Rightarrow> 'r \<times> db \<Rightarrow> 'r \<times> db"
  ry_ready :: tx_env
  ry_start :: tx_env
  ry_redis :: redis_fault
  ry_read :: tx_env

definition started_game :: "GameRecord \<Rightarrow> int \<Rightarrow> StartedGame" where
  "started_game game startedAt =
     \<lparr>sg_clocks = \<lparr>gc_blackMs = gm_blackClockMs game, gc_observedAt = startedAt, gc_running = Some White,
        gc_whiteMs = gm_whiteClockMs game\<rparr>,
      sg_gameId = gm_id game, sg_gameVersion = gm_version game, sg_initialFen = gm_initialFen game\<rparr>"

text \<open>The part of \<open>ready\<close> that starts a game both players have joined.\<close>

definition startReadyGame ::
    "('p, 'r) game_services \<Rightarrow> 'r ready_env \<Rightarrow> string \<Rightarrow> 'r world \<Rightarrow> (thrown + StartedGame option) \<times> 'r world" where
  "startReadyGame S env gameId w =
     (case on_db (startIfReady (ry_start env) gameId) (ry_others env 0 w) of
        (Inl e, w1) \<Rightarrow> (Inl e, w1)
      | (Inr result, w1) \<Rightarrow>
          if \<not> sr_started result then (Inr None, w1)
          else
            (case gm_startedAt (al_game (sr_allocation result)) of
               None \<Rightarrow> (Inl (ServiceErr (serviceError GAME_STATE_CORRUPT
                 ''A started game has no authoritative start time.'' False)), w1)
             | Some startedAt \<Rightarrow>
                 (Inr (Some (started_game (al_game (sr_allocation result)) startedAt)),
                  touch_redis (afterStart (gl_redis S) (ry_redis env) gameId) (ry_others env 1 w1))))"

definition service_ready ::
    "('p, 'r) game_services \<Rightarrow> 'r ready_env \<Rightarrow> string \<Rightarrow> string \<Rightarrow> int \<Rightarrow> int \<Rightarrow> 'r world \<Rightarrow>
     (thrown + ReadyGameResult) \<times> timer_call list \<times> 'r world" where
  "service_ready S env gameId guestSessionId expectedVersion observedAt w =
     (case on_db (markReady (ry_ready env) \<lparr>mr_expectedVersion = expectedVersion, mr_gameId = gameId,
          mr_guestSessionId = guestSessionId, mr_observedAt = observedAt\<rparr>) w of
        (Inl e, w1) \<Rightarrow> (Inl e, [], w1)
      | (Inr allocation, w1) \<Rightarrow>
          (case (if gm_status (al_game allocation) = READY then startReadyGame S env gameId w1 else (Inr None, w1)) of
             (Inl e, w2) \<Rightarrow> (Inl e, [], w2)
           | (Inr started, w2) \<Rightarrow>
               (let w3 = ry_others env 2 w2 in
                case room_snapshot (ry_read env) gameId guestSessionId (snd w3) of
                  Inl e \<Rightarrow> (Inl e, [], w3)
                | Inr snapshot \<Rightarrow>
                    (Inr \<lparr>ry_snapshot = snapshot, ry_started = started\<rparr>, [schedule_timer gameId], w3))))"

section \<open>Recovery service\<close>

record 'r recovery_env =
  rv_others :: "nat \<Rightarrow> 'r \<times> db \<Rightarrow> 'r \<times> db"
  rv_cache :: redis_fault
  rv_eligibility :: tx_env
  rv_now :: int
  rv_clear :: redis_fault
  rv_restore :: pipe

definition service_activeGameId ::
    "('p, 'r) game_services \<Rightarrow> 'r recovery_env \<Rightarrow> string \<Rightarrow> 'r world \<Rightarrow> (thrown + string option) \<times> 'r world" where
  "service_activeGameId S env guestSessionId w =
     (let cached = readActiveGame (gl_redis S) (rv_cache env) guestSessionId (fst w); w1 = rv_others env 0 w in
      case getGuestMatchEligibility (rv_eligibility env) guestSessionId (rv_now env) (snd w1) of
        Inl e \<Rightarrow> (Inl (mapDatabaseFailure server_error e), w1)
      | Inr eligibility \<Rightarrow>
          (case ge_activeGameId eligibility of
             None \<Rightarrow>
               (case cached of
                  Some (Some gameId) \<Rightarrow>
                    (Inr None, snd (on_redis (clearActiveGame (gl_redis S) (gl_ephemeral S) (rv_clear env) guestSessionId gameId)
                      (rv_others env 1 w1)))
                | _ \<Rightarrow> (Inr None, w1))
           | Some gameId \<Rightarrow>
               (Inr (Some gameId), snd (on_redis (restoreActiveGame (gl_redis S) (gl_ephemeral S) (rv_restore env) gameId guestSessionId)
                 (rv_others env 1 w1)))))"

record RecoveredGameSnapshot =
  rg_id :: string
  rg_version :: int
  rg_payload :: json

record 'r snapshot_env =
  ss_others :: "nat \<Rightarrow> 'r \<times> db \<Rightarrow> 'r \<times> db"
  ss_cache :: redis_fault
  ss_authorize :: tx_env
  ss_read :: tx_env
  ss_restore :: restore_faults
  ss_now :: int

text \<open>A cached snapshot of a game that is over may be used as it is.\<close>

definition final_cached :: "CachedGameSnapshot option option \<Rightarrow> (int \<times> json) option" where
  "final_cached cached =
     (case cached of
        Some (Some c) \<Rightarrow>
          if gameSnapshotPayloadSchema (cs_payload c) \<and>
             field ''status'' (cs_payload c) \<in> JStr ` set [''ABANDONED'', ''COMPLETED'', ''EXPIRED'']
          then Some (cs_gameVersion c, cs_payload c) else None
      | _ \<Rightarrow> None)"

definition recoverFresh ::
    "('p, 'r) game_services \<Rightarrow> 'r snapshot_env \<Rightarrow> string \<Rightarrow> string \<Rightarrow> 'r world \<Rightarrow>
     (thrown + RecoveredGameSnapshot) \<times> 'r world" where
  "recoverFresh S env gameId guestSessionId w =
     (case room_snapshot (ss_read env) gameId guestSessionId (snd w) of
        Inl e \<Rightarrow> (Inl (mapDatabaseFailure server_error e), w)
      | Inr snapshot \<Rightarrow>
          (case present_snapshot snapshot guestSessionId of
             None \<Rightarrow> (Inl (ErrorObject None (Some ''An authorized snapshot has malformed membership.'') None), w)
           | Some payload \<Rightarrow>
               (Inr \<lparr>rg_id = gameId, rg_version = gm_version (al_game (sn_allocation snapshot)), rg_payload = payload\<rparr>,
                snd (on_redis (restoreSnapshot (gl_redis S) (gl_json S) (gl_ephemeral S) (ss_restore env) snapshot (ss_now env))
                  (ss_others env 2 w)))))"

definition service_snapshot ::
    "('p, 'r) game_services \<Rightarrow> 'r snapshot_env \<Rightarrow> string \<Rightarrow> string \<Rightarrow> 'r world \<Rightarrow>
     (thrown + RecoveredGameSnapshot) \<times> 'r world" where
  "service_snapshot S env gameId guestSessionId w =
     (let w1 = ss_others env 0 w in
      case final_cached (readSnapshot (gl_redis S) (gl_json S) (ss_cache env) gameId guestSessionId (fst w)) of
        None \<Rightarrow> recoverFresh S env gameId guestSessionId w1
      | Some (version, payload) \<Rightarrow>
          (case authorize (ss_authorize env) gameId guestSessionId (snd w1) of
             Inl e \<Rightarrow> (Inl (mapDatabaseFailure server_error e), w1)
           | Inr allocation \<Rightarrow>
               if gm_version (al_game allocation) = version \<and>
                  JStr (status_text (gm_status (al_game allocation))) = field ''status'' payload
               then (Inr \<lparr>rg_id = gameId, rg_version = version, rg_payload = payload\<rparr>, w1)
               else recoverFresh S env gameId guestSessionId (ss_others env 1 w1)))"

definition service_activeSnapshot ::
    "('p, 'r) game_services \<Rightarrow> 'r recovery_env \<Rightarrow> 'r snapshot_env \<Rightarrow> string \<Rightarrow> 'r world \<Rightarrow>
     (thrown + RecoveredGameSnapshot) \<times> 'r world" where
  "service_activeSnapshot S env senv guestSessionId w =
     (case service_activeGameId S env guestSessionId w of
        (Inl e, w1) \<Rightarrow> (Inl e, w1)
      | (Inr None, w1) \<Rightarrow>
          (Inl (ServiceErr (serviceError GameServiceErrorCode.GAME_NOT_FOUND ''The guest has no active game.'' False)), w1)
      | (Inr (Some gameId), w1) \<Rightarrow> service_snapshot S senv gameId guestSessionId w1)"

end
