(* ===== verification/Matchmaking_View.thy ===== *)
theory Matchmaking_View
  imports Matchmaking_Script_Service
begin

text \<open>
  The matchmaking state of Redis as the program reads it (\<open>view\<close>): the queues, the
  presence sets, the state, guard and active game of every guest and the
  reservations. \<open>view_simps\<close> turns commands into changes of the view, and the
  lemmas below describe \<open>try-match.lua\<close>, \<open>enqueue.lua\<close>, \<open>leave.lua\<close> and
  \<open>finalize.lua\<close> by what they do to it.
\<close>


section \<open>The view of a state\<close>

record matchmaking_view =
  v_queue :: "MatchMode \<Rightarrow> (string \<times> int) list"
  v_presence :: "string \<Rightarrow> (string \<times> int) list"
  v_state :: "string \<Rightarrow> string option"
  v_guard :: "string \<Rightarrow> string option"
  v_active :: "string \<Rightarrow> string option"
  v_reservation :: "string \<Rightarrow> string \<Rightarrow> redis_value option"

definition view :: "'r redis \<Rightarrow> 'r \<Rightarrow> matchmaking_view" where
  "view R s = \<lparr>v_queue = (\<lambda>m. rd_zrange R (queueKey m) s), v_presence = (\<lambda>u. rd_zrange R (presenceKey u) s),
     v_state = (\<lambda>u. rd_get R (stateKey u) s), v_guard = (\<lambda>u. rd_get R (guardKey u) s),
     v_active = (\<lambda>u. rd_get R (activeGameKey u) s), v_reservation = (\<lambda>i. map_of (rd_hgetall R (reservationKey i) s))\<rparr>"

text \<open>The keys hold the kinds of values that the program puts there.\<close>

definition typed :: "'r redis \<Rightarrow> 'r \<Rightarrow> bool" where
  "typed R s \<longleftrightarrow>
     (\<forall>m. rd_get R (queueKey m) s = None \<and> rd_hgetall R (queueKey m) s = []) \<and>
     (\<forall>u. rd_get R (presenceKey u) s = None \<and> rd_hgetall R (presenceKey u) s = []) \<and>
     (\<forall>i. rd_get R (reservationKey i) s = None \<and> rd_zrange R (reservationKey i) s = []) \<and>
     (\<forall>u. rd_zrange R (activeGameKey u) s = [] \<and> rd_hgetall R (activeGameKey u) s = [] \<and>
          rd_zrange R (stateKey u) s = [] \<and> rd_hgetall R (stateKey u) s = [] \<and>
          rd_zrange R (guardKey u) s = [] \<and> rd_hgetall R (guardKey u) s = [])"

named_theorems view_simps \<open>reading the state, and the effect of a command on the view\<close>

lemma view_reads [view_simps]:
  "rd_zrange R (queueKey m) s = v_queue (view R s) m" "rd_zrange R (presenceKey u) s = v_presence (view R s) u"
  "rd_get R (stateKey u) s = v_state (view R s) u" "rd_get R (guardKey u) s = v_guard (view R s) u"
  "rd_get R (activeGameKey u) s = v_active (view R s) u"
  "map_of (rd_hgetall R (reservationKey i) s) = v_reservation (view R s) i"
  "rd_hgetall R (reservationKey i) s = [] \<longleftrightarrow> v_reservation (view R s) i = Map.empty"
  "rd_zscore R (queueKey m) u s = map_of (v_queue (view R s) m) u"
  "rd_zcard R (queueKey m) s = int (length (v_queue (view R s) m))"
  "rd_zcard R (presenceKey u) s = int (length (v_presence (view R s) u))"
  by (auto simp: view_def rd_zscore_def rd_zcard_def)

lemma exists_reads [view_simps]:
  assumes "typed R s"
  shows "rd_exists R (activeGameKey u) s \<longleftrightarrow> v_active (view R s) u \<noteq> None"
    "rd_exists R (reservationKey i) s \<longleftrightarrow> v_reservation (view R s) i \<noteq> Map.empty"
  using assms by (auto simp: rd_exists_def typed_def view_def)

lemma view_zset: "redis_ok R \<Longrightarrow> zset (v_queue (view R s) m)"
  by (simp add: view_def redis_zset)

lemma typed_set [view_simps]:
  assumes "redis_ok R" "typed R s" "positive_ttl t"
  shows "typed R (rd_set R (stateKey u) v t s)" "typed R (rd_set R (guardKey u) v t s)"
    "typed R (rd_set R (activeGameKey u) v t s)"
  using assms by (simp_all add: typed_def redis_laws)

lemma typed_del [view_simps]:
  assumes "redis_ok R" "typed R s"
  shows "typed R (rd_del R k s)"
  using assms by (simp add: typed_def redis_laws)

lemma typed_pexpire [view_simps]:
  assumes "redis_ok R" "typed R s" "0 < t"
  shows "typed R (rd_pexpire R k t s)"
  using assms by (simp add: typed_def redis_laws)

lemma typed_zsets [view_simps]:
  assumes "redis_ok R" "typed R s"
  shows "typed R (rd_zadd R (queueKey m) sc u s)" "typed R (rd_zrem R (queueKey m) u s)"
    "typed R (rd_zremrangebyscore R (presenceKey u) now s)"
    "typed R (rd_zadd R (presenceKey u) sc x s)" "typed R (rd_zrem R (presenceKey u) x s)"
  using assms by (simp_all add: typed_def redis_laws)

lemma typed_hset [view_simps]:
  assumes "redis_ok R" "typed R s"
  shows "typed R (rd_hset R (reservationKey i) fs s)"
  using assms by (simp add: typed_def redis_laws)

lemma view_set [view_simps]:
  assumes "redis_ok R" "positive_ttl t"
  shows "view R (rd_set R (stateKey u) v t s) = (view R s)\<lparr>v_state := (v_state (view R s))(u := Some v)\<rparr>"
    "view R (rd_set R (guardKey u) v t s) = (view R s)\<lparr>v_guard := (v_guard (view R s))(u := Some v)\<rparr>"
    "view R (rd_set R (activeGameKey u) v t s) = (view R s)\<lparr>v_active := (v_active (view R s))(u := Some v)\<rparr>"
  using assms by (auto simp: view_def redis_laws)

lemma view_del [view_simps]:
  assumes "redis_ok R"
  shows "view R (rd_del R (stateKey u) s) = (view R s)\<lparr>v_state := (v_state (view R s))(u := None)\<rparr>"
    "view R (rd_del R (guardKey u) s) = (view R s)\<lparr>v_guard := (v_guard (view R s))(u := None)\<rparr>"
    "view R (rd_del R (activeGameKey u) s) = (view R s)\<lparr>v_active := (v_active (view R s))(u := None)\<rparr>"
    "view R (rd_del R (presenceKey u) s) = (view R s)\<lparr>v_presence := (v_presence (view R s))(u := [])\<rparr>"
    "view R (rd_del R (reservationKey i) s) = (view R s)\<lparr>v_reservation := (v_reservation (view R s))(i := Map.empty)\<rparr>"
  using assms by (auto simp: view_def redis_laws)

lemma view_pexpire [view_simps]:
  assumes "redis_ok R" "0 < t"
  shows "view R (rd_pexpire R k t s) = view R s"
  using assms by (simp add: view_def redis_laws)

lemma view_zsets [view_simps]:
  assumes "redis_ok R" "typed R s"
  shows "view R (rd_zadd R (queueKey m) sc u s) =
      (view R s)\<lparr>v_queue := (v_queue (view R s))(m := zinsert sc u (v_queue (view R s) m))\<rparr>"
    "view R (rd_zrem R (queueKey m) u s) =
      (view R s)\<lparr>v_queue := (v_queue (view R s))(m := zremove u (v_queue (view R s) m))\<rparr>"
    "view R (rd_zremrangebyscore R (presenceKey u) now s) =
      (view R s)\<lparr>v_presence := (v_presence (view R s))(u := filter (\<lambda>x. now < snd x) (v_presence (view R s) u))\<rparr>"
    "view R (rd_zadd R (presenceKey u) sc x s) =
      (view R s)\<lparr>v_presence := (v_presence (view R s))(u := zinsert sc x (v_presence (view R s) u))\<rparr>"
    "view R (rd_zrem R (presenceKey u) x s) =
      (view R s)\<lparr>v_presence := (v_presence (view R s))(u := zremove x (v_presence (view R s) u))\<rparr>"
  using assms by (auto simp: view_def redis_laws typed_def)

lemma view_hset [view_simps]:
  assumes "redis_ok R" "typed R s"
  shows "view R (rd_hset R (reservationKey i) fs s) =
      (view R s)\<lparr>v_reservation := (v_reservation (view R s))(i := v_reservation (view R s) i ++ map_of fs)\<rparr>"
proof -
  have "map_of (rd_hgetall R (reservationKey j) (rd_hset R (reservationKey i) fs s)) =
    (if j = i then map_of (rd_hgetall R (reservationKey i) s) ++ map_of fs else map_of (rd_hgetall R (reservationKey j) s))" for j
    using assms by (cases "j = i") (auto simp: redis_laws typed_def)
  with assms show ?thesis by (auto simp: view_def redis_laws typed_def)
qed

lemma positive_ttl_simps [simp]: "positive_ttl None" "positive_ttl (Some t) \<longleftrightarrow> 0 < t"
  by (simp_all add: positive_ttl_def)

section \<open>Scripts on the view\<close>

text \<open>Guests whose presence has not run out.\<close>

definition pruned :: "int \<Rightarrow> string \<Rightarrow> matchmaking_view \<Rightarrow> matchmaking_view" where
  "pruned now u v = v\<lparr>v_presence := (v_presence v)(u := filter (\<lambda>x. now < snd x) (v_presence v u))\<rparr>"

definition present :: "int \<Rightarrow> string \<Rightarrow> matchmaking_view \<Rightarrow> bool" where
  "present now u v \<longleftrightarrow> filter (\<lambda>x. now < snd x) (v_presence v u) \<noteq> []"

definition exit_reason :: "string \<Rightarrow> int \<Rightarrow> int \<Rightarrow> matchmaking_view \<Rightarrow> string \<times> int \<Rightarrow> QueueExitReason option" where
  "exit_reason mode now maxWait v x =
     (if snd x \<le> now - maxWait then Some timed_out
      else if \<not> present now (fst x) v then Some disconnected
      else if v_state v (fst x) \<noteq> Some ''QUEUED'' \<or> v_guard v (fst x) \<noteq> Some mode \<or> v_active v (fst x) \<noteq> None
        then Some stale else None)"

lemma is_present_view:
  assumes "redis_ok R" "typed R s"
  shows "fst (is_present R now (presenceKey u) s) = present now u (view R s)"
    "view R (snd (is_present R now (presenceKey u) s)) = pruned now u (view R s)"
    "typed R (snd (is_present R now (presenceKey u) s))"
  using assms
  by (auto simp: is_present_def Let_def view_simps present_def pruned_def fun_eq_iff)

lemma pruned_reads [simp]:
  "v_queue (pruned now u v) = v_queue v" "v_state (pruned now u v) = v_state v" "v_guard (pruned now u v) = v_guard v"
  "v_active (pruned now u v) = v_active v" "v_reservation (pruned now u v) = v_reservation v"
  "present now w (pruned now u v) = present now w v"
proof -
  show "present now w (pruned now u v) = present now w v"
    unfolding pruned_def present_def by (cases "w = u") simp_all
qed (simp_all add: pruned_def)

lemma try_match_reason_view:
  assumes "redis_ok R" "typed R s" and "try_match_reason R mode now maxWait u sc s = (r, s')"
  shows "r = exit_reason mode now maxWait (view R s) (u, sc)" "typed R s'"
    "view R s' = (if sc \<le> now - maxWait then view R s else pruned now u (view R s))"
  using assms is_present_view [OF assms(1,2), of now u]
  by (auto simp: try_match_reason_def exit_reason_def view_simps split: if_splits prod.splits bool.splits)

lemma sweep_reason_eq: "sweep_reason R mode now maxWait u sc s = try_match_reason R mode now maxWait u sc s"
  by (auto simp: sweep_reason_def try_match_reason_def split: prod.split bool.split)


section \<open>The scan of the queue\<close>

text \<open>What the loop of \<open>try-match.lua\<close> computes, on the list of queued guests.\<close>

definition removed_guest :: "(string \<times> int \<Rightarrow> QueueExitReason option) \<Rightarrow> string \<times> int \<Rightarrow> RemovedQueueGuest" where
  "removed_guest f x = \<lparr>rq_guestSessionId = fst x, rq_reason = the (f x)\<rparr>"

fun scan_queue ::
    "(string \<times> int \<Rightarrow> QueueExitReason option) \<Rightarrow> nat \<Rightarrow> nat \<Rightarrow> (string \<times> int) list \<Rightarrow>
     (string \<times> int) list \<times> (string \<times> int) list \<times> (string \<times> int) list" where
  "scan_queue f need 0 q = ([], [], q)"
| "scan_queue f 0 (Suc n) q = ([], [], q)"
| "scan_queue f (Suc need) (Suc n) [] = ([], [], [])"
| "scan_queue f (Suc need) (Suc n) (x # q) =
     (if f x = None then (let (c, d, q') = scan_queue f need n q in (x # c, d, q'))
      else (let (c, d, q') = scan_queue f (Suc need) n q in (c, x # d, q')))"

definition discarded_view :: "string set \<Rightarrow> matchmaking_view \<Rightarrow> matchmaking_view \<Rightarrow> bool" where
  "discarded_view D v v' \<longleftrightarrow>
     v_state v' = (\<lambda>u. if u \<in> D \<and> v_state v u = Some ''QUEUED'' then None else v_state v u) \<and>
     v_guard v' = (\<lambda>u. if u \<in> D then None else v_guard v u) \<and>
     v_active v' = v_active v \<and> v_reservation v' = v_reservation v"

lemma discarded_view_refl: "discarded_view {} v v"
  by (simp add: discarded_view_def)

lemma discard_view:
  assumes "redis_ok R" "typed R s"
  shows "typed R (discard R u s)" "v_queue (view R (discard R u s)) = v_queue (view R s)"
    "discarded_view {u} (view R s) (view R (discard R u s))" "v_presence (view R (discard R u s)) = v_presence (view R s)"
  using assms by (auto simp: discard_def Let_def view_simps discarded_view_def fun_eq_iff)

lemma scan_queue_parts:
  "scan_queue f need n q = (c, d, q') \<Longrightarrow>
     (\<forall>x \<in> set c. f x = None) \<and> (\<forall>x \<in> set d. f x \<noteq> None) \<and> length c \<le> need \<and>
     mset q = mset c + mset d + mset q'"
proof (induction f need n q arbitrary: c d q' rule: scan_queue.induct)
  case (4 f need n x q)
  then show ?case
    by (cases "f x") (auto split: prod.splits)
qed auto


lemma rd_zpopmin_view:
  "rd_zpopmin R (queueKey m) s =
     (case v_queue (view R s) m of [] \<Rightarrow> (None, s) | x # _ \<Rightarrow> (Some x, rd_zrem R (queueKey m) (fst x) s))"
  by (simp add: rd_zpopmin_def view_def)

lemma exit_reason_cong:
  "v_state v (fst x) = v_state v' (fst x) \<Longrightarrow> v_guard v (fst x) = v_guard v' (fst x) \<Longrightarrow> v_active v = v_active v' \<Longrightarrow>
     present now (fst x) v = present now (fst x) v' \<Longrightarrow> exit_reason mode now maxWait v x = exit_reason mode now maxWait v' x"
  by (simp add: exit_reason_def)

text \<open>One turn of the loop.\<close>

lemma scan_step_view:
  assumes R: "redis_ok R" "typed R s" and q: "v_queue (view R s) m = (u, sc) # q"
    and reason: "try_match_reason R mode now maxWait u sc (rd_zrem R (queueKey m) u s) = (r, s')"
    and s'': "s'' = (if r = None then s' else discard R u s')"
  shows "r = exit_reason mode now maxWait (view R s) (u, sc)" "typed R s''"
    "v_queue (view R s'') = (v_queue (view R s))(m := q)"
    "discarded_view (if r = None then {} else {u}) (view R s) (view R s'')"
    "present now w (view R s'') = present now w (view R s)"
proof -
  let ?s1 = "rd_zrem R (queueKey m) u s"
  have t1: "typed R ?s1" using R by (simp add: view_simps)
  have "zset ((u, sc) # q)" using view_zset [OF R(1), of s m] q by simp
  then have v1: "view R ?s1 = (view R s)\<lparr>v_queue := (v_queue (view R s))(m := q)\<rparr>"
    using R q zremove_head [of "(u, sc)" q] by (simp add: view_simps)
  note reason' = try_match_reason_view [OF R(1) t1 reason]
  have pres1: "present now w (view R ?s1) = present now w (view R s)" for w by (simp add: v1 present_def)
  show "r = exit_reason mode now maxWait (view R s) (u, sc)"
    using reason'(1) pres1 by (simp add: exit_reason_def v1)
  note disc = discard_view [OF R(1) reason'(2), of u]
  show "typed R s''" using s'' reason'(2) disc(1) by simp
  show "v_queue (view R s'') = (v_queue (view R s))(m := q)"
    using s'' reason'(3) disc(2) by (simp add: v1)
  show "discarded_view (if r = None then {} else {u}) (view R s) (view R s'')"
    using s'' reason'(3) disc(3) by (auto simp: discarded_view_def v1)
  have "present now w (view R s') = present now w (view R s)"
    using reason'(3) pres1 by simp
  then show "present now w (view R s'') = present now w (view R s)"
    using s'' disc(4) by (simp add: present_def)
qed

lemma discarded_view_trans:
  "discarded_view D v v1 \<Longrightarrow> discarded_view D' v1 v2 \<Longrightarrow> discarded_view (D \<union> D') v v2"
  by (auto simp: discarded_view_def fun_eq_iff)

lemma try_match_scan_view:
  assumes "redis_ok R" "typed R s"
    and "\<forall>x \<in> set (v_queue (view R s) m). f x = exit_reason mode now maxWait (view R s) x"
    and "length c \<le> 2"
    and "scan_queue f (2 - length c) n (v_queue (view R s) m) = (c', d', q')"
  shows "\<exists>s'. try_match_scan R (queueKey m) mode now maxWait n c d s = (c @ c', d @ map (removed_guest f) d', s') \<and>
    typed R s' \<and> v_queue (view R s') = (v_queue (view R s))(m := q') \<and>
    discarded_view (fst ` set d') (view R s) (view R s') \<and> (\<forall>w. present now w (view R s') = present now w (view R s))"
  using assms(2-)
proof (induction n arbitrary: c d c' d' s)
  case 0
  then show ?case by (auto simp: discarded_view_refl)
next
  case (Suc n)
  show ?case
  proof (cases "length c = 2")
    case True
    with Suc.prems show ?thesis by (auto simp: discarded_view_refl)
  next
    case False
    with Suc.prems(3) have need: "2 - length c = Suc (1 - length c)" by auto
    show ?thesis
    proof (cases "v_queue (view R s) m")
      case Nil
      with Suc.prems False need show ?thesis
        by (auto simp: rd_zpopmin_view discarded_view_refl intro!: exI [of _ s])
    next
      case (Cons x q)
      obtain u sc where x: "x = (u, sc)" by (cases x)
      note q = Cons [unfolded x]
      obtain r s1 where reason: "try_match_reason R mode now maxWait u sc (rd_zrem R (queueKey m) u s) = (r, s1)"
        by (cases "try_match_reason R mode now maxWait u sc (rd_zrem R (queueKey m) u s)")
      define s2 where "s2 = (if r = None then s1 else discard R u s1)"
      note step = scan_step_view [OF assms(1) Suc.prems(1) q reason s2_def]
      have fx: "f (u, sc) = r" using Suc.prems(2) q step(1) by simp
      have "zset ((u, sc) # q)" using view_zset [OF assms(1), of s m] q by simp
      then have other: "fst y \<noteq> u" if "y \<in> set q" for y using that by (auto simp: zset_Cons)
      have f2: "\<forall>y \<in> set (v_queue (view R s2) m). f y = exit_reason mode now maxWait (view R s2) y"
      proof
        fix y assume "y \<in> set (v_queue (view R s2) m)"
        then have y: "y \<in> set q" by (simp add: step(3))
        with Suc.prems(2) q have "f y = exit_reason mode now maxWait (view R s) y" by simp
        also have "\<dots> = exit_reason mode now maxWait (view R s2) y"
          using step(4,5) other [OF y] by (intro exit_reason_cong) (auto simp: discarded_view_def)
        finally show "f y = exit_reason mode now maxWait (view R s2) y" .
      qed
      have q2: "v_queue (view R s2) m = q" by (simp add: step(3))
      let ?c1 = "if r = None then c @ [(u, sc)] else c"
      let ?d1 = "if r = None then d else d @ [removed_guest f (u, sc)]"
      obtain c1 d1 where rest: "scan_queue f (2 - length ?c1) n q = (c1, d1, q')"
        and parts: "c' = (if r = None then (u, sc) # c1 else c1)" "d' = (if r = None then d1 else (u, sc) # d1)"
        using Suc.prems(4) fx need unfolding q by (auto split: if_splits prod.splits simp: numeral_2_eq_2)
      have len: "length ?c1 \<le> 2" using Suc.prems(3) False by simp
      from rest have "scan_queue f (2 - length ?c1) n (v_queue (view R s2) m) = (c1, d1, q')" by (simp only: q2)
      from Suc.IH [OF step(2) f2 len this, of ?d1] obtain s' where
        s': "try_match_scan R (queueKey m) mode now maxWait n ?c1 ?d1 s2 = (?c1 @ c1, ?d1 @ map (removed_guest f) d1, s')"
          "typed R s'" "v_queue (view R s') = (v_queue (view R s2))(m := q')"
          "discarded_view (fst ` set d1) (view R s2) (view R s')" "\<forall>w. present now w (view R s') = present now w (view R s2)"
        by blast
      have "try_match_scan R (queueKey m) mode now maxWait (Suc n) c d s =
          try_match_scan R (queueKey m) mode now maxWait n ?c1 ?d1 s2"
        using False q reason fx by (simp add: rd_zpopmin_view s2_def removed_guest_def split: option.split)
      moreover have "discarded_view (fst ` set d') (view R s) (view R s')"
        using discarded_view_trans [OF step(4) s'(4)] parts(2) by (cases "r = None") auto
      ultimately show ?thesis
        using s' step(3,5) parts by (intro exI [of _ s']) auto
    qed
  qed
qed


lemma scan_queue_short:
  "length (filter (\<lambda>x. f x = None) (take n q)) < need \<Longrightarrow>
     scan_queue f need n q = (filter (\<lambda>x. f x = None) (take n q), filter (\<lambda>x. f x \<noteq> None) (take n q), drop n q)"
  by (induction f need n q rule: scan_queue.induct) auto

lemma scan_queue_full:
  "0 < need \<Longrightarrow> need \<le> length (filter (\<lambda>x. f x = None) (take n q)) \<Longrightarrow>
     \<exists>seen x rest. q = seen @ x # rest \<and> f x = None \<and> length (filter (\<lambda>x. f x = None) seen) = need - 1 \<and>
       scan_queue f need n q = (filter (\<lambda>x. f x = None) seen @ [x], filter (\<lambda>x. f x \<noteq> None) seen, rest)"
proof (induction f need n q rule: scan_queue.induct)
  case (4 f need n y q)
  show ?case
  proof (cases "f y = None")
    case True
    show ?thesis
    proof (cases "need = 0")
      case True
      with \<open>f y = None\<close> show ?thesis by (cases n) (auto intro!: exI [of _ "[]"])
    next
      case False
      with 4 True obtain seen x rest where "q = seen @ x # rest" "f x = None"
        "length (filter (\<lambda>x. f x = None) seen) = need - 1"
        "scan_queue f need n q = (filter (\<lambda>x. f x = None) seen @ [x], filter (\<lambda>x. f x \<noteq> None) seen, rest)"
        by auto
      with True False show ?thesis by (intro exI [of _ "y # seen"] exI [of _ x] exI [of _ rest]) auto
    qed
  next
    case False
    with 4 obtain seen x rest where "q = seen @ x # rest" "f x = None"
      "length (filter (\<lambda>x. f x = None) seen) = need"
      "scan_queue f (Suc need) n q = (filter (\<lambda>x. f x = None) seen @ [x], filter (\<lambda>x. f x \<noteq> None) seen, rest)"
      by auto
    with False show ?thesis by (intro exI [of _ "y # seen"] exI [of _ x] exI [of _ rest]) auto
  qed
qed auto

section \<open>A match\<close>

definition reserved_view :: "MatchReservation \<Rightarrow> string set \<Rightarrow> (string \<times> int) list \<Rightarrow> matchmaking_view \<Rightarrow> matchmaking_view \<Rightarrow> bool" where
  "reserved_view rv D rest v v' \<longleftrightarrow>
     v_queue v' = (v_queue v)(rv_mode rv := rest) \<and>
     v_state v' = (\<lambda>u. if u \<in> {rv_a rv, rv_b rv} then Some ''RESERVED''
       else if u \<in> D \<and> v_state v u = Some ''QUEUED'' then None else v_state v u) \<and>
     v_guard v' = (\<lambda>u. if u \<in> D \<union> {rv_a rv, rv_b rv} then None else v_guard v u) \<and>
     v_active v' = v_active v \<and>
     v_reservation v' = (v_reservation v)(rv_matchId rv := map_of (reservation_fields rv))"

text \<open>
  The script on a queue with two matchable guests among the first \<open>maxScan\<close>: they
  are the first two, and the guests found unfit before the second are discarded.
\<close>

lemma try_match_scanned:
  assumes R: "redis_ok R" "typed R s"
    and f: "f = exit_reason (mode_text mode) now maxWait (view R s)" and q: "q = v_queue (view R s) mode"
  obtains c d q' s1 where "scan_queue f 2 n q = (c, d, q')"
    "try_match_scan R (queueKey mode) (mode_text mode) now maxWait n [] [] s = (c, map (removed_guest f) d, s1)"
    "typed R s1" "v_queue (view R s1) = (v_queue (view R s))(mode := q')" "discarded_view (fst ` set d) (view R s) (view R s1)"
    "\<forall>w. present now w (view R s1) = present now w (view R s)"
proof -
  obtain c d q' where "scan_queue f 2 n q = (c, d, q')" by (cases "scan_queue f 2 n q")
  with that try_match_scan_view [OF R, of mode f "mode_text mode" now maxWait "[]" n c d q' "[]"] f q show ?thesis
    by auto
qed

lemma try_match_lua_matched:
  assumes R: "redis_ok R" "typed R s" and ttl: "0 < reservationTtl" "0 < guardTtl"
    and free: "v_reservation (view R s) matchId = Map.empty"
    and f: "f = exit_reason (mode_text mode) now maxWait (view R s)" and q: "q = v_queue (view R s) mode"
    and many: "2 \<le> length (filter (\<lambda>x. f x = None) (take (nat maxScan) q))"
  obtains seen a b rest rv s' where "q = seen @ b # rest" "filter (\<lambda>x. f x = None) seen = [a]" "f b = None"
    "rv = \<lparr>rv_a = fst a, rv_aScore = snd a, rv_b = fst b, rv_bScore = snd b, rv_createdAt = now,
       rv_gameId = gameId, rv_matchId = matchId, rv_mode = mode\<rparr>"
    "try_match_lua R (queueKey mode) (reservationKey matchId) mode now maxWait matchId gameId reservationTtl guardTtl
       maxScan s = (Some (matched rv (map (removed_guest f) (filter (\<lambda>x. f x \<noteq> None) seen))), s')"
    "reserved_view rv (fst ` set (filter (\<lambda>x. f x \<noteq> None) seen)) rest (view R s) (view R s')" "typed R s'" "fst a \<noteq> fst b"
    "\<forall>w. present now w (view R s') = present now w (view R s)"
proof -
  let ?ok = "\<lambda>x. f x = None"
  have z: "zset q" using view_zset [OF R(1), of s mode] q by simp
  obtain c d q' s1 where scan: "scan_queue f 2 (nat maxScan) q = (c, d, q')"
    and s1: "try_match_scan R (queueKey mode) (mode_text mode) now maxWait (nat maxScan) [] [] s = (c, map (removed_guest f) d, s1)"
      "typed R s1" "v_queue (view R s1) = (v_queue (view R s))(mode := q')" "discarded_view (fst ` set d) (view R s) (view R s1)"
    and pres1: "\<forall>w. present now w (view R s1) = present now w (view R s)"
    by (rule try_match_scanned [OF R f q, where n = "nat maxScan"])
  have exists: "\<not> rd_exists R (reservationKey matchId) s" using R free by (simp add: view_simps)
  from scan_queue_full [of 2 f "nat maxScan" q, OF _ many] obtain seen b rest where
    parts: "q = seen @ b # rest" "f b = None" "length (filter ?ok seen) = 1"
      "scan_queue f 2 (nat maxScan) q = (filter ?ok seen @ [b], filter (\<lambda>x. f x \<noteq> None) seen, rest)" by auto
  from parts(3) obtain a where a: "filter ?ok seen = [a]" by (auto simp: length_Suc_conv)
  then have "a \<in> set (filter ?ok seen)" by simp
  then have ab: "fst a \<noteq> fst b" using z parts(1) by (auto simp: zset_append zset_Cons)
  define rv where "rv = \<lparr>rv_a = fst a, rv_aScore = snd a, rv_b = fst b, rv_bScore = snd b, rv_createdAt = now,
      rv_gameId = gameId, rv_matchId = matchId, rv_mode = mode\<rparr>"
  have cd: "c = [a, b]" "d = filter (\<lambda>x. f x \<noteq> None) seen" "q' = rest" using scan parts(4) a by simp_all
  define s4 where "s4 = rd_del R (guardKey (fst b)) (rd_del R (guardKey (fst a))
    (rd_set R (stateKey (fst b)) ''RESERVED'' (Some reservationTtl) (rd_set R (stateKey (fst a)) ''RESERVED'' (Some reservationTtl) s1)))"
  define s' where "s' = rd_pexpire R (reservationKey matchId) reservationTtl
    (rd_hset R (reservationKey matchId) (reservation_fields rv) s4)"
  have run: "try_match_lua R (queueKey mode) (reservationKey matchId) mode now maxWait matchId gameId reservationTtl guardTtl
       maxScan s = (Some (matched rv (map (removed_guest f) d)), s')"
    using exists ab s1(1) unfolding cd(1) s'_def s4_def
    by (cases a; cases b; simp add: try_match_lua_def Let_def rv_def)
  have typed: "typed R s'" using R ttl s1(2) unfolding s'_def s4_def by (simp add: view_simps)
  have free1: "v_reservation (view R s1) matchId = Map.empty" using free s1(4) by (simp add: discarded_view_def)
  have "reserved_view rv (fst ` set d) rest (view R s) (view R s')"
    using R ttl s1(2,3,4) cd(3) unfolding s'_def s4_def
    by (auto simp: view_simps reserved_view_def discarded_view_def rv_def free1 fun_eq_iff)
  moreover have "present now w (view R s') = present now w (view R s)" for w
    using R ttl s1(2) pres1 [rule_format, of w] unfolding s'_def s4_def by (simp add: view_simps present_def)
  ultimately show ?thesis using that [OF parts(1) a parts(2) rv_def] run typed ab cd(2) by simp
qed

lemma try_match_lua_unmatched:
  assumes R: "redis_ok R" "typed R s" and ttl: "0 < reservationTtl" "0 < guardTtl"
    and free: "v_reservation (view R s) matchId = Map.empty"
    and f: "f = exit_reason (mode_text mode) now maxWait (view R s)" and q: "q = v_queue (view R s) mode"
    and few: "length (filter (\<lambda>x. f x = None) (take (nat maxScan) q)) < 2"
  obtains s' where "try_match_lua R (queueKey mode) (reservationKey matchId) mode now maxWait matchId gameId reservationTtl
       guardTtl maxScan s =
       (Some (no_match (map (removed_guest f) (filter (\<lambda>x. f x \<noteq> None) (take (nat maxScan) q)))), s')"
    "v_queue (view R s') = (v_queue (view R s))(mode :=
       filter (\<lambda>x. f x = None) (take (nat maxScan) q) @ drop (nat maxScan) q)"
    "discarded_view (fst ` set (filter (\<lambda>x. f x \<noteq> None) (take (nat maxScan) q))) (view R s) (view R s')" "typed R s'"
proof -
  let ?n = "nat maxScan"
  let ?ok = "\<lambda>x. f x = None"
  have z: "zset q" using view_zset [OF R(1), of s mode] q by simp
  obtain c d q' s1 where scan: "scan_queue f 2 ?n q = (c, d, q')"
    and s1: "try_match_scan R (queueKey mode) (mode_text mode) now maxWait ?n [] [] s = (c, map (removed_guest f) d, s1)"
      "typed R s1" "v_queue (view R s1) = (v_queue (view R s))(mode := q')" "discarded_view (fst ` set d) (view R s) (view R s1)"
    by (rule try_match_scanned [OF R f q, where n = "nat maxScan"])
  have exists: "\<not> rd_exists R (reservationKey matchId) s" using R free by (simp add: view_simps)
  have cd: "c = filter ?ok (take ?n q)" "d = filter (\<lambda>x. f x \<noteq> None) (take ?n q)" "q' = drop ?n q"
    using scan scan_queue_short [OF few] by simp_all
  define s' where "s' = requeue_candidates R (queueKey mode) guardTtl c s1"
  have run: "try_match_lua R (queueKey mode) (reservationKey matchId) mode now maxWait matchId gameId reservationTtl guardTtl
       maxScan s = (Some (no_match (map (removed_guest f) d)), s')"
    using exists s1(1) few unfolding cd(1) [symmetric] s'_def
    by (auto simp: try_match_lua_def split: list.splits)
  have "zset (take ?n q @ drop ?n q)" using z by simp
  then have z': "zset (c @ q')" unfolding cd zset_append by (simp add: zset_filter)
  have "typed R s' \<and> v_queue (view R s') = (v_queue (view R s))(mode := c @ q') \<and>
      discarded_view (fst ` set d) (view R s) (view R s')"
  proof (cases c)
    case Nil
    with s'_def s1 show ?thesis by simp
  next
    case (Cons x xs)
    have "length c < 2" using few cd(1) by simp
    with Cons have c1: "c = [x]" by (cases xs) simp_all
    have "view R s' = (view R s1)\<lparr>v_queue := (v_queue (view R s1))(mode := x # q')\<rparr>" "typed R s'"
      using R(1) s1(2,3) ttl z' zinsert_front [of x q'] unfolding s'_def c1
      by (cases x; simp add: view_simps)+
    with c1 s1(3,4) show ?thesis by (auto simp: discarded_view_def)
  qed
  with that run cd show ?thesis by blast
qed


section \<open>Entering and leaving the queue\<close>

definition place :: "string \<Rightarrow> (string \<times> int) list \<Rightarrow> int" where
  "place u q = int (length (takeWhile (\<lambda>x. fst x \<noteq> u) q)) + 1"

lemma zrank_view [view_simps]:
  "rd_zrank R (queueKey m) u s =
     (if u \<in> fst ` set (v_queue (view R s) m) then Some (place u (v_queue (view R s) m) - 1) else None)"
  by (simp add: rd_zrank_def place_def view_def)

lemma zinsert_member: "u \<in> fst ` set (zinsert sc u q)"
  by (force simp: set_zinsert)

definition may_enqueue :: "string \<Rightarrow> matchmaking_view \<Rightarrow> bool" where
  "may_enqueue u v \<longleftrightarrow> v_active v u = None \<and> v_state v u \<noteq> Some ''RESERVED'' \<and> v_state v u \<noteq> Some ''IN_GAME''"

definition enqueued :: "MatchMode \<Rightarrow> string \<Rightarrow> int \<Rightarrow> matchmaking_view \<Rightarrow> matchmaking_view" where
  "enqueued mode u now v = v\<lparr>
     v_queue := (v_queue v)(mode := if u \<in> fst ` set (v_queue v mode) then v_queue v mode else zinsert now u (v_queue v mode)),
     v_state := (v_state v)(u := Some ''QUEUED''), v_guard := (v_guard v)(u := Some (mode_text mode))\<rparr>"

lemma queued_since_iff: "map_of q u = None \<longleftrightarrow> u \<notin> fst ` set q"
  by (simp add: map_of_eq_None_iff)

lemma enqueue_lua_view:
  assumes R: "redis_ok R" "typed R s" and ttl: "0 < guardTtl" "0 < stateTtl" and may: "may_enqueue u (view R s)"
  shows "\<exists>s'. enqueue_lua R (queueKey mode) (guardKey u) (stateKey u) (activeGameKey u) u (mode_text mode) now guardTtl
      stateTtl s =
    (Some (enqueue_queued \<lparr>qj_duplicate = u \<in> fst ` set (v_queue (view R s) mode),
       qj_position = place u (v_queue (enqueued mode u now (view R s)) mode),
       qj_since = (case map_of (v_queue (view R s) mode) u of None \<Rightarrow> now | Some since \<Rightarrow> since)\<rparr>), s') \<and>
    typed R s' \<and> view R s' = enqueued mode u now (view R s)"
proof (cases "map_of (v_queue (view R s) mode) u")
  case None
  then have out: "u \<notin> fst ` set (v_queue (view R s) mode)" by (simp add: queued_since_iff)
  with R ttl may None show ?thesis
    by (simp add: enqueue_lua_def may_enqueue_def view_simps rd_zadd_nx_def Let_def enqueued_def zinsert_member)
next
  case (Some since)
  then have "u \<in> fst ` set (v_queue (view R s) mode)" by (metis queued_since_iff option.distinct(1))
  with R ttl may Some show ?thesis
    by (simp add: enqueue_lua_def may_enqueue_def view_simps Let_def enqueued_def)
qed

lemma enqueue_succeeds:
  assumes R: "redis_ok R" "typed R s" and sv: "service_ok sv" and may: "may_enqueue u (view R s)"
    and since: "0 \<le> now" "\<forall>x \<in> set (v_queue (view R s) mode). 0 \<le> snd x"
  obtains s' where "enqueue R sv redis_up u mode now s =
    (Inr \<lparr>qj_duplicate = u \<in> fst ` set (v_queue (view R s) mode),
       qj_position = place u (v_queue (enqueued mode u now (view R s)) mode),
       qj_since = (case map_of (v_queue (view R s) mode) u of None \<Rightarrow> now | Some since \<Rightarrow> since)\<rparr>, s')"
    "typed R s'" "view R s' = enqueued mode u now (view R s)"
proof -
  from sv have ttl: "0 < sv_guardTtlMs sv" "0 < sv_stateTtlMs sv" by (simp_all add: service_ok_def)
  have nonneg: "0 \<le> (case map_of (v_queue (view R s) mode) u of None \<Rightarrow> now | Some since \<Rightarrow> since)"
    using since by (auto split: option.splits dest!: map_of_SomeD)
  have pos: "0 < place u q" for q by (simp add: place_def)
  from enqueue_lua_view [OF R ttl may, of mode now] that nonneg pos show ?thesis
    by (auto simp: enqueue_def execute_def)
qed

lemma enqueue_refused:
  assumes "redis_ok R" "\<not> may_enqueue u (view R s)"
  shows "enqueue R sv redis_up u mode now s =
    (Inl (MatchmakingError ALREADY_IN_GAME ''The guest already has an active or reserved game.'' False), s)"
  using assms by (auto simp: enqueue_def execute_def enqueue_lua_def may_enqueue_def view_simps)

lemma leave_view:
  assumes R: "redis_ok R" "typed R s" and sv: "service_ok sv"
  obtains s' where "leave R sv redis_up u mode s = (Inr (u \<in> fst ` set (v_queue (view R s) mode)), s')" "typed R s'"
    "view R s' = (view R s)\<lparr>v_queue := (v_queue (view R s))(mode := zremove u (v_queue (view R s) mode)),
       v_guard := (v_guard (view R s))(u := None),
       v_state := (if v_state (view R s) u = Some ''QUEUED'' then (v_state (view R s))(u := Some ''IDLE'')
                   else v_state (view R s))\<rparr>"
proof -
  have "(map_of (v_queue (view R s) mode) u \<noteq> None) = (u \<in> fst ` set (v_queue (view R s) mode))"
    by (simp add: queued_since_iff)
  moreover from sv have "0 < sv_stateTtlMs sv" by (simp add: service_ok_def)
  ultimately show ?thesis using R that
    by (simp add: leave_def execute_def leave_lua_def Let_def view_simps)
qed

section \<open>Finalizing and repairing\<close>

definition in_game :: "string \<Rightarrow> string \<Rightarrow> matchmaking_view \<Rightarrow> bool" where
  "in_game gid u v \<longleftrightarrow> v_active v u = Some gid \<and> v_state v u = Some ''IN_GAME'' \<and> v_guard v u = None"

lemma reservation_matches_view:
  "reservation_matches (rd_hgetall R (reservationKey i) s) matchId a b gid \<longleftrightarrow>
     v_reservation (view R s) i ''matchId'' = Some (RText matchId) \<and> v_reservation (view R s) i ''a'' = Some (RText a) \<and>
     v_reservation (view R s) i ''b'' = Some (RText b) \<and> v_reservation (view R s) i ''gameId'' = Some (RText gid)"
  by (simp add: reservation_matches_def Let_def view_def)

definition reserved :: "MatchReservation \<Rightarrow> matchmaking_view \<Rightarrow> bool" where
  "reserved rv v \<longleftrightarrow> v_reservation v (rv_matchId rv) = map_of (reservation_fields rv)"

lemma reserved_simps:
  assumes "reserved rv (view R s)"
  shows "reservation_matches (rd_hgetall R (reservationKey (rv_matchId rv)) s) (rv_matchId rv) (rv_a rv) (rv_b rv) (rv_gameId rv)"
    "v_reservation (view R s) (rv_matchId rv) \<noteq> Map.empty"
proof -
  show m: "reservation_matches (rd_hgetall R (reservationKey (rv_matchId rv)) s) (rv_matchId rv) (rv_a rv) (rv_b rv) (rv_gameId rv)"
    using assms by (simp add: reservation_matches_view reserved_def reservation_fields_def)
  then show "v_reservation (view R s) (rv_matchId rv) \<noteq> Map.empty"
    by (auto simp: reservation_matches_view)
qed

definition finalized_view :: "MatchReservation \<Rightarrow> matchmaking_view \<Rightarrow> matchmaking_view" where
  "finalized_view rv v = v\<lparr>
     v_state := (v_state v)(rv_a rv := Some ''IN_GAME'', rv_b rv := Some ''IN_GAME''),
     v_active := (v_active v)(rv_a rv := Some (rv_gameId rv), rv_b rv := Some (rv_gameId rv)),
     v_guard := (v_guard v)(rv_a rv := None, rv_b rv := None),
     v_reservation := (v_reservation v)(rv_matchId rv := Map.empty)\<rparr>"

lemma finalize_view:
  assumes R: "redis_ok R" "typed R s" and sv: "service_ok sv" and rv: "reserved rv (view R s)"
  obtains s' where "finalize R sv redis_up rv s = (Inr True, s')" "typed R s'" "view R s' = finalized_view rv (view R s)"
proof -
  from sv have "0 < sv_stateTtlMs sv" by (simp add: service_ok_def)
  with R that reserved_simps [OF rv] show ?thesis
    by (simp add: finalize_def execute_def finalize_lua_def Let_def view_simps finalized_view_def)
qed

lemma finalize_settled:
  assumes R: "redis_ok R" and "v_reservation (view R s) (rv_matchId rv) = Map.empty"
    and "v_active (view R s) (rv_a rv) = Some (rv_gameId rv)" "v_active (view R s) (rv_b rv) = Some (rv_gameId rv)"
  shows "finalize R sv redis_up rv s = (Inr False, s)"
  using assms by (simp add: finalize_def execute_def finalize_lua_def view_simps)

end
