(* ===== verification/Matchmaking_Effects.thy ===== *)
theory Matchmaking_Effects
  imports Matchmaking_View
begin

text \<open>
  The effect of \<open>rollback.lua\<close> and \<open>sweep.lua\<close> on the view.
\<close>


section \<open>Rolling back\<close>

definition requeued_list :: "string \<Rightarrow> int \<Rightarrow> (string \<times> int) list \<Rightarrow> (string \<times> int) list" where
  "requeued_list u score q =
     (case map_of q u of None \<Rightarrow> zinsert score u q | Some current \<Rightarrow> if score < current then zinsert score u q else q)"

definition restored_view ::
    "MatchMode \<Rightarrow> int \<Rightarrow> string \<Rightarrow> int \<Rightarrow> string \<Rightarrow> bool \<Rightarrow> matchmaking_view \<Rightarrow> matchmaking_view" where
  "restored_view mode now u score assignment eligible v =
     (if assignment \<noteq> '''' then
        v\<lparr>v_queue := (v_queue v)(mode := zremove u (v_queue v mode)), v_guard := (v_guard v)(u := None),
          v_state := (v_state v)(u := Some ''IN_GAME''), v_active := (v_active v)(u := Some assignment)\<rparr>
      else if eligible \<and> present now u v then
        (pruned now u v)\<lparr>v_queue := (v_queue v)(mode := requeued_list u score (v_queue v mode)),
          v_guard := (v_guard v)(u := Some (mode_text mode)), v_state := (v_state v)(u := Some ''QUEUED''),
          v_active := (v_active v)(u := None)\<rparr>
      else
        (if eligible then pruned now u v else v)\<lparr>v_queue := (v_queue v)(mode := zremove u (v_queue v mode)),
          v_guard := (v_guard v)(u := None), v_state := (v_state v)(u := Some ''IDLE''), v_active := (v_active v)(u := None)\<rparr>)"

lemma restore_view:
  assumes R: "redis_ok R" "typed R s" and ttl: "0 < guardTtl" "0 < stateTtl"
  obtains s' where "restore R (queueKey mode) (mode_text mode) now guardTtl stateTtl u score assignment eligible (stateKey u)
      (activeGameKey u) (guardKey u) (presenceKey u) s =
    (if assignment = '''' \<and> eligible \<and> present now u (view R s) then [\<lparr>rqg_guestSessionId = u, rqg_since = score\<rparr>] else [], s')"
    "typed R s'" "view R s' = restored_view mode now u score assignment eligible (view R s)"
proof (cases "assignment = ''''")
  case False
  with R ttl that show ?thesis by (simp add: restore_def restored_view_def view_simps)
next
  case True
  let ?s1 = "rd_del R (activeGameKey u) s"
  have s1: "typed R ?s1" "view R ?s1 = (view R s)\<lparr>v_active := (v_active (view R s))(u := None)\<rparr>"
    using R by (simp_all add: view_simps)
  obtain b s2 where b: "is_present R now (presenceKey u) ?s1 = (b, s2)" by (cases "is_present R now (presenceKey u) ?s1")
  note p = is_present_view [OF R(1) s1(1), of now u, unfolded b]
  have b': "b = present now u (view R s)" using p(1) by (simp add: s1(2) present_def)
  have v2: "view R s2 = pruned now u ((view R s)\<lparr>v_active := (v_active (view R s))(u := None)\<rparr>)" "typed R s2"
    using p(2,3) s1(2) by simp_all
  show ?thesis
  proof (cases "eligible \<and> b")
    case yes: True
    with R ttl True b v2 b' that show ?thesis
      by (simp add: restore_def restored_view_def Let_def view_simps requeued_list_def pruned_def split: option.split)
  next
    case no: False
    with R ttl True b v2 b' s1 that show ?thesis
      by (cases eligible) (auto simp: restore_def restored_view_def Let_def view_simps pruned_def)
  qed
qed

lemma rollback_view:
  assumes R: "redis_ok R" "typed R s" and sv: "service_ok sv" and rv: "reserved rv (view R s)"
    and U: "is_uuid U (rv_a rv)" "is_uuid U (rv_b rv)" "0 \<le> rv_aScore rv" "0 \<le> rv_bScore rv" and ne: "rv_a rv \<noteq> rv_b rv"
    and a: "asg = assignment_text (dg_activeGameId a)" and b: "bsg = assignment_text (dg_activeGameId b)"
  obtains s' where "rollback R U sv redis_up rv a b now s =
      (Inr ((if asg = '''' \<and> dg_eligible a \<and> present now (rv_a rv) (view R s)
             then [\<lparr>rqg_guestSessionId = rv_a rv, rqg_since = rv_aScore rv\<rparr>] else []) @
            (if bsg = '''' \<and> dg_eligible b \<and> present now (rv_b rv) (view R s)
             then [\<lparr>rqg_guestSessionId = rv_b rv, rqg_since = rv_bScore rv\<rparr>] else [])), s')"
    "typed R s'"
    "view R s' = (restored_view (rv_mode rv) now (rv_b rv) (rv_bScore rv) bsg (dg_eligible b)
        (restored_view (rv_mode rv) now (rv_a rv) (rv_aScore rv) asg (dg_eligible a) (view R s)))
      \<lparr>v_reservation := (v_reservation (view R s))(rv_matchId rv := Map.empty)\<rparr>"
proof -
  from sv have ttl: "0 < sv_guardTtlMs sv" "0 < sv_stateTtlMs sv" by (simp_all add: service_ok_def)
  obtain s1 where s1: "restore R (queueKey (rv_mode rv)) (mode_text (rv_mode rv)) now (sv_guardTtlMs sv) (sv_stateTtlMs sv) (rv_a rv)
      (rv_aScore rv) asg (dg_eligible a) (stateKey (rv_a rv)) (activeGameKey (rv_a rv)) (guardKey (rv_a rv)) (presenceKey (rv_a rv)) s =
      (if asg = '''' \<and> dg_eligible a \<and> present now (rv_a rv) (view R s)
       then [\<lparr>rqg_guestSessionId = rv_a rv, rqg_since = rv_aScore rv\<rparr>] else [], s1)"
    "typed R s1" "view R s1 = restored_view (rv_mode rv) now (rv_a rv) (rv_aScore rv) asg (dg_eligible a) (view R s)"
    by (rule restore_view [OF R ttl])
  obtain s2 where s2: "restore R (queueKey (rv_mode rv)) (mode_text (rv_mode rv)) now (sv_guardTtlMs sv) (sv_stateTtlMs sv) (rv_b rv)
      (rv_bScore rv) bsg (dg_eligible b) (stateKey (rv_b rv)) (activeGameKey (rv_b rv)) (guardKey (rv_b rv)) (presenceKey (rv_b rv)) s1 =
      (if bsg = '''' \<and> dg_eligible b \<and> present now (rv_b rv) (view R s1)
       then [\<lparr>rqg_guestSessionId = rv_b rv, rqg_since = rv_bScore rv\<rparr>] else [], s2)"
    "typed R s2" "view R s2 = restored_view (rv_mode rv) now (rv_b rv) (rv_bScore rv) bsg (dg_eligible b) (view R s1)"
    by (rule restore_view [OF R(1) s1(2) ttl])
  have pres: "present now (rv_b rv) (view R s1) = present now (rv_b rv) (view R s)"
    using ne unfolding s1(3) by (simp add: restored_view_def present_def pruned_def)
  have res: "v_reservation (restored_view m t u sc x e v) = v_reservation v" for m t u sc x e v
    by (simp add: restored_view_def)
  let ?s' = "rd_del R (reservationKey (rv_matchId rv)) s2"
  have "rollback R U sv redis_up rv a b now s =
      (Inr ((if asg = '''' \<and> dg_eligible a \<and> present now (rv_a rv) (view R s)
             then [\<lparr>rqg_guestSessionId = rv_a rv, rqg_since = rv_aScore rv\<rparr>] else []) @
            (if bsg = '''' \<and> dg_eligible b \<and> present now (rv_b rv) (view R s)
             then [\<lparr>rqg_guestSessionId = rv_b rv, rqg_since = rv_bScore rv\<rparr>] else [])), ?s')"
    using reserved_simps [OF rv] s1(1) s2(1) U
    by (simp add: rollback_def execute_def rollback_lua_def view_simps Let_def a [symmetric] b [symmetric] pres)
  then show ?thesis using that R(1) s2(2,3) s1(3) by (simp add: view_simps res)
qed

section \<open>Sweeping\<close>

definition swept :: "string set \<Rightarrow> matchmaking_view \<Rightarrow> matchmaking_view \<Rightarrow> bool" where
  "swept D v v' \<longleftrightarrow>
     v_state v' = (\<lambda>u. if u \<in> D \<and> v_state v u = Some ''QUEUED'' then Some ''IDLE'' else v_state v u) \<and>
     v_guard v' = (\<lambda>u. if u \<in> D then None else v_guard v u) \<and>
     v_active v' = v_active v \<and> v_reservation v' = v_reservation v"

lemma sweep_step_view:
  assumes R: "redis_ok R" "typed R s" and ttl: "0 < stateTtl" and x: "(u, sc) \<in> set (v_queue (view R s) m)"
    and reason: "sweep_reason R mode now maxWait u sc s = (r, s1)"
    and s2: "s2 = (if r = None then s1 else
      let s2 = rd_del R (guardKey u) (rd_zrem R (queueKey m) u s1) in
      if rd_get R (stateKey u) s2 = Some ''QUEUED'' then rd_set R (stateKey u) ''IDLE'' (Some stateTtl) s2 else s2)"
  shows "r = exit_reason mode now maxWait (view R s) (u, sc)" "typed R s2" "rd_zscore R (queueKey m) u s1 \<noteq> None"
    "v_queue (view R s2) = (if r = None then v_queue (view R s) else (v_queue (view R s))(m := zremove u (v_queue (view R s) m)))"
    "swept (if r = None then {} else {u}) (view R s) (view R s2)"
    "present now w (view R s2) = present now w (view R s)"
proof -
  note reason' = try_match_reason_view [OF R reason [unfolded sweep_reason_eq]]
  show r: "r = exit_reason mode now maxWait (view R s) (u, sc)" by (rule reason'(1))
  have v1: "v_queue (view R s1) = v_queue (view R s)" "v_state (view R s1) = v_state (view R s)"
    "v_guard (view R s1) = v_guard (view R s)" "v_active (view R s1) = v_active (view R s)"
    "v_reservation (view R s1) = v_reservation (view R s)" "present now w (view R s1) = present now w (view R s)" for w
    using reason'(3) by simp_all
  have "u \<in> fst ` set (v_queue (view R s) m)" using x by force
  then show "rd_zscore R (queueKey m) u s1 \<noteq> None" by (simp add: view_simps v1 queued_since_iff)
  show "typed R s2" using R(1) ttl reason'(2) by (simp add: s2 Let_def view_simps)
  show "v_queue (view R s2) = (if r = None then v_queue (view R s) else (v_queue (view R s))(m := zremove u (v_queue (view R s) m)))"
    using R(1) ttl reason'(2) by (simp add: s2 Let_def view_simps v1)
  show "swept (if r = None then {} else {u}) (view R s) (view R s2)"
    using R(1) ttl reason'(2) by (auto simp: s2 Let_def view_simps v1 swept_def fun_eq_iff)
  have "v_presence (view R s2) = v_presence (view R s1)"
    using R(1) ttl reason'(2) by (simp add: s2 Let_def view_simps)
  with v1(6) show "present now w (view R s2) = present now w (view R s)" by (simp add: present_def)
qed

lemma swept_trans: "swept D v v1 \<Longrightarrow> swept D' v1 v2 \<Longrightarrow> swept (D \<union> D') v v2"
  by (auto simp: swept_def fun_eq_iff)

lemma sweep_entries_view:
  assumes "redis_ok R" "typed R s" "0 < stateTtl"
    and "set entries \<subseteq> set (v_queue (view R s) m)" "distinct (map fst entries)"
    and "\<forall>x \<in> set entries. f x = exit_reason mode now maxWait (view R s) x"
  shows "\<exists>s'. sweep_entries R (queueKey m) mode now maxWait stateTtl entries removed s =
      (removed @ map (removed_guest f) (filter (\<lambda>x. f x \<noteq> None) entries), s') \<and> typed R s' \<and>
    v_queue (view R s') = (v_queue (view R s))(m :=
      filter (\<lambda>y. fst y \<notin> fst ` set (filter (\<lambda>x. f x \<noteq> None) entries)) (v_queue (view R s) m)) \<and>
    swept (fst ` set (filter (\<lambda>x. f x \<noteq> None) entries)) (view R s) (view R s')"
  using assms(2,4-)
proof (induction entries arbitrary: removed s)
  case Nil
  then show ?case by (simp add: swept_def)
next
  case (Cons x entries)
  obtain u sc where x: "x = (u, sc)" by (cases x)
  obtain r s1 where reason: "sweep_reason R mode now maxWait u sc s = (r, s1)"
    by (cases "sweep_reason R mode now maxWait u sc s")
  define s2 where "s2 = (if r = None then s1 else
      let s2 = rd_del R (guardKey u) (rd_zrem R (queueKey m) u s1) in
      if rd_get R (stateKey u) s2 = Some ''QUEUED'' then rd_set R (stateKey u) ''IDLE'' (Some stateTtl) s2 else s2)"
  have xq: "(u, sc) \<in> set (v_queue (view R s) m)" using Cons.prems(2) x by simp
  note step = sweep_step_view [OF assms(1) Cons.prems(1) assms(3) xq reason s2_def]
  have fx: "f (u, sc) = r" using Cons.prems(4) x step(1) by simp
  have other: "fst y \<noteq> u" if "y \<in> set entries" for y using that Cons.prems(3) x by force
  let ?removed = "if r = None then removed else removed @ [removed_guest f (u, sc)]"
  have run: "sweep_entries R (queueKey m) mode now maxWait stateTtl (x # entries) removed s =
      sweep_entries R (queueKey m) mode now maxWait stateTtl entries ?removed s2"
    using reason fx step(3) by (simp add: x s2_def Let_def removed_guest_def split: option.split)
  have sub: "set entries \<subseteq> set (v_queue (view R s2) m)"
    using Cons.prems(2) other step(4) by (auto simp: zremove_def)
  have f2: "\<forall>y \<in> set entries. f y = exit_reason mode now maxWait (view R s2) y"
  proof
    fix y assume y: "y \<in> set entries"
    then have "f y = exit_reason mode now maxWait (view R s) y" using Cons.prems(4) by simp
    also have "\<dots> = exit_reason mode now maxWait (view R s2) y"
      using step(5,6) other [OF y] by (intro exit_reason_cong) (auto simp: swept_def)
    finally show "f y = exit_reason mode now maxWait (view R s2) y" .
  qed
  have "distinct (map fst entries)" using Cons.prems(3) by simp
  from Cons.IH [OF step(2) sub this f2, of ?removed] obtain s' where
    s': "sweep_entries R (queueKey m) mode now maxWait stateTtl entries ?removed s2 =
        (?removed @ map (removed_guest f) (filter (\<lambda>x. f x \<noteq> None) entries), s')" "typed R s'"
      "v_queue (view R s') = (v_queue (view R s2))(m :=
        filter (\<lambda>y. fst y \<notin> fst ` set (filter (\<lambda>x. f x \<noteq> None) entries)) (v_queue (view R s2) m))"
      "swept (fst ` set (filter (\<lambda>x. f x \<noteq> None) entries)) (view R s2) (view R s')" by blast
  have "swept (fst ` set (filter (\<lambda>x. f x \<noteq> None) (x # entries))) (view R s) (view R s')"
    using swept_trans [OF step(5) s'(4)] fx x by (cases r) auto
  moreover have "v_queue (view R s') = (v_queue (view R s))(m :=
      filter (\<lambda>y. fst y \<notin> fst ` set (filter (\<lambda>x. f x \<noteq> None) (x # entries))) (v_queue (view R s) m))"
    using s'(3) step(4) fx x by (cases r) (auto simp: zremove_def conj_commute)
  ultimately show ?case using run s'(1,2) fx x by (cases r) auto
qed

end
