(* ===== verification/Matchmaking_Properties.thy ===== *)
theory Matchmaking_Properties
  imports Matchmaking_Effects
begin

text \<open>
  What matchmaking promises, for any Redis server that behaves as documented:
  joining and leaving, pairing, rolling back, finalizing and sweeping.
\<close>


section \<open>Samples\<close>

definition sample_uuids :: uuids where
  "sample_uuids = \<lparr>is_uuid = (\<lambda>s. s \<noteq> []), is_uuidv4 = (\<lambda>s. s \<noteq> [])\<rparr>"

definition sample_service :: MatchmakingScriptService where
  "sample_service = \<lparr>sv_guardTtlMs = 120000, sv_maxWaitMs = 120000, sv_reservationTtlMs = 30000, sv_stateTtlMs = 3600000\<rparr>"

text \<open>Three guests in the queue, the first of them without a connection.\<close>

definition sample_connected :: sample_state where
  "sample_connected = rd_zadd sample_redis (presenceKey ''u3'') 90000 ''s3''
     (rd_zadd sample_redis (presenceKey ''u2'') 90000 ''s2'' sample_redis_empty)"

definition sample_queued :: "sample_state" where
  "sample_queued = snd (enqueue sample_redis sample_service redis_up ''u3'' blitz 3000
     (snd (enqueue sample_redis sample_service redis_up ''u2'' blitz 2000
     (snd (enqueue sample_redis sample_service redis_up ''u1'' blitz 1000 sample_connected)))))"

text \<open>The reservation of \<open>u2\<close> and \<open>u3\<close>.\<close>

definition sample_reservation :: MatchReservation where
  "sample_reservation = \<lparr>rv_a = ''u2'', rv_aScore = 2000, rv_b = ''u3'', rv_bScore = 3000, rv_createdAt = 5000,
     rv_gameId = ''g'', rv_matchId = ''m'', rv_mode = blitz\<rparr>"

definition sample_reserved :: sample_state where
  "sample_reserved = snd (tryMatch sample_redis sample_uuids sample_service redis_up blitz ''m'' ''g'' 5000 100 sample_queued)"

lemma sample_service_ok: "service_ok sample_service"
  by (simp add: service_ok_def sample_service_def)

lemma typed_empty: "typed sample_redis sample_redis_empty"
  by (simp add: typed_def sample_redis_def sample_redis_empty_def ss_lookup_def)

lemma typed_connected: "typed sample_redis sample_connected"
  unfolding sample_connected_def by (simp add: view_simps typed_empty sample_redis_ok)

lemma enqueue_typed:
  assumes "redis_ok R" "typed R s" "service_ok sv"
  shows "typed R (snd (enqueue R sv redis_up u mode now s))"
proof -
  from assms(3) have ttl: "0 < sv_guardTtlMs sv" "0 < sv_stateTtlMs sv" by (simp_all add: service_ok_def)
  show ?thesis
  proof (cases "may_enqueue u (view R s)")
    case True
    from enqueue_lua_view [OF assms(1,2) ttl True, of mode now] show ?thesis
      by (auto simp: enqueue_def execute_def)
  next
    case False
    with assms show ?thesis by (simp add: enqueue_refused)
  qed
qed

lemma typed_queued: "typed sample_redis sample_queued"
  unfolding sample_queued_def by (intro enqueue_typed sample_redis_ok sample_service_ok typed_connected)

lemma sample_queue: "v_queue (view sample_redis sample_queued) blitz = [(''u1'', 1000), (''u2'', 2000), (''u3'', 3000)]"
  by code_simp

lemma filter_insort_drop: "\<not> P x \<Longrightarrow> filter P (insort_key k x xs) = filter P xs"
  by (induction xs) auto

lemma zremove_zinsert: "zremove u (zinsert sc u q) = zremove u q"
  by (simp add: zinsert_def zremove_def filter_insort_drop)

text \<open>A successful match attempt, as the next steps use it.\<close>

lemma tryMatch_matched:
  assumes R: "redis_ok R" "typed R s" "service_ok sv" and free: "v_reservation (view R s) matchId = Map.empty"
    and q: "q = v_queue (view R s) mode" and f: "f = exit_reason (mode_text mode) now (sv_maxWaitMs sv) (view R s)"
    and ids: "\<forall>x \<in> set q. is_uuid U (fst x) \<and> 0 \<le> snd x" "is_uuidv4 U matchId" "is_uuidv4 U gameId" "0 \<le> now"
    and run: "tryMatch R U sv redis_up mode matchId gameId now maxScan s = (Inr att, s1)" "ma_reservation att = Some rv"
  obtains seen a b rest where "q = seen @ b # rest" "filter (\<lambda>x. f x = None) seen = [a]" "f b = None" "fst a \<noteq> fst b"
    "rv = \<lparr>rv_a = fst a, rv_aScore = snd a, rv_b = fst b, rv_bScore = snd b, rv_createdAt = now,
       rv_gameId = gameId, rv_matchId = matchId, rv_mode = mode\<rparr>"
    "att = \<lparr>ma_discarded = map (removed_guest f) (filter (\<lambda>x. f x \<noteq> None) seen), ma_reservation = Some rv\<rparr>"
    "reserved_view rv (fst ` set (filter (\<lambda>x. f x \<noteq> None) seen)) rest (view R s) (view R s1)" "typed R s1"
    "\<forall>w. present now w (view R s1) = present now w (view R s)"
proof -
  from R(3) have ttl: "0 < sv_reservationTtlMs sv" "0 < sv_guardTtlMs sv" by (simp_all add: service_ok_def)
  show ?thesis
  proof (cases "2 \<le> length (filter (\<lambda>x. f x = None) (take (nat maxScan) q))")
    case True
    show ?thesis
    proof (rule try_match_lua_matched [OF R(1,2) ttl free f q True])
      fix seen a b rest rv' s'
      assume parts: "q = seen @ b # rest" "filter (\<lambda>x. f x = None) seen = [a]" "f b = None"
        and rv': "rv' = \<lparr>rv_a = fst a, rv_aScore = snd a, rv_b = fst b, rv_bScore = snd b, rv_createdAt = now,
         rv_gameId = gameId, rv_matchId = matchId, rv_mode = mode\<rparr>"
        and lua: "try_match_lua R (queueKey mode) (reservationKey matchId) mode now (sv_maxWaitMs sv) matchId gameId
        (sv_reservationTtlMs sv) (sv_guardTtlMs sv) maxScan s =
        (Some (matched rv' (map (removed_guest f) (filter (\<lambda>x. f x \<noteq> None) seen))), s')"
        and eff: "reserved_view rv' (fst ` set (filter (\<lambda>x. f x \<noteq> None) seen)) rest (view R s) (view R s')" "typed R s'"
        "fst a \<noteq> fst b" "\<forall>w. present now w (view R s') = present now w (view R s)"
      from lua run have "s1 = s'" "rv = rv'"
        "att = \<lparr>ma_discarded = map (removed_guest f) (filter (\<lambda>x. f x \<noteq> None) seen), ma_reservation = Some rv\<rparr>"
        by (auto simp: tryMatch_def execute_def split: if_splits)
      with that [OF parts eff(3)] rv' eff show ?thesis by simp
    qed
  next
    case False
    then have few: "length (filter (\<lambda>x. f x = None) (take (nat maxScan) q)) < 2" by simp
    show ?thesis
      by (rule try_match_lua_unmatched [OF R(1,2) ttl free f q few, where gameId = gameId])
        (use run in \<open>auto simp: tryMatch_def execute_def split: if_splits\<close>)
  qed
qed

lemma kept_queue:
  assumes "zset q" and "q = seen @ y # rest" and "filter (\<lambda>x. f x = None) seen = [x]"
  shows "x # y # rest = filter (\<lambda>z. fst z \<notin> fst ` set (filter (\<lambda>x. f x \<noteq> None) seen)) q"
proof -
  let ?out = "\<lambda>z. fst z \<notin> fst ` set (filter (\<lambda>x. f x \<noteq> None) seen)"
  have "?out z \<longleftrightarrow> f z = None" if "z \<in> set seen" for z
    using that assms(1,2) by (auto simp: zset_append dest: zset_unique)
  then have "filter ?out seen = [x]" using assms(3) by (simp cong: filter_cong)
  moreover have "?out z" if "z \<in> set (y # rest)" for z
    using that assms(1,2) by (force simp: zset_append)
  then have "filter ?out (y # rest) = y # rest" by (intro filter_True) blast
  ultimately show ?thesis by (simp add: assms(2))
qed

lemma requeued_front: "zset (x # y # rest) \<Longrightarrow> requeued_list (fst x) (snd x) rest = x # rest"
proof -
  assume z: "zset (x # y # rest)"
  then have "map_of rest (fst x) = None" by (auto simp: zset_Cons map_of_eq_None_iff)
  moreover have "zset (x # rest)" using z by (auto simp: zset_Cons)
  ultimately show ?thesis by (simp add: requeued_list_def zinsert_front)
qed

lemma requeued_second: "zset (x # y # rest) \<Longrightarrow> requeued_list (fst y) (snd y) (x # rest) = x # y # rest"
proof -
  assume z: "zset (x # y # rest)"
  then have "map_of (x # rest) (fst y) = None" by (force simp: zset_Cons map_of_eq_None_iff)
  moreover have "zinsert (snd y) (fst y) (x # rest) = x # zinsert (snd y) (fst y) rest"
  proof (cases "zkey y = zkey x")
    case True
    with z show ?thesis by (simp add: zset_Cons zkey_def)
  next
    case False
    with z have "\<not> zkey y \<le> zkey x" "fst x \<noteq> fst y" by (auto simp: zset_Cons)
    then show ?thesis by (simp add: zinsert_def zremove_def)
  qed
  moreover have "zset (y # rest)" using z by (auto simp: zset_Cons)
  ultimately show ?thesis by (simp add: requeued_list_def zinsert_front)
qed

lemma swept_queue:
  assumes z: "zset (xs @ ys)"
  shows "filter (\<lambda>y. fst y \<notin> fst ` set (filter (\<lambda>x. f x \<noteq> None) xs)) (xs @ ys) = filter (\<lambda>x. f x = None) xs @ ys"
proof -
  let ?out = "\<lambda>z. fst z \<notin> fst ` set (filter (\<lambda>x. f x \<noteq> None) xs)"
  have "?out z \<longleftrightarrow> f z = None" if "z \<in> set xs" for z
    using that z by (auto simp: zset_append dest: zset_unique)
  then have "filter ?out xs = filter (\<lambda>x. f x = None) xs" by (simp cong: filter_cong)
  moreover have "?out z" if "z \<in> set ys" for z using that z by (force simp: zset_append)
  then have "filter ?out ys = ys" by (intro filter_True) blast
  ultimately show ?thesis by simp
qed

section \<open>Properties\<close>

text \<open>
  C31. A match attempt pairs the two guests that have waited longest among those
  who may be matched. Among the first \<open>maxScan\<close> queued guests, the guests who
  waited too long, are not connected, or whose state is stale are taken out and
  reported with that reason. If two others are found, they are reserved: the
  reservation is stored, both are out of the queue and marked \<open>RESERVED\<close>, and
  everybody behind the second stays in place. If not, nobody else loses the place
  in the queue. So every queued guest is afterwards still queued, or reserved, or
  reported as removed.
\<close>

theorem tryMatch_pairs_longest_waiting:
  assumes "redis_ok R" "typed R s" "service_ok sv"
    and "v_reservation (view R s) matchId = Map.empty"
    and "q = v_queue (view R s) mode" and "reason = exit_reason (mode_text mode) now (sv_maxWaitMs sv) (view R s)"
    and "\<forall>x \<in> set q. is_uuid U (fst x) \<and> 0 \<le> snd x" and "is_uuidv4 U matchId" "is_uuidv4 U gameId" "0 \<le> now"
  shows "\<exists>att s'. tryMatch R U sv redis_up mode matchId gameId now maxScan s = (Inr att, s') \<and> typed R s' \<and>
    (if 2 \<le> length (filter (\<lambda>x. reason x = None) (take (nat maxScan) q)) then
       \<exists>seen a b rest rv. q = seen @ b # rest \<and> filter (\<lambda>x. reason x = None) seen = [a] \<and> reason b = None \<and>
         fst a \<noteq> fst b \<and>
         rv = \<lparr>rv_a = fst a, rv_aScore = snd a, rv_b = fst b, rv_bScore = snd b, rv_createdAt = now,
           rv_gameId = gameId, rv_matchId = matchId, rv_mode = mode\<rparr> \<and>
         att = \<lparr>ma_discarded = map (removed_guest reason) (filter (\<lambda>x. reason x \<noteq> None) seen), ma_reservation = Some rv\<rparr> \<and>
         reserved_view rv (fst ` set (filter (\<lambda>x. reason x \<noteq> None) seen)) rest (view R s) (view R s')
     else
       att = \<lparr>ma_discarded = map (removed_guest reason) (filter (\<lambda>x. reason x \<noteq> None) (take (nat maxScan) q)),
              ma_reservation = None\<rparr> \<and>
       v_queue (view R s') = (v_queue (view R s))(mode :=
         filter (\<lambda>x. reason x = None) (take (nat maxScan) q) @ drop (nat maxScan) q) \<and>
       discarded_view (fst ` set (filter (\<lambda>x. reason x \<noteq> None) (take (nat maxScan) q))) (view R s) (view R s'))"
proof -
  from assms(3) have ttl: "0 < sv_reservationTtlMs sv" "0 < sv_guardTtlMs sv" by (simp_all add: service_ok_def)
  have ids: "list_all (removedGuestSchema U) (map (removed_guest reason) xs)" if "set xs \<subseteq> set q" for xs
    using that assms(7) by (auto simp: list_all_iff removedGuestSchema_def removed_guest_def)
  show ?thesis
  proof (cases "2 \<le> length (filter (\<lambda>x. reason x = None) (take (nat maxScan) q))")
    case True
    obtain seen a b rest rv s' where m: "q = seen @ b # rest" "filter (\<lambda>x. reason x = None) seen = [a]" "reason b = None"
      "rv = \<lparr>rv_a = fst a, rv_aScore = snd a, rv_b = fst b, rv_bScore = snd b, rv_createdAt = now,
         rv_gameId = gameId, rv_matchId = matchId, rv_mode = mode\<rparr>"
      and run: "try_match_lua R (queueKey mode) (reservationKey matchId) mode now (sv_maxWaitMs sv) matchId gameId
        (sv_reservationTtlMs sv) (sv_guardTtlMs sv) maxScan s =
        (Some (matched rv (map (removed_guest reason) (filter (\<lambda>x. reason x \<noteq> None) seen))), s')"
      and eff: "reserved_view rv (fst ` set (filter (\<lambda>x. reason x \<noteq> None) seen)) rest (view R s) (view R s')" "typed R s'"
        "fst a \<noteq> fst b"
      by (rule try_match_lua_matched [OF assms(1,2) ttl assms(4,6,5) True])
    have "a \<in> set (filter (\<lambda>x. reason x = None) seen)" by (simp add: m(2))
    then have "reservationSchema U rv"
      using assms(7-) m(1) by (cases mode) (auto simp: reservationSchema_def m(4))
    moreover have "list_all (removedGuestSchema U) (map (removed_guest reason) (filter (\<lambda>x. reason x \<noteq> None) seen))"
      using m(1) by (intro ids) auto
    ultimately have "tryMatch R U sv redis_up mode matchId gameId now maxScan s =
        (Inr \<lparr>ma_discarded = map (removed_guest reason) (filter (\<lambda>x. reason x \<noteq> None) seen), ma_reservation = Some rv\<rparr>, s')"
      using run by (simp add: tryMatch_def execute_def)
    with m eff True show ?thesis by auto
  next
    case False
    then have few: "length (filter (\<lambda>x. reason x = None) (take (nat maxScan) q)) < 2" by simp
    let ?gone = "filter (\<lambda>x. reason x \<noteq> None) (take (nat maxScan) q)"
    obtain s' where run: "try_match_lua R (queueKey mode) (reservationKey matchId) mode now (sv_maxWaitMs sv) matchId gameId
        (sv_reservationTtlMs sv) (sv_guardTtlMs sv) maxScan s = (Some (no_match (map (removed_guest reason) ?gone)), s')"
      and eff: "v_queue (view R s') = (v_queue (view R s))(mode :=
          filter (\<lambda>x. reason x = None) (take (nat maxScan) q) @ drop (nat maxScan) q)"
        "discarded_view (fst ` set ?gone) (view R s) (view R s')" "typed R s'"
      by (rule try_match_lua_unmatched [OF assms(1,2) ttl assms(4,6,5) few])
    have "list_all (removedGuestSchema U) (map (removed_guest reason) ?gone)"
      by (intro ids) (auto dest: in_set_takeD)
    then have "tryMatch R U sv redis_up mode matchId gameId now maxScan s =
        (Inr \<lparr>ma_discarded = map (removed_guest reason) ?gone, ma_reservation = None\<rparr>, s')"
      using run by (simp add: tryMatch_def execute_def)
    with eff False show ?thesis by simp
  qed
qed


theorem tryMatch_pairs_longest_waiting_witness:
  "\<exists>s'. tryMatch sample_redis sample_uuids sample_service redis_up blitz ''m'' ''g'' 5000 100 sample_queued =
     (Inr \<lparr>ma_discarded = [\<lparr>rq_guestSessionId = ''u1'', rq_reason = disconnected\<rparr>],
           ma_reservation = Some \<lparr>rv_a = ''u2'', rv_aScore = 2000, rv_b = ''u3'', rv_bScore = 3000, rv_createdAt = 5000,
             rv_gameId = ''g'', rv_matchId = ''m'', rv_mode = blitz\<rparr>\<rparr>, s') \<and>
     v_queue (view sample_redis s') blitz = []"
proof -
  let ?v = "view sample_redis sample_queued"
  let ?f = "exit_reason (mode_text blitz) 5000 (sv_maxWaitMs sample_service) ?v"
  let ?q = "[(''u1'', 1000), (''u2'', 2000), (''u3'', 3000)] :: (string \<times> int) list"
  have free: "v_reservation ?v ''m'' = Map.empty" by (rule ext) code_simp
  have f: "?f (''u1'', 1000) = Some disconnected" "?f (''u2'', 2000) = None" "?f (''u3'', 3000) = None" by code_simp+
  have ids: "\<forall>x \<in> set ?q. is_uuid sample_uuids (fst x) \<and> 0 \<le> snd x" "is_uuidv4 sample_uuids ''m''" "is_uuidv4 sample_uuids ''g''"
    by (simp_all add: sample_uuids_def)
  have seen: "seen = [(''u1'', 1000), (''u2'', 2000)] \<and> b = (''u3'', 3000) \<and> rest = [] \<and> a = (''u2'', 2000)"
    if "?q = seen @ b # rest" "filter (\<lambda>x. ?f x = None) seen = [a]" "?f b = None" for seen a b rest
    using that f by (cases seen rule: list.exhaust; auto simp: Cons_eq_append_conv)
  from tryMatch_pairs_longest_waiting [OF sample_redis_ok typed_queued sample_service_ok free sample_queue [symmetric] refl ids,
      where now = 5000 and maxScan = 100] f
  show ?thesis by (auto simp: removed_guest_def reserved_view_def dest!: seen)
qed

text \<open>
  Joining the queue is idempotent and honest about the place: a guest without
  an active or reserved game is queued, the position is one more than the number
  of guests ahead, and a guest who is already queued keeps both the place and the
  time of the first request. Asking again changes nothing but the mark
  \<open>duplicate\<close>; leaving takes exactly this guest out.
\<close>

theorem enqueue_keeps_place:
  assumes "redis_ok R" "typed R s" "service_ok sv" and "may_enqueue u (view R s)"
    and "0 \<le> now" and "\<forall>x \<in> set (v_queue (view R s) mode). 0 \<le> snd x"
  shows "\<exists>j s'. enqueue R sv redis_up u mode now s = (Inr j, s') \<and> typed R s' \<and>
    view R s' = enqueued mode u now (view R s) \<and> qj_position j = place u (v_queue (view R s') mode) \<and>
    (u, qj_since j) \<in> set (v_queue (view R s') mode) \<and>
    (\<forall>now' \<ge> 0. \<exists>s''. enqueue R sv redis_up u mode now' s' = (Inr (j\<lparr>qj_duplicate := True\<rparr>), s'') \<and> view R s'' = view R s') \<and>
    (\<exists>s''. leave R sv redis_up u mode s' = (Inr True, s'') \<and>
       v_queue (view R s'') = (v_queue (view R s))(mode := zremove u (v_queue (view R s) mode)))"
proof -
  obtain s' where s': "enqueue R sv redis_up u mode now s =
    (Inr \<lparr>qj_duplicate = u \<in> fst ` set (v_queue (view R s) mode),
       qj_position = place u (v_queue (enqueued mode u now (view R s)) mode),
       qj_since = (case map_of (v_queue (view R s) mode) u of None \<Rightarrow> now | Some since \<Rightarrow> since)\<rparr>, s')" (is "_ = (Inr ?j, s')")
    "typed R s'" "view R s' = enqueued mode u now (view R s)"
    by (rule enqueue_succeeds [OF assms])
  let ?q = "v_queue (view R s) mode" and ?q' = "v_queue (view R s') mode"
  have q': "?q' = (if u \<in> fst ` set ?q then ?q else zinsert now u ?q)" by (simp add: s'(3) enqueued_def)
  have z: "zset ?q" "zset ?q'" using assms(1) by (simp_all add: view_zset)
  have since: "(u, qj_since ?j) \<in> set ?q'"
  proof (cases "map_of ?q u")
    case None
    then have "u \<notin> fst ` set ?q" by (simp add: queued_since_iff)
    with None q' show ?thesis by (simp add: set_zinsert)
  next
    case (Some sc)
    then have "(u, sc) \<in> set ?q" by (rule map_of_SomeD)
    with Some q' show ?thesis by (force split: if_splits)
  qed
  then have member: "u \<in> fst ` set ?q'" by force
  have "distinct (map fst ?q')" using z(2) by (simp add: zset_def)
  with since have looked: "map_of ?q' u = Some (qj_since ?j)" by simp
  have may': "may_enqueue u (view R s')" using assms(4) by (simp add: s'(3) enqueued_def may_enqueue_def)
  have nonneg: "\<forall>x \<in> set ?q'. 0 \<le> snd x" using assms(5,6) q' by (auto simp: set_zinsert zremove_def split: if_splits)
  have again: "enqueued mode u t (view R s') = view R s'" for t
    using member by (simp add: s'(3) enqueued_def)
  have "\<exists>s''. enqueue R sv redis_up u mode now' s' = (Inr (?j\<lparr>qj_duplicate := True\<rparr>), s'') \<and> view R s'' = view R s'"
    if "0 \<le> now'" for now'
    by (rule enqueue_succeeds [OF assms(1) s'(2) assms(3) may' that nonneg])
      (use member looked again in \<open>auto simp: s'(3)\<close>)
  moreover have "\<exists>s''. leave R sv redis_up u mode s' = (Inr True, s'') \<and>
       v_queue (view R s'') = (v_queue (view R s))(mode := zremove u ?q)"
  proof (rule leave_view [OF assms(1) s'(2) assms(3), of u mode])
    fix s''
    assume "leave R sv redis_up u mode s' = (Inr (u \<in> fst ` set ?q'), s'')"
      and "view R s'' = (view R s')\<lparr>v_queue := (v_queue (view R s'))(mode := zremove u ?q'),
       v_guard := (v_guard (view R s'))(u := None),
       v_state := (if v_state (view R s') u = Some ''QUEUED'' then (v_state (view R s'))(u := Some ''IDLE'')
                   else v_state (view R s'))\<rparr>"
    moreover have "zremove u ?q' = zremove u ?q"
      using z by (simp add: q' zremove_zinsert)
    ultimately show ?thesis using member by (auto simp: s'(3) enqueued_def)
  qed
  ultimately show ?thesis using s' since by auto
qed


theorem enqueue_keeps_place_witness:
  "\<exists>j s'. enqueue sample_redis sample_service redis_up ''u2'' blitz 4000 sample_queued = (Inr j, s') \<and>
     qj_position j = 2 \<and> qj_since j = 2000"
proof -
  have h: "may_enqueue ''u2'' (view sample_redis sample_queued)"
    "\<forall>x \<in> set (v_queue (view sample_redis sample_queued) blitz). 0 \<le> snd x"
    by code_simp+
  have same: "v_queue (enqueued blitz ''u2'' 4000 (view sample_redis sample_queued)) blitz =
      [(''u1'', 1000), (''u2'', 2000), (''u3'', 3000)]"
    by (simp add: enqueued_def sample_queue)
  from enqueue_keeps_place [OF sample_redis_ok typed_queued sample_service_ok h(1) _ h(2), of 4000]
  show ?thesis by (auto simp: same place_def)
qed

text \<open>
  C32. A reservation can be undone: if a match attempt reserved two guests and the
  reservation is then rolled back while both may still play, both are back in the
  queue at the places they had, in the queue as it was before the attempt less the
  guests that the attempt discarded, the reservation is gone, and both are
  reported as queued again since their first request.
\<close>

theorem match_then_rollback:
  assumes "redis_ok R" "typed R s" "service_ok sv"
    and "v_reservation (view R s) matchId = Map.empty"
    and "\<forall>x \<in> set (v_queue (view R s) mode). is_uuid U (fst x) \<and> 0 \<le> snd x"
    and "is_uuidv4 U matchId" "is_uuidv4 U gameId" "0 \<le> now"
    and "tryMatch R U sv redis_up mode matchId gameId now maxScan s = (Inr att, s1)" and "ma_reservation att = Some rv"
    and "dg_activeGameId a = None" "dg_eligible a" "dg_activeGameId b = None" "dg_eligible b"
  shows "\<exists>s2. rollback R U sv redis_up rv a b now s1 =
      (Inr [\<lparr>rqg_guestSessionId = rv_a rv, rqg_since = rv_aScore rv\<rparr>,
            \<lparr>rqg_guestSessionId = rv_b rv, rqg_since = rv_bScore rv\<rparr>], s2) \<and> typed R s2 \<and>
    v_queue (view R s2) = (v_queue (view R s))(mode :=
      filter (\<lambda>x. fst x \<notin> rq_guestSessionId ` set (ma_discarded att)) (v_queue (view R s) mode)) \<and>
    v_state (view R s2) (rv_a rv) = Some ''QUEUED'' \<and> v_state (view R s2) (rv_b rv) = Some ''QUEUED'' \<and>
    v_reservation (view R s2) = v_reservation (view R s)"
proof -
  define q where "q = v_queue (view R s) mode"
  define f where "f = exit_reason (mode_text mode) now (sv_maxWaitMs sv) (view R s)"
  have ids: "\<forall>x \<in> set q. is_uuid U (fst x) \<and> 0 \<le> snd x" using assms(5) by (simp add: q_def)
  obtain seen x y rest where q: "q = seen @ y # rest" and x: "filter (\<lambda>x. f x = None) seen = [x]" and "f y = None"
    and xy: "fst x \<noteq> fst y"
    and rv: "rv = \<lparr>rv_a = fst x, rv_aScore = snd x, rv_b = fst y, rv_bScore = snd y, rv_createdAt = now,
           rv_gameId = gameId, rv_matchId = matchId, rv_mode = mode\<rparr>"
    and att: "att = \<lparr>ma_discarded = map (removed_guest f) (filter (\<lambda>x. f x \<noteq> None) seen), ma_reservation = Some rv\<rparr>"
    and v1: "reserved_view rv (fst ` set (filter (\<lambda>x. f x \<noteq> None) seen)) rest (view R s) (view R s1)"
    and t1: "typed R s1" and pres: "\<forall>w. present now w (view R s1) = present now w (view R s)"
    by (rule tryMatch_matched [OF assms(1-4) q_def f_def ids assms(6-10)])
  have "x \<in> set (filter (\<lambda>x. f x = None) seen)" by (simp add: x)
  then have xs: "x \<in> set seen" "f x = None" by simp_all
  have here: "present now (fst x) (view R s)" "present now (fst y) (view R s)"
    using xs(2) \<open>f y = None\<close> by (auto simp: f_def exit_reason_def split: if_splits)
  have res1: "reserved rv (view R s1)" using v1 by (simp add: reserved_def reserved_view_def)
  have U: "is_uuid U (rv_a rv)" "is_uuid U (rv_b rv)" "0 \<le> rv_aScore rv" "0 \<le> rv_bScore rv"
    using ids xs(1) q by (auto simp: rv)
  have none: "assignment_text (dg_activeGameId a) = []" "assignment_text (dg_activeGameId b) = []"
    using assms(11,13) by (simp_all add: assignment_text_def)
  have "rv_a rv \<noteq> rv_b rv" using xy by (simp add: rv)
  from rollback_view [OF assms(1) t1 assms(3) res1 U this none [symmetric], of now] obtain s2 where
    s2: "rollback R U sv redis_up rv a b now s1 =
      (Inr [\<lparr>rqg_guestSessionId = rv_a rv, rqg_since = rv_aScore rv\<rparr>, \<lparr>rqg_guestSessionId = rv_b rv, rqg_since = rv_bScore rv\<rparr>], s2)"
      "typed R s2" "view R s2 = (restored_view mode now (fst y) (snd y) [] True
        (restored_view mode now (fst x) (snd x) [] True (view R s1)))\<lparr>v_reservation := (v_reservation (view R s1))(matchId := Map.empty)\<rparr>"
    using assms(12,14) here pres by (auto simp: rv)
  have q1: "v_queue (view R s1) = (v_queue (view R s))(mode := rest)" "v_reservation (view R s1) = (v_reservation (view R s))(matchId := map_of (reservation_fields rv))"
    using v1 by (simp_all add: reserved_view_def rv)
  have kept: "x # y # rest = filter (\<lambda>z. fst z \<notin> rq_guestSessionId ` set (ma_discarded att)) q"
    using kept_queue [of q seen y rest f x] q x \<open>f y = None\<close> view_zset [OF assms(1), of s mode]
    by (simp add: q_def [symmetric] att image_image removed_guest_def)
  have z: "zset (x # y # rest)" unfolding kept using view_zset [OF assms(1), of s mode] by (simp add: q_def zset_filter)
  have "v_queue (view R s2) = (v_queue (view R s))(mode := x # y # rest)"
    using z here pres xy by (simp add: s2(3) restored_view_def q1 requeued_front requeued_second present_def pruned_def)
  moreover have "v_reservation (view R s2) = v_reservation (view R s)"
    using assms(4) q1 by (simp add: s2(3) fun_eq_iff)
  moreover have "v_state (view R s2) (rv_a rv) = Some ''QUEUED'' \<and> v_state (view R s2) (rv_b rv) = Some ''QUEUED''"
    using here pres xy by (simp add: s2(3) restored_view_def rv present_def pruned_def)
  ultimately show ?thesis using s2(1,2) kept by (auto simp: q_def)
qed


lemma sample_match:
  "tryMatch sample_redis sample_uuids sample_service redis_up blitz ''m'' ''g'' 5000 100 sample_queued =
     (Inr \<lparr>ma_discarded = [\<lparr>rq_guestSessionId = ''u1'', rq_reason = disconnected\<rparr>],
           ma_reservation = Some sample_reservation\<rparr>, sample_reserved)"
proof -
  have "fst (tryMatch sample_redis sample_uuids sample_service redis_up blitz ''m'' ''g'' 5000 100 sample_queued) =
     Inr \<lparr>ma_discarded = [\<lparr>rq_guestSessionId = ''u1'', rq_reason = disconnected\<rparr>],
           ma_reservation = Some sample_reservation\<rparr>"
    by code_simp
  then show ?thesis by (simp add: sample_reserved_def prod_eq_iff)
qed

lemma sample_queued_facts:
  "v_reservation (view sample_redis sample_queued) ''m'' = Map.empty"
  "\<forall>x \<in> set (v_queue (view sample_redis sample_queued) blitz). is_uuid sample_uuids (fst x) \<and> 0 \<le> snd x"
  "is_uuidv4 sample_uuids ''m''" "is_uuidv4 sample_uuids ''g''"
  by (rule ext, code_simp) (simp_all add: sample_queue sample_uuids_def)

theorem match_then_rollback_witness:
  "\<exists>s2. rollback sample_redis sample_uuids sample_service redis_up sample_reservation
      \<lparr>dg_activeGameId = None, dg_eligible = True\<rparr> \<lparr>dg_activeGameId = None, dg_eligible = True\<rparr> 5000 sample_reserved =
     (Inr [\<lparr>rqg_guestSessionId = ''u2'', rqg_since = 2000\<rparr>, \<lparr>rqg_guestSessionId = ''u3'', rqg_since = 3000\<rparr>], s2) \<and>
     v_queue (view sample_redis s2) blitz = [(''u2'', 2000), (''u3'', 3000)]"
proof -
  have "0 \<le> (5000 :: int)" by simp
  from match_then_rollback [OF sample_redis_ok typed_queued sample_service_ok sample_queued_facts this sample_match, of sample_reservation
      "\<lparr>dg_activeGameId = None, dg_eligible = True\<rparr>" "\<lparr>dg_activeGameId = None, dg_eligible = True\<rparr>"]
  show ?thesis by (auto simp: sample_queue sample_reservation_def)
qed

text \<open>
  C33. A reservation that is finalized puts both guests in the game, once: both have
  the reserved game as their active game, neither is queued or can join the queue
  again, the reservation is gone, and finalizing again is answered as a duplicate
  and changes nothing.
\<close>

theorem match_then_finalize:
  assumes "redis_ok R" "typed R s" "service_ok sv"
    and "v_reservation (view R s) matchId = Map.empty"
    and "\<forall>x \<in> set (v_queue (view R s) mode). is_uuid U (fst x) \<and> 0 \<le> snd x"
    and "is_uuidv4 U matchId" "is_uuidv4 U gameId" "0 \<le> now"
    and "tryMatch R U sv redis_up mode matchId gameId now maxScan s = (Inr att, s1)" and "ma_reservation att = Some rv"
  shows "\<exists>s2. finalize R sv redis_up rv s1 = (Inr True, s2) \<and> typed R s2 \<and> finalize R sv redis_up rv s2 = (Inr False, s2) \<and>
    v_reservation (view R s2) matchId = Map.empty \<and>
    (\<forall>u \<in> {rv_a rv, rv_b rv}. in_game gameId u (view R s2) \<and> u \<notin> fst ` set (v_queue (view R s2) mode) \<and>
       (\<forall>now'. enqueue R sv redis_up u mode now' s2 =
          (Inl (MatchmakingError ALREADY_IN_GAME ''The guest already has an active or reserved game.'' False), s2)))"
proof -
  define q where "q = v_queue (view R s) mode"
  define f where "f = exit_reason (mode_text mode) now (sv_maxWaitMs sv) (view R s)"
  have ids: "\<forall>x \<in> set q. is_uuid U (fst x) \<and> 0 \<le> snd x" using assms(5) by (simp add: q_def)
  obtain seen x y rest where q: "q = seen @ y # rest" and x: "filter (\<lambda>x. f x = None) seen = [x]"
    and rv: "rv = \<lparr>rv_a = fst x, rv_aScore = snd x, rv_b = fst y, rv_bScore = snd y, rv_createdAt = now,
           rv_gameId = gameId, rv_matchId = matchId, rv_mode = mode\<rparr>"
    and v1: "reserved_view rv (fst ` set (filter (\<lambda>x. f x \<noteq> None) seen)) rest (view R s) (view R s1)"
    and t1: "typed R s1"
    by (rule tryMatch_matched [OF assms(1-4) q_def f_def ids assms(6-10)])
  have "reserved rv (view R s1)" using v1 by (simp add: reserved_def reserved_view_def)
  from finalize_view [OF assms(1) t1 assms(3) this] obtain s2 where s2: "finalize R sv redis_up rv s1 = (Inr True, s2)"
    "typed R s2" "view R s2 = finalized_view rv (view R s1)" by blast
  have "finalize R sv redis_up rv s2 = (Inr False, s2)"
    by (rule finalize_settled [OF assms(1)]) (simp_all add: s2(3) finalized_view_def)
  moreover have "in_game gameId u (view R s2)" if "u \<in> {rv_a rv, rv_b rv}" for u
    using that by (auto simp: in_game_def s2(3) finalized_view_def rv)
  moreover have "u \<notin> fst ` set (v_queue (view R s2) mode)" if "u \<in> {rv_a rv, rv_b rv}" for u
  proof -
    have "x \<in> set (filter (\<lambda>x. f x = None) seen)" by (simp add: x)
    moreover have "zset (seen @ y # rest)" using view_zset [OF assms(1), of s mode] q by (simp add: q_def)
    ultimately show ?thesis
      using that v1 by (auto simp: s2(3) finalized_view_def reserved_view_def rv zset_append zset_Cons)
  qed
  moreover have "\<not> may_enqueue u (view R s2)" if "u \<in> {rv_a rv, rv_b rv}" for u
    using that by (auto simp: may_enqueue_def s2(3) finalized_view_def)
  then have "enqueue R sv redis_up u mode now' s2 =
      (Inl (MatchmakingError ALREADY_IN_GAME ''The guest already has an active or reserved game.'' False), s2)"
    if "u \<in> {rv_a rv, rv_b rv}" for u now' using that enqueue_refused [OF assms(1)] by blast
  ultimately show ?thesis using s2 by (auto simp: finalized_view_def rv)
qed

theorem match_then_finalize_witness:
  "\<exists>s2. finalize sample_redis sample_service redis_up sample_reservation sample_reserved = (Inr True, s2) \<and>
     in_game ''g'' ''u3'' (view sample_redis s2)"
proof -
  have "0 \<le> (5000 :: int)" by simp
  from match_then_finalize [OF sample_redis_ok typed_queued sample_service_ok sample_queued_facts this sample_match, of sample_reservation]
  show ?thesis by (auto simp: sample_reservation_def)
qed

text \<open>
  The sweep removes from the first \<open>batchSize\<close> places of the queue exactly the
  guests a match attempt would discard, and reports the same reasons: a removed
  guest has no guard left and is \<open>IDLE\<close> if it was queued, everybody else keeps
  place and state.
\<close>

theorem sweep_removes_unmatchable:
  assumes "redis_ok R" "typed R s" "service_ok sv" and "0 < batchSize"
    and "q = v_queue (view R s) mode" and "reason = exit_reason (mode_text mode) now (sv_maxWaitMs sv) (view R s)"
    and "\<forall>x \<in> set q. is_uuid U (fst x)"
  shows "\<exists>s'. sweep R U sv redis_up mode now batchSize s =
      (Inr (map (removed_guest reason) (filter (\<lambda>x. reason x \<noteq> None) (take (nat batchSize) q))), s') \<and> typed R s' \<and>
    v_queue (view R s') = (v_queue (view R s))(mode :=
      filter (\<lambda>x. reason x = None) (take (nat batchSize) q) @ drop (nat batchSize) q) \<and>
    swept (fst ` set (filter (\<lambda>x. reason x \<noteq> None) (take (nat batchSize) q))) (view R s) (view R s')"
proof -
  let ?n = "nat batchSize"
  let ?gone = "filter (\<lambda>x. reason x \<noteq> None) (take ?n q)"
  have z: "zset (take ?n q @ drop ?n q)" using view_zset [OF assms(1), of s mode] assms(5) by simp
  have entries: "rd_zrange_to R (queueKey mode) (batchSize - 1) s = take ?n q"
    using assms(4,5) by (simp add: rd_zrange_to_def view_simps Let_def)
  have pre: "set (take ?n q) \<subseteq> set (v_queue (view R s) mode)" "distinct (map fst (take ?n q))"
    "\<forall>x \<in> set (take ?n q). reason x = exit_reason (mode_text mode) now (sv_maxWaitMs sv) (view R s) x"
    "0 < sv_stateTtlMs sv"
    using view_zset [OF assms(1), of s mode] assms(3,5,6)
    by (auto simp: zset_def service_ok_def take_map [symmetric] dest: in_set_takeD)
  from sweep_entries_view [OF assms(1,2) pre(4,1,2,3), of "[]"] obtain s' where
    s': "sweep_entries R (queueKey mode) (mode_text mode) now (sv_maxWaitMs sv) (sv_stateTtlMs sv) (take ?n q) [] s =
        (map (removed_guest reason) ?gone, s')" "typed R s'"
      "v_queue (view R s') = (v_queue (view R s))(mode := filter (\<lambda>y. fst y \<notin> fst ` set ?gone) q)"
      "swept (fst ` set ?gone) (view R s) (view R s')"
    using assms(5) by auto
  have "filter (\<lambda>y. fst y \<notin> fst ` set ?gone) q = filter (\<lambda>x. reason x = None) (take ?n q) @ drop ?n q"
    using swept_queue [OF z, of reason] by (simp only: append_take_drop_id)
  moreover have "list_all (removedGuestSchema U) (map (removed_guest reason) ?gone)"
    using assms(7) by (auto simp: list_all_iff removedGuestSchema_def removed_guest_def dest!: in_set_takeD)
  ultimately show ?thesis using s' entries
    by (simp add: sweep_def execute_def sweep_lua_def sweepResponseSchema_def)
qed

theorem sweep_removes_unmatchable_witness:
  "\<exists>s'. sweep sample_redis sample_uuids sample_service redis_up blitz 5000 2 sample_queued =
      (Inr [\<lparr>rq_guestSessionId = ''u1'', rq_reason = disconnected\<rparr>], s') \<and>
    v_queue (view sample_redis s') blitz = [(''u2'', 2000), (''u3'', 3000)]"
proof -
  let ?f = "exit_reason (mode_text blitz) 5000 (sv_maxWaitMs sample_service) (view sample_redis sample_queued)"
  have f: "?f (''u1'', 1000) = Some disconnected" "?f (''u2'', 2000) = None" by code_simp+
  have ids: "\<forall>x \<in> set [(''u1'', 1000), (''u2'', 2000), (''u3'', 3000 :: int)]. is_uuid sample_uuids (fst x)"
    by (simp add: sample_uuids_def)
  from sweep_removes_unmatchable [OF sample_redis_ok typed_queued sample_service_ok _ sample_queue [symmetric] refl ids, of 2 5000] f
  show ?thesis by (auto simp: removed_guest_def numeral_2_eq_2)
qed

text \<open>
  C40. A batch of one never matches: with \<open>JOB_BATCH_SIZE = 1\<close>, which the
  configuration schema accepts, a match attempt looks at one queued guest only, so
  no attempt ever makes a reservation, however many guests are waiting.
\<close>

theorem tryMatch_batch_of_one:
  assumes "redis_ok R" "typed R s" "service_ok sv"
    and "v_reservation (view R s) matchId = Map.empty"
    and "tryMatch R U sv redis_up mode matchId gameId now 1 s = (Inr att, s')"
  shows "ma_reservation att = None"
proof -
  from assms(3) have ttl: "0 < sv_reservationTtlMs sv" "0 < sv_guardTtlMs sv" by (simp_all add: service_ok_def)
  have few: "length (filter P (take (nat 1) xs)) < 2" for P :: "string \<times> int \<Rightarrow> bool" and xs
    by (cases xs) simp_all
  show ?thesis
    by (rule try_match_lua_unmatched [OF assms(1,2) ttl assms(4) refl refl few, where gameId = gameId and mode = mode and now = now and maxWait = "sv_maxWaitMs sv"])
      (use assms(5) in \<open>auto simp: tryMatch_def execute_def split: if_splits\<close>)
qed

theorem tryMatch_batch_of_one_witness:
  "\<exists>att s'. tryMatch sample_redis sample_uuids sample_service redis_up blitz ''m'' ''g'' 5000 1
      (snd (leave sample_redis sample_service redis_up ''u1'' blitz sample_queued)) = (Inr att, s') \<and> ma_reservation att = None"
proof -
  let ?s = "snd (leave sample_redis sample_service redis_up ''u1'' blitz sample_queued)"
  let ?run = "tryMatch sample_redis sample_uuids sample_service redis_up blitz ''m'' ''g'' 5000 1 ?s"
  have typed: "typed sample_redis ?s"
    by (rule leave_view [OF sample_redis_ok typed_queued sample_service_ok, where u = "''u1''" and mode = blitz]) simp
  have free: "v_reservation (view sample_redis ?s) ''m'' = Map.empty" by (rule ext) code_simp
  have "\<not> isl (fst ?run)" by code_simp
  then obtain att where "?run = (Inr att, snd ?run)" by (cases ?run) (auto simp: isl_def, metis sum.exhaust)
  with tryMatch_batch_of_one [OF sample_redis_ok typed sample_service_ok free this] show ?thesis by blast
qed

end
