(* ===== verification/Matchmaking_Guarantees.thy ===== *)
theory Matchmaking_Guarantees
  imports Matchmaking_Service Matchmaking_Properties Sample_Game
begin

text \<open>
  What the matchmaking service guarantees across the two stores: a match that it
  reports is committed in the database, whatever Redis, the connections and the other
  requests do, and a committed match is never taken back.
\<close>

section \<open>Matches that are durable\<close>

definition durable_match :: "MatchReservation \<Rightarrow> db \<Rightarrow> bool" where
  "durable_match rv db \<longleftrightarrow>
     (\<exists>g. find_game db (rv_gameId rv) = Some g \<and> g_match_id g = rv_matchId rv \<and>
        mset (map p_guest_session_id (players_of db (rv_gameId rv))) = {#rv_a rv, rv_b rv#})"

definition reports_match :: "MatchReservation \<Rightarrow> GameAllocation \<Rightarrow> bool" where
  "reports_match rv al \<longleftrightarrow> gm_id (al_game al) = rv_gameId rv \<and> gm_matchId (al_game al) = rv_matchId rv \<and>
     {#gp_guestSessionId (fst (al_players al)), gp_guestSessionId (snd (al_players al))#} = {#rv_a rv, rv_b rv#}"

lemma sort_eq_iff: "sort xs = sort ys \<longleftrightarrow> mset xs = mset ys" for xs ys :: "string list"
  by (metis mset_sort sorted_list_of_multiset_mset)

lemma list_all_enumerate_eq:
  assumes "length xs = length ys"
  shows "list_all (\<lambda>(i, x). x = ys ! i) (enumerate 0 xs) \<longleftrightarrow> xs = ys"
  using assms by (auto simp: list_all_length nth_enumerate_eq intro: nth_equalityI)

lemma matchesReservation_service_iff: "matchesReservation_service al rv \<longleftrightarrow> reports_match rv al"
proof -
  let ?xs = "[gp_guestSessionId (fst (al_players al)), gp_guestSessionId (snd (al_players al))]"
  have "list_all (\<lambda>(i, x). x = sort [rv_a rv, rv_b rv] ! i) (enumerate 0 (sort ?xs)) \<longleftrightarrow> sort ?xs = sort [rv_a rv, rv_b rv]"
    by (rule list_all_enumerate_eq) simp
  then show ?thesis
    unfolding matchesReservation_service_def reports_match_def Let_def
    by (simp add: sort_eq_iff del: sort_key_simps)
qed

lemma mapPlayer_guest: "mapPlayer pg = Inr r \<Longrightarrow> gp_guestSessionId r = p_guest_session_id (fst pg)"
  by (auto simp: mapPlayer_def Let_def split: if_splits)

lemma mapGame_ids: "mapGame g = Inr r \<Longrightarrow> gm_id r = g_id g \<and> gm_matchId r = g_match_id g"
  by (auto simp: mapGame_def sbind_Inr_iff split: option.splits if_splits)

lemma map_sum_list_Cons_Inr: "map_sum_list f xs = Inr (y # ys) \<Longrightarrow> \<exists>x xs'. xs = x # xs' \<and> f x = Inr y \<and> map_sum_list f xs' = Inr ys"
  by (cases xs) (auto simp: sbind_Inr_iff)

lemma map_sum_list_Nil_Inr: "map_sum_list f xs = Inr [] \<Longrightarrow> xs = []"
  by (cases xs) (auto simp: sbind_Inr_iff)

lemma mapAllocation_fields:
  assumes "mapAllocation pa = Inr al"
  shows "gm_id (al_game al) = g_id (pa_game pa)" "gm_matchId (al_game al) = g_match_id (pa_game pa)"
    "map (p_guest_session_id \<circ> fst) (pa_players pa) =
      [gp_guestSessionId (fst (al_players al)), gp_guestSessionId (snd (al_players al))]"
proof -
  from assms obtain ps where mapped: "map_sum_list mapPlayer (pa_players pa) = Inr ps"
    by (auto simp: mapAllocation_def sbind_Inr_iff)
  with assms obtain w b gm where "ps = [w, b]"
    and gm: "mapGame (pa_game pa) = Inr gm" and al: "al = \<lparr>al_game = gm, al_players = (w, b)\<rparr>"
    by (auto simp: mapAllocation_def sbind_Inr_iff split: list.splits)
  with mapped have ps: "map_sum_list mapPlayer (pa_players pa) = Inr [w, b]" by simp
  from ps obtain x y where "pa_players pa = [x, y]" "mapPlayer x = Inr w" "mapPlayer y = Inr b"
    by (auto dest!: map_sum_list_Cons_Inr map_sum_list_Nil_Inr)
  with al gm show "gm_id (al_game al) = g_id (pa_game pa)" "gm_matchId (al_game al) = g_match_id (pa_game pa)"
    "map (p_guest_session_id \<circ> fst) (pa_players pa) =
      [gp_guestSessionId (fst (al_players al)), gp_guestSessionId (snd (al_players al))]"
    by (auto dest: mapPlayer_guest mapGame_ids)
qed

lemma loaded_report:
  assumes ok: "tables_ok db" and g: "find_game db (rv_gameId rv) = Some g" "g_match_id g = rv_matchId rv"
    and al: "mapAllocation (loadAllocation db g) = Inr al"
  shows "reports_match rv al \<longleftrightarrow> durable_match rv db"
proof -
  have gid: "g_id g = rv_gameId rv" using g(1) by (rule find_gameD)
  have "map (p_guest_session_id \<circ> fst) (pa_players (loadAllocation db g)) = map p_guest_session_id (players_of db (rv_gameId rv))"
    using loadAllocation_players [OF ok, of g] gid by (metis map_map)
  with mapAllocation_fields [OF al] g gid show ?thesis
    by (auto simp: reports_match_def durable_match_def)
qed

lemma durable_match_evolves: "durable_match rv db \<Longrightarrow> evolves db db' \<Longrightarrow> durable_match rv db'"
proof -
  assume "durable_match rv db" and ev: "evolves db db'"
  then obtain g where g: "find_game db (rv_gameId rv) = Some g" "g_match_id g = rv_matchId rv"
    "mset (map p_guest_session_id (players_of db (rv_gameId rv))) = {#rv_a rv, rv_b rv#}" by (auto simp: durable_match_def)
  from ev g(1) obtain g' where g': "find_game db' (rv_gameId rv) = Some g'" "row_evolves g g'"
    and seats: "map seat (players_of db' (rv_gameId rv)) = map seat (players_of db (rv_gameId rv))"
    unfolding evolves_def by blast
  from arg_cong [OF seats, of "map (\<lambda>(i, g, u, c, s). u)"]
  have "map p_guest_session_id (players_of db' (rv_gameId rv)) = map p_guest_session_id (players_of db (rv_gameId rv))"
    by (simp add: seat_def comp_def)
  with g g' show ?thesis by (auto simp: durable_match_def row_evolves_def)
qed


section \<open>Allocating\<close>

text \<open>What \<open>allocate\<close> returns is in the database.\<close>

lemma matchesReservation_guests:
  assumes "matchesReservation pa input"
  shows "g_id (pa_game pa) = ag_gameId input"
    "mset (map (p_guest_session_id \<circ> fst) (pa_players pa)) = {#ag_whiteGuestSessionId input, ag_blackGuestSessionId input#}"
proof -
  let ?xs = "sort (map (\<lambda>(p, _). p_guest_session_id p) (pa_players pa))"
  let ?ys = "sort [ag_whiteGuestSessionId input, ag_blackGuestSessionId input]"
  from assms have "length ?xs = length ?ys" and all: "list_all (\<lambda>(index, guest). index < length ?ys \<and> guest = ?ys ! index) (enumerate 0 ?xs)"
    and "g_id (pa_game pa) = ag_gameId input"
    by (simp_all add: matchesReservation_def Let_def del: sort_key_simps)
  then show "g_id (pa_game pa) = ag_gameId input" by simp
  from all have "list_all (\<lambda>(index, guest). guest = ?ys ! index) (enumerate 0 ?xs)"
    by (rule list.pred_mono_strong) auto
  with list_all_enumerate_eq [OF \<open>length ?xs = length ?ys\<close>] have "?xs = ?ys" by simp
  then have "mset (map (\<lambda>(p, _). p_guest_session_id p) (pa_players pa)) = {#ag_whiteGuestSessionId input, ag_blackGuestSessionId input#}"
    by (simp add: sort_eq_iff del: sort_key_simps)
  then show "mset (map (p_guest_session_id \<circ> fst) (pa_players pa)) = {#ag_whiteGuestSessionId input, ag_blackGuestSessionId input#}"
    by (simp add: case_prod_unfold comp_def)
qed

lemma allocated_players:
  assumes "tables_ok db" and "\<forall>r \<in> set (games db). g_id r \<noteq> ag_gameId input"
  shows "map p_guest_session_id (players_of (allocatedDb env input db) (ag_gameId input)) =
    [ag_whiteGuestSessionId input, ag_blackGuestSessionId input]"
  using allocated_lookups [OF assms] by (simp add: newPlayerRow_def)

lemma allocateInTransaction_durable:
  assumes sys: "system_ok db" and run: "allocateInTransaction env input db = Inr (alloc_allocated pa, db')"
    and rv: "ag_gameId input = rv_gameId rv" "ag_matchId input = rv_matchId rv"
      "{#ag_whiteGuestSessionId input, ag_blackGuestSessionId input#} = {#rv_a rv, rv_b rv#}"
  shows "durable_match rv db' \<and> (\<exists>g. find_game db' (rv_gameId rv) = Some g \<and> g_match_id g = rv_matchId rv \<and> pa = loadAllocation db' g)"
proof (cases "find_row (\<lambda>g. g_match_id g = ag_matchId input) (games db)")
  case (Some g)
  with run have same: "db' = db" "pa = loadAllocation db g" and m: "matchesReservation (loadAllocation db g) input"
    by (auto simp: allocateInTransaction_def Let_def lockGuestSessions_def tbind_Inr_iff split: if_splits)
  have ok: "tables_ok db" using sys by (rule system_ok_tables)
  from find_row_SomeD [OF Some] have g: "g \<in> set (games db)" "g_match_id g = ag_matchId input" by simp_all
  note guests = matchesReservation_guests [OF m]
  have "find_game db (g_id g) = Some g"
    using ok g(1) by (simp add: find_game_def tables_ok_def games_ok_def find_row_unique)
  moreover have "map (p_guest_session_id \<circ> fst) (pa_players (loadAllocation db g)) = map p_guest_session_id (players_of db (g_id g))"
    using loadAllocation_players [OF ok, of g] by (metis map_map)
  ultimately show ?thesis using guests g rv same by (auto simp: durable_match_def)
next
  case None
  have ok: "tables_ok db" using sys by (rule system_ok_tables)
  from run None obtain u db1 where create: "createGame env input db = Inr (u, db1)" and "db' = db1"
    and pa: "find_game db1 (ag_gameId input) \<noteq> None" "pa = loadAllocation db1 (the (find_game db1 (ag_gameId input)))"
    by (auto simp: allocateInTransaction_def Let_def lockGuestSessions_def tbind_Inr_iff split: option.splits if_splits)
  note eff = createGame_Inr [OF create]
  have "find_game db (ag_gameId input) = None"
    using eff by (auto simp: find_game_None_iff game_ids_def)
  then have new: "find_game db1 (ag_gameId input) = Some (newGameRow env input)"
    using eff by (simp add: find_game_def allocatedDb_def find_row_append newGameRow_def)
  have "map p_guest_session_id (players_of db1 (ag_gameId input)) = [ag_whiteGuestSessionId input, ag_blackGuestSessionId input]"
    using eff by (simp add: allocated_players [OF ok])
  with new pa \<open>db' = db1\<close> rv show ?thesis by (auto simp: durable_match_def newGameRow_def simp del: mset_map)
qed

text \<open>The same for the service, whichever guest plays white.\<close>

lemma allocation_input_ids:
  "ag_gameId (allocation_input gas white initial rv t d) = rv_gameId rv"
  "ag_matchId (allocation_input gas white initial rv t d) = rv_matchId rv"
  "{#ag_whiteGuestSessionId (allocation_input gas white initial rv t d),
     ag_blackGuestSessionId (allocation_input gas white initial rv t d)#} = {#rv_a rv, rv_b rv#}"
  by (auto simp: allocation_input_def add_mset_commute)

lemma allocateReservation_system:
  assumes "system_ok db" and "allocateReservation lib gas white env rv t db = (r, db')"
  shows "system_ok db' \<and> evolves db db'"
proof -
  have "system_ok (snd (allocate env input db)) \<and> evolves db (snd (allocate env input db))" for input
    using perform_system [OF assms(1), of _ _ env "op_allocate input"] by simp
  then show ?thesis
    using assms by (auto simp: allocateReservation_def split: sum.splits jsdate.splits prod.splits)
      (metis snd_conv)+
qed

lemma allocateReservation_durable:
  assumes sys: "system_ok db" and run: "allocateReservation lib gas white env rv t db = (Inr al, db')"
  shows "durable_match rv db' \<and> reports_match rv al"
proof -
  from run obtain initial d where
    alloc: "allocate env (allocation_input gas white initial rv t d) db = (Inr al, db')"
    by (auto simp: allocateReservation_def split: sum.splits jsdate.splits prod.splits)
  then obtain pa where tx: "allocateInTransaction env (allocation_input gas white initial rv t d) db = Inr (alloc_allocated pa, db')"
    and map: "mapAllocation pa = Inr al"
    by (auto simp: allocate_def run_Inr_iff split: if_splits prod.splits sum.splits AllocationTransactionResult.splits)
  from allocateInTransaction_durable [OF sys tx allocation_input_ids] obtain g where
    "durable_match rv db'" "find_game db' (rv_gameId rv) = Some g" "g_match_id g = rv_matchId rv" "pa = loadAllocation db' g" by blast
  moreover have "tables_ok db'"
    using allocateReservation_system [OF sys run] by (simp add: system_ok_tables)
  ultimately show ?thesis using loaded_report map by blast
qed


section \<open>Processing a reservation\<close>

text \<open>
  The other requests may do anything to Redis and any sequence of repository
  operations to the database.
\<close>

definition other_requests :: "'p chessjs \<Rightarrow> (string \<Rightarrow> bool) \<Rightarrow> (nat \<Rightarrow> 'r world \<Rightarrow> 'r world) \<Rightarrow> bool" where
  "other_requests lib uuidv4 others \<longleftrightarrow> (\<forall>i w. \<exists>ops. snd (others i w) = performs lib uuidv4 ops (snd w))"

definition later :: "'r world \<Rightarrow> 'r world \<Rightarrow> bool" where
  "later w w' \<longleftrightarrow> system_ok (snd w') \<and> evolves (snd w) (snd w')"

lemma later_refl: "system_ok (snd w) \<Longrightarrow> later w w"
  by (simp add: later_def)

lemma later_trans: "later w w1 \<Longrightarrow> later w1 w2 \<Longrightarrow> later w w2"
  unfolding later_def using evolves_trans by blast

lemma later_others:
  assumes "other_requests lib uuidv4 others" and "system_ok (snd w)"
  shows "later w (others i w)"
  using assms performs_system [OF assms(2)] unfolding other_requests_def later_def by metis

lemma later_redis: "on_redis f w = (r, w') \<Longrightarrow> later w1 w \<Longrightarrow> later w1 w'"
  by (auto simp: on_redis_def later_def split: prod.splits)

lemma later_ok: "later w w' \<Longrightarrow> system_ok (snd w')"
  by (simp add: later_def)

lemma finalizeCommitted_later:
  assumes "other_requests lib uuidv4 others" and "system_ok (snd w)"
    and "finalizeCommitted R sv others i faultF faultR rv al w = (r, w')"
  shows "later w w'"
proof -
  obtain r1 w1 where f: "on_redis (finalize R sv faultF rv) (others i w) = (r1, w1)"
    by (cases "on_redis (finalize R sv faultF rv) (others i w)")
  have l1: "later w w1" by (rule later_redis [OF f later_others [OF assms(1,2)]])
  let ?repair = "on_redis (repairCommitted R sv faultR (rv_mode rv) (gm_id (al_game al))
       (gp_guestSessionId (fst (al_players al))) (gp_guestSessionId (snd (al_players al)))) (others (i + 1) w1)"
  obtain r2 w2 where g: "?repair = (r2, w2)" by (cases ?repair)
  have "later w (others (i + 1) w1)" by (rule later_trans [OF l1 later_others [OF assms(1) later_ok [OF l1]]])
  with later_redis [OF g] have l2: "later w w2" .
  from assms(3) f g have "w' = w1 \<or> w' = w2"
    by (auto simp: finalizeCommitted_def split: sum.splits if_splits)
  with l1 l2 show ?thesis by blast
qed

lemma findByMatchId_found:
  assumes sys: "system_ok db" and found: "findByMatchId env (rv_matchId rv) db = Inr (Some al)"
  shows "reports_match rv al \<longleftrightarrow> durable_match rv db"
proof -
  from found obtain g where g: "find_row (\<lambda>g. g_match_id g = rv_matchId rv) (games db) = Some g"
    and al: "mapAllocation (loadAllocation db g) = Inr al"
    by (auto simp: findByMatchId_def sbind_Inr_iff read_row_def mapFound_def split: option.splits)
  have ok: "tables_ok db" using sys by (rule system_ok_tables)
  then have gok: "distinct (map g_id (games db))" "distinct (map g_match_id (games db))" by (simp_all add: tables_ok_def games_ok_def)
  from find_row_SomeD [OF g] have g': "g \<in> set (games db)" "g_match_id g = rv_matchId rv" by simp_all
  have "find_game db (g_id g) = Some g" using gok(1) g'(1) by (simp add: find_game_def find_row_unique)
  show ?thesis
  proof (cases "g_id g = rv_gameId rv")
    case True
    with \<open>find_game db (g_id g) = Some g\<close> loaded_report [OF ok _ g'(2) al] show ?thesis by simp
  next
    case False
    then have "\<not> reports_match rv al" using mapAllocation_fields(1) [OF al] by (simp add: reports_match_def)
    moreover have "\<not> durable_match rv db"
    proof
      assume "durable_match rv db"
      then obtain h where h: "find_game db (rv_gameId rv) = Some h" "g_match_id h = rv_matchId rv" by (auto simp: durable_match_def)
      from h(1) have "h \<in> set (games db)" "g_id h = rv_gameId rv"
        using find_row_SomeD [OF h(1) [unfolded find_game_def]] by simp_all
      with gok(2) g' h(2) have "h = g" by (metis distinct_map inj_onD)
      with False \<open>g_id h = rv_gameId rv\<close> show False by simp
    qed
    ultimately show ?thesis by simp
  qed
qed

lemma findByMatchId_none:
  assumes "findByMatchId env (rv_matchId rv) db = Inr None"
  shows "\<not> durable_match rv db"
proof
  assume "durable_match rv db"
  then obtain h where h: "find_game db (rv_gameId rv) = Some h" "g_match_id h = rv_matchId rv" by (auto simp: durable_match_def)
  from assms have "find_row (\<lambda>g. g_match_id g = rv_matchId rv) (games db) = None"
    by (auto simp: findByMatchId_def sbind_Inr_iff read_row_def mapFound_def split: option.splits)
  with h find_row_SomeD [OF h(1) [unfolded find_game_def]] show False by (simp add: find_row_None_iff)
qed

lemma recover_cases:
  assumes others: "other_requests lib uuidv4 (wo_others env)" and sys: "system_ok (snd w)"
    and run: "recoverAfterAllocationFailure R U sv env rv t w = (Inr (Some fx), w')"
  obtains (existing) al where "fx_allocations fx = [al]" "reports_match rv al" "durable_match rv (snd w')" "later w w'"
  | (rolled_back) "fx_allocations fx = []" "later w w'" "\<not> durable_match rv (snd (wo_others env 3 w))"
      "snd w' = snd (wo_others env 8 (wo_others env 5 (wo_others env 4 (wo_others env 3 w))))"
proof -
  define w1 where "w1 = wo_others env 3 w"
  define w2 where "w2 = wo_others env 4 w1"
  define w3 where "w3 = wo_others env 5 w2"
  have l1: "later w w1" unfolding w1_def by (rule later_others [OF others sys])
  have l2: "later w1 w2" unfolding w2_def by (rule later_others [OF others later_ok [OF l1]])
  have l3: "later w2 w3" unfolding w3_def by (rule later_others [OF others later_ok [OF l2]])
  have l13: "later w1 w3" by (rule later_trans [OF l2 l3])
  note run' = run [unfolded recoverAfterAllocationFailure_def Let_def, folded w1_def, folded w2_def, folded w3_def]
  from run' obtain found ea eb where found: "findByMatchId (wo_find env) (rv_matchId rv) (snd w1) = Inr found"
    and ea: "getGuestMatchEligibility (wo_eligibilityA env) (rv_a rv) t (snd w2) = Inr ea"
    and eb: "getGuestMatchEligibility (wo_eligibilityB env) (rv_b rv) t (snd w3) = Inr eb"
    by (auto split: sum.splits)
  let ?roll = "on_redis (rollback R U sv (wo_rollback env) rv (durable_guest ea) (durable_guest eb) t) (wo_others env 8 w3)"
  obtain rb wb where rb: "?roll = (rb, wb)" by (cases ?roll)
  have lb: "later w3 wb" by (rule later_redis [OF rb later_others [OF others later_ok [OF l3]]])
  have sb: "snd wb = snd (wo_others env 8 w3)" using rb by (auto simp: on_redis_def split: prod.splits)
  have roll: thesis if "\<not> durable_match rv (snd w1)" "fx_allocations fx = []" "w' = wb"
    using that rolled_back later_trans [OF l1 later_trans [OF l13 lb]] sb w1_def w2_def w3_def by blast
  show thesis
  proof (cases "\<exists>al. found = Some al \<and> reports_match rv al")
    case True
    then obtain al where al: "found = Some al" "reports_match rv al" by blast
    obtain rf wf where fin: "finalizeCommitted R sv (wo_others env) 6 (wo_finalize2 env) (wo_repair2 env) rv al w3 = (rf, wf)"
      by (cases "finalizeCommitted R sv (wo_others env) 6 (wo_finalize2 env) (wo_repair2 env) rv al w3")
    have lf: "later w3 wf" by (rule finalizeCommitted_later [OF others later_ok [OF l3] fin])
    from run' found ea eb al fin have fx: "fx_allocations fx = [al]" "w' = wf"
      by (auto simp: matchesReservation_service_iff EMPTY_EFFECTS_def split: sum.splits)
    have "durable_match rv (snd w1)"
      using findByMatchId_found [OF later_ok [OF l1]] found al by blast
    then have "durable_match rv (snd wf)"
      using durable_match_evolves later_trans [OF l13 lf] unfolding later_def by blast
    with fx al existing later_trans [OF l1 later_trans [OF l13 lf]] show thesis by blast
  next
    case False
    have "\<not> durable_match rv (snd w1)"
      using findByMatchId_found [OF later_ok [OF l1]] findByMatchId_none found False by (cases found) auto
    with run' found ea eb False rb show thesis
      by (intro roll) (auto simp: matchesReservation_service_iff EMPTY_EFFECTS_def split: sum.splits option.splits if_splits)
  qed
qed


lemma processReservation_cases:
  assumes others: "other_requests lib' uuidv4 (wo_others env)" and sys: "system_ok (snd w)"
    and run: "processReservation lib R U gas sv env rv t w = (Inr fx, w')"
  obtains (allocated) al where "fx_allocations fx = [al]" "reports_match rv al" "durable_match rv (snd w')" "later w w'"
  | (rolled_back) wa where "fx_allocations fx = []" "later w w'" "later w wa" "\<not> durable_match rv (snd (wo_others env 3 wa))"
      "snd w' = snd (wo_others env 8 (wo_others env 5 (wo_others env 4 (wo_others env 3 wa))))"
proof -
  define w0 where "w0 = wo_others env 0 w"
  have l0: "later w w0" unfolding w0_def by (rule later_others [OF others sys])
  obtain ra wa where alloc: "on_db (allocateReservation lib gas (wo_white env) (wo_allocate env) rv t) w0 = (ra, wa)"
    by (cases "on_db (allocateReservation lib gas (wo_white env) (wo_allocate env) rv t) w0")
  then have tx: "allocateReservation lib gas (wo_white env) (wo_allocate env) rv t (snd w0) = (ra, snd wa)"
    by (auto simp: on_db_def split: prod.splits)
  have "later w0 wa" using allocateReservation_system [OF later_ok [OF l0] tx] by (simp add: later_def)
  then have la: "later w wa" using l0 later_trans by blast
  note run' = run [unfolded processReservation_def Let_def, folded w0_def]
  have recover: thesis if "later w wr" "recoverAfterAllocationFailure R U sv env rv t wr = (Inr (Some fx), w')" for wr
    using others later_ok [OF that(1)] that(2)
    by (cases rule: recover_cases) (use that(1) allocated rolled_back later_trans in blast)+
  show thesis
  proof (cases ra)
    case (Inl e)
    with run' alloc have "recoverAfterAllocationFailure R U sv env rv t wa = (Inr (Some fx), w')"
      by (auto split: prod.splits sum.splits option.splits)
    with recover la show thesis by blast
  next
    case (Inr al)
    obtain rf wf where fin: "finalizeCommitted R sv (wo_others env) 1 (wo_finalize env) (wo_repair env) rv al wa = (rf, wf)"
      by (cases "finalizeCommitted R sv (wo_others env) 1 (wo_finalize env) (wo_repair env) rv al wa")
    have lf: "later wa wf" by (rule finalizeCommitted_later [OF others later_ok [OF la] fin])
    then have l: "later w wf" using la later_trans by blast
    show thesis
    proof (cases rf)
      case Inl
      with run' alloc Inr fin have "recoverAfterAllocationFailure R U sv env rv t wf = (Inr (Some fx), w')"
        by (auto split: prod.splits sum.splits option.splits)
      with recover l show thesis by blast
    next
      case (Inr u)
      with run' alloc \<open>ra = Inr al\<close> fin have fx: "fx_allocations fx = [al]" "w' = wf" by (auto simp: EMPTY_EFFECTS_def)
      have "durable_match rv (snd wa) \<and> reports_match rv al"
        using allocateReservation_durable [OF later_ok [OF l0]] tx \<open>ra = Inr al\<close> by blast
      with lf durable_match_evolves have "durable_match rv (snd wf)" "reports_match rv al" unfolding later_def by blast+
      with fx l allocated show thesis by blast
    qed
  qed
qed


section \<open>A lost acknowledgement\<close>

text \<open>Two guests are matched, and the connection is lost after the commit of their game.\<close>

definition sample_pair :: MatchReservation where
  "sample_pair = \<lparr>rv_a = ''u1'', rv_aScore = 500, rv_b = ''u2'', rv_bScore = 600, rv_createdAt = 1000,
     rv_gameId = ''g'', rv_matchId = ''m'', rv_mode = blitz\<rparr>"

definition sample_allocations :: GameAllocationService where
  "sample_allocations = \<lparr>gas_incrementMs = 2000, gas_initialMs = 300000, gas_joinDeadlineMs = 20000\<rparr>"

definition sample_reservation_env :: "fault \<Rightarrow> sample_state reservation_env" where
  "sample_reservation_env f = \<lparr>wo_others = (\<lambda>_ w. w), wo_white = True, wo_allocate = (sample_env 1000 sample_empty)\<lparr>te_fault := f\<rparr>,
     wo_finalize = redis_up, wo_repair = redis_up, wo_find = sample_env 1000 sample_empty,
     wo_eligibilityA = sample_env 1000 sample_empty, wo_eligibilityB = sample_env 1000 sample_empty,
     wo_finalize2 = redis_refused, wo_repair2 = redis_up, wo_rollback = redis_up\<rparr>"

definition sample_processed :: "fault \<Rightarrow> (service_thrown + MatchmakingEffects) \<times> sample_state \<times> db" where
  "sample_processed f = processReservation sample_lib sample_redis sample_uuids sample_allocations sample_service
     (sample_reservation_env f) sample_pair 1000 (sample_redis_empty, sample_empty)"

definition processed_games :: "(service_thrown + MatchmakingEffects) \<times> 'r world \<Rightarrow> string list option" where
  "processed_games r = (case fst r of Inl e \<Rightarrow> None | Inr fx \<Rightarrow> Some (map (gm_id \<circ> al_game) (fx_allocations fx)))"

lemma sample_lost: "processed_games (sample_processed (LostAfterCommit NotAnObject)) = Some [''g'']"
  by code_simp

lemma processed_gamesE:
  assumes "processed_games r = Some gs"
  obtains fx w where "r = (Inr fx, w)" "map (gm_id \<circ> al_game) (fx_allocations fx) = gs"
  using assms by (cases r) (auto simp: processed_games_def split: sum.splits)

lemma alone_env: "wo_others (sample_reservation_env f) = (\<lambda>_ w. w)"
  by (simp add: sample_reservation_env_def)

lemma alone_others: "other_requests lib uuidv4 (wo_others (sample_reservation_env f))"
  unfolding other_requests_def alone_env by (metis performs.simps(1))

section \<open>Properties\<close>


text \<open>
  C7. A match is announced only if it is durable. Whatever Redis does or loses, whatever
  failures the calls meet and whatever other requests do meanwhile, every
  allocation that processing a reservation reports is a game in the database with
  the reserved id and match id, between exactly the two reserved guests.
\<close>

theorem processReservation_reports_durable:
  assumes "reachable lib' uuidv4 (snd w)" and "other_requests lib' uuidv4 (wo_others env)"
    and "processReservation lib R U gas sv env rv t w = (Inr fx, w')"
  shows "\<forall>al \<in> set (fx_allocations fx). reports_match rv al \<and> durable_match rv (snd w')"
proof -
  have "system_ok (snd w)" using assms(1) by (rule reachable_system)
  from assms(2) this assms(3) show ?thesis by (cases rule: processReservation_cases) auto
qed

theorem processReservation_reports_durable_witness:
  "\<exists>fx w'. sample_processed (LostAfterCommit NotAnObject) = (Inr fx, w') \<and> map (gm_id \<circ> al_game) (fx_allocations fx) = [''g''] \<and>
     (\<forall>al \<in> set (fx_allocations fx). reports_match sample_pair al \<and> durable_match sample_pair (snd w'))"
proof -
  from sample_lost obtain fx w' where run: "sample_processed (LostAfterCommit NotAnObject) = (Inr fx, w')"
    and games: "map (gm_id \<circ> al_game) (fx_allocations fx) = [''g'']" by (rule processed_gamesE)
  have reach: "reachable sample_lib sample_uuid (snd (sample_redis_empty, sample_empty))" using sample_reachable by simp
  with run games show ?thesis
    using processReservation_reports_durable [OF reach alone_others run [unfolded sample_processed_def]]
    by (intro exI conjI)
qed

text \<open>
  C8. A committed match is never rolled back: with no other request in between,
  processing a reservation that returns normally reports an allocation exactly if
  the match is in the database afterwards, even if the acknowledgement of the commit
  was lost or Redis failed on the way.
\<close>

theorem processReservation_commits_or_rolls_back:
  assumes "reachable lib' uuidv4 (snd w)" and "wo_others env = (\<lambda>_ w. w)"
    and "processReservation lib R U gas sv env rv t w = (Inr fx, w')"
  shows "fx_allocations fx \<noteq> [] \<longleftrightarrow> durable_match rv (snd w')"
proof -
  have sys: "system_ok (snd w)" using assms(1) by (rule reachable_system)
  have "other_requests lib' uuidv4 (wo_others env)"
    unfolding other_requests_def assms(2) by (metis performs.simps(1))
  from this sys assms(3) show ?thesis
    by (cases rule: processReservation_cases) (simp_all add: assms(2))
qed

theorem processReservation_commits_or_rolls_back_witness:
  "\<exists>fx w'. sample_processed (LostAfterCommit NotAnObject) = (Inr fx, w') \<and> durable_match sample_pair (snd w')"
proof -
  from sample_lost obtain fx w' where run: "sample_processed (LostAfterCommit NotAnObject) = (Inr fx, w')"
    and games: "map (gm_id \<circ> al_game) (fx_allocations fx) = [''g'']" by (rule processed_gamesE)
  have reach: "reachable sample_lib sample_uuid (snd (sample_redis_empty, sample_empty))" using sample_reachable by simp
  with run games show ?thesis
    using processReservation_commits_or_rolls_back [OF reach alone_env run [unfolded sample_processed_def]] by auto
qed

end
