(* ===== verification/Matchmaking_Joining.thy ===== *)
theory Matchmaking_Joining
  imports Matchmaking_Guarantees
begin

text \<open>
  When the calls go through, two guests meet: an allocation whose guests are free
  creates its game once, and a guest who joins while another waits plays that guest.
\<close>

section \<open>When an allocation succeeds\<close>

definition playable_guest :: "int \<Rightarrow> db \<Rightarrow> string \<Rightarrow> bool" where
  "playable_guest t db u \<longleftrightarrow>
     (\<exists>r. find_guest db u = Some r \<and> gs_revoked_at r = None \<and> t < gs_expires_at r) \<and> find_assignment db u = None"

definition fresh_allocation :: "tx_env \<Rightarrow> AllocateGame \<Rightarrow> db \<Rightarrow> bool" where
  "fresh_allocation env input db \<longleftrightarrow>
     (\<forall>r \<in> set (games db). g_id r \<noteq> ag_gameId input \<and> g_match_id r \<noteq> ag_matchId input) \<and>
     te_newId1 env \<noteq> te_newId2 env \<and> te_newId1 env \<notin> p_id ` set (players db) \<and> te_newId2 env \<notin> p_id ` set (players db)"

lemma eligible_two:
  assumes ok: "tables_ok db" and ne: "w \<noteq> b"
    and w: "find_guest db w = Some rw" "Q rw" and b: "find_guest db b = Some rb" "Q rb"
  shows "count_rows (\<lambda>r. gs_id r \<in> {w, b} \<and> Q r) (guests db) = 2"
proof -
  have d: "distinct (map gs_id (guests db))" using ok by (simp add: tables_ok_def)
  have key: "rw \<in> set (guests db)" "gs_id rw = w" "rb \<in> set (guests db)" "gs_id rb = b"
    using w(1) b(1) by (auto simp: find_guest_def dest: find_row_SomeD)
  let ?xs = "filter (\<lambda>r. gs_id r \<in> {w, b} \<and> Q r) (guests db)"
  have "set ?xs = {rw, rb}" using d key w(2) b(2) by (auto simp: distinct_map dest: inj_onD)
  moreover have "distinct ?xs" using d by (simp add: distinct_map)
  moreover have "rw \<noteq> rb" using key ne by auto
  ultimately have "length ?xs = 2" by (metis card_2_iff distinct_card)
  then show ?thesis by (simp add: count_rows_def)
qed

lemma createAssignment_succeeds:
  assumes "find_guest db u \<noteq> None" "\<forall>a \<in> set (assignments db). a_guest_session_id a \<noteq> u" "find_game db gid \<noteq> None"
  shows "createAssignment gid u db = Inr ((), db\<lparr>assignments := assignments db @ [\<lparr>a_guest_session_id = u, a_game_id = gid\<rparr>]\<rparr>)"
  using assms by (auto simp: createAssignment_def connect_guest_def tbind_run_Inr insert_assignment_def list_ex_iff tbind_def)

lemma createPlayer_succeeds:
  assumes "find_guest db (p_guest_session_id p) \<noteq> None" "find_game db (p_game_id p) \<noteq> None" "player_check p"
    and "\<forall>r \<in> set (players db). p_id r \<noteq> p_id p \<and> (p_game_id r = p_game_id p \<longrightarrow>
      p_color r \<noteq> p_color p \<and> p_guest_session_id r \<noteq> p_guest_session_id p \<and> p_slot r \<noteq> p_slot p)"
  shows "createPlayer p db = Inr ((), db\<lparr>players := players db @ [p]\<rparr>)"
  using assms by (auto simp: createPlayer_def connect_guest_def insert_player_def list_ex_iff tbind_def)

lemma createGame_succeeds:
  assumes ok: "tables_ok db" and fresh: "fresh_allocation env input db"
    and row: "game_range (newGameRow env input)" "game_check (newGameRow env input)"
    and ne: "ag_whiteGuestSessionId input \<noteq> ag_blackGuestSessionId input"
    and w: "playable_guest t db (ag_whiteGuestSessionId input)" and b: "playable_guest t db (ag_blackGuestSessionId input)"
  shows "createGame env input db = Inr ((), allocatedDb env input db)"
proof -
  let ?gid = "ag_gameId input" and ?w = "ag_whiteGuestSessionId input" and ?b = "ag_blackGuestSessionId input"
  define g0 where "g0 = sort [?w, ?b] ! 0"
  define g1 where "g1 = sort [?w, ?b] ! 1"
  have two: "sort [?w, ?b] = [g0, g1]" by (simp add: g0_def g1_def)
  have mem: "g0 \<in> {?w, ?b}" "g1 \<in> {?w, ?b}" "g0 \<noteq> g1" using ne by (auto simp: g0_def g1_def)
  have playable: "find_guest db u \<noteq> None" "\<forall>a \<in> set (assignments db). a_guest_session_id a \<noteq> u" if "u \<in> {?w, ?b}" for u
    using that w b by (auto simp: playable_guest_def find_assignment_def find_row_None_iff)
  have others: "\<forall>p \<in> set (players db). p_game_id p \<noteq> ?gid"
    using ok fresh by (auto simp: tables_ok_def players_ok_def fresh_allocation_def game_ids_def)
  have new: "\<forall>r \<in> set (players db). p_id r \<noteq> te_newId1 env \<and> p_id r \<noteq> te_newId2 env" "te_newId1 env \<noteq> te_newId2 env"
    using fresh unfolding fresh_allocation_def image_iff by metis+
  define d1 where "d1 = db\<lparr>games := games db @ [newGameRow env input]\<rparr>"
  define d2 where "d2 = d1\<lparr>assignments := assignments db @ [\<lparr>a_guest_session_id = g0, a_game_id = ?gid\<rparr>]\<rparr>"
  define d3 where "d3 = d2\<lparr>assignments := assignments db @ [\<lparr>a_guest_session_id = g0, a_game_id = ?gid\<rparr>,
     \<lparr>a_guest_session_id = g1, a_game_id = ?gid\<rparr>]\<rparr>"
  define d4 where "d4 = d3\<lparr>players := players db @ [newPlayerRow (te_newId1 env) ?gid ?w ''w'' 0]\<rparr>"
  have look: "find_guest d u = find_guest db u" "find_game d ?gid \<noteq> None" if "d \<in> {d1, d2, d3, d4}" for d u
    using that by (auto simp: d1_def d2_def d3_def d4_def find_guest_def find_game_def find_row_append newGameRow_def split: option.split)
  have "insert_game (newGameRow env input) db = Inr ((), d1)"
    using fresh row by (auto simp: insert_game_def d1_def list_ex_iff fresh_allocation_def newGameRow_def)
  moreover have "createAssignment ?gid g0 d1 = Inr ((), d2)"
    using createAssignment_succeeds [of d1 g0 ?gid] look [of d1] playable mem by (auto simp: d1_def d2_def)
  moreover have "createAssignment ?gid g1 d2 = Inr ((), d3)"
    using createAssignment_succeeds [of d2 g1 ?gid] look [of d2] playable mem by (auto simp: d1_def d2_def d3_def)
  moreover have "createPlayer (newPlayerRow (te_newId1 env) ?gid ?w ''w'' 0) d3 = Inr ((), d4)"
    using createPlayer_succeeds [of d3 "newPlayerRow (te_newId1 env) ?gid ?w ''w'' 0"] look [of d3] playable others new
    by (auto simp: d1_def d2_def d3_def d4_def newPlayerRow_def player_check_def)
  moreover have d5: "allocatedDb env input db = d4\<lparr>players := players d4 @ [newPlayerRow (te_newId2 env) ?gid ?b ''b'' 1]\<rparr>"
    unfolding allocatedDb_def two d1_def d2_def d3_def d4_def by simp
  have "createPlayer (newPlayerRow (te_newId2 env) ?gid ?b ''b'' 1) d4 = Inr ((), allocatedDb env input db)"
    using createPlayer_succeeds [of d4 "newPlayerRow (te_newId2 env) ?gid ?b ''b'' 1"] look [of d4] playable others new ne
    unfolding d5 by (auto simp: d1_def d2_def d3_def d4_def newPlayerRow_def player_check_def)
  ultimately show ?thesis
    unfolding createGame_def Let_def g0_def [symmetric] g1_def [symmetric] by (simp add: tbind_run_Inr)
qed


lemma allocated_commit:
  assumes sys: "system_ok db" and fresh: "fresh_allocation env input db"
  shows "commit_ok (allocatedDb env input db)"
proof -
  let ?gid = "ag_gameId input" and ?w = "ag_whiteGuestSessionId input" and ?b = "ag_blackGuestSessionId input"
  have ok: "tables_ok db" using sys by (rule system_ok_tables)
  have players: "\<forall>p \<in> set (players db). p_game_id p \<noteq> ?gid" and assigned: "\<forall>a \<in> set (assignments db). a_game_id a \<noteq> ?gid"
    using ok fresh by (auto simp: tables_ok_def players_ok_def assignments_ok_def fresh_allocation_def game_ids_def)
  have "allocation_ok (allocatedDb env input db) g" if "g \<in> set (games db)" for g
  proof -
    from that fresh have "g_id g \<noteq> ?gid" by (auto simp: fresh_allocation_def)
    moreover have "allocation_ok db g" using sys that by (simp add: system_ok_def db_ok_def commit_ok_def list_all_iff)
    ultimately show ?thesis
      by (auto simp: allocation_ok_def allocatedDb_def newPlayerRow_def assignments_of_def list_all_iff list_ex_iff)
  qed
  moreover have "allocation_ok (allocatedDb env input db) (newGameRow env input)"
  proof -
    have "filter (\<lambda>p. p_game_id p = ?gid) (players db) = []" "filter (\<lambda>a. a_game_id a = ?gid) (assignments db) = []"
      using players assigned by (auto simp: filter_empty_conv)
    then show ?thesis
      by (auto simp: allocation_ok_def allocatedDb_def newPlayerRow_def newGameRow_def assignments_of_def list_all_iff list_ex_iff
        terminal_text_def)
  qed
  ultimately show ?thesis by (simp add: commit_ok_def list_all_iff allocatedDb_def)
qed

lemma allocated_maps:
  assumes ok: "tables_ok db" and fresh: "fresh_allocation env input db" and mode: "ag_mode input = ''BLITZ''"
    and w: "playable_guest t db (ag_whiteGuestSessionId input)" and b: "playable_guest t db (ag_blackGuestSessionId input)"
  obtains al where "mapAllocation (loadAllocation (allocatedDb env input db) (newGameRow env input)) = Inr al"
    "gm_id (al_game al) = ag_gameId input" "gm_status (al_game al) = WAITING_FOR_PLAYERS" "gm_version (al_game al) = 0"
    "gp_guestSessionId (fst (al_players al)) = ag_whiteGuestSessionId input"
    "gp_guestSessionId (snd (al_players al)) = ag_blackGuestSessionId input"
    "gp_color (fst (al_players al)) = White" "gp_color (snd (al_players al)) = Black"
proof -
  have new: "\<forall>r \<in> set (games db). g_id r \<noteq> ag_gameId input" using fresh by (auto simp: fresh_allocation_def)
  from w b obtain rw rb where "find_guest db (ag_whiteGuestSessionId input) = Some rw"
    "find_guest db (ag_blackGuestSessionId input) = Some rb" by (auto simp: playable_guest_def)
  then have "find_guest (allocatedDb env input db) (ag_whiteGuestSessionId input) = Some rw"
    "find_guest (allocatedDb env input db) (ag_blackGuestSessionId input) = Some rb"
    by (simp_all add: find_guest_def allocatedDb_def)
  with that mode show ?thesis
    by (simp add: loadAllocation_def allocated_lookups(1) [OF ok new] newPlayerRow_def mapAllocation_def mapPlayer_def Let_def
      mapGame_def newGameRow_def isStatus_def color_game_def List.map_filter_simps)
qed

lemma allocated_assignment:
  assumes "playable_guest t db u" and "u \<in> {ag_whiteGuestSessionId input, ag_blackGuestSessionId input}"
  shows "find_assignment (allocatedDb env input db) u = Some \<lparr>a_guest_session_id = u, a_game_id = ag_gameId input\<rparr>"
  using assms by (auto simp: find_assignment_def allocatedDb_def find_row_append playable_guest_def)

lemma allocate_new:
  assumes sys: "system_ok db" and fresh: "fresh_allocation env input db"
    and row: "game_range (newGameRow env input)" "game_check (newGameRow env input)"
    and ne: "ag_whiteGuestSessionId input \<noteq> ag_blackGuestSessionId input"
    and w: "playable_guest (ag_observedAt input) db (ag_whiteGuestSessionId input)"
    and b: "playable_guest (ag_observedAt input) db (ag_blackGuestSessionId input)"
    and "te_fault env = NoFault"
  shows "allocate env input db =
    (mapAllocation (loadAllocation (allocatedDb env input db) (newGameRow env input)), allocatedDb env input db)"
proof -
  let ?w = "ag_whiteGuestSessionId input" and ?b = "ag_blackGuestSessionId input"
  have ok: "tables_ok db" using sys by (rule system_ok_tables)
  note create = createGame_succeeds [OF ok fresh row ne w b]
  have none: "find_row (\<lambda>g. g_match_id g = ag_matchId input) (games db) = None"
    using fresh by (auto simp: find_row_None_iff fresh_allocation_def)
  from w b obtain rw rb where "find_guest db ?w = Some rw" "gs_expires_at rw > ag_observedAt input \<and> gs_revoked_at rw = None"
    "find_guest db ?b = Some rb" "gs_expires_at rb > ag_observedAt input \<and> gs_revoked_at rb = None"
    by (auto simp: playable_guest_def)
  from eligible_two [OF ok ne this(1,2) this(3,4)] have elig: "eligibleGuests db input = 2"
    by (simp add: eligibleGuests_def conj_ac)
  have free: "find_row (\<lambda>a. a_guest_session_id a \<in> {?w, ?b}) (assignments db) = None"
    using w b by (auto simp: playable_guest_def find_assignment_def find_row_None_iff)
  have new: "\<forall>r \<in> set (games db). g_id r \<noteq> ag_gameId input" using fresh by (auto simp: fresh_allocation_def)
  have "allocateInTransaction env input db =
      Inr (alloc_allocated (loadAllocation (allocatedDb env input db) (newGameRow env input)), allocatedDb env input db)"
    using create none elig free allocated_lookups(3) [OF ok new, of env "ag_gameId input"]
    by (simp add: allocateInTransaction_def Let_def lockGuestSessions_def tbind_def)
  with ne assms(8) allocated_commit [OF sys fresh] show ?thesis by (simp add: allocate_def run_def)
qed

lemma allocate_again:
  assumes ok: "tables_ok db" and fresh: "fresh_allocation env input db"
    and ne: "ag_whiteGuestSessionId input \<noteq> ag_blackGuestSessionId input" and commit: "commit_ok (allocatedDb env input db)"
    and w: "playable_guest t db (ag_whiteGuestSessionId input)" and b: "playable_guest t db (ag_blackGuestSessionId input)"
    and "te_fault env' = NoFault"
  shows "allocate env' input (allocatedDb env input db) =
    (mapAllocation (loadAllocation (allocatedDb env input db) (newGameRow env input)), allocatedDb env input db)"
proof -
  let ?db = "allocatedDb env input db" and ?w = "ag_whiteGuestSessionId input" and ?b = "ag_blackGuestSessionId input"
  have new: "\<forall>r \<in> set (games db). g_id r \<noteq> ag_gameId input" using fresh by (auto simp: fresh_allocation_def)
  have "find_row (\<lambda>g. g_match_id g = ag_matchId input) (games db) = None"
    using fresh by (auto simp: find_row_None_iff fresh_allocation_def)
  then have found: "find_row (\<lambda>g. g_match_id g = ag_matchId input) (games ?db) = Some (newGameRow env input)"
    by (simp add: allocatedDb_def find_row_append newGameRow_def)
  from w b obtain rw rb where "find_guest ?db ?w = Some rw" "find_guest ?db ?b = Some rb"
    by (auto simp: playable_guest_def find_guest_def allocatedDb_def)
  then have "map (\<lambda>(p, _). p_guest_session_id p) (pa_players (loadAllocation ?db (newGameRow env input))) = [?w, ?b]"
    using allocated_lookups(1) [OF ok new, of env "ag_gameId input"]
    by (simp add: loadAllocation_def newGameRow_def newPlayerRow_def List.map_filter_simps)
  then have "matchesReservation (loadAllocation ?db (newGameRow env input)) input"
    by (auto simp: matchesReservation_def Let_def newGameRow_def)
  with found have "allocateInTransaction env' input ?db = Inr (alloc_allocated (loadAllocation ?db (newGameRow env input)), ?db)"
    by (simp add: allocateInTransaction_def Let_def lockGuestSessions_def tbind_def)
  with ne assms(7) commit show ?thesis by (simp add: allocate_def run_def)
qed

text \<open>
  An allocation goes through exactly once. Two different guests who have valid
  sessions and are in no game, with fresh ids and valid times, get a new game that
  waits for its players, white and black as asked, both are assigned to it, and
  nothing else in the database changes. Asking again for the same match returns the
  same game and changes nothing.
\<close>

theorem allocate_creates_once:
  assumes "reachable lib uuidv4 db" and "fresh_allocation env input db" and "ag_mode input = ''BLITZ''"
    and "game_range (newGameRow env input)" "game_check (newGameRow env input)"
    and "ag_whiteGuestSessionId input \<noteq> ag_blackGuestSessionId input"
    and "playable_guest (ag_observedAt input) db (ag_whiteGuestSessionId input)"
    and "playable_guest (ag_observedAt input) db (ag_blackGuestSessionId input)"
    and "te_fault env = NoFault" and "te_fault env' = NoFault"
  shows "\<exists>al. allocate env input db = (Inr al, allocatedDb env input db) \<and>
    gm_id (al_game al) = ag_gameId input \<and> gm_status (al_game al) = WAITING_FOR_PLAYERS \<and> gm_version (al_game al) = 0 \<and>
    gp_guestSessionId (fst (al_players al)) = ag_whiteGuestSessionId input \<and> gp_color (fst (al_players al)) = White \<and>
    gp_guestSessionId (snd (al_players al)) = ag_blackGuestSessionId input \<and> gp_color (snd (al_players al)) = Black \<and>
    (\<forall>u \<in> {ag_whiteGuestSessionId input, ag_blackGuestSessionId input}.
       find_assignment (allocatedDb env input db) u = Some \<lparr>a_guest_session_id = u, a_game_id = ag_gameId input\<rparr>) \<and>
    allocate env' input (allocatedDb env input db) = (Inr al, allocatedDb env input db)"
proof -
  have sys: "system_ok db" using assms(1) by (rule reachable_system)
  then have ok: "tables_ok db" by (rule system_ok_tables)
  obtain al where "mapAllocation (loadAllocation (allocatedDb env input db) (newGameRow env input)) = Inr al"
    "gm_id (al_game al) = ag_gameId input" "gm_status (al_game al) = WAITING_FOR_PLAYERS" "gm_version (al_game al) = 0"
    "gp_guestSessionId (fst (al_players al)) = ag_whiteGuestSessionId input"
    "gp_guestSessionId (snd (al_players al)) = ag_blackGuestSessionId input"
    "gp_color (fst (al_players al)) = White" "gp_color (snd (al_players al)) = Black"
    by (rule allocated_maps [OF ok assms(2,3,7,8)])
  with allocate_new [OF sys assms(2,4-9)] allocate_again [OF ok assms(2,6) allocated_commit [OF sys assms(2)] assms(7,8,10)]
    allocated_assignment assms(7,8) show ?thesis by auto
qed

theorem allocate_creates_once_witness:
  "\<exists>al. allocate (sample_env 1000 sample_empty) sample_allocation sample_empty =
       (Inr al, allocatedDb (sample_env 1000 sample_empty) sample_allocation sample_empty) \<and>
     gm_status (al_game al) = WAITING_FOR_PLAYERS \<and> gp_guestSessionId (fst (al_players al)) = ''u1''"
proof -
  have "fresh_allocation (sample_env 1000 sample_empty) sample_allocation sample_empty"
    "game_range (newGameRow (sample_env 1000 sample_empty) sample_allocation)"
    "game_check (newGameRow (sample_env 1000 sample_empty) sample_allocation)" "ag_mode sample_allocation = ''BLITZ''"
    "ag_whiteGuestSessionId sample_allocation \<noteq> ag_blackGuestSessionId sample_allocation"
    "te_fault (sample_env 1000 sample_empty) = NoFault"
    by code_simp+
  moreover have "playable_guest (ag_observedAt sample_allocation) sample_empty (ag_whiteGuestSessionId sample_allocation)"
    "playable_guest (ag_observedAt sample_allocation) sample_empty (ag_blackGuestSessionId sample_allocation)"
    by (simp_all add: playable_guest_def sample_empty_def sample_guests_def sample_allocation_def find_guest_def
      find_assignment_def find_row_def)
  moreover have "ag_whiteGuestSessionId sample_allocation = ''u1''" by (simp add: sample_allocation_def)
  ultimately show ?thesis
    using allocate_creates_once [OF sample_reachable(1), of "sample_env 1000 sample_empty" sample_allocation "sample_env 1000 sample_empty"]
    by auto
qed

section \<open>Joining to meet somebody\<close>

lemma isPresent_view:
  assumes "redis_ok R" "typed R s"
  obtains s' where "isPresent R redis_up u t s = (Inr (present t u (view R s)), s')" "typed R s'" "view R s' = pruned t u (view R s)"
proof -
  have "isPresent R redis_up u t s = (Inr (fst (is_present R t (presenceKey u) s)), snd (is_present R t (presenceKey u) s))"
    by (simp add: isPresent_def presence_count_def eval_script_def is_present_def Let_def)
  with that is_present_view [OF assms] show ?thesis by simp
qed

text \<open>A request that meets no failure, and no other request while it runs.\<close>

definition calm_reservation :: "'r reservation_env \<Rightarrow> bool" where
  "calm_reservation env \<longleftrightarrow> wo_others env = (\<lambda>_ w. w) \<and> te_fault (wo_allocate env) = NoFault \<and> wo_finalize env = redis_up"

definition calm_join :: "'r join_env \<Rightarrow> bool" where
  "calm_join env \<longleftrightarrow> jo_others env = (\<lambda>_ w. w) \<and> te_readFault (jo_eligibility env) = None \<and> jo_presence env = redis_up \<and>
     jo_enqueue env = redis_up \<and> at_others (jo_attempt env) = (\<lambda>w. w) \<and> at_fault (jo_attempt env) = redis_up \<and>
     calm_reservation (at_reservation (jo_attempt env))"

lemma processReservation_calm:
  assumes R: "redis_ok R" "typed R s" "service_ok sv" and calm: "calm_reservation env"
    and rv: "reserved rv (view R s)"
    and alloc: "allocateReservation lib gas (wo_white env) (wo_allocate env) rv t db = (Inr al, db')"
  obtains s' where "processReservation lib R U gas sv env rv t (s, db) = (Inr (EMPTY_EFFECTS\<lparr>fx_allocations := [al]\<rparr>), s', db')"
    "typed R s'" "view R s' = finalized_view rv (view R s)"
proof -
  obtain s' where s': "finalize R sv redis_up rv s = (Inr True, s')" "typed R s'" "view R s' = finalized_view rv (view R s)"
    by (rule finalize_view [OF R rv])
  then have "finalizeCommitted R sv (wo_others env) 1 (wo_finalize env) (wo_repair env) rv al (s, db') = (Inr (), s', db')"
    using calm by (simp add: finalizeCommitted_def calm_reservation_def on_redis_def)
  moreover have "on_db (allocateReservation lib gas (wo_white env) (wo_allocate env) rv t) (wo_others env 0 (s, db)) = (Inr al, s, db')"
    using calm alloc by (simp add: on_db_def calm_reservation_def)
  ultimately have "processReservation lib R U gas sv env rv t (s, db) = (Inr (EMPTY_EFFECTS\<lparr>fx_allocations := [al]\<rparr>), s', db')"
    by (simp add: processReservation_def)
  with that s' show ?thesis by blast
qed

lemma allocateReservation_new:
  assumes sys: "system_ok db" and init: "newGame lib = Inr initial" and d: "new_Date (t + gas_joinDeadlineMs gas) = Date d"
    and input: "input = allocation_input gas white initial rv t d"
    and fresh: "fresh_allocation env input db" and row: "game_range (newGameRow env input)" "game_check (newGameRow env input)"
    and ne: "rv_a rv \<noteq> rv_b rv" and play: "playable_guest t db (rv_a rv)" "playable_guest t db (rv_b rv)" and "te_fault env = NoFault"
  obtains al where "allocateReservation lib gas white env rv t db = (Inr al, allocatedDb env input db)"
proof -
  have h: "ag_whiteGuestSessionId input \<noteq> ag_blackGuestSessionId input" "ag_mode input = ''BLITZ''"
    "playable_guest (ag_observedAt input) db (ag_whiteGuestSessionId input)"
    "playable_guest (ag_observedAt input) db (ag_blackGuestSessionId input)"
    using ne play by (auto simp: input allocation_input_def)
  obtain al where "mapAllocation (loadAllocation (allocatedDb env input db) (newGameRow env input)) = Inr al"
    by (rule allocated_maps [OF system_ok_tables [OF sys] fresh h(2,3,4)])
  with allocate_new [OF sys fresh row h(1,3,4) assms(11)] that init d input show ?thesis
    by (simp add: allocateReservation_def)
qed

lemma enqueued_queue:
  assumes "v \<noteq> u" and "since < t"
  shows "zinsert t u [(v, since)] = [(v, since), (u, t)]"
  using assms by (simp add: zinsert_def zremove_def zkey_def)

text \<open>
  C12. Two guests who join play each other. If one matchable guest is waiting and a
  second, connected guest with a valid session joins, then with working stores the
  join reports the second place in the queue and one new game, waiting for its two
  players: the game is in the database between exactly these two guests, both have
  it as their active game in Redis, and the queue is empty again.
\<close>

theorem join_pairs_waiting_guest:
  assumes "redis_ok (mk_redis M)" "typed (mk_redis M) s" "service_ok (mk_scripts M)" and "2 \<le> mk_batchSize M"
    and "reachable lib uuidv4 db" and "calm_join env" and "jo_attempt env = at" and "at_reservation at = ev"
    and "view (mk_redis M) s = vw" and "v_queue vw blitz = [(v, since)]" and "0 \<le> since" "since < t" and "v \<noteq> u"
    and "exit_reason (mode_text blitz) t (sv_maxWaitMs (mk_scripts M)) vw (v, since) = None"
    and "present t u vw" and "may_enqueue u vw" and "v_reservation vw (at_matchId at) = Map.empty"
    and "is_uuid (mk_uuids M) u" "is_uuid (mk_uuids M) v" "is_uuidv4 (mk_uuids M) (at_matchId at)" "is_uuidv4 (mk_uuids M) (at_gameId at)"
    and "rv = \<lparr>rv_a = v, rv_aScore = since, rv_b = u, rv_bScore = t, rv_createdAt = t, rv_gameId = at_gameId at,
      rv_matchId = at_matchId at, rv_mode = blitz\<rparr>"
    and "newGame (mk_lib M) = Inr initial" and "new_Date (t + gas_joinDeadlineMs (mk_allocations M)) = Date d"
    and "input = allocation_input (mk_allocations M) (wo_white ev) initial rv t d"
    and "fresh_allocation (wo_allocate ev) input db"
    and "game_range (newGameRow (wo_allocate ev) input)" "game_check (newGameRow (wo_allocate ev) input)"
    and "playable_guest t db u" "playable_guest t db v"
  shows "\<exists>al s' db'. join M env u blitz t (s, db) =
      (Inr (\<lparr>qj_duplicate = False, qj_position = 2, qj_since = t\<rparr>, EMPTY_EFFECTS\<lparr>fx_allocations := [al]\<rparr>), s', db') \<and>
    reports_match rv al \<and> durable_match rv db' \<and>
    in_game (at_gameId at) u (view (mk_redis M) s') \<and> in_game (at_gameId at) v (view (mk_redis M) s') \<and>
    v_queue (view (mk_redis M) s') blitz = []"
proof -
  let ?R = "mk_redis M" and ?sv = "mk_scripts M"
  have sys: "system_ok db" using assms(5) by (rule reachable_system)
  have calm: "at_others at = (\<lambda>w. w)" "at_fault at = redis_up" "calm_reservation ev"
    using assms(6,7,8) by (simp_all add: calm_join_def)
  from assms(3) have ttl: "0 < sv_reservationTtlMs ?sv" "0 < sv_guardTtlMs ?sv" and wait: "0 < sv_maxWaitMs ?sv"
    by (simp_all add: service_ok_def)
  obtain s1 where s1: "isPresent ?R redis_up u t s = (Inr (present t u (view ?R s)), s1)" "typed ?R s1"
    "view ?R s1 = pruned t u (view ?R s)"
    by (rule isPresent_view [OF assms(1,2)])
  have may1: "may_enqueue u (view ?R s1)" and q1: "v_queue (view ?R s1) blitz = [(v, since)]"
    using assms(9,10,16) s1(3) by (simp_all add: may_enqueue_def)
  have since1: "\<forall>x \<in> set (v_queue (view ?R s1) blitz). 0 \<le> snd x" and t0: "0 \<le> t" using assms(11,12) by (simp_all add: q1)
  obtain s2 where s2: "enqueue ?R ?sv redis_up u blitz t s1 =
    (Inr \<lparr>qj_duplicate = u \<in> fst ` set (v_queue (view ?R s1) blitz),
       qj_position = place u (v_queue (enqueued blitz u t (view ?R s1)) blitz),
       qj_since = (case map_of (v_queue (view ?R s1) blitz) u of None \<Rightarrow> t | Some since \<Rightarrow> since)\<rparr>, s2)"
    "typed ?R s2" "view ?R s2 = enqueued blitz u t (view ?R s1)"
    by (rule enqueue_succeeds [OF assms(1) s1(2) assms(3) may1 t0 since1])
  have q2: "v_queue (view ?R s2) blitz = [(v, since), (u, t)]"
    using assms(13) enqueued_queue [OF assms(13,12)] by (simp add: s2(3) enqueued_def q1)
  have joined: "enqueue ?R ?sv redis_up u blitz t s1 = (Inr \<lparr>qj_duplicate = False, qj_position = 2, qj_since = t\<rparr>, s2)"
    using assms(13) s2(1) q2 by (simp add: q1 s2(3) [symmetric] place_def)
  let ?f = "exit_reason (mode_text blitz) t (sv_maxWaitMs ?sv) (view ?R s2)"
  have f: "?f (v, since) = None" "?f (u, t) = None"
    using assms(9,13-16) wait s1(3) s2(3) unfolding exit_reason_def may_enqueue_def
    by (auto simp: enqueued_def present_def pruned_def split: if_splits)
  have free: "v_reservation (view ?R s2) (at_matchId at) = Map.empty"
    using assms(9,17) by (simp add: s2(3) enqueued_def s1(3))
  have many: "2 \<le> length (filter (\<lambda>x. ?f x = None) (take (nat (mk_batchSize M)) (v_queue (view ?R s2) blitz)))"
    using f assms(4) by (simp add: q2)
  obtain seen a b rest rv' s3 where m: "v_queue (view ?R s2) blitz = seen @ b # rest" "filter (\<lambda>x. ?f x = None) seen = [a]"
    and rv': "rv' = \<lparr>rv_a = fst a, rv_aScore = snd a, rv_b = fst b, rv_bScore = snd b, rv_createdAt = t,
         rv_gameId = at_gameId at, rv_matchId = at_matchId at, rv_mode = blitz\<rparr>"
    and lua: "try_match_lua ?R (queueKey blitz) (reservationKey (at_matchId at)) blitz t (sv_maxWaitMs ?sv) (at_matchId at)
        (at_gameId at) (sv_reservationTtlMs ?sv) (sv_guardTtlMs ?sv) (mk_batchSize M) s2 =
        (Some (matched rv' (map (removed_guest ?f) (filter (\<lambda>x. ?f x \<noteq> None) seen))), s3)"
    and v3: "reserved_view rv' (fst ` set (filter (\<lambda>x. ?f x \<noteq> None) seen)) rest (view ?R s2) (view ?R s3)" "typed ?R s3"
    by (rule try_match_lua_matched [OF assms(1) s2(2) ttl free refl refl many])
  have parts: "seen = [(v, since)]" "b = (u, t)" "rest = []" "a = (v, since)"
    using m f by (auto simp: q2 Cons_eq_append_conv split: if_splits)
  have rv: "rv' = rv" using parts by (simp add: rv' assms(22))
  have "reservationSchema (mk_uuids M) rv" using assms(11,18-22) t0 by (simp add: reservationSchema_def)
  then have match: "tryMatch ?R (mk_uuids M) ?sv redis_up blitz (at_matchId at) (at_gameId at) t (mk_batchSize M) s2 =
      (Inr \<lparr>ma_discarded = [], ma_reservation = Some rv\<rparr>, s3)"
    using lua f parts by (simp add: tryMatch_def execute_def rv)
  have res: "reserved rv (view ?R s3)" using v3(1) by (simp add: reserved_def reserved_view_def rv)
  have ne: "rv_a rv \<noteq> rv_b rv" and play: "playable_guest t db (rv_a rv)" "playable_guest t db (rv_b rv)"
    using assms(13,29,30) by (simp_all add: assms(22))
  have nf: "te_fault (wo_allocate ev) = NoFault" using calm(3) by (simp add: calm_reservation_def)
  obtain al where al: "allocateReservation (mk_lib M) (mk_allocations M) (wo_white ev) (wo_allocate ev) rv t db =
      (Inr al, allocatedDb (wo_allocate ev) input db)"
    by (rule allocateReservation_new [OF sys assms(23-28) ne play nf])
  obtain s4 where s4: "processReservation (mk_lib M) ?R (mk_uuids M) (mk_allocations M) ?sv ev rv t (s3, db) =
      (Inr (EMPTY_EFFECTS\<lparr>fx_allocations := [al]\<rparr>), s4, allocatedDb (wo_allocate ev) input db)"
    "view ?R s4 = finalized_view rv (view ?R s3)"
    by (rule processReservation_calm [OF assms(1) v3(2) assms(3) calm(3) res al])
  have attempt: "attemptMatch M at blitz t (s2, db) =
      (Inr (EMPTY_EFFECTS\<lparr>fx_allocations := [al]\<rparr>), s4, allocatedDb (wo_allocate ev) input db)"
    using match s4(1) calm assms(8) by (simp add: attemptMatch_def on_redis_def effectsFromAttempt_def EMPTY_EFFECTS_def)
  have elig: "getGuestMatchEligibility (jo_eligibility env) u t db = Inr \<lparr>ge_activeGameId = None, ge_eligible = True\<rparr>"
    using assms(6,29) by (auto simp: getGuestMatchEligibility_def read_row_def calm_join_def playable_guest_def)
  have "join M env u blitz t (s, db) =
      (Inr (\<lparr>qj_duplicate = False, qj_position = 2, qj_since = t\<rparr>, EMPTY_EFFECTS\<lparr>fx_allocations := [al]\<rparr>), s4,
       allocatedDb (wo_allocate ev) input db)"
    using assms(6,7,9,15) elig s1(1) joined attempt by (simp add: join_def calm_join_def on_redis_def)
  moreover have "in_game (at_gameId at) w (view ?R s4)" if "w \<in> {u, v}" for w
    using that by (auto simp: s4(2) finalized_view_def in_game_def assms(22))
  moreover have "v_queue (view ?R s4) blitz = []"
    using v3(1) parts by (simp add: s4(2) finalized_view_def reserved_view_def rv assms(22))
  ultimately show ?thesis using allocateReservation_durable [OF sys al] by auto
qed

text \<open>One guest waits; the other connects and joins four seconds later.\<close>

definition sample_waiting_redis :: sample_state where
  "sample_waiting_redis = snd (enqueue sample_redis sample_service redis_up ''u1'' blitz 1000
     (rd_zadd sample_redis (presenceKey ''u1'') 90000 ''s1'' (rd_zadd sample_redis (presenceKey ''u2'') 90000 ''s2'' sample_redis_empty)))"

definition sample_matchmaking :: "(string list, sample_state) matchmaking" where
  "sample_matchmaking = \<lparr>mk_lib = sample_lib, mk_redis = sample_redis, mk_uuids = sample_uuids, mk_allocations = sample_allocations,
     mk_scripts = sample_service, mk_batchSize = 100\<rparr>"

definition sample_join_env :: "sample_state join_env" where
  "sample_join_env = \<lparr>jo_others = (\<lambda>_ w. w), jo_eligibility = sample_env 5000 sample_empty, jo_presence = redis_up,
     jo_presenceFailsFirst = False, jo_enqueue = redis_up,
     jo_attempt = \<lparr>at_others = (\<lambda>w. w), at_matchId = ''m'', at_gameId = ''g'', at_fault = redis_up,
       at_reservation = sample_reservation_env NoFault\<rparr>\<rparr>"

definition sample_met :: MatchReservation where
  "sample_met = \<lparr>rv_a = ''u1'', rv_aScore = 1000, rv_b = ''u2'', rv_bScore = 5000, rv_createdAt = 5000,
     rv_gameId = ''g'', rv_matchId = ''m'', rv_mode = blitz\<rparr>"

lemma sample_waiting_typed: "typed sample_redis sample_waiting_redis"
  unfolding sample_waiting_redis_def
  by (intro enqueue_typed sample_redis_ok sample_service_ok) (simp add: view_simps typed_empty sample_redis_ok)

lemma sample_waiting_view:
  "v_queue (view sample_redis sample_waiting_redis) blitz = [(''u1'', 1000)]"
  "exit_reason (mode_text blitz) 5000 (sv_maxWaitMs sample_service) (view sample_redis sample_waiting_redis) (''u1'', 1000) = None"
  "present 5000 ''u2'' (view sample_redis sample_waiting_redis)" "may_enqueue ''u2'' (view sample_redis sample_waiting_redis)"
  by code_simp+

lemma sample_waiting_free: "v_reservation (view sample_redis sample_waiting_redis) ''m'' = Map.empty"
  by (rule ext) code_simp

definition sample_start_position :: ReplayedPosition where
  "sample_start_position = projr (newGame sample_lib)"

lemma sample_newGame: "newGame sample_lib = Inr sample_start_position"
  by code_simp

theorem join_pairs_waiting_guest_witness:
  "\<exists>al s' db'. join sample_matchmaking sample_join_env ''u2'' blitz 5000 (sample_waiting_redis, sample_empty) =
      (Inr (\<lparr>qj_duplicate = False, qj_position = 2, qj_since = 5000\<rparr>, EMPTY_EFFECTS\<lparr>fx_allocations := [al]\<rparr>), s', db') \<and>
    reports_match sample_met al \<and> durable_match sample_met db' \<and> in_game ''g'' ''u1'' (view sample_redis s')"
proof -
  let ?at = "jo_attempt sample_join_env" and ?M = sample_matchmaking
  have M: "mk_redis ?M = sample_redis" "mk_scripts ?M = sample_service" "mk_uuids ?M = sample_uuids" "mk_lib ?M = sample_lib"
    "mk_batchSize ?M = 100" "mk_allocations ?M = sample_allocations"
    by (simp_all add: sample_matchmaking_def)
  have at: "at_matchId ?at = ''m''" "at_gameId ?at = ''g''" "at_reservation ?at = sample_reservation_env NoFault"
    by (simp_all add: sample_join_env_def)
  let ?initial = sample_start_position
  note init = sample_newGame
  have calm: "calm_join sample_join_env"
    by (simp add: calm_join_def sample_join_env_def calm_reservation_def sample_reservation_env_def sample_env_def)
  let ?input = "allocation_input sample_allocations True ?initial sample_met 5000 25000"
  let ?env = "wo_allocate (sample_reservation_env NoFault)"
  have input: "?input = allocation_input (mk_allocations ?M) (wo_white (sample_reservation_env NoFault)) ?initial sample_met 5000 25000"
    by (simp add: M sample_reservation_env_def)
  have fresh: "fresh_allocation ?env ?input sample_empty"
    by (simp add: fresh_allocation_def sample_empty_def sample_reservation_env_def sample_env_def)
  have row: "game_range (newGameRow ?env ?input)" "game_check (newGameRow ?env ?input)"
    by code_simp+
  have play: "playable_guest 5000 sample_empty u" if "u \<in> {''u1'', ''u2''}" for u
    using that by (auto simp: playable_guest_def sample_empty_def sample_guests_def find_guest_def find_assignment_def find_row_def)
  have met: "sample_met = \<lparr>rv_a = ''u1'', rv_aScore = 1000, rv_b = ''u2'', rv_bScore = 5000, rv_createdAt = 5000,
     rv_gameId = at_gameId ?at, rv_matchId = at_matchId ?at, rv_mode = blitz\<rparr>"
    by (simp add: sample_met_def at)
  have date: "new_Date (5000 + gas_joinDeadlineMs (mk_allocations ?M)) = Date 25000"
    by (simp add: new_Date_def M sample_allocations_def)
  note join = join_pairs_waiting_guest [of ?M sample_waiting_redis sample_lib sample_uuid sample_empty sample_join_env ?at
    "sample_reservation_env NoFault" "view sample_redis sample_waiting_redis" "''u1''" 1000 5000 "''u2''" sample_met ?initial 25000 ?input]
  show ?thesis
    using join [OF _ _ _ _ sample_reachable(1) calm refl at(3) _ _ _ _ _ _ _ _ _ _ _ _ _ met _ date input fresh row] sample_waiting_view(2)
    by (auto simp: M at sample_redis_ok sample_waiting_typed sample_service_ok sample_waiting_view sample_waiting_free
      sample_uuids_def init play)
qed

end
