(* ===== verification/Game_Adjudication.thy ===== *)
theory Game_Adjudication
  imports Game_Services Game_Endings Matchmaking_Joining
begin

text \<open>
  When the lifecycle service (\<open>game-lifecycle.service.ts\<close>) ends a game that nobody plays on:
  the three adjudications of the repository put together with the presences that Redis
  knows, compared with one condition on the game, its players and the time.
\<close>

section \<open>Which games end\<close>

text \<open>A request whose calls meet no failure and all read the time \<open>t\<close>, with no other request meanwhile.\<close>

definition calm_adjudication :: "int \<Rightarrow> 'r adjudication_env \<Rightarrow> bool" where
  "calm_adjudication t env \<longleftrightarrow> ad_others env = (\<lambda>_ w. w) \<and> ad_presenceA env = redis_up \<and> ad_presenceB env = redis_up \<and> ad_now env = t \<and>
     (\<forall>tx \<in> {ad_noShow env, ad_timeout env, ad_grace env, ad_abandonment env}. te_fault tx = NoFault \<and> te_observedAt tx = t)"

text \<open>
  The condition under which a game is over at \<open>t\<close>, where \<open>here\<close> tells which guests are
  connected: nobody came in time, the clock of the side to move has run out, or the grace
  period of an absent player has run out while nobody else is absent without having been
  reported as disconnected.
\<close>

definition over_at :: "int \<Rightarrow> (string \<Rightarrow> bool) \<Rightarrow> game_row \<Rightarrow> player_row list \<Rightarrow> bool" where
  "over_at t here g ps \<longleftrightarrow>
     g_status g = ''WAITING_FOR_PLAYERS'' \<and> (case g_join_deadline_at g of None \<Rightarrow> False | Some d \<Rightarrow> d \<le> t) \<or>
     clock_text (g_status g) \<and>
       (case g_turn_started_at g of None \<Rightarrow> False
        | Some s \<Rightarrow> s + (if g_turn_color g = ''w'' then g_white_clock_ms g else g_black_clock_ms g) \<le> t) \<or>
     g_status g = ''RECONNECTING'' \<and> (\<exists>p \<in> set ps. graceExpired t p \<and> \<not> here (p_guest_session_id p)) \<and>
       (\<forall>p \<in> set ps. \<not> here (p_guest_session_id p) \<longrightarrow> p_disconnected_at p \<noteq> None)"

lemma over_at_due:
  assumes "over_at t here g (players_of db (g_id g))"
  shows "dueGame t db g"
  using assms unfolding over_at_def dueGame_def list_ex_iff
  by blast

lemma endable_cong: "te_observedAt a = te_observedAt b \<Longrightarrow> endable a g = endable b g"
  by (simp only: endable_def)

lemma run_quiet:
  assumes "system_ok db" and "work db = Inr (None, db)"
  shows "run NoFault work db = (Inr None, db)"
  using assms by (simp add: run_def system_ok_def db_ok_def)

lemma quiet_calls:
  assumes sys: "system_ok db" and g: "find_game db gid = Some g" and can: "endable tx g" and ok: "te_fault tx = NoFault"
  shows "g_status g \<noteq> ''WAITING_FOR_PLAYERS'' \<or> g_join_deadline_at g = None \<Longrightarrow> adjudicateNoShow tx gid db = (Inr None, db)"
    "\<not> clock_text (g_status g) \<Longrightarrow> adjudicateTimeout tx gid db = (Inr None, db)"
proof -
  obtain locked where lock: "lockGameClock tx gid db = Inr (Some locked, db)" and status: "lk_status locked = g_status g"
    by (rule endable_lock [OF sys g can])
  note eq = withLockedGame_eq [OF g lock]
  show "adjudicateNoShow tx gid db = (Inr None, db)" if "g_status g \<noteq> ''WAITING_FOR_PLAYERS'' \<or> g_join_deadline_at g = None"
    unfolding adjudicateNoShow_def ok using that status
    by (intro run_quiet [OF sys]) (auto simp: adjudicateNoShow_body_def eq ret_def)
  show "adjudicateTimeout tx gid db = (Inr None, db)" if "\<not> clock_text (g_status g)"
  proof -
    have "timeoutLoser locked = None" using that status by (simp add: timeoutLoser_def clock_text_def)
    then show ?thesis unfolding adjudicateTimeout_def ok
      by (intro run_quiet [OF sys]) (simp add: adjudicateTimeout_body_def eq)
  qed
qed

lemma clock_columns:
  assumes "game_check g" and "clock_text (g_status g)"
  obtains color s where "g_turn_color g = color_text color" "g_turn_started_at g = Some s"
    "moverClock g color = (if g_turn_color g = ''w'' then g_white_clock_ms g else g_black_clock_ms g)"
proof -
  obtain s where s: "g_turn_started_at g = Some s" using assms by (rule game_check_clock)
  from assms(1) consider "g_turn_color g = ''w''" | "g_turn_color g = ''b''" by (auto simp: game_check_def)
  then show thesis
  proof cases
    case 1
    with s show thesis by (intro that [of White]) (simp_all add: moverClock_def)
  next
    case 2
    with s show thesis by (intro that [of Black]) (simp_all add: moverClock_def)
  qed
qed

section \<open>The grace periods\<close>

lemma present_pruned: "present t u (pruned t v w) = present t u w"
  by (cases "u = v") (simp_all add: present_def pruned_def)

lemma absentGuests_calm:
  assumes calm: "calm_adjudication t env" and R: "redis_ok (gl_redis S)" "typed (gl_redis S) s"
  obtains s' where "absentGuests S env (a, b) (s, db) =
      (Some (filter (\<lambda>u. \<not> present t u (view (gl_redis S) s)) [a, b]), s', db)"
    "typed (gl_redis S) s'"
proof -
  let ?R = "gl_redis S"
  obtain s1 where s1: "isPresent ?R redis_up a t s = (Inr (present t a (view ?R s)), s1)" "typed ?R s1"
    "view ?R s1 = pruned t a (view ?R s)"
    by (rule isPresent_view [OF R])
  obtain s2 where s2: "isPresent ?R redis_up b t s1 = (Inr (present t b (view ?R s1)), s2)" "typed ?R s2"
    by (rule isPresent_view [OF R(1) s1(2)])
  show thesis
    using that s1 s2 calm by (auto simp: absentGuests_def calm_adjudication_def on_redis_def present_pruned)
qed

lemma findGraceState_calm:
  assumes sys: "system_ok db" and g: "find_game db gid = Some g" and tx: "te_fault tx = NoFault"
    and ps: "players_of db gid = [p, q]"
  shows "findGraceState tx gid db =
    Inr (if g_status g \<noteq> ''RECONNECTING'' \<or> filter (graceExpired (te_observedAt tx)) [p, q] = [] then None
         else Some \<lparr>gr_dueGuestSessionIds = map p_guest_session_id (filter (graceExpired (te_observedAt tx)) [p, q]),
                gr_guestSessionIds = (p_guest_session_id p, p_guest_session_id q)\<rparr>)"
proof -
  have "commit_ok db" using sys by (simp add: system_ok_def db_ok_def)
  then show ?thesis
    using g ps tx by (auto simp: findGraceState_def run_def findGame_def guestTuple_def Let_def fetch_def)
qed


lemma absent_by_presence:
  assumes "players_of db gid = [p, q]" and "x \<in> set (players_of db gid)"
  shows "absentAmong (filter (\<lambda>u. \<not> here u) [p_guest_session_id p, p_guest_session_id q]) x \<longleftrightarrow>
    \<not> here (p_guest_session_id x)"
  using assms(2) unfolding assms(1) by (auto simp: absentAmong_def)

text \<open>What adjudicating a game gives: it is ended and announced once, or nothing happens.\<close>

definition settled ::
    "bool \<Rightarrow> string \<Rightarrow> game_row \<Rightarrow> db \<Rightarrow>
     (thrown + TerminalSubmission option) \<times> delivery list \<times> 'r world \<Rightarrow> bool" where
  "settled due gid g db result \<longleftrightarrow>
     (if due then \<exists>sub out w. result = (Inr (Some sub), [deliver_ended sub], w) \<and> game_ended gid g out sub db (snd w)
      else \<exists>s. result = (Inr None, [], (s, db)))"

lemma settled_ended_by:
  assumes "game_ended gid g out sub db db'" and "ad_others env = (\<lambda>_ w. w)"
  shows "settled True gid g db (ended_by S env sub (s, db'))"
  using assms by (auto simp: settled_def ended_by_def completeTerminal_def touch_redis_def game_ended_def)

lemma calm_simps:
  assumes "calm_adjudication t env"
  shows "ad_others env = (\<lambda>_ w. w)"
    and "te_fault (ad_noShow env) = NoFault" "te_fault (ad_timeout env) = NoFault" "te_fault (ad_grace env) = NoFault"
      "te_fault (ad_abandonment env) = NoFault"
    and "te_observedAt (ad_noShow env) = t" "te_observedAt (ad_timeout env) = t" "te_observedAt (ad_grace env) = t"
      "te_observedAt (ad_abandonment env) = t"
  using assms by (simp_all add: calm_adjudication_def)

lemma calm_endable:
  assumes "calm_adjudication t env" and "endable (ad_noShow env) g"
  shows "endable (ad_timeout env) g" and "endable (ad_abandonment env) g"
  using assms(2) endable_cong [of "ad_noShow env" "ad_timeout env" g]
    endable_cong [of "ad_noShow env" "ad_abandonment env" g] calm_simps [OF assms(1)] by simp_all

definition grace_over :: "int \<Rightarrow> (string \<Rightarrow> bool) \<Rightarrow> game_row \<Rightarrow> player_row list \<Rightarrow> bool" where
  "grace_over t here g ps \<longleftrightarrow>
     g_status g = ''RECONNECTING'' \<and> (\<exists>p \<in> set ps. graceExpired t p \<and> \<not> here (p_guest_session_id p)) \<and>
       (\<forall>p \<in> set ps. \<not> here (p_guest_session_id p) \<longrightarrow> p_disconnected_at p \<noteq> None)"

lemma grace_settles:
  assumes reach: "reachable lib uuidv4 db" and g: "find_game db gid = Some g" and calm: "calm_adjudication t env"
    and can: "endable (ad_noShow env) g" and R: "redis_ok (gl_redis S)" "typed (gl_redis S) s"
  shows "settled (grace_over t (\<lambda>u. present t u (view (gl_redis S) s)) g (players_of db gid)) gid g db
    (adjudicateGrace S env gid (s, db))"
proof -
  note sys = reachable_system [OF reach] and calmly = calm_simps [OF calm]
  let ?here = "\<lambda>u. present t u (view (gl_redis S) s)" and ?ps = "players_of db gid"
  obtain p q where ps: "?ps = [p, q]" using system_ok_game(1) [OF sys g] by (rule game_inv_two)
  let ?ids = "(p_guest_session_id p, p_guest_session_id q)" and ?due = "filter (graceExpired t) [p, q]"
  let ?absent = "filter (\<lambda>u. \<not> ?here u) [p_guest_session_id p, p_guest_session_id q]"
  note found = findGraceState_calm [OF sys g calmly(4) ps, unfolded calmly]
  show ?thesis
  proof (cases "g_status g \<noteq> ''RECONNECTING'' \<or> ?due = []")
    case True
    then have "\<not> grace_over t ?here g ?ps"
      unfolding grace_over_def ps by (auto simp: filter_empty_conv split: if_splits)
    moreover have "adjudicateGrace S env gid (s, db) = (Inr None, [], (s, db))"
      using found True unfolding adjudicateGrace_def by (simp only: snd_conv if_True sum.case option.case)
    ultimately show ?thesis by (simp add: settled_def)
  next
    case False
    obtain s' where absent: "absentGuests S env ?ids (s, db) = (Some ?absent, s', db)"
      by (rule absentGuests_calm [OF calm R])
    have grace: "adjudicateGrace S env gid (s, db) =
      (if \<not> list_ex (\<lambda>guest. guest \<in> set ?absent) (map p_guest_session_id ?due) then (Inr None, [], s', db)
       else (case on_db (adjudicateAbandonment (ad_abandonment env) gid ?absent) (s', db) of
               (Inl e, w2) \<Rightarrow> (Inl e, [], w2)
             | (Inr None, w2) \<Rightarrow> (Inr None, [], w2)
             | (Inr (Some submission), w2) \<Rightarrow> ended_by S env submission w2))"
      using found False absent unfolding adjudicateGrace_def calmly
      by (simp only: snd_conv if_False sum.case option.case GraceState.simps prod.case)
    let ?found = "\<exists>x \<in> set ?ps. absentAmong ?absent x \<and> graceExpired t x"
      and ?known = "\<forall>x \<in> set ?ps. absentAmong ?absent x \<longrightarrow> p_disconnected_at x \<noteq> None"
    note who = absent_by_presence [OF ps, of _ ?here]
    have over: "grace_over t ?here g ?ps = (?found \<and> ?known)"
      using False who by (auto simp: grace_over_def simp del: set_players_of)
    have listed: "list_ex (\<lambda>guest. guest \<in> set ?absent) (map p_guest_session_id ?due) = ?found"
      unfolding ps by (auto simp: list_ex_iff absentAmong_def)
    from False have status: "g_status g = ''RECONNECTING''" by simp
    note decides = abandonment_decides [OF reach g status calm_endable(2) [OF calm can] calmly(5), of ?absent,
        unfolded calmly]
    show ?thesis
    proof (cases "?found \<and> ?known")
      case True
      with decides obtain sub db' out where
        "adjudicateAbandonment (ad_abandonment env) gid ?absent db = (Inr (Some sub), db')" "game_ended gid g out sub db db'"
        unfolding if_P [OF True] by blast
      then show ?thesis
        using True unfolding grace over listed by (simp add: on_db_def settled_ended_by [OF _ calmly(1)])
    next
      case no: False
      then have "adjudicateAbandonment (ad_abandonment env) gid ?absent db = (Inr None, db)"
        using decides unfolding if_not_P [OF no] by simp
      then show ?thesis
        unfolding grace over listed using no by (simp add: on_db_def settled_def)
    qed
  qed
qed


text \<open>The three ways in which a game that nobody ends is over, as the status decides among them.\<close>

lemma over_at_status:
  "g_status g = ''WAITING_FOR_PLAYERS'' \<Longrightarrow> over_at t here g ps =
     (case g_join_deadline_at g of None \<Rightarrow> False | Some d \<Rightarrow> d \<le> t)"
  "clock_text (g_status g) \<Longrightarrow> g_turn_started_at g = Some s \<Longrightarrow> over_at t here g ps =
     (s + (if g_turn_color g = ''w'' then g_white_clock_ms g else g_black_clock_ms g) \<le> t \<or> grace_over t here g ps)"
  "g_status g \<noteq> ''WAITING_FOR_PLAYERS'' \<Longrightarrow> \<not> clock_text (g_status g) \<Longrightarrow> \<not> over_at t here g ps"
  "\<not> clock_text (g_status g) \<Longrightarrow> \<not> grace_over t here g ps"
  by (auto simp: over_at_def grace_over_def clock_text_def simp del: split_paired_Ex)

lemma adjudicateGame_settles:
  assumes reach: "reachable lib uuidv4 db" and g: "find_game db gid = Some g" and calm: "calm_adjudication t env"
    and can: "endable (ad_noShow env) g" and R: "redis_ok (gl_redis S)" "typed (gl_redis S) s"
  shows "settled (over_at t (\<lambda>u. present t u (view (gl_redis S) s)) g (players_of db gid)) gid g db
    (adjudicateGame S env gid (s, db))"
proof -
  note sys = reachable_system [OF reach] and calmly = calm_simps [OF calm]
  let ?here = "\<lambda>u. present t u (view (gl_redis S) s)" and ?ps = "players_of db gid"
  let ?rest = "case on_db (adjudicateTimeout (ad_timeout env) gid) (s, db) of
      (Inl e, w2) \<Rightarrow> (Inl e, [], w2)
    | (Inr (Some expired), w2) \<Rightarrow> ended_by S env expired w2
    | (Inr None, w2) \<Rightarrow> adjudicateGrace S env gid w2"
  have later: "adjudicateGame S env gid (s, db) = ?rest"
    if "adjudicateNoShow (ad_noShow env) gid db = (Inr None, db)"
    using that unfolding adjudicateGame_def on_db_def calmly(1) by simp
  note grace = grace_settles [OF assms]
  note quiet = quiet_calls [OF sys g]
  consider (waiting) "g_status g = ''WAITING_FOR_PLAYERS''" | (clock) "clock_text (g_status g)"
    | (other) "g_status g \<noteq> ''WAITING_FOR_PLAYERS''" "\<not> clock_text (g_status g)" by blast
  then show ?thesis
  proof cases
    case waiting
    then have noclock: "\<not> clock_text (g_status g)" by (simp add: clock_text_def)
    then have rest: "settled False gid g db ?rest"
      using grace over_at_status(4) quiet(2) [OF calm_endable(1) [OF calm can] calmly(3)]
      by (simp add: on_db_def)
    show ?thesis
    proof (cases "g_join_deadline_at g")
      case None
      with waiting rest later [OF quiet(1) [OF can calmly(2)]] show ?thesis by (simp add: over_at_status(1))
    next
      case (Some d)
      note decides = no_show_decides [OF reach g waiting Some can calmly(2), unfolded calmly]
      show ?thesis
      proof (cases "d \<le> t")
        case True
        with decides obtain sub db' out where
          "adjudicateNoShow (ad_noShow env) gid db = (Inr (Some sub), db')" "game_ended gid g out sub db db'" by auto
        with True Some waiting show ?thesis
          by (simp add: adjudicateGame_def on_db_def over_at_status(1) settled_ended_by [OF _ calmly(1)])
      next
        case False
        with decides rest later Some waiting show ?thesis by (simp add: over_at_status(1))
      qed
    qed
  next
    case clock
    then have first: "adjudicateNoShow (ad_noShow env) gid db = (Inr None, db)"
      by (intro quiet(1) [OF can calmly(2)]) (auto simp: clock_text_def)
    obtain color s0 where turn: "g_turn_color g = color_text color" "g_turn_started_at g = Some s0"
      and mover: "moverClock g color = (if g_turn_color g = ''w'' then g_white_clock_ms g else g_black_clock_ms g)"
      by (rule clock_columns [OF system_ok_game(2) [OF sys g] clock])
    note over = over_at_status(2) [OF clock turn(2), folded mover]
    note decides = timeout_decides [OF reach g clock turn calm_endable(1) [OF calm can] calmly(3), unfolded calmly]
    show ?thesis
    proof (cases "s0 + moverClock g color \<le> t")
      case True
      with decides obtain sub db' where
        "adjudicateTimeout (ad_timeout env) gid db = (Inr (Some sub), db')"
        "game_ended gid g (winnerOutcome (oppositeColor color) COMPLETED timeout) sub db db'" by auto
      with True show ?thesis
        unfolding over later [OF first] by (simp add: on_db_def settled_ended_by [OF _ calmly(1)])
    next
      case False
      with decides grace show ?thesis unfolding over later [OF first] by (simp add: on_db_def)
    qed
  next
    case other
    have "adjudicateNoShow (ad_noShow env) gid db = (Inr None, db)"
      by (rule quiet(1) [OF can calmly(2)]) (simp add: other)
    note later [OF this]
    then show ?thesis
      using grace other over_at_status(3,4) quiet(2) [OF calm_endable(1) [OF calm can] calmly(3)]
      by (simp add: on_db_def)
  qed
qed


text \<open>
  C15. Adjudicating a game decides it by its deadlines. If no call fails, every call reads the
  time \<open>t\<close> and no other request comes in between, then a stored game whose join deadline,
  clock or grace period is over at \<open>t\<close> (with the connections Redis knows) is ended and the end
  is delivered exactly once; every other game, finished games included, is left as it is and
  nothing is delivered. A game that is ended in this way is one that the query of the deadline
  sweep selects.
\<close>

theorem adjudicateGame_ends_due_games:
  assumes "reachable lib uuidv4 db" and "find_game db gid = Some g" and "calm_adjudication t env"
    and "endable (ad_noShow env) g" and "redis_ok (gl_redis S)" and "typed (gl_redis S) s"
  defines "due \<equiv> over_at t (\<lambda>u. present t u (view (gl_redis S) s)) g (players_of db gid)"
  shows "(if due
     then \<exists>sub out w. adjudicateGame S env gid (s, db) = (Inr (Some sub), [deliver_ended sub], w) \<and>
            game_ended gid g out sub db (snd w)
     else \<exists>s'. adjudicateGame S env gid (s, db) = (Inr None, [], (s', db))) \<and>
    (due \<longrightarrow> dueGame t db g)"
proof
  show "if due
     then \<exists>sub out w. adjudicateGame S env gid (s, db) = (Inr (Some sub), [deliver_ended sub], w) \<and>
            game_ended gid g out sub db (snd w)
     else \<exists>s'. adjudicateGame S env gid (s, db) = (Inr None, [], (s', db))"
    using adjudicateGame_settles [OF assms(1-6)] unfolding settled_def due_def .
  show "due \<longrightarrow> dueGame t db g"
    unfolding due_def using over_at_due [of t _ g db] find_gameD [OF assms(2)] by blast
qed

definition sample_services :: "(string list, sample_state) game_services" where
  "sample_services = \<lparr>gl_lib = sample_lib, gl_redis = sample_redis,
     gl_json = \<lparr>js_stringify = (\<lambda>_. ''null''), js_parse = (\<lambda>text. if text = ''null'' then Some JNull else None)\<rparr>,
     gl_uuidv4 = sample_uuid, gl_ephemeral = \<lparr>es_snapshotTtlMs = 60000, es_stateTtlMs = 3600000\<rparr>,
     gl_graceMs = 60000, gl_jobBatchSize = 100\<rparr>"

definition sample_adjudication :: "sample_state adjudication_env" where
  "sample_adjudication = \<lparr>ad_others = (\<lambda>_ w. w), ad_noShow = sample_env 70000 sample_moved,
     ad_timeout = sample_env 70000 sample_moved, ad_grace = sample_env 70000 sample_moved, ad_presenceA = redis_up,
     ad_presenceB = redis_up, ad_now = 70000, ad_abandonment = sample_env 70000 sample_moved,
     ad_redis = \<lparr>tf_others = (\<lambda>_ s. s), tf_pipe = pipe_done, tf_clearA = redis_up, tf_clearB = redis_up\<rparr>\<rparr>"

definition sample_one_here :: sample_state where
  "sample_one_here = rd_zadd sample_redis (presenceKey ''u1'') 90000 ''s1'' sample_redis_empty"

theorem adjudicateGame_ends_due_games_witness:
  "\<exists>sub out w. adjudicateGame sample_services sample_adjudication ''g'' (sample_one_here, sample_reconnecting) =
     (Inr (Some sub), [deliver_ended sub], w) \<and>
     game_ended ''g'' sample_reconnecting_game out sub sample_reconnecting (snd w)"
proof -
  have g: "find_game sample_reconnecting ''g'' = Some sample_reconnecting_game"
    "endable (ad_noShow sample_adjudication) sample_reconnecting_game"
    by code_simp+
  have calm: "calm_adjudication 70000 sample_adjudication"
    by (simp add: calm_adjudication_def sample_adjudication_def sample_env_def)
  have R: "gl_redis sample_services = sample_redis" by (simp add: sample_services_def)
  have typed: "typed sample_redis sample_one_here"
    unfolding sample_one_here_def by (simp add: view_simps typed_empty sample_redis_ok)
  have due: "over_at 70000 (\<lambda>u. present 70000 u (view sample_redis sample_one_here)) sample_reconnecting_game
      (players_of sample_reconnecting ''g'')"
    by code_simp
  show ?thesis
    using adjudicateGame_ends_due_games [OF sample_reconnecting_reachable g(1) calm g(2), of sample_services sample_one_here]
      sample_redis_ok typed due by (simp add: R)
qed

end
