(* ===== verification/Deadline_Service.thy ===== *)
theory Deadline_Service
  imports Lifecycle_Repository
begin

text \<open>
  The timers of \<open>src/src/modules/game/game-deadline.service.ts\<close>. Its methods are
  asynchronous: each runs up to its next call of the lifecycle service and goes on
  when the call is answered. The calls that wait for their answer are the list
  \<open>gd_work\<close>, the timers that Node will still fire the list \<open>gd_armed\<close>; a step
  of the event loop is a method that starts, a timer that fires or an answer, in any
  order. The answers are arbitrary, so that the results hold whatever the database and
  the other instances of the server do.
\<close>

section \<open>State\<close>

definition MAX_TIMER_DELAY_MS :: int where
  "MAX_TIMER_DELAY_MS = 2147483647"

record timer =
  tm_id :: nat
  tm_gameId :: string
  tm_generation :: nat
  tm_delay :: int

text \<open>
  Who waits for the end of a call: nobody (\<open>void\<close>), or the sweep, which goes on with the
  games that are left.
\<close>

datatype caller = Alone | Sweep (left_over: "string list")

datatype work =
    FindingDeadline (wk_gameId: string) (wk_generation: nat) int (wk_caller: caller)
  | Adjudicating (wk_gameId: string) (wk_caller: caller)
  | FindingDue
  | FindingSchedulable

record GameDeadlineService =
  gd_generations :: "string \<rightharpoonup> nat"
  gd_timers :: "string \<rightharpoonup> timer"
  gd_runningSweep :: bool
  gd_sweepTimer :: bool
  gd_armed :: "timer list"
  gd_work :: "work list"
  gd_nextTimer :: nat

definition initial_deadlines :: GameDeadlineService where
  "initial_deadlines =
     \<lparr>gd_generations = Map.empty, gd_timers = Map.empty, gd_runningSweep = False, gd_sweepTimer = False,
      gd_armed = [], gd_work = [], gd_nextTimer = 0\<rparr>"

section \<open>Methods\<close>

definition clearTimeout :: "timer \<Rightarrow> GameDeadlineService \<Rightarrow> GameDeadlineService" where
  "clearTimeout t st = st\<lparr>gd_armed := filter (\<lambda>u. tm_id u \<noteq> tm_id t) (gd_armed st)\<rparr>"

definition clearTimer :: "string \<Rightarrow> GameDeadlineService \<Rightarrow> GameDeadlineService" where
  "clearTimer gameId st =
     (case gd_timers st gameId of
        None \<Rightarrow> st
      | Some timer \<Rightarrow> (clearTimeout timer st)\<lparr>gd_timers := (gd_timers st)(gameId := None)\<rparr>)"

definition generation_of :: "string \<Rightarrow> GameDeadlineService \<Rightarrow> nat" where
  "generation_of gameId st = (case gd_generations st gameId of None \<Rightarrow> 0 | Some n \<Rightarrow> n)"

definition await :: "work \<Rightarrow> GameDeadlineService \<Rightarrow> GameDeadlineService" where
  "await w st = st\<lparr>gd_work := gd_work st @ [w]\<rparr>"

text \<open>\<open>scheduleGame\<close> up to its call of \<open>findDeadline\<close>.\<close>

definition scheduleGame :: "string \<Rightarrow> int \<Rightarrow> caller \<Rightarrow> GameDeadlineService \<Rightarrow> GameDeadlineService" where
  "scheduleGame gameId minimumDelayMs caller st =
     (let generation = generation_of gameId st + 1;
          st1 = clearTimer gameId (st\<lparr>gd_generations := (gd_generations st)(gameId \<mapsto> generation)\<rparr>) in
      await (FindingDeadline gameId generation minimumDelayMs caller) st1)"

definition cancel :: "string \<Rightarrow> GameDeadlineService \<Rightarrow> GameDeadlineService" where
  "cancel gameId st =
     clearTimer gameId (st\<lparr>gd_generations := (gd_generations st)(gameId \<mapsto> generation_of gameId st + 1)\<rparr>)"

text \<open>
  Node takes a delay that is not a number as one millisecond, and so does it with a
  delay above the maximum.
\<close>

definition timer_delay :: "int \<Rightarrow> jsdate \<Rightarrow> int \<Rightarrow> int" where
  "timer_delay minimumDelayMs deadline now =
     (case deadline of
        InvalidDate \<Rightarrow> 1
      | Date d \<Rightarrow> min MAX_TIMER_DELAY_MS (max minimumDelayMs (d - now)))"

definition setTimeout :: "string \<Rightarrow> nat \<Rightarrow> int \<Rightarrow> GameDeadlineService \<Rightarrow> GameDeadlineService" where
  "setTimeout gameId generation delay st =
     (let timer = \<lparr>tm_id = gd_nextTimer st, tm_gameId = gameId, tm_generation = generation, tm_delay = delay\<rparr> in
      st\<lparr>gd_armed := gd_armed st @ [timer], gd_timers := (gd_timers st)(gameId \<mapsto> timer),
         gd_nextTimer := gd_nextTimer st + 1\<rparr>)"

text \<open>The sweep after one of its games: the next game, or the end of the loop.\<close>

fun proceed :: "caller \<Rightarrow> GameDeadlineService \<Rightarrow> GameDeadlineService" where
  "proceed Alone st = st"
| "proceed (Sweep []) st = st\<lparr>gd_runningSweep := False\<rparr>"
| "proceed (Sweep (gameId # gameIds)) st = await (Adjudicating gameId (Sweep gameIds)) st"

text \<open>\<open>scheduleGame\<close> from the answer of \<open>findDeadline\<close> on.\<close>

definition deadline_found ::
    "thrown + DeadlineState option \<Rightarrow> int \<Rightarrow> string \<Rightarrow> nat \<Rightarrow> int \<Rightarrow> caller \<Rightarrow> GameDeadlineService \<Rightarrow> GameDeadlineService" where
  "deadline_found answer now gameId generation minimumDelayMs caller st =
     proceed caller
       (case answer of
          Inl _ \<Rightarrow> st
        | Inr None \<Rightarrow> st
        | Inr (Some state) \<Rightarrow>
            if gd_generations st gameId \<noteq> Some generation then st
            else setTimeout gameId generation (timer_delay minimumDelayMs (ds_deadline state) now) st)"

text \<open>\<open>adjudicateAndReschedule\<close> from the answer of \<open>adjudicateGame\<close> on.\<close>

definition adjudicated ::
    "int \<Rightarrow> thrown + TerminalSubmission option \<Rightarrow> string \<Rightarrow> caller \<Rightarrow> GameDeadlineService \<Rightarrow> GameDeadlineService" where
  "adjudicated intervalMs answer gameId caller st =
     (case answer of
        Inr (Some _) \<Rightarrow> proceed caller (cancel gameId st)
      | _ \<Rightarrow> scheduleGame gameId intervalMs caller st)"

definition runSweep :: "GameDeadlineService \<Rightarrow> GameDeadlineService" where
  "runSweep st = (if gd_runningSweep st then st else await FindingDue (st\<lparr>gd_runningSweep := True\<rparr>))"

definition due_found :: "thrown + string list \<Rightarrow> GameDeadlineService \<Rightarrow> GameDeadlineService" where
  "due_found answer st =
     (case answer of
        Inl _ \<Rightarrow> st\<lparr>gd_runningSweep := False\<rparr>
      | Inr gameIds \<Rightarrow> proceed (Sweep gameIds) st)"

definition schedulable_found :: "thrown + string list \<Rightarrow> GameDeadlineService \<Rightarrow> GameDeadlineService" where
  "schedulable_found answer st =
     (case answer of
        Inl _ \<Rightarrow> st
      | Inr gameIds \<Rightarrow> fold (\<lambda>gameId. scheduleGame gameId 0 Alone) gameIds st)"

definition fire :: "timer \<Rightarrow> GameDeadlineService \<Rightarrow> GameDeadlineService" where
  "fire timer st =
     (if gd_generations st (tm_gameId timer) \<noteq> Some (tm_generation timer) then st
      else await (Adjudicating (tm_gameId timer) Alone)
        (st\<lparr>gd_timers := (gd_timers st)(tm_gameId timer := None)\<rparr>))"

definition onApplicationBootstrap :: "GameDeadlineService \<Rightarrow> GameDeadlineService" where
  "onApplicationBootstrap st = await FindingSchedulable (st\<lparr>gd_sweepTimer := True\<rparr>)"

definition onApplicationShutdown :: "GameDeadlineService \<Rightarrow> GameDeadlineService" where
  "onApplicationShutdown st =
     st\<lparr>gd_sweepTimer := False, gd_timers := Map.empty,
        gd_armed := filter (\<lambda>u.
          case gd_timers st (tm_gameId u) of None \<Rightarrow> True | Some v \<Rightarrow> tm_id v \<noteq> tm_id u) (gd_armed st)\<rparr>"

section \<open>Steps of the event loop\<close>

text \<open>
  A step is labelled with the sweep it moves on: \<open>True\<close> if it answers a call that the
  sweep waits for.
\<close>

inductive deadline_step :: "int \<Rightarrow> bool \<Rightarrow> GameDeadlineService \<Rightarrow> GameDeadlineService \<Rightarrow> bool" for intervalMs where
  scheduled: "deadline_step intervalMs False st (scheduleGame gameId 0 Alone st)"
| cancelled: "deadline_step intervalMs False st (cancel gameId st)"
| ticked: "gd_sweepTimer st \<Longrightarrow> deadline_step intervalMs False st (runSweep st)"
| fired: "gd_armed st = ts @ t # us \<Longrightarrow> deadline_step intervalMs False st (fire t (st\<lparr>gd_armed := ts @ us\<rparr>))"
| booted: "deadline_step intervalMs False st (onApplicationBootstrap st)"
| stopped: "deadline_step intervalMs False st (onApplicationShutdown st)"
| deadline: "gd_work st = vs @ FindingDeadline gameId generation minimumDelayMs caller # ws \<Longrightarrow>
    deadline_step intervalMs (caller \<noteq> Alone) st
      (deadline_found answer now gameId generation minimumDelayMs caller (st\<lparr>gd_work := vs @ ws\<rparr>))"
| adjudication: "gd_work st = vs @ Adjudicating gameId caller # ws \<Longrightarrow>
    deadline_step intervalMs (caller \<noteq> Alone) st
      (adjudicated intervalMs answer gameId caller (st\<lparr>gd_work := vs @ ws\<rparr>))"
| due: "gd_work st = vs @ FindingDue # ws \<Longrightarrow>
    deadline_step intervalMs True st (due_found answer (st\<lparr>gd_work := vs @ ws\<rparr>))"
| schedulable: "gd_work st = vs @ FindingSchedulable # ws \<Longrightarrow>
    deadline_step intervalMs False st (schedulable_found answer (st\<lparr>gd_work := vs @ ws\<rparr>))"

inductive deadlines :: "int \<Rightarrow> GameDeadlineService \<Rightarrow> bool" for intervalMs where
  start: "deadlines intervalMs initial_deadlines"
| step: "deadlines intervalMs st \<Longrightarrow> deadline_step intervalMs label st st' \<Longrightarrow> deadlines intervalMs st'"

section \<open>The invariant\<close>

text \<open>
  The armed timers are exactly those in \<open>gd_timers\<close> and carry the current generation
  of their game; a scheduling that waits with the current generation has no timer to
  replace; the sweep waits for one call while it runs.
\<close>

definition timers_ok :: "GameDeadlineService \<Rightarrow> bool" where
  "timers_ok st \<longleftrightarrow>
     distinct (map tm_id (gd_armed st)) \<and> (\<forall>t \<in> set (gd_armed st). tm_id t < gd_nextTimer st) \<and>
     (\<forall>t \<in> set (gd_armed st). gd_timers st (tm_gameId t) = Some t) \<and>
     (\<forall>g t. gd_timers st g = Some t \<longrightarrow> t \<in> set (gd_armed st) \<and> tm_gameId t = g \<and> gd_generations st g = Some (tm_generation t))"

fun scheduling :: "work \<Rightarrow> (string \<times> nat) list" where
  "scheduling (FindingDeadline g n m c) = [(g, n)]"
| "scheduling _ = []"

definition schedulings :: "GameDeadlineService \<Rightarrow> (string \<times> nat) list" where
  "schedulings st = concat (map scheduling (gd_work st))"

definition schedulings_ok :: "GameDeadlineService \<Rightarrow> bool" where
  "schedulings_ok st \<longleftrightarrow> distinct (schedulings st) \<and>
     (\<forall>(g, n) \<in> set (schedulings st). n \<le> generation_of g st \<and> (n = generation_of g st \<longrightarrow> gd_timers st g = None))"

fun sweeping :: "work \<Rightarrow> bool" where
  "sweeping (FindingDeadline g n m c) \<longleftrightarrow> c \<noteq> Alone"
| "sweeping (Adjudicating g c) \<longleftrightarrow> c \<noteq> Alone"
| "sweeping FindingDue \<longleftrightarrow> True"
| "sweeping FindingSchedulable \<longleftrightarrow> False"

definition delays_ok :: "GameDeadlineService \<Rightarrow> bool" where
  "delays_ok st \<longleftrightarrow> (\<forall>t \<in> set (gd_armed st). 0 \<le> tm_delay t \<and> tm_delay t \<le> MAX_TIMER_DELAY_MS) \<and>
     (\<forall>g n m c. FindingDeadline g n m c \<in> set (gd_work st) \<longrightarrow> 0 \<le> m)"

text \<open>Raising the generation of a game and clearing its timer.\<close>

definition renewed :: "string \<Rightarrow> GameDeadlineService \<Rightarrow> GameDeadlineService" where
  "renewed gameId st = clearTimer gameId (st\<lparr>gd_generations := (gd_generations st)(gameId \<mapsto> generation_of gameId st + 1)\<rparr>)"

lemma renewed_fields [simp]:
  "gd_work (renewed g st) = gd_work st" "gd_runningSweep (renewed g st) = gd_runningSweep st"
  "gd_sweepTimer (renewed g st) = gd_sweepTimer st" "gd_nextTimer (renewed g st) = gd_nextTimer st"
  "gd_generations (renewed g st) = (gd_generations st)(g \<mapsto> generation_of g st + 1)"
  "gd_timers (renewed g st) = (gd_timers st)(g := None)"
  "schedulings (renewed g st) = schedulings st" "set (gd_armed (renewed g st)) \<subseteq> set (gd_armed st)"
  by (auto simp: renewed_def clearTimer_def clearTimeout_def schedulings_def split: option.splits)

lemma generation_of_simps [simp]:
  "generation_of h (renewed g st) = (if h = g then generation_of g st + 1 else generation_of h st)"
  by (simp add: generation_of_def)

lemma renewed_armed: "timers_ok st \<Longrightarrow> gd_armed (renewed g st) = filter (\<lambda>t. tm_gameId t \<noteq> g) (gd_armed st)"
proof -
  assume ok: "timers_ok st"
  have "filter (\<lambda>u. tm_id u \<noteq> tm_id t) (gd_armed st) = filter (\<lambda>t. tm_gameId t \<noteq> g) (gd_armed st)" if "gd_timers st g = Some t" for t
  proof (rule filter_cong [OF refl])
    fix u assume u: "u \<in> set (gd_armed st)"
    from ok that have t: "t \<in> set (gd_armed st)" "tm_gameId t = g" by (auto simp: timers_ok_def)
    show "tm_id u \<noteq> tm_id t \<longleftrightarrow> tm_gameId u \<noteq> g"
      using ok u t that unfolding timers_ok_def by (metis distinct_map inj_onD option.inject)
  qed
  moreover have "filter (\<lambda>t. tm_gameId t \<noteq> g) (gd_armed st) = gd_armed st" if "gd_timers st g = None"
    using ok that by (auto simp: timers_ok_def filter_id_conv)
  ultimately show ?thesis by (auto simp: renewed_def clearTimer_def clearTimeout_def split: option.splits)
qed

lemma renewed_timers_ok: "timers_ok st \<Longrightarrow> timers_ok (renewed g st)"
  using renewed_armed [of st g] by (auto simp: timers_ok_def distinct_map inj_on_def split: if_splits)

lemma renewed_schedulings_ok: "schedulings_ok st \<Longrightarrow> schedulings_ok (renewed g st)"
  by (fastforce simp: schedulings_ok_def)

lemma scheduleGame_renewed: "scheduleGame g m c st = await (FindingDeadline g (generation_of g st + 1) m c) (renewed g st)"
  by (simp add: scheduleGame_def renewed_def Let_def)

lemma cancel_renewed: "cancel g st = renewed g st"
  by (simp add: cancel_def renewed_def)

definition deadlines_ok :: "GameDeadlineService \<Rightarrow> bool" where
  "deadlines_ok st \<longleftrightarrow> timers_ok st \<and> schedulings_ok st \<and> delays_ok st"

lemma renewed_ok: "deadlines_ok st \<Longrightarrow> deadlines_ok (renewed g st)"
  using renewed_timers_ok [of st g] renewed_schedulings_ok [of st g]
  by (auto simp: deadlines_ok_def delays_ok_def dest!: subsetD [OF renewed_fields(8)])

lemma await_fields [simp]:
  "gd_armed (await w st) = gd_armed st" "gd_timers (await w st) = gd_timers st"
  "gd_generations (await w st) = gd_generations st" "gd_nextTimer (await w st) = gd_nextTimer st"
  "gd_work (await w st) = gd_work st @ [w]" "gd_runningSweep (await w st) = gd_runningSweep st"
  "schedulings (await w st) = schedulings st @ scheduling w" "generation_of g (await w st) = generation_of g st"
  by (simp_all add: await_def schedulings_def generation_of_def)

lemma await_ok: "deadlines_ok st \<Longrightarrow> scheduling w = [] \<Longrightarrow> deadlines_ok (await w st)"
  by (cases w) (auto simp: deadlines_ok_def timers_ok_def schedulings_ok_def delays_ok_def)

lemma scheduleGame_ok: "deadlines_ok st \<Longrightarrow> 0 \<le> m \<Longrightarrow> deadlines_ok (scheduleGame g m c st)"
proof -
  assume ok: "deadlines_ok st" and m: "0 \<le> m"
  have "deadlines_ok (renewed g st)" using ok by (rule renewed_ok)
  moreover have "(g, generation_of g st + 1) \<notin> set (schedulings st)" using ok by (fastforce simp: deadlines_ok_def schedulings_ok_def)
  ultimately show ?thesis using m
    unfolding scheduleGame_renewed by (auto simp: deadlines_ok_def timers_ok_def schedulings_ok_def delays_ok_def)
qed

text \<open>Taking an answered call off the list, and setting the timer it asked for.\<close>

lemma answered_ok:
  assumes "deadlines_ok st" and "gd_work st = vs @ w # ws"
  shows "deadlines_ok (st\<lparr>gd_work := vs @ ws\<rparr>)"
  using assms by (auto simp: deadlines_ok_def timers_ok_def schedulings_ok_def delays_ok_def schedulings_def generation_of_def)

lemma timer_delay_bounds: "0 \<le> m \<Longrightarrow> 0 \<le> timer_delay m d now \<and> timer_delay m d now \<le> MAX_TIMER_DELAY_MS"
  by (auto simp: timer_delay_def MAX_TIMER_DELAY_MS_def split: jsdate.splits)

lemma setTimeout_ok:
  assumes ok: "deadlines_ok st" and gen: "gd_generations st g = Some n" and free: "gd_timers st g = None"
    and new: "(g, n) \<notin> set (schedulings st)" and delay: "0 \<le> d \<and> d \<le> MAX_TIMER_DELAY_MS"
  shows "deadlines_ok (setTimeout g n d st)"
proof -
  have other: "\<forall>t \<in> set (gd_armed st). tm_gameId t \<noteq> g" using ok free by (auto simp: deadlines_ok_def timers_ok_def)
  have fresh: "gd_nextTimer st \<notin> tm_id ` set (gd_armed st)" using ok by (fastforce simp: deadlines_ok_def timers_ok_def)
  have now: "generation_of g st = n" using gen by (simp add: generation_of_def)
  have same: "schedulings (setTimeout g n d st) = schedulings st" "generation_of h (setTimeout g n d st) = generation_of h st" for h
    by (simp_all add: setTimeout_def schedulings_def generation_of_def Let_def)
  have "timers_ok (setTimeout g n d st)"
    using ok gen other fresh free by (auto simp: deadlines_ok_def timers_ok_def setTimeout_def Let_def less_Suc_eq)
  moreover have "schedulings_ok (setTimeout g n d st)"
    using ok new now unfolding deadlines_ok_def schedulings_ok_def same by (auto simp: setTimeout_def Let_def)
  moreover have "delays_ok (setTimeout g n d st)"
    using ok delay by (auto simp: deadlines_ok_def delays_ok_def setTimeout_def Let_def)
  ultimately show ?thesis by (simp add: deadlines_ok_def)
qed

lemma proceed_ok: "deadlines_ok st \<Longrightarrow> deadlines_ok (proceed c st)"
proof (cases c)
  case (Sweep gs)
  assume ok: "deadlines_ok st"
  then have "deadlines_ok (st\<lparr>gd_runningSweep := False\<rparr>)"
    by (auto simp: deadlines_ok_def timers_ok_def schedulings_ok_def delays_ok_def schedulings_def generation_of_def)
  with ok Sweep await_ok show ?thesis by (cases gs) auto
qed simp

lemma deadline_found_ok:
  assumes ok: "deadlines_ok st" and work: "gd_work st = vs @ FindingDeadline g n m c # ws"
  shows "deadlines_ok (deadline_found answer now g n m c (st\<lparr>gd_work := vs @ ws\<rparr>))"
proof -
  let ?st = "st\<lparr>gd_work := vs @ ws\<rparr>"
  have ok': "deadlines_ok ?st" by (rule answered_ok [OF ok work])
  have new: "(g, n) \<notin> set (schedulings ?st)" and m: "0 \<le> m"
    and free: "generation_of g st = n \<Longrightarrow> gd_timers st g = None"
    using ok work by (auto simp: deadlines_ok_def schedulings_ok_def schedulings_def delays_ok_def)
  have "deadlines_ok (setTimeout g n (timer_delay m d now) ?st)" if "gd_generations st g = Some n" for d
    using setTimeout_ok [OF ok' _ _ new timer_delay_bounds [OF m]] that free by (simp add: generation_of_def)
  then show ?thesis
    unfolding deadline_found_def using ok'
    by (intro proceed_ok) (auto split: sum.splits option.splits)
qed

lemma fire_ok:
  assumes ok: "deadlines_ok st" and armed: "gd_armed st = ts @ t # us"
  shows "deadlines_ok (fire t (st\<lparr>gd_armed := ts @ us\<rparr>))"
proof -
  have t: "gd_timers st (tm_gameId t) = Some t" and gen: "gd_generations st (tm_gameId t) = Some (tm_generation t)"
    using ok armed by (auto simp: deadlines_ok_def timers_ok_def)
  have d: "tm_id t \<notin> tm_id ` set (ts @ us)" "\<forall>u \<in> set (ts @ us). gd_timers st (tm_gameId u) = Some u"
    using ok armed by (auto simp: deadlines_ok_def timers_ok_def)
  have others: "\<forall>u \<in> set (ts @ us). tm_gameId u \<noteq> tm_gameId t"
  proof
    fix u assume u: "u \<in> set (ts @ us)"
    then have "tm_id u \<noteq> tm_id t" "gd_timers st (tm_gameId u) = Some u" using d by (metis imageI, blast)
    with t show "tm_gameId u \<noteq> tm_gameId t" by auto
  qed
  let ?st = "st\<lparr>gd_armed := ts @ us, gd_timers := (gd_timers st)(tm_gameId t := None)\<rparr>"
  have kept: "distinct (map tm_id (ts @ us))" "\<forall>u \<in> set (ts @ us). tm_id u < gd_nextTimer st"
    "\<forall>g u. gd_timers st g = Some u \<longrightarrow> u \<in> set (ts @ t # us) \<and> tm_gameId u = g \<and> gd_generations st g = Some (tm_generation u)"
    using ok unfolding deadlines_ok_def timers_ok_def armed by auto
  have "timers_ok ?st"
    unfolding timers_ok_def using kept others d(2) by (simp split: if_splits) metis
  moreover have same: "schedulings ?st = schedulings st" "generation_of h ?st = generation_of h st" for h
    by (simp_all add: schedulings_def generation_of_def)
  have "schedulings_ok ?st"
    using ok unfolding deadlines_ok_def schedulings_ok_def same by auto
  moreover have "delays_ok ?st" using ok armed by (auto simp: deadlines_ok_def delays_ok_def)
  ultimately have "deadlines_ok ?st" by (simp add: deadlines_ok_def)
  with gen show ?thesis by (simp add: fire_def await_ok)
qed

lemma shutdown_ok: "deadlines_ok st \<Longrightarrow> deadlines_ok (onApplicationShutdown st)"
proof -
  assume ok: "deadlines_ok st"
  then have "gd_armed (onApplicationShutdown st) = []"
    by (auto simp: onApplicationShutdown_def filter_empty_conv deadlines_ok_def timers_ok_def)
  with ok show ?thesis
    by (auto simp: onApplicationShutdown_def deadlines_ok_def timers_ok_def schedulings_ok_def delays_ok_def
      schedulings_def generation_of_def)
qed

lemma sweep_flags_ok: "deadlines_ok st \<Longrightarrow> deadlines_ok (st\<lparr>gd_runningSweep := b\<rparr>) \<and> deadlines_ok (st\<lparr>gd_sweepTimer := b\<rparr>)"
  by (auto simp: deadlines_ok_def timers_ok_def schedulings_ok_def delays_ok_def schedulings_def generation_of_def)

lemma schedule_all_ok: "deadlines_ok st \<Longrightarrow> deadlines_ok (fold (\<lambda>g. scheduleGame g 0 Alone) gs st)"
  by (induction gs arbitrary: st) (simp_all add: scheduleGame_ok)

lemma deadline_step_ok:
  assumes "deadline_step intervalMs label st st'" and "0 \<le> intervalMs" and ok: "deadlines_ok st"
  shows "deadlines_ok st'"
  using assms(1)
proof cases
  case (deadline vs g n m c ws answer now)
  with ok show ?thesis by (simp add: deadline_found_ok)
next
  case (adjudication vs g c ws answer)
  then show ?thesis
    using assms(2) answered_ok [OF ok adjudication(3)]
    by (auto simp: adjudicated_def cancel_renewed intro!: scheduleGame_ok proceed_ok renewed_ok split: sum.split option.split)
next
  case (due vs ws answer)
  then show ?thesis
    using answered_ok [OF ok due(3)] sweep_flags_ok by (auto simp: due_found_def intro!: proceed_ok split: sum.split)
next
  case (schedulable vs ws answer)
  then show ?thesis
    using answered_ok [OF ok schedulable(3)] by (auto simp: schedulable_found_def intro!: schedule_all_ok split: sum.split)
next
  case (fired ts t us)
  with ok show ?thesis by (simp add: fire_ok)
qed (use ok sweep_flags_ok in \<open>auto simp: scheduleGame_ok cancel_renewed renewed_ok runSweep_def onApplicationBootstrap_def
    shutdown_ok await_ok\<close>)

section \<open>The sweep\<close>

text \<open>How many answers the sweep still waits for, at most, once the due games are known.\<close>

fun sweep_left :: "work \<Rightarrow> nat" where
  "sweep_left (FindingDeadline g n m (Sweep gs)) = 2 * length gs + 1"
| "sweep_left (Adjudicating g (Sweep gs)) = 2 * length gs + 2"
| "sweep_left _ = 0"

definition answers_left :: "GameDeadlineService \<Rightarrow> nat" where
  "answers_left st = sum_list (map sweep_left (gd_work st))"

lemma answers_left_simps [simp]:
  "answers_left (await w st) = answers_left st + sweep_left w" "answers_left (renewed g st) = answers_left st"
  "answers_left (st\<lparr>gd_runningSweep := b\<rparr>) = answers_left st" "answers_left (st\<lparr>gd_armed := ts\<rparr>) = answers_left st"
  "answers_left (st\<lparr>gd_timers := tm\<rparr>) = answers_left st" "answers_left (st\<lparr>gd_sweepTimer := b\<rparr>) = answers_left st"
  "answers_left (setTimeout g n d st) = answers_left st"
  by (simp_all add: answers_left_def await_def setTimeout_def Let_def)

lemma not_sweeping_left: "\<not> sweeping w \<Longrightarrow> sweep_left w = 0"
proof (cases w)
  case (FindingDeadline g n m c)
  then show "\<not> sweeping w \<Longrightarrow> sweep_left w = 0" by (cases c) auto
next
  case (Adjudicating g c)
  then show "\<not> sweeping w \<Longrightarrow> sweep_left w = 0" by (cases c) auto
qed auto

definition sweeps :: "GameDeadlineService \<Rightarrow> nat" where
  "sweeps st = length (filter sweeping (gd_work st))"

lemma sweeps_simps [simp]:
  "sweeps (await w st) = sweeps st + of_bool (sweeping w)" "sweeps (renewed g st) = sweeps st"
  "sweeps (st\<lparr>gd_runningSweep := b\<rparr>) = sweeps st" "sweeps (st\<lparr>gd_armed := ts\<rparr>) = sweeps st"
  "sweeps (st\<lparr>gd_timers := tm\<rparr>) = sweeps st" "sweeps (st\<lparr>gd_sweepTimer := b\<rparr>) = sweeps st"
  "sweeps (setTimeout g n d st) = sweeps st"
  by (simp_all add: sweeps_def await_def setTimeout_def Let_def)

lemma running_simps [simp]:
  "gd_runningSweep (setTimeout g n d st) = gd_runningSweep st" "gd_runningSweep (scheduleGame g m c st) = gd_runningSweep st"
  "gd_runningSweep (fire t st) = gd_runningSweep st"
  by (simp_all add: setTimeout_def Let_def scheduleGame_renewed fire_def)

lemma schedule_all_sweep:
  "sweeps (fold (\<lambda>g. scheduleGame g 0 Alone) gs st) = sweeps st"
  "answers_left (fold (\<lambda>g. scheduleGame g 0 Alone) gs st) = answers_left st"
  "gd_runningSweep (fold (\<lambda>g. scheduleGame g 0 Alone) gs st) = gd_runningSweep st"
  by (induction gs arbitrary: st) (simp_all add: scheduleGame_renewed)

text \<open>The sweep goes on with one call fewer to wait for, or ends.\<close>

lemma proceed_sweep:
  assumes "gd_runningSweep st" and "sweeps st = 0"
  shows "sweeps (proceed (Sweep gs) st) = of_bool (gd_runningSweep (proceed (Sweep gs) st))"
    "answers_left (proceed (Sweep gs) st) = answers_left st + 2 * length gs"
  using assms by (cases gs; simp)+

lemma of_bool_eq_Suc: "of_bool b = Suc n \<longleftrightarrow> b \<and> n = 0"
  by (cases b) auto

lemma sweeps_answered:
  assumes "gd_work st = vs @ w # ws"
  shows "sweeps st = sweeps (st\<lparr>gd_work := vs @ ws\<rparr>) + of_bool (sweeping w)"
    "answers_left st = answers_left (st\<lparr>gd_work := vs @ ws\<rparr>) + sweep_left w"
  using assms by (simp_all add: sweeps_def answers_left_def)

definition sweep_moves :: "bool \<Rightarrow> GameDeadlineService \<Rightarrow> GameDeadlineService \<Rightarrow> bool" where
  "sweep_moves label st st' \<longleftrightarrow> sweeps st' = of_bool (gd_runningSweep st') \<and>
     (gd_runningSweep st \<and> FindingDue \<notin> set (gd_work st) \<longrightarrow> answers_left st' + of_bool label \<le> answers_left st)"

lemma deadline_step_sweep:
  assumes step: "deadline_step intervalMs label st st'" and one: "sweeps st = of_bool (gd_runningSweep st)"
  shows "sweep_moves label st st'"
  using step
proof cases
  case (deadline vs g n m c ws answer now)
  let ?st = "st\<lparr>gd_work := vs @ ws\<rparr>"
  define st1 where "st1 = (case answer of Inl _ \<Rightarrow> ?st | Inr None \<Rightarrow> ?st
    | Inr (Some state) \<Rightarrow> if gd_generations ?st g \<noteq> Some n then ?st else setTimeout g n (timer_delay m (ds_deadline state) now) ?st)"
  have st1: "sweeps st1 = sweeps ?st" "answers_left st1 = answers_left ?st" "gd_runningSweep st1 = gd_runningSweep st"
    by (auto simp: st1_def split: sum.split option.split)
  have "st' = proceed c st1" using deadline by (simp add: deadline_found_def st1_def)
  with st1 one sweeps_answered [OF deadline(3)] deadline(1) proceed_sweep [of st1] show ?thesis
    by (cases c) (auto simp: sweep_moves_def of_bool_eq_Suc)
next
  case (adjudication vs g c ws answer)
  let ?st = "st\<lparr>gd_work := vs @ ws\<rparr>"
  show ?thesis
  proof (cases c)
    case Alone
    with adjudication sweeps_answered [OF adjudication(3)] one show ?thesis
      by (auto simp: sweep_moves_def adjudicated_def scheduleGame_renewed cancel_renewed split: sum.split option.split)
  next
    case (Sweep gs)
    with sweeps_answered [OF adjudication(3)] one have run: "gd_runningSweep st" "sweeps ?st = 0" by (auto simp: of_bool_eq_Suc)
    with proceed_sweep [of "renewed g ?st" gs] adjudication Sweep sweeps_answered [OF adjudication(3)] show ?thesis
      by (auto simp: sweep_moves_def adjudicated_def scheduleGame_renewed cancel_renewed split: sum.split option.split)
  qed
next
  case (due vs ws answer)
  let ?st = "st\<lparr>gd_work := vs @ ws\<rparr>"
  from sweeps_answered [OF due(3)] one have run: "gd_runningSweep st" "sweeps ?st = 0" by (auto simp: of_bool_eq_Suc)
  with proceed_sweep [of ?st] due show ?thesis
    by (auto simp: sweep_moves_def due_found_def split: sum.split)
next
  case (schedulable vs ws answer)
  with one sweeps_answered [OF schedulable(3)] schedule_all_sweep show ?thesis
    by (auto simp: sweep_moves_def schedulable_found_def split: sum.split)
qed (use one in \<open>auto simp: sweep_moves_def scheduleGame_renewed cancel_renewed runSweep_def fire_def onApplicationBootstrap_def
    onApplicationShutdown_def\<close>)

lemma proceed_no_due: "FindingDue \<notin> set (gd_work st) \<Longrightarrow> FindingDue \<notin> set (gd_work (proceed c st))"
  by (cases "(c, st)" rule: proceed.cases) auto

lemma setTimeout_work [simp]: "gd_work (setTimeout g n d st) = gd_work st"
  by (simp add: setTimeout_def Let_def)

lemma deadline_step_no_due:
  assumes "deadline_step intervalMs label st st'" and "gd_runningSweep st" and "FindingDue \<notin> set (gd_work st)"
  shows "FindingDue \<notin> set (gd_work st')"
proof -
  have all: "FindingDue \<notin> set (gd_work (fold (\<lambda>g. scheduleGame g 0 Alone) gs st0))" if "FindingDue \<notin> set (gd_work st0)" for gs st0
    using that by (induction gs arbitrary: st0) (auto simp: scheduleGame_renewed)
  show ?thesis
    using assms
    by (cases rule: deadline_step.cases)
      (auto simp: scheduleGame_renewed cancel_renewed runSweep_def fire_def onApplicationBootstrap_def onApplicationShutdown_def
        deadline_found_def adjudicated_def due_found_def schedulable_found_def intro!: proceed_no_due all
        split: sum.splits option.splits if_splits)
qed

text \<open>A part of a run during which the sweep is on, with the number of answers it got.\<close>

inductive sweeping_run :: "int \<Rightarrow> nat \<Rightarrow> GameDeadlineService \<Rightarrow> GameDeadlineService \<Rightarrow> bool" for intervalMs where
  none: "gd_runningSweep st \<Longrightarrow> sweeping_run intervalMs 0 st st"
| more: "sweeping_run intervalMs k st st1 \<Longrightarrow> deadline_step intervalMs label st1 st2 \<Longrightarrow> gd_runningSweep st2 \<Longrightarrow>
    sweeping_run intervalMs (k + of_bool label) st st2"

lemma sweeping_run_answers:
  assumes "sweeping_run intervalMs k st st'" and "sweeps st = 1" and "FindingDue \<notin> set (gd_work st)"
  shows "k + answers_left st' \<le> answers_left st \<and> gd_runningSweep st' \<and> sweeps st' = 1 \<and> FindingDue \<notin> set (gd_work st')"
  using assms
proof (induction rule: sweeping_run.induct)
  case (more k st st1 label st2)
  then have m: "sweep_moves label st1 st2" "gd_runningSweep st1" "FindingDue \<notin> set (gd_work st1)"
    by (auto intro!: deadline_step_sweep)
  moreover have "FindingDue \<notin> set (gd_work st2)"
    by (rule deadline_step_no_due [OF more(2) m(2,3)])
  ultimately show ?case using more by (auto simp: sweep_moves_def)
qed simp

lemma deadlines_inv:
  assumes "deadlines intervalMs st" and "0 \<le> intervalMs"
  shows "deadlines_ok st \<and> sweeps st = of_bool (gd_runningSweep st)"
  using assms
proof (induction rule: deadlines.induct)
  case start
  show ?case
    by (simp add: initial_deadlines_def deadlines_ok_def timers_ok_def schedulings_ok_def delays_ok_def schedulings_def sweeps_def)
next
  case (step st label st')
  then show ?case
    using deadline_step_ok [OF step(2) assms(2)] deadline_step_sweep [OF step(2)] by (simp add: sweep_moves_def)
qed

lemma running_answers_left:
  assumes "sweeps st = 1" and "FindingDue \<notin> set (gd_work st)"
  shows "0 < answers_left st"
proof -
  from assms(1) have "filter sweeping (gd_work st) \<noteq> []" by (auto simp: sweeps_def)
  then obtain w where w: "w \<in> set (gd_work st)" "sweeping w" by (auto simp: filter_empty_conv)
  with assms(2) have "0 < sweep_left w" by (cases w rule: sweep_left.cases) auto
  with w(1) show ?thesis by (auto simp: answers_left_def intro: gr0I)
qed

section \<open>Properties\<close>

text \<open>The server starts, loads one game to watch and sets its timer; the sweep starts and finds the game due.\<close>

definition sample_deadline :: "thrown + DeadlineState option" where
  "sample_deadline = Inr (Some \<lparr>ds_deadline = Date 30000, ds_gameId = ''g''\<rparr>)"

definition sample_loaded :: GameDeadlineService where
  "sample_loaded = schedulable_found (Inr [''g'']) ((onApplicationBootstrap initial_deadlines)\<lparr>gd_work := []\<rparr>)"

definition sample_armed :: GameDeadlineService where
  "sample_armed = deadline_found sample_deadline 1000 ''g'' 1 0 Alone (sample_loaded\<lparr>gd_work := []\<rparr>)"

definition sample_swept :: GameDeadlineService where
  "sample_swept = due_found (Inr [''g'', ''h'']) ((runSweep sample_armed)\<lparr>gd_work := []\<rparr>)"

lemma sample_works:
  "gd_work (onApplicationBootstrap initial_deadlines) = [] @ FindingSchedulable # []"
  "gd_work sample_loaded = [] @ FindingDeadline ''g'' 1 0 Alone # []"
  "gd_work (runSweep sample_armed) = [] @ FindingDue # []" "gd_sweepTimer sample_armed" "\<not> gd_runningSweep sample_armed"
  by code_simp+

lemma sample_deadlines: "deadlines 1000 sample_loaded" "deadlines 1000 sample_armed" "deadlines 1000 (runSweep sample_armed)"
proof -
  have "deadlines 1000 (onApplicationBootstrap initial_deadlines)" by (rule deadlines.step [OF deadlines.start booted])
  then show l: "deadlines 1000 sample_loaded"
    unfolding sample_loaded_def using schedulable [OF sample_works(1)] by (auto intro: deadlines.step)
  then show a: "deadlines 1000 sample_armed"
    unfolding sample_armed_def using deadline [OF sample_works(2)] by (auto intro: deadlines.step)
  from deadlines.step [OF a ticked [OF sample_works(4)]] show "deadlines 1000 (runSweep sample_armed)" .
qed

text \<open>
  C24. At every moment of every interleaving at most one timer is armed per game, every
  armed timer is the one the service holds for its game and carries the current
  generation, and the service holds no timer that is not armed. So no timer leaks,
  and a timer that fires is never out of date.
\<close>

theorem deadline_timers_current:
  assumes "deadlines intervalMs st" and "0 \<le> intervalMs"
  shows "distinct (map tm_gameId (gd_armed st)) \<and>
    (\<forall>t \<in> set (gd_armed st). gd_timers st (tm_gameId t) = Some t \<and> gd_generations st (tm_gameId t) = Some (tm_generation t)) \<and>
    (\<forall>g t. gd_timers st g = Some t \<longrightarrow> t \<in> set (gd_armed st) \<and> tm_gameId t = g)"
proof -
  have ok: "timers_ok st" using deadlines_inv [OF assms] by (simp add: deadlines_ok_def)
  then have "inj_on tm_gameId (set (gd_armed st))" unfolding timers_ok_def inj_on_def by (metis option.inject)
  moreover have "distinct (gd_armed st)" using ok by (auto simp: timers_ok_def distinct_map)
  ultimately show ?thesis using ok by (auto simp: timers_ok_def distinct_map)
qed

theorem deadline_timers_current_witness:
  "\<exists>t. gd_armed sample_armed = [t] \<and> tm_gameId t = ''g'' \<and> gd_timers sample_armed ''g'' = Some t"
proof -
  have g: "map tm_gameId (gd_armed sample_armed) = [''g'']" by code_simp
  then obtain t where t: "gd_armed sample_armed = [t]" "tm_gameId t = ''g''" by (auto simp: map_eq_Cons_conv)
  from deadline_timers_current [OF sample_deadlines(2)] have "gd_timers sample_armed (tm_gameId t) = Some t" by (simp add: t(1))
  with t show ?thesis by simp
qed

text \<open>
  C26. The delay of every armed timer is in the range that \<open>setTimeout\<close> honours, from 0
  to \<open>2147483647\<close> milliseconds. When the deadline of a game is found and no newer
  scheduling has started, a timer is armed that fires at the deadline or after the
  minimum delay, whichever is later, or after the longest possible delay, and then the
  game is scheduled again.
\<close>

theorem armed_delay_bounds:
  assumes "deadlines intervalMs st" and "0 \<le> intervalMs"
    and "gd_work st = vs @ FindingDeadline g n m c # ws" and "ds_deadline state = Date d"
    and "st' = deadline_found (Inr (Some state)) now g n m c (st\<lparr>gd_work := vs @ ws\<rparr>)"
  shows "(\<forall>t \<in> set (gd_armed st'). 0 \<le> tm_delay t \<and> tm_delay t \<le> 2147483647) \<and>
    (gd_generations st g = Some n \<longrightarrow> (\<exists>t \<in> set (gd_armed st'). tm_gameId t = g \<and> tm_generation t = n \<and>
       (tm_delay t = 2147483647 \<or> d \<le> now + tm_delay t \<and> m \<le> tm_delay t \<and> (tm_delay t = m \<or> now + tm_delay t = d))))"
proof -
  have "deadlines_ok st" using deadlines_inv [OF assms(1,2)] by simp
  then have ok: "deadlines_ok st'" using assms(3,5) deadline_found_ok by simp
  have armed: "gd_armed (proceed c x) = gd_armed x" for x by (cases "(c, x)" rule: proceed.cases) auto
  have "\<exists>t \<in> set (gd_armed st'). tm_gameId t = g \<and> tm_generation t = n \<and> tm_delay t = timer_delay m (Date d) now"
    if "gd_generations st g = Some n"
    using that assms(4) by (simp add: assms(5) deadline_found_def armed setTimeout_def Let_def)
  moreover have "timer_delay m (Date d) now = 2147483647 \<or> d \<le> now + timer_delay m (Date d) now \<and> m \<le> timer_delay m (Date d) now \<and>
      (timer_delay m (Date d) now = m \<or> now + timer_delay m (Date d) now = d)"
    by (auto simp: timer_delay_def MAX_TIMER_DELAY_MS_def min_def max_def)
  ultimately show ?thesis using ok by (fastforce simp: deadlines_ok_def delays_ok_def MAX_TIMER_DELAY_MS_def)
qed

theorem armed_delay_bounds_witness:
  "\<exists>t \<in> set (gd_armed sample_armed). tm_gameId t = ''g'' \<and> tm_generation t = 1 \<and>
     (tm_delay t = 2147483647 \<or> 30000 \<le> 1000 + tm_delay t)"
proof -
  have "gd_generations sample_loaded ''g'' = Some 1" by code_simp
  with armed_delay_bounds [OF sample_deadlines(1) _ sample_works(2), of "\<lparr>ds_deadline = Date 30000, ds_gameId = ''g''\<rparr>" 30000
    sample_armed 1000] show ?thesis
    by (auto simp: sample_armed_def sample_deadline_def)
qed

text \<open>
  C25. A sweep ends. Once it knows the due games, it is over at the latest with the
  answer of its last call, and it makes at most two calls per game, whatever the answers
  are and whatever timers, requests and other work come between them.
\<close>

theorem sweep_terminates:
  assumes "deadlines intervalMs st" and "0 \<le> intervalMs" and "gd_work st = vs @ FindingDue # ws"
    and "st1 = due_found (Inr ids) (st\<lparr>gd_work := vs @ ws\<rparr>)" and "sweeping_run intervalMs k st1 st2"
  shows "k < 2 * length ids"
proof -
  let ?st = "st\<lparr>gd_work := vs @ ws\<rparr>"
  have one: "sweeps st = of_bool (gd_runningSweep st)" using deadlines_inv [OF assms(1,2)] by simp
  with sweeps_answered [OF assms(3)] have run: "gd_runningSweep st" and none: "sweeps ?st = 0" by (auto simp: of_bool_eq_Suc)
  have quiet: "\<not> sweeping w" if "w \<in> set (vs @ ws)" for w using none that by (auto simp: sweeps_def filter_empty_conv)
  then have left: "answers_left ?st = 0" by (auto simp: answers_left_def not_sweeping_left)
  have rest: "FindingDue \<notin> set (vs @ ws)" using quiet by force
  have st1: "st1 = proceed (Sweep ids) ?st" using assms(4) by (simp add: due_found_def)
  have on: "gd_runningSweep st1" using assms(5) by (induction rule: sweeping_run.induct)
  with run none have s1: "sweeps st1 = 1" "answers_left st1 = 2 * length ids"
    using proceed_sweep [of ?st ids] left by (simp_all add: st1)
  have "FindingDue \<notin> set (gd_work st1)" unfolding st1 using rest by (intro proceed_no_due) simp
  from sweeping_run_answers [OF assms(5) s1(1) this] have fin: "k + answers_left st2 \<le> 2 * length ids"
    "gd_runningSweep st2" "sweeps st2 = 1" "FindingDue \<notin> set (gd_work st2)" by (simp_all add: s1)
  moreover have "0 < answers_left st2"
    using running_answers_left [OF fin(3,4)] .
  ultimately show ?thesis by simp
qed

theorem sweep_terminates_witness:
  "(\<exists>st2. sweeping_run 1000 1 sample_swept st2 \<and> gd_work st2 = [FindingDeadline ''g'' 2 1000 (Sweep [''h''])]) \<and>
   \<not> (\<exists>st2. sweeping_run 1000 4 sample_swept st2)"
proof
  let ?st2 = "adjudicated 1000 (Inr None) ''g'' (Sweep [''h'']) (sample_swept\<lparr>gd_work := [] @ []\<rparr>)"
  have work: "gd_work sample_swept = [] @ Adjudicating ''g'' (Sweep [''h'']) # []" and on: "gd_runningSweep sample_swept"
    and "gd_runningSweep ?st2" "gd_work ?st2 = [FindingDeadline ''g'' 2 1000 (Sweep [''h''])]"
    by code_simp+
  then show "\<exists>st2. sweeping_run 1000 1 sample_swept st2 \<and> gd_work st2 = [FindingDeadline ''g'' 2 1000 (Sweep [''h''])]"
    using more [OF none [OF on] adjudication [OF work, of 1000 "Inr None"]] by auto
  show "\<not> (\<exists>st2. sweeping_run 1000 4 sample_swept st2)"
    using sweep_terminates [OF sample_deadlines(3) _ sample_works(3), of sample_swept "[''g'', ''h'']" 4]
    by (auto simp: sample_swept_def)
qed

end
