(* ===== verification/Wire_Properties.thy ===== *)
theory Wire_Properties
  imports Game_Services Game_Endings
begin

text \<open>
  The rows of a reachable database can always be mapped to the records of the domain, their
  clock can be shown, and the payload that \<open>GameSnapshotPresenter\<close> builds of them is compared
  with the zod schema \<open>gameSnapshotPayloadSchema\<close>.
\<close>

section \<open>Rows of a reachable database can be read\<close>

lemma map_sum_list_Inr: "(\<And>x. x \<in> set xs \<Longrightarrow> f x = Inr (h x)) \<Longrightarrow> map_sum_list f xs = Inr (map h xs)"
  by (induction xs) auto

lemma color_game_text: "color_game (color_text c) = Inr c" "color_game ''w'' = Inr White" "color_game ''b'' = Inr Black"
  by (cases c; simp add: color_game_def)+

lemma isStatus_check:
  assumes "games_status_check g"
  obtains status where "isStatus (g_status g) = Some status" "status_text status = g_status g"
  using assms that by (auto simp: games_status_check_def isStatus_def)

lemma mapGame_check:
  assumes "game_check g"
  obtains r where "mapGame g = Inr r" "status_text (gm_status r) = g_status g" "color_text (gm_turnColor r) = g_turn_color g"
    "gm_currentFen r = g_current_fen g" "gm_initialFen r = g_initial_fen g" "gm_turnStartedAt r = g_turn_started_at g"
    "gm_whiteClockMs r = g_white_clock_ms g" "gm_blackClockMs r = g_black_clock_ms g" "gm_incrementMs r = g_increment_ms g"
    "gm_version r = g_version g"
proof -
  from assms have mode: "g_mode g = ''BLITZ''" and turn: "g_turn_color g \<in> {''w'', ''b''}" and "games_status_check g"
    by (auto simp: game_check_def)
  from this(3) obtain status where status: "isStatus (g_status g) = Some status" "status_text status = g_status g"
    by (rule isStatus_check)
  from turn obtain c where c: "g_turn_color g = color_text c" using color_text.simps by (metis empty_iff insertE)
  show thesis
    by (rule that [of "projr (mapGame g)"]) (simp_all add: mapGame_def mode status c color_game_text)
qed

lemma mapPlayer_check:
  assumes "player_check p"
  obtains r where "mapPlayer (p, guest) = Inr r" "gp_guestSessionId r = p_guest_session_id p"
    "color_text (gp_color r) = p_color p" "gp_avatarKey r = gs_avatar_key guest" "gp_displayName r = gs_display_name guest"
  by (rule that [of "projr (mapPlayer (p, guest))"]) (use assms in \<open>auto simp: mapPlayer_def player_check_def\<close>)


lemma distinct_guests:
  assumes "tables_ok db"
  shows "distinct (map p_guest_session_id (players_of db gid))"
proof -
  have "distinct (map (\<lambda>p. (p_game_id p, p_guest_session_id p)) (players db))"
    using assms by (simp add: tables_ok_def players_ok_def)
  then have "inj_on (\<lambda>p. (p_game_id p, p_guest_session_id p)) (set (players db))" and "distinct (players db)"
    by (simp_all add: distinct_map)
  then have "inj_on p_guest_session_id (set (players_of db gid))" and "distinct (players_of db gid)"
    by (auto simp: inj_on_def players_of_def)
  then show ?thesis by (simp add: distinct_map)
qed

lemma player_guest:
  assumes "tables_ok db" and "p \<in> set (players_of db gid)"
  obtains guest where "find_guest db (p_guest_session_id p) = Some guest"
proof -
  have "p_guest_session_id p \<in> guest_ids db" using assms by (auto simp: tables_ok_def players_ok_def)
  then have "find_guest db (p_guest_session_id p) \<noteq> None" by (simp add: find_guest_None_iff)
  then show thesis using that by auto
qed

lemma allocation_reads:
  assumes sys: "system_ok db" and g: "find_game db gid = Some g"
  obtains r a b p q where "mapAllocation (loadAllocation db g) = Inr \<lparr>al_game = r, al_players = (a, b)\<rparr>"
    "mapGame g = Inr r" "players_of db gid = [p, q]"
    "mapPlayer (p, the (find_guest db (p_guest_session_id p))) = Inr a"
    "mapPlayer (q, the (find_guest db (p_guest_session_id q))) = Inr b"
    "p_guest_session_id p \<noteq> p_guest_session_id q" "player_check p" "player_check q"
proof -
  note ok = system_ok_tables [OF sys] and facts = system_ok_game [OF sys g]
  obtain p q where ps: "players_of db gid = [p, q]" using facts(1) by (rule game_inv_two)
  obtain gp where gp: "find_guest db (p_guest_session_id p) = Some gp" using player_guest [OF ok, of p gid] ps by auto
  obtain gq where gq: "find_guest db (p_guest_session_id q) = Some gq" using player_guest [OF ok, of q gid] ps by auto
  have check: "player_check p" "player_check q" using players_of_ids(2) [OF ok, of gid] by (simp_all add: ps del: set_players_of)
  obtain a where a: "mapPlayer (p, gp) = Inr a" by (rule mapPlayer_check [OF check(1)])
  obtain b where b: "mapPlayer (q, gq) = Inr b" by (rule mapPlayer_check [OF check(2)])
  obtain r where r: "mapGame g = Inr r" by (rule mapGame_check [OF facts(2)])
  have "mapAllocation (loadAllocation db g) = Inr \<lparr>al_game = r, al_players = (a, b)\<rparr>"
    using facts(4) by (simp add: mapAllocation_def loadAllocation_def ps gp gq a b r List.map_filter_simps)
  then show thesis
    by (rule that [OF _ r ps]) (use a b gp gq check distinct_guests [OF ok, of gid] in \<open>simp_all add: ps\<close>)
qed

lemma moves_read:
  assumes sys: "system_ok db" and g: "find_game db gid = Some g"
  obtains vs where "map_sum_list mapMove (moves_of db gid) = Inr vs" "map gv_ply vs = map m_ply (moves_of db gid)"
    "map gv_san vs = map m_san (moves_of db gid)" "map gv_uci vs = map m_uci (moves_of db gid)"
proof -
  have "map m_color (moves_of db gid) = map turn_text [0..<length (moves_of db gid)]"
    using system_ok_game(1) [OF sys g] by (simp add: game_inv_def history_inv_def)
  then have "set (map m_color (moves_of db gid)) \<subseteq> {''w'', ''b''}" by (auto simp: turn_text_def)
  then have "m_color m \<in> {''w'', ''b''}" if "m \<in> set (moves_of db gid)" for m
    using that by auto
  then have "mapMove m = Inr (projr (mapMove m)) \<and> gv_ply (projr (mapMove m)) = m_ply m \<and>
      gv_san (projr (mapMove m)) = m_san m \<and> gv_uci (projr (mapMove m)) = m_uci m" if "m \<in> set (moves_of db gid)" for m
    using that by (auto simp: mapMove_def color_game_def simp del: set_players_of)
  then show thesis by (intro that [OF map_sum_list_Inr]) auto
qed

section \<open>The clock of a snapshot\<close>

lemma snapshot_clock:
  assumes check: "game_check g" "game_range g" and r: "mapGame g = Inr r" and t: "time_value t"
    and started: "\<forall>s. g_turn_started_at g = Some s \<longrightarrow> time_value s"
  obtains v where "clockViewAt (snapshotClock r) (Date t) = Inr v" "view_observedAt v = Date t"
    "0 \<le> view_whiteMs v" "view_whiteMs v \<le> g_white_clock_ms g" "0 \<le> view_blackMs v" "view_blackMs v \<le> g_black_clock_ms g"
proof -
  note stored = stored_durations [OF check]
  from mapGame_check [OF check(1)] r obtain status: "status_text (gm_status r) = g_status g"
    and rows: "gm_turnStartedAt r = g_turn_started_at g" "gm_whiteClockMs r = g_white_clock_ms g"
      "gm_blackClockMs r = g_black_clock_ms g" "gm_incrementMs r = g_increment_ms g"
    by (metis (no_types, lifting) sum.inject(2))
  have clock: "clock_text (g_status g) \<longleftrightarrow> gm_status r = IN_PROGRESS \<or> gm_status r = RECONNECTING"
    using status by (cases "gm_status r") (auto simp: clock_text_def)
  show thesis
  proof (cases "clock_text (g_status g)")
    case True
    then obtain s where s: "g_turn_started_at g = Some s" by (rule game_check_clock [OF check(1)])
    then have "clock_runs (snapshotClock r) (gm_turnColor r) s"
      using True clock started stored
      by (simp add: clock_runs_def clock_wf_def snapshotClock_def rows)
    from clockViewAt_runs [OF this, of t] show thesis
      using that stored t
      by (cases "gm_turnColor r") (simp_all add: Let_def withRemaining_def snapshotClock_def rows remainingFor_def duration_def)
  next
    case False
    with clock have stopped: "snapshotClock r = \<lparr>blackMs = g_black_clock_ms g, incrementMs = g_increment_ms g,
        running = None, turnStartedAt = None, whiteMs = g_white_clock_ms g\<rparr>"
      by (simp add: snapshotClock_def rows)
    then have "clock_wf (snapshotClock r)" using stored by (simp add: clock_wf_def)
    with stopped show thesis
      using that stored t by (simp add: clockViewAt_def assertTimestamp_def duration_def)
  qed
qed


section \<open>The payload and its schema\<close>

lemmas schema_defs = zstrict_def req_def opt_def zstring_def zint_def zboolean_def zarray_def znullable_def zenum_def

lemma wireColor_schema [simp]: "wireColorSchema (JStr (wireColor c))"
  by (simp add: wireColorSchema_def zenum_def wireColor_def)

lemma publicPlayer_schema:
  "publicPlayerSchema (publicPlayer r) \<longleftrightarrow> sized 1 128 (gp_avatarKey r) \<and> sized 1 128 (gp_displayName r)"
  by (simp add: publicPlayerSchema_def publicPlayer_def schema_defs)

lemma wireMove_schema:
  "wireMoveSchema (wireMove v) \<longleftrightarrow> isSafeInteger (gv_ply v) \<and> 0 < gv_ply v \<and> sized 1 32 (gv_san v) \<and> sized 4 5 (gv_uci v)"
  by (simp add: wireMoveSchema_def wireMove_def schema_defs positiveInt_def)

lemma wireClocks_schema:
  assumes "view_observedAt v = Date t"
  shows "clocksSchema (wireClocks v) \<longleftrightarrow>
    duration (view_blackMs v) \<and> duration (view_whiteMs v) \<and> isSafeInteger t \<and> 0 \<le> t"
  using assms
  by (cases "view_running v")
    (auto simp: clocksSchema_def wireClocks_def schema_defs clockMs_def epochMs_def duration_def getTime_json_def nullable_def)

lemma enum_schemas [simp]:
  "gameStatusSchema (JStr (status_text st))" "znullable wireResultSchema (nullable (JStr \<circ> result_text) result)"
  "znullable wireTerminationSchema (nullable (JStr \<circ> termination_text) ending)"
proof -
  show "gameStatusSchema (JStr (status_text st))" by (cases st) (simp_all add: gameStatusSchema_def zenum_def)
  show "znullable wireResultSchema (nullable (JStr \<circ> result_text) result)"
    by (cases result; cases "the result") (simp_all add: wireResultSchema_def znullable_def zenum_def nullable_def)
  have "wireTerminationSchema (JStr (termination_text e))" for e
  proof (cases e)
    case (Board b)
    then show ?thesis by (cases b) (simp_all add: wireTerminationSchema_def zenum_def)
  qed (simp_all add: wireTerminationSchema_def zenum_def)
  then show "znullable wireTerminationSchema (nullable (JStr \<circ> termination_text) ending)"
    by (cases ending) (simp_all add: znullable_def nullable_def)
qed

lemma payload_schema:
  assumes "al_players (sn_allocation sn) = (a, b)" and "gp_guestSessionId a \<noteq> gp_guestSessionId b"
    and "u \<in> {gp_guestSessionId a, gp_guestSessionId b}"
  obtains payload where "present_snapshot sn u = Some payload"
    "field ''status'' payload = JStr (status_text (gm_status (al_game (sn_allocation sn))))"
    "field ''you'' payload = publicPlayer (if u = gp_guestSessionId a then a else b)"
    "gameSnapshotPayloadSchema payload \<longleftrightarrow> clocksSchema (wireClocks (sn_clocks sn)) \<and>
      sized 1 256 (gm_currentFen (al_game (sn_allocation sn))) \<and> sized 1 256 (gm_initialFen (al_game (sn_allocation sn))) \<and>
      (\<forall>v \<in> set (sn_moves sn). wireMoveSchema (wireMove v)) \<and>
      publicPlayerSchema (publicPlayer a) \<and> publicPlayerSchema (publicPlayer b)"
proof (rule that [of "the (present_snapshot sn u)"])
  show "present_snapshot sn u = Some (the (present_snapshot sn u))"
    using assms by (auto simp: present_snapshot_def Let_def)
  show "field ''status'' (the (present_snapshot sn u)) = JStr (status_text (gm_status (al_game (sn_allocation sn))))"
    "field ''you'' (the (present_snapshot sn u)) = publicPlayer (if u = gp_guestSessionId a then a else b)"
    using assms by (auto simp: present_snapshot_def Let_def)
  show "gameSnapshotPayloadSchema (the (present_snapshot sn u)) \<longleftrightarrow> clocksSchema (wireClocks (sn_clocks sn)) \<and>
      sized 1 256 (gm_currentFen (al_game (sn_allocation sn))) \<and> sized 1 256 (gm_initialFen (al_game (sn_allocation sn))) \<and>
      (\<forall>v \<in> set (sn_moves sn). wireMoveSchema (wireMove v)) \<and>
      publicPlayerSchema (publicPlayer a) \<and> publicPlayerSchema (publicPlayer b)"
    using assms
    by (auto simp: present_snapshot_def Let_def gameSnapshotPayloadSchema_def zstrict_def req_def opt_def zstring_def zarray_def list_all_iff)
qed


section \<open>Every snapshot has the type of the protocol\<close>

text \<open>What the schema asks of the texts in a game, in its moves and of its guests.\<close>

definition texts_fit :: "db \<Rightarrow> game_row \<Rightarrow> bool" where
  "texts_fit db g \<longleftrightarrow>
     sized 1 256 (g_current_fen g) \<and> sized 1 256 (g_initial_fen g) \<and>
     list_all (\<lambda>m. sized 1 32 (m_san m) \<and> sized 4 5 (m_uci m)) (moves_of db (g_id g)) \<and>
     list_all (\<lambda>p. case find_guest db (p_guest_session_id p) of None \<Rightarrow> False
       | Some guest \<Rightarrow> sized 1 128 (gs_avatar_key guest) \<and> sized 1 128 (gs_display_name guest)) (players_of db (g_id g))"

lemma moves_schema:
  assumes sys: "system_ok db" and g: "find_game db gid = Some g"
    and vs: "map gv_ply vs = map m_ply (moves_of db gid)" "map gv_san vs = map m_san (moves_of db gid)"
      "map gv_uci vs = map m_uci (moves_of db gid)"
  shows "(\<forall>v \<in> set vs. wireMoveSchema (wireMove v)) \<longleftrightarrow>
    list_all (\<lambda>m. sized 1 32 (m_san m) \<and> sized 4 5 (m_uci m)) (moves_of db gid)"
proof -
  let ?ms = "moves_of db gid"
  have plies: "map m_ply ?ms = map (\<lambda>i. int i + 1) [0..<length ?ms]" and "int (length ?ms) \<le> g_version g"
    using system_ok_game(1) [OF sys g] by (simp_all add: game_inv_def history_inv_def)
  moreover have "g_version g \<le> 2147483647" using system_ok_game(3) [OF sys g] by (simp add: game_range_def int4_def)
  ultimately have "\<forall>n \<in> set (map m_ply ?ms). 0 < n \<and> isSafeInteger n"
    unfolding plies by (auto simp: isSafeInteger_def)
  then have "\<forall>v \<in> set vs. 0 < gv_ply v \<and> isSafeInteger (gv_ply v)"
    unfolding vs(1) [symmetric] by simp
  then have "(\<forall>v \<in> set vs. wireMoveSchema (wireMove v)) \<longleftrightarrow>
      (\<forall>s \<in> set (map gv_san vs). sized 1 32 s) \<and> (\<forall>s \<in> set (map gv_uci vs). sized 4 5 s)"
    by (auto simp: wireMove_schema)
  then show ?thesis unfolding vs by (auto simp: list_all_iff)
qed

lemma snapshot_typed:
  assumes sys: "system_ok db" and g: "find_game db gid = Some g" and ok: "te_fault env = NoFault"
    and t: "0 \<le> te_observedAt env" "time_value (te_observedAt env)"
    and started: "\<forall>s. g_turn_started_at g = Some s \<longrightarrow> time_value s"
    and u: "u \<in> p_guest_session_id ` set (players_of db gid)"
  obtains sn payload where "room_snapshot env gid u db = Inr sn" "present_snapshot sn u = Some payload"
    "field ''status'' payload = JStr (g_status g)" "gm_version (al_game (sn_allocation sn)) = g_version g"
    "gameSnapshotPayloadSchema payload \<longleftrightarrow> texts_fit db g"
proof -
  note facts = system_ok_game [OF sys g]
  obtain r a b p q where al: "mapAllocation (loadAllocation db g) = Inr \<lparr>al_game = r, al_players = (a, b)\<rparr>"
    and r: "mapGame g = Inr r" and ps: "players_of db gid = [p, q]"
    and ab: "mapPlayer (p, the (find_guest db (p_guest_session_id p))) = Inr a"
      "mapPlayer (q, the (find_guest db (p_guest_session_id q))) = Inr b"
    and ne: "p_guest_session_id p \<noteq> p_guest_session_id q" and check: "player_check p" "player_check q"
    by (rule allocation_reads [OF sys g])
  note pq = mapPlayer_check [OF check(1), of "the (find_guest db (p_guest_session_id p))"]
    mapPlayer_check [OF check(2), of "the (find_guest db (p_guest_session_id q))"]
  from pq(1) ab(1) obtain a: "gp_guestSessionId a = p_guest_session_id p"
    "gp_avatarKey a = gs_avatar_key (the (find_guest db (p_guest_session_id p)))"
    "gp_displayName a = gs_display_name (the (find_guest db (p_guest_session_id p)))"
    by (metis (no_types, lifting) sum.inject(2))
  from pq(2) ab(2) obtain b: "gp_guestSessionId b = p_guest_session_id q"
    "gp_avatarKey b = gs_avatar_key (the (find_guest db (p_guest_session_id q)))"
    "gp_displayName b = gs_display_name (the (find_guest db (p_guest_session_id q)))"
    by (metis (no_types, lifting) sum.inject(2))
  obtain vs where vs: "map_sum_list mapMove (moves_of db gid) = Inr vs" "map gv_ply vs = map m_ply (moves_of db gid)"
    "map gv_san vs = map m_san (moves_of db gid)" "map gv_uci vs = map m_uci (moves_of db gid)"
    by (rule moves_read [OF sys g])
  obtain v where v: "clockViewAt (snapshotClock r) (Date (te_observedAt env)) = Inr v"
    "view_observedAt v = Date (te_observedAt env)" "0 \<le> view_whiteMs v" "view_whiteMs v \<le> g_white_clock_ms g"
    "0 \<le> view_blackMs v" "view_blackMs v \<le> g_black_clock_ms g"
    by (rule snapshot_clock [OF facts(2,3) r t(2) started])
  have row: "status_text (gm_status r) = g_status g" "gm_currentFen r = g_current_fen g" "gm_initialFen r = g_initial_fen g"
    "gm_version r = g_version g"
    using mapGame_check [OF facts(2)] r by (metis (no_types, lifting) sum.inject(2))+
  let ?sn = "GameSnapshotRecord.extend
    \<lparr>sn_allocation = \<lparr>al_game = r, al_players = (a, b)\<rparr>, sn_moves = vs, sn_observedAt = te_observedAt env\<rparr> \<lparr>sn_clocks = v\<rparr>"
  have found: "findSnapshot env gid db = Inr (Some
      \<lparr>sn_allocation = \<lparr>al_game = r, al_players = (a, b)\<rparr>, sn_moves = vs, sn_observedAt = te_observedAt env\<rparr>)"
    using sys g ok al vs(1) by (simp add: findSnapshot_def run_def fetch_def mapSnapshot_def system_ok_def db_ok_def)
  have player: "u \<in> {gp_guestSessionId a, gp_guestSessionId b}" using u a b by (auto simp: ps simp del: set_players_of)
  have read: "room_snapshot env gid u db = Inr ?sn"
    using found v(1) player by (auto simp: room_snapshot_def is_member_def)
  obtain payload where payload: "present_snapshot ?sn u = Some payload"
    "field ''status'' payload = JStr (status_text (gm_status r))"
    "gameSnapshotPayloadSchema payload \<longleftrightarrow> clocksSchema (wireClocks v) \<and>
      sized 1 256 (gm_currentFen r) \<and> sized 1 256 (gm_initialFen r) \<and> (\<forall>v \<in> set vs. wireMoveSchema (wireMove v)) \<and>
      publicPlayerSchema (publicPlayer a) \<and> publicPlayerSchema (publicPlayer b)"
    by (rule payload_schema [of ?sn a b u])
      (use a b ne player in \<open>simp_all add: GameSnapshotRecord.extend_def\<close>)
  have "duration (view_whiteMs v)" "duration (view_blackMs v)"
    using v(3-6) facts(3) by (auto simp: duration_def isSafeInteger_def game_range_def int4_def)
  moreover have "isSafeInteger (te_observedAt env)" using t by (simp add: time_value_def isSafeInteger_def)
  ultimately have clocks: "clocksSchema (wireClocks v)" using t(1) by (simp add: wireClocks_schema [OF v(2)])
  obtain gp gq where guests: "find_guest db (p_guest_session_id p) = Some gp" "find_guest db (p_guest_session_id q) = Some gq"
    using player_guest [OF system_ok_tables [OF sys], of _ gid] ps by (metis list.set_intros(1,2))
  have "gameSnapshotPayloadSchema payload \<longleftrightarrow> texts_fit db g"
    unfolding payload(3) moves_schema [OF sys g vs(2-4)] texts_fit_def facts(4)
    by (simp add: clocks row publicPlayer_schema a b guests ps conj_ac)
  with read payload(1,2) show thesis
    by (intro that [of ?sn payload]) (simp_all add: row GameSnapshotRecord.extend_def)
qed

lemma snapshot_refused:
  assumes sys: "system_ok db" and g: "find_game db gid = Some g" and ok: "te_fault env = NoFault"
    and u: "u \<notin> p_guest_session_id ` set (players_of db gid)"
  shows "room_snapshot env gid u db = Inl not_a_player"
proof -
  obtain r a b p q where al: "mapAllocation (loadAllocation db g) = Inr \<lparr>al_game = r, al_players = (a, b)\<rparr>"
    and ps: "players_of db gid = [p, q]"
    and ab: "mapPlayer (p, the (find_guest db (p_guest_session_id p))) = Inr a"
      "mapPlayer (q, the (find_guest db (p_guest_session_id q))) = Inr b"
    by (rule allocation_reads [OF sys g])
  obtain vs where vs: "map_sum_list mapMove (moves_of db gid) = Inr vs" by (rule moves_read [OF sys g])
  have "gp_guestSessionId a = p_guest_session_id p" "gp_guestSessionId b = p_guest_session_id q"
    using ab by (auto simp: mapPlayer_def Let_def split: if_splits)
  then show ?thesis
    using sys g ok al vs u
    by (auto simp: room_snapshot_def is_member_def findSnapshot_def run_def fetch_def mapSnapshot_def system_ok_def db_ok_def ps
      simp del: set_players_of)
qed

text \<open>
  C23. What a player sees of a game has the type of the protocol. For every game of a reachable
  database, read without failure at a time after the epoch, each of its two players gets a
  snapshot, its presentation succeeds, it shows the stored status, and it satisfies the
  schema of the wire protocol exactly if the texts of the game, its moves and its guests
  have the lengths the schema allows: numbers, clocks, enumerations and the shape are always right.
  Anyone else is refused as not a player.
\<close>

theorem snapshot_has_wire_type:
  assumes "reachable lib uuidv4 db" and "find_game db gid = Some g" and "te_fault env = NoFault"
    and "0 \<le> te_observedAt env" and "time_value (te_observedAt env)"
    and "\<forall>s. g_turn_started_at g = Some s \<longrightarrow> time_value s"
  shows "if u \<in> p_guest_session_id ` set (players_of db gid)
    then \<exists>sn payload. room_snapshot env gid u db = Inr sn \<and> present_snapshot sn u = Some payload \<and>
      field ''status'' payload = JStr (g_status g) \<and> (gameSnapshotPayloadSchema payload \<longleftrightarrow> texts_fit db g)
    else room_snapshot env gid u db = Inl not_a_player"
  using snapshot_typed [OF reachable_system [OF assms(1)] assms(2-6), of u]
    snapshot_refused [OF reachable_system [OF assms(1)] assms(2,3), of u] by (metis (no_types, lifting))


theorem snapshot_has_wire_type_witness:
  "(\<exists>sn payload. room_snapshot (sample_env 70000 sample_moved) ''g'' ''u2'' sample_moved = Inr sn \<and>
     present_snapshot sn ''u2'' = Some payload \<and> field ''status'' payload = JStr ''IN_PROGRESS'' \<and>
     gameSnapshotPayloadSchema payload) \<and>
   room_snapshot (sample_env 70000 sample_moved) ''g'' ''u3'' sample_moved = Inl not_a_player"
proof -
  let ?env = "sample_env 70000 sample_moved" and ?us = "p_guest_session_id ` set (players_of sample_moved ''g'')"
  have g: "find_game sample_moved ''g'' = Some sample_moved_game" "te_fault ?env = NoFault" "0 \<le> te_observedAt ?env"
    "time_value (te_observedAt ?env)" by code_simp+
  have "g_turn_started_at sample_moved_game = Some 9000" by code_simp
  then have started: "\<forall>s. g_turn_started_at sample_moved_game = Some s \<longrightarrow> time_value s" by (simp add: time_value_def)
  have facts: "''u2'' \<in> ?us" "''u3'' \<notin> ?us" "texts_fit sample_moved sample_moved_game"
    "g_status sample_moved_game = ''IN_PROGRESS''" by code_simp+
  note typed = snapshot_has_wire_type [OF sample_reachable(6) g started]
  show ?thesis using typed [of "''u2''"] typed [of "''u3''"] facts by auto
qed

end
