(* ===== verification/Realtime_Protocol.thy ===== *)
theory Realtime_Protocol
  imports Game_Services
begin

text \<open>
  \<open>protocol/realtime-protocol.service.ts\<close>, \<open>protocol/realtime.errors.ts\<close> and
  \<open>realtime-error-mapper.service.ts\<close> under \<open>src/src/modules/realtime\<close>: how an event of a
  client is admitted, and how events, acknowledgements and errors are written.
\<close>

section \<open>Errors\<close>

record RealtimeError =
  re_code :: ProtocolErrorCode
  re_message :: string
  re_retryable :: bool
  re_authoritativeVersion :: "int option"
  re_gameVersion :: "int option"
  re_responseType :: "response_type option"
  re_retryAfterMs :: "int option"

definition realtimeError :: "ProtocolErrorCode \<Rightarrow> string \<Rightarrow> bool \<Rightarrow> RealtimeError" where
  "realtimeError code message retryable =
     \<lparr>re_code = code, re_message = message, re_retryable = retryable, re_authoritativeVersion = None,
      re_gameVersion = None, re_responseType = None, re_retryAfterMs = None\<rparr>"

text \<open>
  What a command may throw: an error of the protocol, an error of the services below
  (among them the error of the realtime Redis), or any other object, such as the error of a
  schema.
\<close>

datatype realtime_thrown = Realtime RealtimeError | Service service_thrown | OtherError

record ProtocolErrorPayload =
  pe_authoritativeVersion :: "int option"
  pe_code :: ProtocolErrorCode
  pe_message :: string
  pe_retryAfterMs :: "int option"
  pe_retryable :: bool

record MappedRealtimeError =
  mp_error :: ProtocolErrorPayload
  mp_gameVersion :: "int option"
  mp_responseType :: response_type

definition plainPayload :: "ProtocolErrorCode \<Rightarrow> string \<Rightarrow> bool \<Rightarrow> ProtocolErrorPayload" where
  "plainPayload code message retryable =
     \<lparr>pe_authoritativeVersion = None, pe_code = code, pe_message = message, pe_retryAfterMs = None,
      pe_retryable = retryable\<rparr>"

definition errorPayload :: "RealtimeError \<Rightarrow> ProtocolErrorPayload" where
  "errorPayload error =
     \<lparr>pe_authoritativeVersion = re_authoritativeVersion error, pe_code = re_code error, pe_message = re_message error,
      pe_retryAfterMs = re_retryAfterMs error, pe_retryable = re_retryable error\<rparr>"

fun gameErrorCode :: "GameServiceErrorCode \<Rightarrow> ProtocolErrorCode" where
  "gameErrorCode GameServiceErrorCode.CLOCK_EXPIRED = ProtocolErrorCode.CLOCK_EXPIRED"
| "gameErrorCode GameServiceErrorCode.GAME_ALREADY_ENDED = ProtocolErrorCode.GAME_ALREADY_ENDED"
| "gameErrorCode GameServiceErrorCode.GAME_NOT_FOUND = ProtocolErrorCode.GAME_NOT_FOUND"
| "gameErrorCode GameServiceErrorCode.IDEMPOTENCY_KEY_REUSED = ProtocolErrorCode.IDEMPOTENCY_KEY_REUSED"
| "gameErrorCode GameServiceErrorCode.ILLEGAL_MOVE = ProtocolErrorCode.ILLEGAL_MOVE"
| "gameErrorCode GameServiceErrorCode.NOT_A_PLAYER = ProtocolErrorCode.NOT_A_PLAYER"
| "gameErrorCode GameServiceErrorCode.NOT_YOUR_TURN = ProtocolErrorCode.NOT_YOUR_TURN"
| "gameErrorCode GameServiceErrorCode.STALE_GAME_VERSION = ProtocolErrorCode.STALE_GAME_VERSION"
| "gameErrorCode GameServiceErrorCode.GUEST_ALREADY_IN_GAME = ProtocolErrorCode.ALREADY_IN_GAME"
| "gameErrorCode _ = SERVICE_UNAVAILABLE"

definition temporarilyUnavailable :: MappedRealtimeError where
  "temporarilyUnavailable =
     \<lparr>mp_error = plainPayload SERVICE_UNAVAILABLE ''Realtime service is temporarily unavailable'' True,
      mp_gameVersion = None, mp_responseType = server_error\<rparr>"

definition internalError :: MappedRealtimeError where
  "internalError =
     \<lparr>mp_error = plainPayload INTERNAL_ERROR ''Realtime request could not be completed'' True,
      mp_gameVersion = None, mp_responseType = server_error\<rparr>"

definition mapGameError :: "GameServiceError \<Rightarrow> MappedRealtimeError" where
  "mapGameError error =
     \<lparr>mp_error = \<lparr>pe_authoritativeVersion = se_authoritativeVersion error, pe_code = gameErrorCode (se_code error),
        pe_message = se_message error, pe_retryAfterMs = None, pe_retryable = se_retryable error\<rparr>,
      mp_gameVersion = se_authoritativeVersion error, mp_responseType = se_responseType error\<rparr>"

definition map_error :: "realtime_thrown \<Rightarrow> MappedRealtimeError" where
  "map_error thrown =
     (case thrown of
        Realtime error \<Rightarrow>
          \<lparr>mp_error = errorPayload error, mp_gameVersion = re_gameVersion error,
           mp_responseType = (case re_responseType error of None \<Rightarrow> server_error | Some r \<Rightarrow> r)\<rparr>
      | Service (RealtimeErr _) \<Rightarrow> temporarilyUnavailable
      | Service (MatchmakingErr error) \<Rightarrow>
          \<lparr>mp_error = plainPayload
             (if me_code error = MatchmakingErrorCode.ALREADY_IN_GAME then ProtocolErrorCode.ALREADY_IN_GAME else SERVICE_UNAVAILABLE)
             (me_message error) (me_retryable error),
           mp_gameVersion = None, mp_responseType = server_error\<rparr>
      | Service (GameErr (ServiceErr error)) \<Rightarrow> mapGameError error
      | Service (GameErr error) \<Rightarrow> if is_DatabaseError error then temporarilyUnavailable else internalError
      | _ \<Rightarrow> internalError)"

section \<open>Identifiers\<close>

definition hex_digit :: "char \<Rightarrow> bool" where
  "hex_digit c \<longleftrightarrow> c \<in> set ''0123456789abcdefABCDEF''"

text \<open>\<open>UUID_V4\<close>, case ignored.\<close>

definition UUID_V4 :: "string \<Rightarrow> bool" where
  "UUID_V4 s \<longleftrightarrow>
     length s = 36 \<and>
     list_all (\<lambda>(i, c). if i \<in> {8, 13, 18, 23} then c = CHR ''-'' else hex_digit c) (enumerate 0 s) \<and>
     s ! 14 = CHR ''4'' \<and> s ! 19 \<in> set ''89abAB''"

definition lower_char :: "char \<Rightarrow> char" where
  "lower_char c = (if 65 \<le> (of_char c :: nat) \<and> (of_char c :: nat) \<le> 90 then char_of ((of_char c :: nat) + 32) else c)"

definition toLowerCase :: "string \<Rightarrow> string" where
  "toLowerCase = map lower_char"

section \<open>The size of an event\<close>

text \<open>
  \<open>JSON.stringify\<close> and the number of bytes of a text in UTF-8, for the characters below 256.
  Numbers are integers: a client may send others, but no schema accepts them.
\<close>

definition hex_char :: "nat \<Rightarrow> char" where
  "hex_char n = ''0123456789abcdef'' ! n"

definition escape_char :: "char \<Rightarrow> string" where
  "escape_char c =
     (let n = of_char c :: nat; q = CHR 0x5C in
      if n = 8 then [q, CHR ''b''] else if n = 9 then [q, CHR ''t''] else if n = 10 then [q, CHR ''n'']
      else if n = 12 then [q, CHR ''f''] else if n = 13 then [q, CHR ''r'']
      else if n = 34 \<or> n = 92 then [q, c]
      else if n < 32 then [q, CHR ''u'', CHR ''0'', CHR ''0'', hex_char (n div 16), hex_char (n mod 16)]
      else [c])"

definition quote_text :: "string \<Rightarrow> string" where
  "quote_text s = CHR 0x22 # List.maps escape_char s @ [CHR 0x22]"

fun comma_separated :: "string list \<Rightarrow> string" where
  "comma_separated [] = []"
| "comma_separated [s] = s"
| "comma_separated (s # ss) = s @ CHR '','' # comma_separated ss"

fun JSON_stringify :: "json \<Rightarrow> string" where
  "JSON_stringify JNull = ''null''"
| "JSON_stringify (JBool b) = (if b then ''true'' else ''false'')"
| "JSON_stringify (JNum n) = int_text n"
| "JSON_stringify (JStr s) = quote_text s"
| "JSON_stringify (JArr js) = ''['' @ comma_separated (map JSON_stringify js) @ '']''"
| "JSON_stringify (JObj kvs) = ''{'' @ comma_separated (map (\<lambda>(k, v). quote_text k @ '':'' @ JSON_stringify v) kvs) @ ''}''"

definition byteLength :: "string \<Rightarrow> int" where
  "byteLength s = sum_list (map (\<lambda>c. if (of_char c :: nat) < 128 then 1 else 2) s)"

section \<open>Events of clients\<close>

text \<open>
  The arguments of a socket event: JSON data, or the function with which the client wants
  to be answered; a missing argument is \<open>None\<close>.
\<close>

datatype argument = Data json | Callback

text \<open>The libraries and the setting of \<open>RealtimeProtocolService\<close>.\<close>

record RealtimeProtocolService =
  rp_uuidv4 :: "string \<Rightarrow> bool"
  rp_datetime :: "string \<Rightarrow> bool"
  rp_maxPayloadBytes :: int

definition invalid_payload :: RealtimeError where
  "invalid_payload = realtimeError INVALID_PAYLOAD ''Socket event payload is invalid'' False"

definition encodedSize :: "argument option \<Rightarrow> RealtimeError + int" where
  "encodedSize value =
     (case value of
        Some (Data j) \<Rightarrow> Inr (byteLength (JSON_stringify j))
      | _ \<Rightarrow> Inl invalid_payload)"

text \<open>\<open>key in raw && raw[key] !== value\<close> for an object.\<close>

definition differs :: "string \<Rightarrow> json \<Rightarrow> json \<Rightarrow> bool" where
  "differs key value raw \<longleftrightarrow>
     (case raw of
        JObj kvs \<Rightarrow> (case map_of kvs key of None \<Rightarrow> False | Some v \<Rightarrow> v \<noteq> value)
      | _ \<Rightarrow> False)"

definition parseClientEvent :: "RealtimeProtocolService \<Rightarrow> string \<Rightarrow> argument option \<Rightarrow> RealtimeError + json" where
  "parseClientEvent P eventName rawEnvelope =
     (if eventName \<notin> set CLIENT_EVENT_NAMES then Inl (realtimeError UNSUPPORTED_EVENT ''Socket event is not supported'' False)
      else sbind (encodedSize rawEnvelope) (\<lambda>size.
        if size > rp_maxPayloadBytes P then
          Inl (realtimeError INVALID_PAYLOAD ''Socket event exceeds the payload limit'' False)
        else
          (case rawEnvelope of
             Some (Data raw) \<Rightarrow>
               if differs ''protocolVersion'' (JNum PROTOCOL_VERSION) raw then
                 Inl (realtimeError UNSUPPORTED_PROTOCOL_VERSION ''Socket protocol version is not supported'' False)
               else if differs ''type'' (JStr eventName) raw then
                 Inl (realtimeError INVALID_PAYLOAD ''Socket event name and envelope type must match'' False)
               else if \<not> clientEnvelopeSchema (rp_uuidv4 P) raw then Inl invalid_payload
               else Inr raw
           | _ \<Rightarrow> Inl invalid_payload)))"

text \<open>A parsed event as the union type that the handlers switch over.\<close>

datatype ClientEvent =
    queue_join
  | queue_leave
  | game_ready (ev_gameId: string) (ev_gameVersion: int)
  | move_submit (ev_clientMoveId: string) (ev_gameId: string) (ev_gameVersion: int) (ev_input: MoveInput)
  | game_resign (ev_gameId: string) (ev_gameVersion: int)
  | game_sync (ev_syncGameId: "string option")
  | heartbeat_ping

definition text_of :: "json \<Rightarrow> string" where
  "text_of j = (case j of JStr s \<Rightarrow> s | _ \<Rightarrow> [])"

definition number_of :: "json \<Rightarrow> int" where
  "number_of j = (case j of JNum n \<Rightarrow> n | _ \<Rightarrow> 0)"

definition optional_text :: "json \<Rightarrow> string option" where
  "optional_text j = (case j of JStr s \<Rightarrow> Some s | _ \<Rightarrow> None)"

definition client_event :: "json \<Rightarrow> ClientEvent" where
  "client_event j =
     (let type = text_of (field ''type'' j); gameId = text_of (field ''gameId'' j);
          version = number_of (field ''gameVersion'' j); payload = field ''payload'' j in
      if type = ''queue.join'' then queue_join
      else if type = ''queue.leave'' then queue_leave
      else if type = ''game.ready'' then game_ready gameId version
      else if type = ''move.submit'' then
        move_submit (text_of (field ''clientMoveId'' j)) gameId version
          \<lparr>mi_from = text_of (field ''from'' payload), mi_promotion = optional_text (field ''promotion'' payload),
           mi_to = text_of (field ''to'' payload)\<rparr>
      else if type = ''game.resign'' then game_resign gameId version
      else if type = ''game.sync'' then game_sync (optional_text (field ''gameId'' j))
      else heartbeat_ping)"

section \<open>Events and acknowledgements of the server\<close>

text \<open>\<open>...(x === undefined ? {} : {key: x})\<close>.\<close>

definition given :: "string \<Rightarrow> ('a \<Rightarrow> json) \<Rightarrow> 'a option \<Rightarrow> (string \<times> json) list" where
  "given key enc x = (case x of None \<Rightarrow> [] | Some v \<Rightarrow> [(key, enc v)])"

record ServerEventDraft =
  dr_clientMoveId :: "string option"
  dr_correlationId :: "string option"
  dr_gameId :: "string option"
  dr_gameVersion :: "int option"
  dr_payload :: json
  dr_type :: string

definition draft :: "string \<Rightarrow> json \<Rightarrow> ServerEventDraft" where
  "draft type payload =
     \<lparr>dr_clientMoveId = None, dr_correlationId = None, dr_gameId = None, dr_gameVersion = None, dr_payload = payload,
      dr_type = type\<rparr>"

definition createServerEvent ::
    "RealtimeProtocolService \<Rightarrow> string \<Rightarrow> int \<Rightarrow> ServerEventDraft \<Rightarrow> realtime_thrown + json" where
  "createServerEvent P randomUUID now d =
     (let event = JObj
        (given ''clientMoveId'' JStr (dr_clientMoveId d) @ given ''correlationId'' JStr (dr_correlationId d) @
         given ''gameId'' JStr (dr_gameId d) @ given ''gameVersion'' JNum (dr_gameVersion d) @
         [(''payload'', dr_payload d), (''type'', JStr (dr_type d)), (''eventId'', JStr randomUUID),
          (''protocolVersion'', JNum PROTOCOL_VERSION), (''timestamp'', JNum now)]) in
      if serverEnvelopeSchema (rp_uuidv4 P) (rp_datetime P) event then Inr event else Inl OtherError)"

definition error_json :: "ProtocolErrorPayload \<Rightarrow> json" where
  "error_json error = JObj
     (given ''authoritativeVersion'' JNum (pe_authoritativeVersion error) @
      [(''code'', JStr (protocol_code_text (pe_code error))), (''message'', JStr (pe_message error))] @
      given ''retryAfterMs'' JNum (pe_retryAfterMs error) @ [(''retryable'', JBool (pe_retryable error))])"

definition createSuccessAck ::
    "RealtimeProtocolService \<Rightarrow> string \<Rightarrow> string \<Rightarrow> string \<Rightarrow> json \<Rightarrow> int option \<Rightarrow> realtime_thrown + json" where
  "createSuccessAck P requestEventId correlationId type payload version =
     (let ack = JObj
        ([(''correlationId'', JStr correlationId)] @ given ''gameVersion'' JNum version @
         [(''ok'', JBool True), (''payload'', payload), (''protocolVersion'', JNum PROTOCOL_VERSION),
          (''requestEventId'', JStr requestEventId), (''type'', JStr type)]) in
      if realtimeAckSchema (rp_uuidv4 P) (rp_datetime P) ack then Inr ack else Inl OtherError)"

definition response_text :: "response_type \<Rightarrow> string" where
  "response_text r = (case r of move_rejected \<Rightarrow> ''move.rejected'' | server_error \<Rightarrow> ''server.error'')"

definition createFailureAck ::
    "RealtimeProtocolService \<Rightarrow> string \<Rightarrow> string \<Rightarrow> ProtocolErrorPayload \<Rightarrow> response_type \<Rightarrow> int option \<Rightarrow> realtime_thrown + json" where
  "createFailureAck P requestEventId correlationId error type version =
     (let ack = JObj
        ([(''correlationId'', JStr correlationId), (''error'', error_json error)] @ given ''gameVersion'' JNum version @
         [(''ok'', JBool False), (''protocolVersion'', JNum PROTOCOL_VERSION),
          (''requestEventId'', JStr requestEventId), (''type'', JStr (response_text type))]) in
      if realtimeAckSchema (rp_uuidv4 P) (rp_datetime P) ack then Inr ack else Inl OtherError)"

definition correlationId :: "string \<Rightarrow> json option \<Rightarrow> string" where
  "correlationId randomUUID value =
     (case value of Some (JStr s) \<Rightarrow> if UUID_V4 s then toLowerCase s else randomUUID | _ \<Rightarrow> randomUUID)"

definition requestEventId :: "string \<Rightarrow> argument option \<Rightarrow> string" where
  "requestEventId randomUUID rawEnvelope =
     (case rawEnvelope of
        Some (Data (JObj kvs)) \<Rightarrow>
          (case map_of kvs ''eventId'' of
             Some (JStr s) \<Rightarrow> if UUID_V4 s then toLowerCase s else randomUUID
           | _ \<Rightarrow> randomUUID)
      | _ \<Rightarrow> randomUUID)"

end
