(* ===== verification/Matchmaking_Realtime.thy ===== *)
theory Matchmaking_Realtime
  imports Realtime_Protocol
begin

text \<open>
  What clients ask for and what they are told: \<open>matchmaking-realtime.service.ts\<close>,
  \<open>game-lifecycle-delivery.service.ts\<close>, \<open>broadcast.service.ts\<close> and \<open>realtime-rooms.ts\<close> under
  \<open>src/src/modules/realtime\<close>. A handler works on the two stores and gives its result together
  with the list of its outputs, in order: events sent to rooms, calls of the deadline
  service, rooms joined. Each event gets the next pair of identifier and time of
  \<open>stamps\<close>. Log messages, metrics and trace spans are left out.
\<close>

section \<open>Broadcasts\<close>

definition gameRoom :: "string \<Rightarrow> string" where
  "gameRoom gameId = ''game:'' @ gameId"

definition guestRoom :: "string \<Rightarrow> string" where
  "guestRoom guestSessionId = ''guest:'' @ guestSessionId"

text \<open>An event goes to the room on all instances, or only to the sockets of this one.\<close>

datatype emission = Cluster string json | Local string json

record BroadcastService =
  bc_bound :: bool
  bc_redisReady :: bool

definition emit_event :: "BroadcastService \<Rightarrow> string \<Rightarrow> json \<Rightarrow> emission list" where
  "emit_event B room event =
     (if \<not> bc_bound B then [] else if bc_redisReady B then [Cluster room event] else [Local room event])"

text \<open>
  The sockets that are disconnected, and whether the call goes through: \<open>sockets\<close> is what the
  instances together answer, \<open>None\<close> when they cannot be asked.
\<close>

definition disconnectGuest :: "BroadcastService \<Rightarrow> string list \<Rightarrow> string list option \<Rightarrow> string list \<times> bool" where
  "disconnectGuest B localSockets sockets =
     (if \<not> bc_bound B then ([], True) else if \<not> bc_redisReady B then (localSockets, True)
      else (case sockets of None \<Rightarrow> (localSockets, False) | Some others \<Rightarrow> (localSockets @ others, True)))"

section \<open>Publishing\<close>

datatype outgoing =
    Emitted emission | Timer timer_call | RoomCleanup string | JoinedRoom string

text \<open>
  A publication first creates all of its events and then sends each to its rooms, or is
  another output, or throws.
\<close>

datatype publication = Events "(string list \<times> ServerEventDraft) list" | Output outgoing | Throw

type_synonym stamps = "nat \<Rightarrow> string \<times> int"

fun create_events ::
    "RealtimeProtocolService \<Rightarrow> stamps \<Rightarrow> nat \<Rightarrow> (string list \<times> ServerEventDraft) list \<Rightarrow>
     realtime_thrown + (string list \<times> json) list" where
  "create_events P stamps i [] = Inr []"
| "create_events P stamps i ((rooms, d) # ds) =
     sbind (createServerEvent P (fst (stamps i)) (snd (stamps i)) d) (\<lambda>event.
     sbind (create_events P stamps (i + 1) ds) (\<lambda>events. Inr ((rooms, event) # events)))"

definition send_events :: "BroadcastService \<Rightarrow> (string list \<times> json) list \<Rightarrow> outgoing list" where
  "send_events B events =
     List.maps (\<lambda>(rooms, event). List.maps (\<lambda>room. map Emitted (emit_event B room event)) rooms) events"

fun publish ::
    "RealtimeProtocolService \<Rightarrow> BroadcastService \<Rightarrow> stamps \<Rightarrow> nat \<Rightarrow> publication list \<Rightarrow>
     (realtime_thrown + unit) \<times> outgoing list" where
  "publish P B stamps i [] = (Inr (), [])"
| "publish P B stamps i (Throw # ps) = (Inl OtherError, [])"
| "publish P B stamps i (Output out # ps) = (case publish P B stamps i ps of (r, outs) \<Rightarrow> (r, out # outs))"
| "publish P B stamps i (Events ds # ps) =
     (case create_events P stamps i ds of
        Inl e \<Rightarrow> (Inl e, [])
      | Inr events \<Rightarrow>
          (case publish P B stamps (i + length ds) ps of (r, outs) \<Rightarrow> (r, send_events B events @ outs)))"

section \<open>Payloads\<close>

definition gameplayClocks :: "GameplayClock \<Rightarrow> json \<Rightarrow> json" where
  "gameplayClocks clocks side = JObj
     [(''blackMs'', JNum (gc_blackMs clocks)), (''running'', side), (''serverTime'', JNum (gc_observedAt clocks)),
      (''whiteMs'', JNum (gc_whiteMs clocks))]"

definition wireClocks_gameplay :: "GameplayClock \<Rightarrow> json" where
  "wireClocks_gameplay clocks = gameplayClocks clocks (nullable (JStr \<circ> wireColor) (gc_running clocks))"

definition acceptedPayload :: "AcceptedMove \<Rightarrow> json" where
  "acceptedPayload accepted = JObj
     [(''check'', JBool (ac_check accepted)), (''clocks'', wireClocks_gameplay (ac_clocks accepted)),
      (''fenAfter'', JStr (ac_fenAfter accepted)), (''ply'', JNum (ac_ply accepted)), (''san'', JStr (ac_san accepted)),
      (''turn'', JStr (wireColor (ac_turn accepted))), (''uci'', JStr (ac_uci accepted))]"

definition endedPayload :: "EndedGame \<Rightarrow> json" where
  "endedPayload ended = JObj
     [(''clocks'', gameplayClocks (eg_clocks ended) JNull), (''finalFen'', JStr (eg_finalFen ended)),
      (''pgn'', JStr (eg_pgn ended)), (''result'', JStr (result_text (eg_result ended))),
      (''termination'', JStr (termination_text (eg_termination ended)))]"

definition startedPayload :: "StartedGame \<Rightarrow> json" where
  "startedPayload started = JObj
     [(''clocks'', gameplayClocks (sg_clocks started) (JStr ''white'')), (''initialFen'', JStr (sg_initialFen started)),
      (''turn'', JStr ''white'')]"

primrec exit_text :: "QueueExitReason \<Rightarrow> string" where
  "exit_text disconnected = ''disconnected''"
| "exit_text stale = ''stale''"
| "exit_text timed_out = ''timeout''"

definition queueLeft :: "string \<Rightarrow> ServerEventDraft" where
  "queueLeft reason = draft ''queue.left'' (JObj [(''mode'', JStr ''blitz''), (''reason'', JStr reason)])"

section \<open>Publications\<close>

definition publishStarted :: "StartedGame \<Rightarrow> publication" where
  "publishStarted started = Events
     [([gameRoom (sg_gameId started)],
       (draft ''game.started'' (startedPayload started))
         \<lparr>dr_gameId := Some (sg_gameId started), dr_gameVersion := Some (sg_gameVersion started)\<rparr>)]"

definition publishAccepted :: "AcceptedMove \<Rightarrow> publication" where
  "publishAccepted accepted = Events
     [([gameRoom (ac_gameId accepted)],
       (draft ''move.accepted'' (acceptedPayload accepted))
         \<lparr>dr_clientMoveId := Some (ac_clientMoveId accepted), dr_gameId := Some (ac_gameId accepted),
          dr_gameVersion := Some (ac_gameVersion accepted)\<rparr>)]"

definition matchFoundPayload :: "GameRecord \<Rightarrow> int \<Rightarrow> GamePlayerRecord \<Rightarrow> GamePlayerRecord \<Rightarrow> json" where
  "matchFoundPayload game joinDeadline player opponent = JObj
     [(''color'', JStr (wireColor (gp_color player))), (''joinDeadline'', JNum joinDeadline),
      (''opponent'', JObj [(''avatar'', JStr (gp_avatarKey opponent)), (''name'', JStr (gp_displayName opponent))]),
      (''timeControl'', JObj [(''incrementMs'', JNum (gm_incrementMs game)), (''initialMs'', JNum (gm_timeInitialMs game))])]"

definition publishMatchFound :: "GameAllocation \<Rightarrow> GamePlayerRecord \<Rightarrow> GamePlayerRecord \<Rightarrow> publication" where
  "publishMatchFound allocation player opponent =
     (let game = al_game allocation; room = [guestRoom (gp_guestSessionId player)] in
      case gm_joinDeadlineAt game of
        None \<Rightarrow> Throw
      | Some deadline \<Rightarrow> Events
          [(room, queueLeft ''matched''),
           (room, (draft ''match.found'' (matchFoundPayload game deadline player opponent))
             \<lparr>dr_gameId := Some (gm_id game), dr_gameVersion := Some (gm_version game)\<rparr>)])"

definition publishAllocation :: "GameAllocation \<Rightarrow> publication list" where
  "publishAllocation allocation =
     (let (first, second) = al_players allocation in
      [publishMatchFound allocation first second, publishMatchFound allocation second first,
       Output (Timer (schedule_timer (gm_id (al_game allocation))))])"

definition publishEffects :: "MatchmakingEffects \<Rightarrow> publication list" where
  "publishEffects effects =
     map (\<lambda>removed. Events [([guestRoom (rq_guestSessionId removed)], queueLeft (exit_text (rq_reason removed)))])
       (fx_removed effects) @
     map (\<lambda>requeued. Events [([guestRoom (rqg_guestSessionId requeued)],
         draft ''queue.joined'' (JObj [(''mode'', JStr ''blitz''), (''since'', JNum (rqg_since requeued))]))])
       (fx_requeued effects) @
     List.maps publishAllocation (fx_allocations effects)"

text \<open>The delivery service, as the delegate of the registry.\<close>

definition gameEnded :: "TerminalSubmission \<Rightarrow> publication list" where
  "gameEnded submission =
     (let ended = ts_ended submission; (a, b) = ts_guestSessionIds submission in
      [Events [([guestRoom a, guestRoom b],
         (draft ''game.ended'' (endedPayload ended))
           \<lparr>dr_gameId := Some (eg_gameId ended), dr_gameVersion := Some (eg_gameVersion ended)\<rparr>)],
       Output (Timer (cancel_timer (eg_gameId ended))), Output (RoomCleanup (eg_gameId ended))])"

definition playerDisconnected :: "PlayerDisconnected \<Rightarrow> publication list" where
  "playerDisconnected event =
     [Events [([gameRoom (pd_gameId event)],
        (draft ''player.disconnected'' (JObj
           [(''clocksContinue'', JBool True), (''color'', JStr (wireColor (pd_color event))),
            (''graceDeadline'', JNum (pd_graceDeadline event))]))
          \<lparr>dr_gameId := Some (pd_gameId event), dr_gameVersion := Some (pd_gameVersion event)\<rparr>)]]"

definition playerReconnected :: "PlayerReconnected \<Rightarrow> publication list" where
  "playerReconnected event =
     [Events [([gameRoom (pr_gameId event)],
        (draft ''player.reconnected'' (JObj [(''color'', JStr (wireColor (pr_color event)))]))
          \<lparr>dr_gameId := Some (pr_gameId event), dr_gameVersion := Some (pr_gameVersion event)\<rparr>)]]"

fun delivered :: "delivery \<Rightarrow> publication list" where
  "delivered (deliver_ended submission) = gameEnded submission"
| "delivered (deliver_disconnected event) = playerDisconnected event"
| "delivered (deliver_reconnected event) = playerReconnected event"

text \<open>The timers that make the sockets leave the room of a game that has ended.\<close>

definition TERMINAL_ROOM_RETENTION_MS :: int where
  "TERMINAL_ROOM_RETENTION_MS = 250"

definition scheduleRoomCleanup :: "string \<Rightarrow> nat \<Rightarrow> (string \<rightharpoonup> nat) \<times> nat set \<Rightarrow> (string \<rightharpoonup> nat) \<times> nat set" where
  "scheduleRoomCleanup gameId timer st =
     (case st of (timers, armed) \<Rightarrow>
        (timers(gameId \<mapsto> timer),
         insert timer (case timers gameId of None \<Rightarrow> armed | Some existing \<Rightarrow> armed - {existing})))"

definition shutdownRoomCleanup :: "(string \<rightharpoonup> nat) \<times> nat set \<Rightarrow> (string \<rightharpoonup> nat) \<times> nat set" where
  "shutdownRoomCleanup st = (case st of (timers, armed) \<Rightarrow> (Map.empty, armed - ran timers))"

section \<open>Commands\<close>

text \<open>The services behind the handler, and how the calls of a command fare.\<close>

record ('p, 'r) realtime =
  rt_protocol :: RealtimeProtocolService
  rt_broadcast :: BroadcastService
  rt_delivering :: bool
  rt_matchmaking :: "('p, 'r) matchmaking"
  rt_games :: "('p, 'r) game_services"
  rt_drainRetryAfterMs :: int

record 'r command_env =
  cm_isReady :: bool
  cm_stamps :: stamps
  cm_join :: "'r join_env"
  cm_joinAt :: int
  cm_leave :: redis_fault
  cm_authorize :: tx_env
  cm_others :: "'r \<times> db \<Rightarrow> 'r \<times> db"
  cm_ready :: "'r ready_env"
  cm_readyAt :: int
  cm_recovery :: "'r recovery_env"
  cm_snapshot :: "'r snapshot_env"
  cm_submit :: "'r submit_env"
  cm_resign :: "'r terminal_env"

record RealtimeCommandResult =
  cr_type :: string
  cr_payload :: json
  cr_gameVersion :: "int option"

type_synonym 'r outcome = "((realtime_thrown + RealtimeCommandResult) \<times> outgoing list) \<times> 'r world"

definition failed :: "realtime_thrown \<Rightarrow> 'r world \<Rightarrow> 'r outcome" where
  "failed e w = ((Inl e, []), w)"

definition game_failed :: "thrown \<Rightarrow> 'r world \<Rightarrow> 'r outcome" where
  "game_failed e = failed (Service (GameErr e))"

text \<open>Outputs, then publications, then the result.\<close>

definition finished ::
    "('p, 'r) realtime \<Rightarrow> stamps \<Rightarrow> outgoing list \<Rightarrow> publication list \<Rightarrow> RealtimeCommandResult \<Rightarrow> 'r world \<Rightarrow> 'r outcome" where
  "finished T stamps before pubs result w =
     (case publish (rt_protocol T) (rt_broadcast T) stamps 0 pubs of
        (Inl e, outs) \<Rightarrow> ((Inl e, before @ outs), w)
      | (Inr _, outs) \<Rightarrow> ((Inr result, before @ outs), w))"

definition registered :: "('p, 'r) realtime \<Rightarrow> delivery list \<Rightarrow> publication list" where
  "registered T ds = (if rt_delivering T then List.maps delivered ds else [])"

definition draining :: "('p, 'r) realtime \<Rightarrow> RealtimeError" where
  "draining T =
     (realtimeError SERVICE_UNAVAILABLE ''This server is draining; reconnect before joining the queue.'' True)
       \<lparr>re_retryAfterMs := Some (rt_drainRetryAfterMs T)\<rparr>"

definition joinQueue ::
    "('p, 'r) realtime \<Rightarrow> 'r command_env \<Rightarrow> string \<Rightarrow> 'r world \<Rightarrow> 'r outcome" where
  "joinQueue T env guest w =
     (if \<not> cm_isReady env then failed (Realtime (draining T)) w
      else
        (case join (rt_matchmaking T) (cm_join env) guest blitz (cm_joinAt env) w of
           (Inl e, w1) \<Rightarrow> failed (Service e) w1
         | (Inr (queue, effects), w1) \<Rightarrow>
             finished T (cm_stamps env) [] (publishEffects effects)
               \<lparr>cr_type = ''queue.joined'',
                cr_payload = JObj [(''mode'', JStr ''blitz''), (''position'', JNum (qj_position queue)), (''since'', JNum (qj_since queue))],
                cr_gameVersion = None\<rparr> w1))"

definition leaveQueue_command ::
    "('p, 'r) realtime \<Rightarrow> 'r command_env \<Rightarrow> string \<Rightarrow> 'r world \<Rightarrow> 'r outcome" where
  "leaveQueue_command T env guest w =
     (case leaveQueue (rt_matchmaking T) (cm_leave env) guest blitz w of
        (Inl e, w1) \<Rightarrow> failed (Service (MatchmakingErr e)) w1
      | (Inr _, w1) \<Rightarrow>
          finished T (cm_stamps env) [] [Events [([guestRoom guest], queueLeft ''requested'')]]
            \<lparr>cr_type = ''queue.left'', cr_payload = dr_payload (queueLeft ''requested''), cr_gameVersion = None\<rparr> w1)"

text \<open>The presenter throws an error of its own when the membership is malformed.\<close>

definition readyGame ::
    "('p, 'r) realtime \<Rightarrow> 'r command_env \<Rightarrow> string \<Rightarrow> string \<Rightarrow> int \<Rightarrow> 'r world \<Rightarrow> 'r outcome" where
  "readyGame T env guest gameId version w =
     (case authorize (cm_authorize env) gameId guest (snd w) of
        Inl e \<Rightarrow> game_failed e w
      | Inr _ \<Rightarrow>
          (case service_ready (rt_games T) (cm_ready env) gameId guest version (cm_readyAt env) (cm_others env w) of
             (Inl e, timers, w1) \<Rightarrow> ((Inl (Service (GameErr e)), JoinedRoom gameId # map Timer timers), w1)
           | (Inr result, timers, w1) \<Rightarrow>
               (case (publish (rt_protocol T) (rt_broadcast T) (cm_stamps env) 0
                    (case ry_started result of None \<Rightarrow> [] | Some started \<Rightarrow> [publishStarted started]),
                  present_snapshot (ry_snapshot result) guest) of
                  ((Inr _, outs), Some payload) \<Rightarrow>
                    ((Inr \<lparr>cr_type = ''game.snapshot'', cr_payload = payload,
                        cr_gameVersion = Some (gm_version (al_game (sn_allocation (ry_snapshot result))))\<rparr>,
                      JoinedRoom gameId # map Timer timers @ outs), w1)
                | ((Inl e, outs), _) \<Rightarrow> ((Inl e, JoinedRoom gameId # map Timer timers @ outs), w1)
                | ((Inr _, outs), None) \<Rightarrow> ((Inl OtherError, JoinedRoom gameId # map Timer timers @ outs), w1))))"

definition syncGame ::
    "('p, 'r) realtime \<Rightarrow> 'r command_env \<Rightarrow> string \<Rightarrow> string option \<Rightarrow> 'r world \<Rightarrow> 'r outcome" where
  "syncGame T env guest gameId w =
     (case (case gameId of
              None \<Rightarrow> service_activeSnapshot (rt_games T) (cm_recovery env) (cm_snapshot env) guest w
            | Some g \<Rightarrow> service_snapshot (rt_games T) (cm_snapshot env) g guest w) of
        (Inl e, w1) \<Rightarrow> game_failed e w1
      | (Inr snapshot, w1) \<Rightarrow>
          ((Inr \<lparr>cr_type = ''game.snapshot'', cr_payload = rg_payload snapshot, cr_gameVersion = Some (rg_version snapshot)\<rparr>,
            [JoinedRoom (rg_id snapshot), Timer (schedule_timer (rg_id snapshot))]), w1))"

definition submitMove_command ::
    "('p, 'r) realtime \<Rightarrow> 'r command_env \<Rightarrow> string \<Rightarrow> string \<Rightarrow> string \<Rightarrow> int \<Rightarrow> MoveInput \<Rightarrow> 'r world \<Rightarrow> 'r outcome" where
  "submitMove_command T env guest clientMoveId gameId version move w =
     (case service_submit (rt_games T) (cm_submit env)
          \<lparr>sm_clientMoveId = clientMoveId, sm_expectedVersion = version, sm_gameId = gameId, sm_guestSessionId = guest,
           sm_move = move\<rparr> w of
        (Inl e, _, w1) \<Rightarrow> game_failed e w1
      | (Inr submission, timers, w1) \<Rightarrow>
          finished T (cm_stamps env) (map Timer timers)
            (if ms_duplicate submission then []
             else (case ms_started submission of None \<Rightarrow> [] | Some started \<Rightarrow> [publishStarted started]) @
               [publishAccepted (ms_accepted submission)] @
               (case ms_ended submission of None \<Rightarrow> []
                | Some ended \<Rightarrow> registered T [deliver_ended \<lparr>ts_duplicate = False, ts_ended = ended,
                    ts_guestSessionIds = ms_guestSessionIds submission\<rparr>]))
            \<lparr>cr_type = ''move.accepted'', cr_payload = acceptedPayload (ms_accepted submission),
             cr_gameVersion = Some (ac_gameVersion (ms_accepted submission))\<rparr> w1)"

definition resignGame ::
    "('p, 'r) realtime \<Rightarrow> 'r command_env \<Rightarrow> string \<Rightarrow> string \<Rightarrow> string \<Rightarrow> int \<Rightarrow> 'r world \<Rightarrow> 'r outcome" where
  "resignGame T env guest eventId gameId version w =
     (case service_resign (rt_games T) (cm_resign env)
          \<lparr>rg_eventId = eventId, rg_expectedVersion = version, rg_gameId = gameId, rg_guestSessionId = guest\<rparr> w of
        (Inl e, _, w1) \<Rightarrow> game_failed e w1
      | (Inr submission, deliveries, w1) \<Rightarrow>
          finished T (cm_stamps env) [] (registered T deliveries)
            \<lparr>cr_type = ''game.ended'', cr_payload = endedPayload (ts_ended submission),
             cr_gameVersion = Some (eg_gameVersion (ts_ended submission))\<rparr> w1)"

definition not_available :: RealtimeError where
  "not_available = realtimeError SERVICE_UNAVAILABLE ''This game command is not available until its implementation phase.'' True"

definition execute_command ::
    "('p, 'r) realtime \<Rightarrow> 'r command_env \<Rightarrow> string \<Rightarrow> string \<Rightarrow> ClientEvent \<Rightarrow> 'r world \<Rightarrow> 'r outcome" where
  "execute_command T env guest eventId event w =
     (case event of
        queue_join \<Rightarrow> joinQueue T env guest w
      | queue_leave \<Rightarrow> leaveQueue_command T env guest w
      | game_ready gameId version \<Rightarrow> readyGame T env guest gameId version w
      | game_sync gameId \<Rightarrow> syncGame T env guest gameId w
      | move_submit clientMoveId gameId version move \<Rightarrow> submitMove_command T env guest clientMoveId gameId version move w
      | game_resign gameId version \<Rightarrow> resignGame T env guest eventId gameId version w
      | heartbeat_ping \<Rightarrow> failed (Realtime not_available) w)"

section \<open>Connections and jobs\<close>

text \<open>
  The last connection of a guest is gone. Both calls are made, and the failure of one does
  not keep the other from having its effect.
\<close>

record 'r departure_env =
  dp_leave :: redis_fault
  dp_others :: "'r \<times> db \<Rightarrow> 'r \<times> db"
  dp_game :: "'r connection_env"
  dp_stamps :: stamps
  dp_deliveries :: stamps

definition guest_departed ::
    "('p, 'r) realtime \<Rightarrow> 'r departure_env \<Rightarrow> string \<Rightarrow> 'r world \<Rightarrow> outgoing list \<times> 'r world" where
  "guest_departed T env guest w =
     (let (left, w1) = finallyDisconnected (rt_matchmaking T) (dp_leave env) guest blitz w;
          (event, deliveries, w2) = service_disconnected (rt_games T) (dp_game env) guest (dp_others env w1);
          (sent, outs) = publish (rt_protocol T) (rt_broadcast T) (dp_deliveries env) 0 (registered T deliveries);
          (_, told) = publish (rt_protocol T) (rt_broadcast T) (dp_stamps env) 0
            (if left = Inr True then [Events [([guestRoom guest], queueLeft ''disconnected'')]] else []) in
      (outs @ told @
         (case (event, sent) of
            (Inr (Some e), Inr _) \<Rightarrow> [Timer (schedule_timer (pd_gameId e))]
          | _ \<Rightarrow> []), w2))"

definition guest_returned ::
    "('p, 'r) realtime \<Rightarrow> 'r connection_env \<Rightarrow> stamps \<Rightarrow> string \<Rightarrow> 'r world \<Rightarrow>
     ((realtime_thrown + unit) \<times> outgoing list) \<times> 'r world" where
  "guest_returned T env stamps guest w =
     (case service_reconnected (rt_games T) env guest w of
        (Inl e, _, w1) \<Rightarrow> ((Inl (Service (GameErr e)), []), w1)
      | (Inr None, _, w1) \<Rightarrow> ((Inr (), []), w1)
      | (Inr (Some event), deliveries, w1) \<Rightarrow>
          (publish (rt_protocol T) (rt_broadcast T) stamps 0
             (registered T deliveries @ [Output (Timer (schedule_timer (pr_gameId event)))]), w1))"

datatype JobName = job_drain | job_reconcile | job_sweep

text \<open>A job that is still running is not started again; what it found is published when it is done.\<close>

definition runJob :: "JobName \<Rightarrow> JobName set \<Rightarrow> JobName set option" where
  "runJob name active = (if name \<in> active then None else Some (insert name active))"

definition jobDone ::
    "('p, 'r) realtime \<Rightarrow> stamps \<Rightarrow> JobName \<Rightarrow> (service_thrown + MatchmakingEffects) \<Rightarrow> JobName set \<Rightarrow>
     outgoing list \<times> JobName set" where
  "jobDone T stamps name result active =
     (case result of
        Inl _ \<Rightarrow> ([], active - {name})
      | Inr effects \<Rightarrow>
          (snd (publish (rt_protocol T) (rt_broadcast T) stamps 0 (publishEffects effects)), active - {name}))"

end
