(* ===== verification/Rate_Limits.thy ===== *)
theory Rate_Limits
  imports Realtime_Protocol
begin

text \<open>
  The limits of \<open>realtime-rate-limit.service.ts\<close>, \<open>session-rate-limit.service.ts\<close>,
  \<open>recovery-rate-limit.service.ts\<close> and \<open>connection-registry.service.ts\<close> under
  \<open>src/src/modules\<close>. The first three run the same script on a counter that expires; the
  commands on counters are the parameter \<open>'c counters\<close>, whose documented behaviour in time is
  the predicate \<open>counters_ok\<close>.
\<close>

section \<open>Counters\<close>

record 'c counters =
  ct_incr :: "string \<Rightarrow> 'c \<Rightarrow> int \<times> 'c"
  ct_pexpire :: "string \<Rightarrow> int \<Rightarrow> 'c \<Rightarrow> 'c"
  ct_pttl :: "string \<Rightarrow> 'c \<Rightarrow> int"

text \<open>The script of all three services.\<close>

definition limit_script :: "'c counters \<Rightarrow> string \<Rightarrow> int \<Rightarrow> 'c \<Rightarrow> (int \<times> int) \<times> 'c" where
  "limit_script C key windowMs s =
     (let (count, s1) = ct_incr C key s;
          s2 = (if count = 1 then ct_pexpire C key windowMs s1 else s1) in
      ((count, ct_pttl C key s2), s2))"

record RateLimitPolicy =
  rl_limit :: int
  rl_windowMs :: int

text \<open>The time until the next try when the count is above the limit.\<close>

definition over_limit :: "RateLimitPolicy \<Rightarrow> int \<times> int \<Rightarrow> int option" where
  "over_limit policy reply = (if fst reply > rl_limit policy then Some (max 1 (snd reply)) else None)"

text \<open>
  \<open>closed\<close> is what the service throws when Redis cannot be reached; a service that fails open
  has none.
\<close>

definition consume ::
    "'c counters \<Rightarrow> redis_fault \<Rightarrow> RateLimitPolicy \<Rightarrow> string \<Rightarrow> (int \<Rightarrow> 'e) \<Rightarrow> 'e option \<Rightarrow> 'c \<Rightarrow> ('e + unit) \<times> 'c" where
  "consume C fault policy key limited closed s =
     (let refused = (case closed of None \<Rightarrow> Inr () | Some e \<Rightarrow> Inl e);
          (reply, s1) = limit_script C key (rl_windowMs policy) s in
      case fault of
        redis_refused \<Rightarrow> (refused, s)
      | redis_lost \<Rightarrow> (refused, s1)
      | redis_up \<Rightarrow> (case over_limit policy reply of None \<Rightarrow> (Inr (), s1) | Some ttl \<Rightarrow> (Inl (limited ttl), s1)))"

section \<open>The services\<close>

record RealtimeRateLimitService =
  rr_queue :: RateLimitPolicy
  rr_move :: RateLimitPolicy
  rr_sync :: RateLimitPolicy

definition realtime_scope :: "string \<Rightarrow> string" where
  "realtime_scope eventName =
     (if eventName \<in> {''queue.join'', ''queue.leave''} then ''queue''
      else if eventName \<in> {''move.submit'', ''game.resign''} then ''move'' else ''sync'')"

definition realtime_policy :: "RealtimeRateLimitService \<Rightarrow> string \<Rightarrow> RateLimitPolicy" where
  "realtime_policy L scope = (if scope = ''queue'' then rr_queue L else if scope = ''move'' then rr_move L else rr_sync L)"

definition realtime_limited :: "int \<Rightarrow> RealtimeError" where
  "realtime_limited ttl =
     (realtimeError RATE_LIMITED ''Socket command rate limit exceeded'' True)\<lparr>re_retryAfterMs := Some ttl\<rparr>"

definition realtime_key :: "string \<Rightarrow> string \<Rightarrow> string" where
  "realtime_key scope guestSessionId = ''rl:'' @ scope @ '':'' @ guestSessionId"

definition realtime_consume ::
    "'c counters \<Rightarrow> RealtimeRateLimitService \<Rightarrow> redis_fault \<Rightarrow> string \<Rightarrow> string \<Rightarrow> 'c \<Rightarrow> (RealtimeError + unit) \<times> 'c" where
  "realtime_consume C L fault eventName guestSessionId =
     (let scope = realtime_scope eventName in
      consume C fault (realtime_policy L scope) (realtime_key scope guestSessionId) realtime_limited None)"

datatype SessionErrorCode =
    SESSION_BAD_REQUEST | SESSION_IDEMPOTENCY_KEY_REUSED | SESSION_INTERNAL_ERROR | SESSION_RATE_LIMITED
  | SESSION_SERVICE_UNAVAILABLE | SESSION_UNAUTHORIZED

record SessionError =
  xe_code :: SessionErrorCode
  xe_message :: string
  xe_retryable :: bool
  xe_retryAfterMs :: "int option"

definition sessionError :: "SessionErrorCode \<Rightarrow> string \<Rightarrow> bool \<Rightarrow> SessionError" where
  "sessionError code message retryable =
     \<lparr>xe_code = code, xe_message = message, xe_retryable = retryable, xe_retryAfterMs = None\<rparr>"

datatype SessionRateLimitPolicy = policy_create | policy_get | policy_renew | policy_reset

primrec session_policy_text :: "SessionRateLimitPolicy \<Rightarrow> string" where
  "session_policy_text policy_create = ''create''"
| "session_policy_text policy_get = ''get''"
| "session_policy_text policy_renew = ''renew''"
| "session_policy_text policy_reset = ''reset''"

text \<open>The identifier is hashed; the digest is a parameter. This service fails closed.\<close>

definition session_consume ::
    "'c counters \<Rightarrow> (string \<Rightarrow> string) \<Rightarrow> (SessionRateLimitPolicy \<Rightarrow> RateLimitPolicy) \<Rightarrow> redis_fault \<Rightarrow>
     SessionRateLimitPolicy \<Rightarrow> string \<Rightarrow> 'c \<Rightarrow> (SessionError + unit) \<times> 'c" where
  "session_consume C sha256 policies fault policy identifier =
     consume C fault (policies policy) (''rl:session:'' @ session_policy_text policy @ '':'' @ sha256 identifier)
       (\<lambda>ttl. (sessionError SESSION_RATE_LIMITED ''Session request rate limit exceeded'' True)\<lparr>xe_retryAfterMs := Some ttl\<rparr>)
       (Some (sessionError SESSION_SERVICE_UNAVAILABLE ''Session service is temporarily unavailable'' True))"

datatype RecoveryPolicy = recovery_active | recovery_snapshot

record RecoveryError =
  ye_code :: string
  ye_message :: string
  ye_retryable :: bool
  ye_retryAfterMs :: "int option"

definition recovery_consume ::
    "'c counters \<Rightarrow> (string \<Rightarrow> string) \<Rightarrow> (RecoveryPolicy \<Rightarrow> RateLimitPolicy) \<Rightarrow> redis_fault \<Rightarrow>
     RecoveryPolicy \<Rightarrow> string \<Rightarrow> 'c \<Rightarrow> (RecoveryError + unit) \<times> 'c" where
  "recovery_consume C sha256 policies fault policy guestSessionId =
     consume C fault (policies policy)
       (''rl:recovery:'' @ (case policy of recovery_active \<Rightarrow> ''active'' | recovery_snapshot \<Rightarrow> ''snapshot'') @ '':'' @
          sha256 guestSessionId)
       (\<lambda>ttl. \<lparr>ye_code = ''RATE_LIMITED'', ye_message = ''Recovery request rate limit exceeded'', ye_retryable = True,
          ye_retryAfterMs = Some ttl\<rparr>)
       None"

section \<open>Connections per address\<close>

record ConnectionRegistryService =
  cx_connectionLimit :: int
  cx_ttlMs :: int

definition connection_config :: "int \<Rightarrow> int \<Rightarrow> int \<Rightarrow> ConnectionRegistryService" where
  "connection_config limit presenceTtl pingTimeout =
     \<lparr>cx_connectionLimit = limit, cx_ttlMs = presenceTtl + pingTimeout\<rparr>"

definition connectionKey :: "string \<Rightarrow> string" where
  "connectionKey addressHash = ''rl:conn:'' @ addressHash"

definition acquire_lua ::
    "'r redis \<Rightarrow> ConnectionRegistryService \<Rightarrow> string \<Rightarrow> string \<Rightarrow> int \<Rightarrow> 'r \<Rightarrow> int \<times> 'r" where
  "acquire_lua R cx addressHash socketMember nowMs s =
     (let key = connectionKey addressHash;
          s1 = rd_zremrangebyscore R key nowMs s;
          count = rd_zcard R key s1 in
      if rd_zscore R key socketMember s1 = None \<and> count \<ge> cx_connectionLimit cx then (-1, s1)
      else
        (let s2 = rd_pexpire R key (cx_ttlMs cx) (rd_zadd R key (nowMs + cx_ttlMs cx) socketMember s1) in
         (rd_zcard R key s2, s2)))"

definition acquire ::
    "'r redis \<Rightarrow> ConnectionRegistryService \<Rightarrow> redis_fault \<Rightarrow> string \<Rightarrow> string \<Rightarrow> int \<Rightarrow> 'r \<Rightarrow> (realtime_thrown + unit) \<times> 'r" where
  "acquire R cx fault addressHash socketMember nowMs s =
     (case eval_script fault (acquire_lua R cx addressHash socketMember nowMs) s of
        (Inl e, s1) \<Rightarrow> (Inl (Service (RealtimeErr e)), s1)
      | (Inr held, s1) \<Rightarrow>
          if held < 0 then
            (Inl (Realtime ((realtimeError RATE_LIMITED ''Connection limit exceeded'' True)\<lparr>re_retryAfterMs := Some (cx_ttlMs cx)\<rparr>)), s1)
          else (Inr (), s1))"

definition refresh_connection ::
    "'r redis \<Rightarrow> ConnectionRegistryService \<Rightarrow> redis_fault \<Rightarrow> string \<Rightarrow> string \<Rightarrow> int \<Rightarrow> 'r \<Rightarrow> (realtime_error + unit) \<times> 'r" where
  "refresh_connection R cx fault addressHash socketMember nowMs =
     eval_script fault (\<lambda>s.
       ((), rd_pexpire R (connectionKey addressHash) (cx_ttlMs cx)
          (rd_zadd R (connectionKey addressHash) (nowMs + cx_ttlMs cx) socketMember s)))"

definition release_connection ::
    "'r redis \<Rightarrow> redis_fault \<Rightarrow> string \<Rightarrow> string \<Rightarrow> 'r \<Rightarrow> (realtime_error + unit) \<times> 'r" where
  "release_connection R fault addressHash socketMember =
     eval_script fault (\<lambda>s. ((), rd_zrem R (connectionKey addressHash) socketMember s))"

section \<open>Counters in time\<close>

text \<open>
  What the documentation of \<open>INCR\<close>, \<open>PEXPIRE\<close> and \<open>PTTL\<close> says: \<open>at_key\<close> reads the value of
  a key with the time at which it expires, \<open>at_time\<close> the time of the server, and \<open>wait d\<close> is
  the state \<open>d\<close> milliseconds later.
\<close>

record 'c observed =
  at_key :: "string \<Rightarrow> 'c \<Rightarrow> (int \<times> int option) option"
  at_time :: "'c \<Rightarrow> int"
  wait :: "int \<Rightarrow> 'c \<Rightarrow> 'c"

definition incr_law :: "'c counters \<Rightarrow> 'c observed \<Rightarrow> bool" where
  "incr_law C V \<longleftrightarrow>
     (\<forall>k s. fst (ct_incr C k s) = (case at_key V k s of None \<Rightarrow> 1 | Some (n, e) \<Rightarrow> n + 1) \<and>
        at_time V (snd (ct_incr C k s)) = at_time V s \<and>
        (\<forall>j. at_key V j (snd (ct_incr C k s)) =
           (if j = k then Some (case at_key V k s of None \<Rightarrow> (1, None) | Some (n, e) \<Rightarrow> (n + 1, e)) else at_key V j s)))"

definition expire_law :: "'c counters \<Rightarrow> 'c observed \<Rightarrow> bool" where
  "expire_law C V \<longleftrightarrow>
     (\<forall>k d s. 0 < d \<longrightarrow> at_time V (ct_pexpire C k d s) = at_time V s \<and>
        (\<forall>j. at_key V j (ct_pexpire C k d s) =
           (if j = k then map_option (\<lambda>(n, e). (n, Some (at_time V s + d))) (at_key V k s) else at_key V j s)))"

definition pttl_law :: "'c counters \<Rightarrow> 'c observed \<Rightarrow> bool" where
  "pttl_law C V \<longleftrightarrow> (\<forall>k s n e. at_key V k s = Some (n, Some e) \<longrightarrow> ct_pttl C k s = e - at_time V s)"

definition wait_law :: "'c observed \<Rightarrow> bool" where
  "wait_law V \<longleftrightarrow>
     (\<forall>d s. 0 \<le> d \<longrightarrow> at_time V (wait V d s) = at_time V s + d \<and>
        (\<forall>j. at_key V j (wait V d s) =
           (case at_key V j s of
              None \<Rightarrow> None
            | Some (n, None) \<Rightarrow> Some (n, None)
            | Some (n, Some e) \<Rightarrow> if e \<le> at_time V s + d then None else Some (n, Some e))))"

definition counters_ok :: "'c counters \<Rightarrow> 'c observed \<Rightarrow> bool" where
  "counters_ok C V \<longleftrightarrow> incr_law C V \<and> expire_law C V \<and> pttl_law C V \<and> wait_law V"

text \<open>Every counter of a limit counts something and expires later.\<close>

definition live :: "'c observed \<Rightarrow> string \<Rightarrow> 'c \<Rightarrow> bool" where
  "live V k s \<longleftrightarrow> (\<forall>n e. at_key V k s = Some (n, e) \<longrightarrow> 1 \<le> n \<and> (\<exists>t. e = Some t \<and> at_time V s < t))"

lemma limit_script_effect:
  assumes ok: "counters_ok C V" and "live V k s" and "0 < w" and "limit_script C k w s = (reply, s')"
  shows "at_key V k s' = Some (fst reply, Some (case at_key V k s of None \<Rightarrow> at_time V s + w | Some (n, e) \<Rightarrow> the e))"
    "fst reply = (case at_key V k s of None \<Rightarrow> 1 | Some (n, e) \<Rightarrow> n + 1)" "at_time V s' = at_time V s"
    "j \<noteq> k \<Longrightarrow> at_key V j s' = at_key V j s" "0 < snd reply"
proof -
  obtain n e where entry: "at_key V k s = None \<or> at_key V k s = Some (n, Some e) \<and> 1 \<le> n \<and> at_time V s < e"
    using assms(2) unfolding live_def by (cases "at_key V k s") auto
  have incr: "incr_law C V" and expire: "expire_law C V" and pttl: "pttl_law C V" using ok by (simp_all add: counters_ok_def)
  have s': "reply = (fst (ct_incr C k s), ct_pttl C k s')"
    "s' = (if fst (ct_incr C k s) = 1 then ct_pexpire C k w (snd (ct_incr C k s)) else snd (ct_incr C k s))"
    using assms(4) by (auto simp: limit_script_def Let_def split: prod.splits)
  show read: "at_key V k s' = Some (fst reply, Some (case at_key V k s of None \<Rightarrow> at_time V s + w | Some (n, e) \<Rightarrow> the e))"
    "fst reply = (case at_key V k s of None \<Rightarrow> 1 | Some (n, e) \<Rightarrow> n + 1)" "at_time V s' = at_time V s"
    "j \<noteq> k \<Longrightarrow> at_key V j s' = at_key V j s"
    using entry incr expire assms(3) by (auto simp: s' incr_law_def expire_law_def)
  have "snd reply = (case at_key V k s of None \<Rightarrow> at_time V s + w | Some (n, e) \<Rightarrow> the e) - at_time V s'"
    using pttl read(1) by (simp add: s'(1) pttl_law_def)
  then show "0 < snd reply" using entry assms(3) read(3) by auto
qed

end
