(* ===== verification/Application_Lifecycle.thy ===== *)
theory Application_Lifecycle
  imports Prelude
begin

text \<open>
  \<open>src/src/common/lifecycle/application-lifecycle.service.ts\<close>: the state of the process, the
  work in flight, and those who wait until there is none. Promises and callbacks are numbers;
  an operation returns the promises it resolves. The gauge of the work in flight is left out.
\<close>

section \<open>Operations\<close>

datatype ApplicationState = app_starting | app_ready | app_draining

datatype InFlightWorkKind = work_http | work_realtime

record ApplicationLifecycleService =
  al_state :: ApplicationState
  al_inFlightByKind :: "InFlightWorkKind \<Rightarrow> int"
  al_idleWaiters :: "nat list"
  al_drainHooks :: "nat list"
  al_drainPromise :: "nat list option"

definition initial_lifecycle :: ApplicationLifecycleService where
  "initial_lifecycle =
     \<lparr>al_state = app_starting, al_inFlightByKind = (\<lambda>kind. 0), al_idleWaiters = [], al_drainHooks = [],
      al_drainPromise = None\<rparr>"

definition onApplicationBootstrap :: "ApplicationLifecycleService \<Rightarrow> ApplicationLifecycleService" where
  "onApplicationBootstrap L = (if al_state L = app_starting then L\<lparr>al_state := app_ready\<rparr> else L)"

definition isReady :: "ApplicationLifecycleService \<Rightarrow> bool" where
  "isReady L \<longleftrightarrow> al_state L = app_ready"

definition inFlightWork :: "ApplicationLifecycleService \<Rightarrow> int" where
  "inFlightWork L = al_inFlightByKind L work_http + al_inFlightByKind L work_realtime"

definition trackWork :: "InFlightWorkKind \<Rightarrow> ApplicationLifecycleService \<Rightarrow> ApplicationLifecycleService" where
  "trackWork kind L =
     L\<lparr>al_inFlightByKind := (al_inFlightByKind L)(kind := al_inFlightByKind L kind + 1)\<rparr>"

text \<open>The function that \<open>trackWork\<close> returns, with the flag that it keeps.\<close>

definition finishWork ::
    "InFlightWorkKind \<Rightarrow> bool \<Rightarrow> ApplicationLifecycleService \<Rightarrow> bool \<times> nat list \<times> ApplicationLifecycleService" where
  "finishWork kind finished L =
     (if finished then (finished, [], L)
      else
        (let L1 = L\<lparr>al_inFlightByKind := (al_inFlightByKind L)(kind := max 0 (al_inFlightByKind L kind - 1))\<rparr> in
         if inFlightWork L1 = 0 then (True, al_idleWaiters L1, L1\<lparr>al_idleWaiters := []\<rparr>) else (True, [], L1)))"

definition waitForIdle ::
    "nat \<Rightarrow> ApplicationLifecycleService \<Rightarrow> bool option \<times> ApplicationLifecycleService" where
  "waitForIdle promise L =
     (if inFlightWork L = 0 then (Some True, L) else (None, L\<lparr>al_idleWaiters := al_idleWaiters L @ [promise]\<rparr>))"

definition waitTimedOut ::
    "nat \<Rightarrow> ApplicationLifecycleService \<Rightarrow> bool option \<times> ApplicationLifecycleService" where
  "waitTimedOut promise L =
     (if promise \<in> set (al_idleWaiters L)
      then (Some False, L\<lparr>al_idleWaiters := filter (\<lambda>w. w \<noteq> promise) (al_idleWaiters L)\<rparr>) else (None, L))"

definition registerDrainHook :: "nat \<Rightarrow> ApplicationLifecycleService \<Rightarrow> ApplicationLifecycleService" where
  "registerDrainHook hook L =
     (if hook \<in> set (al_drainHooks L) then L else L\<lparr>al_drainHooks := al_drainHooks L @ [hook]\<rparr>)"

definition unregisterDrainHook :: "nat \<Rightarrow> ApplicationLifecycleService \<Rightarrow> ApplicationLifecycleService" where
  "unregisterDrainHook hook L = L\<lparr>al_drainHooks := filter (\<lambda>h. h \<noteq> hook) (al_drainHooks L)\<rparr>"

text \<open>The hooks that are called now.\<close>

definition beginDrain :: "ApplicationLifecycleService \<Rightarrow> nat list \<times> ApplicationLifecycleService" where
  "beginDrain L =
     (case al_drainPromise L of
        Some _ \<Rightarrow> ([], L)
      | None \<Rightarrow> (al_drainHooks L, L\<lparr>al_state := app_draining, al_drainPromise := Some (al_drainHooks L)\<rparr>))"

section \<open>The process\<close>

text \<open>
  All the work that was ever tracked, with its flag, and the promises of \<open>waitForIdle\<close> that
  were ever made, with their answers in the order in which they were resolved. \<open>ps_hooks\<close> are the hooks that
  were registered and not taken back, \<open>ps_drained\<close> those that were so when a drain was first begun, and
  \<open>ps_called\<close> the hooks that were called, in order.
\<close>

record process =
  ps_service :: ApplicationLifecycleService
  ps_tracked :: "(InFlightWorkKind \<times> bool) list"
  ps_waited :: nat
  ps_answers :: "(nat \<times> bool) list"
  ps_hooks :: "nat set"
  ps_drained :: "nat set option"
  ps_called :: "nat list"

definition answered :: "nat \<Rightarrow> bool option \<times> ApplicationLifecycleService \<Rightarrow> process \<Rightarrow> process" where
  "answered promise r P =
     P\<lparr>ps_service := snd r, ps_answers := ps_answers P @ (case fst r of None \<Rightarrow> [] | Some b \<Rightarrow> [(promise, b)])\<rparr>"

definition finish_tracked :: "nat \<Rightarrow> process \<Rightarrow> process" where
  "finish_tracked i P =
     (case finishWork (fst (ps_tracked P ! i)) (snd (ps_tracked P ! i)) (ps_service P) of
        (finished, resolved, L) \<Rightarrow>
          P\<lparr>ps_service := L, ps_tracked := (ps_tracked P)[i := (fst (ps_tracked P ! i), finished)],
            ps_answers := ps_answers P @ map (\<lambda>w. (w, True)) resolved\<rparr>)"

inductive process_step :: "process \<Rightarrow> process \<Rightarrow> bool" where
  boot: "process_step P (P\<lparr>ps_service := onApplicationBootstrap (ps_service P)\<rparr>)"
| track: "process_step P (P\<lparr>ps_service := trackWork kind (ps_service P), ps_tracked := ps_tracked P @ [(kind, False)]\<rparr>)"
| finish: "i < length (ps_tracked P) \<Longrightarrow> process_step P (finish_tracked i P)"
| wait_idle: "process_step P (answered (ps_waited P) (waitForIdle (ps_waited P) (ps_service P)) (P\<lparr>ps_waited := ps_waited P + 1\<rparr>))"
| time_out: "process_step P (answered w (waitTimedOut w (ps_service P)) P)"
| hook: "process_step P (P\<lparr>ps_service := registerDrainHook h (ps_service P), ps_hooks := insert h (ps_hooks P)\<rparr>)"
| unhook: "process_step P (P\<lparr>ps_service := unregisterDrainHook h (ps_service P), ps_hooks := ps_hooks P - {h}\<rparr>)"
| begin_drain: "process_step P
    (P\<lparr>ps_service := snd (beginDrain (ps_service P)), ps_called := ps_called P @ fst (beginDrain (ps_service P)),
       ps_drained := (if ps_drained P = None then Some (ps_hooks P) else ps_drained P)\<rparr>)"

definition new_process :: process where
  "new_process = \<lparr>ps_service = initial_lifecycle, ps_tracked = [], ps_waited = 0, ps_answers = [], ps_hooks = {},
     ps_drained = None, ps_called = []\<rparr>"

inductive process_reachable :: "process \<Rightarrow> bool" where
  start: "process_reachable new_process"
| step: "process_reachable P \<Longrightarrow> process_step P Q \<Longrightarrow> process_reachable Q"

definition open_work :: "InFlightWorkKind \<Rightarrow> (InFlightWorkKind \<times> bool) list \<Rightarrow> nat" where
  "open_work kind ts = length (filter (\<lambda>t. t = (kind, False)) ts)"

definition counts_ok :: "process \<Rightarrow> bool" where
  "counts_ok P \<longleftrightarrow> (\<forall>kind. al_inFlightByKind (ps_service P) kind = int (open_work kind (ps_tracked P)))"

definition waiters_ok :: "process \<Rightarrow> bool" where
  "waiters_ok P \<longleftrightarrow>
     (let promises = al_idleWaiters (ps_service P) @ map fst (ps_answers P) in
      distinct promises \<and> set promises = {..<ps_waited P})"

definition idle_ok :: "process \<Rightarrow> bool" where
  "idle_ok P \<longleftrightarrow> al_idleWaiters (ps_service P) = [] \<or> inFlightWork (ps_service P) \<noteq> 0"

definition hooks_ok :: "process \<Rightarrow> bool" where
  "hooks_ok P \<longleftrightarrow> distinct (al_drainHooks (ps_service P)) \<and> set (al_drainHooks (ps_service P)) = ps_hooks P \<and>
     (if ps_drained P = None
      then al_state (ps_service P) \<noteq> app_draining \<and> al_drainPromise (ps_service P) = None \<and> ps_called P = []
      else al_state (ps_service P) = app_draining \<and> al_drainPromise (ps_service P) = Some (ps_called P) \<and>
        distinct (ps_called P) \<and> ps_drained P = Some (set (ps_called P)))"

definition process_ok :: "process \<Rightarrow> bool" where
  "process_ok P \<longleftrightarrow> counts_ok P \<and> waiters_ok P \<and> idle_ok P \<and> hooks_ok P"

lemma open_work_simps [simp]:
  "open_work kind [] = 0"
  "open_work kind (ts @ [(k, False)]) = open_work kind ts + (if k = kind then 1 else 0)"
  by (auto simp: open_work_def)

lemma open_work_update:
  "i < length ts \<Longrightarrow> ts ! i = (k, False) \<Longrightarrow>
     int (open_work kind (ts[i := (k, True)])) = int (open_work kind ts) - (if k = kind then 1 else 0)"
proof (induction ts arbitrary: i)
  case (Cons t ts)
  then show ?case by (cases i) (auto simp: open_work_def)
qed simp

lemma open_work_pos: "i < length ts \<Longrightarrow> ts ! i = (k, False) \<Longrightarrow> 0 < open_work k ts"
  unfolding open_work_def by (auto simp: length_greater_0_conv filter_empty_conv simp del: length_greater_0_conv intro!: nth_mem)

lemmas process_defs = counts_ok_def waiters_ok_def idle_ok_def hooks_ok_def inFlightWork_def Let_def

lemma process_start: "process_ok new_process"
  by (auto simp: process_ok_def process_defs initial_lifecycle_def new_process_def)

lemma finish_tracked_again: "i < length (ps_tracked P) \<Longrightarrow> ps_tracked P ! i = (k, True) \<Longrightarrow> finish_tracked i P = P"
  by (simp add: finish_tracked_def finishWork_def) (metis (no_types, lifting) list_update_id process.surjective process.update_convs)

lemma all_kinds: "(\<forall>kind. Q kind) \<longleftrightarrow> Q work_http \<and> Q work_realtime"
  by (metis InFlightWorkKind.exhaust)

text \<open>The end of a piece of work, on a process whose counts are right.\<close>

lemma finish_tracked_first:
  assumes "counts_ok P" and "i < length (ps_tracked P)" and "ps_tracked P ! i = (k, False)"
  defines "n \<equiv> (al_inFlightByKind (ps_service P))(k := al_inFlightByKind (ps_service P) k - 1)"
    and "idle \<equiv> \<forall>kind. open_work kind ((ps_tracked P)[i := (k, True)]) = 0"
  shows "finish_tracked i P = P\<lparr>
      ps_service := (ps_service P)\<lparr>al_inFlightByKind := n, al_idleWaiters := if idle then [] else al_idleWaiters (ps_service P)\<rparr>,
      ps_tracked := (ps_tracked P)[i := (k, True)],
      ps_answers := ps_answers P @ (if idle then map (\<lambda>w. (w, True)) (al_idleWaiters (ps_service P)) else [])\<rparr>"
    "n kind = int (open_work kind ((ps_tracked P)[i := (k, True)]))"
proof -
  have counts: "al_inFlightByKind (ps_service P) kind = int (open_work kind (ps_tracked P))" for kind
    using assms(1) by (simp add: counts_ok_def)
  show n: "n kind = int (open_work kind ((ps_tracked P)[i := (k, True)]))" for kind
    using counts open_work_update [OF assms(2,3), of kind] by (simp add: n_def)
  have "(\<forall>kind. open_work kind ts = 0) = (int (open_work work_http ts) + int (open_work work_realtime ts) = 0)" for ts
    by (auto simp: all_kinds)
  then have idle: "idle = (n work_http + n work_realtime = 0)" by (simp add: idle_def n)
  have "max 0 (al_inFlightByKind (ps_service P) k - 1) = al_inFlightByKind (ps_service P) k - 1"
    using counts [of k] open_work_pos [OF assms(2,3)] by simp
  then show "finish_tracked i P = P\<lparr>
      ps_service := (ps_service P)\<lparr>al_inFlightByKind := n, al_idleWaiters := if idle then [] else al_idleWaiters (ps_service P)\<rparr>,
      ps_tracked := (ps_tracked P)[i := (k, True)],
      ps_answers := ps_answers P @ (if idle then map (\<lambda>w. (w, True)) (al_idleWaiters (ps_service P)) else [])\<rparr>"
    by (simp add: finish_tracked_def finishWork_def assms(3) inFlightWork_def Let_def idle flip: n_def)
qed

lemma inFlightWork_counts:
  "counts_ok P \<Longrightarrow>
     inFlightWork (ps_service P) = int (open_work work_http (ps_tracked P) + open_work work_realtime (ps_tracked P))"
  by (simp add: counts_ok_def inFlightWork_def)

lemma process_ok_finish:
  assumes "process_ok P" and "i < length (ps_tracked P)"
  shows "process_ok (finish_tracked i P)"
proof (cases "snd (ps_tracked P ! i)")
  case True
  then have "ps_tracked P ! i = (fst (ps_tracked P ! i), True)" by (metis prod.collapse)
  then show ?thesis using finish_tracked_again [OF assms(2)] assms(1) by simp
next
  case False
  then have entry: "ps_tracked P ! i = (fst (ps_tracked P ! i), False)" by (metis prod.collapse)
  have counts: "counts_ok P" using assms(1) by (simp add: process_ok_def)
  note eff = finish_tracked_first [OF counts assms(2) entry]
  have counts': "counts_ok (finish_tracked i P)" using eff(2) by (simp add: eff(1) counts_ok_def)
  moreover have "waiters_ok (finish_tracked i P)"
    using assms(1) by (auto simp: eff(1) process_ok_def waiters_ok_def comp_def Let_def image_Un image_image)
  moreover have "idle_ok (finish_tracked i P)"
    using inFlightWork_counts [OF counts'] by (auto simp: eff(1) idle_ok_def all_kinds)
  moreover have "hooks_ok (finish_tracked i P)"
    using assms(1) by (simp add: eff(1) process_ok_def hooks_ok_def)
  ultimately show ?thesis by (simp add: process_ok_def)
qed

lemma process_ok_step:
  assumes "process_ok P" and "process_step P Q"
  shows "process_ok Q"
  using assms(2,1)
proof cases
  case boot
  then show ?thesis using assms(1) by (auto simp: process_ok_def process_defs onApplicationBootstrap_def)
next
  case (track kind)
  then show ?thesis using assms(1) by (cases kind) (auto simp: process_ok_def process_defs trackWork_def)
next
  case (finish i)
  then show ?thesis using process_ok_finish assms(1) by simp
next
  case wait_idle
  let ?ws = "al_idleWaiters (ps_service P)" and ?as = "map fst (ps_answers P)"
  have "distinct (?ws @ ?as)" "set (?ws @ ?as) = {..<ps_waited P}"
    using assms(1) by (simp_all add: process_ok_def waiters_ok_def Let_def)
  then have "distinct (?ws @ ps_waited P # ?as)" "set (?ws @ ps_waited P # ?as) = {..<Suc (ps_waited P)}"
    by (simp_all only: distinct_append distinct.simps set_append list.set lessThan_Suc) auto
  then have "waiters_ok Q"
    by (cases "inFlightWork (ps_service P) = 0")
      (simp_all add: wait_idle waiters_ok_def answered_def waitForIdle_def Let_def del: distinct_map)
  moreover have "counts_ok Q \<and> idle_ok Q \<and> hooks_ok Q" using assms(1)
    by (auto simp: wait_idle process_ok_def counts_ok_def idle_ok_def hooks_ok_def inFlightWork_def answered_def waitForIdle_def)
  ultimately show ?thesis by (simp add: process_ok_def)
next
  case (time_out w)
  show ?thesis
  proof (cases "w \<in> set (al_idleWaiters (ps_service P))")
    case True
    have "w \<notin> fst ` set (ps_answers P)" using True assms(1) by (auto simp: process_ok_def waiters_ok_def Let_def)
    then show ?thesis using assms(1) True
      by (auto simp: time_out process_ok_def process_defs answered_def waitTimedOut_def image_iff)
  next
    case False
    then show ?thesis using assms(1) by (simp add: time_out answered_def waitTimedOut_def)
  qed
next
  case (hook h)
  then show ?thesis using assms(1) by (auto simp: process_ok_def process_defs registerDrainHook_def)
next
  case (unhook h)
  then show ?thesis using assms(1) by (auto simp: process_ok_def process_defs unregisterDrainHook_def)
next
  case begin_drain
  then show ?thesis using assms(1)
    by (auto simp: process_ok_def process_defs beginDrain_def split: option.splits if_splits)
qed

lemma process_reachable_ok: "process_reachable P \<Longrightarrow> process_ok P"
  by (induction rule: process_reachable.induct) (auto intro: process_start process_ok_step)

lemma open_work_all: "length (filter (\<lambda>t. \<not> snd t) ts) = open_work work_http ts + open_work work_realtime ts"
proof (induction ts)
  case (Cons t ts)
  then show ?case by (cases t; cases "fst t") (auto simp: open_work_def)
qed (simp add: open_work_def)

text \<open>
  C28. In every state the process can reach, however the calls are ordered and however often the function that ends a
  piece of work is called, the work in flight is the number of pieces that were tracked and not finished; when it is
  zero every promise of \<open>waitForIdle\<close> has been answered, and none is ever answered twice. Until a drain is
  begun no drain hook is called; from then on the service is draining for good, and the hooks that were
  registered when it was first begun, those and no others, have each been called exactly once, however often a
  drain is begun again and whatever is registered later.
\<close>
theorem lifecycle_accounts:
  assumes "process_reachable P"
  shows "inFlightWork (ps_service P) = int (length (filter (\<lambda>t. \<not> snd t) (ps_tracked P))) \<and>
     (inFlightWork (ps_service P) = 0 \<longrightarrow> fst ` set (ps_answers P) = {..<ps_waited P}) \<and>
     distinct (map fst (ps_answers P)) \<and>
     (case ps_drained P of
        None \<Rightarrow> al_state (ps_service P) \<noteq> app_draining \<and> ps_called P = []
      | Some hooks \<Rightarrow> al_state (ps_service P) = app_draining \<and> set (ps_called P) = hooks \<and> distinct (ps_called P))"
proof -
  have ok: "counts_ok P" "waiters_ok P" "idle_ok P" "hooks_ok P"
    using process_reachable_ok [OF assms] by (simp_all add: process_ok_def)
  have "inFlightWork (ps_service P) = int (length (filter (\<lambda>t. \<not> snd t) (ps_tracked P)))"
    by (simp add: inFlightWork_counts [OF ok(1)] open_work_all)
  moreover have "fst ` set (ps_answers P) = {..<ps_waited P}" if "inFlightWork (ps_service P) = 0"
    using ok(2,3) that by (simp add: waiters_ok_def idle_ok_def Let_def)
  moreover have "distinct (map fst (ps_answers P))" using ok(2) by (simp add: waiters_ok_def Let_def)
  moreover have "case ps_drained P of
        None \<Rightarrow> al_state (ps_service P) \<noteq> app_draining \<and> ps_called P = []
      | Some hooks \<Rightarrow> al_state (ps_service P) = app_draining \<and> set (ps_called P) = hooks \<and> distinct (ps_called P)"
    using ok(4) by (auto simp: hooks_ok_def split: option.splits if_splits)
  ultimately show ?thesis by blast
qed

text \<open>A process that tracks a request, waits for it, ends it twice, and drains twice with a hook registered in between.\<close>

definition sample_busy :: process where
  "sample_busy = new_process\<lparr>ps_service := trackWork work_http initial_lifecycle, ps_tracked := [(work_http, False)]\<rparr>"

definition sample_finished :: process where
  "sample_finished = finish_tracked 0 (finish_tracked 0 (answered 0 (waitForIdle 0 (ps_service sample_busy)) (sample_busy\<lparr>ps_waited := 1\<rparr>)))"

definition sample_draining :: process where
  "sample_draining =
     (let L = registerDrainHook 7 (registerDrainHook 4 (registerDrainHook 7 (ps_service sample_finished))) in
      sample_finished\<lparr>ps_service := snd (beginDrain L), ps_hooks := {4, 7}, ps_drained := Some {4, 7}, ps_called := fst (beginDrain L)\<rparr>)"

definition sample_process :: process where
  "sample_process =
     (let L = registerDrainHook 9 (ps_service sample_draining) in
      sample_draining\<lparr>ps_service := snd (beginDrain L), ps_hooks := {4, 7, 9}, ps_called := ps_called sample_draining @ fst (beginDrain L)\<rparr>)"

lemma sample_finished_reachable: "process_reachable sample_finished"
proof -
  have "process_reachable sample_busy"
    using process_reachable.step [OF process_reachable.start process_step.track, of work_http]
    by (simp add: sample_busy_def new_process_def)
  from process_reachable.step [OF this process_step.wait_idle]
  have "process_reachable (answered 0 (waitForIdle 0 (ps_service sample_busy)) (sample_busy\<lparr>ps_waited := 1\<rparr>))"
    by (simp add: sample_busy_def new_process_def)
  moreover have "ps_tracked (answered 0 (waitForIdle 0 (ps_service sample_busy)) (sample_busy\<lparr>ps_waited := 1\<rparr>)) = [(work_http, False)]"
    by (simp add: answered_def sample_busy_def)
  ultimately have "process_reachable (finish_tracked 0 (answered 0 (waitForIdle 0 (ps_service sample_busy)) (sample_busy\<lparr>ps_waited := 1\<rparr>)))"
    by (intro process_reachable.step [OF _ process_step.finish]) auto
  then show ?thesis unfolding sample_finished_def
    by (rule process_reachable.step) (rule process_step.finish, simp add: finish_tracked_def answered_def sample_busy_def split: prod.splits)
qed

lemma finish_tracked_hooks [simp]:
  "ps_hooks (finish_tracked i P) = ps_hooks P" "ps_drained (finish_tracked i P) = ps_drained P"
  "ps_called (finish_tracked i P) = ps_called P"
  by (simp_all add: finish_tracked_def split: prod.splits)

lemma sample_process_reachable: "process_reachable sample_process"
proof -
  have f: "ps_hooks sample_finished = {}" "ps_drained sample_finished = None" "ps_called sample_finished = []"
    by (simp_all add: sample_finished_def sample_busy_def answered_def new_process_def)
  note hooks = process_reachable.step [OF process_reachable.step [OF process_reachable.step [OF sample_finished_reachable
      process_step.hook [where h = 7]] process_step.hook [where h = 4]] process_step.hook [where h = 7]]
  from process_reachable.step [OF hooks process_step.begin_drain] have "process_reachable sample_draining"
    by (rule back_subst [of process_reachable])
      (rule process.equality; simp add: sample_draining_def f Let_def insert_commute)
  from process_reachable.step [OF process_reachable.step [OF this process_step.hook [where h = 9]] process_step.begin_drain]
  show ?thesis
    by (rule back_subst [of process_reachable])
      (rule process.equality; simp add: sample_process_def sample_draining_def Let_def insert_commute)
qed

theorem lifecycle_accounts_witness:
  "inFlightWork (ps_service sample_process) = 0 \<and> ps_answers sample_process = [(0, True)] \<and>
   al_state (ps_service sample_process) = app_draining \<and> ps_called sample_process = [7, 4]"
proof (intro conjI)
  have drained: "ps_drained sample_process = Some {4, 7}"
    by (simp add: sample_process_def sample_draining_def Let_def)
  show "al_state (ps_service sample_process) = app_draining"
    using lifecycle_accounts [OF sample_process_reachable] by (simp add: drained)
  show "inFlightWork (ps_service sample_process) = 0" "ps_answers sample_process = [(0, True)]"
    "ps_called sample_process = [7, 4]" by code_simp+
qed

end
