(* ===== verification/Realtime_Gateway.thy ===== *)
theory Realtime_Gateway
  imports Matchmaking_Realtime Rate_Limits Application_Lifecycle
begin

text \<open>
  \<open>realtime.gateway.ts\<close> and \<open>active-game-lookup.service.ts\<close> under
  \<open>src/src/modules/realtime\<close>: what happens to a socket when it connects, sends an event and
  disconnects, and how the instance drains. The state is that of the counters of the rate
  limits, of Redis and of the database. An operation returns, in order, what the one
  socket is sent (\<open>answers\<close>) and the outputs of the services; \<open>escaped\<close> is an exception that
  leaves the handler. Logs, metrics and trace spans are left out.
\<close>

section \<open>Sockets\<close>

record AuthenticatedSocketIdentity =
  id_avatar :: string
  id_expiresAt :: string
  id_guestSessionId :: string
  id_name :: string

record RealtimeSocket =
  so_addressHash :: "string option"
  so_backpressureClosing :: bool
  so_correlationId :: "string option"
  so_identity :: "AuthenticatedSocketIdentity option"
  so_socketMember :: "string option"

datatype answer = Acknowledged json | SocketEvent json | GuestRoomJoined string | SocketDisconnected

record ('p, 'r, 'c) gateway =
  gw_realtime :: "('p, 'r) realtime"
  gw_redis :: "'r redis"
  gw_presence :: PresenceService
  gw_connections :: ConnectionRegistryService
  gw_counters :: "'c counters"
  gw_limits :: RealtimeRateLimitService

abbreviation gw_protocol :: "('p, 'r, 'c) gateway \<Rightarrow> RealtimeProtocolService" where
  "gw_protocol G \<equiv> rt_protocol (gw_realtime G)"

text \<open>
  What varies between calls: failures, the clock, the identifiers \<open>randomUUID\<close> gives, and
  what other requests do between two calls.
\<close>

record 'r incoming_env =
  in_correlation :: string
  in_request :: string
  in_limit :: redis_fault
  in_presence :: redis_fault
  in_presenceAt :: int
  in_connection :: redis_fault
  in_connectionAt :: int
  in_now :: int
  in_lookup :: tx_env
  in_command :: "'r command_env"
  in_others :: "nat \<Rightarrow> 'r world \<Rightarrow> 'r world"
  in_stamp :: "string \<times> int"

section \<open>Looking up the active game\<close>

definition findActiveGameId :: "tx_env \<Rightarrow> string \<Rightarrow> db \<Rightarrow> thrown + string option" where
  "findActiveGameId env guestSessionId db =
     read_row env (map_option a_game_id (find_assignment db guestSessionId))"

definition sessionReadyPayload :: "AuthenticatedSocketIdentity \<Rightarrow> string option \<Rightarrow> json" where
  "sessionReadyPayload identity activeGameId = JObj
     [(''activeGameId'', nullable JStr activeGameId),
      (''guest'', JObj
        [(''avatar'', JStr (id_avatar identity)), (''expiresAt'', JStr (id_expiresAt identity)),
         (''id'', JStr (id_guestSessionId identity)), (''name'', JStr (id_name identity))])]"

section \<open>Events of clients\<close>

text \<open>
  The two refreshes of a heartbeat and of a synchronisation. The socket's fields are
  read as the calls are made, so a missing address is noticed after the first call.
\<close>

definition refreshBoth ::
    "('p, 'r, 'c) gateway \<Rightarrow> 'r incoming_env \<Rightarrow> RealtimeSocket \<Rightarrow> string \<Rightarrow> 'r world \<Rightarrow>
     (realtime_thrown + (realtime_error + int) \<times> (realtime_error + unit)) \<times> 'r world" where
  "refreshBoth G env socket guest w =
     (case so_socketMember socket of
        None \<Rightarrow> (Inl OtherError, w)
      | Some member \<Rightarrow>
          (let (presence, w1) = on_redis (refresh (gw_redis G) (gw_presence G) (in_presence env) guest member (in_presenceAt env)) w in
           case so_addressHash socket of
             None \<Rightarrow> (Inl OtherError, w1)
           | Some addressHash \<Rightarrow>
               (let (connection, w2) = on_redis (refresh_connection (gw_redis G) (gw_connections G) (in_connection env)
                      addressHash member (in_connectionAt env)) (in_others env 0 w1) in
                (Inr (presence, connection), w2))))"

definition heartbeat ::
    "('p, 'r, 'c) gateway \<Rightarrow> 'r incoming_env \<Rightarrow> RealtimeSocket \<Rightarrow> string \<Rightarrow> 'r world \<Rightarrow> 'r outcome" where
  "heartbeat G env socket guest w =
     (case refreshBoth G env socket guest w of
        (Inl e, w1) \<Rightarrow> failed e w1
      | (Inr (Inl e, _), w1) \<Rightarrow> failed (Service (RealtimeErr e)) w1
      | (Inr (Inr _, Inl e), w1) \<Rightarrow> failed (Service (RealtimeErr e)) w1
      | (Inr (Inr _, Inr _), w1) \<Rightarrow>
          ((Inr \<lparr>cr_type = ''heartbeat.pong'',
              cr_payload = JObj [(''presenceExpiresInMs'', JNum (ps_presenceTtlMs (gw_presence G))), (''serverTime'', JNum (in_now env))],
              cr_gameVersion = None\<rparr>, []), w1))"

definition executeEvent ::
    "('p, 'r, 'c) gateway \<Rightarrow> 'r incoming_env \<Rightarrow> RealtimeSocket \<Rightarrow> AuthenticatedSocketIdentity \<Rightarrow> string \<Rightarrow>
     ClientEvent \<Rightarrow> 'r world \<Rightarrow> 'r outcome" where
  "executeEvent G env socket identity eventId event w =
     (let guest = id_guestSessionId identity;
          execute = (\<lambda>w. execute_command (gw_realtime G) (in_command env) guest eventId event w) in
      case event of
        heartbeat_ping \<Rightarrow> heartbeat G env socket guest w
      | game_sync gameId \<Rightarrow>
          (case refreshBoth G env socket guest w of
             (Inl e, w1) \<Rightarrow> failed e w1
           | (Inr _, w1) \<Rightarrow>
               if gameId \<noteq> None then execute (in_others env 1 w1)
               else
                 (let w2 = in_others env 1 w1 in
                  case findActiveGameId (in_lookup env) guest (snd w2) of
                    Inl e \<Rightarrow> failed (Service (GameErr e)) w2
                  | Inr None \<Rightarrow>
                      ((Inr \<lparr>cr_type = ''session.ready'', cr_payload = sessionReadyPayload identity None, cr_gameVersion = None\<rparr>,
                        []), w2)
                  | Inr (Some _) \<Rightarrow> execute (in_others env 2 w2)))
      | _ \<Rightarrow> execute w)"

definition rawCorrelationId :: "argument option \<Rightarrow> json option" where
  "rawCorrelationId rawEnvelope =
     (case rawEnvelope of Some (Data (JObj kvs)) \<Rightarrow> map_of kvs ''correlationId'' | _ \<Rightarrow> None)"

text \<open>\<open>a ?? b\<close>.\<close>

definition or_else :: "json option \<Rightarrow> json option \<Rightarrow> json option" where
  "or_else a b = (if a = None \<or> a = Some JNull then b else a)"

definition acknowledgment :: "argument list \<Rightarrow> bool" where
  "acknowledgment arguments \<longleftrightarrow> length arguments = 2 \<and> arguments ! 1 = Callback"

definition rawEnvelope :: "argument list \<Rightarrow> argument option" where
  "rawEnvelope arguments = (case arguments of [] \<Rightarrow> None | a # _ \<Rightarrow> Some a)"

type_synonym ('c, 'r) stores = "'c \<times> 'r world"

text \<open>The body of the command: the acknowledgement of its success, or what it throws.\<close>

definition attemptCommand ::
    "('p, 'r, 'c) gateway \<Rightarrow> 'r incoming_env \<Rightarrow> RealtimeSocket \<Rightarrow> string \<Rightarrow> argument list \<Rightarrow> string \<Rightarrow> ('c, 'r) stores \<Rightarrow>
     (realtime_thrown + json) \<times> outgoing list \<times> ('c, 'r) stores" where
  "attemptCommand G env socket eventName arguments correlation s =
     (if \<not> acknowledgment arguments then
        (Inl (Realtime (realtimeError INVALID_PAYLOAD ''Socket command acknowledgment is required'' False)), [], s)
      else
        (case parseClientEvent (gw_protocol G) eventName (rawEnvelope arguments) of
           Inl e \<Rightarrow> (Inl (Realtime e), [], s)
         | Inr event \<Rightarrow>
             (case so_identity socket of
                None \<Rightarrow> (Inl OtherError, [], s)
              | Some identity \<Rightarrow>
                  (case realtime_consume (gw_counters G) (gw_limits G) (in_limit env) (text_of (field ''type'' event))
                        (id_guestSessionId identity) (fst s) of
                     (Inl e, c) \<Rightarrow> (Inl (Realtime e), [], c, snd s)
                   | (Inr _, c) \<Rightarrow>
                       (case executeEvent G env socket identity (text_of (field ''eventId'' event)) (client_event event)
                             (in_others env 3 (snd s)) of
                          ((Inl e, outs), w) \<Rightarrow> (Inl e, outs, c, w)
                        | ((Inr result, outs), w) \<Rightarrow>
                            (createSuccessAck (gw_protocol G) (text_of (field ''eventId'' event)) correlation (cr_type result)
                               (cr_payload result) (cr_gameVersion result), outs, c, w))))))"

definition emitServerError ::
    "('p, 'r, 'c) gateway \<Rightarrow> string \<times> int \<Rightarrow> realtime_thrown \<Rightarrow> string \<Rightarrow> realtime_thrown + json" where
  "emitServerError G stamp error correlation =
     createServerEvent (gw_protocol G) (fst stamp) (snd stamp)
       ((draft ''server.error'' (error_json (mp_error (map_error error))))\<lparr>dr_correlationId := Some correlation\<rparr>)"

record ('c, 'r) handled =
  hd_answers :: "answer list"
  hd_escaped :: "realtime_thrown option"
  hd_outputs :: "outgoing list"
  hd_stores :: "('c, 'r) stores"

text \<open>An answer, or the exception that its creation throws.\<close>

definition answered_with ::
    "(json \<Rightarrow> answer) \<Rightarrow> realtime_thrown + json \<Rightarrow> outgoing list \<Rightarrow> ('c, 'r) stores \<Rightarrow> ('c, 'r) handled" where
  "answered_with how created outs s =
     (case created of
        Inl e \<Rightarrow> \<lparr>hd_answers = [], hd_escaped = Some e, hd_outputs = outs, hd_stores = s\<rparr>
      | Inr j \<Rightarrow> \<lparr>hd_answers = [how j], hd_escaped = None, hd_outputs = outs, hd_stores = s\<rparr>)"

definition handleIncoming ::
    "('p, 'r, 'c) gateway \<Rightarrow> 'r incoming_env \<Rightarrow> RealtimeSocket \<Rightarrow> string \<Rightarrow> argument list \<Rightarrow> ('c, 'r) stores \<Rightarrow>
     ('c, 'r) handled" where
  "handleIncoming G env socket eventName arguments s =
     (let raw = rawEnvelope arguments;
          correlation = correlationId (in_correlation env) (or_else (rawCorrelationId raw) (map_option JStr (so_correlationId socket)));
          request = requestEventId (in_request env) raw in
      case attemptCommand G env socket eventName arguments correlation s of
        (Inr ack, outs, s1) \<Rightarrow> answered_with Acknowledged (Inr ack) outs s1
      | (Inl error, outs, s1) \<Rightarrow>
          (let mapped = map_error error in
           if acknowledgment arguments then
             answered_with Acknowledged
               (createFailureAck (gw_protocol G) request correlation (mp_error mapped) (mp_responseType mapped) (mp_gameVersion mapped))
               outs s1
           else answered_with SocketEvent (emitServerError G (in_stamp env) error correlation) outs s1))"

section \<open>Connecting and disconnecting\<close>

record 'r initialize_env =
  iz_returned :: "'r connection_env"
  iz_stamps :: stamps
  iz_others :: "nat \<Rightarrow> 'r world \<Rightarrow> 'r world"
  iz_lookup :: tx_env
  iz_ready :: "string \<times> int"
  iz_command :: "'r command_env"
  iz_snapshot :: "string \<times> int"
  iz_correlation :: string
  iz_error :: "string \<times> int"

definition correlated :: "string option \<Rightarrow> ServerEventDraft \<Rightarrow> ServerEventDraft" where
  "correlated correlation d = (case correlation of None \<Rightarrow> d | Some c \<Rightarrow> d\<lparr>dr_correlationId := Some c\<rparr>)"

definition sessionReadyEvent ::
    "('p, 'r, 'c) gateway \<Rightarrow> 'r initialize_env \<Rightarrow> AuthenticatedSocketIdentity \<Rightarrow> string option \<Rightarrow> db \<Rightarrow>
     realtime_thrown + json \<times> string option" where
  "sessionReadyEvent G env identity correlation db =
     (case findActiveGameId (iz_lookup env) (id_guestSessionId identity) db of
        Inl e \<Rightarrow> Inl (Service (GameErr e))
      | Inr activeGameId \<Rightarrow>
          sbind (createServerEvent (gw_protocol G) (fst (iz_ready env)) (snd (iz_ready env))
              (correlated correlation (draft ''session.ready'' (sessionReadyPayload identity activeGameId))))
            (\<lambda>event. Inr (event, activeGameId)))"

definition emitInitialGameSnapshot ::
    "('p, 'r, 'c) gateway \<Rightarrow> 'r initialize_env \<Rightarrow> RealtimeSocket \<Rightarrow> string \<Rightarrow> string \<Rightarrow> 'r world \<Rightarrow>
     (realtime_thrown + json) \<times> outgoing list \<times> 'r world" where
  "emitInitialGameSnapshot G env socket guest gameId w =
     (case execute_command (gw_realtime G) (iz_command env) guest [] (game_sync (Some gameId)) w of
        ((Inl e, outs), w1) \<Rightarrow> (Inl e, outs, w1)
      | ((Inr result, outs), w1) \<Rightarrow>
          if cr_type result \<noteq> ''game.snapshot'' then (Inl OtherError, outs, w1)
          else
            (createServerEvent (gw_protocol G) (fst (iz_snapshot env)) (snd (iz_snapshot env))
               ((correlated (so_correlationId socket) (draft ''game.snapshot'' (cr_payload result)))
                  \<lparr>dr_gameId := Some gameId, dr_gameVersion := cr_gameVersion result\<rparr>),
             outs, w1))"

text \<open>The steps inside the \<open>try\<close>: what the socket was sent, and the exception that ended them.\<close>

definition initializeSteps ::
    "('p, 'r, 'c) gateway \<Rightarrow> 'r initialize_env \<Rightarrow> RealtimeSocket \<Rightarrow> AuthenticatedSocketIdentity \<Rightarrow> 'r world \<Rightarrow>
     answer list \<times> realtime_thrown option \<times> outgoing list \<times> 'r world" where
  "initializeSteps G env socket identity w =
     (let guest = id_guestSessionId identity; room = [GuestRoomJoined (guestRoom guest)] in
      case guest_returned (gw_realtime G) (iz_returned env) (iz_stamps env) guest w of
        ((Inl e, outs), w1) \<Rightarrow> (room, Some e, outs, w1)
      | ((Inr _, outs), w1) \<Rightarrow>
          (let w2 = iz_others env 0 w1 in
           case sessionReadyEvent G env identity (so_correlationId socket) (snd w2) of
             Inl e \<Rightarrow> (room, Some e, outs, w2)
           | Inr (event, None) \<Rightarrow> (room @ [SocketEvent event], None, outs, w2)
           | Inr (event, Some gameId) \<Rightarrow>
               (case emitInitialGameSnapshot G env socket guest gameId (iz_others env 1 w2) of
                  (Inl e, outs', w3) \<Rightarrow> (room @ [SocketEvent event], Some e, outs @ outs', w3)
                | (Inr snapshot, outs', w3) \<Rightarrow> (room @ [SocketEvent event, SocketEvent snapshot], None, outs @ outs', w3))))"

record 'r initialized =
  iv_answers :: "answer list"
  iv_escaped :: "realtime_thrown option"
  iv_outputs :: "outgoing list"
  iv_world :: "'r world"

definition initializeSocket ::
    "('p, 'r, 'c) gateway \<Rightarrow> 'r initialize_env \<Rightarrow> RealtimeSocket \<Rightarrow> 'r world \<Rightarrow> 'r initialized" where
  "initializeSocket G env socket w =
     (case so_identity socket of
        None \<Rightarrow> \<lparr>iv_answers = [], iv_escaped = Some OtherError, iv_outputs = [], iv_world = w\<rparr>
      | Some identity \<Rightarrow>
          (case initializeSteps G env socket identity w of
             (sent, None, outs, w1) \<Rightarrow> \<lparr>iv_answers = sent, iv_escaped = None, iv_outputs = outs, iv_world = w1\<rparr>
           | (sent, Some error, outs, w1) \<Rightarrow>
               (case emitServerError G (iz_error env) error
                    (case so_correlationId socket of Some c \<Rightarrow> c | None \<Rightarrow> correlationId (iz_correlation env) None) of
                  Inl e \<Rightarrow> \<lparr>iv_answers = sent, iv_escaped = Some e, iv_outputs = outs, iv_world = w1\<rparr>
                | Inr event \<Rightarrow>
                    \<lparr>iv_answers = sent @ [SocketEvent event, SocketDisconnected], iv_escaped = None, iv_outputs = outs, iv_world = w1\<rparr>)))"

record 'r cleanup_env =
  cl_presence :: redis_fault
  cl_presenceAt :: int
  cl_connection :: redis_fault
  cl_others :: "nat \<Rightarrow> 'r world \<Rightarrow> 'r world"
  cl_departure :: "'r departure_env"

definition cleanUpSocket ::
    "('p, 'r, 'c) gateway \<Rightarrow> 'r cleanup_env \<Rightarrow> RealtimeSocket \<Rightarrow> 'r world \<Rightarrow> outgoing list \<times> 'r world" where
  "cleanUpSocket G env socket w =
     (case (so_identity socket, so_addressHash socket, so_socketMember socket) of
        (Some identity, Some addressHash, Some socketMember) \<Rightarrow>
          (let guest = id_guestSessionId identity;
               (presence, w1) = on_redis (remove (gw_redis G) (cl_presence env) guest socketMember (cl_presenceAt env)) w;
               (_, w2) = on_redis (release_connection (gw_redis G) (cl_connection env) addressHash socketMember) (cl_others env 0 w1) in
           if presence = Inr 0 then guest_departed (gw_realtime G) (cl_departure env) guest (cl_others env 1 w2) else ([], w2))
      | _ \<Rightarrow> ([], w))"

section \<open>The sockets of the instance\<close>

record RealtimeGateway =
  rg_server :: bool
  rg_tracked :: "string set"

record drain_settings =
  dn_graceMs :: int
  dn_timeoutMs :: int
  dn_txTimeoutMs :: int

definition gateway_afterInit :: "RealtimeGateway \<Rightarrow> RealtimeGateway" where
  "gateway_afterInit g = g\<lparr>rg_server := True\<rparr>"

definition gateway_shutdown :: "RealtimeGateway \<Rightarrow> RealtimeGateway" where
  "gateway_shutdown g = \<lparr>rg_server = False, rg_tracked = {}\<rparr>"

definition createDrainAdvisory ::
    "RealtimeProtocolService \<Rightarrow> drain_settings \<Rightarrow> string \<times> int \<Rightarrow> realtime_thrown + json" where
  "createDrainAdvisory P D stamp =
     createServerEvent P (fst stamp) (snd stamp) (draft ''server.error'' (error_json
       ((plainPayload SERVICE_UNAVAILABLE ''This server is restarting; reconnect to another instance.'' True)
          \<lparr>pe_retryAfterMs := Some (dn_graceMs D)\<rparr>)))"

text \<open>A connection that comes in while the instance drains is told so and closed; any other is set up.\<close>

datatype connected = SetUp | Refused "answer list" | ConnectionEscaped realtime_thrown

definition handleConnection ::
    "RealtimeProtocolService \<Rightarrow> drain_settings \<Rightarrow> string \<times> int \<Rightarrow> bool \<Rightarrow> string \<Rightarrow> RealtimeGateway \<Rightarrow>
     connected \<times> RealtimeGateway" where
  "handleConnection P D stamp ready socketId g =
     (if ready then SetUp
      else (case createDrainAdvisory P D stamp of
          Inl e \<Rightarrow> ConnectionEscaped e
        | Inr event \<Rightarrow> Refused [SocketEvent event, SocketDisconnected]),
      g\<lparr>rg_tracked := insert socketId (rg_tracked g)\<rparr>)"

definition handleDisconnect :: "string \<Rightarrow> RealtimeGateway \<Rightarrow> RealtimeGateway" where
  "handleDisconnect socketId g = g\<lparr>rg_tracked := rg_tracked g - {socketId}\<rparr>"

record handshake_error =
  he_code :: ProtocolErrorCode
  he_message :: string
  he_retryAfterMs :: "int option"
  he_retryable :: bool

definition drainingHandshakeError :: "drain_settings \<Rightarrow> handshake_error" where
  "drainingHandshakeError D =
     \<lparr>he_code = SERVICE_UNAVAILABLE, he_message = ''This server is draining; reconnect to another instance.'',
      he_retryAfterMs = Some (dn_graceMs D), he_retryable = True\<rparr>"

definition handshakeError :: "realtime_thrown \<Rightarrow> handshake_error" where
  "handshakeError thrown =
     (let error = mp_error (map_error thrown) in
      \<lparr>he_code = pe_code error, he_message = pe_message error, he_retryAfterMs = None, he_retryable = pe_retryable error\<rparr>)"

text \<open>A socket whose send queue has reached the bound is closed, once.\<close>

definition enforceBackpressure :: "int \<Rightarrow> int option \<Rightarrow> RealtimeSocket \<Rightarrow> bool \<times> RealtimeSocket" where
  "enforceBackpressure maxSendQueuePackets writeBuffer socket =
     (let depth = (case writeBuffer of None \<Rightarrow> 0 | Some n \<Rightarrow> n) in
      if depth < maxSendQueuePackets \<or> so_backpressureClosing socket then (False, socket)
      else (True, socket\<lparr>so_backpressureClosing := True\<rparr>))"

section \<open>Draining\<close>

definition cleanupWindowMs :: "drain_settings \<Rightarrow> int" where
  "cleanupWindowMs D = dn_txTimeoutMs D + 100"

definition workWindowMs :: "drain_settings \<Rightarrow> int" where
  "workWindowMs D = max 0 (dn_timeoutMs D - dn_graceMs D - cleanupWindowMs D - 100)"

text \<open>
  How long \<open>waitForIdle\<close> takes when the work ends after \<open>idleAfter\<close> milliseconds, or never, and
  its answer.
\<close>

definition idle_wait :: "int \<Rightarrow> int option \<Rightarrow> int \<times> bool" where
  "idle_wait timeoutMs idleAfter =
     (case idleAfter of
        None \<Rightarrow> (timeoutMs, False)
      | Some d \<Rightarrow> if d \<le> 0 then (0, True) else if d < timeoutMs then (d, True) else (timeoutMs, False))"

datatype drain_event = Advised json | WorkLeft | SocketsDisconnected | CleanupLeft | Drained

text \<open>What the drain does, with the milliseconds since it began.\<close>

definition drainConnections ::
    "RealtimeProtocolService \<Rightarrow> drain_settings \<Rightarrow> string \<times> int \<Rightarrow> int option \<Rightarrow> int option \<Rightarrow> RealtimeGateway \<Rightarrow>
     realtime_thrown + (int \<times> drain_event) list" where
  "drainConnections P D stamp idleAfter cleanAfter g =
     (if \<not> rg_server g then Inr []
      else
        sbind (createDrainAdvisory P D stamp) (\<lambda>event.
          let (worked, idle) = idle_wait (workWindowMs D) idleAfter;
              off = max worked (dn_graceMs D);
              (cleaned, clean) = idle_wait (cleanupWindowMs D) cleanAfter in
          Inr ([(0, Advised event)] @ (if idle then [] else [(off, WorkLeft)]) @ [(off, SocketsDisconnected)] @
            (if clean then [] else [(off + cleaned, CleanupLeft)]) @ [(off + cleaned, Drained)])))"

end
