(* ===== verification/Rate_Limit_Properties.thy ===== *)
theory Rate_Limit_Properties
  imports Rate_Limits
begin

text \<open>
  What the command limits of \<open>realtime-rate-limit.service.ts\<close> promise over time: a guest gets at
  most twice the configured limit of commands of a scope through in any window, wherever the
  window starts, because the counter restarts at most once inside it.
\<close>

lemma length_filter_weaken: "(\<And>x. P x \<Longrightarrow> Q x) \<Longrightarrow> length (filter P xs) \<le> length (filter Q xs)"
  by (induction xs) auto

section \<open>How many commands a guest may send\<close>

text \<open>Time passes, or a guest sends a command, with what becomes of the call of Redis.\<close>

datatype limiter_step = Wait int | Call redis_fault string string

fun limiter_run :: "'c counters \<Rightarrow> 'c observed \<Rightarrow> RealtimeRateLimitService \<Rightarrow> limiter_step list \<Rightarrow> 'c \<Rightarrow> 'c" where
  "limiter_run C V L [] s = s"
| "limiter_run C V L (Wait d # steps) s = limiter_run C V L steps (wait V d s)"
| "limiter_run C V L (Call fault event u # steps) s = limiter_run C V L steps (snd (realtime_consume C L fault event u s))"

text \<open>The commands of one guest in one scope that are let through: when, and whether Redis answered.\<close>

fun admissions ::
    "'c counters \<Rightarrow> 'c observed \<Rightarrow> RealtimeRateLimitService \<Rightarrow> string \<Rightarrow> string \<Rightarrow> limiter_step list \<Rightarrow> 'c \<Rightarrow>
     (int \<times> bool) list" where
  "admissions C V L scope guest [] s = []"
| "admissions C V L scope guest (Wait d # steps) s = admissions C V L scope guest steps (wait V d s)"
| "admissions C V L scope guest (Call fault event u # steps) s =
     (case realtime_consume C L fault event u s of
        (r, s') \<Rightarrow>
          (if r = Inr () \<and> u = guest \<and> realtime_scope event = scope then [(at_time V s, fault = redis_up)] else []) @
          admissions C V L scope guest steps s')"

definition answered_in :: "int \<Rightarrow> int \<Rightarrow> int \<times> bool \<Rightarrow> bool" where
  "answered_in lo hi a \<longleftrightarrow> snd a \<and> lo \<le> fst a \<and> fst a < hi"

text \<open>A command of the guest in the scope that Redis did not answer.\<close>

fun unanswered :: "string \<Rightarrow> string \<Rightarrow> limiter_step \<Rightarrow> bool" where
  "unanswered scope guest (Wait d) = False"
| "unanswered scope guest (Call fault event u) = (fault \<noteq> redis_up \<and> u = guest \<and> realtime_scope event = scope)"

definition policy_ok :: "RateLimitPolicy \<Rightarrow> bool" where
  "policy_ok p \<longleftrightarrow> 0 < rl_limit p \<and> 0 < rl_windowMs p"

definition limits_ok :: "RealtimeRateLimitService \<Rightarrow> bool" where
  "limits_ok L \<longleftrightarrow> policy_ok (rr_queue L) \<and> policy_ok (rr_move L) \<and> policy_ok (rr_sync L)"

fun waits :: "limiter_step \<Rightarrow> bool" where
  "waits (Wait d) = (0 \<le> d)"
| "waits (Call fault event u) = True"

lemma realtime_policy_ok: "limits_ok L \<Longrightarrow> policy_ok (realtime_policy L scope)"
  by (simp add: limits_ok_def realtime_policy_def)

lemma realtime_key_eq_iff:
  assumes "scope \<in> {''queue'', ''move'', ''sync''}" and "scope' \<in> {''queue'', ''move'', ''sync''}"
  shows "realtime_key scope u = realtime_key scope' u' \<longleftrightarrow> scope = scope' \<and> u = u'"
  using assms by (auto simp: realtime_key_def)

lemma realtime_scopes: "realtime_scope event \<in> {''queue'', ''move'', ''sync''}"
  by (simp add: realtime_scope_def)

text \<open>What a command does to the counter of a scope and guest; when Redis refuses the call nothing is counted.\<close>

lemma consume_effect:
  fixes guest :: string
  assumes ok: "counters_ok C V" and live: "\<forall>k. live V k s" and L: "limits_ok L"
    and scope: "scope \<in> {''queue'', ''move'', ''sync''}"
    and step: "realtime_consume C L fault event u s = (r, s')"
  defines "key \<equiv> realtime_key scope guest"
    and "mine \<equiv> u = guest \<and> realtime_scope event = scope \<and> fault \<noteq> redis_refused"
  shows "at_time V s' = at_time V s" "\<forall>k. live V k s'"
    "\<not> mine \<Longrightarrow> at_key V key s' = at_key V key s"
    "mine \<Longrightarrow> at_key V key s' =
       (case at_key V key s of None \<Rightarrow> Some (1, Some (at_time V s + rl_windowMs (realtime_policy L scope)))
        | Some (n, e) \<Rightarrow> Some (n + 1, e))"
    "mine \<Longrightarrow> fault = redis_up \<Longrightarrow>
       r = Inr () \<longleftrightarrow> (case at_key V key s of None \<Rightarrow> True | Some (n, e) \<Rightarrow> n < rl_limit (realtime_policy L scope))"
    "fault \<noteq> redis_up \<Longrightarrow> r = Inr ()"
proof -
  let ?sc = "realtime_scope event"
  let ?k = "realtime_key ?sc u" and ?p = "realtime_policy L ?sc"
  obtain reply s1 where script: "limit_script C ?k (rl_windowMs ?p) s = (reply, s1)" by fastforce
  have s': "s' = (if fault = redis_refused then s else s1)"
    and r: "r = (if fault = redis_up \<and> fst reply > rl_limit ?p then Inl (realtime_limited (max 1 (snd reply))) else Inr ())"
    using step script
    by (auto simp: realtime_consume_def consume_def over_limit_def Let_def split: prod.splits option.splits if_splits redis_fault.splits)
  have w: "0 < rl_windowMs ?p" "0 < rl_limit ?p" using realtime_policy_ok [OF L] by (auto simp: policy_ok_def)
  note eff = limit_script_effect [OF ok live [rule_format] w(1) script]
  show "at_time V s' = at_time V s" by (simp add: s' eff(3))
  have "live V ?k s1"
    using live [rule_format, of ?k] w(1) by (auto simp: live_def eff(1,2,3) split: option.splits)
  moreover have "live V j s1" if "j \<noteq> ?k" for j using live [rule_format, of j] eff(4) [OF that] by (simp add: live_def eff(3))
  ultimately have "\<forall>k. live V k s1" by metis
  then show "\<forall>k. live V k s'" using live by (simp add: s')
  have same: "key = ?k \<longleftrightarrow> u = guest \<and> realtime_scope event = scope"
    using realtime_key_eq_iff [OF scope realtime_scopes, of guest event u] by (auto simp: key_def)
  show "at_key V key s' = at_key V key s" if "\<not> mine" using that same eff(4) by (auto simp: s' mine_def)
  show "r = Inr ()" if "fault \<noteq> redis_up" using that by (simp add: r)
  assume mine: mine
  then have k: "key = ?k" "?p = realtime_policy L scope" and s1: "s' = s1" using same by (auto simp: mine_def s')
  show "at_key V key s' =
       (case at_key V key s of None \<Rightarrow> Some (1, Some (at_time V s + rl_windowMs (realtime_policy L scope)))
        | Some (n, e) \<Rightarrow> Some (n + 1, e))"
    using live [rule_format, of ?k] unfolding k s1 by (auto simp: eff(1,2) live_def k(2) [symmetric] split: option.splits)
  show "r = Inr () \<longleftrightarrow> (case at_key V key s of None \<Rightarrow> True | Some (n, e) \<Rightarrow> n < rl_limit (realtime_policy L scope))"
    if "fault = redis_up"
    using w(2) that unfolding k by (auto simp: r eff(2) k(2) [symmetric] split: option.splits)
qed

lemma wait_effect:
  assumes ok: "counters_ok C V" and live: "\<forall>k. live V k s" and "0 \<le> d"
  shows "at_time V (wait V d s) = at_time V s + d" "\<forall>k. live V k (wait V d s)"
    "at_key V k (wait V d s) = (case at_key V k s of Some (n, Some e) \<Rightarrow> if e \<le> at_time V s + d then None else Some (n, Some e) | _ \<Rightarrow> None)"
proof -
  have law: "wait_law V" using ok by (simp add: counters_ok_def)
  show t: "at_time V (wait V d s) = at_time V s + d" using law assms(3) by (simp add: wait_law_def)
  have key: "at_key V k (wait V d s) = (case at_key V k s of Some (n, Some e) \<Rightarrow> if e \<le> at_time V s + d then None else Some (n, Some e) | _ \<Rightarrow> None)" for k
    using law assms(3) live [rule_format, of k] by (auto simp: wait_law_def live_def split: option.splits)
  show "at_key V k (wait V d s) = (case at_key V k s of Some (n, Some e) \<Rightarrow> if e \<le> at_time V s + d then None else Some (n, Some e) | _ \<Rightarrow> None)"
    by (rule key)
  show "\<forall>k. live V k (wait V d s)"
    using live by (auto simp: live_def key t split: option.splits if_splits)
qed

text \<open>How many commands may still be let through before \<open>hi\<close>, at most a window after the counter starts.\<close>

definition budget :: "'c observed \<Rightarrow> RateLimitPolicy \<Rightarrow> string \<Rightarrow> int \<Rightarrow> 'c \<Rightarrow> int" where
  "budget V p key hi s =
     (if hi \<le> at_time V s then 0
      else case at_key V key s of
          Some (n, Some e) \<Rightarrow> max 0 (rl_limit p - n) + (if hi \<le> e then 0 else rl_limit p)
        | _ \<Rightarrow> rl_limit p)"

definition near :: "'c observed \<Rightarrow> RateLimitPolicy \<Rightarrow> string \<Rightarrow> int \<Rightarrow> 'c \<Rightarrow> bool" where
  "near V p key hi s \<longleftrightarrow>
     hi \<le> (case at_key V key s of Some (n, Some e) \<Rightarrow> e | _ \<Rightarrow> at_time V s) + rl_windowMs p"

lemma admissions_budget:
  assumes ok: "counters_ok C V" and L: "limits_ok L" and scope: "scope \<in> {''queue'', ''move'', ''sync''}"
    and "\<forall>k. live V k s" and "list_all waits steps"
    and "near V (realtime_policy L scope) (realtime_key scope guest) hi s"
  shows "int (length (filter (\<lambda>a. snd a \<and> fst a < hi) (admissions C V L scope guest steps s))) \<le>
    budget V (realtime_policy L scope) (realtime_key scope guest) hi s"
  using assms(4-6)
proof (induction steps arbitrary: s)
  case Nil
  have "0 < rl_limit (realtime_policy L scope)" using realtime_policy_ok [OF L] by (simp add: policy_ok_def)
  then show ?case by (auto simp: budget_def split: option.splits)
next
  case (Cons step steps)
  let ?p = "realtime_policy L scope" and ?k = "realtime_key scope guest"
  have pos: "0 < rl_limit ?p" "0 < rl_windowMs ?p" using realtime_policy_ok [OF L] by (auto simp: policy_ok_def)
  show ?case
  proof (cases step)
    case (Wait d)
    then have d: "0 \<le> d" using Cons.prems(2) by simp
    note eff = wait_effect [OF ok Cons.prems(1) d]
    have "near V ?p ?k hi (wait V d s)" and le: "budget V ?p ?k hi (wait V d s) \<le> budget V ?p ?k hi s"
      using Cons.prems(1,3) d pos
      by (auto simp: near_def budget_def eff(1,3) live_def split: option.splits if_splits)
    with Cons.IH [OF eff(2)] Cons.prems(2) le show ?thesis by (simp add: Wait)
  next
    case (Call fault event u)
    obtain r s' where step: "realtime_consume C L fault event u s = (r, s')" by fastforce
    note eff = consume_effect [OF ok Cons.prems(1) L scope step]
    let ?mine = "u = guest \<and> realtime_scope event = scope \<and> fault \<noteq> redis_refused"
    have "near V ?p ?k hi s'"
      and le: "budget V ?p ?k hi s' + (if r = Inr () \<and> ?mine \<and> fault = redis_up \<and> at_time V s < hi then 1 else 0) \<le> budget V ?p ?k hi s"
      using Cons.prems(1,3) pos eff(3-5)
      by (cases ?mine; auto simp: near_def budget_def eff(1) live_def split: option.splits if_splits)+
    with Cons.IH [OF eff(2)] Cons.prems(2) show ?thesis by (auto simp: Call step split: if_splits)
  qed
qed

lemma counters_stay_live:
  "counters_ok C V \<Longrightarrow> limits_ok L \<Longrightarrow> \<forall>k. live V k s \<Longrightarrow> list_all waits steps \<Longrightarrow> live V k (limiter_run C V L steps s)"
proof (induction steps arbitrary: s)
  case (Cons step steps)
  show ?case
  proof (cases step)
    case (Wait d)
    then show ?thesis using Cons wait_effect(2) [OF Cons.prems(1,3), of d] by simp
  next
    case (Call fault event u)
    have "\<forall>k. live V k (snd (realtime_consume C L fault event u s))"
      using consume_effect(2) [OF Cons.prems(1,3,2), of "''move''" fault event u] by (metis insertI1 insertI2 prod.collapse)
    then show ?thesis using Cons by (simp add: Call)
  qed
qed simp

text \<open>A call that Redis does not answer is let through.\<close>

lemma unanswered_admitted:
  "length (filter (\<lambda>a. \<not> snd a) (admissions C V L scope guest steps s)) = length (filter (unanswered scope guest) steps)"
proof (induction steps arbitrary: s)
  case (Cons step steps)
  show ?case
  proof (cases step)
    case (Call fault event u)
    obtain r s' where step: "realtime_consume C L fault event u s = (r, s')" by fastforce
    have "r = Inr ()" if "fault \<noteq> redis_up"
      using that step by (cases fault) (auto simp: realtime_consume_def consume_def Let_def split: prod.splits)
    then show ?thesis using Cons.IH [of s'] by (auto simp: Call step)
  qed (use Cons.IH in simp)
qed simp

lemma admissions_within:
  assumes "counters_ok C V" and "limits_ok L" and "scope \<in> {''queue'', ''move'', ''sync''}"
    and "\<forall>k. live V k s" and "list_all waits steps"
  shows "int (length (filter (answered_in lo (lo + rl_windowMs (realtime_policy L scope))) (admissions C V L scope guest steps s))) \<le>
    2 * rl_limit (realtime_policy L scope)"
  using assms(4,5)
proof (induction steps arbitrary: s)
  case Nil
  show ?case using realtime_policy_ok [OF assms(2), of scope] by (simp add: policy_ok_def)
next
  case (Cons step steps)
  let ?p = "realtime_policy L scope"
  let ?hi = "lo + rl_windowMs ?p"
  show ?case
  proof (cases "lo \<le> at_time V s")
    case True
    have "near V ?p (realtime_key scope guest) ?hi s"
      using True Cons.prems(1) by (fastforce simp: near_def live_def split: option.splits)
    then have "int (length (filter (\<lambda>a. snd a \<and> fst a < ?hi) (admissions C V L scope guest (step # steps) s))) \<le>
        budget V ?p (realtime_key scope guest) ?hi s"
      by (rule admissions_budget [OF assms(1-3) Cons.prems])
    moreover have "budget V ?p (realtime_key scope guest) ?hi s \<le> 2 * rl_limit ?p"
      using Cons.prems(1) realtime_policy_ok [OF assms(2), of scope]
      by (fastforce simp: budget_def live_def policy_ok_def split: option.splits)
    moreover have "length (filter (answered_in lo ?hi) (admissions C V L scope guest (step # steps) s)) \<le>
        length (filter (\<lambda>a. snd a \<and> fst a < ?hi) (admissions C V L scope guest (step # steps) s))"
      by (rule length_filter_weaken) (simp add: answered_in_def)
    ultimately show ?thesis by linarith
  next
    case False
    then show ?thesis
    proof (cases step)
      case (Wait d)
      then show ?thesis using Cons.IH [OF wait_effect(2) [OF assms(1) Cons.prems(1)]] Cons.prems(2) by simp
    next
      case (Call fault event u)
      obtain r s' where step: "realtime_consume C L fault event u s = (r, s')" by fastforce
      show ?thesis
        using False Cons.IH [OF consume_effect(2) [OF assms(1) Cons.prems(1) assms(2,3) step]] Cons.prems(2)
        by (simp add: Call step answered_in_def)
    qed
  qed
qed

text \<open>
  C27. Whatever guests send, whenever they send it and whichever calls of Redis fail, Redis lets at most twice the limit
  of commands of a scope and guest through in any stretch of time as long as the window, wherever that
  stretch starts: the counter of the guest and the scope can restart only once inside it, and no other guest's
  or scope's commands touch it. Every command that Redis does not answer is let through besides, since the service
  fails open; such a command still counts when only the answer was lost. Afterwards every counter there is still has
  a time at which it expires, so no guest is ever locked out for good.
\<close>
theorem admissions_bounded:
  assumes "counters_ok C V" and "limits_ok L" and "scope \<in> {''queue'', ''move'', ''sync''}"
    and "\<forall>k. live V k s" and "list_all waits steps"
  shows "int (length (filter (answered_in lo (lo + rl_windowMs (realtime_policy L scope))) (admissions C V L scope guest steps s))) \<le>
      2 * rl_limit (realtime_policy L scope) \<and>
    length (filter (\<lambda>a. \<not> snd a) (admissions C V L scope guest steps s)) = length (filter (unanswered scope guest) steps) \<and>
    (\<forall>k. live V k (limiter_run C V L steps s))"
  by (intro conjI allI admissions_within unanswered_admitted counters_stay_live assms)

section \<open>A store of counters\<close>

type_synonym sample_counts = "int \<times> (string \<Rightarrow> (int \<times> int option) option)"

definition sample_counters :: "sample_counts counters" where
  "sample_counters =
     \<lparr>ct_incr = (\<lambda>k (t, m). let r = (case m k of None \<Rightarrow> (1, None) | Some (n, e) \<Rightarrow> (n + 1, e)) in (fst r, t, m(k \<mapsto> r))),
      ct_pexpire = (\<lambda>k d (t, m). (t, m(k := map_option (\<lambda>(n, e). (n, Some (t + d))) (m k)))),
      ct_pttl = (\<lambda>k (t, m). case m k of None \<Rightarrow> -2 | Some (n, None) \<Rightarrow> -1 | Some (n, Some e) \<Rightarrow> e - t)\<rparr>"

definition sample_observed :: "sample_counts observed" where
  "sample_observed =
     \<lparr>at_key = (\<lambda>k (t, m). m k), at_time = fst,
      wait = (\<lambda>d (t, m). (t + d, \<lambda>k. case m k of Some (n, Some e) \<Rightarrow> if e \<le> t + d then None else Some (n, Some e) | r \<Rightarrow> r))\<rparr>"

lemma sample_counters_ok: "counters_ok sample_counters sample_observed"
  by (auto simp: counters_ok_def incr_law_def expire_law_def pttl_law_def wait_law_def sample_counters_def sample_observed_def
      Let_def split: option.splits)

definition sample_limits :: RealtimeRateLimitService where
  "sample_limits =
     \<lparr>rr_queue = \<lparr>rl_limit = 1, rl_windowMs = 10\<rparr>, rr_move = \<lparr>rl_limit = 2, rl_windowMs = 10\<rparr>,
      rr_sync = \<lparr>rl_limit = 3, rl_windowMs = 10\<rparr>\<rparr>"

definition sample_steps :: "limiter_step list" where
  "sample_steps =
     [Call redis_up ''move.submit'' ''u'', Wait 9, Call redis_up ''game.resign'' ''u'', Call redis_up ''move.submit'' ''u'',
      Call redis_up ''move.submit'' ''w'', Call redis_refused ''move.submit'' ''u'', Wait 1, Call redis_up ''move.submit'' ''u'',
      Call redis_up ''move.submit'' ''u'', Call redis_up ''move.submit'' ''u'', Call redis_lost ''move.submit'' ''u'']"

abbreviation sample_admissions :: "(int \<times> bool) list" where
  "sample_admissions \<equiv> admissions sample_counters sample_observed sample_limits ''move'' ''u'' sample_steps (0, Map.empty)"

theorem admissions_bounded_witness:
  "int (length (filter (answered_in 9 19) sample_admissions)) \<le> 2 * 2 \<and> length (filter (\<lambda>a. \<not> snd a) sample_admissions) = 2 \<and>
   live sample_observed ''rl:move:u'' (limiter_run sample_counters sample_observed sample_limits sample_steps (0, Map.empty)) \<and>
   sample_admissions = [(0, True), (9, True), (9, False), (10, True), (10, True), (10, False)]"
proof -
  have policy: "realtime_policy sample_limits ''move'' = \<lparr>rl_limit = 2, rl_windowMs = 10\<rparr>"
    by (simp add: realtime_policy_def sample_limits_def)
  have "limits_ok sample_limits" by (simp add: limits_ok_def policy_ok_def sample_limits_def)
  moreover have "\<forall>k. live sample_observed k (0, Map.empty)" by (simp add: live_def sample_observed_def)
  moreover have "list_all waits sample_steps" by (simp add: sample_steps_def)
  ultimately have "int (length (filter (answered_in 9 19) sample_admissions)) \<le> 2 * 2 \<and>
      length (filter (\<lambda>a. \<not> snd a) sample_admissions) = length (filter (unanswered ''move'' ''u'') sample_steps) \<and>
      live sample_observed ''rl:move:u'' (limiter_run sample_counters sample_observed sample_limits sample_steps (0, Map.empty))"
    using admissions_bounded [OF sample_counters_ok, of sample_limits "''move''" "(0, Map.empty)" sample_steps 9 "''u''"]
    by (simp add: policy)
  moreover have "length (filter (unanswered ''move'' ''u'') sample_steps) = 2"
    by (simp add: sample_steps_def realtime_scope_def)
  moreover have "sample_admissions = [(0, True), (9, True), (9, False), (10, True), (10, True), (10, False)]"
    by code_simp
  ultimately show ?thesis by metis
qed

end
