(* ===== verification/Gateway_Properties.thy ===== *)
theory Gateway_Properties
  imports Realtime_Gateway Game_Adjudication Matchmaking_Joining Rate_Limit_Properties
begin

text \<open>
  What a client of the gateway can rely on: every event with an acknowledgement callback is
  answered, once, in the shape the protocol promises.
\<close>

section \<open>Identifiers\<close>

lemma UUID_V4_iff:
  "UUID_V4 s \<longleftrightarrow> length s = 36 \<and> (\<forall>i<36. if i \<in> {8, 13, 18, 23} then s ! i = CHR ''-'' else hex_digit (s ! i)) \<and>
     s ! 14 = CHR ''4'' \<and> s ! 19 \<in> set ''89abAB''"
  unfolding UUID_V4_def by (rule conj_cong [OF refl]) (simp only: list_all_length length_enumerate nth_enumerate_eq prod.case add_0 cong: conj_cong imp_cong)

lemma lower_digits:
  "list_all (\<lambda>c. hex_digit (lower_char c)) ''0123456789abcdefABCDEF''"
  "list_all (\<lambda>c. lower_char c \<in> set ''89abAB'') ''89abAB''"
  by (simp_all add: hex_digit_def lower_char_def char_of_def bit_Suc_0_iff)

lemma lower_hex: "hex_digit c \<Longrightarrow> hex_digit (lower_char c)"
  using lower_digits(1) unfolding hex_digit_def list_all_iff by blast

lemma UUID_V4_toLowerCase: "UUID_V4 s \<Longrightarrow> UUID_V4 (toLowerCase s)"
proof -
  assume s: "UUID_V4 s"
  have at: "toLowerCase s ! i = lower_char (s ! i)" if "i < 36" for i
    using s that by (simp add: UUID_V4_iff toLowerCase_def)
  have fixed: "lower_char (CHR ''-'') = CHR ''-''" "lower_char (CHR ''4'') = CHR ''4''" by (simp_all add: lower_char_def)
  have "toLowerCase s ! 19 \<in> set ''89abAB''"
    using s lower_digits(2) unfolding UUID_V4_iff list_all_iff at [of 19, simplified] by blast
  moreover have "length (toLowerCase s) = 36" using s by (simp add: UUID_V4_iff toLowerCase_def)
  moreover have "toLowerCase s ! 14 = CHR ''4''" using s at [of 14] fixed by (simp add: UUID_V4_iff)
  moreover have "if i \<in> {8, 13, 18, 23} then toLowerCase s ! i = CHR ''-'' else hex_digit (toLowerCase s ! i)" if "i < 36" for i
    using s that lower_hex [of "s ! i"] at [OF that] fixed by (simp add: UUID_V4_iff split: if_splits)
  ultimately show ?thesis unfolding UUID_V4_iff by blast
qed

lemma correlationId_UUID: "UUID_V4 random \<Longrightarrow> UUID_V4 (correlationId random value)"
  by (auto simp: correlationId_def UUID_V4_toLowerCase split: option.splits json.splits)

lemma requestEventId_UUID: "UUID_V4 random \<Longrightarrow> UUID_V4 (requestEventId random raw)"
  by (auto simp: requestEventId_def UUID_V4_toLowerCase split: option.splits json.splits argument.splits)

section \<open>Acknowledgements\<close>

definition fits :: "(int \<Rightarrow> bool) \<Rightarrow> int option \<Rightarrow> bool" where
  "fits p x = (case x of None \<Rightarrow> True | Some n \<Rightarrow> isSafeInteger n \<and> p n)"

text \<open>An error the schema of an acknowledgement can carry.\<close>

definition presentable :: "MappedRealtimeError \<Rightarrow> bool" where
  "presentable m \<longleftrightarrow>
     sized 1 256 (pe_message (mp_error m)) \<and> fits (\<lambda>n. 0 \<le> n) (pe_authoritativeVersion (mp_error m)) \<and>
     fits (\<lambda>n. 0 < n) (pe_retryAfterMs (mp_error m)) \<and> fits (\<lambda>n. 0 \<le> n) (mp_gameVersion m)"

lemma error_schema_iff:
  "protocolErrorSchema (error_json (mp_error m)) \<and> fits (\<lambda>n. 0 \<le> n) (mp_gameVersion m) \<longleftrightarrow> presentable m"
  by (cases "pe_authoritativeVersion (mp_error m)"; cases "pe_retryAfterMs (mp_error m)")
    (auto simp: presentable_def fits_def protocolErrorSchema_def error_json_def zstrict_simps field_schema_defs given_def)

lemma failure_ack_schema:
  assumes "rp_uuidv4 P correlation" and "rp_uuidv4 P request"
  shows "realtimeAckSchema (rp_uuidv4 P) (rp_datetime P) (JObj
        ([(''correlationId'', JStr correlation), (''error'', error)] @ given ''gameVersion'' JNum version @
         [(''ok'', JBool False), (''protocolVersion'', JNum PROTOCOL_VERSION),
          (''requestEventId'', JStr request), (''type'', JStr (response_text type))])) \<longleftrightarrow>
     protocolErrorSchema error \<and> fits (\<lambda>n. 0 \<le> n) version"
  using assms
  by (cases version; cases type)
    (simp_all add: realtimeAckSchema_def ackSuccessSchema_def zunion_def ackFailureSchema_def zstrict_simps field_schema_defs
      fits_def given_def response_text_def)

text \<open>A failure can be acknowledged exactly if its error is presentable.\<close>

lemma createFailureAck_cases:
  assumes "rp_uuidv4 P correlation" and "rp_uuidv4 P request"
  shows "\<exists>ack. createFailureAck P request correlation (mp_error m) (mp_responseType m) (mp_gameVersion m) =
       (if presentable m then Inr ack else Inl OtherError) \<and>
     (presentable m \<longrightarrow> realtimeAckSchema (rp_uuidv4 P) (rp_datetime P) ack)"
  using failure_ack_schema [OF assms, of "error_json (mp_error m)" "mp_gameVersion m" "mp_responseType m"]
  unfolding error_schema_iff createFailureAck_def Let_def by (auto simp del: append.simps)

lemma createSuccessAck_ok:
  "createSuccessAck P request correlation type payload version = Inr ack \<Longrightarrow>
     realtimeAckSchema (rp_uuidv4 P) (rp_datetime P) ack"
  by (simp add: createSuccessAck_def Let_def split: if_splits)

lemma attemptCommand_ack:
  assumes "attemptCommand G env socket eventName arguments correlation s = (Inr ack, outs, s1)"
  shows "realtimeAckSchema (rp_uuidv4 (gw_protocol G)) (rp_datetime (gw_protocol G)) ack"
  using assms createSuccessAck_ok
  by (auto simp: attemptCommand_def split: if_splits sum.splits option.splits prod.splits)

text \<open>A command without a callback is told so by an event, and that is all that happens.\<close>

lemma server_error_schema:
  assumes "rp_uuidv4 P correlation" and "rp_uuidv4 P eventId" and "isSafeInteger t" and "0 \<le> t"
  shows "serverEnvelopeSchema (rp_uuidv4 P) (rp_datetime P) (JObj
      [(''correlationId'', JStr correlation), (''payload'', payload), (''type'', JStr ''server.error''), (''eventId'', JStr eventId),
       (''protocolVersion'', JNum PROTOCOL_VERSION), (''timestamp'', JNum t)]) \<longleftrightarrow> protocolErrorSchema payload"
  using assms
  by (simp add: serverEnvelopeSchema_def zunion_def serverErrorEnvelopeSchema_def serverFields_def zstrict_simps field_schema_defs)

definition missing_callback :: json where
  "missing_callback = JObj [(''code'', JStr ''INVALID_PAYLOAD''), (''message'', JStr ''Socket command acknowledgment is required''),
     (''retryable'', JBool False)]"

lemma missing_callback_schema: "protocolErrorSchema missing_callback"
  by code_simp

lemma unacknowledged_event:
  assumes "\<forall>u. UUID_V4 u \<longrightarrow> rp_uuidv4 (gw_protocol G) u" and "UUID_V4 (in_correlation env)" and "UUID_V4 (fst (in_stamp env))"
    and "isSafeInteger (snd (in_stamp env))" and "0 \<le> snd (in_stamp env)" and "\<not> acknowledgment arguments"
  shows "\<exists>event. handleIncoming G env socket eventName arguments s =
      \<lparr>hd_answers = [SocketEvent event], hd_escaped = None, hd_outputs = [], hd_stores = s\<rparr> \<and>
    field ''type'' event = JStr ''server.error'' \<and> field ''payload'' event = missing_callback \<and>
    serverEnvelopeSchema (rp_uuidv4 (gw_protocol G)) (rp_datetime (gw_protocol G)) event"
proof -
  let ?c = "correlationId (in_correlation env) (or_else (rawCorrelationId (rawEnvelope arguments)) (map_option JStr (so_correlationId socket)))"
  let ?P = "gw_protocol G"
  let ?event = "JObj [(''correlationId'', JStr ?c), (''payload'', missing_callback), (''type'', JStr ''server.error''),
    (''eventId'', JStr (fst (in_stamp env))), (''protocolVersion'', JNum PROTOCOL_VERSION), (''timestamp'', JNum (snd (in_stamp env)))]"
  have schema: "serverEnvelopeSchema (rp_uuidv4 ?P) (rp_datetime ?P) ?event"
    using assms(1,3-5) correlationId_UUID [OF assms(2)] server_error_schema [of ?P] missing_callback_schema by blast
  have "error_json (mp_error (map_error (Realtime (realtimeError INVALID_PAYLOAD ''Socket command acknowledgment is required'' False)))) =
      missing_callback"
    by code_simp
  then have "emitServerError G (in_stamp env)
      (Realtime (realtimeError INVALID_PAYLOAD ''Socket command acknowledgment is required'' False)) ?c = Inr ?event"
    using schema by (simp add: emitServerError_def createServerEvent_def draft_def given_def Let_def)
  then have "handleIncoming G env socket eventName arguments s =
      \<lparr>hd_answers = [SocketEvent ?event], hd_escaped = None, hd_outputs = [], hd_stores = s\<rparr>"
    using assms(6) by (simp add: handleIncoming_def attemptCommand_def answered_with_def Let_def)
  with schema show ?thesis by (intro exI [of _ ?event]) (simp add: field_def)
qed

text \<open>
  C21. Every event that comes with an acknowledgement callback is answered exactly once, with an acknowledgement of the
  shape the protocol promises, whatever the event, its payload, the state and the failures of the stores are: no
  answer is given only if the error is one that no acknowledgement can carry, because its message is empty or longer
  than 256 characters or one of its numbers is out of range, and then the exception leaves the handler. An event without
  a callback is answered by exactly one event of the protocol, which says that the callback is missing, and nothing is
  done for it: the stores are as they were and nothing is sent to anyone else.
\<close>
theorem handleIncoming_answers:
  assumes uuid: "\<forall>u. UUID_V4 u \<longrightarrow> rp_uuidv4 (gw_protocol G) u"
    and random: "UUID_V4 (in_correlation env)" "UUID_V4 (in_request env)" "UUID_V4 (fst (in_stamp env))"
    and time: "isSafeInteger (snd (in_stamp env))" "0 \<le> snd (in_stamp env)"
  shows "if acknowledgment arguments
    then (\<exists>ack. hd_answers (handleIncoming G env socket eventName arguments s) = [Acknowledged ack] \<and>
        hd_escaped (handleIncoming G env socket eventName arguments s) = None \<and>
        realtimeAckSchema (rp_uuidv4 (gw_protocol G)) (rp_datetime (gw_protocol G)) ack) \<or>
     (\<exists>correlation error outs s1.
        attemptCommand G env socket eventName arguments correlation s = (Inl error, outs, s1) \<and> \<not> presentable (map_error error) \<and>
        hd_answers (handleIncoming G env socket eventName arguments s) = [] \<and>
        hd_escaped (handleIncoming G env socket eventName arguments s) = Some OtherError)
    else (\<exists>event. handleIncoming G env socket eventName arguments s =
        \<lparr>hd_answers = [SocketEvent event], hd_escaped = None, hd_outputs = [], hd_stores = s\<rparr> \<and>
      field ''type'' event = JStr ''server.error'' \<and> field ''payload'' event = missing_callback \<and>
      serverEnvelopeSchema (rp_uuidv4 (gw_protocol G)) (rp_datetime (gw_protocol G)) event)"
proof (cases "acknowledgment arguments")
  case False
  then show ?thesis
    using unacknowledged_event [OF uuid random(1,3) time] by simp
next
  case callback: True
  let ?c = "correlationId (in_correlation env) (or_else (rawCorrelationId (rawEnvelope arguments)) (map_option JStr (so_correlationId socket)))"
  let ?r = "requestEventId (in_request env) (rawEnvelope arguments)"
  have ids: "rp_uuidv4 (gw_protocol G) ?c" "rp_uuidv4 (gw_protocol G) ?r"
    using uuid correlationId_UUID [OF random(1)] requestEventId_UUID [OF random(2)] by blast+
  obtain result outs s1 where attempt: "attemptCommand G env socket eventName arguments ?c s = (result, outs, s1)"
    by (metis prod_cases3)
  show ?thesis
  proof (cases result)
    case (Inr ack)
    then have "handleIncoming G env socket eventName arguments s = answered_with Acknowledged (Inr ack) outs s1"
      using attempt by (simp add: handleIncoming_def Let_def)
    moreover have "realtimeAckSchema (rp_uuidv4 (gw_protocol G)) (rp_datetime (gw_protocol G)) ack"
      using attempt Inr by (intro attemptCommand_ack) simp
    ultimately show ?thesis by (simp add: answered_with_def callback)
  next
    case (Inl error)
    from createFailureAck_cases [OF ids, of "map_error error"] obtain ack
      where ack: "createFailureAck (gw_protocol G) ?r ?c (mp_error (map_error error)) (mp_responseType (map_error error))
          (mp_gameVersion (map_error error)) = (if presentable (map_error error) then Inr ack else Inl OtherError)"
        "presentable (map_error error) \<longrightarrow> realtimeAckSchema (rp_uuidv4 (gw_protocol G)) (rp_datetime (gw_protocol G)) ack"
      by blast
    have run: "handleIncoming G env socket eventName arguments s =
        answered_with Acknowledged (if presentable (map_error error) then Inr ack else Inl OtherError) outs s1"
      using attempt Inl callback by (simp add: handleIncoming_def Let_def ack(1))
    show ?thesis
    proof (cases "presentable (map_error error)")
      case True
      then show ?thesis using run ack(2) by (simp add: answered_with_def callback)
    next
      case False
      then have "hd_answers (handleIncoming G env socket eventName arguments s) = []"
        "hd_escaped (handleIncoming G env socket eventName arguments s) = Some OtherError"
        using run by (simp_all add: answered_with_def)
      then show ?thesis using attempt Inl False unfolding if_P [OF callback] by blast
    qed
  qed
qed

section \<open>A gateway\<close>

definition sample_protocol :: RealtimeProtocolService where
  "sample_protocol = \<lparr>rp_uuidv4 = UUID_V4, rp_datetime = (\<lambda>s. length s = 24), rp_maxPayloadBytes = 8192\<rparr>"

definition sample_realtime :: "(string list, sample_state) realtime" where
  "sample_realtime =
     \<lparr>rt_protocol = sample_protocol, rt_broadcast = \<lparr>bc_bound = True, bc_redisReady = True\<rparr>, rt_delivering = True,
      rt_matchmaking = sample_matchmaking, rt_games = sample_services, rt_drainRetryAfterMs = 500\<rparr>"

definition sample_gateway :: "(string list, sample_state, sample_counts) gateway" where
  "sample_gateway =
     \<lparr>gw_realtime = sample_realtime, gw_redis = sample_redis, gw_presence = presence_config 45000 20000 120000,
      gw_connections = connection_config 20 45000 20000, gw_counters = sample_counters, gw_limits = sample_limits\<rparr>"

definition sample_faults :: "sample_state terminal_faults" where
  "sample_faults = \<lparr>tf_others = (\<lambda>_ s. s), tf_pipe = pipe_done, tf_clearA = redis_up, tf_clearB = redis_up\<rparr>"

definition sample_id :: "nat \<Rightarrow> string" where
  "sample_id n = ''00000000-0000-4000-8000-00000000000'' @ [''0123456789abcdef'' ! n]"

definition sample_stamps :: "int \<Rightarrow> stamps" where
  "sample_stamps t i = (sample_id 9, t)"

text \<open>Calls at time \<open>t\<close> that all succeed, undisturbed.\<close>

definition sample_calls :: "int \<Rightarrow> sample_state command_env" where
  "sample_calls t =
     (let tx = sample_env t sample_empty in
      \<lparr>cm_isReady = True, cm_stamps = sample_stamps t, cm_join = sample_join_env, cm_joinAt = t, cm_leave = redis_up,
       cm_authorize = tx, cm_others = (\<lambda>w. w),
       cm_ready = \<lparr>ry_others = (\<lambda>_ w. w), ry_ready = tx, ry_start = tx, ry_redis = redis_up, ry_read = tx\<rparr>, cm_readyAt = t,
       cm_recovery = \<lparr>rv_others = (\<lambda>_ w. w), rv_cache = redis_up, rv_eligibility = tx, rv_now = t, rv_clear = redis_up,
         rv_restore = pipe_done\<rparr>,
       cm_snapshot = \<lparr>ss_others = (\<lambda>_ w. w), ss_cache = redis_up, ss_authorize = tx, ss_read = tx,
         ss_restore = \<lparr>rf_pipe = pipe_done, rf_clearA = redis_up, rf_clearB = redis_up\<rparr>, ss_now = t\<rparr>,
       cm_submit = \<lparr>sb_others = (\<lambda>w. w), sb_tx = tx, sb_redis = \<lparr>mv_delete = redis_up, mv_terminal = sample_faults\<rparr>\<rparr>,
       cm_resign = \<lparr>te_others = (\<lambda>_ w. w), te_tx = tx, te_redis = sample_faults\<rparr>\<rparr>)"

definition sample_incoming :: "int \<Rightarrow> sample_state incoming_env" where
  "sample_incoming t =
     \<lparr>in_correlation = sample_id 1, in_request = sample_id 2, in_limit = redis_up, in_presence = redis_up, in_presenceAt = t,
      in_connection = redis_up, in_connectionAt = t, in_now = t, in_lookup = sample_env t sample_empty,
      in_command = sample_calls t, in_others = (\<lambda>_ w. w), in_stamp = (sample_id 9, t)\<rparr>"

definition sample_socket :: RealtimeSocket where
  "sample_socket =
     \<lparr>so_addressHash = Some ''a'', so_backpressureClosing = False, so_correlationId = None,
      so_identity = Some \<lparr>id_avatar = ''knight'', id_expiresAt = ''2030-01-01T00:00:00.000Z'', id_guestSessionId = sample_id 3,
        id_name = ''BoldBear''\<rparr>,
      so_socketMember = Some ''i:s''\<rparr>"

definition sample_ping_json :: json where
  "sample_ping_json = JObj [(''eventId'', JStr (sample_id 4)), (''payload'', JObj []), (''protocolVersion'', JNum 1),
     (''timestamp'', JNum 5), (''type'', JStr ''heartbeat.ping'')]"

definition sample_ping :: "argument list" where
  "sample_ping = [Data sample_ping_json, Callback]"

definition sample_stores :: "(sample_counts, sample_state) stores" where
  "sample_stores = ((0, Map.empty), sample_redis_empty, sample_empty)"

abbreviation sample_handled :: "(sample_counts, sample_state) handled" where
  "sample_handled \<equiv> handleIncoming sample_gateway (sample_incoming 1000) sample_socket ''heartbeat.ping'' sample_ping sample_stores"

lemma sample_ping_parsed:
  "parseClientEvent sample_protocol ''heartbeat.ping'' (Some (Data sample_ping_json)) = Inr sample_ping_json"
  by code_simp

lemma sample_ping_executed:
  "\<exists>result outs w. executeEvent sample_gateway (sample_incoming 1000) sample_socket identity event heartbeat_ping s =
     ((Inr result, outs), w)"
  by (simp add: executeEvent_def heartbeat_def refreshBoth_def sample_gateway_def sample_incoming_def sample_socket_def
      on_redis_def refresh_def refresh_connection_def eval_script_def Let_def split: prod.splits)

lemma sample_ping_consumed:
  "\<exists>c. realtime_consume (gw_counters sample_gateway) (gw_limits sample_gateway) redis_up ''heartbeat.ping'' guest (0, Map.empty) =
     (Inr (), c)"
  by (simp add: realtime_consume_def consume_def over_limit_def limit_script_def sample_gateway_def sample_counters_def
      sample_limits_def realtime_policy_def realtime_scope_def Let_def)

theorem handleIncoming_answers_witness:
  "(\<exists>ack. hd_answers sample_handled = [Acknowledged ack] \<and> hd_escaped sample_handled = None \<and>
      realtimeAckSchema UUID_V4 (\<lambda>s. length s = 24) ack) \<and>
   (\<exists>event. handleIncoming sample_gateway (sample_incoming 1000) sample_socket ''heartbeat.ping'' [Data sample_ping_json] sample_stores =
        \<lparr>hd_answers = [SocketEvent event], hd_escaped = None, hd_outputs = [], hd_stores = sample_stores\<rparr> \<and>
      field ''payload'' event = missing_callback)"
proof -
  have P: "gw_protocol sample_gateway = sample_protocol" "rp_uuidv4 sample_protocol = UUID_V4"
    "rp_datetime sample_protocol = (\<lambda>s. length s = 24)"
    by (simp_all add: sample_gateway_def sample_realtime_def sample_protocol_def)
  have ids: "UUID_V4 (in_correlation (sample_incoming 1000))" "UUID_V4 (in_request (sample_incoming 1000))"
    "UUID_V4 (fst (in_stamp (sample_incoming 1000)))" "isSafeInteger (snd (in_stamp (sample_incoming 1000)))"
    "0 \<le> snd (in_stamp (sample_incoming 1000))"
    by code_simp+
  have ack: "acknowledgment sample_ping" "\<not> acknowledgment [Data sample_ping_json]" by code_simp+
  have facts: "sample_ping = [Data sample_ping_json, Callback]" "fst sample_stores = (0, Map.empty)"
    "in_limit (sample_incoming 1000) = redis_up" "\<exists>identity. so_identity sample_socket = Some identity"
    "text_of (field ''type'' sample_ping_json) = ''heartbeat.ping''" "client_event sample_ping_json = heartbeat_ping"
    by (simp_all add: sample_ping_def sample_stores_def sample_incoming_def sample_socket_def client_event_def text_of_def
        sample_ping_json_def Let_def)
  have "presentable (map_error error)"
    if attempt: "attemptCommand sample_gateway (sample_incoming 1000) sample_socket ''heartbeat.ping'' sample_ping c sample_stores =
      (Inl error, outs, s1)" for c error outs s1
  proof -
    obtain identity where identity: "so_identity sample_socket = Some identity" using facts(4) by blast
    obtain c1 where consumed: "realtime_consume (gw_counters sample_gateway) (gw_limits sample_gateway) redis_up ''heartbeat.ping''
        (id_guestSessionId identity) (0, Map.empty) = (Inr (), c1)" using sample_ping_consumed by blast
    obtain result outs1 w1 where executed: "executeEvent sample_gateway (sample_incoming 1000) sample_socket identity
        (text_of (field ''eventId'' sample_ping_json)) heartbeat_ping (in_others (sample_incoming 1000) 3 (snd sample_stores)) =
        ((Inr result, outs1), w1)" using sample_ping_executed by blast
    have "error = OtherError"
      using attempt by (simp add: attemptCommand_def P rawEnvelope_def acknowledgment_def sample_ping_parsed facts(1-3,5,6)
          identity consumed executed createSuccessAck_def Let_def split: if_splits)
    then show ?thesis by (simp add: map_error_def presentable_def internalError_def plainPayload_def fits_def sized_def)
  qed
  note all = this
  have laws: "\<forall>u. UUID_V4 u \<longrightarrow> rp_uuidv4 (gw_protocol sample_gateway) u" by (simp add: P)
  note facts = handleIncoming_answers [OF laws ids, of _ sample_socket "''heartbeat.ping''" sample_stores]
  show ?thesis
    using facts [of sample_ping] facts [of "[Data sample_ping_json]"] all unfolding P if_P [OF ack(1)] if_not_P [OF ack(2)] by blast
qed

end
