(* ===== verification/Configuration_Properties.thy ===== *)
theory Configuration_Properties
  imports Configuration Gateway_Properties
begin

text \<open>
  What the components may assume of an accepted configuration: the bounds of the durations
  and limits they are built from, and that a drain ends within the time it is given.
\<close>

section \<open>Accepted settings\<close>

definition setting_value :: "config_lib \<Rightarrow> (string \<Rightarrow> string option) \<Rightarrow> string \<Rightarrow> setting_schema \<Rightarrow> setting option" where
  "setting_value C input name schema =
     (case input name of None \<Rightarrow> Some (default_setting schema) | Some s \<Rightarrow> read_setting C schema s)"

lemma map_of_keyed: "map_of (map (\<lambda>(k, v). (k, f k v)) xs) k = map_option (f k) (map_of xs k)"
  by (induction xs) auto

lemma map_filter_values:
  "list_all (\<lambda>(k, s). f k s \<noteq> None) xs \<Longrightarrow>
     List.map_filter (\<lambda>(k, v). map_option (\<lambda>x. (k, x)) v) (map (\<lambda>(k, s). (k, f k s)) xs) =
     map (\<lambda>(k, s). (k, the (f k s))) xs"
  by (induction xs) (auto simp: map_filter_simps)

lemma parsed_setting:
  assumes "parseEnvironment C input = Inr env"
  shows "map_of env name = (case map_of environmentSchema name of None \<Rightarrow> None | Some schema \<Rightarrow> setting_value C input name schema)"
    "map_of environmentSchema name = Some schema \<Longrightarrow> setting_value C input name schema \<noteq> None"
proof -
  let ?parsed = "map (\<lambda>(name, schema). (name, setting_value C input name schema)) environmentSchema"
  have parse: "\<not> list_ex (\<lambda>(name, v). v = None) ?parsed"
    "env = List.map_filter (\<lambda>(name, v). map_option (\<lambda>x. (name, x)) v) ?parsed"
    using assms by (auto simp: parseEnvironment_def Let_def setting_value_def split: if_splits option.splits)
  then have all: "list_all (\<lambda>(name, schema). setting_value C input name schema \<noteq> None) environmentSchema"
    by (auto simp: list_ex_iff list_all_iff)
  then have env: "env = map (\<lambda>(name, schema). (name, the (setting_value C input name schema))) environmentSchema"
    using parse(2) map_filter_values by blast
  show given: "map_of environmentSchema name = Some schema \<Longrightarrow> setting_value C input name schema \<noteq> None" for schema
    using all by (auto simp: list_all_iff dest!: map_of_SomeD)
  show "map_of env name = (case map_of environmentSchema name of None \<Rightarrow> None | Some schema \<Rightarrow> setting_value C input name schema)"
    using given by (auto simp: env map_of_keyed [of "\<lambda>n s. the (setting_value C input n s)"] split: option.splits)
qed

text \<open>The numbers keep their bounds.\<close>

lemma parsed_number:
  assumes "parseEnvironment C input = Inr env" and "map_of environmentSchema name = Some (SNumber lo hi d)"
    and "isSafeInteger d" and "within lo hi d"
  shows "isSafeInteger (number_setting env name) \<and> within lo hi (number_setting env name)"
  using parsed_setting [OF assms(1), of name] assms(2-4)
  by (auto simp: number_setting_def setting_value_def split: option.splits if_splits)

definition positive_settings :: "string list" where
  "positive_settings =
     [''DRAIN_SOCKET_GRACE_MS'', ''DRAIN_TIMEOUT_MS'', ''DATABASE_TX_TIMEOUT_MS'', ''RL_QUEUE_LIMIT'', ''RL_QUEUE_WINDOW_MS'',
      ''RL_MOVE_LIMIT'', ''RL_MOVE_WINDOW_MS'', ''RL_SYNC_LIMIT'', ''RL_SYNC_WINDOW_MS'', ''QUEUE_GUARD_TTL_MS'',
      ''QUEUE_MAX_WAIT_MS'', ''RESERVATION_TTL_MS'', ''MATCH_STATE_TTL_MS'']"

fun positive_schema :: "setting_schema \<Rightarrow> bool" where
  "positive_schema (SNumber lo hi d) = (lo = 1 \<and> isSafeInteger d \<and> within lo hi d)"
| "positive_schema _ = False"

lemma positive_schemas:
  "list_all (\<lambda>name. case map_of environmentSchema name of None \<Rightarrow> False | Some schema \<Rightarrow> positive_schema schema)
     positive_settings"
  by code_simp

lemma parsed_positive:
  assumes "parseEnvironment C input = Inr env" and "name \<in> set positive_settings"
  shows "0 < number_setting env name" "isSafeInteger (number_setting env name)"
proof -
  obtain schema where "map_of environmentSchema name = Some schema" "positive_schema schema"
    using positive_schemas assms(2) by (fastforce simp: list_all_iff split: option.splits)
  then obtain lo hi d where schema: "map_of environmentSchema name = Some (SNumber lo hi d)" "lo = 1" "isSafeInteger d" "within lo hi d"
    by (cases schema) auto
  from parsed_number [OF assms(1) schema(1,3,4)]
  show "0 < number_setting env name" "isSafeInteger (number_setting env name)" by (auto simp: within_def schema(2))
qed

lemma parsed_timing: "parseEnvironment C input = Inr env \<Longrightarrow> timing_issues env = []"
  by (auto simp: parseEnvironment_def Let_def split: if_splits option.splits)

lemma issue_if_Nil [simp]: "issue_if b p m = [] \<longleftrightarrow> \<not> b"
  by (simp add: issue_if_def)

section \<open>The drain\<close>

lemma idle_wait_bounds: "0 \<le> timeoutMs \<Longrightarrow> 0 \<le> fst (idle_wait timeoutMs idleAfter) \<and> fst (idle_wait timeoutMs idleAfter) \<le> timeoutMs"
  by (simp add: idle_wait_def split: option.splits)

lemma drain_times:
  assumes "drainConnections P D stamp idleAfter cleanAfter g = Inr events" and "x \<in> set events"
    and "0 < dn_graceMs D" and "0 < dn_txTimeoutMs D" and "dn_timeoutMs D > dn_txTimeoutMs D + dn_graceMs D + 100"
  shows "0 \<le> fst x \<and> fst x \<le> dn_timeoutMs D"
proof -
  have windows: "0 \<le> workWindowMs D" "0 \<le> cleanupWindowMs D" using assms(4) by (simp_all add: workWindowMs_def cleanupWindowMs_def)
  obtain worked idle cleaned clean where waits: "idle_wait (workWindowMs D) idleAfter = (worked, idle)"
    "idle_wait (cleanupWindowMs D) cleanAfter = (cleaned, clean)" by fastforce
  have bounds: "0 \<le> worked" "worked \<le> workWindowMs D" "0 \<le> cleaned" "cleaned \<le> cleanupWindowMs D"
    using idle_wait_bounds [OF windows(1), of idleAfter] idle_wait_bounds [OF windows(2), of cleanAfter] waits by simp_all
  have "workWindowMs D + cleanupWindowMs D \<le> dn_timeoutMs D" "dn_graceMs D + cleanupWindowMs D \<le> dn_timeoutMs D"
    using assms(3-5) by (simp_all add: workWindowMs_def cleanupWindowMs_def)
  then have "0 \<le> dn_timeoutMs D" "0 \<le> max worked (dn_graceMs D)" "max worked (dn_graceMs D) \<le> dn_timeoutMs D"
    "max worked (dn_graceMs D) + cleaned \<le> dn_timeoutMs D"
    using bounds windows assms(3) by auto
  moreover have "fst x \<in> {0, max worked (dn_graceMs D), max worked (dn_graceMs D) + cleaned}"
    using assms(1,2) waits by (auto simp: drainConnections_def sbind_def Let_def split: if_splits sum.splits)
  ultimately show ?thesis using bounds(3) by auto
qed

text \<open>
  C30. A configuration the process accepts is one its parts can work with: whenever the instance drains, however long
  the work in flight lasts, every step of the drain, the closing of the sockets and the wait for their cleanup
  included, is over within the time after which the process gives up on the drain; the limits and windows of the
  commands, the lifetimes in Redis and the size of a batch are positive; presence outlives the interval of the pings,
  the guard of the queue outlives presence, and the state of a match outlives a reservation.
\<close>
theorem accepted_configuration:
  assumes "parseEnvironment C input = Inr env"
  shows "(\<forall>P stamp idleAfter cleanAfter g events. drainConnections P (drain_config env) stamp idleAfter cleanAfter g = Inr events \<longrightarrow>
        list_all (\<lambda>(t, _). 0 \<le> t \<and> t \<le> number_setting env ''DRAIN_TIMEOUT_MS'') events) \<and>
     limits_ok (realtime_limits_config env) \<and> service_ok (script_config env) \<and>
     1 \<le> number_setting env ''JOB_BATCH_SIZE'' \<and> number_setting env ''JOB_BATCH_SIZE'' \<le> 1000 \<and>
     number_setting env ''SOCKET_PING_INTERVAL_MS'' < number_setting env ''PRESENCE_TTL_MS'' \<and>
     number_setting env ''PRESENCE_TTL_MS'' < number_setting env ''QUEUE_GUARD_TTL_MS'' \<and>
     number_setting env ''RESERVATION_TTL_MS'' < number_setting env ''MATCH_STATE_TTL_MS''"
proof -
  have positive: "0 < number_setting env name" if "name \<in> set positive_settings" for name
    using parsed_positive(1) [OF assms that] .
  have timing: "timing_issues env = []" by (rule parsed_timing [OF assms])
  have "list_all (\<lambda>(t, _). 0 \<le> t \<and> t \<le> number_setting env ''DRAIN_TIMEOUT_MS'') events"
    if "drainConnections P (drain_config env) stamp idleAfter cleanAfter g = Inr events" for P stamp idleAfter cleanAfter g events
    using drain_times [OF that] positive [of "''DRAIN_SOCKET_GRACE_MS''"] positive [of "''DATABASE_TX_TIMEOUT_MS''"] timing
    by (auto simp: list_all_iff drain_config_def positive_settings_def timing_issues_def Let_def)
  moreover have "limits_ok (realtime_limits_config env)"
    using positive by (simp add: limits_ok_def policy_ok_def realtime_limits_config_def policy_config_def positive_settings_def)
  moreover have "service_ok (script_config env)"
    using positive by (simp add: service_ok_def script_config_def positive_settings_def)
  moreover have "within 1 (Some 1000) (number_setting env ''JOB_BATCH_SIZE'')"
  proof -
    have "map_of environmentSchema ''JOB_BATCH_SIZE'' = Some (SNumber 1 (Some 1000) 100)" by code_simp
    from parsed_number [OF assms this] show ?thesis by (simp add: isSafeInteger_def within_def)
  qed
  ultimately show ?thesis using timing by (auto simp: timing_issues_def within_def Let_def)
qed

definition sample_config_lib :: config_lib where
  "sample_config_lib =
     \<lparr>cf_number = (\<lambda>s. None),
      cf_url = (\<lambda>s. Some \<lparr>ur_protocol = ''http:'', ur_hostname = ''localhost'', ur_password = [], ur_sslmode = None\<rparr>),
      cf_is_url = (\<lambda>s. True)\<rparr>"

definition sample_environment :: AppEnvironment where
  "sample_environment = map (\<lambda>(name, schema). (name, default_setting schema)) environmentSchema"

lemma sample_environment_parsed: "parseEnvironment sample_config_lib (\<lambda>_. None) = Inr sample_environment"
  by code_simp

theorem accepted_configuration_witness:
  "limits_ok (realtime_limits_config sample_environment) \<and> service_ok (script_config sample_environment) \<and>
   number_setting sample_environment ''DRAIN_TIMEOUT_MS'' = 15000"
proof -
  have "number_setting sample_environment ''DRAIN_TIMEOUT_MS'' = 15000" by code_simp
  then show ?thesis using accepted_configuration [OF sample_environment_parsed] by blast
qed

end
