(* ===== verification/Session_Tokens.thy ===== *)
theory Session_Tokens
  imports Rate_Limits Configuration
begin

text \<open>
  The tokens of guests: \<open>jwt-token.service.ts\<close>, \<open>session-revocation.service.ts\<close>,
  \<open>session-authentication.service.ts\<close> and \<open>session-auth.guard.ts\<close> under
  \<open>src/src/modules/session\<close>. Signatures and the encoding of JSON in base64url are the parameters
  \<open>'k crypto\<close>; a key is of the type \<open>'k\<close>.
\<close>

section \<open>Tokens\<close>

record 'k crypto =
  ck_sign :: "'k \<Rightarrow> string \<Rightarrow> string"
  ck_verify :: "'k \<Rightarrow> string \<Rightarrow> string \<Rightarrow> bool"
  ck_encode :: "json \<Rightarrow> string"
  ck_decode :: "string \<Rightarrow> json option"
  ck_ed25519 :: "'k \<Rightarrow> bool"

text \<open>
  \<open>ck_sign\<close> returns the signature in base64url, \<open>ck_verify\<close> takes it so; \<open>ck_decode\<close> is
  \<open>JSON.parse\<close> after \<open>Buffer.from(segment, 'base64url')\<close>, \<open>None\<close> when it throws.
\<close>

record 'k JwtTokenService =
  jw_crypto :: "'k crypto"
  jw_activeKid :: string
  jw_clockSkewSeconds :: int
  jw_privateKey :: 'k
  jw_publicKeys :: "(string \<times> 'k) list"
  jw_ttlSeconds :: int

record GuestSessionRecord =
  gr_id :: string
  gr_avatarKey :: string
  gr_currentJti :: "string option"
  gr_displayName :: string
  gr_expiresAt :: int
  gr_issuedAt :: int
  gr_revokedAt :: "int option"

record IssuedSessionClaims =
  ic_expiresAt :: int
  ic_issuedAt :: int
  ic_jti :: string

record AuthenticatedGuest =
  au_avatarKey :: string
  au_expiresAt :: jsdate
  au_guestSessionId :: string
  au_issuedAt :: jsdate
  au_jti :: string
  au_name :: string

datatype TokenFailureReason = token_expired | token_malformed | token_signature | token_unknown_kid

definition jwtHeaderSchema :: schema where
  "jwtHeaderSchema = zstrict [req ''alg'' (zlit ''EdDSA''), req ''kid'' (zstring (sized 1 128)), req ''typ'' (zlit ''JWT'')]"

definition jwtClaimsSchema :: schema where
  "jwtClaimsSchema = zstrict
     [req ''avatar'' (zstring (sized 1 128)), req ''exp'' (zint (\<lambda>n. 0 < n)), req ''iat'' (zint (\<lambda>n. 0 \<le> n)),
      req ''jti'' (zstring UUID_V4), req ''name'' (zstring (sized 1 128)), req ''sub'' (zstring UUID_V4),
      req ''v'' (\<lambda>j. j = JNum 1)]"

definition base64url_char :: "char \<Rightarrow> bool" where
  "base64url_char c \<longleftrightarrow> c \<in> set ''ABCDEFGHIJKLMNOPQRSTUVWXYZabcdefghijklmnopqrstuvwxyz0123456789_-''"

definition base64url :: "string \<Rightarrow> bool" where
  "base64url s \<longleftrightarrow> s \<noteq> [] \<and> list_all base64url_char s"

definition claims_json :: "GuestSessionRecord \<Rightarrow> IssuedSessionClaims \<Rightarrow> json" where
  "claims_json guest claims = JObj
     [(''avatar'', JStr (gr_avatarKey guest)), (''exp'', JNum (ic_expiresAt claims div 1000)),
      (''iat'', JNum (ic_issuedAt claims div 1000)), (''jti'', JStr (ic_jti claims)),
      (''name'', JStr (gr_displayName guest)), (''sub'', JStr (gr_id guest)), (''v'', JNum 1)]"

definition header_json :: "string \<Rightarrow> json" where
  "header_json kid = JObj [(''alg'', JStr ''EdDSA''), (''kid'', JStr kid), (''typ'', JStr ''JWT'')]"

text \<open>\<open>None\<close> when the claims are refused or do not last as long as they must.\<close>

definition issue_token :: "'k JwtTokenService \<Rightarrow> GuestSessionRecord \<Rightarrow> IssuedSessionClaims \<Rightarrow> string option" where
  "issue_token J guest claims =
     (let payload = claims_json guest claims in
      if \<not> jwtClaimsSchema payload then None
      else if ic_expiresAt claims div 1000 - ic_issuedAt claims div 1000 \<noteq> jw_ttlSeconds J then None
      else
        (let signingInput = ck_encode (jw_crypto J) (header_json (jw_activeKid J)) @ ''.'' @ ck_encode (jw_crypto J) payload in
         Some (signingInput @ ''.'' @ ck_sign (jw_crypto J) (jw_privateKey J) signingInput)))"

definition decodeJson :: "'k crypto \<Rightarrow> string \<Rightarrow> json option" where
  "decodeJson K segment = (if base64url segment then ck_decode K segment else None)"

definition verify_claims :: "'k JwtTokenService \<Rightarrow> string \<Rightarrow> int \<Rightarrow> TokenFailureReason + AuthenticatedGuest" where
  "verify_claims J encodedClaims now =
     (case decodeJson (jw_crypto J) encodedClaims of
        None \<Rightarrow> Inl token_malformed
      | Some claims \<Rightarrow>
          if \<not> jwtClaimsSchema claims then Inl token_malformed
          else
            (let expires = number_of (field ''exp'' claims); issued = number_of (field ''iat'' claims); nowSeconds = now div 1000 in
             if expires - issued \<noteq> jw_ttlSeconds J then Inl token_malformed
             else if issued > nowSeconds + jw_clockSkewSeconds J then Inl token_malformed
             else if nowSeconds \<ge> expires + jw_clockSkewSeconds J then Inl token_expired
             else Inr \<lparr>au_avatarKey = text_of (field ''avatar'' claims), au_expiresAt = new_Date (expires * 1000),
               au_guestSessionId = text_of (field ''sub'' claims), au_issuedAt = new_Date (issued * 1000),
               au_jti = text_of (field ''jti'' claims), au_name = text_of (field ''name'' claims)\<rparr>))"

definition verify_token :: "'k JwtTokenService \<Rightarrow> string \<Rightarrow> int \<Rightarrow> TokenFailureReason + AuthenticatedGuest" where
  "verify_token J token now =
     (if length token > 8192 then Inl token_malformed
      else
        (case split_on CHR ''.'' token of
           [encodedHeader, encodedClaims, encodedSignature] \<Rightarrow>
             (case decodeJson (jw_crypto J) encodedHeader of
                None \<Rightarrow> Inl token_malformed
              | Some header \<Rightarrow>
                  if \<not> jwtHeaderSchema header then Inl token_malformed
                  else
                    (case map_of (jw_publicKeys J) (text_of (field ''kid'' header)) of
                       None \<Rightarrow> Inl token_unknown_kid
                     | Some publicKey \<Rightarrow>
                         if \<not> base64url encodedSignature then Inl token_malformed
                         else if \<not> ck_verify (jw_crypto J) publicKey (encodedHeader @ ''.'' @ encodedClaims) encodedSignature
                         then Inl token_signature
                         else verify_claims J encodedClaims now))
         | _ \<Rightarrow> Inl token_malformed))"

section \<open>Keys\<close>

definition kid_ok :: "string \<Rightarrow> bool" where
  "kid_ok kid \<longleftrightarrow> sized 1 128 kid \<and> list_all base64url_char kid"

text \<open>
  The files of the key directory with their contents as keys, \<open>None\<close> for one that is not a
  public key; a directory entry that is not a file or not a \<open>.pem\<close> is skipped.
\<close>

definition pem_kid :: "string \<Rightarrow> string option" where
  "pem_kid name =
     (let stem = take (length name - 4) name in
      if drop (length name - 4) name = ''.pem'' then Some (if name = ''.pem'' then name else stem) else None)"

fun loadPublicKeys :: "'k crypto \<Rightarrow> (string \<times> bool \<times> 'k option) list \<Rightarrow> (string \<times> 'k) list option" where
  "loadPublicKeys K [] = Some []"
| "loadPublicKeys K ((name, isFile, key) # entries) =
     (case (if isFile then pem_kid name else None) of
        None \<Rightarrow> loadPublicKeys K entries
      | Some kid \<Rightarrow>
          if \<not> kid_ok kid then None
          else
            (case key of
               None \<Rightarrow> None
             | Some k \<Rightarrow>
                 if ck_ed25519 K k then map_option (\<lambda>keys. (kid, k) # keys) (loadPublicKeys K entries) else None))"

definition assertKeySet :: "'k JwtTokenService \<Rightarrow> bool" where
  "assertKeySet J \<longleftrightarrow>
     ck_ed25519 (jw_crypto J) (jw_privateKey J) \<and>
     (case map_of (jw_publicKeys J) (jw_activeKid J) of
        None \<Rightarrow> False
      | Some publicKey \<Rightarrow> ck_ed25519 (jw_crypto J) publicKey \<and>
          ck_verify (jw_crypto J) publicKey ''cluchess-key-pair-check''
            (ck_sign (jw_crypto J) (jw_privateKey J) ''cluchess-key-pair-check''))"

section \<open>Revocation\<close>

text \<open>The commands of Redis on texts that expire.\<close>

record 's keyspace =
  ks_set :: "string \<Rightarrow> string \<Rightarrow> int \<Rightarrow> 's \<Rightarrow> 's"
  ks_setnx :: "string \<Rightarrow> string \<Rightarrow> int \<Rightarrow> 's \<Rightarrow> bool \<times> 's"
  ks_get :: "string \<Rightarrow> 's \<Rightarrow> string option"
  ks_del :: "string \<Rightarrow> 's \<Rightarrow> 's"

definition sessionKey :: "string \<Rightarrow> string" where
  "sessionKey guestSessionId = ''jwt:revoked-session:'' @ guestSessionId"

definition tokenKey :: "string \<Rightarrow> string" where
  "tokenKey jti = ''jwt:denylist:'' @ jti"

text \<open>\<open>Math.ceil\<close> of a quotient by 1000.\<close>

definition ceil_seconds :: "int \<Rightarrow> int" where
  "ceil_seconds ms = - ((- ms) div 1000)"

definition ttlSeconds :: "int \<Rightarrow> int \<Rightarrow> int \<Rightarrow> int" where
  "ttlSeconds clockSkewSeconds expiryMs now = max 1 (ceil_seconds (expiryMs - now) + clockSkewSeconds)"

datatype revocation_error = RevocationUnavailableError

definition isRevoked ::
    "'s keyspace \<Rightarrow> redis_fault \<Rightarrow> AuthenticatedGuest \<Rightarrow> 's \<Rightarrow> revocation_error + bool" where
  "isRevoked K fault identity s =
     (if fault \<noteq> redis_up then Inl RevocationUnavailableError
      else Inr (ks_get K (sessionKey (au_guestSessionId identity)) s \<noteq> None \<or> ks_get K (tokenKey (au_jti identity)) s \<noteq> None))"

text \<open>A date that is not valid has the time \<open>NaN\<close>, with which the pipeline fails.\<close>

definition revoke ::
    "'s keyspace \<Rightarrow> int \<Rightarrow> pipe \<Rightarrow> redis_fault \<Rightarrow> GuestSessionRecord \<Rightarrow> AuthenticatedGuest \<Rightarrow> int \<Rightarrow> 's \<Rightarrow>
     (revocation_error + unit) \<times> 's" where
  "revoke K skew pipe fault guest identity now s =
     (case getTime (au_expiresAt identity) of
        None \<Rightarrow> (Inl RevocationUnavailableError, s)
      | Some identityExpiry \<Rightarrow>
          (let latestExpiryMs = max (gr_expiresAt guest) identityExpiry;
               commands = [ks_set K (sessionKey (gr_id guest)) (int_text latestExpiryMs) (ttlSeconds skew latestExpiryMs now),
                 ks_set K (tokenKey (au_jti identity)) ''1'' (ttlSeconds skew identityExpiry now)] in
           if fault = redis_refused then (Inl RevocationUnavailableError, s)
           else
             (if pipe = pipe_done \<and> fault = redis_up then Inr () else Inl RevocationUnavailableError,
              run_pipeline pipe commands s)))"

definition restoreSessionRevocation ::
    "'s keyspace \<Rightarrow> int \<Rightarrow> redis_fault \<Rightarrow> GuestSessionRecord \<Rightarrow> int \<Rightarrow> 's \<Rightarrow> (revocation_error + unit) \<times> 's" where
  "restoreSessionRevocation K skew fault guest now s =
     (let s1 = ks_set K (sessionKey (gr_id guest)) (int_text (gr_expiresAt guest)) (ttlSeconds skew (gr_expiresAt guest) now) s in
      case fault of
        redis_refused \<Rightarrow> (Inl RevocationUnavailableError, s)
      | redis_lost \<Rightarrow> (Inl RevocationUnavailableError, s1)
      | redis_up \<Rightarrow> (Inr (), s1))"

section \<open>Authentication of requests\<close>

record request_headers =
  rh_authorization :: "string option"
  rh_cookie :: "string option"

text \<open>\<open>/^Bearer ([^\s]+)$/i\<close>.\<close>

definition bearer_token :: "string \<Rightarrow> string option" where
  "bearer_token s =
     (let token = drop 7 s in
      if toLowerCase (take 7 s) = ''bearer '' \<and> token \<noteq> [] \<and> \<not> list_ex js_space token then Some token else None)"

definition cookie_value :: "string \<Rightarrow> string \<Rightarrow> string option" where
  "cookie_value cookieName part =
     (if CHR ''='' \<notin> set part then None
      else
        (let name = js_trim (takeWhile (\<lambda>c. c \<noteq> CHR ''='') part);
             v = js_trim (tl (dropWhile (\<lambda>c. c \<noteq> CHR ''='') part)) in
         if name = cookieName \<and> v \<noteq> [] then Some v else None))"

fun first_some :: "('a \<Rightarrow> 'b option) \<Rightarrow> 'a list \<Rightarrow> 'b option" where
  "first_some f [] = None"
| "first_some f (x # xs) = (case f x of None \<Rightarrow> first_some f xs | Some y \<Rightarrow> Some y)"

definition extractToken :: "string \<Rightarrow> request_headers \<Rightarrow> string option" where
  "extractToken cookieName h =
     (case rh_authorization h of
        Some authorization \<Rightarrow> bearer_token authorization
      | None \<Rightarrow>
          (case rh_cookie h of
             Some cookies \<Rightarrow> first_some (cookie_value cookieName) (split_on CHR '';'' cookies)
           | None \<Rightarrow> None))"

definition session_unauthorized :: SessionError where
  "session_unauthorized = sessionError SESSION_UNAUTHORIZED ''Guest authentication is required'' False"

definition session_unavailable :: SessionError where
  "session_unavailable = sessionError SESSION_SERVICE_UNAVAILABLE ''Session service is temporarily unavailable'' True"

text \<open>The guest of a request, and whether the token was revoked.\<close>

definition authenticate_request ::
    "'k JwtTokenService \<Rightarrow> 's keyspace \<Rightarrow> string \<Rightarrow> redis_fault \<Rightarrow> request_headers \<Rightarrow> bool \<Rightarrow> int \<Rightarrow> 's \<Rightarrow>
     SessionError + AuthenticatedGuest \<times> bool" where
  "authenticate_request J K cookieName fault headers allowRevoked now s =
     (case extractToken cookieName headers of
        None \<Rightarrow> Inl session_unauthorized
      | Some token \<Rightarrow>
          (case verify_token J token now of
             Inl _ \<Rightarrow> Inl session_unauthorized
           | Inr identity \<Rightarrow>
               (case isRevoked K fault identity s of
                  Inl _ \<Rightarrow> Inl session_unavailable
                | Inr revoked \<Rightarrow> if revoked \<and> \<not> allowRevoked then Inl session_unauthorized else Inr (identity, revoked))))"

definition session_auth_guard ::
    "'k JwtTokenService \<Rightarrow> 's keyspace \<Rightarrow> string \<Rightarrow> redis_fault \<Rightarrow> request_headers \<Rightarrow> int \<Rightarrow> 's \<Rightarrow>
     SessionError + AuthenticatedGuest \<times> bool" where
  "session_auth_guard J K cookieName fault headers = authenticate_request J K cookieName fault headers False"

definition reset_auth_guard ::
    "'k JwtTokenService \<Rightarrow> 's keyspace \<Rightarrow> string \<Rightarrow> redis_fault \<Rightarrow> request_headers \<Rightarrow> int \<Rightarrow> 's \<Rightarrow>
     SessionError + AuthenticatedGuest \<times> bool" where
  "reset_auth_guard J K cookieName fault headers = authenticate_request J K cookieName fault headers True"

end
