(* ===== verification/Session_Repository.thy ===== *)
theory Session_Repository
  imports Session_Tokens
begin

text \<open>
  \<open>prisma-guest-session.repository.ts\<close> under \<open>src/src/modules/session/infrastructure\<close>, on the
  database of the games together with the table of session commands. A transaction
  body is one step; \<open>sx_earlier\<close> is what its first statement, which takes no lock, saw. The
  column \<open>created_at\<close> is left out.
\<close>

section \<open>Tables\<close>

record session_command_row =
  sc_idempotency_hash :: string
  sc_command_type :: string
  sc_guest_session_id :: string
  sc_issued_jti :: "string option"
  sc_issued_at :: "int option"
  sc_expires_at :: "int option"

record session_db =
  sd_db :: db
  sd_commands :: "session_command_row list"

definition sd_guests :: "session_db \<Rightarrow> guest_row list" where
  "sd_guests s = guests (sd_db s)"

definition guest_check :: "guest_row \<Rightarrow> bool" where
  "guest_check r \<longleftrightarrow> gs_issued_at r < gs_expires_at r \<and>
     (case gs_revoked_at r of None \<Rightarrow> True | Some t \<Rightarrow> gs_issued_at r \<le> t)"

definition session_command_check :: "session_command_row \<Rightarrow> bool" where
  "session_command_check c \<longleftrightarrow>
     sc_command_type c \<in> {''CREATE'', ''RENEW'', ''RESET''} \<and>
     (case (sc_issued_jti c, sc_issued_at c, sc_expires_at c) of
        (None, None, None) \<Rightarrow> True
      | (Some _, Some i, Some e) \<Rightarrow> i < e
      | _ \<Rightarrow> False)"

definition find_session_command :: "session_db \<Rightarrow> string \<Rightarrow> session_command_row option" where
  "find_session_command s hash = find_row (\<lambda>c. sc_idempotency_hash c = hash) (sd_commands s)"

definition find_session :: "session_db \<Rightarrow> string \<Rightarrow> guest_row option" where
  "find_session s gid = find_row (\<lambda>r. gs_id r = gid) (sd_guests s)"

section \<open>Errors and statements\<close>

datatype SessionRepositoryErrorKind = display_name_conflict | session_unavailable_kind

datatype session_thrown = RepositoryErr SessionRepositoryErrorKind | DbThrown thrown

definition insert_guest :: "guest_row \<Rightarrow> session_db \<Rightarrow> session_thrown + session_db" where
  "insert_guest r s =
     (if \<not> guest_check r then Inl (DbThrown check_violation)
      else if list_ex (\<lambda>q. gs_id q = gs_id r \<or> toLowerCase (gs_display_name q) = toLowerCase (gs_display_name r)) (sd_guests s)
      then Inl (DbThrown unique_violation)
      else Inr (s\<lparr>sd_db := (sd_db s)\<lparr>guests := sd_guests s @ [r]\<rparr>\<rparr>))"

definition update_guest :: "string \<Rightarrow> (guest_row \<Rightarrow> guest_row) \<Rightarrow> session_db \<Rightarrow> session_thrown + guest_row \<times> session_db" where
  "update_guest gid f s =
     (case find_session s gid of
        None \<Rightarrow> Inl (DbThrown record_not_found)
      | Some r \<Rightarrow>
          if \<not> guest_check (f r) then Inl (DbThrown check_violation)
          else Inr (f r, s\<lparr>sd_db := (sd_db s)\<lparr>guests := update_rows (\<lambda>q. gs_id q = gid) f (sd_guests s)\<rparr>\<rparr>))"

definition insert_session_command :: "session_command_row \<Rightarrow> session_db \<Rightarrow> session_thrown + session_db" where
  "insert_session_command c s =
     (if \<not> session_command_check c then Inl (DbThrown check_violation)
      else if list_ex (\<lambda>q. sc_idempotency_hash q = sc_idempotency_hash c) (sd_commands s) then Inl (DbThrown unique_violation)
      else if find_session s (sc_guest_session_id c) = None then Inl (DbThrown foreign_key_violation)
      else Inr (s\<lparr>sd_commands := sd_commands s @ [c]\<rparr>))"

section \<open>Records\<close>

datatype session_command_type = command_create | command_renew | command_reset

primrec session_command_text :: "session_command_type \<Rightarrow> string" where
  "session_command_text command_create = ''CREATE''"
| "session_command_text command_renew = ''RENEW''"
| "session_command_text command_reset = ''RESET''"

record SessionCommandReplay =
  cp_commandType :: session_command_type
  cp_guestSession :: GuestSessionRecord
  cp_issuedClaims :: "IssuedSessionClaims option"

record SessionMutationResult =
  mu_replayed :: bool
  mu_value :: SessionCommandReplay

definition toGuestSession :: "guest_row \<Rightarrow> GuestSessionRecord" where
  "toGuestSession r =
     \<lparr>gr_id = gs_id r, gr_avatarKey = gs_avatar_key r, gr_currentJti = gs_current_jti r, gr_displayName = gs_display_name r,
      gr_expiresAt = gs_expires_at r, gr_issuedAt = gs_issued_at r, gr_revokedAt = gs_revoked_at r\<rparr>"

definition invalid_command :: thrown where
  "invalid_command = DatabaseError kind_constraint False (ErrorObject None None None)"

definition command_claims :: "session_command_row \<Rightarrow> IssuedSessionClaims option" where
  "command_claims c =
     (case (sc_issued_jti c, sc_issued_at c, sc_expires_at c) of
        (Some jti, Some issuedAt, Some expiresAt) \<Rightarrow> Some \<lparr>ic_expiresAt = expiresAt, ic_issuedAt = issuedAt, ic_jti = jti\<rparr>
      | _ \<Rightarrow> None)"

definition toCommandReplay :: "session_command_row \<Rightarrow> guest_row \<Rightarrow> thrown + SessionCommandReplay" where
  "toCommandReplay c r =
     (case List.find (\<lambda>t. session_command_text t = sc_command_type c) [command_create, command_renew, command_reset] of
        None \<Rightarrow> Inl invalid_command
      | Some t \<Rightarrow> Inr \<lparr>cp_commandType = t, cp_guestSession = toGuestSession r, cp_issuedClaims = command_claims c\<rparr>)"

text \<open>\<open>findUnique\<close> of a command with its guest.\<close>

definition replay_of :: "session_db \<Rightarrow> string \<Rightarrow> thrown + SessionCommandReplay option" where
  "replay_of s hash =
     (case find_session_command s hash of
        None \<Rightarrow> Inr None
      | Some c \<Rightarrow>
          (case find_session s (sc_guest_session_id c) of
             None \<Rightarrow> Inr None
           | Some r \<Rightarrow> sbind (toCommandReplay c r) (\<lambda>x. Inr (Some x))))"

section \<open>Operations\<close>

record session_env =
  sx_fault :: fault
  sx_earlier :: session_db
  sx_readFault :: "thrown option"

text \<open>A transaction, with the roll back of what fails.\<close>

definition session_transaction ::
    "fault \<Rightarrow> (session_db \<Rightarrow> session_thrown + 'a \<times> session_db) \<Rightarrow> session_db \<Rightarrow> (session_thrown + 'a) \<times> session_db" where
  "session_transaction fault work s =
     (case fault of
        LostBeforeCommit e \<Rightarrow> (Inl (DbThrown e), s)
      | _ \<Rightarrow>
          (case work s of
             Inl e \<Rightarrow> (Inl e, s)
           | Inr (a, s') \<Rightarrow> (case fault of LostAfterCommit e \<Rightarrow> (Inl (DbThrown e), s') | _ \<Rightarrow> (Inr a, s'))))"

definition findCommand :: "session_env \<Rightarrow> string \<Rightarrow> session_db \<Rightarrow> thrown + SessionCommandReplay option" where
  "findCommand env hash s =
     (case sx_readFault env of
        Some e \<Rightarrow> Inl (toDatabaseError e)
      | None \<Rightarrow> (case replay_of s hash of Inl e \<Rightarrow> Inl (toDatabaseError e) | Inr x \<Rightarrow> Inr x))"

definition recoverUniqueOrThrow ::
    "session_env \<Rightarrow> string \<Rightarrow> bool \<Rightarrow> session_thrown \<Rightarrow> session_db \<Rightarrow> session_thrown + SessionMutationResult" where
  "recoverUniqueOrThrow env hash displayNameCanConflict error s =
     (case error of
        RepositoryErr kind \<Rightarrow> Inl error
      | DbThrown e \<Rightarrow>
          (let databaseError = toDatabaseError e in
           if db_kind databaseError = kind_unique then
             (case findCommand env hash s of
                Inl e' \<Rightarrow> Inl (DbThrown e')
              | Inr (Some stored) \<Rightarrow> Inr \<lparr>mu_replayed = True, mu_value = stored\<rparr>
              | Inr None \<Rightarrow>
                  if displayNameCanConflict then Inl (RepositoryErr display_name_conflict) else Inl (DbThrown databaseError))
           else Inl (DbThrown databaseError)))"

text \<open>A body that first looks for a command with the same key.\<close>

definition unless_replayed ::
    "session_env \<Rightarrow> string \<Rightarrow> (session_db \<Rightarrow> session_thrown + SessionCommandReplay \<times> session_db) \<Rightarrow>
     session_db \<Rightarrow> session_thrown + SessionMutationResult \<times> session_db" where
  "unless_replayed env hash work s =
     (case replay_of (sx_earlier env) hash of
        Inl e \<Rightarrow> Inl (DbThrown e)
      | Inr (Some stored) \<Rightarrow> Inr (\<lparr>mu_replayed = True, mu_value = stored\<rparr>, s)
      | Inr None \<Rightarrow> sbind (work s) (\<lambda>(value, s'). Inr (\<lparr>mu_replayed = False, mu_value = value\<rparr>, s')))"

definition recovered ::
    "session_env \<Rightarrow> string \<Rightarrow> bool \<Rightarrow> (session_thrown + SessionMutationResult) \<times> session_db \<Rightarrow>
     (session_thrown + SessionMutationResult) \<times> session_db" where
  "recovered env hash displayNameCanConflict r =
     (case r of
        (Inl e, s) \<Rightarrow> (recoverUniqueOrThrow env hash displayNameCanConflict e s, s)
      | (Inr x, s) \<Rightarrow> (Inr x, s))"

record CreateGuestSession =
  cg_avatarKey :: string
  cg_displayName :: string
  cg_guestSessionId :: string
  cg_idempotencyHash :: string
  cg_issuedClaims :: IssuedSessionClaims

definition claims_command :: "string \<Rightarrow> session_command_type \<Rightarrow> string \<Rightarrow> IssuedSessionClaims \<Rightarrow> session_command_row" where
  "claims_command hash type guest claims =
     \<lparr>sc_idempotency_hash = hash, sc_command_type = session_command_text type, sc_guest_session_id = guest,
      sc_issued_jti = Some (ic_jti claims), sc_issued_at = Some (ic_issuedAt claims), sc_expires_at = Some (ic_expiresAt claims)\<rparr>"

definition create_work :: "CreateGuestSession \<Rightarrow> session_db \<Rightarrow> session_thrown + SessionCommandReplay \<times> session_db" where
  "create_work input s =
     (let claims = cg_issuedClaims input;
          row = \<lparr>gs_id = cg_guestSessionId input, gs_display_name = cg_displayName input, gs_avatar_key = cg_avatarKey input,
            gs_current_jti = Some (ic_jti claims), gs_issued_at = ic_issuedAt claims, gs_expires_at = ic_expiresAt claims,
            gs_revoked_at = None\<rparr> in
      sbind (insert_guest row s) (\<lambda>s1.
      sbind (insert_session_command (claims_command (cg_idempotencyHash input) command_create (gs_id row) claims) s1) (\<lambda>s2.
      Inr (\<lparr>cp_commandType = command_create, cp_guestSession = toGuestSession row, cp_issuedClaims = Some claims\<rparr>, s2))))"

definition session_create ::
    "session_env \<Rightarrow> CreateGuestSession \<Rightarrow> session_db \<Rightarrow> (session_thrown + SessionMutationResult) \<times> session_db" where
  "session_create env input s =
     recovered env (cg_idempotencyHash input) True
       (session_transaction (sx_fault env) (unless_replayed env (cg_idempotencyHash input) (create_work input)) s)"

text \<open>\<open>current?.revokedAt !== null\<close>: a guest that is missing, revoked or expired at \<open>now\<close>.\<close>

definition live_session :: "session_db \<Rightarrow> string \<Rightarrow> int \<Rightarrow> bool" where
  "live_session s gid now \<longleftrightarrow>
     (case find_session s gid of None \<Rightarrow> False | Some r \<Rightarrow> gs_revoked_at r = None \<and> now < gs_expires_at r)"

record RenewGuestSession =
  rw_guestSessionId :: string
  rw_idempotencyHash :: string
  rw_issuedClaims :: IssuedSessionClaims

definition renew_work :: "RenewGuestSession \<Rightarrow> session_db \<Rightarrow> session_thrown + SessionCommandReplay \<times> session_db" where
  "renew_work input s =
     (let claims = rw_issuedClaims input; gid = rw_guestSessionId input in
      if \<not> live_session s gid (ic_issuedAt claims) then Inl (RepositoryErr session_unavailable_kind)
      else
        sbind (update_guest gid (\<lambda>r. r\<lparr>gs_current_jti := Some (ic_jti claims), gs_expires_at := ic_expiresAt claims,
            gs_issued_at := ic_issuedAt claims\<rparr>) s) (\<lambda>(r, s1).
        sbind (insert_session_command (claims_command (rw_idempotencyHash input) command_renew gid claims) s1) (\<lambda>s2.
        Inr (\<lparr>cp_commandType = command_renew, cp_guestSession = toGuestSession r, cp_issuedClaims = Some claims\<rparr>, s2))))"

definition session_renew ::
    "session_env \<Rightarrow> RenewGuestSession \<Rightarrow> session_db \<Rightarrow> (session_thrown + SessionMutationResult) \<times> session_db" where
  "session_renew env input s =
     recovered env (rw_idempotencyHash input) False
       (session_transaction (sx_fault env) (unless_replayed env (rw_idempotencyHash input) (renew_work input)) s)"

record ResetGuestSession =
  rz_guestSessionId :: string
  rz_idempotencyHash :: string
  rz_revokedAt :: int

definition reset_work :: "ResetGuestSession \<Rightarrow> session_db \<Rightarrow> session_thrown + SessionCommandReplay \<times> session_db" where
  "reset_work input s =
     (let gid = rz_guestSessionId input in
      if \<not> live_session s gid (rz_revokedAt input) then Inl (RepositoryErr session_unavailable_kind)
      else
        sbind (update_guest gid (\<lambda>r. r\<lparr>gs_revoked_at := Some (rz_revokedAt input)\<rparr>) s) (\<lambda>(r, s1).
        sbind (insert_session_command \<lparr>sc_idempotency_hash = rz_idempotencyHash input, sc_command_type = ''RESET'',
            sc_guest_session_id = gid, sc_issued_jti = None, sc_issued_at = None, sc_expires_at = None\<rparr> s1) (\<lambda>s2.
        Inr (\<lparr>cp_commandType = command_reset, cp_guestSession = toGuestSession r, cp_issuedClaims = None\<rparr>, s2))))"

definition session_reset ::
    "session_env \<Rightarrow> ResetGuestSession \<Rightarrow> session_db \<Rightarrow> (session_thrown + SessionMutationResult) \<times> session_db" where
  "session_reset env input s =
     recovered env (rz_idempotencyHash input) False
       (session_transaction (sx_fault env) (unless_replayed env (rz_idempotencyHash input) (reset_work input)) s)"

definition session_read :: "session_env \<Rightarrow> 'a \<Rightarrow> thrown + 'a" where
  "session_read env x = (case sx_readFault env of Some e \<Rightarrow> Inl (toDatabaseError e) | None \<Rightarrow> Inr x)"

definition findByDisplayName :: "session_env \<Rightarrow> string \<Rightarrow> session_db \<Rightarrow> thrown + GuestSessionRecord option" where
  "findByDisplayName env name s =
     session_read env (map_option toGuestSession
       (find_row (\<lambda>r. toLowerCase (gs_display_name r) = toLowerCase name) (sd_guests s)))"

definition session_findById :: "session_env \<Rightarrow> string \<Rightarrow> session_db \<Rightarrow> thrown + GuestSessionRecord option" where
  "session_findById env gid s = session_read env (map_option toGuestSession (find_session s gid))"

type_synonym revoked_cursor = "int \<times> string"

definition findLiveRevoked ::
    "session_env \<Rightarrow> int \<Rightarrow> nat \<Rightarrow> revoked_cursor option \<Rightarrow> session_db \<Rightarrow> thrown + GuestSessionRecord list" where
  "findLiveRevoked env now limit cursor s =
     session_read env (map toGuestSession (take limit
       (sort_key (\<lambda>r. (the (gs_revoked_at r), gs_id r))
         (filter (\<lambda>r. gs_revoked_at r \<noteq> None \<and> now < gs_expires_at r \<and>
            (case cursor of None \<Rightarrow> True | Some c \<Rightarrow> c < (the (gs_revoked_at r), gs_id r))) (sd_guests s)))))"

text \<open>
  The guests whom no game mentions and whose rows no other transaction has locked, the ones
  that expired first, up to the limit.
\<close>

definition mentioned :: "db \<Rightarrow> string \<Rightarrow> bool" where
  "mentioned db gid \<longleftrightarrow>
     list_ex (\<lambda>p. p_guest_session_id p = gid) (players db) \<or> list_ex (\<lambda>a. a_guest_session_id a = gid) (assignments db) \<or>
     list_ex (\<lambda>m. m_guest_session_id m = gid) (moves db) \<or> list_ex (\<lambda>c. c_guest_session_id c = gid) (commands db)"

definition cleanup_work :: "int \<Rightarrow> nat \<Rightarrow> string list \<Rightarrow> session_db \<Rightarrow> session_thrown + nat \<times> session_db" where
  "cleanup_work cutoff limit locked s =
     (let candidates = map gs_id (take limit (sort_key gs_expires_at
            (filter (\<lambda>r. gs_expires_at r < cutoff \<and> \<not> mentioned (sd_db s) (gs_id r) \<and> gs_id r \<notin> set locked) (sd_guests s)))) in
      Inr (count_rows (\<lambda>r. gs_id r \<in> set candidates) (sd_guests s),
        \<lparr>sd_db = (sd_db s)\<lparr>guests := delete_rows (\<lambda>r. gs_id r \<in> set candidates) (sd_guests s)\<rparr>,
         sd_commands = delete_rows (\<lambda>c. sc_guest_session_id c \<in> set candidates) (sd_commands s)\<rparr>))"

definition cleanupExpired ::
    "fault \<Rightarrow> int \<Rightarrow> nat \<Rightarrow> string list \<Rightarrow> session_db \<Rightarrow> (session_thrown + nat) \<times> session_db" where
  "cleanupExpired fault cutoff limit locked s =
     (case session_transaction fault (cleanup_work cutoff limit locked) s of
        (Inl (DbThrown e), s') \<Rightarrow> (Inl (DbThrown (toDatabaseError e)), s')
      | r \<Rightarrow> r)"

end
