(* ===== verification/Identity.thy ===== *)
theory Identity
  imports Session_Tokens
begin

text \<open>
  The anonymous identities: \<open>identity.service.ts\<close>, \<open>name-reservation.service.ts\<close>,
  \<open>identity-random-source.ts\<close> and the catalogues under \<open>src/src/modules/identity\<close>. Names are
  ASCII, which \<open>normalize('NFKD')\<close> leaves as it is. The random numbers are a parameter.
\<close>

section \<open>Catalogues\<close>

definition ADJECTIVES :: "string list" where
  "ADJECTIVES =
     [''Agile'', ''Amber'', ''Bold'', ''Brave'', ''Bright'', ''Calm'', ''Clever'', ''Crimson'', ''Daring'', ''Emerald'',
      ''Gentle'', ''Golden'', ''Grand'', ''Hidden'', ''Honest'', ''Jolly'', ''Kind'', ''Lively'', ''Lucky'', ''Merry'',
      ''Mighty'', ''Nimble'', ''Noble'', ''Quiet'', ''Rapid'', ''Royal'', ''Silent'', ''Silver'', ''Steady'', ''Swift'',
      ''Valiant'', ''Wise'']"

definition NOUNS :: "string list" where
  "NOUNS =
     [''Beacon'', ''Bear'', ''Bishop'', ''Castle'', ''Charger'', ''Cipher'', ''Comet'', ''Crown'', ''Dragon'', ''Falcon'',
      ''File'', ''Fork'', ''Fox'', ''Gambit'', ''Harbor'', ''Knight'', ''Lion'', ''Meadow'', ''Monarch'', ''Nova'',
      ''Orbit'', ''Pawn'', ''Pin'', ''Rank'', ''Raven'', ''Rider'', ''Rook'', ''Stallion'', ''Summit'', ''Tempo'',
      ''Tiger'', ''Wolf'']"

definition AVATARS :: "(string \<times> string) list" where
  "AVATARS =
     [(''/avatars/knight-amber-01.webp'', ''knight_amber_01''), (''/avatars/knight-bay-02.webp'', ''knight_bay_02''),
      (''/avatars/knight-bay-03.webp'', ''knight_bay_03''), (''/avatars/knight-black-01.webp'', ''knight_black_01''),
      (''/avatars/knight-chestnut-01.webp'', ''knight_chestnut_01''), (''/avatars/knight-gray-02.webp'', ''knight_gray_02''),
      (''/avatars/knight-palomino-01.webp'', ''knight_palomino_01''), (''/avatars/knight-white-02.webp'', ''knight_white_02'')]"

section \<open>Profanity\<close>

definition DENYLIST :: "string list" where
  "DENYLIST =
     [''bitch'', ''cunt'', ''dick'', ''faggot'', ''fuck'', ''hitler'', ''nazi'', ''nigga'', ''nigger'', ''penis'', ''shit'',
      ''slut'', ''whore'']"

definition LEET_CHARACTERS :: "(char \<times> char) list" where
  "LEET_CHARACTERS =
     [(CHR ''!'', CHR ''i''), (CHR ''$'', CHR ''s''), (CHR ''0'', CHR ''o''), (CHR ''1'', CHR ''i''), (CHR ''3'', CHR ''e''),
      (CHR ''4'', CHR ''a''), (CHR ''5'', CHR ''s''), (CHR ''7'', CHR ''t''), (CHR ''8'', CHR ''b''), (CHR ''@'', CHR ''a'')]"

definition leet :: "char \<Rightarrow> char" where
  "leet c = (case map_of LEET_CHARACTERS c of None \<Rightarrow> c | Some d \<Rightarrow> d)"

definition is_letter :: "char \<Rightarrow> bool" where
  "is_letter c \<longleftrightarrow> c \<in> set ''abcdefghijklmnopqrstuvwxyz''"

definition normalizeForProfanity :: "string \<Rightarrow> string" where
  "normalizeForProfanity s = filter is_letter (map leet (toLowerCase s))"

fun contains_text :: "string \<Rightarrow> string \<Rightarrow> bool" where
  "contains_text [] part = (part = [])"
| "contains_text (c # s) part = (starts_with part (c # s) \<or> contains_text s part)"

definition containsProfanity :: "string \<Rightarrow> bool" where
  "containsProfanity s = list_ex (contains_text (normalizeForProfanity s)) DENYLIST"

section \<open>Reservations\<close>

definition RESERVATION_SECONDS :: int where
  "RESERVATION_SECONDS = 86400"

definition nameKey :: "string \<Rightarrow> string" where
  "nameKey displayName = ''name:taken:'' @ toLowerCase displayName"

text \<open>\<open>None\<close> when Redis fails.\<close>

definition reserve :: "'s keyspace \<Rightarrow> redis_fault \<Rightarrow> string \<Rightarrow> string \<Rightarrow> 's \<Rightarrow> bool option \<times> 's" where
  "reserve K fault displayName guestSessionId s =
     (let (taken, s1) = ks_setnx K (nameKey displayName) guestSessionId RESERVATION_SECONDS s in
      case fault of
        redis_refused \<Rightarrow> (None, s)
      | redis_lost \<Rightarrow> (None, s1)
      | redis_up \<Rightarrow> (Some taken, s1))"

definition release_name :: "'s keyspace \<Rightarrow> redis_fault \<Rightarrow> string \<Rightarrow> string \<Rightarrow> 's \<Rightarrow> 's" where
  "release_name K fault displayName guestSessionId s =
     (if fault = redis_refused then s
      else if ks_get K (nameKey displayName) s = Some guestSessionId then ks_del K (nameKey displayName) s else s)"

section \<open>Generation\<close>

definition CANDIDATE_ATTEMPTS :: nat where
  "CANDIDATE_ATTEMPTS = 12"

definition FALLBACK_ATTEMPTS :: nat where
  "FALLBACK_ATTEMPTS = 4"

text \<open>The random numbers of an attempt: \<open>randomInt\<close> and \<open>randomBytes\<close>.\<close>

record draw =
  dw_adjective :: nat
  dw_noun :: nat
  dw_digits :: "nat \<Rightarrow> nat"
  dw_bytes :: "nat \<Rightarrow> nat"
  dw_avatar :: nat

definition draw_ok :: "draw \<Rightarrow> bool" where
  "draw_ok d \<longleftrightarrow>
     dw_adjective d < length ADJECTIVES \<and> dw_noun d < length NOUNS \<and> dw_avatar d < length AVATARS \<and>
     (\<forall>i. dw_digits d i < 10 \<and> dw_bytes d i < 256)"

definition numericSuffix :: "(nat \<Rightarrow> nat) \<Rightarrow> nat \<Rightarrow> string" where
  "numericSuffix digits n = map (\<lambda>i. ''0123456789'' ! digits i) [0..<n]"

definition fallbackSuffix :: "(nat \<Rightarrow> nat) \<Rightarrow> string" where
  "fallbackSuffix bytes = concat (map (\<lambda>i. [hex_char (bytes i div 16), hex_char (bytes i mod 16)]) [0..<6])"

datatype identity_error = IdentityGenerationError

record GeneratedIdentity =
  gi_avatarKey :: string
  gi_displayName :: string

definition pick :: "'a list \<Rightarrow> nat \<Rightarrow> identity_error + 'a" where
  "pick catalog i = (if i < length catalog then Inr (catalog ! i) else Inl IdentityGenerationError)"

definition suffix_of :: "nat \<Rightarrow> draw \<Rightarrow> string" where
  "suffix_of attempt d =
     (if attempt < CANDIDATE_ATTEMPTS then numericSuffix (dw_digits d) (min 4 (2 + attempt div 4)) else fallbackSuffix (dw_bytes d))"

text \<open>
  The two loops are one: the first \<open>CANDIDATE_ATTEMPTS\<close> attempts take digits, the rest a
  random text. \<open>draws i\<close> and \<open>faults i\<close> belong to the attempt \<open>i\<close>.
\<close>

fun generate_from ::
    "'s keyspace \<Rightarrow> (nat \<Rightarrow> draw) \<Rightarrow> (nat \<Rightarrow> redis_fault) \<Rightarrow> string \<Rightarrow> nat list \<Rightarrow> 's \<Rightarrow> (identity_error + GeneratedIdentity) \<times> 's" where
  "generate_from K draws faults guest [] s = (Inl IdentityGenerationError, s)"
| "generate_from K draws faults guest (i # attempts) s =
     (case sbind (pick ADJECTIVES (dw_adjective (draws i))) (\<lambda>a. sbind (pick NOUNS (dw_noun (draws i))) (\<lambda>n. Inr (a @ n))) of
        Inl e \<Rightarrow> (Inl e, s)
      | Inr stem \<Rightarrow>
          (let displayName = stem @ suffix_of i (draws i) in
           if containsProfanity displayName then generate_from K draws faults guest attempts s
           else
             (case reserve K (faults i) displayName guest s of
                (None, s1) \<Rightarrow> (Inl IdentityGenerationError, s1)
              | (Some False, s1) \<Rightarrow> generate_from K draws faults guest attempts s1
              | (Some True, s1) \<Rightarrow>
                  (sbind (pick AVATARS (dw_avatar (draws i))) (\<lambda>avatar.
                     Inr \<lparr>gi_avatarKey = snd avatar, gi_displayName = displayName\<rparr>), s1))))"

definition generate ::
    "'s keyspace \<Rightarrow> (nat \<Rightarrow> draw) \<Rightarrow> (nat \<Rightarrow> redis_fault) \<Rightarrow> string \<Rightarrow> 's \<Rightarrow> (identity_error + GeneratedIdentity) \<times> 's" where
  "generate K draws faults guest = generate_from K draws faults guest [0..<CANDIDATE_ATTEMPTS + FALLBACK_ATTEMPTS]"

definition release_identity :: "'s keyspace \<Rightarrow> redis_fault \<Rightarrow> GeneratedIdentity \<Rightarrow> string \<Rightarrow> 's \<Rightarrow> 's" where
  "release_identity K fault identity guest = release_name K fault (gi_displayName identity) guest"

end
