(* ===== verification/Session_Service.thy ===== *)
theory Session_Service
  imports Session_Repository Identity Game_Services
begin

text \<open>
  \<open>session.service.ts\<close>, \<open>session-maintenance.service.ts\<close> and
  \<open>infrastructure/guest-socket-disconnect-registry.ts\<close> under \<open>src/src/modules/session\<close>. The
  state is the database, the texts that expire (names and revocations) and the rest of
  Redis. The hash of an idempotency key is the parameter \<open>sv_sha256\<close>. Dates stay numbers
  where the code writes them with \<open>toISOString\<close>; metrics, logs and trace spans are left out.
\<close>

section \<open>Results and errors\<close>

record PublicGuestSession =
  pg_avatar :: string
  pg_expiresAt :: int
  pg_id :: string
  pg_issuedAt :: int
  pg_name :: string

record IssuedGuestSession =
  is_guest :: PublicGuestSession
  is_replayed :: bool
  is_token :: string

datatype session_failure =
    SessionFailure SessionError | IdentityFailure | RevocationFailure | RepositoryFailure SessionRepositoryErrorKind
  | DatabaseFailure thrown | OtherFailure

definition unavailable_failure :: SessionError where
  "unavailable_failure = sessionError SESSION_SERVICE_UNAVAILABLE ''Session service is temporarily unavailable'' True"

definition rethrowStable :: "session_failure \<Rightarrow> SessionError" where
  "rethrowStable error =
     (case error of
        SessionFailure e \<Rightarrow> e
      | IdentityFailure \<Rightarrow> unavailable_failure
      | RevocationFailure \<Rightarrow> unavailable_failure
      | RepositoryFailure kind \<Rightarrow>
          if kind = session_unavailable_kind
          then sessionError SESSION_UNAUTHORIZED ''Guest session is invalid or expired'' False
          else unavailable_failure
      | DatabaseFailure e \<Rightarrow>
          if \<not> is_DatabaseError e then sessionError SESSION_INTERNAL_ERROR ''Session request could not be completed'' False
          else if db_kind e = kind_unknown
          then sessionError SESSION_INTERNAL_ERROR ''Session request could not be completed'' (db_retryable e)
          else sessionError SESSION_SERVICE_UNAVAILABLE ''Session service is temporarily unavailable'' (db_retryable e)
      | OtherFailure \<Rightarrow> sessionError SESSION_INTERNAL_ERROR ''Session request could not be completed'' False)"

definition repository_failure :: "session_thrown \<Rightarrow> session_failure" where
  "repository_failure e = (case e of RepositoryErr kind \<Rightarrow> RepositoryFailure kind | DbThrown e \<Rightarrow> DatabaseFailure e)"

record ('k, 's) session_service =
  sv_tokens :: "'k JwtTokenService"
  sv_keyspace :: "'s keyspace"
  sv_sha256 :: "string \<Rightarrow> string"

definition DATABASE_NAME_ATTEMPTS :: nat where
  "DATABASE_NAME_ATTEMPTS = 8"

definition hashIdempotencyKey :: "(string \<Rightarrow> string) \<Rightarrow> string \<Rightarrow> session_failure + string" where
  "hashIdempotencyKey sha256 key =
     (let normalized = toLowerCase (js_trim key) in
      if \<not> UUID_V4 normalized then
        Inl (SessionFailure (sessionError SESSION_BAD_REQUEST ''Idempotency-Key must be a UUIDv4'' False))
      else Inr (sha256 normalized))"

definition createIssuedClaims :: "int \<Rightarrow> int \<Rightarrow> string \<Rightarrow> IssuedSessionClaims" where
  "createIssuedClaims ttl now randomUUID =
     (let issuedAtMs = now div 1000 * 1000 in
      \<lparr>ic_expiresAt = issuedAtMs + ttl * 1000, ic_issuedAt = issuedAtMs, ic_jti = randomUUID\<rparr>)"

definition assertCommand ::
    "SessionCommandReplay \<Rightarrow> session_command_type \<Rightarrow> string option \<Rightarrow> session_failure + unit" where
  "assertCommand cmd expectedType expectedGuest =
     (if cp_commandType cmd \<noteq> expectedType \<or>
         (case expectedGuest of None \<Rightarrow> False | Some g \<Rightarrow> gr_id (cp_guestSession cmd) \<noteq> g)
      then Inl (SessionFailure (sessionError SESSION_IDEMPOTENCY_KEY_REUSED
        ''Idempotency key was already used for another operation'' False))
      else if expectedType \<in> {command_create, command_renew} \<and> cp_issuedClaims cmd = None
      then Inl (SessionFailure (sessionError SESSION_INTERNAL_ERROR ''Stored session command is invalid'' False))
      else Inr ())"

definition toPublicGuest :: "GuestSessionRecord \<Rightarrow> PublicGuestSession" where
  "toPublicGuest g =
     \<lparr>pg_avatar = gr_avatarKey g, pg_expiresAt = gr_expiresAt g, pg_id = gr_id g, pg_issuedAt = gr_issuedAt g,
      pg_name = gr_displayName g\<rparr>"

definition toIssuedSession ::
    "'k JwtTokenService \<Rightarrow> SessionCommandReplay \<Rightarrow> bool \<Rightarrow> session_failure + IssuedGuestSession" where
  "toIssuedSession J cmd replayed =
     (case cp_issuedClaims cmd of
        None \<Rightarrow> Inl (SessionFailure (sessionError SESSION_INTERNAL_ERROR ''Stored token issuance is invalid'' False))
      | Some claims \<Rightarrow>
          (case issue_token J (cp_guestSession cmd) claims of
             None \<Rightarrow> Inl OtherFailure
           | Some token \<Rightarrow>
               Inr \<lparr>is_guest = toPublicGuest (cp_guestSession cmd), is_replayed = replayed, is_token = token\<rparr>))"

section \<open>Creating a session\<close>

type_synonym 's session_world = "session_db \<times> 's"

text \<open>The calls of one attempt to create a guest.\<close>

record 's attempt_env =
  ae_draws :: "nat \<Rightarrow> draw"
  ae_faults :: "nat \<Rightarrow> redis_fault"
  ae_now :: int
  ae_jti :: string
  ae_create :: session_env
  ae_release :: redis_fault
  ae_others :: "nat \<Rightarrow> 's session_world \<Rightarrow> 's session_world"

definition release_in_world ::
    "('k, 's) session_service \<Rightarrow> redis_fault \<Rightarrow> GeneratedIdentity \<Rightarrow> string \<Rightarrow> 's session_world \<Rightarrow> 's session_world" where
  "release_in_world S fault identity guest w = (fst w, release_identity (sv_keyspace S) fault identity guest (snd w))"

text \<open>
  What an attempt ends with: a session, another try, or an error.
\<close>

datatype attempt_result = Issued IssuedGuestSession | TryAgain | Failed session_failure

definition finish_create ::
    "('k, 's) session_service \<Rightarrow> 's attempt_env \<Rightarrow> GeneratedIdentity \<Rightarrow> string \<Rightarrow>
     (session_thrown + SessionMutationResult) \<Rightarrow> 's session_world \<Rightarrow> attempt_result \<times> 's session_world" where
  "finish_create S env identity guest created w =
     (case created of
        Inl e \<Rightarrow>
          (if e = RepositoryErr display_name_conflict then TryAgain else Failed (repository_failure e),
           release_in_world S (ae_release env) identity guest w)
      | Inr result \<Rightarrow>
          (let stored = mu_value result;
               w1 = (if gr_id (cp_guestSession stored) \<noteq> guest
                     then release_in_world S (ae_release env) identity guest w else w) in
           case assertCommand stored command_create None of
             Inl e \<Rightarrow> (Failed e, release_in_world S (ae_release env) identity guest w)
           | Inr _ \<Rightarrow>
               (case toIssuedSession (sv_tokens S) stored (mu_replayed result) of
                  Inl e \<Rightarrow> (Failed e, release_in_world S (ae_release env) identity guest w1)
                | Inr issued \<Rightarrow> (Issued issued, w1))))"

definition create_attempt ::
    "('k, 's) session_service \<Rightarrow> 's attempt_env \<Rightarrow> string \<Rightarrow> string \<Rightarrow> 's session_world \<Rightarrow> attempt_result \<times> 's session_world" where
  "create_attempt S env hash guest w =
     (case generate (sv_keyspace S) (ae_draws env) (ae_faults env) guest (snd w) of
        (Inl _, keys) \<Rightarrow> (Failed IdentityFailure, fst w, keys)
      | (Inr identity, keys) \<Rightarrow>
          (let w1 = ae_others env 0 (fst w, keys);
               (created, s1) = session_create (ae_create env)
                 \<lparr>cg_avatarKey = gi_avatarKey identity, cg_displayName = gi_displayName identity, cg_guestSessionId = guest,
                  cg_idempotencyHash = hash,
                  cg_issuedClaims = createIssuedClaims (jw_ttlSeconds (sv_tokens S)) (ae_now env) (ae_jti env)\<rparr> (fst w1) in
           finish_create S env identity guest created (s1, snd w1)))"

fun create_attempts ::
    "('k, 's) session_service \<Rightarrow> 's attempt_env list \<Rightarrow> string \<Rightarrow> string \<Rightarrow> 's session_world \<Rightarrow>
     (session_failure + IssuedGuestSession) \<times> 's session_world" where
  "create_attempts S [] hash guest w = (Inl IdentityFailure, w)"
| "create_attempts S (env # envs) hash guest w =
     (case create_attempt S env hash guest w of
        (Issued issued, w1) \<Rightarrow> (Inr issued, w1)
      | (Failed e, w1) \<Rightarrow> (Inl e, w1)
      | (TryAgain, w1) \<Rightarrow> create_attempts S envs hash guest (ae_others env 1 w1))"

record 's create_env =
  ce_find :: session_env
  ce_guestId :: string
  ce_attempt :: "nat \<Rightarrow> 's attempt_env"

definition stable :: "(session_failure + 'a) \<times> 'w \<Rightarrow> (SessionError + 'a) \<times> 'w" where
  "stable r = (case r of (Inl e, w) \<Rightarrow> (Inl (rethrowStable e), w) | (Inr x, w) \<Rightarrow> (Inr x, w))"

definition createInternal ::
    "('k, 's) session_service \<Rightarrow> 's create_env \<Rightarrow> string \<Rightarrow> 's session_world \<Rightarrow>
     (SessionError + IssuedGuestSession) \<times> 's session_world" where
  "createInternal S env idempotencyKey w = stable
     (case hashIdempotencyKey (sv_sha256 S) idempotencyKey of
        Inl e \<Rightarrow> (Inl e, w)
      | Inr hash \<Rightarrow>
          (case findCommand (ce_find env) hash (fst w) of
             Inl e \<Rightarrow> (Inl (DatabaseFailure e), w)
           | Inr (Some existing) \<Rightarrow>
               (sbind (assertCommand existing command_create None) (\<lambda>_. toIssuedSession (sv_tokens S) existing True), w)
           | Inr None \<Rightarrow>
               create_attempts S (map (ce_attempt env) [0..<DATABASE_NAME_ATTEMPTS]) hash (ce_guestId env) w))"

section \<open>Renewing and reading a session\<close>

record renew_env =
  re_find :: session_env
  re_others :: "session_db \<Rightarrow> session_db"
  re_now :: int
  re_jti :: string
  re_renew :: session_env

definition renew_session ::
    "('k, 's) session_service \<Rightarrow> renew_env \<Rightarrow> AuthenticatedGuest \<Rightarrow> string \<Rightarrow> session_db \<Rightarrow>
     (SessionError + IssuedGuestSession) \<times> session_db" where
  "renew_session S env guest idempotencyKey s = stable
     (case hashIdempotencyKey (sv_sha256 S) idempotencyKey of
        Inl e \<Rightarrow> (Inl e, s)
      | Inr hash \<Rightarrow>
          (case findCommand (re_find env) hash s of
             Inl e \<Rightarrow> (Inl (DatabaseFailure e), s)
           | Inr (Some existing) \<Rightarrow>
               (sbind (assertCommand existing command_renew (Some (au_guestSessionId guest)))
                  (\<lambda>_. toIssuedSession (sv_tokens S) existing True), s)
           | Inr None \<Rightarrow>
               (case session_renew (re_renew env)
                    \<lparr>rw_guestSessionId = au_guestSessionId guest, rw_idempotencyHash = hash,
                     rw_issuedClaims = createIssuedClaims (jw_ttlSeconds (sv_tokens S)) (re_now env) (re_jti env)\<rparr> (re_others env s) of
                  (Inl e, s1) \<Rightarrow> (Inl (repository_failure e), s1)
                | (Inr result, s1) \<Rightarrow>
                    (sbind (assertCommand (mu_value result) command_renew (Some (au_guestSessionId guest)))
                       (\<lambda>_. toIssuedSession (sv_tokens S) (mu_value result) (mu_replayed result)), s1))))"

definition getCurrent ::
    "session_env \<Rightarrow> AuthenticatedGuest \<Rightarrow> int \<Rightarrow> session_db \<Rightarrow> SessionError + PublicGuestSession" where
  "getCurrent env guest now s =
     (case session_findById env (au_guestSessionId guest) s of
        Inl e \<Rightarrow> Inl (rethrowStable (DatabaseFailure e))
      | Inr found \<Rightarrow>
          (case found of
             Some g \<Rightarrow>
               if gr_revokedAt g = None \<and> now < gr_expiresAt g then Inr (toPublicGuest g)
               else Inl (sessionError SESSION_UNAUTHORIZED ''Guest session is invalid or expired'' False)
           | None \<Rightarrow> Inl (sessionError SESSION_UNAUTHORIZED ''Guest session is invalid or expired'' False)))"

section \<open>Resetting a session\<close>

text \<open>
  The registry of the socket gateway; without one nothing is disconnected. The delegate
  gives the sockets it has disconnected, and whether it went through: it fails when the
  sockets of other instances cannot be asked for.
\<close>

definition registry_disconnect :: "(string \<Rightarrow> string list \<times> bool) option \<Rightarrow> string \<Rightarrow> string list \<times> bool" where
  "registry_disconnect delegate guest = (case delegate of None \<Rightarrow> ([], True) | Some f \<Rightarrow> f guest)"

type_synonym ('s, 'r) reset_world = "session_db \<times> 's \<times> 'r"

record 'r reset_env =
  rs_find :: session_env
  rs_others :: "session_db \<Rightarrow> session_db"
  rs_now :: int
  rs_reset :: session_env
  rs_terminal :: "'r terminal_env"
  rs_revokeNow :: int
  rs_pipe :: pipe
  rs_fault :: redis_fault

record reset_outputs =
  ro_deliveries :: "delivery list"
  ro_disconnected :: "string list"

definition finishReset ::
    "('k, 's) session_service \<Rightarrow> ('p, 'r) game_services \<Rightarrow> (string \<Rightarrow> string list \<times> bool) option \<Rightarrow> 'r reset_env \<Rightarrow>
     GuestSessionRecord \<Rightarrow> AuthenticatedGuest \<Rightarrow> ('s, 'r) reset_world \<Rightarrow>
     (session_failure + unit) \<times> reset_outputs \<times> ('s, 'r) reset_world" where
  "finishReset S G delegate env guest identity w =
     (case w of (s, keys, r) \<Rightarrow>
        (case service_terminateForReset G (rs_terminal env) (gr_id guest) (r, sd_db s) of
           (Inl e, deliveries, r1, db1) \<Rightarrow>
             (Inl (DatabaseFailure e), \<lparr>ro_deliveries = deliveries, ro_disconnected = []\<rparr>, s\<lparr>sd_db := db1\<rparr>, keys, r1)
         | (Inr _, deliveries, r1, db1) \<Rightarrow>
             (case revoke (sv_keyspace S) (jw_clockSkewSeconds (sv_tokens S)) (rs_pipe env) (rs_fault env) guest identity
                  (rs_revokeNow env) keys of
                (Inl _, keys1) \<Rightarrow>
                  (Inl RevocationFailure, \<lparr>ro_deliveries = deliveries, ro_disconnected = []\<rparr>, s\<lparr>sd_db := db1\<rparr>, keys1, r1)
              | (Inr _, keys1) \<Rightarrow>
                  (case registry_disconnect delegate (gr_id guest) of
                     (sockets, fulfilled) \<Rightarrow>
                       (if fulfilled then Inr () else Inl OtherFailure,
                        \<lparr>ro_deliveries = deliveries, ro_disconnected = sockets\<rparr>, s\<lparr>sd_db := db1\<rparr>, keys1, r1)))))"

definition no_outputs :: reset_outputs where
  "no_outputs = \<lparr>ro_deliveries = [], ro_disconnected = []\<rparr>"

definition reset_session ::
    "('k, 's) session_service \<Rightarrow> ('p, 'r) game_services \<Rightarrow> (string \<Rightarrow> string list \<times> bool) option \<Rightarrow> 'r reset_env \<Rightarrow>
     AuthenticatedGuest \<Rightarrow> string \<Rightarrow> bool \<Rightarrow> ('s, 'r) reset_world \<Rightarrow>
     (SessionError + unit) \<times> reset_outputs \<times> ('s, 'r) reset_world" where
  "reset_session S G delegate env guest idempotencyKey tokenWasRevoked w = stable
     (case w of (s, rest) \<Rightarrow>
        (case hashIdempotencyKey (sv_sha256 S) idempotencyKey of
           Inl e \<Rightarrow> (Inl e, no_outputs, w)
         | Inr hash \<Rightarrow>
             (case findCommand (rs_find env) hash s of
                Inl e \<Rightarrow> (Inl (DatabaseFailure e), no_outputs, w)
              | Inr (Some existing) \<Rightarrow>
                  (case assertCommand existing command_reset (Some (au_guestSessionId guest)) of
                     Inl e \<Rightarrow> (Inl e, no_outputs, w)
                   | Inr _ \<Rightarrow> finishReset S G delegate env (cp_guestSession existing) guest w)
              | Inr None \<Rightarrow>
                  if tokenWasRevoked then
                    (Inl (SessionFailure (sessionError SESSION_UNAUTHORIZED ''Guest session is invalid or revoked'' False)), no_outputs, w)
                  else
                    (case session_reset (rs_reset env)
                         \<lparr>rz_guestSessionId = au_guestSessionId guest, rz_idempotencyHash = hash, rz_revokedAt = rs_now env\<rparr>
                         (rs_others env s) of
                       (Inl e, s1) \<Rightarrow> (Inl (repository_failure e), no_outputs, s1, rest)
                     | (Inr result, s1) \<Rightarrow>
                         (case assertCommand (mu_value result) command_reset (Some (au_guestSessionId guest)) of
                            Inl e \<Rightarrow> (Inl e, no_outputs, s1, rest)
                          | Inr _ \<Rightarrow> finishReset S G delegate env (cp_guestSession (mu_value result)) guest (s1, rest))))))"

section \<open>Maintenance\<close>

record SessionMaintenanceService =
  mt_batchSize :: nat
  mt_retentionMs :: int
  mt_revocationCursor :: "revoked_cursor option"
  mt_cleanupRunning :: bool
  mt_reconciliationRunning :: bool

definition retention_config :: "int \<Rightarrow> int" where
  "retention_config days = days * 24 * 60 * 60 * 1000"

fun restore_all ::
    "'s keyspace \<Rightarrow> int \<Rightarrow> (nat \<Rightarrow> redis_fault) \<Rightarrow> nat \<Rightarrow> GuestSessionRecord list \<Rightarrow> int \<Rightarrow> 's \<Rightarrow> (revocation_error + unit) \<times> 's" where
  "restore_all K skew faults i [] now s = (Inr (), s)"
| "restore_all K skew faults i (g # gs) now s =
     (case restoreSessionRevocation K skew (faults i) g now s of
        (Inl e, s1) \<Rightarrow> (Inl e, s1)
      | (Inr _, s1) \<Rightarrow> restore_all K skew faults (i + 1) gs now s1)"

text \<open>The cursor goes on only when a whole batch has been restored, and starts again after the last one.\<close>

definition next_cursor :: "nat \<Rightarrow> GuestSessionRecord list \<Rightarrow> revoked_cursor option" where
  "next_cursor batchSize gs =
     (if length gs = batchSize \<and> gs \<noteq> []
      then map_option (\<lambda>t. (t, gr_id (last gs))) (gr_revokedAt (last gs)) else None)"

definition reconcileRevocations ::
    "'s keyspace \<Rightarrow> int \<Rightarrow> session_env \<Rightarrow> (nat \<Rightarrow> redis_fault) \<Rightarrow> int \<Rightarrow> session_db \<Rightarrow> SessionMaintenanceService \<times> 's \<Rightarrow>
     (session_failure + unit) \<times> SessionMaintenanceService \<times> 's" where
  "reconcileRevocations K skew env faults now db st =
     (case st of (M, s) \<Rightarrow>
        (case findLiveRevoked env now (mt_batchSize M) (mt_revocationCursor M) db of
           Inl e \<Rightarrow> (Inl (DatabaseFailure e), M, s)
         | Inr revoked \<Rightarrow>
             (case restore_all K skew faults 0 revoked now s of
                (Inl _, s1) \<Rightarrow> (Inl RevocationFailure, M, s1)
              | (Inr _, s1) \<Rightarrow> (Inr (), M\<lparr>mt_revocationCursor := next_cursor (mt_batchSize M) revoked\<rparr>, s1))))"

definition cleanup_job ::
    "fault \<Rightarrow> string list \<Rightarrow> SessionMaintenanceService \<Rightarrow> int \<Rightarrow> session_db \<Rightarrow> (session_thrown + nat) \<times> session_db" where
  "cleanup_job fault locked M now s = cleanupExpired fault (now - mt_retentionMs M) (mt_batchSize M) locked s"

text \<open>A job that still runs is not started again.\<close>

definition reconcile_starts :: "SessionMaintenanceService \<Rightarrow> SessionMaintenanceService option" where
  "reconcile_starts M = (if mt_reconciliationRunning M then None else Some (M\<lparr>mt_reconciliationRunning := True\<rparr>))"

definition cleanup_starts :: "SessionMaintenanceService \<Rightarrow> SessionMaintenanceService option" where
  "cleanup_starts M = (if mt_cleanupRunning M then None else Some (M\<lparr>mt_cleanupRunning := True\<rparr>))"

end
