(* ===== verification/Token_Properties.thy ===== *)
theory Token_Properties
  imports Session_Tokens
begin

text \<open>
  What holds of the tokens: a token that was issued is accepted during its lifetime and no
  longer, and names the guest it was issued to; the tokens of a session that was revoked are
  refused from then on.
\<close>

section \<open>Segments\<close>

lemma split_on_absent: "c \<notin> set s \<Longrightarrow> split_on c s = [s]"
  by (induction s) auto

lemma split_on_append: "c \<notin> set s \<Longrightarrow> split_on c (s @ c # t) = s # split_on c t"
  by (induction s) auto

lemma dot_not_base64url: "\<not> base64url_char CHR ''.''"
  by code_simp

lemma base64url_no_dot: "base64url s \<Longrightarrow> CHR ''.'' \<notin> set s"
  using dot_not_base64url by (auto simp: base64url_def list_all_iff)

lemma split_token:
  "base64url a \<Longrightarrow> base64url b \<Longrightarrow> base64url c \<Longrightarrow> split_on CHR ''.'' (a @ ''.'' @ b @ ''.'' @ c) = [a, b, c]"
  by (simp add: split_on_append split_on_absent base64url_no_dot)

section \<open>The lifetime of a token\<close>

text \<open>
  What is documented of the encoding, of the objects \<open>js\<close>, and of signatures: what was encoded is
  decoded again, both are written in the base64url alphabet, and what the private key signs, the public key
  of the pair accepts.
\<close>

definition crypto_ok :: "'k crypto \<Rightarrow> 'k \<Rightarrow> 'k \<Rightarrow> json list \<Rightarrow> bool" where
  "crypto_ok K privateKey publicKey js \<longleftrightarrow>
     (\<forall>j \<in> set js. base64url (ck_encode K j) \<and> ck_decode K (ck_encode K j) = Some j) \<and>
     (\<forall>input. base64url (ck_sign K privateKey input) \<and> ck_verify K publicKey input (ck_sign K privateKey input))"

lemma claims_schema_fields:
  "field ''exp'' (claims_json guest claims) = JNum (ic_expiresAt claims div 1000)"
  "field ''iat'' (claims_json guest claims) = JNum (ic_issuedAt claims div 1000)"
  "field ''avatar'' (claims_json guest claims) = JStr (gr_avatarKey guest)"
  "field ''sub'' (claims_json guest claims) = JStr (gr_id guest)"
  "field ''jti'' (claims_json guest claims) = JStr (ic_jti claims)"
  "field ''name'' (claims_json guest claims) = JStr (gr_displayName guest)"
  by (simp_all add: claims_json_def)

definition token_identity :: "GuestSessionRecord \<Rightarrow> IssuedSessionClaims \<Rightarrow> AuthenticatedGuest" where
  "token_identity guest claims =
     \<lparr>au_avatarKey = gr_avatarKey guest, au_expiresAt = new_Date (ic_expiresAt claims div 1000 * 1000),
      au_guestSessionId = gr_id guest, au_issuedAt = new_Date (ic_issuedAt claims div 1000 * 1000),
      au_jti = ic_jti claims, au_name = gr_displayName guest\<rparr>"

text \<open>
  C18. A token that was issued is accepted exactly during its lifetime, with the tolerance for the clocks on either
  side, and then names the guest, the avatar, the name and the token identifier that it was issued for; before that time
  it is refused as malformed and after it as expired, whatever keys for other key identifiers are loaded.
\<close>
theorem issued_token_verifies:
  assumes "issue_token J guest claims = Some token" and "length token \<le> 8192"
    and "map_of (jw_publicKeys J) (jw_activeKid J) = Some publicKey" and "sized 1 128 (jw_activeKid J)"
    and "crypto_ok (jw_crypto J) (jw_privateKey J) publicKey [header_json (jw_activeKid J), claims_json guest claims]"
  shows "verify_token J token now =
     (if ic_issuedAt claims div 1000 > now div 1000 + jw_clockSkewSeconds J then Inl token_malformed
      else if now div 1000 \<ge> ic_expiresAt claims div 1000 + jw_clockSkewSeconds J then Inl token_expired
      else Inr (token_identity guest claims))"
proof -
  let ?K = "jw_crypto J"
  let ?h = "ck_encode ?K (header_json (jw_activeKid J))" and ?c = "ck_encode ?K (claims_json guest claims)"
  let ?s = "ck_sign ?K (jw_privateKey J) (?h @ ''.'' @ ?c)"
  have codec: "base64url ?h" "ck_decode ?K ?h = Some (header_json (jw_activeKid J))"
    "base64url ?c" "ck_decode ?K ?c = Some (claims_json guest claims)" "base64url (ck_sign ?K (jw_privateKey J) input)"
    "ck_verify ?K publicKey input (ck_sign ?K (jw_privateKey J) input)" for input
    using assms(5) by (simp_all add: crypto_ok_def)
  have issued: "jwtClaimsSchema (claims_json guest claims)"
    "ic_expiresAt claims div 1000 - ic_issuedAt claims div 1000 = jw_ttlSeconds J" "token = ?h @ ''.'' @ ?c @ ''.'' @ ?s"
    using assms(1) by (auto simp: issue_token_def Let_def split: if_splits)
  have header: "jwtHeaderSchema (header_json (jw_activeKid J))" "text_of (field ''kid'' (header_json (jw_activeKid J))) = jw_activeKid J"
    using assms(4) by (simp_all add: jwtHeaderSchema_def header_json_def zstrict_simps text_of_def)
  have split: "split_on CHR ''.'' token = [?h, ?c, ?s]" unfolding issued(3) by (rule split_token) (rule codec)+
  have "verify_token J token now = verify_claims J ?c now"
    using assms(2,3) by (simp add: verify_token_def split decodeJson_def codec header)
  also have "\<dots> = (if ic_issuedAt claims div 1000 > now div 1000 + jw_clockSkewSeconds J then Inl token_malformed
      else if now div 1000 \<ge> ic_expiresAt claims div 1000 + jw_clockSkewSeconds J then Inl token_expired
      else Inr (token_identity guest claims))"
    using issued(1,2)
    by (simp add: verify_claims_def decodeJson_def codec claims_schema_fields number_of_def text_of_def token_identity_def Let_def)
  finally show ?thesis .
qed

section \<open>Revocation in time\<close>

text \<open>
  The documented behaviour of \<open>SET ... EX\<close> and \<open>GET\<close>: \<open>kv_at\<close> is the text of a key with the
  time until which it is kept, \<open>kv_now\<close> the time of the server, \<open>kv_wait\<close> what time changes.
\<close>

record 's keyspace_view =
  kv_at :: "string \<Rightarrow> 's \<Rightarrow> (string \<times> int) option"
  kv_now :: "'s \<Rightarrow> int"
  kv_wait :: "int \<Rightarrow> 's \<Rightarrow> 's"

definition keyspace_ok :: "'s keyspace \<Rightarrow> 's keyspace_view \<Rightarrow> bool" where
  "keyspace_ok K V \<longleftrightarrow>
     (\<forall>k v ex s. 0 < ex \<longrightarrow> kv_now V (ks_set K k v ex s) = kv_now V s \<and>
        (\<forall>j. kv_at V j (ks_set K k v ex s) = (if j = k then Some (v, kv_now V s + 1000 * ex) else kv_at V j s))) \<and>
     (\<forall>k s. ks_get K k s = (case kv_at V k s of None \<Rightarrow> None | Some (v, e) \<Rightarrow> if kv_now V s < e then Some v else None)) \<and>
     (\<forall>d s. 0 \<le> d \<longrightarrow> kv_now V (kv_wait V d s) = kv_now V s + d \<and> (\<forall>k. kv_at V k (kv_wait V d s) = kv_at V k s))"

lemma keyspace_set:
  assumes "keyspace_ok K V" and "0 < ex"
  shows "kv_now V (ks_set K k v ex s) = kv_now V s"
    "kv_at V j (ks_set K k v ex s) = (if j = k then Some (v, kv_now V s + 1000 * ex) else kv_at V j s)"
  using assms by (simp_all add: keyspace_ok_def)

lemma keyspace_wait:
  assumes "keyspace_ok K V" and "0 \<le> d"
  shows "kv_now V (kv_wait V d s) = kv_now V s + d" "kv_at V k (kv_wait V d s) = kv_at V k s"
  using assms by (simp_all add: keyspace_ok_def)

lemma keyspace_get:
  "keyspace_ok K V \<Longrightarrow> kv_at V k s = Some (v, e) \<Longrightarrow> kv_now V s < e \<Longrightarrow> ks_get K k s = Some v"
  by (simp add: keyspace_ok_def)

lemma ceil_seconds: "ms \<le> 1000 * ceil_seconds ms"
  by (simp add: ceil_seconds_def)

lemma ttlSeconds_covers: "0 < ttlSeconds skew expiry now" "expiry - now + 1000 * skew \<le> 1000 * ttlSeconds skew expiry now"
proof -
  show "0 < ttlSeconds skew expiry now" by (simp add: ttlSeconds_def)
  have "expiry - now + 1000 * skew \<le> 1000 * (ceil_seconds (expiry - now) + skew)"
    using ceil_seconds [of "expiry - now"] by (simp add: algebra_simps)
  also have "\<dots> \<le> 1000 * ttlSeconds skew expiry now" unfolding ttlSeconds_def by (intro mult_left_mono) auto
  finally show "expiry - now + 1000 * skew \<le> 1000 * ttlSeconds skew expiry now" .
qed

lemma revoked_keys:
  assumes "keyspace_ok K V" and "revoke K skew pipe_done redis_up guest identity now s = (Inr (), s')"
    and "au_expiresAt identity = Date e"
  shows "kv_now V s' = kv_now V s"
    "\<exists>v t. kv_at V (sessionKey (gr_id guest)) s' = Some (v, t) \<and>
       kv_now V s + max (gr_expiresAt guest) e - now + 1000 * skew \<le> t"
proof -
  let ?ttl = "ttlSeconds skew (max (gr_expiresAt guest) e) now"
  have s': "s' = ks_set K (tokenKey (au_jti identity)) ''1'' (ttlSeconds skew e now)
      (ks_set K (sessionKey (gr_id guest)) (int_text (max (gr_expiresAt guest) e)) ?ttl s)"
    using assms(2,3) by (simp add: revoke_def run_pipeline_def Let_def)
  have keys: "sessionKey (gr_id guest) \<noteq> tokenKey (au_jti identity)" by (simp add: sessionKey_def tokenKey_def)
  note set = keyspace_set [OF assms(1) ttlSeconds_covers(1)]
  show "kv_now V s' = kv_now V s" by (simp add: s' set)
  have "kv_at V (sessionKey (gr_id guest)) s' = Some (int_text (max (gr_expiresAt guest) e), kv_now V s + 1000 * ?ttl)"
    by (simp add: s' set keys)
  then show "\<exists>v t. kv_at V (sessionKey (gr_id guest)) s' = Some (v, t) \<and>
       kv_now V s + max (gr_expiresAt guest) e - now + 1000 * skew \<le> t"
    using ttlSeconds_covers(2) [where skew = skew and expiry = "max (gr_expiresAt guest) e" and now = now] by simp
qed

lemma verified_in_time:
  assumes "verify_token J token now = Inr identity" and "au_expiresAt identity = Date e"
  shows "now < e + 1000 * jw_clockSkewSeconds J"
proof -
  obtain encoded where "verify_claims J encoded now = Inr identity"
    using assms(1) by (auto simp: verify_token_def split: if_splits list.splits option.splits)
  then obtain claims where "decodeJson (jw_crypto J) encoded = Some claims" "verify_claims J encoded now = Inr identity"
    by (auto simp: verify_claims_def split: option.splits)
  then have "now div 1000 < number_of (field ''exp'' claims) + jw_clockSkewSeconds J \<and>
      au_expiresAt identity = new_Date (number_of (field ''exp'' claims) * 1000)"
    by (auto simp: verify_claims_def Let_def split: if_splits)
  then obtain expires where "now div 1000 < expires + jw_clockSkewSeconds J" "au_expiresAt identity = new_Date (expires * 1000)"
    by blast
  moreover from this(2) have "e = expires * 1000" using assms(2) by (simp add: new_Date_def split: if_splits)
  ultimately show ?thesis by simp
qed

text \<open>
  C17. Once the revocation of a session has been stored, the guard refuses every token of that session, whenever a
  request presents it and in whatever header, as long as it does not expire later than the session and the token
  with which it was revoked: what Redis keeps outlives the last moment at which the signature and the times of such a token
  are still accepted, whatever the server of Redis believes the time to be.
\<close>
theorem revoked_session_refused:
  assumes "keyspace_ok K V" and "revoke K (jw_clockSkewSeconds J) pipe_done redis_up guest identity now s = (Inr (), s')"
    and "au_expiresAt identity = Date e" and "0 \<le> d"
    and "\<forall>token later. extractToken cookieName headers = Some token \<and> verify_token J token (now + d) = Inr later \<longrightarrow>
        au_guestSessionId later = gr_id guest \<and> (\<exists>e'. au_expiresAt later = Date e' \<and> e' \<le> max (gr_expiresAt guest) e)"
  shows "session_auth_guard J K cookieName redis_up headers (now + d) (kv_wait V d s') = Inl session_unauthorized"
proof (cases "extractToken cookieName headers")
  case None
  then show ?thesis by (simp add: session_auth_guard_def authenticate_request_def)
next
  case (Some token)
  show ?thesis
  proof (cases "verify_token J token (now + d)")
    case (Inl r)
    then show ?thesis using Some by (simp add: session_auth_guard_def authenticate_request_def)
  next
    case (Inr later)
    obtain e' where e': "au_guestSessionId later = gr_id guest" "au_expiresAt later = Date e'" "e' \<le> max (gr_expiresAt guest) e"
      using assms(5) Some Inr by blast
    obtain v t where key: "kv_at V (sessionKey (gr_id guest)) s' = Some (v, t)"
      "kv_now V s + max (gr_expiresAt guest) e - now + 1000 * jw_clockSkewSeconds J \<le> t"
      using revoked_keys(2) [OF assms(1-3)] by blast
    have "kv_now V (kv_wait V d s') < t"
      using verified_in_time [OF Inr e'(2)] e'(3) key(2) revoked_keys(1) [OF assms(1-3)] keyspace_wait(1) [OF assms(1,4)] by simp
    then have "ks_get K (sessionKey (gr_id guest)) (kv_wait V d s') = Some v"
      using keyspace_get [OF assms(1)] key(1) keyspace_wait(2) [OF assms(1,4)] by simp
    then show ?thesis using Some Inr e'(1) by (simp add: session_auth_guard_def authenticate_request_def isRevoked_def)
  qed
qed

section \<open>A guest, a key and a server\<close>

definition sample_claims :: IssuedSessionClaims where
  "sample_claims = \<lparr>ic_expiresAt = 7201000, ic_issuedAt = 1000, ic_jti = ''00000000-0000-4000-8000-000000000001''\<rparr>"

definition sample_guest :: GuestSessionRecord where
  "sample_guest = \<lparr>gr_id = ''00000000-0000-4000-8000-000000000002'', gr_avatarKey = ''knight_bay_02'',
     gr_currentJti = Some ''00000000-0000-4000-8000-000000000001'', gr_displayName = ''BoldBear12'', gr_expiresAt = 7201000,
     gr_issuedAt = 1000, gr_revokedAt = None\<rparr>"

text \<open>A codec for the two objects of one token.\<close>

definition sample_crypto :: "string crypto" where
  "sample_crypto =
     \<lparr>ck_sign = (\<lambda>k input. ''c2ln''), ck_verify = (\<lambda>k input signature. k = ''public'' \<and> signature = ''c2ln''),
      ck_encode = (\<lambda>j. if j = header_json ''kid'' then ''aGVh'' else ''Y2xh''),
      ck_decode = (\<lambda>s. if s = ''aGVh'' then Some (header_json ''kid'') else if s = ''Y2xh'' then Some (claims_json sample_guest sample_claims)
        else None),
      ck_ed25519 = (\<lambda>k. True)\<rparr>"

definition sample_tokens :: "string JwtTokenService" where
  "sample_tokens =
     \<lparr>jw_crypto = sample_crypto, jw_activeKid = ''kid'', jw_clockSkewSeconds = 30, jw_privateKey = ''private'',
      jw_publicKeys = [(''kid'', ''public'')], jw_ttlSeconds = 7200\<rparr>"

definition sample_token :: string where
  "sample_token = ''aGVh.Y2xh.c2ln''"

lemma sample_crypto_ok:
  "crypto_ok sample_crypto ''private'' ''public'' [header_json ''kid'', claims_json sample_guest sample_claims]"
proof -
  have "base64url ''c2ln''" "base64url ''aGVh''" "base64url ''Y2xh''" by code_simp+
  moreover have "claims_json sample_guest sample_claims \<noteq> header_json ''kid''" by (simp add: claims_json_def header_json_def)
  ultimately show ?thesis by (simp add: crypto_ok_def sample_crypto_def)
qed

lemma sample_token_issued: "issue_token sample_tokens sample_guest sample_claims = Some sample_token"
  by code_simp

theorem issued_token_verifies_witness:
  "verify_token sample_tokens sample_token 5000000 = Inr (token_identity sample_guest sample_claims) \<and>
   verify_token sample_tokens sample_token 7231000 = Inl token_expired"
proof -
  have facts: "length sample_token \<le> 8192" "map_of (jw_publicKeys sample_tokens) (jw_activeKid sample_tokens) = Some ''public''"
    "sized 1 128 (jw_activeKid sample_tokens)"
    by code_simp+
  have "crypto_ok (jw_crypto sample_tokens) (jw_privateKey sample_tokens) ''public''
      [header_json (jw_activeKid sample_tokens), claims_json sample_guest sample_claims]"
    using sample_crypto_ok by (simp add: sample_tokens_def)
  note verified = issued_token_verifies [OF sample_token_issued facts this]
  show ?thesis
    using verified [of 5000000] verified [of 7231000] by (simp add: sample_tokens_def sample_claims_def)
qed

type_synonym sample_keys = "int \<times> (string \<Rightarrow> (string \<times> int) option)"

definition sample_keyspace :: "sample_keys keyspace" where
  "sample_keyspace =
     \<lparr>ks_set = (\<lambda>k v ex (t, m). (t, m(k \<mapsto> (v, t + 1000 * ex)))),
      ks_setnx = (\<lambda>k v ex (t, m). case m k of
          Some (u, e) \<Rightarrow> if t < e then (False, t, m) else (True, t, m(k \<mapsto> (v, t + 1000 * ex)))
        | None \<Rightarrow> (True, t, m(k \<mapsto> (v, t + 1000 * ex)))),
      ks_get = (\<lambda>k (t, m). case m k of None \<Rightarrow> None | Some (v, e) \<Rightarrow> if t < e then Some v else None),
      ks_del = (\<lambda>k (t, m). (t, m(k := None)))\<rparr>"

definition sample_keys_view :: "sample_keys keyspace_view" where
  "sample_keys_view = \<lparr>kv_at = (\<lambda>k (t, m). m k), kv_now = fst, kv_wait = (\<lambda>d (t, m). (t + d, m))\<rparr>"

lemma sample_keyspace_ok: "keyspace_ok sample_keyspace sample_keys_view"
  by (auto simp: keyspace_ok_def sample_keyspace_def sample_keys_view_def split: option.splits)

theorem revoked_session_refused_witness:
  "session_auth_guard sample_tokens sample_keyspace ''guest'' redis_up
     \<lparr>rh_authorization = Some (''Bearer '' @ sample_token), rh_cookie = None\<rparr> 7230999
     (kv_wait sample_keys_view 2230999
        (snd (revoke sample_keyspace 30 pipe_done redis_up sample_guest (token_identity sample_guest sample_claims) 5000000 (77, Map.empty)))) =
   Inl session_unauthorized"
proof -
  let ?identity = "token_identity sample_guest sample_claims"
    and ?headers = "\<lparr>rh_authorization = Some (''Bearer '' @ sample_token), rh_cookie = None\<rparr>"
  have identity: "au_expiresAt ?identity = Date 7201000" "au_guestSessionId ?identity = gr_id sample_guest" by code_simp+
  have revoked: "revoke sample_keyspace (jw_clockSkewSeconds sample_tokens) pipe_done redis_up sample_guest ?identity 5000000 (77, Map.empty) =
      (Inr (), snd (revoke sample_keyspace 30 pipe_done redis_up sample_guest ?identity 5000000 (77, Map.empty)))"
    by (simp add: revoke_def identity(1) sample_tokens_def Let_def)
  have presented: "extractToken ''guest'' ?headers = Some sample_token"
    "verify_token sample_tokens sample_token (5000000 + 2230999) = Inr ?identity"
    by code_simp+
  have "\<forall>token later. extractToken ''guest'' ?headers = Some token \<and> verify_token sample_tokens token (5000000 + 2230999) = Inr later \<longrightarrow>
      au_guestSessionId later = gr_id sample_guest \<and>
      (\<exists>e'. au_expiresAt later = Date e' \<and> e' \<le> max (gr_expiresAt sample_guest) 7201000)"
    using presented identity by (auto simp: sample_guest_def)
  from revoked_session_refused [OF sample_keyspace_ok revoked identity(1) _ this] show ?thesis by simp
qed

end
