(* ===== verification/Identity_Properties.thy ===== *)
theory Identity_Properties
  imports Identity Token_Properties
begin

text \<open>
  What holds of the generated identities: they are built from the catalogues, contain no
  blocked word, fit the claims of a token, and no two guests hold the same name while its
  reservation lasts.
\<close>

section \<open>Names\<close>

definition identity_name :: "nat \<Rightarrow> draw \<Rightarrow> string" where
  "identity_name i d = (ADJECTIVES ! dw_adjective d @ NOUNS ! dw_noun d) @ suffix_of i d"

lemma catalog_sizes:
  "list_all (\<lambda>w. 0 < length w \<and> length w \<le> 7) ADJECTIVES" "list_all (\<lambda>w. length w \<le> 8) NOUNS"
  by code_simp+

lemma suffix_length: "length (suffix_of i d) \<le> 12"
  by (simp add: suffix_of_def numericSuffix_def fallbackSuffix_def length_concat comp_def sum_list_triv min_def)

lemma identity_name_sized:
  assumes "draw_ok d"
  shows "sized 1 128 (identity_name i d)"
proof -
  have "0 < length (ADJECTIVES ! dw_adjective d)" "length (ADJECTIVES ! dw_adjective d) \<le> 7" "length (NOUNS ! dw_noun d) \<le> 8"
    using catalog_sizes assms unfolding list_all_length draw_ok_def by auto
  then show ?thesis using suffix_length [of i d] by (simp add: identity_name_def sized_def del: length_greater_0_conv)
qed

lemma pick_Inr_iff: "pick catalog i = Inr x \<longleftrightarrow> i < length catalog \<and> x = catalog ! i"
  by (auto simp: pick_def)

section \<open>Reservations\<close>

definition setnx_law :: "'s keyspace \<Rightarrow> 's keyspace_view \<Rightarrow> bool" where
  "setnx_law K V \<longleftrightarrow>
     (\<forall>k v ex s. 0 < ex \<longrightarrow>
        (let free = (ks_get K k s = None) in
         fst (ks_setnx K k v ex s) = free \<and> kv_now V (snd (ks_setnx K k v ex s)) = kv_now V s \<and>
         (\<forall>j. kv_at V j (snd (ks_setnx K k v ex s)) =
            (if free \<and> j = k then Some (v, kv_now V s + 1000 * ex) else kv_at V j s))))"

text \<open>The documented behaviour of \<open>DEL\<close>.\<close>

definition del_law :: "'s keyspace \<Rightarrow> 's keyspace_view \<Rightarrow> bool" where
  "del_law K V \<longleftrightarrow>
     (\<forall>k s. kv_now V (ks_del K k s) = kv_now V s \<and>
        (\<forall>j. kv_at V j (ks_del K k s) = (if j = k then None else kv_at V j s)))"

text \<open>A key is held by \<open>v\<close> until \<open>t\<close>.\<close>

definition held :: "'s keyspace_view \<Rightarrow> string \<Rightarrow> string \<Rightarrow> int \<Rightarrow> 's \<Rightarrow> bool" where
  "held V k v t s \<longleftrightarrow> kv_at V k s = Some (v, t) \<and> kv_now V s < t"

lemma held_taken: "keyspace_ok K V \<Longrightarrow> held V k v t s \<Longrightarrow> ks_get K k s = Some v"
  by (auto simp: held_def dest: keyspace_get)

lemma reserve_effect:
  assumes "setnx_law K V" and "reserve K fault name guest s = (r, s')"
  shows "kv_now V s' = kv_now V s"
    "r = Some True \<Longrightarrow> ks_get K (nameKey name) s = None \<and> held V (nameKey name) guest (kv_now V s + 86400000) s'"
    "keyspace_ok K V \<Longrightarrow> held V k v t s \<Longrightarrow> held V k v t s'"
proof -
  let ?r = "ks_setnx K (nameKey name) guest RESERVATION_SECONDS s"
  have law: "fst ?r = (ks_get K (nameKey name) s = None)" "kv_now V (snd ?r) = kv_now V s"
    "kv_at V j (snd ?r) = (if ks_get K (nameKey name) s = None \<and> j = nameKey name then Some (guest, kv_now V s + 86400000) else kv_at V j s)" for j
    using assms(1) by (simp_all add: setnx_law_def RESERVATION_SECONDS_def Let_def)
  have s': "s' = s \<or> s' = snd ?r" "r = Some True \<Longrightarrow> fst ?r \<and> s' = snd ?r"
    using assms(2) by (auto simp: reserve_def Let_def split: prod.splits redis_fault.splits)
  show "kv_now V s' = kv_now V s" using s'(1) law(2) by auto
  show "ks_get K (nameKey name) s = None \<and> held V (nameKey name) guest (kv_now V s + 86400000) s'" if "r = Some True"
    using s'(2) [OF that] law by (simp add: held_def)
  show "held V k v t s'" if "keyspace_ok K V" "held V k v t s"
  proof -
    have "k \<noteq> nameKey name \<or> ks_get K (nameKey name) s \<noteq> None" using held_taken [OF that] by auto
    then show ?thesis using s'(1) law(2,3) that(2) by (auto simp: held_def)
  qed
qed

lemma generate_from_reserves:
  assumes "setnx_law K V" and "keyspace_ok K V"
    and "generate_from K draws faults guest attempts s = (Inr identity, s')"
  shows "\<exists>i \<in> set attempts. dw_avatar (draws i) < length AVATARS \<and>
      gi_avatarKey identity = snd (AVATARS ! dw_avatar (draws i)) \<and> gi_displayName identity = identity_name i (draws i) \<and>
      \<not> containsProfanity (gi_displayName identity)" (is ?built)
    "held V (nameKey (gi_displayName identity)) guest (kv_now V s + 86400000) s'"
    "held V k v t s \<Longrightarrow> nameKey (gi_displayName identity) \<noteq> k"
proof -
  have "?built \<and> held V (nameKey (gi_displayName identity)) guest (kv_now V s + 86400000) s' \<and>
      (held V k v t s \<longrightarrow> nameKey (gi_displayName identity) \<noteq> k)"
    using assms(3)
  proof (induction attempts arbitrary: s)
    case (Cons i attempts)
    let ?name = "identity_name i (draws i)"
    obtain stem where stem: "stem @ suffix_of i (draws i) = ?name"
      "sbind (pick ADJECTIVES (dw_adjective (draws i))) (\<lambda>a. sbind (pick NOUNS (dw_noun (draws i))) (\<lambda>n. Inr (a @ n))) = Inr stem"
      using Cons.prems by (auto simp: pick_def identity_name_def split: if_splits)
    obtain r s1 where res: "reserve K (faults i) ?name guest s = (r, s1)" by fastforce
    note eff = reserve_effect [OF assms(1) res]
    have later: "\<exists>j \<in> set (i # attempts). P j" if "\<exists>j \<in> set attempts. P j" for P :: "nat \<Rightarrow> bool" using that by auto
    show ?case
    proof (cases "containsProfanity ?name")
      case True
      then have "generate_from K draws faults guest attempts s = (Inr identity, s')"
        using Cons.prems by (simp add: stem Let_def)
      from Cons.IH [OF this] show ?thesis by auto
    next
      case False
      show ?thesis
      proof (cases r)
        case None
        then show ?thesis using Cons.prems False by (simp add: stem res Let_def)
      next
        case (Some taken)
        show ?thesis
        proof (cases taken)
          case True
          then show ?thesis using Cons.prems False eff(2) held_taken [OF assms(2), of "nameKey ?name" v t s]
            by (auto simp: stem res Some sbind_Inr_iff pick_Inr_iff Let_def)
        next
          case taken: False
          then have "generate_from K draws faults guest attempts s1 = (Inr identity, s')"
            using Cons.prems False by (simp add: stem res Some Let_def)
          from Cons.IH [OF this] show ?thesis using eff(1) eff(3) [OF assms(2)] by auto
        qed
      qed
    qed
  qed simp
  then show ?built "held V (nameKey (gi_displayName identity)) guest (kv_now V s + 86400000) s'"
    "held V k v t s \<Longrightarrow> nameKey (gi_displayName identity) \<noteq> k" by auto
qed

lemma generate_from_time:
  assumes "setnx_law K V" and "generate_from K draws faults guest attempts s = (r, s')"
  shows "kv_now V s' = kv_now V s"
  using assms(2)
proof (induction attempts arbitrary: s)
  case (Cons i attempts)
  obtain q s1 where res: "reserve K (faults i) (identity_name i (draws i)) guest s = (q, s1)" by fastforce
  have "kv_now V s1 = kv_now V s" by (rule reserve_effect(1) [OF assms(1) res])
  then show ?case
    using Cons.prems Cons.IH res
    by (auto simp: identity_name_def Let_def pick_def split: if_splits option.splits bool.splits)
qed simp

lemma generate_from_keeps:
  assumes "setnx_law K V" and "keyspace_ok K V" and "held V k v t s"
    and "generate_from K draws faults guest attempts s = (r, s')"
  shows "held V k v t s'"
  using assms(3,4)
proof (induction attempts arbitrary: s)
  case (Cons i attempts)
  obtain q s1 where res: "reserve K (faults i) (identity_name i (draws i)) guest s = (q, s1)" by fastforce
  have "held V k v t s1" by (rule reserve_effect(3) [OF assms(1) res assms(2) Cons.prems(1)])
  then show ?case
    using Cons.prems Cons.IH res
    by (auto simp: identity_name_def Let_def pick_def split: if_splits option.splits bool.splits)
qed simp

lemma release_keeps:
  assumes "keyspace_ok K V" and "del_law K V" and "held V k v t s" and "nameKey name \<noteq> k \<or> guest \<noteq> v"
  shows "held V k v t (release_name K fault name guest s)"
  using assms held_taken [OF assms(1,3)] by (auto simp: release_name_def held_def del_law_def)

section \<open>While a name is reserved\<close>

text \<open>
  What may happen to Redis while \<open>owner\<close> has the name \<open>name\<close>: time passes, anyone generates an identity, anyone
  but the owner gives any name back and the owner gives back any other name, with any random numbers
  and any failures, and keys that are no reservations change.
\<close>

inductive names_evolve :: "'s keyspace \<Rightarrow> 's keyspace_view \<Rightarrow> string \<Rightarrow> string \<Rightarrow> 's \<Rightarrow> 's \<Rightarrow> bool"
  for K V owner name s where
  now: "names_evolve K V owner name s s"
| pass: "names_evolve K V owner name s s1 \<Longrightarrow> 0 \<le> d \<Longrightarrow> names_evolve K V owner name s (kv_wait V d s1)"
| generated: "names_evolve K V owner name s s1 \<Longrightarrow> names_evolve K V owner name s (snd (generate K draws faults guest s1))"
| released: "names_evolve K V owner name s s1 \<Longrightarrow> nameKey (gi_displayName other_identity) \<noteq> nameKey name \<or> guest \<noteq> owner \<Longrightarrow>
    names_evolve K V owner name s (release_identity K fault other_identity guest s1)"
| elsewhere: "names_evolve K V owner name s s1 \<Longrightarrow> kv_now V s2 = kv_now V s1 \<Longrightarrow>
    \<forall>n. kv_at V (nameKey n) s2 = kv_at V (nameKey n) s1 \<Longrightarrow> names_evolve K V owner name s s2"

lemma release_time: "del_law K V \<Longrightarrow> kv_now V (release_name K fault name guest s) = kv_now V s"
  by (simp add: release_name_def del_law_def)

lemma names_evolve_holds:
  assumes "keyspace_ok K V" and "setnx_law K V" and "del_law K V" and "names_evolve K V owner name s s'"
    and "held V (nameKey name) owner t s"
  shows "kv_now V s \<le> kv_now V s'" "kv_now V s' < t \<Longrightarrow> held V (nameKey name) owner t s'"
proof -
  have "kv_now V s \<le> kv_now V s' \<and> (kv_now V s' < t \<longrightarrow> held V (nameKey name) owner t s')"
    using assms(4)
  proof (induction rule: names_evolve.induct)
    case now
    then show ?case using assms(5) by simp
  next
    case (pass s1 d)
    then show ?case using keyspace_wait [OF assms(1) pass.hyps(2)] by (auto simp: held_def)
  next
    case (generated s1 draws faults guest)
    have "kv_now V (snd (generate K draws faults guest s1)) = kv_now V s1"
      unfolding generate_def by (rule generate_from_time [OF assms(2) surjective_pairing])
    moreover have "held V (nameKey name) owner t (snd (generate K draws faults guest s1))" if "held V (nameKey name) owner t s1"
      unfolding generate_def by (rule generate_from_keeps [OF assms(2,1) that surjective_pairing])
    ultimately show ?case using generated.IH by simp
  next
    case (released s1 other_identity guest fault)
    then show ?case using release_keeps [OF assms(1,3)] by (simp add: release_identity_def release_time [OF assms(3)])
  next
    case (elsewhere s1 s2)
    then show ?case by (simp add: held_def)
  qed
  then show "kv_now V s \<le> kv_now V s'" "kv_now V s' < t \<Longrightarrow> held V (nameKey name) owner t s'" by blast+
qed

text \<open>
  C29. An identity that is generated is built from the catalogues, contains no blocked word however it is spelt with
  digits, and has a name and an avatar that fit the claims of a token. For a day after a guest got a name, no
  call gives anyone a name that differs from it at most in the case of its letters, whatever the random
  numbers are and whatever has happened in between: other identities generated, names given back, also this one
  by guests who do not own it, and calls of Redis that failed. Only the owner can give the name back early.
\<close>
theorem identities_are_distinct:
  assumes "keyspace_ok K V" and "setnx_law K V" and "del_law K V" and "\<forall>i. draw_ok (draws i)"
    and "generate K draws faults owner s = (Inr identity, s1)"
    and "names_evolve K V owner (gi_displayName identity) s1 s2" and "kv_now V s2 < kv_now V s + 86400000"
    and "generate K draws' faults' other s2 = (Inr identity', s3)"
  shows "\<not> containsProfanity (gi_displayName identity) \<and> sized 1 128 (gi_displayName identity) \<and>
     gi_avatarKey identity \<in> snd ` set AVATARS \<and>
     toLowerCase (gi_displayName identity') \<noteq> toLowerCase (gi_displayName identity)"
proof -
  note first = generate_from_reserves [OF assms(2,1) assms(5) [unfolded generate_def]]
  have "held V (nameKey (gi_displayName identity)) owner (kv_now V s + 86400000) s2"
    by (rule names_evolve_holds(2) [OF assms(1-3,6) first(2) assms(7)])
  then have "nameKey (gi_displayName identity') \<noteq> nameKey (gi_displayName identity)"
    by (rule generate_from_reserves(3) [OF assms(2,1) assms(8) [unfolded generate_def]])
  then have "toLowerCase (gi_displayName identity') \<noteq> toLowerCase (gi_displayName identity)" by (simp add: nameKey_def)
  moreover have "\<not> containsProfanity (gi_displayName identity) \<and> sized 1 128 (gi_displayName identity) \<and>
      gi_avatarKey identity \<in> snd ` set AVATARS"
    using first(1) identity_name_sized assms(4) by (metis imageI nth_mem)
  ultimately show ?thesis by blast
qed

lemma sample_setnx: "setnx_law sample_keyspace sample_keys_view"
  by (auto simp: setnx_law_def sample_keyspace_def sample_keys_view_def Let_def split: option.splits)

lemma sample_del: "del_law sample_keyspace sample_keys_view"
  by (auto simp: del_law_def sample_keyspace_def sample_keys_view_def)

definition sample_draws :: "nat \<Rightarrow> draw" where
  "sample_draws i = \<lparr>dw_adjective = i mod 32, dw_noun = i mod 32, dw_digits = (\<lambda>j. j mod 10), dw_bytes = (\<lambda>j. j mod 256),
     dw_avatar = i mod 8\<rparr>"

definition sample_named :: "(identity_error + GeneratedIdentity) \<times> sample_keys" where
  "sample_named = generate sample_keyspace sample_draws (\<lambda>_. redis_up) ''u1'' (5, Map.empty)"

text \<open>Another guest tries to give the name back, and asks for one a second later.\<close>

definition sample_later :: sample_keys where
  "sample_later = kv_wait sample_keys_view 1000 (release_identity sample_keyspace redis_up
     \<lparr>gi_avatarKey = ''knight_amber_01'', gi_displayName = ''AgileBeacon01''\<rparr> ''u2'' (snd sample_named))"

definition sample_renamed :: "(identity_error + GeneratedIdentity) \<times> sample_keys" where
  "sample_renamed = generate sample_keyspace sample_draws (\<lambda>_. redis_up) ''u2'' sample_later"

theorem identities_are_distinct_witness:
  "fst sample_named = Inr \<lparr>gi_avatarKey = ''knight_amber_01'', gi_displayName = ''AgileBeacon01''\<rparr> \<and>
   fst sample_renamed = Inr \<lparr>gi_avatarKey = ''knight_bay_02'', gi_displayName = ''AmberBear01''\<rparr> \<and>
   sized 1 128 ''AgileBeacon01'' \<and> toLowerCase ''AmberBear01'' \<noteq> toLowerCase ''AgileBeacon01''"
proof -
  have results: "map_prod id fst sample_named = (Inr \<lparr>gi_avatarKey = ''knight_amber_01'', gi_displayName = ''AgileBeacon01''\<rparr>, 5) \<and>
      map_prod id fst sample_renamed = (Inr \<lparr>gi_avatarKey = ''knight_bay_02'', gi_displayName = ''AmberBear01''\<rparr>, 1005)"
    by code_simp
  have draws: "\<forall>i. draw_ok (sample_draws i)"
  proof -
    have "length ADJECTIVES = 32" "length NOUNS = 32" "length AVATARS = 8" by code_simp+
    then show ?thesis by (simp add: draw_ok_def sample_draws_def)
  qed
  obtain s1 s3 where run: "sample_named = (Inr \<lparr>gi_avatarKey = ''knight_amber_01'', gi_displayName = ''AgileBeacon01''\<rparr>, s1)" "fst s1 = 5"
      "sample_renamed = (Inr \<lparr>gi_avatarKey = ''knight_bay_02'', gi_displayName = ''AmberBear01''\<rparr>, s3)"
    using arg_cong [OF conjunct1 [OF results], of fst] arg_cong [OF conjunct1 [OF results], of snd]
      arg_cong [OF conjunct2 [OF results], of fst]
    unfolding fst_map_prod snd_map_prod fst_conv snd_conv id_apply by (metis prod.collapse)
  have "names_evolve sample_keyspace sample_keys_view ''u1'' ''AgileBeacon01'' s1 sample_later"
    unfolding sample_later_def run(1) snd_conv
    by (rule names_evolve.pass [OF names_evolve.released [OF names_evolve.now]]) simp_all
  moreover have "kv_now sample_keys_view sample_later < kv_now sample_keys_view (5, Map.empty) + 86400000"
    using run(2) release_time [OF sample_del] unfolding sample_later_def run(1) snd_conv
    by (simp add: release_identity_def sample_keys_view_def split_beta)
  ultimately have "sized 1 128 ''AgileBeacon01'' \<and> toLowerCase ''AmberBear01'' \<noteq> toLowerCase ''AgileBeacon01''"
    using identities_are_distinct [OF sample_keyspace_ok sample_setnx sample_del draws run(1) [unfolded sample_named_def] _ _
        run(3) [unfolded sample_renamed_def]] by simp
  then show ?thesis unfolding run(1,3) fst_conv by blast
qed

end
