(* ===== verification/Session_Properties.thy ===== *)
theory Session_Properties
  imports Session_Service Identity_Properties
begin

text \<open>
  What holds of guest sessions over time: a session that was reset stays reset, and a request
  that is repeated with its idempotency key gets the session and the token it got before.
\<close>

section \<open>What every operation keeps\<close>

definition session_ok :: "session_db \<Rightarrow> bool" where
  "session_ok s \<longleftrightarrow>
     distinct (map gs_id (sd_guests s)) \<and> distinct (map sc_idempotency_hash (sd_commands s)) \<and>
     (\<forall>c \<in> set (sd_commands s). session_command_check c \<and> sc_guest_session_id c \<in> gs_id ` set (sd_guests s))"

text \<open>A guest keeps its name and avatar, and once it is revoked it does not change at all.\<close>

definition guest_continues :: "guest_row \<Rightarrow> guest_row \<Rightarrow> bool" where
  "guest_continues r r' \<longleftrightarrow>
     gs_id r' = gs_id r \<and> gs_display_name r' = gs_display_name r \<and> gs_avatar_key r' = gs_avatar_key r \<and>
     (gs_revoked_at r \<noteq> None \<longrightarrow> r' = r)"

definition continues :: "session_db \<Rightarrow> session_db \<Rightarrow> bool" where
  "continues s s' \<longleftrightarrow>
     set (sd_commands s) \<subseteq> set (sd_commands s') \<and>
     (\<forall>r \<in> set (sd_guests s). \<exists>r' \<in> set (sd_guests s'). guest_continues r r')"

definition progress :: "session_db \<Rightarrow> session_db \<Rightarrow> bool" where
  "progress s s' \<longleftrightarrow> session_ok s' \<and> continues s s'"

lemma guest_continues_refl: "guest_continues r r"
  by (simp add: guest_continues_def)

lemma guest_continues_trans: "guest_continues a b \<Longrightarrow> guest_continues b c \<Longrightarrow> guest_continues a c"
  by (auto simp: guest_continues_def)

lemma continues_refl: "continues s s"
  by (auto simp: continues_def intro: guest_continues_refl)

lemma continues_trans: "continues a b \<Longrightarrow> continues b c \<Longrightarrow> continues a c"
  unfolding continues_def by (meson guest_continues_trans subset_trans)

lemma progress_refl: "session_ok s \<Longrightarrow> progress s s"
  by (simp add: progress_def continues_refl)

lemma progress_trans: "progress a b \<Longrightarrow> progress b c \<Longrightarrow> progress a c"
  using continues_trans by (auto simp: progress_def)

lemma find_session_iff:
  "session_ok s \<Longrightarrow> find_session s gid = Some r \<longleftrightarrow> r \<in> set (sd_guests s) \<and> gs_id r = gid"
  unfolding find_session_def session_ok_def using find_row_SomeD find_row_unique [of gs_id "sd_guests s"] by fastforce

lemma find_command_iff:
  "session_ok s \<Longrightarrow> find_session_command s hash = Some c \<longleftrightarrow> c \<in> set (sd_commands s) \<and> sc_idempotency_hash c = hash"
  unfolding find_session_command_def session_ok_def
  using find_row_SomeD find_row_unique [of sc_idempotency_hash "sd_commands s"] by fastforce

lemma sd_guests_update [simp]:
  "sd_guests (s\<lparr>sd_db := (sd_db s)\<lparr>guests := gs\<rparr>\<rparr>) = gs" "sd_guests (s\<lparr>sd_commands := cs\<rparr>) = sd_guests s"
  by (simp_all add: sd_guests_def)

lemma insert_guest_progress:
  assumes "insert_guest r s = Inr s'" and "session_ok s"
  shows "progress s s'" "r \<in> set (sd_guests s')" "sd_commands s' = sd_commands s"
proof -
  have s': "s' = s\<lparr>sd_db := (sd_db s)\<lparr>guests := sd_guests s @ [r]\<rparr>\<rparr>" "gs_id r \<notin> gs_id ` set (sd_guests s)"
    using assms(1) by (auto simp: insert_guest_def list_ex_iff split: if_splits)
  then show "r \<in> set (sd_guests s')" "sd_commands s' = sd_commands s" by simp_all
  have "continues s s'"
    unfolding continues_def using guest_continues_refl by (auto simp: s'(1))
  then show "progress s s'" using assms(2) s'(2) by (auto simp: s'(1) progress_def session_ok_def)
qed

lemma insert_session_command_progress:
  assumes "insert_session_command c s = Inr s'" and "session_ok s"
  shows "progress s s'" "c \<in> set (sd_commands s')" "sd_guests s' = sd_guests s"
proof -
  have s': "s' = s\<lparr>sd_commands := sd_commands s @ [c]\<rparr>" "session_command_check c"
    "sc_idempotency_hash c \<notin> sc_idempotency_hash ` set (sd_commands s)" "find_session s (sc_guest_session_id c) \<noteq> None"
    using assms(1) by (auto simp: insert_session_command_def list_ex_iff split: if_splits)
  then show "c \<in> set (sd_commands s')" "sd_guests s' = sd_guests s" by simp_all
  obtain r where "find_session s (sc_guest_session_id c) = Some r" using s'(4) by blast
  then have "r \<in> set (sd_guests s)" "gs_id r = sc_guest_session_id c" using find_session_iff [OF assms(2)] by blast+
  then have guest: "sc_guest_session_id c \<in> gs_id ` set (sd_guests s)" by force
  have same: "sd_guests s' = sd_guests s" "sd_commands s' = sd_commands s @ [c]" by (simp_all add: s'(1))
  have "continues s s'" unfolding continues_def same using guest_continues_refl by auto
  moreover have "session_ok s'"
    using assms(2) s'(2,3) guest unfolding session_ok_def same by (simp add: ball_Un)
  ultimately show "progress s s'" by (simp add: progress_def)
qed

lemma update_guest_progress:
  assumes "update_guest gid f s = Inr (r', s')" and "session_ok s"
    and "\<And>r. find_session s gid = Some r \<Longrightarrow> guest_continues r (f r)"
  shows "progress s s'" "r' \<in> set (sd_guests s')" "gs_id r' = gid" "sd_commands s' = sd_commands s"
proof -
  obtain r where r: "find_session s gid = Some r" and eq: "r' = f r"
    "s' = s\<lparr>sd_db := (sd_db s)\<lparr>guests := update_rows (\<lambda>q. gs_id q = gid) f (sd_guests s)\<rparr>\<rparr>"
    using assms(1) by (auto simp: update_guest_def split: option.splits if_splits)
  have row: "r \<in> set (sd_guests s)" "gs_id r = gid" using r find_session_iff [OF assms(2)] by auto
  have step: "guest_continues q (if gs_id q = gid then f q else q)" if "q \<in> set (sd_guests s)" for q
    using assms(3) find_session_iff [OF assms(2), of gid q] that by (simp add: guest_continues_refl)
  have guests': "sd_guests s' = map (\<lambda>q. if gs_id q = gid then f q else q) (sd_guests s)"
    by (simp add: eq update_rows_def)
  have "map gs_id (sd_guests s') = map gs_id (sd_guests s)"
    using step by (auto simp: guests' guest_continues_def)
  moreover from this have "gs_id ` set (sd_guests s') = gs_id ` set (sd_guests s)" by (metis list.set_map)
  ultimately have "session_ok s'" using assms(2) by (simp add: session_ok_def eq(2))
  moreover have "continues s s'"
    unfolding continues_def
  proof (intro conjI ballI)
    show "set (sd_commands s) \<subseteq> set (sd_commands s')" by (simp add: eq(2))
    fix q assume q: "q \<in> set (sd_guests s)"
    then have "(if gs_id q = gid then f q else q) \<in> set (sd_guests s')" unfolding guests' by simp
    then show "\<exists>q' \<in> set (sd_guests s'). guest_continues q q'" using step [OF q] by blast
  qed
  ultimately show "progress s s'" by (simp add: progress_def)
  show "r' \<in> set (sd_guests s')" using row by (auto simp: guests' eq(1))
  show "gs_id r' = gid" using assms(3) [OF r] row(2) by (simp add: eq(1) guest_continues_def)
  show "sd_commands s' = sd_commands s" by (simp add: eq(2))
qed

lemma live_session_unrevoked: "live_session s gid now \<Longrightarrow> find_session s gid = Some r \<Longrightarrow> gs_revoked_at r = None"
  by (simp add: live_session_def)

text \<open>What a mutation leaves behind when it is not a replay: its command and its guest.\<close>

definition recorded :: "session_db \<Rightarrow> string \<Rightarrow> SessionCommandReplay \<Rightarrow> bool" where
  "recorded s hash p \<longleftrightarrow>
     (\<exists>c \<in> set (sd_commands s). \<exists>r \<in> set (sd_guests s).
        sc_idempotency_hash c = hash \<and> sc_guest_session_id c = gs_id r \<and> sc_command_type c = session_command_text (cp_commandType p) \<and>
        command_claims c = cp_issuedClaims p \<and> gr_id (cp_guestSession p) = gs_id r \<and>
        gr_displayName (cp_guestSession p) = gs_display_name r \<and> gr_avatarKey (cp_guestSession p) = gs_avatar_key r)"

lemma recorded_continues:
  assumes "recorded s hash p" and "continues s s'"
  shows "recorded s' hash p"
proof -
  obtain c r where c: "c \<in> set (sd_commands s)" "r \<in> set (sd_guests s)" "sc_idempotency_hash c = hash"
      "sc_guest_session_id c = gs_id r" "sc_command_type c = session_command_text (cp_commandType p)"
      "command_claims c = cp_issuedClaims p" "gr_id (cp_guestSession p) = gs_id r"
      "gr_displayName (cp_guestSession p) = gs_display_name r" "gr_avatarKey (cp_guestSession p) = gs_avatar_key r"
    using assms(1) unfolding recorded_def by blast
  obtain r' where r': "r' \<in> set (sd_guests s')" "guest_continues r r'" using assms(2) c(2) unfolding continues_def by blast
  have "c \<in> set (sd_commands s')" using assms(2) c(1) unfolding continues_def by blast
  then show ?thesis unfolding recorded_def using r' c(3-) unfolding guest_continues_def by metis
qed

lemma command_claims_claims [simp]: "command_claims (claims_command hash t gid claims) = Some claims"
  by (simp add: command_claims_def claims_command_def)

lemma create_work_progress:
  assumes "create_work input s = Inr (p, s')" and "session_ok s"
  shows "progress s s' \<and> recorded s' (cg_idempotencyHash input) p"
proof -
  let ?claims = "cg_issuedClaims input"
  let ?row = "\<lparr>gs_id = cg_guestSessionId input, gs_display_name = cg_displayName input, gs_avatar_key = cg_avatarKey input,
      gs_current_jti = Some (ic_jti ?claims), gs_issued_at = ic_issuedAt ?claims, gs_expires_at = ic_expiresAt ?claims,
      gs_revoked_at = None\<rparr>"
  let ?c = "claims_command (cg_idempotencyHash input) command_create (gs_id ?row) ?claims"
  obtain s1 where s1: "insert_guest ?row s = Inr s1" and s2: "insert_session_command ?c s1 = Inr s'"
    and p: "p = \<lparr>cp_commandType = command_create, cp_guestSession = toGuestSession ?row, cp_issuedClaims = Some ?claims\<rparr>"
    using assms(1) by (auto simp: create_work_def Let_def sbind_Inr_iff)
  note first = insert_guest_progress [OF s1 assms(2)]
  have ok1: "session_ok s1" using first(1) by (simp add: progress_def)
  note second = insert_session_command_progress [OF s2 ok1]
  have "progress s s'" using first(1) second(1) by (rule progress_trans)
  moreover have "recorded s' (cg_idempotencyHash input) p"
    unfolding recorded_def
    by (rule bexI [of _ ?c], rule bexI [of _ ?row]) (use first(2) second(2,3) in \<open>auto simp: p toGuestSession_def claims_command_def command_claims_def\<close>)
  ultimately show ?thesis by blast
qed

lemma renew_work_progress:
  assumes "renew_work input s = Inr (p, s')" and "session_ok s"
  shows "progress s s' \<and> recorded s' (rw_idempotencyHash input) p"
proof -
  let ?claims = "rw_issuedClaims input" and ?gid = "rw_guestSessionId input"
  let ?f = "\<lambda>r. r\<lparr>gs_current_jti := Some (ic_jti ?claims), gs_expires_at := ic_expiresAt ?claims, gs_issued_at := ic_issuedAt ?claims\<rparr>"
  let ?c = "claims_command (rw_idempotencyHash input) command_renew ?gid ?claims"
  obtain r s1 where live: "live_session s ?gid (ic_issuedAt ?claims)" and s1: "update_guest ?gid ?f s = Inr (r, s1)"
    and s2: "insert_session_command ?c s1 = Inr s'"
    and p: "p = \<lparr>cp_commandType = command_renew, cp_guestSession = toGuestSession r, cp_issuedClaims = Some ?claims\<rparr>"
    using assms(1) by (auto simp: renew_work_def Let_def sbind_Inr_iff split: if_splits)
  have "guest_continues q (?f q)" if "find_session s ?gid = Some q" for q
    using live_session_unrevoked [OF live that] by (simp add: guest_continues_def)
  note first = update_guest_progress [OF s1 assms(2) this]
  have ok1: "session_ok s1" using first(1) by (simp add: progress_def)
  note second = insert_session_command_progress [OF s2 ok1]
  have "progress s s'" using first(1) second(1) by (rule progress_trans)
  moreover have "recorded s' (rw_idempotencyHash input) p"
    unfolding recorded_def
    by (rule bexI [of _ ?c], rule bexI [of _ r])
      (use first(2,3) second(2,3) in \<open>auto simp: p toGuestSession_def claims_command_def command_claims_def\<close>)
  ultimately show ?thesis by blast
qed

lemma reset_work_progress:
  assumes "reset_work input s = Inr (p, s')" and "session_ok s"
  shows "progress s s' \<and> recorded s' (rz_idempotencyHash input) p"
proof -
  let ?gid = "rz_guestSessionId input"
  let ?f = "\<lambda>r. r\<lparr>gs_revoked_at := Some (rz_revokedAt input)\<rparr>"
  let ?c = "\<lparr>sc_idempotency_hash = rz_idempotencyHash input, sc_command_type = ''RESET'', sc_guest_session_id = ?gid,
      sc_issued_jti = None, sc_issued_at = None, sc_expires_at = None\<rparr>"
  obtain r s1 where live: "live_session s ?gid (rz_revokedAt input)" and s1: "update_guest ?gid ?f s = Inr (r, s1)"
    and s2: "insert_session_command ?c s1 = Inr s'"
    and p: "p = \<lparr>cp_commandType = command_reset, cp_guestSession = toGuestSession r, cp_issuedClaims = None\<rparr>"
    using assms(1) by (auto simp: reset_work_def Let_def sbind_Inr_iff split: if_splits)
  have "guest_continues q (?f q)" if "find_session s ?gid = Some q" for q
    using live_session_unrevoked [OF live that] by (simp add: guest_continues_def)
  note first = update_guest_progress [OF s1 assms(2) this]
  have ok1: "session_ok s1" using first(1) by (simp add: progress_def)
  note second = insert_session_command_progress [OF s2 ok1]
  have "progress s s'" using first(1) second(1) by (rule progress_trans)
  moreover have "recorded s' (rz_idempotencyHash input) p"
    unfolding recorded_def
    by (rule bexI [of _ ?c], rule bexI [of _ r])
      (use first(2,3) second(2,3) in \<open>auto simp: p toGuestSession_def command_claims_def\<close>)
  ultimately show ?thesis by blast
qed

text \<open>A replay is what the table holds.\<close>

lemma replay_recorded:
  assumes "replay_of s hash = Inr (Some p)" and "session_ok s"
  shows "recorded s hash p"
proof -
  obtain c r where c: "find_session_command s hash = Some c" and r: "find_session s (sc_guest_session_id c) = Some r"
    and p: "toCommandReplay c r = Inr p"
    using assms(1) by (auto simp: replay_of_def sbind_Inr_iff split: option.splits)
  have "sc_command_type c = session_command_text (cp_commandType p) \<and> command_claims c = cp_issuedClaims p \<and>
      cp_guestSession p = toGuestSession r"
    using p by (auto simp: toCommandReplay_def split: option.splits if_splits)
  then show ?thesis
    using c r find_command_iff [OF assms(2)] find_session_iff [OF assms(2)] unfolding recorded_def
    by (auto simp: toGuestSession_def intro!: bexI [of _ c] bexI [of _ r])
qed

lemma recorded_replay:
  assumes "recorded s hash p" and "session_ok s"
  shows "\<exists>q. replay_of s hash = Inr (Some q) \<and> cp_commandType q = cp_commandType p \<and> cp_issuedClaims q = cp_issuedClaims p \<and>
    gr_id (cp_guestSession q) = gr_id (cp_guestSession p) \<and>
    gr_displayName (cp_guestSession q) = gr_displayName (cp_guestSession p) \<and>
    gr_avatarKey (cp_guestSession q) = gr_avatarKey (cp_guestSession p)"
proof -
  obtain c r where c: "c \<in> set (sd_commands s)" "r \<in> set (sd_guests s)" "sc_idempotency_hash c = hash"
      "sc_guest_session_id c = gs_id r" "sc_command_type c = session_command_text (cp_commandType p)"
      "command_claims c = cp_issuedClaims p" "gr_id (cp_guestSession p) = gs_id r"
      "gr_displayName (cp_guestSession p) = gs_display_name r" "gr_avatarKey (cp_guestSession p) = gs_avatar_key r"
    using assms(1) unfolding recorded_def by blast
  have "find_session_command s hash = Some c" "find_session s (sc_guest_session_id c) = Some r"
    using c find_command_iff [OF assms(2)] find_session_iff [OF assms(2)] by auto
  moreover have "List.find (\<lambda>t. session_command_text t = sc_command_type c) [command_create, command_renew, command_reset] =
      Some (cp_commandType p)"
    unfolding c(5) by (cases "cp_commandType p") simp_all
  ultimately show ?thesis using c(6-) by (simp add: replay_of_def toCommandReplay_def toGuestSession_def)
qed

section \<open>The operations\<close>

text \<open>A transaction body that makes progress and records its command.\<close>

definition records :: "string \<Rightarrow> (session_db \<Rightarrow> session_thrown + SessionCommandReplay \<times> session_db) \<Rightarrow> bool" where
  "records hash work \<longleftrightarrow>
     (\<forall>s p s'. session_ok s \<longrightarrow> work s = Inr (p, s') \<longrightarrow> progress s s' \<and> recorded s' hash p)"

lemma works_record:
  "records (cg_idempotencyHash ci) (create_work ci)" "records (rw_idempotencyHash ri) (renew_work ri)"
  "records (rz_idempotencyHash zi) (reset_work zi)"
  using create_work_progress renew_work_progress reset_work_progress by (auto simp: records_def)

lemma mutation_progress:
  assumes "records hash work" and "session_ok s"
    and "recovered env hash conflict (session_transaction (sx_fault env) (unless_replayed env hash work) s) = (r, s')"
  shows "progress s s'"
    "r = Inr m \<Longrightarrow> replay_of (sx_earlier env) hash = Inr (Some (mu_value m)) \<or> recorded s' hash (mu_value m)"
proof -
  obtain r1 where tx: "session_transaction (sx_fault env) (unless_replayed env hash work) s = (r1, s')"
    and r: "r = (case r1 of Inl e \<Rightarrow> recoverUniqueOrThrow env hash conflict e s' | Inr x \<Rightarrow> Inr x)"
    using assms(3) by (auto simp: recovered_def split: prod.splits sum.splits)
  have body: "progress s t \<and> (replay_of (sx_earlier env) hash = Inr (Some (mu_value m)) \<or> recorded t hash (mu_value m))"
    if "unless_replayed env hash work s = Inr (m, t)" for m t
    using that assms(1,2) progress_refl
    by (fastforce simp: unless_replayed_def records_def sbind_Inr_iff split: sum.splits option.splits)
  have steps: "s' = s \<or> (\<exists>m. unless_replayed env hash work s = Inr (m, s') \<and> (\<forall>x. r1 = Inr x \<longrightarrow> x = m))"
    using tx by (auto simp: session_transaction_def split: fault.splits sum.splits)
  then show prog: "progress s s'" using body progress_refl [OF assms(2)] by blast
  show "replay_of (sx_earlier env) hash = Inr (Some (mu_value m)) \<or> recorded s' hash (mu_value m)" if "r = Inr m"
  proof (cases r1)
    case (Inl e)
    then have "replay_of s' hash = Inr (Some (mu_value m))"
      using that r
      by (auto simp: recoverUniqueOrThrow_def findCommand_def Let_def split: session_thrown.splits sum.splits option.splits if_splits)
    then show ?thesis using replay_recorded prog by (auto simp: progress_def)
  next
    case (Inr x)
    then have "x = m" using r that by simp
    moreover have "unless_replayed env hash work s = Inr (x, s')"
      using tx Inr by (auto simp: session_transaction_def split: fault.splits sum.splits)
    ultimately show ?thesis using body by blast
  qed
qed

lemma create_progress:
  assumes "session_ok s" and "session_create env ci s = (r, s')"
  shows "progress s s'"
    "r = Inr m \<Longrightarrow> replay_of (sx_earlier env) (cg_idempotencyHash ci) = Inr (Some (mu_value m)) \<or>
       recorded s' (cg_idempotencyHash ci) (mu_value m)"
  using mutation_progress [OF works_record(1) assms(1) assms(2) [unfolded session_create_def]] by blast+

lemma renew_progress:
  assumes "session_ok s" and "session_renew env ri s = (r, s')"
  shows "progress s s'"
    "r = Inr m \<Longrightarrow> replay_of (sx_earlier env) (rw_idempotencyHash ri) = Inr (Some (mu_value m)) \<or>
       recorded s' (rw_idempotencyHash ri) (mu_value m)"
  using mutation_progress [OF works_record(2) assms(1) assms(2) [unfolded session_renew_def]] by blast+

lemma reset_progress:
  assumes "session_ok s" and "session_reset env zi s = (r, s')"
  shows "progress s s'"
    "r = Inr m \<Longrightarrow> replay_of (sx_earlier env) (rz_idempotencyHash zi) = Inr (Some (mu_value m)) \<or>
       recorded s' (rz_idempotencyHash zi) (mu_value m)"
  using mutation_progress [OF works_record(3) assms(1) assms(2) [unfolded session_reset_def]] by blast+

text \<open>A mutation that is not a replay ran its body, and one whose body throws anything but a conflict is a replay.\<close>

lemma fresh_mutation:
  assumes "recovered env hash conflict (session_transaction (sx_fault env) (unless_replayed env hash work) s) = (Inr m, s')"
    and "\<not> mu_replayed m"
  shows "\<exists>p. work s = Inr (p, s')"
proof -
  obtain r1 where tx: "session_transaction (sx_fault env) (unless_replayed env hash work) s = (r1, s')"
    and r: "Inr m = (case r1 of Inl e \<Rightarrow> recoverUniqueOrThrow env hash conflict e s' | Inr x \<Rightarrow> Inr x)"
    using assms(1) by (auto simp: recovered_def split: prod.splits sum.splits)
  have "mu_replayed m" if "r1 = Inl e" for e
    using r that
    by (auto simp: recoverUniqueOrThrow_def findCommand_def Let_def split: session_thrown.splits sum.splits option.splits if_splits)
  then have "r1 = Inr m" using r assms(2) by (cases r1) auto
  then have "unless_replayed env hash work s = Inr (m, s')"
    using tx by (auto simp: session_transaction_def split: fault.splits sum.splits)
  then show ?thesis using assms(2) by (auto simp: unless_replayed_def sbind_Inr_iff split: sum.splits option.splits)
qed

section \<open>Later states\<close>

text \<open>
  What may happen to the table of guests: any operation of the repository, with any
  failure, and anything the games do, which never touch the rows of the guests.
\<close>

inductive session_evolves :: "session_db \<Rightarrow> session_db \<Rightarrow> bool" where
  now: "session_evolves s s"
| create: "session_evolves s t \<Longrightarrow> session_evolves s (snd (session_create env ci t))"
| renew: "session_evolves s t \<Longrightarrow> session_evolves s (snd (session_renew env ri t))"
| reset: "session_evolves s t \<Longrightarrow> session_evolves s (snd (session_reset env zi t))"
| games: "session_evolves s t \<Longrightarrow> guests db = sd_guests t \<Longrightarrow> session_evolves s (t\<lparr>sd_db := db\<rparr>)"

lemma games_progress: "session_ok t \<Longrightarrow> guests db = sd_guests t \<Longrightarrow> progress t (t\<lparr>sd_db := db\<rparr>)"
  by (auto simp: progress_def session_ok_def continues_def sd_guests_def intro: guest_continues_refl)

lemma evolves_progress: "session_evolves s t \<Longrightarrow> session_ok s \<Longrightarrow> progress s t"
proof (induction rule: session_evolves.induct)
  case (now s)
  then show ?case by (rule progress_refl)
next
  case (create s t env ci)
  then show ?case using create_progress(1) [of t env ci] progress_trans by (metis prod.collapse progress_def)
next
  case (renew s t env ri)
  then show ?case using renew_progress(1) [of t env ri] progress_trans by (metis prod.collapse progress_def)
next
  case (reset s t env zi)
  then show ?case using reset_progress(1) [of t env zi] progress_trans by (metis prod.collapse progress_def)
next
  case (games s t db)
  then show ?case using games_progress progress_trans by (metis progress_def)
qed

section \<open>A reset is final\<close>

lemma reset_revokes:
  assumes "session_ok s" and "session_reset env zi s = (Inr m, s1)" and "\<not> mu_replayed m"
  shows "\<exists>r \<in> set (sd_guests s1). gs_id r = rz_guestSessionId zi \<and> gs_revoked_at r = Some (rz_revokedAt zi)"
proof -
  let ?f = "\<lambda>r. r\<lparr>gs_revoked_at := Some (rz_revokedAt zi)\<rparr>"
  obtain p where "reset_work zi s = Inr (p, s1)"
    using fresh_mutation [OF assms(2) [unfolded session_reset_def] assms(3)] by blast
  then obtain r t where upd: "update_guest (rz_guestSessionId zi) ?f s = Inr (r, t)" and t: "sd_guests s1 = sd_guests t"
    and live: "live_session s (rz_guestSessionId zi) (rz_revokedAt zi)"
    by (auto simp: reset_work_def insert_session_command_def Let_def sbind_Inr_iff split: if_splits)
  have "guest_continues q (?f q)" if "find_session s (rz_guestSessionId zi) = Some q" for q
    using live_session_unrevoked [OF live that] by (simp add: guest_continues_def)
  note step = update_guest_progress [OF upd assms(1) this]
  have "gs_revoked_at r = Some (rz_revokedAt zi)"
    using upd by (auto simp: update_guest_def split: option.splits if_splits)
  then show ?thesis using step(2,3) t by auto
qed

text \<open>
  What may happen after a reset of the session \<open>gid\<close>: any operation of the repository, among them the clean up, which
  may delete the row, and anything the games do. The identifier of a new session is random: it may be one that is in
  the table, and is refused then, and is taken not to be that of a row that was deleted.
\<close>

inductive session_outlives :: "string \<Rightarrow> session_db \<Rightarrow> session_db \<Rightarrow> bool" for gid s where
  now: "session_outlives gid s s"
| create: "session_outlives gid s t \<Longrightarrow> (cg_guestSessionId ci = gid \<Longrightarrow> find_session t gid \<noteq> None) \<Longrightarrow>
    session_outlives gid s (snd (session_create env ci t))"
| renew: "session_outlives gid s t \<Longrightarrow> session_outlives gid s (snd (session_renew env ri t))"
| reset: "session_outlives gid s t \<Longrightarrow> session_outlives gid s (snd (session_reset env zi t))"
| games: "session_outlives gid s t \<Longrightarrow> guests db = sd_guests t \<Longrightarrow> session_outlives gid s (t\<lparr>sd_db := db\<rparr>)"
| cleanup: "session_outlives gid s t \<Longrightarrow> session_outlives gid s (snd (cleanupExpired fault cutoff limit locked t))"

text \<open>No row of the session is left that has not been revoked.\<close>

definition not_live :: "string \<Rightarrow> session_db \<Rightarrow> bool" where
  "not_live gid s \<longleftrightarrow> (\<forall>r \<in> set (sd_guests s). gs_id r = gid \<longrightarrow> gs_revoked_at r \<noteq> None)"

lemma not_live_row: "not_live gid s \<Longrightarrow> find_session s gid = Some r \<Longrightarrow> gs_revoked_at r \<noteq> None"
  by (auto simp: not_live_def find_session_def dest: find_row_SomeD)

lemma not_live_refused: "not_live gid s \<Longrightarrow> \<not> live_session s gid t"
  by (auto simp: live_session_def not_live_row split: option.splits)

lemma find_session_present: "find_session s gid \<noteq> None \<Longrightarrow> \<exists>r \<in> set (sd_guests s). gs_id r = gid"
  by (auto simp: find_session_def dest: find_row_SomeD)

text \<open>A mutation leaves the tables as they are or runs its body.\<close>

lemma unless_replayed_runs:
  "unless_replayed env hash work s = Inr (m, s') \<Longrightarrow> s' = s \<or> (\<exists>p. work s = Inr (p, s'))"
  by (auto simp: unless_replayed_def sbind_Inr_iff split: sum.splits option.splits)

lemma mutation_runs:
  assumes "recovered env hash conflict (session_transaction (sx_fault env) (unless_replayed env hash work) s) = (r, s')"
  shows "s' = s \<or> (\<exists>p. work s = Inr (p, s'))"
proof -
  obtain r1 where "session_transaction (sx_fault env) (unless_replayed env hash work) s = (r1, s')"
    using assms by (auto simp: recovered_def split: prod.splits sum.splits)
  then have "s' = s \<or> (\<exists>m. unless_replayed env hash work s = Inr (m, s'))"
    by (auto simp: session_transaction_def split: fault.splits sum.splits)
  then show ?thesis using unless_replayed_runs by blast
qed

lemma insert_session_command_guests: "insert_session_command c s = Inr s' \<Longrightarrow> sd_guests s' = sd_guests s"
  by (auto simp: insert_session_command_def split: if_splits)

lemma update_guest_not_live:
  assumes "update_guest g f s = Inr (r, s')" and "not_live gid s" and "\<And>q. gs_id (f q) = gs_id q"
    and "\<And>q. g = gid \<Longrightarrow> gs_revoked_at (f q) \<noteq> None"
  shows "not_live gid s'"
proof -
  have "sd_guests s' = map (\<lambda>q. if gs_id q = g then f q else q) (sd_guests s)"
    using assms(1) by (auto simp: update_guest_def update_rows_def split: option.splits if_splits)
  then show ?thesis using assms(2-4) by (auto simp: not_live_def)
qed

lemma outlives_not_live: "session_outlives gid s t \<Longrightarrow> not_live gid s \<Longrightarrow> not_live gid t"
proof (induction rule: session_outlives.induct)
  case (create t ci env)
  obtain r t' where run: "session_create env ci t = (r, t')" by fastforce
  from mutation_runs [OF run [unfolded session_create_def]] show ?case
  proof
    assume "\<exists>p. create_work ci t = Inr (p, t')"
    then obtain p s1 where "insert_guest
        \<lparr>gs_id = cg_guestSessionId ci, gs_display_name = cg_displayName ci, gs_avatar_key = cg_avatarKey ci,
         gs_current_jti = Some (ic_jti (cg_issuedClaims ci)), gs_issued_at = ic_issuedAt (cg_issuedClaims ci),
         gs_expires_at = ic_expiresAt (cg_issuedClaims ci), gs_revoked_at = None\<rparr> t = Inr s1" "sd_guests t' = sd_guests s1"
      by (auto simp: create_work_def Let_def sbind_Inr_iff dest: insert_session_command_guests)
    moreover from this(1) have "cg_guestSessionId ci \<noteq> gid"
      using create(2) find_session_present by (auto simp: insert_guest_def list_ex_iff split: if_splits)
    ultimately show ?thesis using create run by (auto simp: not_live_def insert_guest_def split: if_splits)
  qed (use create run in simp)
next
  case (renew t env ri)
  obtain r t' where run: "session_renew env ri t = (r, t')" by fastforce
  from mutation_runs [OF run [unfolded session_renew_def]] show ?case
  proof
    assume "\<exists>p. renew_work ri t = Inr (p, t')"
    then obtain q s1 where live: "live_session t (rw_guestSessionId ri) (ic_issuedAt (rw_issuedClaims ri))"
      and "update_guest (rw_guestSessionId ri) (\<lambda>r. r\<lparr>gs_current_jti := Some (ic_jti (rw_issuedClaims ri)),
        gs_expires_at := ic_expiresAt (rw_issuedClaims ri), gs_issued_at := ic_issuedAt (rw_issuedClaims ri)\<rparr>) t = Inr (q, s1)"
      and "sd_guests t' = sd_guests s1"
      by (auto simp: renew_work_def Let_def sbind_Inr_iff dest: insert_session_command_guests split: if_splits)
    moreover have "rw_guestSessionId ri \<noteq> gid" using live not_live_refused renew by blast
    ultimately show ?thesis using update_guest_not_live [of _ _ t q s1 gid] renew run by (simp add: not_live_def)
  qed (use renew run in simp)
next
  case (reset t env zi)
  obtain r t' where run: "session_reset env zi t = (r, t')" by fastforce
  from mutation_runs [OF run [unfolded session_reset_def]] show ?case
  proof
    assume "\<exists>p. reset_work zi t = Inr (p, t')"
    then obtain q s1 where "update_guest (rz_guestSessionId zi) (\<lambda>r. r\<lparr>gs_revoked_at := Some (rz_revokedAt zi)\<rparr>) t = Inr (q, s1)"
      and "sd_guests t' = sd_guests s1"
      by (auto simp: reset_work_def Let_def sbind_Inr_iff dest: insert_session_command_guests split: if_splits)
    then show ?thesis using update_guest_not_live [of _ _ t q s1 gid] reset run by (simp add: not_live_def)
  qed (use reset run in simp)
next
  case (games t db)
  then show ?case by (simp add: not_live_def sd_guests_def)
next
  case (cleanup t fault cutoff limit locked)
  have "set (sd_guests (snd (cleanupExpired fault cutoff limit locked t))) \<subseteq> set (sd_guests t)"
    by (cases fault) (auto simp: cleanupExpired_def session_transaction_def cleanup_work_def Let_def sd_guests_def delete_rows_def)
  then show ?case using cleanup by (auto simp: not_live_def)
qed

text \<open>
  C4. A reset is final: in every state the database reaches after a session was reset, through any operations of the
  repository for any guests, the clean up of expired sessions among them, and any failures, reading the
  session is refused and a renewal of it never succeeds except by repeating a renewal that was recorded before, so no token
  with new claims is issued for it. Identifiers of sessions are random and taken not to be drawn again.
\<close>
theorem reset_is_final:
  assumes "session_ok s" and "session_reset env zi s = (Inr m, s1)" and "\<not> mu_replayed m"
    and "session_outlives (rz_guestSessionId zi) s1 s2"
  shows "(\<forall>env' guest t. au_guestSessionId guest = rz_guestSessionId zi \<longrightarrow> (\<exists>e. getCurrent env' guest t s2 = Inl e)) \<and>
     (\<forall>env' ri n. rw_guestSessionId ri = rz_guestSessionId zi \<and> fst (session_renew env' ri s2) = Inr n \<longrightarrow> mu_replayed n)"
proof -
  have ok1: "session_ok s1" using reset_progress(1) [OF assms(1,2)] by (simp add: progress_def)
  obtain r where r: "r \<in> set (sd_guests s1)" "gs_id r = rz_guestSessionId zi" "gs_revoked_at r \<noteq> None"
    using reset_revokes [OF assms(1-3)] by fastforce
  then have "not_live (rz_guestSessionId zi) s1"
    unfolding not_live_def using find_session_iff [OF ok1] by (metis option.inject)
  then have gone: "not_live (rz_guestSessionId zi) s2" by (rule outlives_not_live [OF assms(4)])
  have "\<exists>e. getCurrent env' guest t s2 = Inl e" if "au_guestSessionId guest = rz_guestSessionId zi" for env' guest t
    using that not_live_row [OF gone]
    by (auto simp: getCurrent_def session_findById_def session_read_def toGuestSession_def split: option.splits)
  moreover have "mu_replayed n" if n: "rw_guestSessionId ri = rz_guestSessionId zi" "fst (session_renew env' ri s2) = Inr n" for env' ri n
  proof (rule ccontr)
    assume fresh: "\<not> mu_replayed n"
    obtain s3 where "session_renew env' ri s2 = (Inr n, s3)" using n(2) by (metis prod.collapse)
    then obtain p where "renew_work ri s2 = Inr (p, s3)"
      using fresh_mutation [OF _ fresh] unfolding session_renew_def by blast
    then show False using not_live_refused [OF gone] n(1) by (simp add: renew_work_def Let_def)
  qed
  ultimately show ?thesis by blast
qed

section \<open>Repeated requests\<close>

text \<open>What a session that was issued leaves in the tables, for the token to be issued again.\<close>

definition issued_from :: "'k JwtTokenService \<Rightarrow> string \<Rightarrow> IssuedGuestSession \<Rightarrow> session_db \<Rightarrow> bool" where
  "issued_from J hash issued s \<longleftrightarrow>
     (\<exists>p. recorded s hash p \<and> cp_commandType p = command_create \<and> toIssuedSession J p (is_replayed issued) = Inr issued)"

lemma toIssuedSession_cong:
  assumes "toIssuedSession J p b = Inr issued" and "cp_issuedClaims q = cp_issuedClaims p"
    and "gr_id (cp_guestSession q) = gr_id (cp_guestSession p)"
    and "gr_displayName (cp_guestSession q) = gr_displayName (cp_guestSession p)"
    and "gr_avatarKey (cp_guestSession q) = gr_avatarKey (cp_guestSession p)"
  shows "\<exists>again. toIssuedSession J q c = Inr again \<and> is_token again = is_token issued \<and> is_replayed again = c \<and>
    pg_id (is_guest again) = pg_id (is_guest issued) \<and> pg_name (is_guest again) = pg_name (is_guest issued) \<and>
    pg_avatar (is_guest again) = pg_avatar (is_guest issued)"
proof -
  have "claims_json (cp_guestSession q) claims = claims_json (cp_guestSession p) claims" for claims
    by (simp add: claims_json_def assms(3-5))
  then have "issue_token J (cp_guestSession q) claims = issue_token J (cp_guestSession p) claims" for claims
    by (simp add: issue_token_def)
  then show ?thesis
    using assms by (auto simp: toIssuedSession_def toPublicGuest_def split: option.splits)
qed

text \<open>The reads of an attempt are from its past, and what others do in between is progress.\<close>

definition attempt_sound :: "'s attempt_env \<Rightarrow> session_db \<Rightarrow> bool" where
  "attempt_sound env final \<longleftrightarrow>
     session_ok (sx_earlier (ae_create env)) \<and> continues (sx_earlier (ae_create env)) final \<and>
     (\<forall>i w. session_ok (fst w) \<longrightarrow> progress (fst w) (fst (ae_others env i w)))"

lemma finish_create_world:
  "fst (snd (finish_create S env identity guest created w)) = fst w"
  by (auto simp: finish_create_def release_in_world_def Let_def split: sum.splits)

lemma create_attempt_progress:
  assumes "session_ok (fst w)" and "attempt_sound env final" and "create_attempt S env hash guest w = (r, w1)"
  shows "progress (fst w) (fst w1)"
    "\<lbrakk>r = Issued issued; continues (fst w1) final\<rbrakk> \<Longrightarrow> issued_from (sv_tokens S) hash issued final"
proof -
  obtain g keys where gen: "generate (sv_keyspace S) (ae_draws env) (ae_faults env) guest (snd w) = (g, keys)" by fastforce
  have main: "progress (fst w) (fst w1) \<and>
      (r = Issued issued \<longrightarrow> continues (fst w1) final \<longrightarrow> issued_from (sv_tokens S) hash issued final)"
  proof (cases g)
    case (Inl e)
    then show ?thesis using assms(1,3) progress_refl by (auto simp: create_attempt_def gen)
  next
    case (Inr identity)
    let ?w = "ae_others env 0 (fst w, keys)"
    let ?ci = "\<lparr>cg_avatarKey = gi_avatarKey identity, cg_displayName = gi_displayName identity, cg_guestSessionId = guest,
        cg_idempotencyHash = hash,
        cg_issuedClaims = createIssuedClaims (jw_ttlSeconds (sv_tokens S)) (ae_now env) (ae_jti env)\<rparr>"
    obtain created s1 where created: "session_create (ae_create env) ?ci (fst ?w) = (created, s1)" by fastforce
    have first: "progress (fst w) (fst ?w)" using assms(1,2) by (simp add: attempt_sound_def)
    then have ok: "session_ok (fst ?w)" by (simp add: progress_def)
    have finish: "finish_create S env identity guest created (s1, snd ?w) = (r, w1)"
      using assms(3) by (simp add: create_attempt_def gen Inr created Let_def)
    then have w1: "fst w1 = s1" using finish_create_world [of S env identity guest created "(s1, snd ?w)"] by simp
    have "progress (fst w) (fst w1)" using first create_progress(1) [OF ok created] progress_trans w1 by blast
    moreover have "issued_from (sv_tokens S) hash issued final" if r: "r = Issued issued" and final: "continues (fst w1) final"
    proof -
      obtain m where m: "created = Inr m" "cp_commandType (mu_value m) = command_create"
          "toIssuedSession (sv_tokens S) (mu_value m) (mu_replayed m) = Inr issued"
        using finish r by (auto simp: finish_create_def assertCommand_def Let_def split: sum.splits if_splits)
      have "replay_of (sx_earlier (ae_create env)) hash = Inr (Some (mu_value m)) \<or> recorded s1 hash (mu_value m)"
        using create_progress(2) [OF ok created m(1)] by simp
      then have "recorded final hash (mu_value m)"
        using assms(2) replay_recorded recorded_continues final w1 unfolding attempt_sound_def by blast
      moreover have "is_replayed issued = mu_replayed m"
        using m(3) by (auto simp: toIssuedSession_def split: option.splits)
      ultimately show ?thesis using m(2,3) by (auto simp: issued_from_def)
    qed
    ultimately show ?thesis by blast
  qed
  then show "progress (fst w) (fst w1)"
    "\<lbrakk>r = Issued issued; continues (fst w1) final\<rbrakk> \<Longrightarrow> issued_from (sv_tokens S) hash issued final" by blast+
qed

lemma issued_from_continues: "issued_from J hash issued s \<Longrightarrow> continues s s' \<Longrightarrow> issued_from J hash issued s'"
  using recorded_continues unfolding issued_from_def by blast

lemma create_attempts_progress:
  assumes "session_ok (fst w)" and "\<forall>env \<in> set envs. attempt_sound env final" and "create_attempts S envs hash guest w = (r, w1)"
  shows "progress (fst w) (fst w1) \<and>
    (\<forall>issued. r = Inr issued \<longrightarrow> continues (fst w1) final \<longrightarrow> issued_from (sv_tokens S) hash issued final)"
  using assms
proof (induction envs arbitrary: w)
  case Nil
  then show ?case using progress_refl by auto
next
  case (Cons env envs)
  obtain res t where step: "create_attempt S env hash guest w = (res, t)" by (metis surj_pair)
  have sound: "attempt_sound env final" using Cons.prems(2) by simp
  note first = create_attempt_progress [OF Cons.prems(1) sound step]
  show ?case
  proof (cases res)
    case (Issued issued)
    then have "r = Inr issued" "w1 = t" using Cons.prems(3) step by simp_all
    then show ?thesis using first Issued by blast
  next
    case (Failed e)
    then have "r = Inl e" "w1 = t" using Cons.prems(3) step by simp_all
    then show ?thesis using first by blast
  next
    case TryAgain
    let ?t = "ae_others env 1 t"
    have "session_ok (fst t)" using first(1) by (simp add: progress_def)
    then have others: "progress (fst t) (fst ?t)" using sound unfolding attempt_sound_def by blast
    then have ok: "session_ok (fst ?t)" by (simp add: progress_def)
    have sounds: "\<forall>e \<in> set envs. attempt_sound e final" using Cons.prems(2) by simp
    have rest: "create_attempts S envs hash guest ?t = (r, w1)" using Cons.prems(3) step TryAgain by simp
    note later = Cons.IH [OF ok sounds rest]
    have "progress (fst w) (fst w1)" using first(1) others later progress_trans by blast
    then show ?thesis using later by blast
  qed
qed

lemma stable_Inr_iff [simp]: "stable r = (Inr x, w) \<longleftrightarrow> r = (Inr x, w)"
  by (cases r; cases "fst r") (auto simp: stable_def)

lemma is_replayed_issued: "toIssuedSession J p b = Inr issued \<Longrightarrow> is_replayed issued = b"
  by (auto simp: toIssuedSession_def split: option.splits)

lemma createInternal_issues:
  assumes "session_ok (fst w)" and "createInternal S env key w = (Inr issued, w1)"
    and "\<forall>i < DATABASE_NAME_ATTEMPTS. attempt_sound (ce_attempt env i) (fst w1)"
  shows "\<exists>hash. hashIdempotencyKey (sv_sha256 S) key = Inr hash \<and> issued_from (sv_tokens S) hash issued (fst w1) \<and> session_ok (fst w1)"
proof -
  obtain hash where hash: "hashIdempotencyKey (sv_sha256 S) key = Inr hash"
    using assms(2) by (auto simp: createInternal_def split: sum.splits)
  show ?thesis
  proof (cases "findCommand (ce_find env) hash (fst w)")
    case (Inl e)
    then show ?thesis using assms(2) hash by (simp add: createInternal_def)
  next
    case (Inr found)
    show ?thesis
    proof (cases found)
      case None
      then have run: "create_attempts S (map (ce_attempt env) [0..<DATABASE_NAME_ATTEMPTS]) hash (ce_guestId env) w = (Inr issued, w1)"
        using assms(2) hash Inr by (simp add: createInternal_def)
      have "\<forall>e \<in> set (map (ce_attempt env) [0..<DATABASE_NAME_ATTEMPTS]). attempt_sound e (fst w1)" using assms(3) by auto
      note made = create_attempts_progress [OF assms(1) this run]
      then show ?thesis using hash continues_refl by (auto simp: progress_def)
    next
      case (Some existing)
      then have issued: "assertCommand existing command_create None = Inr ()"
        "toIssuedSession (sv_tokens S) existing True = Inr issued" "w1 = w"
        using assms(2) hash Inr by (auto simp: createInternal_def sbind_Inr_iff)
      have "replay_of (fst w) hash = Inr (Some existing)"
        using Inr Some by (auto simp: findCommand_def split: option.splits sum.splits)
      then have "recorded (fst w) hash existing" by (rule replay_recorded [OF _ assms(1)])
      moreover have "cp_commandType existing = command_create" using issued(1) by (auto simp: assertCommand_def split: if_splits)
      ultimately have "issued_from (sv_tokens S) hash issued (fst w1)"
        unfolding issued_from_def using issued(2,3) is_replayed_issued [OF issued(2)] by auto
      then show ?thesis using hash assms(1) issued(3) by simp
    qed
  qed
qed

lemma issued_again:
  assumes "issued_from (sv_tokens S) hash issued s" and "session_ok s" and "hashIdempotencyKey (sv_sha256 S) key = Inr hash"
    and "sx_readFault (ce_find env) = None"
  shows "\<exists>again. createInternal S env key (s, keys) = (Inr again, s, keys) \<and> is_token again = is_token issued \<and> is_replayed again \<and>
    pg_id (is_guest again) = pg_id (is_guest issued) \<and> pg_name (is_guest again) = pg_name (is_guest issued) \<and>
    pg_avatar (is_guest again) = pg_avatar (is_guest issued)"
proof -
  obtain p where p: "recorded s hash p" "cp_commandType p = command_create"
      "toIssuedSession (sv_tokens S) p (is_replayed issued) = Inr issued"
    using assms(1) unfolding issued_from_def by blast
  obtain q where q: "replay_of s hash = Inr (Some q)" "cp_commandType q = command_create" "cp_issuedClaims q = cp_issuedClaims p"
      "gr_id (cp_guestSession q) = gr_id (cp_guestSession p)"
      "gr_displayName (cp_guestSession q) = gr_displayName (cp_guestSession p)"
      "gr_avatarKey (cp_guestSession q) = gr_avatarKey (cp_guestSession p)"
    using recorded_replay [OF p(1) assms(2)] p(2) by auto
  have "cp_issuedClaims p \<noteq> None" using p(3) by (cases "cp_issuedClaims p") (auto simp: toIssuedSession_def)
  then have "assertCommand q command_create None = Inr ()" using q(2,3) by (auto simp: assertCommand_def)
  then have run: "createInternal S env key (s, keys) = stable (toIssuedSession (sv_tokens S) q True, s, keys)"
    using q(1) assms(3,4) by (simp add: createInternal_def findCommand_def sbind_def)
  obtain again where again: "toIssuedSession (sv_tokens S) q True = Inr again" "is_token again = is_token issued" "is_replayed again"
      "pg_id (is_guest again) = pg_id (is_guest issued)" "pg_name (is_guest again) = pg_name (is_guest issued)"
      "pg_avatar (is_guest again) = pg_avatar (is_guest issued)"
    using toIssuedSession_cong [OF p(3) q(3-6), of True] by blast
  have "createInternal S env key (s, keys) = (Inr again, s, keys)" unfolding run again(1) by (simp add: stable_def)
  then show ?thesis using again by blast
qed

text \<open>
  C5. Creating a guest session is idempotent: once a request with an idempotency key has been answered with a session,
  the same key answers every later request, in every state the repository reaches from there and whatever failed on the
  way, with the same token and the same guest, name and avatar, marked as a replay, and neither the database nor Redis
  changes. This covers the first answer being found, created, recovered from a conflict of two requests with the same
  key, and retried after a conflict of names. Rows are not cleaned up in between.
\<close>
theorem create_is_idempotent:
  assumes "session_ok (fst w)" and "createInternal S env key w = (Inr issued, w1)"
    and "\<forall>i < DATABASE_NAME_ATTEMPTS. attempt_sound (ce_attempt env i) (fst w1)"
    and "session_evolves (fst w1) s2" and "sx_readFault (ce_find env') = None"
  shows "\<exists>again. createInternal S env' key (s2, keys) = (Inr again, s2, keys) \<and> is_token again = is_token issued \<and>
     is_replayed again \<and> pg_id (is_guest again) = pg_id (is_guest issued) \<and>
     pg_name (is_guest again) = pg_name (is_guest issued) \<and> pg_avatar (is_guest again) = pg_avatar (is_guest issued)"
proof -
  obtain hash where hash: "hashIdempotencyKey (sv_sha256 S) key = Inr hash" "issued_from (sv_tokens S) hash issued (fst w1)"
      "session_ok (fst w1)"
    using createInternal_issues [OF assms(1-3)] by blast
  have later: "session_ok s2" "continues (fst w1) s2"
    using evolves_progress [OF assms(4) hash(3)] by (simp_all add: progress_def)
  show ?thesis by (rule issued_again [OF issued_from_continues [OF hash(2) later(2)] later(1) hash(1) assms(5)])
qed

section \<open>Examples\<close>

definition no_sessions :: session_db where
  "no_sessions = \<lparr>sd_db = \<lparr>games = [], players = [], assignments = [], moves = [], commands = [], guests = []\<rparr>, sd_commands = []\<rparr>"

definition sample_env :: session_env where
  "sample_env = \<lparr>sx_fault = NoFault, sx_earlier = no_sessions, sx_readFault = None\<rparr>"

definition sample_sessions :: "(string, sample_keys) session_service" where
  "sample_sessions = \<lparr>sv_tokens = sample_tokens, sv_keyspace = sample_keyspace, sv_sha256 = (\<lambda>s. s)\<rparr>"

definition sample_creation :: "sample_keys create_env" where
  "sample_creation =
     \<lparr>ce_find = sample_env, ce_guestId = gr_id sample_guest,
      ce_attempt = (\<lambda>i. \<lparr>ae_draws = sample_draws, ae_faults = (\<lambda>_. redis_up), ae_now = 1500, ae_jti = ic_jti sample_claims,
        ae_create = sample_env, ae_release = redis_up, ae_others = (\<lambda>_ w. w)\<rparr>)\<rparr>"

definition sample_key :: string where
  "sample_key = ''00000000-0000-4000-8000-00000000000a''"

definition sample_created :: "(SessionError + IssuedGuestSession) \<times> sample_keys session_world" where
  "sample_created = createInternal sample_sessions sample_creation sample_key (no_sessions, 5, Map.empty)"

definition sample_after :: session_db where
  "sample_after =
     \<lparr>sd_db = \<lparr>games = [], players = [], assignments = [], moves = [], commands = [],
        guests = [\<lparr>gs_id = ''00000000-0000-4000-8000-000000000002'', gs_display_name = ''AgileBeacon01'',
          gs_avatar_key = ''knight_amber_01'', gs_current_jti = Some ''00000000-0000-4000-8000-000000000001'',
          gs_issued_at = 1000, gs_expires_at = 7201000, gs_revoked_at = None\<rparr>]\<rparr>,
      sd_commands = [\<lparr>sc_idempotency_hash = ''00000000-0000-4000-8000-00000000000a'', sc_command_type = ''CREATE'',
        sc_guest_session_id = ''00000000-0000-4000-8000-000000000002'',
        sc_issued_jti = Some ''00000000-0000-4000-8000-000000000001'', sc_issued_at = Some 1000, sc_expires_at = Some 7201000\<rparr>]\<rparr>"

text \<open>The guest renews the session, and resets it at the time 3000000.\<close>

definition sample_renewal :: RenewGuestSession where
  "sample_renewal = \<lparr>rw_guestSessionId = gr_id sample_guest, rw_idempotencyHash = ''second'',
     rw_issuedClaims = createIssuedClaims 7200 2000000 ''00000000-0000-4000-8000-000000000003''\<rparr>"

definition sample_renewed :: session_db where
  "sample_renewed = snd (session_renew sample_env sample_renewal sample_after)"

definition sample_reset :: ResetGuestSession where
  "sample_reset = \<lparr>rz_guestSessionId = gr_id sample_guest, rz_idempotencyHash = ''third'', rz_revokedAt = 3000000\<rparr>"

lemma sample_created_issued:
  "map_prod id fst sample_created = (Inr \<lparr>is_guest = \<lparr>pg_avatar = ''knight_amber_01'', pg_expiresAt = 7201000, pg_id = gr_id sample_guest,
     pg_issuedAt = 1000, pg_name = ''AgileBeacon01''\<rparr>, is_replayed = False, is_token = sample_token\<rparr>, sample_after)"
  by code_simp

lemma no_sessions_ok: "session_ok no_sessions" "continues no_sessions s"
  by (simp_all add: no_sessions_def session_ok_def continues_def sd_guests_def)

lemma sample_attempts_sound: "attempt_sound (ce_attempt sample_creation i) final"
  using no_sessions_ok progress_refl by (simp add: attempt_sound_def sample_creation_def sample_env_def)

theorem create_is_idempotent_witness:
  "\<exists>again. createInternal sample_sessions sample_creation sample_key (sample_renewed, 9, Map.empty) =
       (Inr again, sample_renewed, 9, Map.empty) \<and>
     is_token again = ''aGVh.Y2xh.c2ln'' \<and> is_replayed again \<and> pg_name (is_guest again) = ''AgileBeacon01''"
proof -
  have run: "createInternal sample_sessions sample_creation sample_key (no_sessions, 5, Map.empty) =
      (Inr \<lparr>is_guest = \<lparr>pg_avatar = ''knight_amber_01'', pg_expiresAt = 7201000, pg_id = gr_id sample_guest,
         pg_issuedAt = 1000, pg_name = ''AgileBeacon01''\<rparr>, is_replayed = False, is_token = sample_token\<rparr>, snd sample_created)"
    using arg_cong [OF sample_created_issued, of fst] by (metis fst_map_prod id_apply fst_conv prod.collapse sample_created_def)
  have after: "fst (snd sample_created) = sample_after" using arg_cong [OF sample_created_issued, of snd] by simp
  have evolves: "session_evolves (fst (snd sample_created)) sample_renewed"
    unfolding sample_renewed_def after by (rule session_evolves.renew [OF session_evolves.now])
  have up: "sx_readFault (ce_find sample_creation) = None" by (simp add: sample_creation_def sample_env_def)
  have sound: "\<forall>i < DATABASE_NAME_ATTEMPTS. attempt_sound (ce_attempt sample_creation i) (fst (snd sample_created))"
    using sample_attempts_sound by blast
  have ok: "session_ok (fst (no_sessions, 5 :: int, Map.empty :: string \<Rightarrow> (string \<times> int) option))"
    using no_sessions_ok(1) by simp
  show ?thesis
    using create_is_idempotent [OF ok run sound evolves up, of "(9, Map.empty)"]
    unfolding sample_token_def IssuedGuestSession.simps PublicGuestSession.simps by blast
qed

definition sample_identity :: AuthenticatedGuest where
  "sample_identity = token_identity sample_guest sample_claims"

theorem reset_is_final_witness:
  "getCurrent sample_env sample_identity 2999999 sample_renewed =
     Inr \<lparr>pg_avatar = ''knight_amber_01'', pg_expiresAt = 9200000, pg_id = gr_id sample_guest, pg_issuedAt = 2000000,
       pg_name = ''AgileBeacon01''\<rparr> \<and>
   (\<exists>e. getCurrent sample_env sample_identity 3000001
      (snd (cleanupExpired NoFault 9300000 10 []
        (snd (session_renew sample_env sample_renewal (snd (session_reset sample_env sample_reset sample_renewed)))))) = Inl e)"
proof -
  have before: "getCurrent sample_env sample_identity 2999999 sample_renewed =
     Inr \<lparr>pg_avatar = ''knight_amber_01'', pg_expiresAt = 9200000, pg_id = gr_id sample_guest, pg_issuedAt = 2000000,
       pg_name = ''AgileBeacon01''\<rparr>"
    by code_simp
  have "distinct (map gs_id (sd_guests sample_renewed)) \<and> distinct (map sc_idempotency_hash (sd_commands sample_renewed)) \<and>
     list_all (\<lambda>c. session_command_check c \<and> sc_guest_session_id c \<in> gs_id ` set (sd_guests sample_renewed)) (sd_commands sample_renewed)"
    by code_simp
  then have ok: "session_ok sample_renewed" by (simp add: session_ok_def list_all_iff)
  let ?reset = "session_reset sample_env sample_reset sample_renewed"
  obtain m s1 where m: "?reset = (Inr m, s1)" "\<not> mu_replayed m"
  proof -
    have "(case fst ?reset of Inl e \<Rightarrow> False | Inr m \<Rightarrow> \<not> mu_replayed m)" by code_simp
    then show ?thesis using that by (cases ?reset; cases "fst ?reset") auto
  qed
  have "session_outlives (rz_guestSessionId sample_reset) s1
      (snd (cleanupExpired NoFault 9300000 10 [] (snd (session_renew sample_env sample_renewal s1))))"
    by (rule session_outlives.cleanup [OF session_outlives.renew [OF session_outlives.now]])
  from reset_is_final [OF ok m this]
  have "\<exists>e. getCurrent sample_env sample_identity 3000001
      (snd (cleanupExpired NoFault 9300000 10 [] (snd (session_renew sample_env sample_renewal s1)))) = Inl e"
    by (simp add: sample_identity_def sample_reset_def token_identity_def)
  then show ?thesis using before m(1) by simp
qed

end
