(* ===== verification/Game_Reconciliation.thy ===== *)
theory Game_Reconciliation
  imports Wire_Properties Realtime_Protocol
begin

text \<open>
  \<open>src/src/modules/game/game-reconciliation.service.ts\<close>: the job that compares the copies in
  Redis with the durable games and repairs them, in batches that a cursor moves over the
  games and a \<open>SCAN\<close> moves over the keys. What it repaired is the list of \<open>repair\<close>s, of
  which the report is the count. What the scan returns is an argument. Log messages,
  metrics and the interval timer are left out.
\<close>

section \<open>State\<close>

record GameReconciliationService =
  gn_batchSize :: nat
  gn_databaseCursor :: "GameAllocationCursor option"
  gn_redisCursor :: string
  gn_active :: bool

record GameReconciliationReport =
  gt_activeGameRepairs :: nat
  gt_graceRepairs :: nat
  gt_snapshotRepairs :: nat
  gt_staleActiveGameRepairs :: nat
  gt_stateRepairs :: nat

datatype repair =
    repaired_active string string | repaired_state string string | repaired_grace string string
  | repaired_snapshot string | repaired_stale "string option" string

fun count_repair :: "repair \<Rightarrow> GameReconciliationReport \<Rightarrow> GameReconciliationReport" where
  "count_repair (repaired_active g u) r = r\<lparr>gt_activeGameRepairs := gt_activeGameRepairs r + 1\<rparr>"
| "count_repair (repaired_state g u) r = r\<lparr>gt_stateRepairs := gt_stateRepairs r + 1\<rparr>"
| "count_repair (repaired_grace g u) r = r\<lparr>gt_graceRepairs := gt_graceRepairs r + 1\<rparr>"
| "count_repair (repaired_snapshot g) r = r\<lparr>gt_snapshotRepairs := gt_snapshotRepairs r + 1\<rparr>"
| "count_repair (repaired_stale g u) r = r\<lparr>gt_staleActiveGameRepairs := gt_staleActiveGameRepairs r + 1\<rparr>"

definition empty_report :: GameReconciliationReport where
  "empty_report = \<lparr>gt_activeGameRepairs = 0, gt_graceRepairs = 0, gt_snapshotRepairs = 0, gt_staleActiveGameRepairs = 0,
     gt_stateRepairs = 0\<rparr>"

definition UUID_PATTERN :: "string \<Rightarrow> bool" where
  "UUID_PATTERN s \<longleftrightarrow>
     length s = 36 \<and>
     list_all (\<lambda>(i, c). if i \<in> {8, 13, 18, 23} then c = CHR ''-'' else hex_digit c) (enumerate 0 s) \<and>
     s ! 14 \<in> set ''12345'' \<and> s ! 19 \<in> set ''89abAB''"

definition redis_unavailable :: thrown where
  "redis_unavailable = ErrorObject None (Some ''Redis is unavailable for active-game reconciliation.'') None"

definition redis_rejected :: thrown where
  "redis_rejected = ErrorObject None (Some ''Redis rejected active-game reconciliation.'') None"

section \<open>Durable games\<close>

record 'r repair_env =
  gx_others :: "nat \<Rightarrow> 'r \<times> db \<Rightarrow> 'r \<times> db"
  gx_inspect :: pipe
  gx_inspectNow :: int
  gx_read :: tx_env
  gx_restore :: restore_faults
  gx_restoreNow :: int

definition driftCount :: "EphemeralAllocationState \<Rightarrow> nat" where
  "driftCount state =
     length (ea_missingActiveGuestSessionIds state) + length (ea_missingStateGuestSessionIds state) +
     length (ea_graceDriftGuestSessionIds state) + (if ea_snapshotMissing state then 1 else 0)"

definition state_repairs :: "string \<Rightarrow> EphemeralAllocationState \<Rightarrow> repair list" where
  "state_repairs gameId state =
     map (repaired_active gameId) (ea_missingActiveGuestSessionIds state) @
     map (repaired_state gameId) (ea_missingStateGuestSessionIds state) @
     map (repaired_grace gameId) (ea_graceDriftGuestSessionIds state) @
     (if ea_snapshotMissing state then [repaired_snapshot gameId] else [])"

definition reconcile_game ::
    "('p, 'r) game_services \<Rightarrow> 'r repair_env \<Rightarrow> GameAllocation \<Rightarrow> 'r world \<Rightarrow> (thrown + repair list) \<times> 'r world" where
  "reconcile_game S env allocation w =
     (let w0 = gx_others env 0 w; gameId = gm_id (al_game allocation);
          state = inspectAllocation (gl_redis S) (gx_inspect env) allocation (gx_inspectNow env) (fst w0) in
      if \<not> ea_available state then (Inl redis_unavailable, w0)
      else if driftCount state = 0 then (Inr [], w0)
      else
        (let w1 = gx_others env 1 w0 in
         case room_snapshot (gx_read env) gameId (gp_guestSessionId (fst (al_players allocation))) (snd w1) of
           Inl e \<Rightarrow> (Inl e, w1)
         | Inr snapshot \<Rightarrow>
             (case on_redis (restoreSnapshot (gl_redis S) (gl_json S) (gl_ephemeral S) (gx_restore env) snapshot
                 (gx_restoreNow env)) (gx_others env 2 w1) of
                (restored, w2) \<Rightarrow> (if restored then Inr (state_repairs gameId state) else Inl redis_rejected, w2))))"

text \<open>What was repaired before an exception is reported as well.\<close>

fun reconcile_games ::
    "('p, 'r) game_services \<Rightarrow> (nat \<Rightarrow> 'r repair_env) \<Rightarrow> nat \<Rightarrow> GameAllocation list \<Rightarrow> 'r world \<Rightarrow>
     (thrown + unit) \<times> repair list \<times> 'r world" where
  "reconcile_games S envs i [] w = (Inr (), [], w)"
| "reconcile_games S envs i (allocation # allocations) w =
     (case reconcile_game S (envs i) allocation w of
        (Inl e, w1) \<Rightarrow> (Inl e, [], w1)
      | (Inr repairs, w1) \<Rightarrow>
          (case reconcile_games S envs (i + 1) allocations w1 of (r, later, w2) \<Rightarrow> (r, repairs @ later, w2)))"

definition next_database_cursor :: "nat \<Rightarrow> GameAllocation list \<Rightarrow> GameAllocationCursor option" where
  "next_database_cursor batchSize allocations =
     (if length allocations = batchSize \<and> allocations \<noteq> []
      then Some \<lparr>cu_id = gm_id (al_game (last allocations)), cu_updatedAt = gm_updatedAt (al_game (last allocations))\<rparr> else None)"

definition reconcileDurableGames ::
    "('p, 'r) game_services \<Rightarrow> tx_env \<Rightarrow> (nat \<Rightarrow> 'r repair_env) \<Rightarrow> GameReconciliationService \<Rightarrow> 'r world \<Rightarrow>
     ((thrown + unit) \<times> repair list \<times> 'r world) \<times> GameReconciliationService" where
  "reconcileDurableGames S env envs M w =
     (case findActiveAllocations env (gn_batchSize M) (gn_databaseCursor M) (snd w) of
        Inl e \<Rightarrow> ((Inl e, [], w), M)
      | Inr allocations \<Rightarrow>
          (reconcile_games S envs 0 allocations w,
           M\<lparr>gn_databaseCursor := next_database_cursor (gn_batchSize M) allocations\<rparr>))"

section \<open>Keys of active games\<close>

record 'r key_env =
  gk_others :: "nat \<Rightarrow> 'r \<times> db \<Rightarrow> 'r \<times> db"
  gk_get :: redis_fault
  gk_eligibility :: tx_env
  gk_now :: int
  gk_clear :: redis_fault
  gk_restore :: pipe

definition key_guest :: "string \<Rightarrow> string" where
  "key_guest key = drop (length ''user:'') (take (length key - length '':active-game'') key)"

definition reconcile_key ::
    "('p, 'r) game_services \<Rightarrow> 'r key_env \<Rightarrow> string \<Rightarrow> 'r world \<Rightarrow> (thrown + repair list) \<times> 'r world" where
  "reconcile_key S env key w =
     (let guest = key_guest key in
      if \<not> UUID_PATTERN guest then (Inr [], w)
      else if gk_get env \<noteq> redis_up then (Inl (ErrorObject None None None), w)
      else
        (let cachedGameId = rd_get (gl_redis S) key (fst w); w1 = gk_others env 0 w in
         case getGuestMatchEligibility (gk_eligibility env) guest (gk_now env) (snd w1) of
           Inl e \<Rightarrow> (Inl e, w1)
         | Inr eligibility \<Rightarrow>
             if cachedGameId = ge_activeGameId eligibility then (Inr [], w1)
             else
               (case on_redis (case ge_activeGameId eligibility of
                    None \<Rightarrow> clearActiveGame (gl_redis S) (gl_ephemeral S) (gk_clear env) guest
                      (case cachedGameId of None \<Rightarrow> [] | Some g \<Rightarrow> g)
                  | Some gameId \<Rightarrow> restoreActiveGame (gl_redis S) (gl_ephemeral S) (gk_restore env) gameId guest)
                  (gk_others env 1 w1) of
                 (fixed, w2) \<Rightarrow>
                   (Inr (if fixed
                      then [repaired_stale (case ge_activeGameId eligibility of None \<Rightarrow> cachedGameId | Some g \<Rightarrow> Some g) guest]
                      else []), w2))))"

fun reconcile_keys ::
    "('p, 'r) game_services \<Rightarrow> (nat \<Rightarrow> 'r key_env) \<Rightarrow> nat \<Rightarrow> string list \<Rightarrow> 'r world \<Rightarrow>
     (thrown + unit) \<times> repair list \<times> 'r world" where
  "reconcile_keys S envs i [] w = (Inr (), [], w)"
| "reconcile_keys S envs i (key # keys) w =
     (case reconcile_key S (envs i) key w of
        (Inl e, w1) \<Rightarrow> (Inl e, [], w1)
      | (Inr repairs, w1) \<Rightarrow>
          (case reconcile_keys S envs (i + 1) keys w1 of (r, later, w2) \<Rightarrow> (r, repairs @ later, w2)))"

text \<open>\<open>scan\<close> is what the call of \<open>SCAN\<close> returns, \<open>None\<close> when Redis cannot be reached.\<close>

definition reconcileRedisActiveKeys ::
    "('p, 'r) game_services \<Rightarrow> (string \<times> string list) option \<Rightarrow> (nat \<Rightarrow> 'r key_env) \<Rightarrow> GameReconciliationService \<Rightarrow> 'r world \<Rightarrow>
     ((thrown + unit) \<times> repair list \<times> 'r world) \<times> GameReconciliationService" where
  "reconcileRedisActiveKeys S scan envs M w =
     (case scan of
        None \<Rightarrow> ((Inl (ErrorObject None None None), [], w), M)
      | Some (nextCursor, keys) \<Rightarrow>
          (reconcile_keys S envs 0 (take (gn_batchSize M) keys) w, M\<lparr>gn_redisCursor := nextCursor\<rparr>))"

section \<open>A run\<close>

record 'r reconcile_env =
  gv_list :: tx_env
  gv_games :: "nat \<Rightarrow> 'r repair_env"
  gv_scan :: "(string \<times> string list) option"
  gv_keys :: "nat \<Rightarrow> 'r key_env"

definition runOnce ::
    "('p, 'r) game_services \<Rightarrow> 'r reconcile_env \<Rightarrow> GameReconciliationService \<Rightarrow> 'r world \<Rightarrow>
     ((thrown + GameReconciliationReport) \<times> repair list \<times> 'r world) \<times> GameReconciliationService" where
  "runOnce S env M w =
     (case reconcileDurableGames S (gv_list env) (gv_games env) M w of
        ((Inl e, repairs, w1), M1) \<Rightarrow> ((Inl e, repairs, w1), M1)
      | ((Inr _, repairs, w1), M1) \<Rightarrow>
          (case reconcileRedisActiveKeys S (gv_scan env) (gv_keys env) M1 w1 of
             ((Inl e, later, w2), M2) \<Rightarrow> ((Inl e, repairs @ later, w2), M2)
           | ((Inr _, later, w2), M2) \<Rightarrow>
               ((Inr (fold count_repair (repairs @ later) empty_report), repairs @ later, w2), M2)))"

text \<open>A run that still goes on is not started again, and a failure ends it quietly.\<close>

definition runSafely ::
    "('p, 'r) game_services \<Rightarrow> 'r reconcile_env \<Rightarrow> GameReconciliationService \<Rightarrow> 'r world \<Rightarrow>
     repair list \<times> 'r world \<times> GameReconciliationService" where
  "runSafely S env M w =
     (if gn_active M then ([], w, M)
      else
        (case runOnce S env (M\<lparr>gn_active := True\<rparr>) w of
           ((_, repairs, w1), M1) \<Rightarrow> (repairs, w1, M1\<lparr>gn_active := False\<rparr>)))"

end
