(* ===== verification/Reconciliation_Properties.thy ===== *)
theory Reconciliation_Properties
  imports Game_Reconciliation Game_Adjudication
begin

text \<open>
  What a run of the reconciliation achieves: afterwards the copies in Redis of every game of the
  batch agree with the database.
\<close>

section \<open>The keys of a game\<close>

definition allocation_keys :: "GameAllocation \<Rightarrow> string set" where
  "allocation_keys al =
     (let gameId = gm_id (al_game al); u = gp_guestSessionId (fst (al_players al)); v = gp_guestSessionId (snd (al_players al)) in
      {snapshotKey gameId, activeGameKey u, activeGameKey v, stateKey u, stateKey v, graceKey gameId u, graceKey gameId v})"

text \<open>Identifiers are UUIDs; that no colon occurs in them keeps the keys apart.\<close>

definition plain_id :: "string \<Rightarrow> bool" where
  "plain_id s \<longleftrightarrow> CHR '':'' \<notin> set s"

lemma plain_split:
  assumes "plain_id a" and "plain_id b" and "a @ CHR '':'' # x = b @ CHR '':'' # y"
  shows "a = b \<and> x = y"
proof -
  let ?p = "\<lambda>c. c \<noteq> CHR '':''"
  have first: "takeWhile ?p (a @ CHR '':'' # x) = a" "takeWhile ?p (b @ CHR '':'' # y) = b"
    using assms(1,2) by (auto simp: plain_id_def takeWhile_tail takeWhile_eq_all_conv)
  have "a = takeWhile ?p (b @ CHR '':'' # y)" using first(1) unfolding assms(3) by (rule sym)
  then have "a = b" using first(2) by simp
  then show ?thesis using assms(3) by simp
qed

lemma game_keys:
  assumes "plain_id g" and "plain_id h"
  shows "snapshotKey g = snapshotKey h \<longleftrightarrow> g = h" "graceKey g u = graceKey h v \<longleftrightarrow> g = h \<and> u = v"
    "graceKey g u \<noteq> snapshotKey h" "snapshotKey h \<noteq> graceKey g u"
proof -
  show "snapshotKey g = snapshotKey h \<longleftrightarrow> g = h" by (simp add: snapshotKey_def)
  show "graceKey g u = graceKey h v \<longleftrightarrow> g = h \<and> u = v"
    using plain_split [OF assms, of "''grace:'' @ u" "''grace:'' @ v"] by (auto simp: graceKey_def)
  show "graceKey g u \<noteq> snapshotKey h" "snapshotKey h \<noteq> graceKey g u"
    using plain_split [OF assms, of "''grace:'' @ u" "''snapshot''"] by (auto simp: graceKey_def snapshotKey_def)
qed

lemma user_game_keys [simp]:
  "activeGameKey u \<noteq> snapshotKey g" "stateKey u \<noteq> snapshotKey g" "activeGameKey u \<noteq> graceKey g v" "stateKey u \<noteq> graceKey g v"
  "snapshotKey g \<noteq> activeGameKey u" "snapshotKey g \<noteq> stateKey u" "graceKey g v \<noteq> activeGameKey u" "graceKey g v \<noteq> stateKey u"
  by (simp_all add: key_defs graceKey_def snapshotKey_def)

section \<open>What a restored snapshot changes\<close>

definition same_at :: "'r redis \<Rightarrow> string set \<Rightarrow> 'r \<Rightarrow> 'r \<Rightarrow> bool" where
  "same_at R K s s' \<longleftrightarrow>
     (\<forall>k \<in> K. rd_get R k s' = rd_get R k s \<and> rd_zrange R k s' = rd_zrange R k s \<and> rd_hgetall R k s' = rd_hgetall R k s)"

lemma same_at_refl [simp]: "same_at R K s s"
  by (simp add: same_at_def)

lemma same_at_trans: "same_at R K s t \<Longrightarrow> same_at R K t r \<Longrightarrow> same_at R K s r"
  by (simp add: same_at_def)

lemma inspect_same:
  assumes "same_at R (allocation_keys al) s s'"
  shows "inspectAllocation R p al now s' = inspectAllocation R p al now s"
proof -
  let ?g = "gm_id (al_game al)"
  let ?u = "gp_guestSessionId (fst (al_players al))" and ?v = "gp_guestSessionId (snd (al_players al))"
  have read: "rd_get R k s' = rd_get R k s" "rd_exists R k s' = rd_exists R k s" if "k \<in> allocation_keys al" for k
    using assms that by (simp_all add: same_at_def rd_exists_def)
  have keys: "snapshotKey ?g \<in> allocation_keys al" "activeGameKey ?u \<in> allocation_keys al" "activeGameKey ?v \<in> allocation_keys al"
    "stateKey ?u \<in> allocation_keys al" "stateKey ?v \<in> allocation_keys al" "graceKey ?g ?u \<in> allocation_keys al"
    "graceKey ?g ?v \<in> allocation_keys al"
    by (simp_all add: allocation_keys_def Let_def)
  show ?thesis
    unfolding inspectAllocation_def Let_def by (simp add: read(1) [OF keys(2)] read(1) [OF keys(3)] read(1) [OF keys(4)]
        read(1) [OF keys(5)] read(2) [OF keys(1)] read(2) [OF keys(6)] read(2) [OF keys(7)])
qed

lemma fold_same_at:
  "(\<And>c s. c \<in> set cmds \<Longrightarrow> same_at R K s (c s)) \<Longrightarrow> same_at R K s (fold (\<lambda>c. c) cmds s)"
  by (induction cmds arbitrary: s) (auto intro: same_at_trans)

lemma command_same_at:
  assumes "redis_ok R" and "k \<notin> K"
  shows "positive_ttl ttl \<Longrightarrow> same_at R K s (rd_set R k v ttl s)" "same_at R K s (rd_del R k s)"
  using assms by (auto simp: same_at_def redis_laws)

lemma grace_command_same_at:
  assumes "redis_ok R" and "graceKey gameId (gp_guestSessionId p) \<notin> K"
  shows "same_at R K s (grace_command R gameId now p s)"
  using command_same_at [OF assms] by (auto simp: grace_command_def positive_ttl_def split: option.splits)

definition ttls_ok :: "GameEphemeralStateService \<Rightarrow> bool" where
  "ttls_ok es \<longleftrightarrow> 0 < es_snapshotTtlMs es \<and> 0 < es_stateTtlMs es"

lemma restore_effect:
  assumes R: "redis_ok R" and ttl: "ttls_ok es" and al: "sn_allocation snapshot = al" and ps: "al_players al = (a, b)"
    and ne: "gp_guestSessionId a \<noteq> gp_guestSessionId b" and plain: "plain_id (gm_id (al_game al))"
    and active: "gm_status (al_game al) \<in> set ACTIVE_STATUSES" and json: "snapshot_json snapshot = Some json"
    and calm: "rf_pipe faults = pipe_done"
  obtains s' where "restoreSnapshot R J es faults snapshot now s = (True, s')"
    "\<And>K. K \<inter> allocation_keys al = {} \<Longrightarrow> same_at R K s s'"
    "driftCount (inspectAllocation R pipe_done al now s') = 0"
proof -
  let ?g = "gm_id (al_game al)"
  let ?u = "gp_guestSessionId a" and ?v = "gp_guestSessionId b"
  let ?set = "rd_set R (snapshotKey ?g) (js_stringify J json) (Some (es_snapshotTtlMs es))"
  let ?actives = "active_commands R es ?g ?u @ active_commands R es ?g ?v"
  let ?cmds = "[?set] @ ?actives @ [grace_command R ?g now a, grace_command R ?g now b]"
  let ?s1 = "fold (\<lambda>c. c) ([?set] @ ?actives) s"
  let ?s2 = "grace_command R ?g now a ?s1"
  let ?s' = "grace_command R ?g now b ?s2"
  have run: "restoreSnapshot R J es faults snapshot now s = (True, ?s')"
    using al ps active json calm by (simp add: restoreSnapshot_def Let_def run_pipeline_def)
  have pos: "positive_ttl (Some (es_snapshotTtlMs es))" "positive_ttl (Some (es_stateTtlMs es))" "positive_ttl None"
    using ttl by (simp_all add: ttls_ok_def positive_ttl_def)
  have keep: "same_at R K s ?s'" if K: "K \<inter> allocation_keys al = {}" for K
  proof -
    have out: "snapshotKey ?g \<notin> K" "activeGameKey ?u \<notin> K" "activeGameKey ?v \<notin> K" "stateKey ?u \<notin> K" "stateKey ?v \<notin> K"
      "graceKey ?g ?u \<notin> K" "graceKey ?g ?v \<notin> K"
      using K by (auto simp: allocation_keys_def ps Let_def)
    have "same_at R K t (c t)" if "c \<in> set ?cmds" for c t
      using that command_same_at(1) [OF R out(1) pos(1)] command_same_at(1) [OF R out(2) pos(3)]
        command_same_at(1) [OF R out(3) pos(3)] command_same_at(1) [OF R out(4) pos(2)]
        command_same_at(1) [OF R out(5) pos(2)] grace_command_same_at [OF R out(6)] grace_command_same_at [OF R out(7)]
      by (auto simp: active_commands_def)
    then have "same_at R K s (fold (\<lambda>c. c) ?cmds s)" by (rule fold_same_at)
    then show ?thesis by simp
  qed
  have first: "rd_get R (snapshotKey ?g) ?s1 \<noteq> None" "rd_get R (activeGameKey ?u) ?s1 = Some ?g" "rd_get R (activeGameKey ?v) ?s1 = Some ?g"
    "rd_get R (stateKey ?u) ?s1 = Some ''IN_GAME''" "rd_get R (stateKey ?v) ?s1 = Some ''IN_GAME''"
    using ne by (simp_all add: active_commands_def redis_set [OF R] pos ttl [unfolded ttls_ok_def] user_keys_disjoint user_keys_disjoint [symmetric])
  note grace = grace_command_same_at [OF R]
  have apart: "graceKey ?g ?u \<noteq> graceKey ?g ?v" "graceKey ?g w \<noteq> snapshotKey ?g" for w
    using game_keys [OF plain plain] ne by auto
  have "same_at R {snapshotKey ?g, activeGameKey ?u, activeGameKey ?v, stateKey ?u, stateKey ?v} ?s1 ?s'"
    by (rule same_at_trans; rule grace) (auto simp: apart)
  then have five: "rd_get R (snapshotKey ?g) ?s' \<noteq> None" "rd_get R (activeGameKey ?u) ?s' = Some ?g"
    "rd_get R (activeGameKey ?v) ?s' = Some ?g" "rd_get R (stateKey ?u) ?s' = Some ''IN_GAME''" "rd_get R (stateKey ?v) ?s' = Some ''IN_GAME''"
    using first by (simp_all add: same_at_def)
  have made: "rd_exists R (graceKey ?g (gp_guestSessionId p)) (grace_command R ?g now p t) =
      (case gp_reconnectGraceEndsAt p of None \<Rightarrow> False | Some e \<Rightarrow> now < e)" for p t
    by (auto simp: grace_command_def rd_exists_def redis_set [OF R] redis_del [OF R] positive_ttl_def split: option.splits)
  have "same_at R {graceKey ?g ?u} ?s2 ?s'" by (rule grace) (use apart in auto)
  then have two: "rd_exists R (graceKey ?g ?u) ?s' = (case gp_reconnectGraceEndsAt a of None \<Rightarrow> False | Some e \<Rightarrow> now < e)"
    "rd_exists R (graceKey ?g ?v) ?s' = (case gp_reconnectGraceEndsAt b of None \<Rightarrow> False | Some e \<Rightarrow> now < e)"
    using made [of a ?s1] made [of b ?s2] by (simp_all add: same_at_def rd_exists_def)
  have "rd_exists R (snapshotKey ?g) ?s'" using five(1) by (simp add: rd_exists_def)
  then have "driftCount (inspectAllocation R pipe_done al now ?s') = 0"
    using five two by (simp add: driftCount_def inspectAllocation_def ps Let_def)
  with run keep show thesis by (rule that)
qed

section \<open>Active games of a reachable database\<close>

definition readable :: "db \<Rightarrow> GameAllocation \<Rightarrow> bool" where
  "readable db al \<longleftrightarrow>
     (\<exists>g. find_game db (gm_id (al_game al)) = Some g \<and> g_status g \<in> set activeStatuses \<and>
        mapAllocation (loadAllocation db g) = Inr al)"

definition moderate :: "db \<Rightarrow> bool" where
  "moderate db \<longleftrightarrow> (\<forall>g \<in> set (games db). plain_id (g_id g) \<and> (\<forall>t. g_turn_started_at g = Some t \<longrightarrow> time_value t))"

lemma readable_facts:
  assumes sys: "system_ok db" and al: "readable db al"
  obtains g p q where "find_game db (gm_id (al_game al)) = Some g" "g \<in> set (games db)" "g_id g = gm_id (al_game al)"
    "mapAllocation (loadAllocation db g) = Inr al" "\<not> terminal_text (g_status g)"
    "gm_status (al_game al) \<in> set ACTIVE_STATUSES"
    "players_of db (g_id g) = [p, q]"
    "gp_guestSessionId (fst (al_players al)) = p_guest_session_id p" "gp_guestSessionId (snd (al_players al)) = p_guest_session_id q"
    "p_guest_session_id p \<noteq> p_guest_session_id q"
proof -
  obtain g where g: "find_game db (gm_id (al_game al)) = Some g" "g_status g \<in> set activeStatuses"
    "mapAllocation (loadAllocation db g) = Inr al"
    using al unfolding readable_def by blast
  obtain r a b p q where reads: "mapAllocation (loadAllocation db g) = Inr \<lparr>al_game = r, al_players = (a, b)\<rparr>"
    "mapGame g = Inr r" "players_of db (gm_id (al_game al)) = [p, q]"
    "mapPlayer (p, the (find_guest db (p_guest_session_id p))) = Inr a"
    "mapPlayer (q, the (find_guest db (p_guest_session_id q))) = Inr b"
    "p_guest_session_id p \<noteq> p_guest_session_id q"
    by (rule allocation_reads [OF sys g(1)])
  have al: "al = \<lparr>al_game = r, al_players = (a, b)\<rparr>" using reads(1) g(3) by simp
  have ab: "gp_guestSessionId a = p_guest_session_id p" "gp_guestSessionId b = p_guest_session_id q"
    using reads(4,5) by (auto simp: mapPlayer_def Let_def split: if_splits)
  obtain r' where "mapGame g = Inr r'" "status_text (gm_status r') = g_status g"
    by (rule mapGame_check [OF system_ok_game(2) [OF sys g(1)]])
  then have status: "status_text (gm_status r) = g_status g" using reads(2) by simp
  have active: "gm_status r \<in> set ACTIVE_STATUSES" "\<not> terminal_text (g_status g)"
    using g(2) unfolding status [symmetric]
    by (cases "gm_status r"; simp add: activeStatuses_def ACTIVE_STATUSES_def terminal_text_def)+
  have row: "g \<in> set (games db)" "g_id g = gm_id (al_game al)" using find_gameD [OF g(1)] by simp_all
  have "gm_status (al_game al) \<in> set ACTIVE_STATUSES" "gp_guestSessionId (fst (al_players al)) = p_guest_session_id p"
    "gp_guestSessionId (snd (al_players al)) = p_guest_session_id q" "players_of db (g_id g) = [p, q]"
    using active(1) ab reads(3) row(2) by (simp_all only: al GameAllocation.simps fst_conv snd_conv)
  then show thesis using g(1) row g(3) active(2) reads(6) that by blast
qed

lemma readable_disjoint:
  assumes sys: "system_ok db" and mod: "moderate db" and x: "readable db x" and y: "readable db y"
    and ne: "gm_id (al_game x) \<noteq> gm_id (al_game y)"
  shows "allocation_keys y \<inter> allocation_keys x = {}"
proof -
  obtain g p q where g: "g \<in> set (games db)" "g_id g = gm_id (al_game x)" "\<not> terminal_text (g_status g)"
    "players_of db (g_id g) = [p, q]" "gp_guestSessionId (fst (al_players x)) = p_guest_session_id p"
    "gp_guestSessionId (snd (al_players x)) = p_guest_session_id q"
    by (rule readable_facts [OF sys x])
  obtain h r t where h: "h \<in> set (games db)" "g_id h = gm_id (al_game y)" "\<not> terminal_text (g_status h)"
    "players_of db (g_id h) = [r, t]" "gp_guestSessionId (fst (al_players y)) = p_guest_session_id r"
    "gp_guestSessionId (snd (al_players y)) = p_guest_session_id t"
    by (rule readable_facts [OF sys y])
  have mine: "map_option a_game_id (find_assignment db (p_guest_session_id c)) = Some (g_id g)" if "c \<in> {p, q}" for c
  proof -
    have "c \<in> {p \<in> set (players db). p_game_id p = g_id g}" using that by (simp add: g(4) flip: set_players_of)
    then show ?thesis using active_player_assigned [OF sys g(1,3), of c] by simp
  qed
  have others: "map_option a_game_id (find_assignment db (p_guest_session_id c)) = Some (g_id h)" if "c \<in> {r, t}" for c
  proof -
    have "c \<in> {p \<in> set (players db). p_game_id p = g_id h}" using that by (simp add: h(4) flip: set_players_of)
    then show ?thesis using active_player_assigned [OF sys h(1,3), of c] by simp
  qed
  have guests: "p_guest_session_id c \<noteq> p_guest_session_id d" if "c \<in> {p, q}" "d \<in> {r, t}" for c d
    using mine [OF that(1)] others [OF that(2)] ne g(2) h(2) by auto
  have plain: "plain_id (gm_id (al_game x))" "plain_id (gm_id (al_game y))"
    using mod g(1,2) h(1,2) by (auto simp: moderate_def)
  have users: "p_guest_session_id p \<noteq> p_guest_session_id r" "p_guest_session_id p \<noteq> p_guest_session_id t"
    "p_guest_session_id q \<noteq> p_guest_session_id r" "p_guest_session_id q \<noteq> p_guest_session_id t"
    by (intro guests; simp)+
  note apart = game_keys [OF plain] game_keys [OF plain(2,1)] users users [symmetric] ne ne [symmetric]
  show ?thesis
    unfolding allocation_keys_def Let_def g(5,6) h(5,6)
    by (simp add: apart user_keys_disjoint user_keys_disjoint [symmetric])
qed

section \<open>A run over the durable games\<close>

text \<open>What is to be reported for one game: the copies the inspection finds missing or stale.\<close>

definition drift_at :: "'r redis \<Rightarrow> int \<Rightarrow> 'r \<Rightarrow> GameAllocation \<Rightarrow> repair list" where
  "drift_at R now s al = state_repairs (gm_id (al_game al)) (inspectAllocation R pipe_done al now s)"

definition calm_repair :: "int \<Rightarrow> 'r repair_env \<Rightarrow> bool" where
  "calm_repair t env \<longleftrightarrow>
     gx_others env = (\<lambda>_ w. w) \<and> gx_inspect env = pipe_done \<and> gx_inspectNow env = t \<and> te_fault (gx_read env) = NoFault \<and>
     0 \<le> te_observedAt (gx_read env) \<and> time_value (te_observedAt (gx_read env)) \<and>
     rf_pipe (gx_restore env) = pipe_done \<and> gx_restoreNow env = t"

lemma room_snapshot_allocation:
  assumes "room_snapshot env gid u db = Inr sn" and "find_game db gid = Some g" and "mapAllocation (loadAllocation db g) = Inr al"
    and "commit_ok db"
  shows "sn_allocation sn = al"
  using assms
  by (auto simp: room_snapshot_def findSnapshot_def run_def fetch_def mapSnapshot_def sbind_Inr_iff GameSnapshotRecord.extend_def
      split: option.splits if_splits sum.splits fault.splits prod.splits)

lemma reconcile_game_repairs:
  assumes sys: "system_ok db" and mod: "moderate db" and R: "redis_ok (gl_redis S)" and ttl: "ttls_ok (gl_ephemeral S)"
    and calm: "calm_repair t env" and al: "readable db al"
  obtains s' where "reconcile_game S env al (s, db) =
      (Inr (state_repairs (gm_id (al_game al)) (inspectAllocation (gl_redis S) pipe_done al t s)), s', db)"
    "\<And>K. K \<inter> allocation_keys al = {} \<Longrightarrow> same_at (gl_redis S) K s s'"
    "driftCount (inspectAllocation (gl_redis S) pipe_done al t s') = 0"
proof -
  let ?R = "gl_redis S" and ?gid = "gm_id (al_game al)"
  let ?state = "inspectAllocation ?R pipe_done al t s"
  have there: "ea_available ?state" by (simp add: inspectAllocation_def Let_def)
  note env = calm [unfolded calm_repair_def]
  show thesis
  proof (cases "driftCount ?state = 0")
    case True
    then have "state_repairs ?gid ?state = []" by (simp add: driftCount_def state_repairs_def split: if_splits)
    then have "reconcile_game S env al (s, db) = (Inr (state_repairs ?gid ?state), s, db)"
      using True there env by (simp add: reconcile_game_def Let_def)
    then show thesis by (rule that) (simp_all add: True)
  next
    case False
    obtain g p q where g: "find_game db ?gid = Some g" "g \<in> set (games db)" "g_id g = ?gid"
      "mapAllocation (loadAllocation db g) = Inr al" "gm_status (al_game al) \<in> set ACTIVE_STATUSES"
      "players_of db (g_id g) = [p, q]" "gp_guestSessionId (fst (al_players al)) = p_guest_session_id p"
      "gp_guestSessionId (snd (al_players al)) = p_guest_session_id q" "p_guest_session_id p \<noteq> p_guest_session_id q"
      by (rule readable_facts [OF sys al])
    obtain a b where ps: "al_players al = (a, b)" by fastforce
    let ?u = "gp_guestSessionId a"
    have seats: "?u = p_guest_session_id p" "gp_guestSessionId b = p_guest_session_id q" "?u \<noteq> gp_guestSessionId b"
      using g(7-9) ps by simp_all
    have "?u \<in> p_guest_session_id ` set (players_of db ?gid)" using g(3,6) seats(1) by simp
    moreover have "\<forall>r. g_turn_started_at g = Some r \<longrightarrow> time_value r" "plain_id ?gid"
      using mod g(2,3) by (auto simp: moderate_def)
    ultimately obtain sn where sn: "room_snapshot (gx_read env) ?gid ?u db = Inr sn"
      using snapshot_typed [OF sys g(1), of "gx_read env" ?u] env by blast
    have sal: "sn_allocation sn = al"
      using room_snapshot_allocation [OF sn g(1,4)] sys by (simp add: system_ok_def db_ok_def)
    have "snapshot_json sn \<noteq> None"
      using seats(3) by (auto simp: snapshot_json_def sal ps present_snapshot_def Let_def)
    then obtain json where json: "snapshot_json sn = Some json" by blast
    obtain s' where s': "restoreSnapshot ?R (gl_json S) (gl_ephemeral S) (gx_restore env) sn t s = (True, s')"
      "\<And>K. K \<inter> allocation_keys al = {} \<Longrightarrow> same_at ?R K s s'"
      "driftCount (inspectAllocation ?R pipe_done al t s') = 0"
      using restore_effect [OF R ttl sal ps seats(3) \<open>plain_id ?gid\<close> g(5) json, of "gx_restore env"] env by metis
    have "reconcile_game S env al (s, db) = (Inr (state_repairs ?gid ?state), s', db)"
      using False there env sn s'(1) ps by (simp add: reconcile_game_def Let_def on_redis_def)
    then show thesis using s'(2,3) by (rule that)
  qed
qed

lemma reconcile_games_repair:
  assumes sys: "system_ok db" and mod: "moderate db" and R: "redis_ok (gl_redis S)" and ttl: "ttls_ok (gl_ephemeral S)"
    and calm: "\<forall>i. calm_repair t (envs i)" and "\<forall>al \<in> set als. readable db al" and "distinct (map (\<lambda>al. gm_id (al_game al)) als)"
  shows "\<exists>s'. reconcile_games S envs i als (s, db) =
      (Inr (), concat (map (drift_at (gl_redis S) t s) als), s', db) \<and>
    (\<forall>al \<in> set als. driftCount (inspectAllocation (gl_redis S) pipe_done al t s') = 0) \<and>
    (\<forall>K. (\<forall>al \<in> set als. K \<inter> allocation_keys al = {}) \<longrightarrow> same_at (gl_redis S) K s s')"
  using assms(6,7)
proof (induction als arbitrary: i s)
  case Nil
  show ?case by simp
next
  case (Cons al als)
  let ?R = "gl_redis S"
  have al: "readable db al" using Cons.prems(1) by simp
  have one: "calm_repair t (envs i)" using calm by blast
  obtain s1 where s1: "reconcile_game S (envs i) al (s, db) =
      (Inr (state_repairs (gm_id (al_game al)) (inspectAllocation ?R pipe_done al t s)), s1, db)"
    "\<And>K. K \<inter> allocation_keys al = {} \<Longrightarrow> same_at ?R K s s1" "driftCount (inspectAllocation ?R pipe_done al t s1) = 0"
    by (rule reconcile_game_repairs [OF sys mod R ttl one al, of s]) blast
  obtain s' where s': "reconcile_games S envs (i + 1) als (s1, db) =
      (Inr (), concat (map (drift_at ?R t s1) als), s', db)"
    "\<forall>al \<in> set als. driftCount (inspectAllocation ?R pipe_done al t s') = 0"
    "\<forall>K. (\<forall>al \<in> set als. K \<inter> allocation_keys al = {}) \<longrightarrow> same_at ?R K s1 s'"
    using Cons.IH [of "i + 1" s1] Cons.prems by auto
  have apart: "allocation_keys x \<inter> allocation_keys al = {}" "allocation_keys al \<inter> allocation_keys x = {}" if "x \<in> set als" for x
    using readable_disjoint [OF sys mod al, of x] Cons.prems that by (auto simp: image_iff)
  have "inspectAllocation ?R pipe_done x t s1 = inspectAllocation ?R pipe_done x t s" if "x \<in> set als" for x
    by (rule inspect_same [OF s1(2) [OF apart(1) [OF that]]])
  then have "concat (map (drift_at ?R t s1) als) =
      concat (map (drift_at ?R t s) als)"
    by (simp add: drift_at_def cong: map_cong)
  then have run: "reconcile_games S envs i (al # als) (s, db) = (Inr (),
      concat (map (drift_at ?R t s) (al # als)), s', db)"
    using s1(1) s'(1) by (simp add: drift_at_def)
  have "same_at ?R (allocation_keys al) s1 s'" using s'(3) apart(2) by blast
  then have "inspectAllocation ?R pipe_done al t s' = inspectAllocation ?R pipe_done al t s1" by (rule inspect_same)
  then have "\<forall>x \<in> set (al # als). driftCount (inspectAllocation ?R pipe_done x t s') = 0" using s1(3) s'(2) by simp
  moreover have "same_at ?R K s s'" if "\<forall>x \<in> set (al # als). K \<inter> allocation_keys x = {}" for K
    using s1(2) s'(3) that same_at_trans by (metis list.set_intros(1,2))
  ultimately show ?case using run by blast
qed

lemma map_sum_list_map: "map_sum_list h (map k xs) = map_sum_list (h \<circ> k) xs"
  by (induction xs) simp_all

lemma active_page_distinct:
  assumes "distinct (map g_id (games db))"
  shows "distinct (map g_id (activePage limit cursor db))"
proof -
  have *: "distinct gs \<and> inj_on g_id (set gs) \<Longrightarrow> distinct (map g_id gs)" for gs by (simp add: distinct_map)
  have d: "distinct (games db)" "inj_on g_id (set (games db))" using assms by (simp_all add: distinct_map)
  have sub: "set (activePage limit cursor db) \<subseteq> set (games db)" by (auto simp: activePage_def dest: in_set_takeD)
  have "distinct (activePage limit cursor db)" using d(1) by (simp add: activePage_def)
  then show ?thesis using inj_on_subset [OF d(2) sub] by (intro *) simp
qed

lemma active_page_reads:
  assumes sys: "system_ok db" and "te_readFault env = None"
  obtains page where "findActiveAllocations env limit cursor db = Inr page" "\<forall>al \<in> set page. readable db al"
    "map (\<lambda>al. gm_id (al_game al)) page = map g_id (activePage limit cursor db)" "distinct (map (\<lambda>al. gm_id (al_game al)) page)"
proof -
  let ?gs = "activePage limit cursor db"
  let ?f = "\<lambda>g. projr (mapAllocation (loadAllocation db g))"
  have sub: "g \<in> set (games db) \<and> g_status g \<in> set activeStatuses" if "g \<in> set ?gs" for g
    using that by (auto simp: activePage_def dest: in_set_takeD)
  have dist: "distinct (map g_id (games db))"
    using system_ok_tables [OF sys] by (simp add: tables_ok_def games_ok_def)
  have each: "mapAllocation (loadAllocation db g) = Inr (?f g)" "gm_id (al_game (?f g)) = g_id g" "find_game db (g_id g) = Some g"
    if "g \<in> set ?gs" for g
  proof -
    show g: "find_game db (g_id g) = Some g"
      using sub [OF that] find_row_unique [OF dist, of "g_id g" g] by (simp add: find_game_def)
    obtain r a b where "mapAllocation (loadAllocation db g) = Inr \<lparr>al_game = r, al_players = (a, b)\<rparr>" "mapGame g = Inr r"
        by (rule allocation_reads [OF sys g])
    moreover from this(2) have "gm_id r = g_id g"
      by (auto simp: mapGame_def sbind_Inr_iff split: option.splits if_splits)
    ultimately show "mapAllocation (loadAllocation db g) = Inr (?f g)" "gm_id (al_game (?f g)) = g_id g"
      by simp_all
  qed
  have "map_sum_list mapAllocation (map (loadAllocation db) ?gs) = Inr (map ?f ?gs)"
    unfolding map_sum_list_map by (rule map_sum_list_Inr) (simp only: comp_apply, rule each(1))
  then have "findActiveAllocations env limit cursor db = Inr (map ?f ?gs)"
    using assms(2) by (simp add: findActiveAllocations_def read_row_def)
  moreover have "readable db (?f g)" if "g \<in> set ?gs" for g
    unfolding readable_def each(2) [OF that] using each(1,3) [OF that] sub [OF that] by blast
  then have "\<forall>al \<in> set (map ?f ?gs). readable db al" by simp
  moreover have ids: "map (\<lambda>al. gm_id (al_game al)) (map ?f ?gs) = map g_id ?gs" using each(2) by simp
  moreover have "distinct (map g_id ?gs)" by (rule active_page_distinct [OF dist])
  ultimately show thesis using that [of "map ?f ?gs"] ids by metis
qed

text \<open>
  C16. A run of the reconciliation repairs its batch: for a reachable database and a Redis that
  works, in any state and whatever it has lost or kept too long, the run over the durable games of the
  batch succeeds, reports exactly what was missing or stale, game by game, and afterwards a
  second look at any of these games finds nothing left to repair: repairing one
  game never damages the copies of another.
\<close>
theorem reconciliation_repairs:
  assumes "reachable lib uuidv4 db" and "moderate db" and "redis_ok (gl_redis S)" and "ttls_ok (gl_ephemeral S)"
    and "te_readFault env = None" and "\<forall>i. calm_repair t (envs i)"
  shows "\<exists>page s'. map (\<lambda>al. gm_id (al_game al)) page = map g_id (activePage (gn_batchSize M) (gn_databaseCursor M) db) \<and>
     reconcileDurableGames S env envs M (s, db) =
       ((Inr (), concat (map (drift_at (gl_redis S) t s) page), s', db),
        M\<lparr>gn_databaseCursor := next_database_cursor (gn_batchSize M) page\<rparr>) \<and>
     (\<forall>al \<in> set page. driftCount (inspectAllocation (gl_redis S) pipe_done al t s') = 0)"
proof -
  note sys = reachable_system [OF assms(1)]
  obtain page where page: "findActiveAllocations env (gn_batchSize M) (gn_databaseCursor M) db = Inr page"
    "\<forall>al \<in> set page. readable db al"
    "map (\<lambda>al. gm_id (al_game al)) page = map g_id (activePage (gn_batchSize M) (gn_databaseCursor M) db)"
    "distinct (map (\<lambda>al. gm_id (al_game al)) page)"
    by (rule active_page_reads [OF sys assms(5)])
  from reconcile_games_repair [OF sys assms(2-4,6) page(2,4), of 0 s] page(1,3) show ?thesis
    by (auto simp: reconcileDurableGames_def)
qed

definition sample_repair :: "sample_state repair_env" where
  "sample_repair = \<lparr>gx_others = (\<lambda>_ w. w), gx_inspect = pipe_done, gx_inspectNow = 9000, gx_read = sample_env 9000 sample_playing,
     gx_restore = \<lparr>rf_pipe = pipe_done, rf_clearA = redis_up, rf_clearB = redis_up\<rparr>, gx_restoreNow = 9000\<rparr>"

definition sample_reconciliation :: GameReconciliationService where
  "sample_reconciliation = \<lparr>gn_batchSize = 100, gn_databaseCursor = None, gn_redisCursor = ''0'', gn_active = False\<rparr>"

theorem reconciliation_repairs_witness:
  "\<exists>al s'. gm_id (al_game al) = ''g'' \<and>
     fst (reconcileDurableGames sample_services (sample_env 9000 sample_playing) (\<lambda>_. sample_repair) sample_reconciliation
       (sample_redis_empty, sample_playing)) =
       (Inr (), drift_at sample_redis 9000 sample_redis_empty al, s', sample_playing) \<and>
     driftCount (inspectAllocation sample_redis pipe_done al 9000 s') = 0"
proof -
  let ?env = "sample_env 9000 sample_playing" and ?M = sample_reconciliation
  have games: "games sample_playing = [sample_playing_game]" "g_id sample_playing_game = ''g''"
    "g_turn_started_at sample_playing_game = Some 4000"
    by code_simp+
  have plain: "moderate sample_playing" using games by (simp add: moderate_def plain_id_def time_value_def)
  have R: "gl_redis sample_services = sample_redis" by (simp add: sample_services_def)
  have ttl: "ttls_ok (gl_ephemeral sample_services)" by (simp add: sample_services_def ttls_ok_def)
  have calm: "calm_repair 9000 sample_repair" by (simp add: calm_repair_def sample_repair_def sample_env_def time_value_def)
  have ok: "redis_ok (gl_redis sample_services)" by (simp add: R sample_redis_ok)
  have read: "te_readFault ?env = None" by (simp add: sample_env_def)
  have one: "map g_id (activePage (gn_batchSize ?M) (gn_databaseCursor ?M) sample_playing) = [''g'']" by code_simp
  have always: "\<forall>i. calm_repair 9000 ((\<lambda>_ :: nat. sample_repair) i)" using calm by simp
  obtain page s' where run: "map (\<lambda>al. gm_id (al_game al)) page = [''g'']"
    "reconcileDurableGames sample_services ?env (\<lambda>_. sample_repair) ?M (sample_redis_empty, sample_playing) =
       ((Inr (), concat (map (drift_at sample_redis 9000 sample_redis_empty) page), s', sample_playing),
        ?M\<lparr>gn_databaseCursor := next_database_cursor (gn_batchSize ?M) page\<rparr>)"
    "\<forall>al \<in> set page. driftCount (inspectAllocation sample_redis pipe_done al 9000 s') = 0"
    using reconciliation_repairs [OF sample_reachable(5) plain ok ttl read always, of ?M sample_redis_empty]
    unfolding one R by (elim exE conjE) (rule that)
  obtain al where "page = [al]" "gm_id (al_game al) = ''g''" using run(1) by (cases page) auto
  then show ?thesis using run(2,3) by (intro exI [of _ al] exI [of _ s']) simp
qed

end
