(* ===== verification/Metrics.thy ===== *)
theory Metrics
  imports Realtime_Protocol "HOL-Library.AList" "HOL-Library.Char_ord" "HOL-Library.List_Lexorder"
begin

text \<open>
  \<open>src/src/common/metrics/metrics.service.ts\<close> and \<open>http-metrics.middleware.ts\<close>, and
  \<open>game-operational-metrics.service.ts\<close> of the games. Numbers are a linear order \<open>'n\<close> without
  \<open>NaN\<close>, in which the two zeros are one; \<open>localeCompare\<close> compares the keys that \<open>ml_collate\<close> gives.
  An operation that throws leaves the families as they are.
\<close>

section \<open>Families and samples\<close>

datatype MetricKind = kind_counter | kind_gauge | kind_histogram

primrec kind_text :: "MetricKind \<Rightarrow> string" where
  "kind_text kind_counter = ''counter''"
| "kind_text kind_gauge = ''gauge''"
| "kind_text kind_histogram = ''histogram''"

type_synonym MetricLabels = "(string \<times> string) list"

record 'n MetricSample =
  ms_bucketCounts :: "nat list"
  ms_labels :: MetricLabels
  ms_count :: nat
  ms_sum :: 'n
  ms_value :: 'n

record 'n MetricFamily =
  mf_buckets :: "'n list"
  mf_help :: string
  mf_kind :: MetricKind
  mf_samples :: "(string \<times> 'n MetricSample) list"

record 'n MetricsService =
  mv_enabled :: bool
  mv_families :: "(string \<times> 'n MetricFamily) list"
  mv_instanceId :: string
  mv_eventLoop :: bool

record ('n, 'o) metrics_lib =
  ml_add :: "'n \<Rightarrow> 'n \<Rightarrow> 'n"
  ml_thousandths :: "int \<Rightarrow> 'n"
  ml_finite :: "'n \<Rightarrow> bool"
  ml_text :: "'n \<Rightarrow> string"
  ml_collate :: "string \<Rightarrow> 'o"

definition ml_zero :: "('n, 'o) metrics_lib \<Rightarrow> 'n" where
  "ml_zero lib = ml_thousandths lib 0"

definition DEFAULT_DURATION_BUCKETS :: "('n, 'o) metrics_lib \<Rightarrow> 'n list" where
  "DEFAULT_DURATION_BUCKETS lib = map (ml_thousandths lib) [5, 10, 25, 50, 100, 250, 500, 1000, 2500, 5000]"

definition EVENT_LOOP_BUCKETS :: "('n, 'o) metrics_lib \<Rightarrow> 'n list" where
  "EVENT_LOOP_BUCKETS lib = map (ml_thousandths lib) [1, 5, 10, 25, 50, 70, 100, 250, 500, 1000]"

definition MAX_SERIES_PER_FAMILY :: nat where
  "MAX_SERIES_PER_FAMILY = 100"

section \<open>Names and labels\<close>

definition letter :: "char \<Rightarrow> bool" where
  "letter c \<longleftrightarrow> c \<in> set ''abcdefghijklmnopqrstuvwxyzABCDEFGHIJKLMNOPQRSTUVWXYZ''"

definition digit :: "char \<Rightarrow> bool" where
  "digit c \<longleftrightarrow> c \<in> set ''0123456789''"

definition metric_name :: "string \<Rightarrow> bool" where
  "metric_name s \<longleftrightarrow>
     (case s of [] \<Rightarrow> False
      | c # cs \<Rightarrow> (letter c \<or> c \<in> set ''_:'') \<and> list_all (\<lambda>d. letter d \<or> digit d \<or> d \<in> set ''_:'') cs)"

definition label_name :: "string \<Rightarrow> bool" where
  "label_name s \<longleftrightarrow>
     (case s of [] \<Rightarrow> False
      | c # cs \<Rightarrow> (letter c \<or> c = CHR ''_'') \<and> list_all (\<lambda>d. letter d \<or> digit d \<or> d = CHR ''_'') cs)"

definition FORBIDDEN_LABEL_KEY :: "string \<Rightarrow> bool" where
  "FORBIDDEN_LABEL_KEY key \<longleftrightarrow>
     toLowerCase key \<in> set ([''jti'', ''ip'', ''address''] @
       concat (map (\<lambda>s. [s @ ''_id'', s @ ''id''])
         [''guest'', ''guest_session'', ''game'', ''event'', ''socket'', ''correlation'', ''client_move'', ''token'']))"

definition label_error :: "string \<Rightarrow> string \<Rightarrow> string option" where
  "label_error key val =
     (if \<not> label_name key \<or> key = ''le'' then Some (''Invalid Prometheus label name: '' @ key)
      else if FORBIDDEN_LABEL_KEY key then Some (''High-cardinality metric label is forbidden: '' @ key)
      else if 128 < length val then Some (''Prometheus label '' @ key @ '' exceeds 128 characters.'')
      else None)"

fun assertLabels :: "MetricLabels \<Rightarrow> string + unit" where
  "assertLabels [] = Inr ()"
| "assertLabels ((key, val) # labels) =
     (case label_error key val of Some e \<Rightarrow> Inl e | None \<Rightarrow> assertLabels labels)"

definition assertMetricName :: "string \<Rightarrow> string + unit" where
  "assertMetricName name = (if metric_name name then Inr () else Inl (''Invalid Prometheus metric name: '' @ name))"

fun join_with :: "string \<Rightarrow> string list \<Rightarrow> string" where
  "join_with separator [] = []"
| "join_with separator [s] = s"
| "join_with separator (s # t # ts) = s @ separator @ join_with separator (t # ts)"

definition sorted_labels :: "('n, 'o :: linorder) metrics_lib \<Rightarrow> MetricLabels \<Rightarrow> MetricLabels" where
  "sorted_labels lib labels = sort_key (\<lambda>(key, val). ml_collate lib key) labels"

definition labelKey :: "('n, 'o :: linorder) metrics_lib \<Rightarrow> MetricLabels \<Rightarrow> string" where
  "labelKey lib labels = join_with '','' (map (\<lambda>(key, val). key @ ''='' @ val) (sorted_labels lib labels))"

section \<open>Recording\<close>

definition assertFinite :: "('n, 'o) metrics_lib \<Rightarrow> 'n \<Rightarrow> string + unit" where
  "assertFinite lib value = (if ml_finite lib value then Inr () else Inl ''Prometheus metric values must be finite.'')"

definition normalizeBuckets :: "('n :: linorder, 'o) metrics_lib \<Rightarrow> 'n list \<Rightarrow> string + 'n list" where
  "normalizeBuckets lib buckets =
     (let normalized = sort (remdups buckets) in
      if normalized = [] \<or> list_ex (\<lambda>b. \<not> ml_finite lib b \<or> b \<le> ml_zero lib) normalized
      then Inl ''Prometheus histogram buckets must be positive.'' else Inr normalized)"

text \<open>
  The code compares the joined texts of the buckets; the texts of different numbers differ and
  hold no comma, so that this compares the lists. \<open>change\<close> is what the caller does to the sample it
  is given.
\<close>

definition new_sample :: "('n, 'o) metrics_lib \<Rightarrow> MetricLabels \<Rightarrow> 'n list \<Rightarrow> 'n MetricSample" where
  "new_sample lib labels buckets =
     \<lparr>ms_bucketCounts = map (\<lambda>_. 0) buckets, ms_labels = labels, ms_count = 0, ms_sum = ml_zero lib, ms_value = ml_zero lib\<rparr>"

definition series_limit :: "string \<Rightarrow> string" where
  "series_limit name = ''Metric '' @ name @ '' exceeded its bounded series limit.''"

definition sample ::
    "('n, 'o :: linorder) metrics_lib \<Rightarrow> string \<Rightarrow> MetricKind \<Rightarrow> string \<Rightarrow> MetricLabels \<Rightarrow> 'n list \<Rightarrow>
     ('n MetricSample \<Rightarrow> 'n MetricSample) \<Rightarrow> 'n MetricsService \<Rightarrow> string + 'n MetricsService" where
  "sample lib name kind help labels buckets change M =
     sbind (assertMetricName name) (\<lambda>_.
     sbind (assertLabels labels) (\<lambda>_.
       (let existing = map_of (mv_families M) name in
        if (case existing of None \<Rightarrow> False
            | Some f \<Rightarrow> mf_kind f \<noteq> kind \<or> mf_help f \<noteq> help \<or> mf_buckets f \<noteq> buckets)
        then Inl (''Metric '' @ name @ '' was registered inconsistently.'')
        else
          (let family = (case existing of Some f \<Rightarrow> f
                 | None \<Rightarrow> \<lparr>mf_buckets = buckets, mf_help = help, mf_kind = kind, mf_samples = []\<rparr>);
               key = labelKey lib labels;
               store = (\<lambda>s. Inr (M\<lparr>mv_families := AList.update name
                 (family\<lparr>mf_samples := AList.update key (change s) (mf_samples family)\<rparr>) (mv_families M)\<rparr>)) in
           case map_of (mf_samples family) key of
             Some s \<Rightarrow> store s
           | None \<Rightarrow>
               if MAX_SERIES_PER_FAMILY \<le> length (mf_samples family) then Inl (series_limit name)
               else store (new_sample lib labels buckets)))))"

definition increment ::
    "('n, 'o :: linorder) metrics_lib \<Rightarrow> string \<Rightarrow> string \<Rightarrow> MetricLabels \<Rightarrow> 'n \<Rightarrow> 'n MetricsService \<Rightarrow>
     string + 'n MetricsService" where
  "increment lib name help labels amount M =
     (if \<not> mv_enabled M then Inr M
      else sample lib name kind_counter help labels [] (\<lambda>s. s\<lparr>ms_value := ml_add lib (ms_value s) amount\<rparr>) M)"

definition setGauge ::
    "('n, 'o :: linorder) metrics_lib \<Rightarrow> string \<Rightarrow> string \<Rightarrow> 'n \<Rightarrow> MetricLabels \<Rightarrow> 'n MetricsService \<Rightarrow>
     string + 'n MetricsService" where
  "setGauge lib name help amount labels M =
     (if \<not> mv_enabled M then Inr M
      else sbind (assertFinite lib amount) (\<lambda>_. sample lib name kind_gauge help labels [] (\<lambda>s. s\<lparr>ms_value := amount\<rparr>) M))"

fun count_buckets :: "'n :: linorder \<Rightarrow> 'n list \<Rightarrow> nat list \<Rightarrow> nat list" where
  "count_buckets value (upperBound # buckets) (n # counts) =
     (if value \<le> upperBound then n + 1 else n) # count_buckets value buckets counts"
| "count_buckets value _ counts = counts"

definition observed_sample :: "('n :: linorder, 'o) metrics_lib \<Rightarrow> 'n \<Rightarrow> 'n list \<Rightarrow> 'n MetricSample \<Rightarrow> 'n MetricSample" where
  "observed_sample lib value buckets s =
     s\<lparr>ms_bucketCounts := count_buckets value buckets (ms_bucketCounts s), ms_count := ms_count s + 1,
       ms_sum := ml_add lib (ms_sum s) value\<rparr>"

definition observe ::
    "('n :: linorder, 'o :: linorder) metrics_lib \<Rightarrow> string \<Rightarrow> string \<Rightarrow> 'n \<Rightarrow> MetricLabels \<Rightarrow> 'n list \<Rightarrow>
     'n MetricsService \<Rightarrow> string + 'n MetricsService" where
  "observe lib name help value labels buckets M =
     (if \<not> mv_enabled M then Inr M
      else sbind (assertFinite lib value) (\<lambda>_.
        if value < ml_zero lib then Inl (''Histogram '' @ name @ '' cannot observe a negative value.'')
        else sbind (normalizeBuckets lib buckets) (\<lambda>normalized.
          sample lib name kind_histogram help labels normalized (observed_sample lib value normalized) M)))"

section \<open>The life of the service\<close>

definition observe_event_loop ::
    "('n :: linorder, 'o :: linorder) metrics_lib \<Rightarrow> 'n \<Rightarrow> 'n MetricsService \<Rightarrow> string + 'n MetricsService" where
  "observe_event_loop lib seconds M =
     observe lib ''nodejs_eventloop_lag_seconds'' ''Observed event-loop p99 delay by sampling interval.'' seconds
       [(''instance'', mv_instanceId M)] (EVENT_LOOP_BUCKETS lib) M"

definition new_metrics ::
    "('n :: linorder, 'o :: linorder) metrics_lib \<Rightarrow> bool \<Rightarrow> string \<Rightarrow> string + 'n MetricsService" where
  "new_metrics lib enabled instance_id =
     sbind (increment lib ''cluchess_process_restarts_total'' ''Application process starts by instance.''
         [(''instance'', instance_id)] (ml_thousandths lib 1000)
         \<lparr>mv_enabled = enabled, mv_families = [], mv_instanceId = instance_id, mv_eventLoop = False\<rparr>)
       (observe_event_loop lib (ml_zero lib))"

definition metrics_onApplicationBootstrap :: "'n MetricsService \<Rightarrow> 'n MetricsService" where
  "metrics_onApplicationBootstrap M = (if \<not> mv_enabled M \<or> mv_eventLoop M then M else M\<lparr>mv_eventLoop := True\<rparr>)"

definition metrics_onApplicationShutdown :: "'n MetricsService \<Rightarrow> 'n MetricsService" where
  "metrics_onApplicationShutdown M = M\<lparr>mv_eventLoop := False\<rparr>"

text \<open>\<open>p99Seconds\<close> is \<open>None\<close> while the histogram of the event loop is empty.\<close>

definition captureEventLoopDelay ::
    "('n :: linorder, 'o :: linorder) metrics_lib \<Rightarrow> 'n option \<Rightarrow> 'n MetricsService \<Rightarrow> string + 'n MetricsService" where
  "captureEventLoopDelay lib p99Seconds M =
     (case (if mv_eventLoop M then p99Seconds else None) of
        None \<Rightarrow> Inr M
      | Some seconds \<Rightarrow> observe_event_loop lib seconds M)"

section \<open>The exposition format\<close>

definition replaceAll :: "char \<Rightarrow> string \<Rightarrow> string \<Rightarrow> string" where
  "replaceAll c r s = concat (map (\<lambda>d. if d = c then r else [d]) s)"

definition escape_label :: "string \<Rightarrow> string" where
  "escape_label val =
     replaceAll (CHR 0x22) [CHR 0x5C, CHR 0x22]
       (replaceAll (CHR 0x0A) [CHR 0x5C, CHR ''n''] (replaceAll (CHR 0x5C) [CHR 0x5C, CHR 0x5C] val))"

definition renderLabels :: "('n, 'o :: linorder) metrics_lib \<Rightarrow> MetricLabels \<Rightarrow> string" where
  "renderLabels lib labels =
     (let entries = sorted_labels lib labels in
      if entries = [] then []
      else ''{'' @ join_with '',''
        (map (\<lambda>(key, val). key @ ''='' @ [CHR 0x22] @ escape_label val @ [CHR 0x22]) entries) @ ''}'')"

fun bucket_lines ::
    "('n, 'o :: linorder) metrics_lib \<Rightarrow> string \<Rightarrow> MetricLabels \<Rightarrow> 'n list \<Rightarrow> nat list \<Rightarrow> string list" where
  "bucket_lines lib name labels [] counts = []"
| "bucket_lines lib name labels (upperBound # buckets) counts =
     (name @ ''_bucket'' @ renderLabels lib (labels @ [(''le'', ml_text lib upperBound)]) @ '' '' @
        int_text (case counts of [] \<Rightarrow> 0 | n # ns \<Rightarrow> int n)) #
     bucket_lines lib name labels buckets (case counts of [] \<Rightarrow> [] | n # ns \<Rightarrow> ns)"

definition sample_lines ::
    "('n, 'o :: linorder) metrics_lib \<Rightarrow> string \<Rightarrow> 'n MetricFamily \<Rightarrow> 'n MetricSample \<Rightarrow> string list" where
  "sample_lines lib name family s =
     (if mf_kind family = kind_histogram then
        bucket_lines lib name (ms_labels s) (mf_buckets family) (ms_bucketCounts s) @
        [name @ ''_bucket'' @ renderLabels lib (ms_labels s @ [(''le'', ''+Inf'')]) @ '' '' @ int_text (int (ms_count s)),
         name @ ''_sum'' @ renderLabels lib (ms_labels s) @ '' '' @ ml_text lib (ms_sum s),
         name @ ''_count'' @ renderLabels lib (ms_labels s) @ '' '' @ int_text (int (ms_count s))]
      else [name @ renderLabels lib (ms_labels s) @ '' '' @ ml_text lib (ms_value s)])"

definition family_lines :: "('n, 'o :: linorder) metrics_lib \<Rightarrow> string \<times> 'n MetricFamily \<Rightarrow> string list" where
  "family_lines lib entry =
     (case entry of (name, family) \<Rightarrow>
        (''# HELP '' @ name @ '' '' @ mf_help family) #
        (''# TYPE '' @ name @ '' '' @ kind_text (mf_kind family)) #
        concat (map (sample_lines lib name family)
          (sort_key (\<lambda>s. ml_collate lib (labelKey lib (ms_labels s))) (map snd (mf_samples family)))))"

definition render ::
    "('n :: linorder, 'o :: linorder) metrics_lib \<Rightarrow> 'n option \<Rightarrow> 'n \<Rightarrow> 'n MetricsService \<Rightarrow>
     (string + string) \<times> 'n MetricsService" where
  "render lib p99Seconds rss M =
     (if \<not> mv_enabled M then (Inr [], M)
      else
        (case captureEventLoopDelay lib p99Seconds M of
           Inl e \<Rightarrow> (Inl e, M)
         | Inr M1 \<Rightarrow>
             (case setGauge lib ''process_resident_memory_bytes'' ''Resident memory size in bytes.'' rss
                 [(''instance'', mv_instanceId M)] M1 of
                Inl e \<Rightarrow> (Inl e, M1)
              | Inr M2 \<Rightarrow>
                  (Inr (join_with [CHR 0x0A]
                      (concat (map (family_lines lib) (sort_key (\<lambda>(name, family). ml_collate lib name) (mv_families M2)))) @
                    [CHR 0x0A]), M2))))"

section \<open>Requests over HTTP\<close>

text \<open>The pattern \<open>UUID_PATH_SEGMENT\<close>: a UUID version 4 up to a slash or the end.\<close>

definition uuid_segment :: "string \<Rightarrow> bool" where
  "uuid_segment s \<longleftrightarrow> UUID_V4 (take 36 s) \<and> (case drop 36 s of [] \<Rightarrow> True | c # cs \<Rightarrow> c = CHR ''/'')"

fun replace_uuids :: "string \<Rightarrow> string" where
  "replace_uuids [] = []"
| "replace_uuids (c # s) =
     (if c = CHR ''/'' \<and> uuid_segment s then ''/:id'' @ replace_uuids (drop 36 s) else c # replace_uuids s)"

definition KNOWN_PATHS :: "string list" where
  "KNOWN_PATHS = [''/healthz'', ''/metrics'', ''/readyz'', ''/v1/games/:id/snapshot'', ''/v1/games/active'', ''/v1/session'',
     ''/v1/session/renew'', ''/v1/session/reset'']"

definition boundedPath :: "string \<Rightarrow> string" where
  "boundedPath path = (let normalized = replace_uuids path in if normalized \<in> set KNOWN_PATHS then normalized else ''/other'')"

record 'n finished_request =
  fr_method :: string
  fr_path :: string
  fr_status :: int
  fr_seconds :: 'n

definition request_labels :: "'n finished_request \<Rightarrow> MetricLabels" where
  "request_labels r =
     [(''method'', fr_method r), (''path'', boundedPath (fr_path r)), (''status'', int_text (fr_status r))]"

text \<open>What runs when a response has been sent; an exception leaves the listener of the event.\<close>

definition http_metrics ::
    "('n :: linorder, 'o :: linorder) metrics_lib \<Rightarrow> 'n finished_request \<Rightarrow> 'n MetricsService \<Rightarrow>
     (string + unit) \<times> 'n MetricsService" where
  "http_metrics lib r M =
     (case increment lib ''cluchess_http_requests_total'' ''HTTP requests by method, bounded path, and response status.''
         (request_labels r) (ml_thousandths lib 1000) M of
        Inl e \<Rightarrow> (Inl e, M)
      | Inr M1 \<Rightarrow>
          (case observe lib ''cluchess_http_request_duration_seconds'' ''HTTP request duration by method and bounded path.''
              (fr_seconds r) (take 2 (request_labels r)) (DEFAULT_DURATION_BUCKETS lib) M1 of
             Inl e \<Rightarrow> (Inl e, M1)
           | Inr M2 \<Rightarrow> (Inr (), M2)))"

section \<open>Gauges of games\<close>

text \<open>The two counts are separate queries, between which the database may change.\<close>

definition count_games :: "tx_env \<Rightarrow> string list \<Rightarrow> db \<Rightarrow> thrown + nat" where
  "count_games env statuses db = read_row env (length (filter (\<lambda>g. g_status g \<in> set statuses) (games db)))"

definition refresh_game_gauges ::
    "('n :: linorder, 'o :: linorder) metrics_lib \<Rightarrow> tx_env \<times> db \<Rightarrow> tx_env \<times> db \<Rightarrow> 'n MetricsService \<Rightarrow> string + 'n MetricsService" where
  "refresh_game_gauges lib first second M =
     (let amount = (\<lambda>n :: nat. ml_thousandths lib (1000 * int n));
          failed = (\<lambda>M1. increment lib ''cluchess_pg_tx_failures_total'' ''PostgreSQL transaction failures by operation.''
            [(''op'', ''operational_metrics'')] (ml_thousandths lib 1000) M1) in
      case sbind (count_games (fst first) [''CREATED'', ''WAITING_FOR_PLAYERS'', ''READY'', ''IN_PROGRESS'', ''RECONNECTING''] (snd first))
          (\<lambda>activeGames. sbind (count_games (fst second) [''WAITING_FOR_PLAYERS'', ''READY'', ''IN_PROGRESS'', ''RECONNECTING''] (snd second))
            (\<lambda>activeRooms. Inr (activeGames, activeRooms))) of
        Inl _ \<Rightarrow> failed M
      | Inr (activeGames, activeRooms) \<Rightarrow>
          (case setGauge lib ''cluchess_active_games'' ''Durable non-terminal games.'' (amount activeGames) [] M of
             Inl _ \<Rightarrow> failed M
           | Inr M1 \<Rightarrow>
               (case setGauge lib ''cluchess_active_rooms'' ''Durable games with an allocated realtime room.'' (amount activeRooms) [] M1 of
                  Inl _ \<Rightarrow> failed M1
                | Inr M2 \<Rightarrow> Inr M2)))"

end
