(* ===== verification/Metrics_Properties.thy ===== *)
theory Metrics_Properties
  imports Metrics
begin

text \<open>
  What holds of the metrics whatever is recorded: the families stay bounded and the buckets
  cumulative. And what that bound does to requests over HTTP.
\<close>

section \<open>Samples\<close>

lemma accepted_labels:
  "assertLabels labels = Inr () \<longleftrightarrow>
     list_all (\<lambda>(label, val). label_name label \<and> label \<noteq> ''le'' \<and> \<not> FORBIDDEN_LABEL_KEY label \<and> length val \<le> 128) labels"
  by (induction labels rule: assertLabels.induct) (auto simp: label_error_def)

text \<open>Every bucket counts what the one before it counts, and no more than the sample.\<close>

definition sample_good :: "('n :: linorder, 'o :: linorder) metrics_lib \<Rightarrow> 'n list \<Rightarrow> string \<Rightarrow> 'n MetricSample \<Rightarrow> bool" where
  "sample_good lib buckets key s \<longleftrightarrow>
     key = labelKey lib (ms_labels s) \<and> assertLabels (ms_labels s) = Inr () \<and>
     length (ms_bucketCounts s) = length buckets \<and> sorted (ms_bucketCounts s @ [ms_count s])"

definition family_good :: "('n :: linorder, 'o :: linorder) metrics_lib \<Rightarrow> 'n MetricFamily \<Rightarrow> bool" where
  "family_good lib f \<longleftrightarrow>
     length (mf_samples f) \<le> MAX_SERIES_PER_FAMILY \<and> distinct (map fst (mf_samples f)) \<and> sorted (mf_buckets f) \<and>
     (\<forall>(key, s) \<in> set (mf_samples f). sample_good lib (mf_buckets f) key s)"

definition metrics_good :: "('n :: linorder, 'o :: linorder) metrics_lib \<Rightarrow> 'n MetricsService \<Rightarrow> bool" where
  "metrics_good lib M \<longleftrightarrow>
     distinct (map fst (mv_families M)) \<and> (\<forall>(name, f) \<in> set (mv_families M). metric_name name \<and> family_good lib f)"

lemma sorted_zeros [simp]: "sorted (map (\<lambda>_. 0 :: nat) xs)"
  by (induction xs) simp_all

lemma count_buckets_length [simp]: "length (count_buckets v bs ns) = length ns"
  by (induction v bs ns rule: count_buckets.induct) simp_all

lemma count_buckets_bounds: "n \<in> set (count_buckets v bs ns) \<Longrightarrow> \<exists>m \<in> set ns. m \<le> n \<and> n \<le> m + 1"
  by (induction v bs ns rule: count_buckets.induct) (auto split: if_splits)

lemma count_buckets_all:
  "sorted (b # bs) \<Longrightarrow> v \<le> b \<Longrightarrow> length ns \<le> length bs \<Longrightarrow> count_buckets v bs ns = map Suc ns"
  by (induction v bs ns arbitrary: b rule: count_buckets.induct) auto

lemma count_buckets_sorted:
  assumes "sorted bs" and "sorted (ns @ [m])" and "length ns = length bs"
  shows "sorted (count_buckets v bs ns @ [m + 1])"
  using assms
proof (induction v bs ns rule: count_buckets.induct)
  case (1 v b bs n ns)
  have rest: "sorted (count_buckets v bs ns @ [m + 1])" using 1 by (simp add: sorted_append)
  have low: "\<forall>k \<in> set ns. n \<le> k" "n \<le> m" using 1(3) by (auto simp: sorted_append)
  show ?case
  proof (cases "v \<le> b")
    case True
    then have "count_buckets v bs ns = map Suc ns" using 1(2,4) by (intro count_buckets_all) auto
    then show ?thesis using True low rest by (auto simp: sorted_append)
  next
    case False
    have "n \<le> k" if "k \<in> set (count_buckets v bs ns)" for k
      using count_buckets_bounds [OF that] low(1) by force
    then show ?thesis using False low(2) rest by (auto simp: sorted_append)
  qed
qed (auto simp: sorted_append)

section \<open>Recording keeps the families good\<close>

lemma sample_result:
  assumes "sample lib name kind help labels buckets change M = Inr M'"
  obtains f s where
    "mf_buckets f = buckets" "mf_kind f = kind" "mf_help f = help" "metric_name name" "assertLabels labels = Inr ()"
    "map_of (mv_families M) name = Some f \<or> map_of (mv_families M) name = None \<and> mf_samples f = []"
    "map_of (mf_samples f) (labelKey lib labels) = Some s \<or>
     map_of (mf_samples f) (labelKey lib labels) = None \<and> length (mf_samples f) < MAX_SERIES_PER_FAMILY \<and>
       s = new_sample lib labels buckets"
    "M' = M\<lparr>mv_families := AList.update name
        (f\<lparr>mf_samples := AList.update (labelKey lib labels) (change s) (mf_samples f)\<rparr>) (mv_families M)\<rparr>"
proof -
  let ?f = "case map_of (mv_families M) name of Some f \<Rightarrow> f
    | None \<Rightarrow> \<lparr>mf_buckets = buckets, mf_help = help, mf_kind = kind, mf_samples = []\<rparr>"
  let ?s = "case map_of (mf_samples ?f) (labelKey lib labels) of Some s \<Rightarrow> s | None \<Rightarrow> new_sample lib labels buckets"
  show thesis
    by (rule that [of ?f ?s])
      (use assms in \<open>auto simp: sample_def sbind_Inr_iff assertMetricName_def Let_def not_le split: if_splits option.splits\<close>)
qed

lemma set_update: "x \<in> set (AList.update k v al) \<Longrightarrow> x = (k, v) \<or> x \<in> set al"
  by (induction al) (auto split: if_splits)

lemma length_update: "length (AList.update k v al) = (if map_of al k = None then Suc (length al) else length al)"
  by (induction al) (auto split: if_splits)

definition change_good :: "'n :: linorder list \<Rightarrow> ('n MetricSample \<Rightarrow> 'n MetricSample) \<Rightarrow> bool" where
  "change_good buckets change \<longleftrightarrow>
     (\<forall>s. ms_labels (change s) = ms_labels s \<and>
        (length (ms_bucketCounts s) = length buckets \<longrightarrow> sorted (ms_bucketCounts s @ [ms_count s]) \<longrightarrow>
           length (ms_bucketCounts (change s)) = length buckets \<and> sorted (ms_bucketCounts (change s) @ [ms_count (change s)])))"

lemma sample_keeps:
  fixes M :: "'n :: linorder MetricsService"
  assumes good: "metrics_good lib M" and "change_good buckets change" and "sorted buckets"
    and "sample lib name kind help labels buckets change M = Inr M'"
  shows "metrics_good lib M'"
  using assms(4)
proof (rule sample_result)
  fix f :: "'n MetricFamily" and s
  let ?key = "labelKey lib labels"
  let ?f = "f\<lparr>mf_samples := AList.update ?key (change s) (mf_samples f)\<rparr>"
  assume f: "mf_buckets f = buckets" and name: "metric_name name" and labels: "assertLabels labels = Inr ()"
    and "map_of (mv_families M) name = Some f \<or> map_of (mv_families M) name = None \<and> mf_samples f = []"
    and s: "map_of (mf_samples f) ?key = Some s \<or> map_of (mf_samples f) ?key = None \<and>
      length (mf_samples f) < MAX_SERIES_PER_FAMILY \<and> s = new_sample lib labels buckets"
    and M': "M' = M\<lparr>mv_families := AList.update name ?f (mv_families M)\<rparr>"
  then have fam: "family_good lib f"
    using good assms(3) by (auto simp: metrics_good_def family_good_def dest!: map_of_SomeD)
  have "sample_good lib buckets ?key s"
    using s fam labels f by (auto simp: family_good_def sample_good_def new_sample_def sorted_append dest!: map_of_SomeD)
  then have new: "sample_good lib buckets ?key (change s)"
    using assms(2) by (simp add: sample_good_def change_good_def)
  have "family_good lib ?f"
    unfolding family_good_def
  proof (intro conjI)
    show "length (mf_samples ?f) \<le> MAX_SERIES_PER_FAMILY" "sorted (mf_buckets ?f)" "distinct (map fst (mf_samples ?f))"
      using s fam by (auto simp: family_good_def length_update distinct_update)
    show "\<forall>(key, s) \<in> set (mf_samples ?f). sample_good lib (mf_buckets ?f) key s"
      using fam new f by (auto simp: family_good_def dest!: set_update)
  qed
  then show "metrics_good lib M'"
    using good name by (auto simp: metrics_good_def M' distinct_update dest!: set_update)
qed

lemma value_good: "change_good [] (\<lambda>s. s\<lparr>ms_value := g s\<rparr>)"
  by (simp add: change_good_def)

lemmas value_keeps = sample_keeps [OF _ value_good sorted_wrt.simps(1) [THEN iffD2, OF TrueI]]

lemma increment_keeps: "metrics_good lib M \<Longrightarrow> increment lib name help labels v M = Inr M' \<Longrightarrow> metrics_good lib M'"
  by (auto simp: increment_def split: if_splits dest: value_keeps)

lemma setGauge_keeps: "metrics_good lib M \<Longrightarrow> setGauge lib name help v labels M = Inr M' \<Longrightarrow> metrics_good lib M'"
  by (auto simp: setGauge_def sbind_Inr_iff split: if_splits dest: value_keeps [where g = "\<lambda>_. v"])

lemma observed_good: "sorted buckets \<Longrightarrow> change_good buckets (observed_sample lib v buckets)"
  using count_buckets_sorted by (fastforce simp: change_good_def observed_sample_def)

lemma observe_keeps:
  assumes "metrics_good lib M" and "observe lib name help v labels buckets M = Inr M'"
  shows "metrics_good lib M'"
proof (cases "mv_enabled M")
  case False
  then show ?thesis using assms by (simp add: observe_def)
next
  case True
  then obtain bs where "normalizeBuckets lib buckets = Inr bs"
    "sample lib name kind_histogram help labels bs (observed_sample lib v bs) M = Inr M'"
    using assms(2) by (auto simp: observe_def sbind_Inr_iff split: if_splits)
  moreover from this(1) have "sorted bs" by (auto simp: normalizeBuckets_def Let_def split: if_splits)
  ultimately show ?thesis using sample_keeps [OF assms(1) observed_good] by blast
qed

section \<open>Every state of the service\<close>

inductive metrics_run :: "('n :: linorder, 'o :: linorder) metrics_lib \<Rightarrow> 'n MetricsService \<Rightarrow> bool" for lib where
  start: "new_metrics lib enabled i = Inr M \<Longrightarrow> metrics_run lib M"
| increment: "metrics_run lib M \<Longrightarrow> increment lib name help labels v M = Inr M' \<Longrightarrow> metrics_run lib M'"
| gauge: "metrics_run lib M \<Longrightarrow> setGauge lib name help v labels M = Inr M' \<Longrightarrow> metrics_run lib M'"
| observe: "metrics_run lib M \<Longrightarrow> observe lib name help v labels buckets M = Inr M' \<Longrightarrow> metrics_run lib M'"
| bootstrap: "metrics_run lib M \<Longrightarrow> metrics_run lib (metrics_onApplicationBootstrap M)"
| shutdown: "metrics_run lib M \<Longrightarrow> metrics_run lib (metrics_onApplicationShutdown M)"

lemma http_metrics_run: "metrics_run lib M \<Longrightarrow> metrics_run lib (snd (http_metrics lib r M))"
  by (auto simp: http_metrics_def intro: metrics_run.intros split: sum.splits)

lemma render_run: "metrics_run lib M \<Longrightarrow> metrics_run lib (snd (render lib p rss M))"
  by (auto simp: render_def captureEventLoopDelay_def observe_event_loop_def
      intro: metrics_run.intros split: sum.splits option.splits if_splits)

lemma run_good: "metrics_run lib M \<Longrightarrow> metrics_good lib M"
proof (induction rule: metrics_run.induct)
  case (start enabled i M)
  let ?M0 = "\<lparr>mv_enabled = enabled, mv_families = [], mv_instanceId = i, mv_eventLoop = False\<rparr>"
  have "metrics_good lib ?M0" by (simp add: metrics_good_def)
  with start show ?case
    by (auto simp: new_metrics_def observe_event_loop_def sbind_Inr_iff dest: increment_keeps observe_keeps)
next
  case (bootstrap M)
  then show ?case by (simp add: metrics_onApplicationBootstrap_def metrics_good_def)
next
  case (shutdown M)
  then show ?case by (simp add: metrics_onApplicationShutdown_def metrics_good_def)
qed (auto dest: increment_keeps setGauge_keeps observe_keeps)

text \<open>
  C35. Metrics stay bounded and well formed. Whatever is recorded, in any order, and whatever throws
  in between, a family has at most 100 series, each under the key of its own labels; the labels
  have valid names of which none identifies a guest or a game, and texts of at most 128 characters; and
  the buckets of a histogram are sorted and cumulative: each counts at least what the one before it
  counts, and none more than the sample as a whole.
\<close>
theorem metrics_bounded:
  assumes "metrics_run lib M" and "(name, f) \<in> set (mv_families M)" and "(key, s) \<in> set (mf_samples f)"
  shows "metric_name name \<and> length (mf_samples f) \<le> 100 \<and> distinct (map fst (mf_samples f)) \<and>
    key = labelKey lib (ms_labels s) \<and>
    list_all (\<lambda>(label, val). label_name label \<and> label \<noteq> ''le'' \<and> \<not> FORBIDDEN_LABEL_KEY label \<and> length val \<le> 128) (ms_labels s) \<and>
    sorted (mf_buckets f) \<and> length (ms_bucketCounts s) = length (mf_buckets f) \<and>
    sorted (ms_bucketCounts s @ [ms_count s])"
proof -
  have good: "metric_name name" "family_good lib f"
    using run_good [OF assms(1)] assms(2) by (auto simp: metrics_good_def)
  then have "sample_good lib (mf_buckets f) key s" using assms(3) by (auto simp: family_good_def)
  then show ?thesis using good
    by (simp add: family_good_def sample_good_def MAX_SERIES_PER_FAMILY_def accepted_labels del: sorted_append)
qed

section \<open>Many kinds of requests\<close>

definition numbers_ok :: "('n :: linorder, 'o) metrics_lib \<Rightarrow> bool" where
  "numbers_ok lib \<longleftrightarrow>
     (\<forall>m n. 0 \<le> m \<and> m < n \<and> n \<le> 5000 \<longrightarrow> ml_thousandths lib m < ml_thousandths lib n) \<and>
     (\<forall>n. 0 \<le> n \<and> n \<le> 5000 \<longrightarrow> ml_finite lib (ml_thousandths lib n))"

definition request_ok :: "('n :: linorder, 'o) metrics_lib \<Rightarrow> 'n finished_request \<Rightarrow> bool" where
  "request_ok lib r \<longleftrightarrow>
     length (fr_method r) \<le> 128 \<and> length (int_text (fr_status r)) \<le> 128 \<and>
     ml_finite lib (fr_seconds r) \<and> ml_zero lib \<le> fr_seconds r"

abbreviation http_key :: "('n, 'o :: linorder) metrics_lib \<Rightarrow> 'n finished_request \<Rightarrow> string" where
  "http_key lib r \<equiv> labelKey lib (request_labels r)"

abbreviation "requests_name \<equiv> ''cluchess_http_requests_total''"
abbreviation "duration_name \<equiv> ''cluchess_http_request_duration_seconds''"
abbreviation "requests_help \<equiv> ''HTTP requests by method, bounded path, and response status.''"
abbreviation "duration_help \<equiv> ''HTTP request duration by method and bounded path.''"

fun http_requests ::
    "('n :: linorder, 'o :: linorder) metrics_lib \<Rightarrow> 'n finished_request list \<Rightarrow> 'n MetricsService \<Rightarrow> (string + unit) list" where
  "http_requests lib [] M = []"
| "http_requests lib (r # rs) M = (case http_metrics lib r M of (result, M1) \<Rightarrow> result # http_requests lib rs M1)"

lemma default_normalized:
  assumes "numbers_ok lib"
  shows "normalizeBuckets lib (DEFAULT_DURATION_BUCKETS lib) = Inr (DEFAULT_DURATION_BUCKETS lib)"
proof -
  let ?ns = "[5, 10, 25, 50, 100, 250, 500, 1000, 2500, 5000] :: int list"
  have less: "ml_thousandths lib m < ml_thousandths lib n" if "0 \<le> m" "m < n" "n \<le> 5000" for m n
    using assms that unfolding numbers_ok_def by blast
  have "sorted_wrt (<) (map (ml_thousandths lib) ?ns)" by (simp add: less)
  then have "sorted (DEFAULT_DURATION_BUCKETS lib)" "distinct (DEFAULT_DURATION_BUCKETS lib)"
    by (simp_all add: DEFAULT_DURATION_BUCKETS_def strict_sorted_iff del: list.map)
  moreover have "list_all (\<lambda>b. ml_finite lib b \<and> ml_zero lib < b) (DEFAULT_DURATION_BUCKETS lib)"
    using assms less by (simp add: DEFAULT_DURATION_BUCKETS_def numbers_ok_def ml_zero_def)
  ultimately show ?thesis
    by (simp add: normalizeBuckets_def distinct_remdups_id sorted_sort_id)
      (auto simp: list_ex_iff list_all_iff not_le DEFAULT_DURATION_BUCKETS_def)
qed

lemma boundedPath_short: "length (boundedPath path) \<le> 128"
  by (auto simp: boundedPath_def Let_def KNOWN_PATHS_def)

lemma request_labels_accepted:
  "request_ok lib r \<Longrightarrow> assertLabels (request_labels r) = Inr () \<and> assertLabels (take 2 (request_labels r)) = Inr ()"
proof -
  assume r: "request_ok lib r"
  have names: "label_name ''method''" "label_name ''path''" "label_name ''status''"
    "\<not> FORBIDDEN_LABEL_KEY ''method''" "\<not> FORBIDDEN_LABEL_KEY ''path''" "\<not> FORBIDDEN_LABEL_KEY ''status''"
    by code_simp+
  show ?thesis
    using r boundedPath_short [of "fr_path r"]
    by (simp add: request_labels_def label_error_def names request_ok_def numeral_2_eq_2)
qed

text \<open>The two families after requests with the keys \<open>ks\<close>.\<close>

definition http_state :: "('n :: linorder, 'o :: linorder) metrics_lib \<Rightarrow> string list \<Rightarrow> 'n MetricsService \<Rightarrow> bool" where
  "http_state lib ks M \<longleftrightarrow> mv_enabled M \<and>
     (case map_of (mv_families M) requests_name of
        None \<Rightarrow> ks = []
      | Some f \<Rightarrow> mf_kind f = kind_counter \<and> mf_help f = requests_help \<and> mf_buckets f = [] \<and> map fst (mf_samples f) = ks) \<and>
     (case map_of (mv_families M) duration_name of
        None \<Rightarrow> True
      | Some f \<Rightarrow> mf_kind f = kind_histogram \<and> mf_help f = duration_help \<and>
          mf_buckets f = DEFAULT_DURATION_BUCKETS lib \<and> length (mf_samples f) \<le> length ks)"

definition family_at :: "'n MetricsService \<Rightarrow> string \<Rightarrow> MetricKind \<Rightarrow> string \<Rightarrow> 'n list \<Rightarrow> 'n MetricFamily \<Rightarrow> bool" where
  "family_at M name kind help buckets f \<longleftrightarrow>
     mf_kind f = kind \<and> mf_help f = help \<and> mf_buckets f = buckets \<and>
     (map_of (mv_families M) name = Some f \<or>
      map_of (mv_families M) name = None \<and> f = \<lparr>mf_buckets = buckets, mf_help = help, mf_kind = kind, mf_samples = []\<rparr>)"

lemma sample_at:
  assumes "metric_name name" and "assertLabels labels = Inr ()" and "family_at M name kind help buckets f"
  shows "sample lib name kind help labels buckets change M =
    (case map_of (mf_samples f) (labelKey lib labels) of
       None \<Rightarrow>
         if 100 \<le> length (mf_samples f) then Inl (series_limit name)
         else Inr (M\<lparr>mv_families := AList.update name (f\<lparr>mf_samples :=
           AList.update (labelKey lib labels) (change (new_sample lib labels buckets)) (mf_samples f)\<rparr>) (mv_families M)\<rparr>)
     | Some s \<Rightarrow> Inr (M\<lparr>mv_families := AList.update name (f\<lparr>mf_samples :=
           AList.update (labelKey lib labels) (change s) (mf_samples f)\<rparr>) (mv_families M)\<rparr>))"
proof (cases "map_of (mv_families M) name")
  case None
  then have f: "f = \<lparr>mf_buckets = buckets, mf_help = help, mf_kind = kind, mf_samples = []\<rparr>"
    using assms(3) by (simp add: family_at_def)
  show ?thesis using assms(1,2) None unfolding f by (simp add: sample_def assertMetricName_def MAX_SERIES_PER_FAMILY_def)
next
  case (Some g)
  then have "g = f" "mf_kind f = kind" "mf_help f = help" "mf_buckets f = buckets"
    using assms(3) by (simp_all add: family_at_def)
  then show ?thesis using assms(1,2) Some
    by (simp add: sample_def assertMetricName_def MAX_SERIES_PER_FAMILY_def split: option.splits)
qed

lemma update_new: "map_of al k = None \<Longrightarrow> map fst (AList.update k v al) = map fst al @ [k]"
  by (induction al) auto

lemma http_names: "metric_name requests_name" "metric_name duration_name" "requests_name \<noteq> duration_name"
  by code_simp+

lemma http_family:
  assumes "http_state lib ks M"
  obtains f where "family_at M requests_name kind_counter requests_help [] f" "map fst (mf_samples f) = ks"
proof (cases "map_of (mv_families M) requests_name")
  case None
  show thesis
    by (rule that [of "\<lparr>mf_buckets = [], mf_help = requests_help, mf_kind = kind_counter, mf_samples = []\<rparr>"])
      (use None assms in \<open>simp_all add: family_at_def http_state_def\<close>)
next
  case (Some f)
  show thesis by (rule that [of f]) (use Some assms in \<open>simp_all add: family_at_def http_state_def\<close>)
qed

lemma duration_family:
  assumes "http_state lib ks M"
  obtains f where "family_at M duration_name kind_histogram duration_help (DEFAULT_DURATION_BUCKETS lib) f"
    "length (mf_samples f) \<le> length ks"
proof (cases "map_of (mv_families M) duration_name")
  case None
  show thesis
    by (rule that [of "\<lparr>mf_buckets = DEFAULT_DURATION_BUCKETS lib, mf_help = duration_help, mf_kind = kind_histogram, mf_samples = []\<rparr>"])
      (use None assms in \<open>simp_all add: family_at_def http_state_def\<close>)
next
  case (Some f)
  show thesis by (rule that [of f]) (use Some assms in \<open>simp_all add: family_at_def http_state_def\<close>)
qed

lemma http_step:
  assumes lib: "numbers_ok lib" and st: "http_state lib ks M" and r: "request_ok lib r" and new: "http_key lib r \<notin> set ks"
  shows "length ks < 100 \<Longrightarrow> \<exists>M'. http_metrics lib r M = (Inr (), M') \<and> http_state lib (ks @ [http_key lib r]) M'"
    and "length ks = 100 \<Longrightarrow> http_metrics lib r M = (Inl (series_limit requests_name), M)"
proof -
  note labels = request_labels_accepted [OF r]
  let ?key = "http_key lib r" and ?pair = "labelKey lib (take 2 (request_labels r))"
  obtain f where f: "family_at M requests_name kind_counter requests_help [] f" "map fst (mf_samples f) = ks"
    by (rule http_family [OF st])
  obtain d where d: "family_at M duration_name kind_histogram duration_help (DEFAULT_DURATION_BUCKETS lib) d"
    "length (mf_samples d) \<le> length ks"
    by (rule duration_family [OF st])
  have on: "mv_enabled M" using st by (simp add: http_state_def)
  have count: "length (mf_samples f) = length ks" using f(2) by (metis length_map)
  have none: "map_of (mf_samples f) ?key = None" using new f(2) by (metis map_of_eq_None_iff list.set_map)
  note inc = sample_at [OF http_names(1) conjunct1 [OF labels] f(1), where lib = lib]
  show "http_metrics lib r M = (Inl (series_limit requests_name), M)" if "length ks = 100"
    using that on none count by (simp add: http_metrics_def increment_def inc)
  show "\<exists>M'. http_metrics lib r M = (Inr (), M') \<and> http_state lib (ks @ [?key]) M'" if small: "length ks < 100"
  proof -
    let ?s = "(new_sample lib (request_labels r) [])\<lparr>ms_value := ml_add lib (ml_zero lib) (ml_thousandths lib 1000)\<rparr>"
    let ?f = "f\<lparr>mf_samples := AList.update ?key ?s (mf_samples f)\<rparr>"
    let ?M = "M\<lparr>mv_families := AList.update requests_name ?f (mv_families M)\<rparr>"
    have first: "increment lib requests_name requests_help (request_labels r) (ml_thousandths lib 1000) M = Inr ?M"
      using small on none count by (simp add: increment_def inc new_sample_def)
    have d1: "family_at ?M duration_name kind_histogram duration_help (DEFAULT_DURATION_BUCKETS lib) d"
      using d(1) http_names(3) by (simp add: family_at_def update_conv')
    let ?bs = "DEFAULT_DURATION_BUCKETS lib"
    let ?change = "observed_sample lib (fr_seconds r) ?bs"
    let ?t = "case map_of (mf_samples d) ?pair of None \<Rightarrow> new_sample lib (take 2 (request_labels r)) ?bs | Some s \<Rightarrow> s"
    let ?d = "d\<lparr>mf_samples := AList.update ?pair (?change ?t) (mf_samples d)\<rparr>"
    let ?M' = "?M\<lparr>mv_families := AList.update duration_name ?d (mv_families ?M)\<rparr>"
    have "sample lib duration_name kind_histogram duration_help (take 2 (request_labels r)) ?bs ?change ?M = Inr ?M'"
      using sample_at [OF http_names(2) conjunct2 [OF labels] d1, of lib ?change] d(2) small
      by (auto split: option.splits)
    then have second: "observe lib duration_name duration_help (fr_seconds r) (take 2 (request_labels r)) ?bs ?M = Inr ?M'"
      using on r by (simp add: observe_def request_ok_def assertFinite_def sbind_def default_normalized [OF lib] not_less)
    have "http_metrics lib r M = (Inr (), ?M')" by (simp add: http_metrics_def first second)
    moreover have "length (mf_samples ?d) \<le> length (ks @ [?key])" using d(2) by (simp add: length_update)
    then have "http_state lib (ks @ [?key]) ?M'"
      using on f d(1) none http_names(3) by (simp add: http_state_def family_at_def update_conv' update_new)
    ultimately show ?thesis by blast
  qed
qed

lemma http_run:
  assumes "numbers_ok lib" and "http_state lib ks M" and "list_all (request_ok lib) rs" and "length ks \<le> 100"
    and "distinct (ks @ map (http_key lib) rs)"
  shows "http_requests lib rs M =
    replicate (min (length rs) (100 - length ks)) (Inr ()) @
    replicate (length rs - (100 - length ks)) (Inl (series_limit requests_name))"
  using assms(2-5)
proof (induction rs arbitrary: ks M)
  case (Cons r rs)
  have r: "request_ok lib r" "http_key lib r \<notin> set ks" using Cons.prems by auto
  show ?case
  proof (cases "length ks < 100")
    case True
    obtain M' where M': "http_metrics lib r M = (Inr (), M')" "http_state lib (ks @ [http_key lib r]) M'"
      using http_step(1) [OF assms(1) Cons.prems(1) r True] by blast
    obtain k where k: "100 - length ks = Suc k" "100 - length (ks @ [http_key lib r]) = k"
      using True by (cases "100 - length ks") auto
    have "http_requests lib rs M' = replicate (min (length rs) k) (Inr ()) @
        replicate (length rs - k) (Inl (series_limit requests_name))"
      by (rule Cons.IH [OF M'(2), unfolded k(2)]) (use Cons.prems True in auto)
    then show ?thesis unfolding k(1) by (simp add: M'(1))
  next
    case False
    then have full: "length ks = 100" using Cons.prems by simp
    show ?thesis
      using http_step(2) [OF assms(1) Cons.prems(1) r full] Cons.IH [OF Cons.prems(1)] Cons.prems full by simp
  qed
qed simp

lemma other_name_keeps:
  assumes "http_state lib ks M" and "sample lib name kind help labels buckets change M = Inr M'"
    and "name \<noteq> requests_name" and "name \<noteq> duration_name"
  shows "http_state lib ks M'"
  using assms(2) by (rule sample_result) (use assms in \<open>auto simp: http_state_def update_conv'\<close>)

lemma new_http_state:
  assumes "new_metrics lib True i = Inr M"
  shows "http_state lib [] M"
proof -
  have start: "http_state lib [] \<lparr>mv_enabled = True, mv_families = [], mv_instanceId = i, mv_eventLoop = False\<rparr>"
    by (simp add: http_state_def)
  obtain M1 where one: "increment lib ''cluchess_process_restarts_total'' ''Application process starts by instance.''
      [(''instance'', i)] (ml_thousandths lib 1000)
      \<lparr>mv_enabled = True, mv_families = [], mv_instanceId = i, mv_eventLoop = False\<rparr> = Inr M1"
    "observe_event_loop lib (ml_zero lib) M1 = Inr M"
    using assms unfolding new_metrics_def sbind_Inr_iff by blast
  have M1: "http_state lib [] M1"
    by (rule other_name_keeps [OF start one(1) [unfolded increment_def, simplified]]) simp_all
  obtain bs where "sample lib ''nodejs_eventloop_lag_seconds'' kind_histogram
      ''Observed event-loop p99 delay by sampling interval.'' [(''instance'', mv_instanceId M1)] bs
      (observed_sample lib (ml_zero lib) bs) M1 = Inr M"
    using one(2) M1 by (auto simp: observe_event_loop_def observe_def sbind_Inr_iff http_state_def split: if_splits)
  from other_name_keeps [OF M1 this] show ?thesis by simp
qed

text \<open>
  C36. The bound on the series takes the server down. On a fresh instance with metrics, requests whose
  method, path and status differ are recorded up to the hundredth; recording each further one throws. The
  exception leaves the listener of the response's \<open>finish\<close> event, so nothing catches it. The method is
  not bounded as the path is: with the methods that Node accepts, clients who are not signed in reach the limit.
\<close>
theorem http_requests_overflow:
  assumes "numbers_ok lib" and "new_metrics lib True i = Inr M" and "list_all (request_ok lib) rs"
    and "distinct (map (\<lambda>r. labelKey lib (request_labels r)) rs)"
  shows "http_requests lib rs M =
    replicate (min (length rs) 100) (Inr ()) @
    replicate (length rs - 100) (Inl ''Metric cluchess_http_requests_total exceeded its bounded series limit.'')"
  using http_run [OF assms(1) new_http_state [OF assms(2)] assms(3)] assms(4) by (simp add: series_limit_def)

section \<open>A concrete instance\<close>

definition sample_metrics_lib :: "(int, nat) metrics_lib" where
  "sample_metrics_lib =
     \<lparr>ml_add = (+), ml_thousandths = (\<lambda>n. n), ml_finite = (\<lambda>_. True), ml_text = int_text, ml_collate = (\<lambda>s. of_char (hd s))\<rparr>"

definition sample_metrics :: "int MetricsService" where
  "sample_metrics = \<lparr>mv_enabled = True,
     mv_families =
       [(''cluchess_process_restarts_total'',
         \<lparr>mf_buckets = [], mf_help = ''Application process starts by instance.'', mf_kind = kind_counter,
          mf_samples = [(''instance=a'', \<lparr>ms_bucketCounts = [], ms_labels = [(''instance'', ''a'')], ms_count = 0, ms_sum = 0,
            ms_value = 1000\<rparr>)]\<rparr>),
        (''nodejs_eventloop_lag_seconds'',
         \<lparr>mf_buckets = [1, 5, 10, 25, 50, 70, 100, 250, 500, 1000],
          mf_help = ''Observed event-loop p99 delay by sampling interval.'', mf_kind = kind_histogram,
          mf_samples = [(''instance=a'', \<lparr>ms_bucketCounts = replicate 10 1, ms_labels = [(''instance'', ''a'')], ms_count = 1,
            ms_sum = 0, ms_value = 0\<rparr>)]\<rparr>)],
     mv_instanceId = ''a'', mv_eventLoop = False\<rparr>"

lemma sample_metrics_new: "new_metrics sample_metrics_lib True ''a'' = Inr sample_metrics"
  by code_simp

theorem metrics_bounded_witness:
  "ms_bucketCounts (snd (hd (mf_samples (snd (mv_families sample_metrics ! 1))))) = replicate 10 1 \<and>
   length (mf_samples (snd (mv_families sample_metrics ! 1))) \<le> 100 \<and>
   sorted (ms_bucketCounts (snd (hd (mf_samples (snd (mv_families sample_metrics ! 1))))) @
     [ms_count (snd (hd (mf_samples (snd (mv_families sample_metrics ! 1)))))])"
proof -
  let ?f = "snd (mv_families sample_metrics ! 1)"
  let ?s = "snd (hd (mf_samples ?f))"
  have f: "(''nodejs_eventloop_lag_seconds'', ?f) \<in> set (mv_families sample_metrics)"
    "(''instance=a'', ?s) \<in> set (mf_samples ?f)" "ms_bucketCounts ?s = replicate 10 1"
    by (simp_all add: sample_metrics_def)
  from metrics_bounded [OF metrics_run.start [OF sample_metrics_new] f(1,2)] f(3) show ?thesis by blast
qed

text \<open>Requests to an unknown path, with methods that the parser of Node accepts and errors that the framework answers.\<close>

definition sample_requests :: "int finished_request list" where
  "sample_requests = take 101
     (concat (map (\<lambda>method. map (\<lambda>status. \<lparr>fr_method = method, fr_path = ''/'', fr_status = status, fr_seconds = 1\<rparr>)
         [400, 404, 413, 415])
       [''ACL'', ''BIND'', ''CHECKOUT'', ''COPY'', ''DELETE'', ''GET'', ''LINK'', ''LOCK'', ''M-SEARCH'', ''MERGE'', ''MKCOL'', ''MOVE'',
        ''NOTIFY'', ''OPTIONS'', ''PATCH'', ''POST'', ''PROPFIND'', ''PURGE'', ''PUT'', ''REBIND'', ''REPORT'', ''SEARCH'', ''SOURCE'',
        ''TRACE'', ''UNBIND'', ''UNLINK'']))"

lemma ascending_distinct: "successively (<) (xs :: 'a :: linorder list) \<Longrightarrow> distinct xs"
  by (simp add: successively_conv_sorted_wrt transp_on_less strict_sorted_iff)

definition sample_status_text :: "int \<Rightarrow> string" where
  "sample_status_text n = (if n = 400 then ''400'' else if n = 404 then ''404'' else if n = 413 then ''413'' else ''415'')"

definition sample_request :: "int finished_request \<Rightarrow> bool" where
  "sample_request r \<longleftrightarrow> length (fr_method r) \<le> 128 \<and> fr_path r = ''/'' \<and> fr_status r \<in> set [400, 404, 413, 415] \<and> fr_seconds r = 1"

lemma sample_request_facts:
  assumes "sample_request r"
  shows "request_ok sample_metrics_lib r"
    "labelKey sample_metrics_lib (request_labels r) =
       ''method='' @ fr_method r @ '',path=/other,status='' @ sample_status_text (fr_status r)"
proof -
  have texts: "int_text 400 = ''400''" "int_text 404 = ''404''" "int_text 413 = ''413''" "int_text 415 = ''415''"
    by (simp_all add: int_text_def char_of_def bit_Suc_0_iff)
  then have status: "int_text (fr_status r) = sample_status_text (fr_status r)"
    using assms by (auto simp: sample_request_def sample_status_text_def)
  then show "request_ok sample_metrics_lib r"
    using assms by (simp add: sample_request_def request_ok_def sample_metrics_lib_def ml_zero_def sample_status_text_def)
  have path: "boundedPath ''/'' = ''/other''" by code_simp
  show "labelKey sample_metrics_lib (request_labels r) =
      ''method='' @ fr_method r @ '',path=/other,status='' @ sample_status_text (fr_status r)"
    using assms by (simp add: labelKey_def sorted_labels_def request_labels_def path status sample_request_def sample_metrics_lib_def)
qed

theorem http_requests_overflow_witness:
  "http_requests sample_metrics_lib sample_requests sample_metrics =
     replicate 100 (Inr ()) @ [Inl ''Metric cluchess_http_requests_total exceeded its bounded series limit.'']"
proof -
  have numbers: "numbers_ok sample_metrics_lib" by (simp add: numbers_ok_def sample_metrics_lib_def)
  have size: "length sample_requests = 101" by code_simp
  have all: "list_all sample_request sample_requests" by code_simp
  then have ok: "list_all (request_ok sample_metrics_lib) sample_requests"
    using sample_request_facts(1) by (auto simp: list_all_iff)
  have same: "map (\<lambda>r. labelKey sample_metrics_lib (request_labels r)) sample_requests =
      map (\<lambda>r. ''method='' @ fr_method r @ '',path=/other,status='' @ sample_status_text (fr_status r)) sample_requests"
    by (rule map_cong [OF refl]) (rule sample_request_facts(2), use all in \<open>simp add: list_all_iff\<close>)
  have keys: "distinct (map (\<lambda>r. labelKey sample_metrics_lib (request_labels r)) sample_requests)"
    unfolding same by (rule ascending_distinct) code_simp
  from http_requests_overflow [OF numbers sample_metrics_new ok keys] show ?thesis by (simp add: size)
qed

end
