(* ===== verification/Http_Api.thy ===== *)
theory Http_Api
  imports Session_Service Application_Lifecycle
begin

text \<open>
  The HTTP side under \<open>src/src/modules\<close>: \<open>session/session.controller.ts\<close>,
  \<open>session/session-exception.filter.ts\<close>, \<open>session/session.schemas.ts\<close>, and the controller,
  filter and schemas of \<open>recovery\<close>, \<open>health/health.controller.ts\<close>, and
  \<open>common/logging/correlation-id.middleware.ts\<close>. A request is its
  headers, body and address after Express has parsed them; guards run first, then the
  handler, and what either throws goes to the filter. What other requests do in between is
  \<open>hx_others\<close>. Logs are left out.
\<close>

section \<open>Requests and responses\<close>

record http_request =
  rq_headers :: request_headers
  rq_requestId :: "string option"
  rq_idempotencyKey :: "string option"
  rq_body :: "json option"
  rq_ip :: "string option"
  rq_remoteAddress :: "string option"

record CookieOptions =
  co_httpOnly :: bool
  co_path :: string
  co_sameSite :: string
  co_secure :: bool

datatype cookie = SetCookie string string CookieOptions int | ClearCookie string CookieOptions

record http_response =
  rp_status :: int
  rp_correlationId :: string
  rp_retryAfter :: "int option"
  rp_cookies :: "cookie list"
  rp_body :: json

datatype http_exception = SessionException SessionError | RecoveryException RecoveryError | ServiceException thrown | OtherException

record http_lib =
  hl_uuid :: "string \<Rightarrow> bool"
  hl_uuidv4 :: "string \<Rightarrow> bool"
  hl_datetime :: "string \<Rightarrow> bool"
  hl_iso :: "int \<Rightarrow> string"
  hl_sha256 :: "string \<Rightarrow> string"

text \<open>\<open>correlation-id.middleware.ts\<close>; \<open>uuid\<close> is what \<open>randomUUID\<close> gives.\<close>

definition correlate :: "http_request \<Rightarrow> string \<Rightarrow> string" where
  "correlate request uuid =
     (case rq_requestId request of Some requestId \<Rightarrow> if UUID_V4 requestId then requestId else uuid | None \<Rightarrow> uuid)"

section \<open>Errors as responses\<close>

fun session_code_text :: "SessionErrorCode \<Rightarrow> string" where
  "session_code_text SESSION_BAD_REQUEST = ''BAD_REQUEST''"
| "session_code_text SESSION_IDEMPOTENCY_KEY_REUSED = ''IDEMPOTENCY_KEY_REUSED''"
| "session_code_text SESSION_INTERNAL_ERROR = ''INTERNAL_ERROR''"
| "session_code_text SESSION_RATE_LIMITED = ''RATE_LIMITED''"
| "session_code_text SESSION_SERVICE_UNAVAILABLE = ''SERVICE_UNAVAILABLE''"
| "session_code_text SESSION_UNAUTHORIZED = ''UNAUTHORIZED''"

fun STATUS_BY_CODE :: "SessionErrorCode \<Rightarrow> int" where
  "STATUS_BY_CODE SESSION_BAD_REQUEST = 400"
| "STATUS_BY_CODE SESSION_IDEMPOTENCY_KEY_REUSED = 409"
| "STATUS_BY_CODE SESSION_INTERNAL_ERROR = 500"
| "STATUS_BY_CODE SESSION_RATE_LIMITED = 429"
| "STATUS_BY_CODE SESSION_SERVICE_UNAVAILABLE = 503"
| "STATUS_BY_CODE SESSION_UNAUTHORIZED = 401"

definition retry_after :: "int option \<Rightarrow> int option" where
  "retry_after ms = map_option (\<lambda>n. max 1 (ceil_seconds n)) ms"

text \<open>The bodies of errors; the two filters put the time to wait at different places.\<close>

definition retry_field :: "int option \<Rightarrow> (string \<times> json) list" where
  "retry_field retryAfterMs = (case retryAfterMs of None \<Rightarrow> [] | Some ms \<Rightarrow> [(''retryAfterMs'', JNum ms)])"

definition session_error_body :: "string \<Rightarrow> string \<Rightarrow> string \<Rightarrow> bool \<Rightarrow> int option \<Rightarrow> json" where
  "session_error_body cid code message retryable retryAfterMs = JObj
     [(''correlationId'', JStr cid),
      (''error'', JObj ([(''code'', JStr code), (''message'', JStr message), (''retryable'', JBool retryable)] @
         retry_field retryAfterMs))]"

definition recovery_error_body :: "string \<Rightarrow> string \<Rightarrow> string \<Rightarrow> bool \<Rightarrow> int option \<Rightarrow> json" where
  "recovery_error_body cid code message retryable retryAfterMs = JObj
     [(''correlationId'', JStr cid),
      (''error'', JObj ([(''code'', JStr code), (''message'', JStr message)] @ retry_field retryAfterMs @
         [(''retryable'', JBool retryable)]))]"

definition session_exception :: "http_exception \<Rightarrow> SessionError" where
  "session_exception e =
     (case e of SessionException error \<Rightarrow> error
      | _ \<Rightarrow> sessionError SESSION_INTERNAL_ERROR ''Session request could not be completed'' False)"

definition session_filter :: "string \<Rightarrow> http_exception \<Rightarrow> http_response \<Rightarrow> http_response" where
  "session_filter cid e response =
     (let error = session_exception e in
      response\<lparr>rp_status := STATUS_BY_CODE (xe_code error), rp_correlationId := cid,
        rp_retryAfter := retry_after (xe_retryAfterMs error),
        rp_body := session_error_body cid (session_code_text (xe_code error)) (xe_message error) (xe_retryable error)
          (xe_retryAfterMs error)\<rparr>)"

record HttpRecoveryError =
  hr_code :: string
  hr_message :: string
  hr_retryable :: bool
  hr_retryAfterMs :: "int option"
  hr_status :: int

definition recovery_internal :: HttpRecoveryError where
  "recovery_internal = \<lparr>hr_code = ''INTERNAL_ERROR'', hr_message = ''Recovery request could not be completed'',
     hr_retryable = True, hr_retryAfterMs = None, hr_status = 500\<rparr>"

definition recovery_game_error :: "GameServiceError \<Rightarrow> HttpRecoveryError" where
  "recovery_game_error error =
     (let mapped = (\<lambda>code status. \<lparr>hr_code = code, hr_message = se_message error, hr_retryable = se_retryable error,
        hr_retryAfterMs = None, hr_status = status\<rparr>) in
      if se_code error = GameServiceErrorCode.GAME_NOT_FOUND then mapped ''GAME_NOT_FOUND'' 404
      else if se_code error = GameServiceErrorCode.NOT_A_PLAYER then mapped ''NOT_A_PLAYER'' 403
      else if se_code error = GameServiceErrorCode.DEPENDENCY_UNAVAILABLE then mapped ''SERVICE_UNAVAILABLE'' 503
      else recovery_internal)"

definition map_recovery_exception :: "http_exception \<Rightarrow> HttpRecoveryError" where
  "map_recovery_exception e =
     (case e of
        RecoveryException error \<Rightarrow>
          \<lparr>hr_code = ye_code error, hr_message = ye_message error, hr_retryable = ye_retryable error,
           hr_retryAfterMs = ye_retryAfterMs error, hr_status = (if ye_code error = ''BAD_REQUEST'' then 400 else 429)\<rparr>
      | SessionException error \<Rightarrow>
          \<lparr>hr_code = session_code_text (xe_code error), hr_message = xe_message error, hr_retryable = xe_retryable error,
           hr_retryAfterMs = xe_retryAfterMs error,
           hr_status = (if xe_code error = SESSION_SERVICE_UNAVAILABLE then 503
             else if xe_code error = SESSION_UNAUTHORIZED then 401 else 500)\<rparr>
      | ServiceException (ServiceErr error) \<Rightarrow> recovery_game_error error
      | ServiceException error \<Rightarrow>
          if is_DatabaseError error then
            \<lparr>hr_code = ''SERVICE_UNAVAILABLE'', hr_message = ''The authoritative game store is temporarily unavailable.'',
             hr_retryable = True, hr_retryAfterMs = None, hr_status = 503\<rparr>
          else recovery_internal
      | OtherException \<Rightarrow> recovery_internal)"

definition recovery_filter :: "string \<Rightarrow> http_exception \<Rightarrow> http_response \<Rightarrow> http_response" where
  "recovery_filter cid e response =
     (let error = map_recovery_exception e in
      response\<lparr>rp_status := hr_status error, rp_correlationId := cid,
        rp_retryAfter := retry_after (hr_retryAfterMs error),
        rp_body := recovery_error_body cid (hr_code error) (hr_message error) (hr_retryable error) (hr_retryAfterMs error)\<rparr>)"

section \<open>Schemas of bodies and responses\<close>

definition emptySessionBodySchema :: "json option \<Rightarrow> bool" where
  "emptySessionBodySchema body \<longleftrightarrow> (case body of None \<Rightarrow> False | Some j \<Rightarrow> zstrict [] j)"

definition publicGuestFields :: "http_lib \<Rightarrow> fields" where
  "publicGuestFields L =
     [req ''avatar'' (zstring (sized 1 128)), req ''expiresAt'' (zstring (hl_datetime L)), req ''id'' (zstring (hl_uuid L)),
      req ''name'' (zstring (sized 1 128))]"

definition token_text :: "string \<Rightarrow> bool" where
  "token_text s \<longleftrightarrow> s \<noteq> []"

definition createSessionResponseSchema :: "http_lib \<Rightarrow> schema" where
  "createSessionResponseSchema L = zstrict
     [req ''correlationId'' (zstring (hl_uuid L)), req ''guest'' (zstrict (publicGuestFields L)), req ''token'' (zstring token_text)]"

definition renewSessionResponseSchema :: "http_lib \<Rightarrow> schema" where
  "renewSessionResponseSchema L = zstrict
     [req ''correlationId'' (zstring (hl_uuid L)), req ''expiresAt'' (zstring (hl_datetime L)), req ''token'' (zstring token_text)]"

definition getSessionResponseSchema :: "http_lib \<Rightarrow> schema" where
  "getSessionResponseSchema L = zstrict
     [req ''correlationId'' (zstring (hl_uuid L)),
      req ''guest'' (zstrict (publicGuestFields L @ [req ''issuedAt'' (zstring (hl_datetime L))]))]"

definition resetSessionResponseSchema :: "http_lib \<Rightarrow> schema" where
  "resetSessionResponseSchema L = zstrict [req ''correlationId'' (zstring (hl_uuid L)), req ''ok'' ztrue]"

definition activeGameResponseSchema :: "http_lib \<Rightarrow> schema" where
  "activeGameResponseSchema L = zstrict
     [req ''correlationId'' (zstring (hl_uuid L)), req ''gameId'' (znullable (zstring (hl_uuidv4 L)))]"

text \<open>The schema of a snapshot with three more fields, which are none of its own.\<close>

definition recoveredFields :: "http_lib \<Rightarrow> fields" where
  "recoveredFields L =
     [req ''correlationId'' (zstring (hl_uuid L)), req ''gameId'' (zstring (hl_uuidv4 L)), req ''gameVersion'' (zint (\<lambda>n. 0 \<le> n))]"

definition recoveredSnapshotResponseSchema :: "http_lib \<Rightarrow> schema" where
  "recoveredSnapshotResponseSchema L j \<longleftrightarrow>
     (case j of
        JObj kvs \<Rightarrow>
          zstrict (recoveredFields L) (JObj (filter (\<lambda>(k, _). k \<in> fst ` set (recoveredFields L)) kvs)) \<and>
          gameSnapshotPayloadSchema (JObj (filter (\<lambda>(k, _). k \<notin> fst ` set (recoveredFields L)) kvs))
      | _ \<Rightarrow> False)"

text \<open>\<open>parse\<close> throws when the schema refuses.\<close>

definition parsed :: "schema \<Rightarrow> json \<Rightarrow> http_exception + json" where
  "parsed schema j = (if schema j then Inr j else Inl OtherException)"

section \<open>The server\<close>

record ('c, 's, 'r) http_world =
  hw_counters :: 'c
  hw_sessions :: session_db
  hw_keys :: 's
  hw_redis :: 'r

record ('k, 's, 'p, 'r, 'c) http_server =
  hs_lib :: http_lib
  hs_sessions :: "('k, 's) session_service"
  hs_games :: "('p, 'r) game_services"
  hs_counters :: "'c counters"
  hs_sessionLimits :: "SessionRateLimitPolicy \<Rightarrow> RateLimitPolicy"
  hs_recoveryLimits :: "RecoveryPolicy \<Rightarrow> RateLimitPolicy"
  hs_delegate :: "(string \<Rightarrow> string list \<times> bool) option"
  hs_cookieEnabled :: bool
  hs_cookieName :: string
  hs_secureCookie :: bool

record ('c, 's, 'r) http_env =
  hx_uuid :: string
  hx_others :: "nat \<Rightarrow> ('c, 's, 'r) http_world \<Rightarrow> ('c, 's, 'r) http_world"
  hx_guard :: redis_fault
  hx_guardNow :: int
  hx_limit :: redis_fault
  hx_create :: "'s create_env"
  hx_renew :: renew_env
  hx_get :: session_env
  hx_getNow :: int
  hx_reset :: "'r reset_env"
  hx_active :: "'r recovery_env"
  hx_snapshot :: "'r snapshot_env"

text \<open>What a handler ends with: its value or exception, what a reset sends, and the response it has begun.\<close>

type_synonym ('c, 's, 'r) http_handled = "(http_exception + json) \<times> reset_outputs \<times> http_response \<times> ('c, 's, 'r) http_world"

definition clientAddress :: "http_request \<Rightarrow> string" where
  "clientAddress request =
     (case rq_ip request of Some ip \<Rightarrow> ip
      | None \<Rightarrow> (case rq_remoteAddress request of Some address \<Rightarrow> address | None \<Rightarrow> ''unknown''))"

definition idempotency_key :: "http_request \<Rightarrow> string" where
  "idempotency_key request = (case rq_idempotencyKey request of Some key \<Rightarrow> key | None \<Rightarrow> [])"

definition cookieOptions :: "('k, 's, 'p, 'r, 'c) http_server \<Rightarrow> CookieOptions" where
  "cookieOptions S = \<lparr>co_httpOnly = True, co_path = ''/'', co_sameSite = ''lax'', co_secure = hs_secureCookie S\<rparr>"

definition setCookie :: "('k, 's, 'p, 'r, 'c) http_server \<Rightarrow> string \<Rightarrow> int \<Rightarrow> http_response \<Rightarrow> http_response" where
  "setCookie S token expiresAt response =
     (if hs_cookieEnabled S
      then response\<lparr>rp_cookies := rp_cookies response @ [SetCookie (hs_cookieName S) token (cookieOptions S) expiresAt]\<rparr>
      else response)"

definition clearCookie :: "('k, 's, 'p, 'r, 'c) http_server \<Rightarrow> http_response \<Rightarrow> http_response" where
  "clearCookie S response =
     (if hs_cookieEnabled S
      then response\<lparr>rp_cookies := rp_cookies response @ [ClearCookie (hs_cookieName S) (cookieOptions S)]\<rparr>
      else response)"

definition bad_body :: http_exception where
  "bad_body = SessionException (sessionError SESSION_BAD_REQUEST ''Request body must be an empty JSON object'' False)"

definition consume_session ::
    "('k, 's, 'p, 'r, 'c) http_server \<Rightarrow> ('c, 's, 'r) http_env \<Rightarrow> SessionRateLimitPolicy \<Rightarrow> string \<Rightarrow>
     ('c, 's, 'r) http_world \<Rightarrow> (http_exception + unit) \<times> ('c, 's, 'r) http_world" where
  "consume_session S env policy identifier w =
     (case session_consume (hs_counters S) (hl_sha256 (hs_lib S)) (hs_sessionLimits S) (hx_limit env) policy identifier
         (hw_counters w) of
        (Inl e, c) \<Rightarrow> (Inl (SessionException e), w\<lparr>hw_counters := c\<rparr>)
      | (Inr _, c) \<Rightarrow> (Inr (), w\<lparr>hw_counters := c\<rparr>))"

section \<open>The session controller\<close>

definition guest_json :: "http_lib \<Rightarrow> bool \<Rightarrow> PublicGuestSession \<Rightarrow> json" where
  "guest_json L issued g = JObj
     ([(''avatar'', JStr (pg_avatar g)), (''expiresAt'', JStr (hl_iso L (pg_expiresAt g))), (''id'', JStr (pg_id g))] @
      (if issued then [(''issuedAt'', JStr (hl_iso L (pg_issuedAt g)))] else []) @ [(''name'', JStr (pg_name g))])"

definition create_handler ::
    "('k, 's, 'p, 'r, 'c) http_server \<Rightarrow> ('c, 's, 'r) http_env \<Rightarrow> http_request \<Rightarrow> http_response \<Rightarrow>
     ('c, 's, 'r) http_world \<Rightarrow> ('c, 's, 'r) http_handled" where
  "create_handler S env request response w =
     (if \<not> emptySessionBodySchema (rq_body request) then (Inl bad_body, no_outputs, response, w)
      else
        (case consume_session S env policy_create (clientAddress request) w of
           (Inl e, w1) \<Rightarrow> (Inl e, no_outputs, response, w1)
         | (Inr _, w1) \<Rightarrow>
             (let w2 = hx_others env 1 w1 in
              case createInternal (hs_sessions S) (hx_create env) (idempotency_key request) (hw_sessions w2, hw_keys w2) of
                (Inl e, s, keys) \<Rightarrow> (Inl (SessionException e), no_outputs, response, w2\<lparr>hw_sessions := s, hw_keys := keys\<rparr>)
              | (Inr result, s, keys) \<Rightarrow>
                  (parsed (createSessionResponseSchema (hs_lib S)) (JObj
                     [(''correlationId'', JStr (rp_correlationId response)),
                      (''guest'', guest_json (hs_lib S) False (is_guest result)), (''token'', JStr (is_token result))]),
                   no_outputs,
                   setCookie S (is_token result) (pg_expiresAt (is_guest result))
                     (response\<lparr>rp_status := (if is_replayed result then 200 else 201)\<rparr>),
                   w2\<lparr>hw_sessions := s, hw_keys := keys\<rparr>))))"

definition renew_handler ::
    "('k, 's, 'p, 'r, 'c) http_server \<Rightarrow> ('c, 's, 'r) http_env \<Rightarrow> http_request \<Rightarrow> AuthenticatedGuest \<Rightarrow> http_response \<Rightarrow>
     ('c, 's, 'r) http_world \<Rightarrow> ('c, 's, 'r) http_handled" where
  "renew_handler S env request identity response w =
     (if \<not> emptySessionBodySchema (rq_body request) then (Inl bad_body, no_outputs, response, w)
      else
        (case consume_session S env policy_renew (au_guestSessionId identity) w of
           (Inl e, w1) \<Rightarrow> (Inl e, no_outputs, response, w1)
         | (Inr _, w1) \<Rightarrow>
             (let w2 = hx_others env 1 w1 in
              case renew_session (hs_sessions S) (hx_renew env) identity (idempotency_key request) (hw_sessions w2) of
                (Inl e, s) \<Rightarrow> (Inl (SessionException e), no_outputs, response, w2\<lparr>hw_sessions := s\<rparr>)
              | (Inr result, s) \<Rightarrow>
                  (parsed (renewSessionResponseSchema (hs_lib S)) (JObj
                     [(''correlationId'', JStr (rp_correlationId response)),
                      (''expiresAt'', JStr (hl_iso (hs_lib S) (pg_expiresAt (is_guest result)))), (''token'', JStr (is_token result))]),
                   no_outputs, setCookie S (is_token result) (pg_expiresAt (is_guest result)) response,
                   w2\<lparr>hw_sessions := s\<rparr>))))"

definition current_handler ::
    "('k, 's, 'p, 'r, 'c) http_server \<Rightarrow> ('c, 's, 'r) http_env \<Rightarrow> AuthenticatedGuest \<Rightarrow> http_response \<Rightarrow>
     ('c, 's, 'r) http_world \<Rightarrow> ('c, 's, 'r) http_handled" where
  "current_handler S env identity response w =
     (case consume_session S env policy_get (au_guestSessionId identity) w of
        (Inl e, w1) \<Rightarrow> (Inl e, no_outputs, response, w1)
      | (Inr _, w1) \<Rightarrow>
          (let w2 = hx_others env 1 w1 in
           case getCurrent (hx_get env) identity (hx_getNow env) (hw_sessions w2) of
             Inl e \<Rightarrow> (Inl (SessionException e), no_outputs, response, w2)
           | Inr guest \<Rightarrow>
               (parsed (getSessionResponseSchema (hs_lib S)) (JObj
                  [(''correlationId'', JStr (rp_correlationId response)),
                   (''guest'', guest_json (hs_lib S) True guest)]),
                no_outputs, response, w2)))"

definition reset_handler ::
    "('k, 's, 'p, 'r, 'c) http_server \<Rightarrow> ('c, 's, 'r) http_env \<Rightarrow> http_request \<Rightarrow> AuthenticatedGuest \<Rightarrow> bool \<Rightarrow>
     http_response \<Rightarrow> ('c, 's, 'r) http_world \<Rightarrow> ('c, 's, 'r) http_handled" where
  "reset_handler S env request identity tokenWasRevoked response w =
     (if \<not> emptySessionBodySchema (rq_body request) then (Inl bad_body, no_outputs, response, w)
      else
        (case consume_session S env policy_reset (au_guestSessionId identity) w of
           (Inl e, w1) \<Rightarrow> (Inl e, no_outputs, response, w1)
         | (Inr _, w1) \<Rightarrow>
             (let w2 = hx_others env 1 w1 in
              case reset_session (hs_sessions S) (hs_games S) (hs_delegate S) (hx_reset env) identity (idempotency_key request)
                  tokenWasRevoked (hw_sessions w2, hw_keys w2, hw_redis w2) of
                (result, outputs, s, keys, r) \<Rightarrow>
                  (let w3 = w2\<lparr>hw_sessions := s, hw_keys := keys, hw_redis := r\<rparr> in
                   case result of
                     Inl e \<Rightarrow> (Inl (SessionException e), outputs, response, w3)
                   | Inr _ \<Rightarrow>
                       (parsed (resetSessionResponseSchema (hs_lib S)) (JObj
                          [(''correlationId'', JStr (rp_correlationId response)), (''ok'', JBool True)]),
                        outputs, clearCookie S response, w3)))))"

text \<open>The guards give the handler the guest of the token and whether the token was revoked.\<close>

definition guarded ::
    "('k, 's, 'p, 'r, 'c) http_server \<Rightarrow> ('c, 's, 'r) http_env \<Rightarrow> bool \<Rightarrow> http_request \<Rightarrow>
     (AuthenticatedGuest \<Rightarrow> bool \<Rightarrow> http_response \<Rightarrow> ('c, 's, 'r) http_world \<Rightarrow> ('c, 's, 'r) http_handled) \<Rightarrow>
     http_response \<Rightarrow> ('c, 's, 'r) http_world \<Rightarrow> ('c, 's, 'r) http_handled" where
  "guarded S env allowRevoked request handler response w =
     (case authenticate_request (sv_tokens (hs_sessions S)) (sv_keyspace (hs_sessions S)) (hs_cookieName S) (hx_guard env)
         (rq_headers request) allowRevoked (hx_guardNow env) (hw_keys w) of
        Inl e \<Rightarrow> (Inl (SessionException e), no_outputs, response, w)
      | Inr (identity, revoked) \<Rightarrow> handler identity revoked response (hx_others env 0 w))"

datatype session_route = create_route | renew_route | current_route | reset_route

fun session_handler ::
    "('k, 's, 'p, 'r, 'c) http_server \<Rightarrow> ('c, 's, 'r) http_env \<Rightarrow> session_route \<Rightarrow> http_request \<Rightarrow> http_response \<Rightarrow>
     ('c, 's, 'r) http_world \<Rightarrow> ('c, 's, 'r) http_handled" where
  "session_handler S env create_route request = create_handler S env request"
| "session_handler S env renew_route request =
     guarded S env False request (\<lambda>identity _. renew_handler S env request identity)"
| "session_handler S env current_route request = guarded S env False request (\<lambda>identity _. current_handler S env identity)"
| "session_handler S env reset_route request = guarded S env True request (reset_handler S env request)"

text \<open>The response as the framework begins it.\<close>

definition begin_response :: "int \<Rightarrow> string \<Rightarrow> http_response" where
  "begin_response status cid =
     \<lparr>rp_status = status, rp_correlationId = cid, rp_retryAfter = None, rp_cookies = [], rp_body = JNull\<rparr>"

definition finish_response ::
    "(string \<Rightarrow> http_exception \<Rightarrow> http_response \<Rightarrow> http_response) \<Rightarrow> ('c, 's, 'r) http_handled \<Rightarrow>
     http_response \<times> reset_outputs \<times> ('c, 's, 'r) http_world" where
  "finish_response exception_filter result =
     (case result of
        (Inl e, outputs, response, w) \<Rightarrow> (exception_filter (rp_correlationId response) e response, outputs, w)
      | (Inr body, outputs, response, w) \<Rightarrow> (response\<lparr>rp_body := body\<rparr>, outputs, w))"

definition session_request ::
    "('k, 's, 'p, 'r, 'c) http_server \<Rightarrow> ('c, 's, 'r) http_env \<Rightarrow> session_route \<Rightarrow> http_request \<Rightarrow>
     ('c, 's, 'r) http_world \<Rightarrow> http_response \<times> reset_outputs \<times> ('c, 's, 'r) http_world" where
  "session_request S env route request w =
     finish_response session_filter
       (session_handler S env route request
         (begin_response (if route = create_route then 201 else 200) (correlate request (hx_uuid env))) w)"

section \<open>The recovery controller\<close>

definition consume_recovery ::
    "('k, 's, 'p, 'r, 'c) http_server \<Rightarrow> ('c, 's, 'r) http_env \<Rightarrow> RecoveryPolicy \<Rightarrow> string \<Rightarrow>
     ('c, 's, 'r) http_world \<Rightarrow> (http_exception + unit) \<times> ('c, 's, 'r) http_world" where
  "consume_recovery S env policy guest w =
     (case recovery_consume (hs_counters S) (hl_sha256 (hs_lib S)) (hs_recoveryLimits S) (hx_limit env) policy guest
         (hw_counters w) of
        (Inl e, c) \<Rightarrow> (Inl (RecoveryException e), w\<lparr>hw_counters := c\<rparr>)
      | (Inr _, c) \<Rightarrow> (Inr (), w\<lparr>hw_counters := c\<rparr>))"

text \<open>The services of games work on Redis and the tables of the same database.\<close>

definition on_games :: "('r world \<Rightarrow> 'a \<times> 'r world) \<Rightarrow> ('c, 's, 'r) http_world \<Rightarrow> 'a \<times> ('c, 's, 'r) http_world" where
  "on_games operation w =
     (case operation (hw_redis w, sd_db (hw_sessions w)) of
        (result, r, db) \<Rightarrow> (result, w\<lparr>hw_redis := r, hw_sessions := (hw_sessions w)\<lparr>sd_db := db\<rparr>\<rparr>))"

definition active_handler ::
    "('k, 's, 'p, 'r, 'c) http_server \<Rightarrow> ('c, 's, 'r) http_env \<Rightarrow> AuthenticatedGuest \<Rightarrow> http_response \<Rightarrow>
     ('c, 's, 'r) http_world \<Rightarrow> ('c, 's, 'r) http_handled" where
  "active_handler S env identity response w =
     (case consume_recovery S env recovery_active (au_guestSessionId identity) w of
        (Inl e, w1) \<Rightarrow> (Inl e, no_outputs, response, w1)
      | (Inr _, w1) \<Rightarrow>
          (case on_games (service_activeGameId (hs_games S) (hx_active env) (au_guestSessionId identity)) (hx_others env 1 w1) of
             (Inl e, w2) \<Rightarrow> (Inl (ServiceException e), no_outputs, response, w2)
           | (Inr gameId, w2) \<Rightarrow>
               (parsed (activeGameResponseSchema (hs_lib S)) (JObj
                  [(''correlationId'', JStr (rp_correlationId response)), (''gameId'', nullable JStr gameId)]),
                no_outputs, response, w2)))"

definition object_fields :: "json \<Rightarrow> (string \<times> json) list" where
  "object_fields j = (case j of JObj fs \<Rightarrow> fs | _ \<Rightarrow> [])"

definition snapshot_handler ::
    "('k, 's, 'p, 'r, 'c) http_server \<Rightarrow> ('c, 's, 'r) http_env \<Rightarrow> string \<Rightarrow> AuthenticatedGuest \<Rightarrow> http_response \<Rightarrow>
     ('c, 's, 'r) http_world \<Rightarrow> ('c, 's, 'r) http_handled" where
  "snapshot_handler S env gameId identity response w =
     (if \<not> hl_uuidv4 (hs_lib S) gameId then
        (Inl (RecoveryException \<lparr>ye_code = ''BAD_REQUEST'', ye_message = ''Game identifier must be a UUID v4'',
           ye_retryable = False, ye_retryAfterMs = None\<rparr>), no_outputs, response, w)
      else
        (case consume_recovery S env recovery_snapshot (au_guestSessionId identity) w of
           (Inl e, w1) \<Rightarrow> (Inl e, no_outputs, response, w1)
         | (Inr _, w1) \<Rightarrow>
             (case on_games (service_snapshot (hs_games S) (hx_snapshot env) gameId (au_guestSessionId identity)) (hx_others env 1 w1) of
                (Inl e, w2) \<Rightarrow> (Inl (ServiceException e), no_outputs, response, w2)
              | (Inr found, w2) \<Rightarrow>
                  (parsed (recoveredSnapshotResponseSchema (hs_lib S)) (JObj (object_fields (rg_payload found) @
                     [(''correlationId'', JStr (rp_correlationId response)), (''gameId'', JStr (rg_id found)),
                      (''gameVersion'', JNum (rg_version found))])),
                   no_outputs, response, w2))))"

datatype recovery_route = active_route | snapshot_route string

fun recovery_handler ::
    "('k, 's, 'p, 'r, 'c) http_server \<Rightarrow> ('c, 's, 'r) http_env \<Rightarrow> recovery_route \<Rightarrow> http_request \<Rightarrow> http_response \<Rightarrow>
     ('c, 's, 'r) http_world \<Rightarrow> ('c, 's, 'r) http_handled" where
  "recovery_handler S env active_route request = guarded S env False request (\<lambda>identity _. active_handler S env identity)"
| "recovery_handler S env (snapshot_route gameId) request =
     guarded S env False request (\<lambda>identity _. snapshot_handler S env gameId identity)"

definition recovery_request ::
    "('k, 's, 'p, 'r, 'c) http_server \<Rightarrow> ('c, 's, 'r) http_env \<Rightarrow> recovery_route \<Rightarrow> http_request \<Rightarrow>
     ('c, 's, 'r) http_world \<Rightarrow> http_response \<times> reset_outputs \<times> ('c, 's, 'r) http_world" where
  "recovery_request S env route request w =
     finish_response recovery_filter
       (recovery_handler S env route request (begin_response 200 (correlate request (hx_uuid env))) w)"

section \<open>The health controller\<close>

record DependencyCheck =
  dc_up :: bool
  dc_latencyMs :: int

definition isLoopback :: "http_request \<Rightarrow> bool" where
  "isLoopback request \<longleftrightarrow>
     (case rq_ip request of Some ip \<Rightarrow> ip | None \<Rightarrow> (case rq_remoteAddress request of Some address \<Rightarrow> address | None \<Rightarrow> []))
       \<in> set [''127.0.0.1'', ''::1'', ''::ffff:127.0.0.1'']"

definition isMetricsAuthorized :: "string option \<Rightarrow> http_request \<Rightarrow> bool" where
  "isMetricsAuthorized expected request \<longleftrightarrow>
     isLoopback request \<or>
     (case (expected, rh_authorization (rq_headers request)) of
        (Some token, Some authorization) \<Rightarrow> starts_with ''Bearer '' authorization \<and> drop (length ''Bearer '') authorization = token
      | _ \<Rightarrow> False)"

text \<open>The status and the text; \<open>rendered\<close> is what the metrics give, and an exception of theirs answers 500.\<close>

definition metricsEndpoint :: "bool \<Rightarrow> string option \<Rightarrow> http_request \<Rightarrow> string + string \<Rightarrow> int \<times> string" where
  "metricsEndpoint production expected request rendered =
     (if production \<and> \<not> isMetricsAuthorized expected request then (403, [])
      else (case rendered of Inl _ \<Rightarrow> (500, []) | Inr text \<Rightarrow> (200, text)))"

fun state_text :: "ApplicationState \<Rightarrow> string" where
  "state_text app_starting = ''starting''"
| "state_text app_ready = ''ready''"
| "state_text app_draining = ''draining''"

definition check_json :: "DependencyCheck \<Rightarrow> json" where
  "check_json c = JObj [(''latencyMs'', JNum (dc_latencyMs c)), (''status'', JStr (if dc_up c then ''up'' else ''down''))]"

definition readiness :: "ApplicationLifecycleService \<Rightarrow> DependencyCheck \<Rightarrow> DependencyCheck \<Rightarrow> int \<times> json" where
  "readiness L db redis =
     (let ready = isReady L \<and> dc_up db \<and> dc_up redis in
      (if ready then 200 else 503,
       JObj [(''deps'', JObj [(''db'', check_json db), (''redis'', check_json redis)]),
         (''state'', JStr (state_text (al_state L))), (''status'', JStr (if ready then ''ok'' else ''unavailable''))]))"

end
