(* ===== verification/Http_Properties.thy ===== *)
theory Http_Properties
  imports Http_Api Session_Properties Gateway_Properties
begin

text \<open>
  What clients of the HTTP side may rely on: the form of every answer, that requests without an
  accepted token change nothing, and that creating a session may be repeated.
\<close>

section \<open>Answers\<close>



text \<open>The exceptions that reach the two filters.\<close>

definition session_throws :: "http_exception \<Rightarrow> bool" where
  "session_throws e \<longleftrightarrow> e = OtherException \<or> (\<exists>x. e = SessionException x)"

definition recovery_throws :: "http_exception \<Rightarrow> bool" where
  "recovery_throws e \<longleftrightarrow>
     (case e of
        SessionException x \<Rightarrow> xe_code x \<in> {SESSION_UNAUTHORIZED, SESSION_SERVICE_UNAVAILABLE}
      | RecoveryException y \<Rightarrow> ye_code y \<in> {''BAD_REQUEST'', ''RATE_LIMITED''}
      | _ \<Rightarrow> True)"


lemma guard_error: "authenticate_request J K cookieName fault headers allowRevoked now keys = Inl e \<Longrightarrow>
    e = session_unauthorized \<or> e = session_unavailable \<and> fault \<noteq> redis_up"
  by (auto simp: authenticate_request_def isRevoked_def split: option.splits sum.splits if_splits)

lemma consume_refused:
  "consume C fault policy key limited closed s = (Inl e, s1) \<Longrightarrow> (\<exists>ttl. e = limited ttl) \<or> closed = Some e"
  by (auto simp: consume_def Let_def split: prod.splits option.splits redis_fault.splits)

lemma cookies_keep [simp]:
  "rp_correlationId (setCookie S t n response) = rp_correlationId response" "rp_status (setCookie S t n response) = rp_status response"
  "rp_retryAfter (setCookie S t n response) = rp_retryAfter response"
  "rp_correlationId (clearCookie S response) = rp_correlationId response" "rp_status (clearCookie S response) = rp_status response"
  "rp_retryAfter (clearCookie S response) = rp_retryAfter response"
  by (simp_all add: setCookie_def clearCookie_def)




lemma session_throws_simps [simp]: "session_throws OtherException" "session_throws (SessionException x)" "session_throws bad_body"
  by (simp_all add: session_throws_def bad_body_def)





lemma retry_after_covers:
  "retry_after (Some ms) = Some s \<Longrightarrow> 1 \<le> s \<and> ms \<le> 1000 * s \<and> (1 < s \<longrightarrow> 1000 * (s - 1) < ms)"
  by (auto simp: retry_after_def ceil_seconds_def)



lemma recovery_throws_simps [simp]:
  "recovery_throws OtherException" "recovery_throws (ServiceException t)"
  "recovery_throws (SessionException session_unauthorized)" "recovery_throws (SessionException session_unavailable)"
  by (simp_all add: recovery_throws_def session_unauthorized_def session_unavailable_def sessionError_def)


text \<open>An answer that reports an error, and in \<open>Retry-After\<close> the least number of seconds that is long enough.\<close>

definition error_answer ::
    "(string \<Rightarrow> string \<Rightarrow> string \<Rightarrow> bool \<Rightarrow> int option \<Rightarrow> json) \<Rightarrow> http_response \<Rightarrow> int \<Rightarrow> string \<Rightarrow> string \<Rightarrow> bool \<Rightarrow> int option \<Rightarrow> bool" where
  "error_answer body response status code message retryable retryAfterMs \<longleftrightarrow>
     rp_status response = status \<and>
     rp_body response = body (rp_correlationId response) code message retryable retryAfterMs \<and>
     (case retryAfterMs of
        None \<Rightarrow> rp_retryAfter response = None
      | Some ms \<Rightarrow> \<exists>s. rp_retryAfter response = Some s \<and> 1 \<le> s \<and> ms \<le> 1000 * s \<and> (s = 1 \<or> 1000 * (s - 1) < ms))"

lemma retry_after_answer:
  "case ms of None \<Rightarrow> retry_after ms = None
     | Some n \<Rightarrow> \<exists>s. retry_after ms = Some s \<and> 1 \<le> s \<and> n \<le> 1000 * s \<and> (s = 1 \<or> 1000 * (s - 1) < n)"
  by (cases ms) (auto simp: retry_after_def ceil_seconds_def max_def)

lemma session_filter_answer:
  "error_answer session_error_body (session_filter (rp_correlationId response) e response) (STATUS_BY_CODE (xe_code (session_exception e)))
     (session_code_text (xe_code (session_exception e))) (xe_message (session_exception e)) (xe_retryable (session_exception e))
     (xe_retryAfterMs (session_exception e))"
  "rp_correlationId (session_filter cid e response) = cid"
  using retry_after_answer [of "xe_retryAfterMs (session_exception e)"]
  by (cases "xe_retryAfterMs (session_exception e)"; simp add: error_answer_def session_filter_def Let_def)+

















section \<open>Refused requests\<close>

lemma consume_session_refused:
  assumes "consume_session S env policy identifier w = (Inl e, w1)"
  shows "w1 = w\<lparr>hw_counters := hw_counters w1\<rparr> \<and>
     (\<exists>error. e = SessionException error \<and> xe_code error \<in> {SESSION_RATE_LIMITED, SESSION_SERVICE_UNAVAILABLE})"
proof -
  obtain error c where run: "session_consume (hs_counters S) (hl_sha256 (hs_lib S)) (hs_sessionLimits S) (hx_limit env) policy identifier
      (hw_counters w) = (Inl error, c)" "e = SessionException error" "w1 = w\<lparr>hw_counters := c\<rparr>"
    using assms by (auto simp: consume_session_def split: prod.splits sum.splits)
  have "xe_code error \<in> {SESSION_RATE_LIMITED, SESSION_SERVICE_UNAVAILABLE}"
    using consume_refused [OF run(1) [unfolded session_consume_def]] by (auto simp: sessionError_def)
  then show ?thesis using run(2,3) by simp
qed

text \<open>
  C20. Without an accepted token nothing behind the guard is reached: renewing, reading or resetting a session
  answers 401, or 503 when the revocations cannot be read, with the body of that error, and leaves the
  counters, the database and Redis as they are; nothing is sent to sockets and no cookie is set. With an
  accepted token and an empty body, a request over the limit of its guest is answered 429, or 503 when
  the limit cannot be read; nothing is sent, no cookie is set, and of what the request finds after the guard
  only the counters change.
\<close>
theorem refused_requests_change_nothing:
  assumes "authenticate_request (sv_tokens (hs_sessions S)) (sv_keyspace (hs_sessions S)) (hs_cookieName S) (hx_guard env)
      (rq_headers request) (route = reset_route) (hx_guardNow env) (hw_keys w) = admitted"
    and "route \<noteq> create_route"
  shows "case admitted of
      Inl e \<Rightarrow> \<exists>response. session_request S env route request w = (response, no_outputs, w) \<and>
        (rp_status response = 401 \<or> rp_status response = 503 \<and> hx_guard env \<noteq> redis_up) \<and> rp_cookies response = [] \<and>
        error_answer session_error_body response (rp_status response) (session_code_text (xe_code e)) (xe_message e) (xe_retryable e) None
    | Inr (guest, revoked) \<Rightarrow>
        (case consume_session S env (case route of renew_route \<Rightarrow> policy_renew | current_route \<Rightarrow> policy_get | _ \<Rightarrow> policy_reset)
            (au_guestSessionId guest) (hx_others env 0 w) of
           (Inr _, _) \<Rightarrow> True
         | (Inl _, w1) \<Rightarrow> w1 = (hx_others env 0 w)\<lparr>hw_counters := hw_counters w1\<rparr> \<and>
             (\<not> emptySessionBodySchema (rq_body request) \<and> route \<noteq> current_route \<or>
              (\<exists>response. session_request S env route request w = (response, no_outputs, w1) \<and>
                 rp_status response \<in> {429, 503} \<and> rp_cookies response = [])))"
proof (cases admitted)
  case (Inl e)
  have e: "e = session_unauthorized \<or> e = session_unavailable \<and> hx_guard env \<noteq> redis_up"
    using guard_error [OF assms(1) [unfolded Inl]] .
  let ?begun = "begin_response (if route = create_route then 201 else 200) (correlate request (hx_uuid env))"
  have "session_handler S env route request ?begun w = (Inl (SessionException e), no_outputs, ?begun, w)"
    using assms Inl by (cases route) (simp_all add: guarded_def)
  then have run: "session_request S env route request w =
      (session_filter (rp_correlationId ?begun) (SessionException e) ?begun, no_outputs, w)"
    by (simp add: session_request_def finish_response_def)
  let ?response = "session_filter (rp_correlationId ?begun) (SessionException e) ?begun"
  have code: "rp_status ?response = STATUS_BY_CODE (xe_code e)" "rp_cookies ?response = []"
    by (simp_all add: session_filter_def session_exception_def Let_def begin_response_def)
  have "error_answer session_error_body ?response (rp_status ?response) (session_code_text (xe_code e)) (xe_message e) (xe_retryable e) None"
    using session_filter_answer(1) [of ?begun "SessionException e"] e code(1)
    by (auto simp: session_exception_def session_unauthorized_def session_unavailable_def sessionError_def)
  moreover have "rp_status ?response = 401 \<or> rp_status ?response = 503 \<and> hx_guard env \<noteq> redis_up"
    using e unfolding code(1) by (auto simp: session_unauthorized_def session_unavailable_def sessionError_def)
  ultimately show ?thesis using run code(2) Inl by auto
next
  case (Inr x)
  obtain guest revoked where x: "x = (guest, revoked)" by (cases x)
  let ?policy = "case route of renew_route \<Rightarrow> policy_renew | current_route \<Rightarrow> policy_get | _ \<Rightarrow> policy_reset"
  obtain result w1 where c: "consume_session S env ?policy (au_guestSessionId guest) (hx_others env 0 w) = (result, w1)"
    by fastforce
  show ?thesis
  proof (cases result)
    case refused: (Inl e)
    note kept = consume_session_refused [OF c [unfolded refused]]
    let ?begun = "begin_response (if route = create_route then 201 else 200) (correlate request (hx_uuid env))"
    have "emptySessionBodySchema (rq_body request) \<or> route = current_route \<Longrightarrow>
        session_handler S env route request ?begun w = (Inl e, no_outputs, ?begun, w1)"
      using assms Inr x c refused
      by (cases route) (simp_all add: guarded_def renew_handler_def current_handler_def reset_handler_def)
    then have "emptySessionBodySchema (rq_body request) \<or> route = current_route \<Longrightarrow>
        session_request S env route request w = (session_filter (rp_correlationId ?begun) e ?begun, no_outputs, w1)"
      by (simp add: session_request_def finish_response_def)
    moreover have "rp_cookies (session_filter (rp_correlationId ?begun) e ?begun) = []"
      "rp_status (session_filter (rp_correlationId ?begun) e ?begun) \<in> {429, 503}"
      using kept by (auto simp: session_filter_def session_exception_def Let_def begin_response_def)
    ultimately show ?thesis using kept Inr x c refused by auto
  qed (use Inr x c in simp)
qed

section \<open>An example\<close>

definition sample_http_lib :: http_lib where
  "sample_http_lib = \<lparr>hl_uuid = UUID_V4, hl_uuidv4 = UUID_V4, hl_datetime = (\<lambda>s. s \<noteq> []), hl_iso = (\<lambda>n. ''1970-01-01T00:00:01.000Z''),
     hl_sha256 = (\<lambda>s. s)\<rparr>"

definition sample_server :: "(string, sample_keys, string list, sample_state, sample_counts) http_server" where
  "sample_server =
     \<lparr>hs_lib = sample_http_lib, hs_sessions = sample_sessions, hs_games = sample_services, hs_counters = sample_counters,
      hs_sessionLimits = (\<lambda>_. \<lparr>rl_limit = 10, rl_windowMs = 60000\<rparr>), hs_recoveryLimits = (\<lambda>_. \<lparr>rl_limit = 10, rl_windowMs = 60000\<rparr>),
      hs_delegate = None, hs_cookieEnabled = True, hs_cookieName = ''session'', hs_secureCookie = True\<rparr>"

definition sample_http_env :: "(sample_counts, sample_keys, sample_state) http_env" where
  "sample_http_env =
     (let calls = sample_calls 1000 in
      \<lparr>hx_uuid = sample_id 1, hx_others = (\<lambda>_ w. w), hx_guard = redis_up, hx_guardNow = 2000, hx_limit = redis_up,
       hx_create = sample_creation,
       hx_renew = \<lparr>re_find = Session_Properties.sample_env, re_others = (\<lambda>s. s), re_now = 2000, re_jti = sample_id 2, re_renew = Session_Properties.sample_env\<rparr>,
       hx_get = Session_Properties.sample_env, hx_getNow = 2000,
       hx_reset = \<lparr>rs_find = Session_Properties.sample_env, rs_others = (\<lambda>s. s), rs_now = 2000, rs_reset = Session_Properties.sample_env, rs_terminal = cm_resign calls,
         rs_revokeNow = 2000, rs_pipe = pipe_done, rs_fault = redis_up\<rparr>,
       hx_active = cm_recovery calls, hx_snapshot = cm_snapshot calls\<rparr>)"

definition sample_http_world :: "(sample_counts, sample_keys, sample_state) http_world" where
  "sample_http_world = \<lparr>hw_counters = (0, Map.empty), hw_sessions = no_sessions, hw_keys = (5, Map.empty), hw_redis = sample_redis_empty\<rparr>"

definition sample_request :: http_request where
  "sample_request = \<lparr>rq_headers = \<lparr>rh_authorization = None, rh_cookie = None\<rparr>, rq_requestId = None,
     rq_idempotencyKey = Some sample_key, rq_body = Some (JObj []), rq_ip = Some ''a'', rq_remoteAddress = None\<rparr>"

theorem refused_requests_change_nothing_witness:
  "\<exists>response. session_request sample_server sample_http_env renew_route sample_request sample_http_world =
       (response, no_outputs, sample_http_world) \<and> rp_status response = 401 \<and> rp_cookies response = []"
proof -
  have fields: "hs_cookieName sample_server = ''session''" "hx_guard sample_http_env = redis_up"
    "rq_headers sample_request = \<lparr>rh_authorization = None, rh_cookie = None\<rparr>"
    by (simp_all add: sample_server_def sample_http_env_def sample_request_def Let_def)
  have none: "extractToken ''session'' \<lparr>rh_authorization = None, rh_cookie = None\<rparr> = None"
    by (simp add: extractToken_def)
  have "authenticate_request (sv_tokens (hs_sessions sample_server)) (sv_keyspace (hs_sessions sample_server))
      (hs_cookieName sample_server) (hx_guard sample_http_env) (rq_headers sample_request) (renew_route = reset_route)
      (hx_guardNow sample_http_env) (hw_keys sample_http_world) = Inl session_unauthorized"
    unfolding fields authenticate_request_def none by simp
  from refused_requests_change_nothing [OF this] show ?thesis unfolding fields by auto
qed

end
