(* ===== verification/Realtime_Authentication.thy ===== *)
theory Realtime_Authentication
  imports Realtime_Gateway Session_Tokens
begin

text \<open>
  \<open>src/src/modules/realtime/realtime-authentication.service.ts\<close>: what admits a socket. The state is
  Redis, once as the texts of the revocations (\<open>'s\<close>) and once as the sorted sets of presence and
  connections (\<open>'r\<close>). What other requests do between two calls is \<open>ha_others\<close>. \<open>toISOString\<close> throws for a date that
  is not valid.
\<close>

record ('k, 's, 'r) RealtimeAuthenticationService =
  ra_tokens :: "'k JwtTokenService"
  ra_revocations :: "'s keyspace"
  ra_redis :: "'r redis"
  ra_presence :: PresenceService
  ra_connections :: ConnectionRegistryService
  ra_addressHash :: "string \<Rightarrow> string"
  ra_instanceId :: string
  ra_iso :: "int \<Rightarrow> string"

text \<open>The handshake of a socket: its \<open>auth\<close> data, the address and the identifier of the socket.\<close>

record handshake =
  hk_auth :: json
  hk_address :: string
  hk_socketId :: string

record ('s, 'r) handshake_env =
  ha_others :: "nat \<Rightarrow> 's \<times> 'r \<Rightarrow> 's \<times> 'r"
  ha_now :: int
  ha_revocation :: redis_fault
  ha_acquire :: redis_fault
  ha_acquireAt :: int
  ha_presence :: redis_fault
  ha_presenceAt :: int
  ha_release :: redis_fault

definition handshakeAuthSchema :: schema where
  "handshakeAuthSchema = zstrict [req ''token'' (zstring (sized 1 8192))]"

definition handshake_unauthorized :: realtime_thrown where
  "handshake_unauthorized = Realtime (realtimeError UNAUTHORIZED ''Guest authentication is required'' False)"

definition clearHandshakeToken :: "handshake \<Rightarrow> handshake" where
  "clearHandshakeToken h =
     (case hk_auth h of JObj fs \<Rightarrow> h\<lparr>hk_auth := JObj (filter (\<lambda>(k, _). k \<noteq> ''token'') fs)\<rparr> | _ \<Rightarrow> h)"

definition socket_identity :: "('k, 's, 'r) RealtimeAuthenticationService \<Rightarrow> AuthenticatedGuest \<Rightarrow> int \<Rightarrow> AuthenticatedSocketIdentity" where
  "socket_identity A guest expiresAt =
     \<lparr>id_avatar = au_avatarKey guest, id_expiresAt = ra_iso A expiresAt, id_guestSessionId = au_guestSessionId guest,
      id_name = au_name guest\<rparr>"

definition socket_member :: "('k, 's, 'r) RealtimeAuthenticationService \<Rightarrow> handshake \<Rightarrow> string" where
  "socket_member A h = ra_instanceId A @ '':'' @ hk_socketId h"

text \<open>
  The connection is counted before the guest is marked present, and given back when that fails; what goes
  wrong in giving it back is ignored.
\<close>

definition admit_socket ::
    "('k, 's, 'r) RealtimeAuthenticationService \<Rightarrow> ('s, 'r) handshake_env \<Rightarrow> AuthenticatedGuest \<Rightarrow> handshake \<Rightarrow> 's \<times> 'r \<Rightarrow>
     (realtime_thrown + unit) \<times> 's \<times> 'r" where
  "admit_socket A env guest h w =
     (let addressHash = ra_addressHash A (hk_address h); member = socket_member A h;
          (keys, redis) = ha_others env 0 w in
      case acquire (ra_redis A) (ra_connections A) (ha_acquire env) addressHash member (ha_acquireAt env) redis of
        (Inl e, r1) \<Rightarrow> (Inl e, keys, r1)
      | (Inr _, r1) \<Rightarrow>
          (let (keys1, r2) = ha_others env 1 (keys, r1) in
           case markConnected (ra_redis A) (ra_presence A) (ha_presence env) (au_guestSessionId guest) member (ha_presenceAt env) r2 of
             (Inl e, r3) \<Rightarrow>
               (Inl (Service (RealtimeErr e)), keys1, snd (release_connection (ra_redis A) (ha_release env) addressHash member r3))
           | (Inr _, r3) \<Rightarrow> (Inr (), keys1, r3)))"

definition handshake_token :: "handshake \<Rightarrow> string" where
  "handshake_token h = (case field ''token'' (hk_auth h) of JStr s \<Rightarrow> s | _ \<Rightarrow> [])"

definition authenticate_socket ::
    "('k, 's, 'r) RealtimeAuthenticationService \<Rightarrow> ('s, 'r) handshake_env \<Rightarrow> handshake \<Rightarrow> string \<Rightarrow> RealtimeSocket \<Rightarrow> 's \<times> 'r \<Rightarrow>
     (realtime_thrown + unit) \<times> handshake \<times> RealtimeSocket \<times> 's \<times> 'r" where
  "authenticate_socket A env h cid socket w =
     (if \<not> handshakeAuthSchema (hk_auth h) then (Inl handshake_unauthorized, h, socket, w)
      else
        (let token = handshake_token h; h1 = clearHandshakeToken h in
         case verify_token (ra_tokens A) token (ha_now env) of
           Inl _ \<Rightarrow> (Inl handshake_unauthorized, h1, socket, w)
         | Inr guest \<Rightarrow>
             (case isRevoked (ra_revocations A) (ha_revocation env) guest (fst w) of
                Inl _ \<Rightarrow> (Inl (Service (RealtimeErr RealtimeRedisUnavailableError)), h1, socket, w)
              | Inr revoked \<Rightarrow>
                  if revoked then (Inl handshake_unauthorized, h1, socket, w)
                  else
                    (case getTime (au_expiresAt guest) of
                       None \<Rightarrow> (Inl OtherError, h1, socket, w)
                     | Some expiresAt \<Rightarrow>
                    (case admit_socket A env guest h1 w of
                       (Inl e, w1) \<Rightarrow> (Inl e, h1, socket, w1)
                     | (Inr _, w1) \<Rightarrow>
                         (Inr (), h1,
                          socket\<lparr>so_identity := Some (socket_identity A guest expiresAt), so_addressHash := Some (ra_addressHash A (hk_address h1)),
                            so_correlationId := Some cid, so_socketMember := Some (socket_member A h1)\<rparr>, w1))))))"

end
