(* ===== verification/Authentication_Properties.thy ===== *)
theory Authentication_Properties
  imports Realtime_Authentication Token_Properties
begin

text \<open>
  Who gets a socket: the conditions of \<open>authenticate_socket\<close>, and what it leaves in Redis.
\<close>

section \<open>Who is admitted\<close>

definition zset_key :: "'r redis \<Rightarrow> string \<Rightarrow> 'r \<Rightarrow> bool" where
  "zset_key R k r \<longleftrightarrow> rd_get R k r = None \<and> rd_hgetall R k r = []"

definition live_members :: "'r redis \<Rightarrow> string \<Rightarrow> int \<Rightarrow> 'r \<Rightarrow> (string \<times> int) list" where
  "live_members R k t r = filter (\<lambda>x. t < snd x) (rd_zrange R k r)"

lemma zinsert_length: "length (zinsert sc m xs) = Suc (length (zremove m xs))"
  by (simp add: zinsert_def)

lemma zremove_length: "zset xs \<Longrightarrow> m \<in> fst ` set xs \<Longrightarrow> Suc (length (zremove m xs)) = length xs"
  by (induction xs) (auto simp: zset_Cons zremove_def filter_id_conv)

lemma map_of_zinsert: "zset xs \<Longrightarrow> map_of (zinsert sc m xs) m = Some sc"
  using zset_zinsert [of xs sc m] by (simp add: zset_def set_zinsert)

text \<open>There is a place for a socket that has one already, or if the live members are fewer than the limit.\<close>

definition has_room :: "int \<Rightarrow> string \<Rightarrow> (string \<times> int) list \<Rightarrow> bool" where
  "has_room limit m places \<longleftrightarrow> m \<in> fst ` set places \<or> int (length places) < limit"

text \<open>One script: the live members and the new one, unless there is no place for it; nothing if Redis did not get it.\<close>

lemma acquire_effect:
  assumes R: "redis_ok R" and "0 < cx_ttlMs cx" and "zset_key R (connectionKey a) r"
    and "acquire R cx fault a m t r = (result, r')"
    and "places = live_members R (connectionKey a) t r"
  shows "result = Inr () \<longleftrightarrow> fault = redis_up \<and> has_room (cx_connectionLimit cx) m places"
    "rd_zrange R (connectionKey a) r' =
      (if fault = redis_refused then rd_zrange R (connectionKey a) r
       else if has_room (cx_connectionLimit cx) m places then zinsert (t + cx_ttlMs cx) m places else places)"
    "k \<noteq> connectionKey a \<Longrightarrow> rd_zrange R k r' = rd_zrange R k r"
    "rd_get R k r' = rd_get R k r" "rd_hgetall R k r' = rd_hgetall R k r"
proof -
  let ?k = "connectionKey a"
  note laws = redis_zremrangebyscore [OF R] redis_zadd [OF R] redis_pexpire [OF R assms(2)]
  have key: "rd_get R ?k r = None" "rd_hgetall R ?k r = []" using assms(3) by (simp_all add: zset_key_def)
  note facts = assms(4,5) key
  show "result = Inr () \<longleftrightarrow> fault = redis_up \<and> has_room (cx_connectionLimit cx) m places"
    "rd_zrange R ?k r' = (if fault = redis_refused then rd_zrange R ?k r
       else if has_room (cx_connectionLimit cx) m places then zinsert (t + cx_ttlMs cx) m places else places)"
    "k \<noteq> ?k \<Longrightarrow> rd_zrange R k r' = rd_zrange R k r" "rd_get R k r' = rd_get R k r" "rd_hgetall R k r' = rd_hgetall R k r"
    using facts
    by (cases fault; auto simp: acquire_def eval_script_def acquire_lua_def Let_def laws live_members_def has_room_def rd_zscore_def
        rd_zcard_def map_of_eq_None_iff split: if_splits)+
qed

lemma markConnected_up:
  assumes R: "redis_ok R" and "0 < ps_keyTtlMs ps" and "0 < ps_queueGuardTtlMs ps" and "zset_key R (presenceKey g) r"
  shows "\<exists>n. fst (markConnected R ps redis_up g m t r) = Inr n"
    "rd_zrange R (presenceKey g) (snd (markConnected R ps redis_up g m t r)) =
       zinsert (t + ps_presenceTtlMs ps) m (live_members R (presenceKey g) t r)"
    "k \<noteq> presenceKey g \<Longrightarrow> rd_zrange R k (snd (markConnected R ps redis_up g m t r)) = rd_zrange R k r"
  using assms(4)
  by (simp_all add: markConnected_def refresh_def eval_script_def Let_def zset_key_def live_members_def
      redis_zremrangebyscore [OF R] redis_zadd [OF R] redis_pexpire [OF R assms(2)] redis_pexpire [OF R assms(3)])

lemma markConnected_keeps:
  assumes R: "redis_ok R" and "0 < ps_keyTtlMs ps" and "0 < ps_queueGuardTtlMs ps" and "zset_key R (presenceKey g) r"
  shows "k \<noteq> presenceKey g \<Longrightarrow> rd_zrange R k (snd (markConnected R ps fault g m t r)) = rd_zrange R k r"
    "rd_get R k (snd (markConnected R ps fault g m t r)) = rd_get R k r"
    "rd_hgetall R k (snd (markConnected R ps fault g m t r)) = rd_hgetall R k r"
    "(\<exists>n. fst (markConnected R ps fault g m t r) = Inr n) \<longleftrightarrow> fault = redis_up"
  using assms(4)
  by (cases fault; simp add: markConnected_def refresh_def eval_script_def Let_def zset_key_def
      redis_zremrangebyscore [OF R] redis_zadd [OF R] redis_pexpire [OF R assms(2)] redis_pexpire [OF R assms(3)])+

lemma connection_key_apart [simp]: "connectionKey a \<noteq> presenceKey g" "presenceKey g \<noteq> connectionKey a"
  by (simp_all add: connectionKey_def presenceKey_def)

text \<open>
  What a refused socket leaves of its place: none, and no other is new; or the place it took until its time to live is
  over, when the reply to taking it was lost or Redis did not get the script that gives it back.
\<close>

definition place_given_back :: "'r redis \<Rightarrow> string \<Rightarrow> string \<Rightarrow> 'r \<Rightarrow> 'r \<Rightarrow> bool" where
  "place_given_back R key m r r' \<longleftrightarrow>
     set (rd_zrange R key r') \<subseteq> set (rd_zrange R key r) \<and>
     (rd_zscore R key m r' = None \<or> rd_zrange R key r' = rd_zrange R key r)"

definition place_left :: "('s, 'r) handshake_env \<Rightarrow> int \<Rightarrow> 'r redis \<Rightarrow> string \<Rightarrow> string \<Rightarrow> 'r \<Rightarrow> bool" where
  "place_left env ttl R key m r' \<longleftrightarrow>
     (ha_acquire env = redis_lost \<or> ha_presence env \<noteq> redis_up \<and> ha_release env = redis_refused) \<and>
     rd_zscore R key m r' = Some (ha_acquireAt env + ttl)"

lemma zremove_zinsert_members: "x \<in> set (zremove m (zinsert sc m xs)) \<longleftrightarrow> x \<in> set xs \<and> fst x \<noteq> m"
  by (auto simp: zremove_def set_zinsert)

text \<open>What \<open>admit_socket\<close> does when nothing else happens in between.\<close>

lemma admit_socket_effect:
  fixes A :: "('k, 's, 'r) RealtimeAuthenticationService"
  defines "R \<equiv> ra_redis A" and "cx \<equiv> ra_connections A" and "ps \<equiv> ra_presence A"
  assumes R: "redis_ok R" and ttls: "0 < cx_ttlMs cx" "0 < ps_keyTtlMs ps" "0 < ps_queueGuardTtlMs ps"
    and conn: "zset_key R (connectionKey (ra_addressHash A (hk_address h))) r"
    and pres: "zset_key R (presenceKey (au_guestSessionId guest)) r"
    and calm: "ha_others env = (\<lambda>_ w. w)"
    and run: "admit_socket A env guest h (keys, r) = (result, keys', r')"
    and key: "key = connectionKey (ra_addressHash A (hk_address h))" and places: "places = live_members R key (ha_acquireAt env) r"
  shows "result = Inr () \<longleftrightarrow> ha_acquire env = redis_up \<and> ha_presence env = redis_up \<and>
      has_room (cx_connectionLimit cx) (socket_member A h) places"
    "keys' = keys"
    "result = Inr () \<Longrightarrow> rd_zrange R key r' = zinsert (ha_acquireAt env + cx_ttlMs cx) (socket_member A h) places"
    "result = Inr () \<Longrightarrow> rd_zrange R (presenceKey (au_guestSessionId guest)) r' =
      zinsert (ha_presenceAt env + ps_presenceTtlMs ps) (socket_member A h)
        (live_members R (presenceKey (au_guestSessionId guest)) (ha_presenceAt env) r)"
    "result \<noteq> Inr () \<Longrightarrow> place_given_back R key (socket_member A h) r r' \<or>
      place_left env (cx_ttlMs cx) R key (socket_member A h) r'"
proof -
  let ?a = "ra_addressHash A (hk_address h)" and ?m = "socket_member A h" and ?g = "au_guestSessionId guest"
  let ?t = "ha_acquireAt env"
  obtain first r1 where acq: "acquire R cx (ha_acquire env) ?a ?m ?t r = (first, r1)" by fastforce
  note one = acquire_effect [OF R ttls(1) conn acq places [unfolded key], folded key]
  have key1: "zset_key R key r1" "zset_key R (presenceKey ?g) r1"
    using conn pres one(4,5) by (simp_all add: zset_key_def key)
  note keeps = markConnected_keeps [OF R ttls(2,3) key1(2), where fault = "ha_presence env" and m = ?m and t = "ha_presenceAt env"]
  let ?marked = "markConnected R ps (ha_presence env) ?g ?m (ha_presenceAt env) r1"
  let ?gone = "snd (release_connection R (ha_release env) ?a ?m (snd ?marked))"
  have outcome: "result = (case first of Inl e \<Rightarrow> Inl e | Inr _ \<Rightarrow>
        (case fst ?marked of Inl e \<Rightarrow> Inl (Service (RealtimeErr e)) | Inr _ \<Rightarrow> Inr ()))"
    "r' = (case first of Inl e \<Rightarrow> r1 | Inr _ \<Rightarrow> (case fst ?marked of Inl e \<Rightarrow> ?gone | Inr _ \<Rightarrow> snd ?marked))" "keys' = keys"
    using run calm acq
    by (auto simp: admit_socket_def Let_def R_def cx_def ps_def split: sum.splits prod.splits)
  show "keys' = keys" by (rule outcome(3))
  show iff: "result = Inr () \<longleftrightarrow> ha_acquire env = redis_up \<and> ha_presence env = redis_up \<and> has_room (cx_connectionLimit cx) ?m places"
    using one(1) keeps(4) outcome(1) by (auto split: sum.splits)
  have other: "presenceKey ?g \<noteq> key" by (simp add: key)
  show "rd_zrange R key r' = zinsert (?t + cx_ttlMs cx) ?m places" if "result = Inr ()"
    using that outcome(1,2) one(2) iff keeps(1) [of key] by (auto simp: key split: sum.splits)
  show "rd_zrange R (presenceKey ?g) r' = zinsert (ha_presenceAt env + ps_presenceTtlMs ps) ?m
      (live_members R (presenceKey ?g) (ha_presenceAt env) r)" if "result = Inr ()"
  proof -
    have "r' = snd ?marked" "ha_presence env = redis_up" using that outcome(1,2) iff by (auto split: sum.splits)
    then show ?thesis
      using markConnected_up(2) [OF R ttls(2,3) key1(2)] one(3) [OF other] by (simp add: live_members_def)
  qed
  have sorted: "zset places" unfolding places live_members_def by (intro zset_filter redis_zset R)
  have taken: "map_of (zinsert (?t + cx_ttlMs cx) ?m places) ?m = Some (?t + cx_ttlMs cx)" by (rule map_of_zinsert [OF sorted])
  have subset: "set places \<subseteq> set (rd_zrange R key r)" by (auto simp: places live_members_def)
  show "place_given_back R key ?m r r' \<or> place_left env (cx_ttlMs cx) R key ?m r'" if "result \<noteq> Inr ()"
  proof (cases first)
    case (Inl e)
    then have r': "r' = r1" using outcome(2) by simp
    show ?thesis
    proof (cases "ha_acquire env = redis_refused \<or> \<not> has_room (cx_connectionLimit cx) ?m places")
      case True
      then show ?thesis
        using one(2) subset unfolding r' place_given_back_def by (auto simp: rd_zscore_def has_room_def map_of_eq_None_iff)
    next
      case False
      then have "ha_acquire env = redis_lost" using one(1) Inl by (cases "ha_acquire env") auto
      then show ?thesis using False one(2) taken unfolding r' place_left_def by (simp add: rd_zscore_def)
    qed
  next
    case (Inr u)
    then have up: "ha_acquire env = redis_up" "has_room (cx_connectionLimit cx) ?m places" using one(1) by auto
    have "\<not> (\<exists>n. fst ?marked = Inr n)" using that Inr outcome(1) by auto
    then obtain e where e: "fst ?marked = Inl e" by (cases "fst ?marked") auto
    then have r': "r' = ?gone" and failed: "ha_presence env \<noteq> redis_up" using outcome(2) Inr keeps(4) by auto
    have marked: "rd_zrange R key (snd ?marked) = zinsert (?t + cx_ttlMs cx) ?m places"
      using keeps(1) [of key] one(2) up by (simp add: key)
    have zkey: "rd_get R key (snd ?marked) = None" "rd_hgetall R key (snd ?marked) = []"
      using key1(1) keeps(2,3) by (simp_all add: zset_key_def)
    show ?thesis
    proof (cases "ha_release env = redis_refused")
      case True
      then have "r' = snd ?marked" by (simp add: r' release_connection_def eval_script_def)
      then show ?thesis using True failed marked taken by (simp add: place_left_def rd_zscore_def)
    next
      case False
      then have "r' = rd_zrem R key ?m (snd ?marked)"
        unfolding r' by (cases "ha_release env") (simp_all add: release_connection_def eval_script_def key)
      then have "rd_zrange R key r' = zremove ?m (zinsert (?t + cx_ttlMs cx) ?m places)"
        using marked redis_zrem [OF R zkey] by simp
      moreover have "x \<in> set (zremove ?m (zinsert (?t + cx_ttlMs cx) ?m places)) \<longleftrightarrow> x \<in> set places \<and> fst x \<noteq> ?m" for x
        by (rule zremove_zinsert_members)
      ultimately show ?thesis
        using subset by (auto simp: place_given_back_def rd_zscore_def map_of_eq_None_iff)
    qed
  qed
qed

lemma cleared_handshake [simp]:
  "hk_address (clearHandshakeToken h) = hk_address h" "socket_member A (clearHandshakeToken h) = socket_member A h"
  by (simp_all add: clearHandshakeToken_def socket_member_def split: json.split)

lemma cleared_token: "handshake_token (clearHandshakeToken h) = []"
proof -
  have "map_of (filter (\<lambda>(k, v). k \<noteq> ''token'') fs) ''token'' = None" for fs :: "(string \<times> json) list"
    by (auto simp: map_of_eq_None_iff)
  then show ?thesis by (auto simp: handshake_token_def clearHandshakeToken_def field_def split: json.split)
qed

lemma admitted_size:
  assumes "zset places" and "has_room limit m places"
  shows "int (length (zinsert sc m places)) \<le> max limit (int (length places))"
proof (cases "m \<in> fst ` set places")
  case True
  then show ?thesis using zremove_length [OF assms(1)] by (simp add: zinsert_length)
next
  case False
  then show ?thesis using assms(2) by (simp add: has_room_def zinsert_length zremove_absent)
qed

text \<open>The place and the presence of a socket that is admitted.\<close>

lemma admit_socket_scores:
  fixes A :: "('k, 's, 'r) RealtimeAuthenticationService"
  defines "R \<equiv> ra_redis A"
  assumes R: "redis_ok R" and places: "places = live_members R key (ha_acquireAt env) r"
    and room: "has_room limit (socket_member A h) places"
    and conn: "rd_zrange R key r' = zinsert (ha_acquireAt env + ttl) (socket_member A h) places"
    and pres: "rd_zrange R presence r' = zinsert sc (socket_member A h) (live_members R presence t r)"
  shows "rd_zscore R key (socket_member A h) r' = Some (ha_acquireAt env + ttl) \<and>
    rd_zscore R presence (socket_member A h) r' = Some sc \<and> rd_zcard R key r' \<le> max limit (int (length places))"
proof -
  have "zset places" "zset (live_members R presence t r)"
    unfolding places live_members_def by (intro zset_filter redis_zset R)+
  then show ?thesis using room by (simp add: rd_zscore_def rd_zcard_def conn pres map_of_zinsert admitted_size)
qed

text \<open>
  C19. Who is admitted, and what that costs. When nothing else happens in between, whatever fails, a socket is admitted
  exactly if its handshake holds nothing but a token, the token verifies and the check finds it not revoked, its address
  has a place left, or the socket already holds one, and Redis answered when the place was taken and the presence marked.
  It then has the identity of the token, holds a place until the time to live is over, is present, and the address holds
  no more places than the limit or than it held before. A socket that is refused gets no identity, and its place is given
  back, so the address holds no new one; the one exception is a place that stays until its time to live is over, when the
  reply to taking it was lost, or the presence failed and Redis did not get the script that gives the place back.
  The token is removed from every handshake that has the expected form, before it is verified; any other handshake is
  refused with its data as it is, nothing being read from it or changed.
\<close>
theorem socket_admission:
  fixes A :: "('k, 's, 'r) RealtimeAuthenticationService"
  assumes "redis_ok (ra_redis A)" and "0 < cx_ttlMs (ra_connections A)" and "0 < ps_keyTtlMs (ra_presence A)"
    and "0 < ps_queueGuardTtlMs (ra_presence A)"
    and "zset_key (ra_redis A) (connectionKey (ra_addressHash A (hk_address h))) r" and "\<forall>g. zset_key (ra_redis A) (presenceKey g) r"
    and "ha_others env = (\<lambda>_ w. w)"
    and "authenticate_socket A env h cid socket (keys, r) = (result, h', socket', keys', r')"
    and "key = connectionKey (ra_addressHash A (hk_address h))" and "places = live_members (ra_redis A) key (ha_acquireAt env) r"
  shows "(result = Inr () \<longleftrightarrow> handshakeAuthSchema (hk_auth h) \<and>
       (\<exists>guest. verify_token (ra_tokens A) (handshake_token h) (ha_now env) = Inr guest \<and>
          isRevoked (ra_revocations A) (ha_revocation env) guest keys = Inr False \<and> getTime (au_expiresAt guest) \<noteq> None \<and>
          ha_acquire env = redis_up \<and> ha_presence env = redis_up \<and>
          has_room (cx_connectionLimit (ra_connections A)) (socket_member A h) places)) \<and>
     (result = Inr () \<longrightarrow>
       (\<exists>guest expiresAt. verify_token (ra_tokens A) (handshake_token h) (ha_now env) = Inr guest \<and>
          so_identity socket' = Some (socket_identity A guest expiresAt) \<and>
          rd_zscore (ra_redis A) key (socket_member A h) r' = Some (ha_acquireAt env + cx_ttlMs (ra_connections A)) \<and>
          rd_zscore (ra_redis A) (presenceKey (au_guestSessionId guest)) (socket_member A h) r' =
            Some (ha_presenceAt env + ps_presenceTtlMs (ra_presence A)) \<and>
          rd_zcard (ra_redis A) key r' \<le> max (cx_connectionLimit (ra_connections A)) (int (length places)))) \<and>
     (result \<noteq> Inr () \<longrightarrow> socket' = socket \<and>
       (place_given_back (ra_redis A) key (socket_member A h) r r' \<or>
        place_left env (cx_ttlMs (ra_connections A)) (ra_redis A) key (socket_member A h) r')) \<and>
     (if handshakeAuthSchema (hk_auth h) then handshake_token h' = []
      else result = Inl handshake_unauthorized \<and> h' = h \<and> r' = r) \<and>
     keys' = keys"
proof (cases "handshakeAuthSchema (hk_auth h)")
  case False
  then show ?thesis
    using assms(8) by (auto simp: authenticate_socket_def handshake_unauthorized_def place_given_back_def)
next
  case schema: True
  let ?h = "clearHandshakeToken h" and ?R = "ra_redis A" and ?m = "socket_member A h"
  show ?thesis
  proof (cases "\<exists>guest expiresAt. verify_token (ra_tokens A) (handshake_token h) (ha_now env) = Inr guest \<and>
      isRevoked (ra_revocations A) (ha_revocation env) guest keys = Inr False \<and> getTime (au_expiresAt guest) = Some expiresAt")
    case False
    have "result \<noteq> Inr ()" "socket' = socket" "r' = r" "keys' = keys" "h' = ?h"
      using assms(8) schema False
      by (auto simp: authenticate_socket_def handshake_unauthorized_def Let_def split: sum.splits if_splits option.splits)
    moreover have "\<not> (\<exists>guest. verify_token (ra_tokens A) (handshake_token h) (ha_now env) = Inr guest \<and>
        isRevoked (ra_revocations A) (ha_revocation env) guest keys = Inr False \<and> getTime (au_expiresAt guest) \<noteq> None)"
      using False by blast
    ultimately show ?thesis using schema by (auto simp: cleared_token place_given_back_def)
  next
    case True
    then obtain guest expiresAt where ok: "verify_token (ra_tokens A) (handshake_token h) (ha_now env) = Inr guest"
      "isRevoked (ra_revocations A) (ha_revocation env) guest keys = Inr False" "getTime (au_expiresAt guest) = Some expiresAt"
      by blast
    obtain res k1 r1 where run: "admit_socket A env guest ?h (keys, r) = (res, k1, r1)" by (metis prod_cases3)
    have outcome: "(result = Inr () \<longleftrightarrow> res = Inr ()) \<and> h' = ?h \<and> keys' = k1 \<and> r' = r1 \<and>
        (result \<noteq> Inr () \<longrightarrow> socket' = socket) \<and> (result = Inr () \<longrightarrow> so_identity socket' = Some (socket_identity A guest expiresAt))"
      using assms(8) schema ok run by (auto simp: authenticate_socket_def Let_def split: sum.splits)
    note effect = admit_socket_effect [OF assms(1-4), of ?h r guest env keys res k1 r1 key places, unfolded cleared_handshake,
        OF assms(5) spec [OF assms(6)] assms(7) run assms(9,10)]
    have place: "result = Inr () \<longleftrightarrow> ha_acquire env = redis_up \<and> ha_presence env = redis_up \<and>
        has_room (cx_connectionLimit (ra_connections A)) ?m places"
      using outcome effect(1) by blast
    have scores: "rd_zscore ?R key ?m r' = Some (ha_acquireAt env + cx_ttlMs (ra_connections A)) \<and>
        rd_zscore ?R (presenceKey (au_guestSessionId guest)) ?m r' = Some (ha_presenceAt env + ps_presenceTtlMs (ra_presence A)) \<and>
        rd_zcard ?R key r' \<le> max (cx_connectionLimit (ra_connections A)) (int (length places))" if "result = Inr ()"
      using that outcome effect(1,3,4)
      by (intro admit_socket_scores [OF assms(1,10), where t = "ha_presenceAt env"]) simp_all
    have kept: "place_given_back ?R key ?m r r' \<or> place_left env (cx_ttlMs (ra_connections A)) ?R key ?m r'" if "result \<noteq> Inr ()"
      using that outcome effect(5) by simp
    have admitted: "result = Inr () \<longleftrightarrow> handshakeAuthSchema (hk_auth h) \<and>
         (\<exists>guest. verify_token (ra_tokens A) (handshake_token h) (ha_now env) = Inr guest \<and>
            isRevoked (ra_revocations A) (ha_revocation env) guest keys = Inr False \<and> getTime (au_expiresAt guest) \<noteq> None \<and>
            ha_acquire env = redis_up \<and> ha_presence env = redis_up \<and>
            has_room (cx_connectionLimit (ra_connections A)) ?m places)"
      using schema ok place by auto
    have token: "handshake_token h' = []" using outcome by (simp add: cleared_token)
    have identity: "so_identity socket' = Some (socket_identity A guest expiresAt)" if "result = Inr ()"
      using that outcome by blast
    have same: "socket' = socket" if "result \<noteq> Inr ()" using that outcome by blast
    have keys: "keys' = keys" using outcome effect(2) by simp
    show ?thesis
    proof (intro conjI impI)
      show "if handshakeAuthSchema (hk_auth h) then handshake_token h' = []
        else result = Inl handshake_unauthorized \<and> h' = h \<and> r' = r"
        using schema token by simp
      assume "result = Inr ()"
      then show "\<exists>guest expiresAt. verify_token (ra_tokens A) (handshake_token h) (ha_now env) = Inr guest \<and>
          so_identity socket' = Some (socket_identity A guest expiresAt) \<and>
          rd_zscore ?R key ?m r' = Some (ha_acquireAt env + cx_ttlMs (ra_connections A)) \<and>
          rd_zscore ?R (presenceKey (au_guestSessionId guest)) ?m r' = Some (ha_presenceAt env + ps_presenceTtlMs (ra_presence A)) \<and>
          rd_zcard ?R key r' \<le> max (cx_connectionLimit (ra_connections A)) (int (length places))"
        using ok(1) identity scores by blast
    qed (fact admitted keys | (rule same kept, assumption))+
  qed
qed

definition sample_authentication :: "(string, sample_keys, sample_state) RealtimeAuthenticationService" where
  "sample_authentication =
     \<lparr>ra_tokens = sample_tokens, ra_revocations = sample_keyspace, ra_redis = sample_redis,
      ra_presence = presence_config 45000 20000 120000, ra_connections = connection_config 1 45000 20000,
      ra_addressHash = (\<lambda>address. address), ra_instanceId = ''i'', ra_iso = (\<lambda>_. ''date'')\<rparr>"

definition sample_handshake_env :: "(sample_keys, sample_state) handshake_env" where
  "sample_handshake_env =
     \<lparr>ha_others = (\<lambda>_ w. w), ha_now = 5000000, ha_revocation = redis_up, ha_acquire = redis_up, ha_acquireAt = 5000001,
      ha_presence = redis_up, ha_presenceAt = 5000002, ha_release = redis_up\<rparr>"

definition sample_handshake :: handshake where
  "sample_handshake = \<lparr>hk_auth = JObj [(''token'', JStr sample_token)], hk_address = ''a'', hk_socketId = ''s''\<rparr>"

definition sample_fresh_socket :: RealtimeSocket where
  "sample_fresh_socket = \<lparr>so_addressHash = None, so_backpressureClosing = False, so_correlationId = None, so_identity = None,
     so_socketMember = None\<rparr>"

theorem socket_admission_witness:
  "\<exists>h' socket' r'. authenticate_socket sample_authentication sample_handshake_env sample_handshake ''c'' sample_fresh_socket
       ((1, Map.empty), sample_redis_empty) = (Inr (), h', socket', (1, Map.empty), r') \<and>
     so_identity socket' \<noteq> None \<and> rd_zscore sample_redis (connectionKey ''a'') ''i:s'' r' = Some 5065001 \<and>
     rd_zcard sample_redis (connectionKey ''a'') r' \<le> 1 \<and> handshake_token h' = []"
proof -
  let ?A = sample_authentication and ?env = sample_handshake_env and ?h = sample_handshake
  obtain result h' socket' keys' r' where run: "authenticate_socket ?A ?env ?h ''c'' sample_fresh_socket
      ((1, Map.empty), sample_redis_empty) = (result, h', socket', keys', r')"
    by (metis prod_cases5)
  have A: "ra_redis ?A = sample_redis" "ra_connections ?A = \<lparr>cx_connectionLimit = 1, cx_ttlMs = 65000\<rparr>" "ra_tokens ?A = sample_tokens"
    "ra_addressHash ?A (hk_address ?h) = ''a''" "socket_member ?A ?h = ''i:s''" "ra_revocations ?A = sample_keyspace"
    "0 < ps_keyTtlMs (ra_presence ?A)" "0 < ps_queueGuardTtlMs (ra_presence ?A)"
    by (simp_all add: sample_authentication_def connection_config_def presence_config_def sample_handshake_def socket_member_def)
  have env: "ha_others ?env = (\<lambda>_ w. w)" "ha_acquire ?env = redis_up" "ha_release ?env = redis_up" "ha_presence ?env = redis_up"
    "ha_now ?env = 5000000" "ha_acquireAt ?env = 5000001" "ha_revocation ?env = redis_up"
    by (simp_all add: sample_handshake_env_def)
  have empty: "rd_get sample_redis k sample_redis_empty = None" "rd_zrange sample_redis k sample_redis_empty = []"
    "rd_hgetall sample_redis k sample_redis_empty = []" for k
    by (simp_all add: sample_redis_def sample_redis_empty_def ss_lookup_def)
  have keys: "zset_key sample_redis k sample_redis_empty" for k by (simp add: zset_key_def empty)
  have ok: "redis_ok (ra_redis ?A)" "0 < cx_ttlMs (ra_connections ?A)"
    "zset_key (ra_redis ?A) (connectionKey (ra_addressHash ?A (hk_address ?h))) sample_redis_empty"
    "\<forall>g. zset_key (ra_redis ?A) (presenceKey g) sample_redis_empty"
    by (simp_all add: A sample_redis_ok keys)
  have token: "handshakeAuthSchema (hk_auth ?h)" "handshake_token ?h = sample_token"
    "verify_token sample_tokens sample_token 5000000 = Inr (token_identity sample_guest sample_claims)"
    "getTime (au_expiresAt (token_identity sample_guest sample_claims)) = Some 7201000"
    by code_simp+
  have free: "isRevoked sample_keyspace redis_up g (1, Map.empty) = Inr False" for g
    by (simp add: isRevoked_def sample_keyspace_def)
  have none: "live_members sample_redis (connectionKey ''a'') 5000001 sample_redis_empty = []"
    by (simp add: live_members_def empty)
  note facts = socket_admission [OF ok(1,2) A(7,8) ok(3,4) env(1) run refl refl, unfolded A env none]
  have admitted: "result = Inr ()" using facts token free by (auto simp: has_room_def)
  then show ?thesis using facts run by (auto split: option.splits)
qed

end
