(* ===== verification/Spec2Isabelle.thy ===== *)
theory Spec2Isabelle
  imports System_Properties Idempotency Status_Refinement Game_Adjudication Deadline_Service Wire_Properties
    Gateway_Properties Configuration_Properties Session_Properties Reconciliation_Properties
    Metrics_Properties Http_Properties Authentication_Properties
begin

text \<open>
  A verification development for the CluChess server, a NestJS program in TypeScript that lets
  guests play blitz chess: it issues guest sessions, pairs waiting guests, keeps the games in
  PostgreSQL, mirrors what is short-lived in Redis and talks to the clients over Socket.IO. Paths
  below are relative to \<open>src/src\<close>.

  \<^bold>\<open>How the program is put together.\<close> A socket is authenticated and its
  commands are admitted by the gateway (\<open>modules/realtime\<close>), which calls the matchmaking
  (\<open>modules/matchmaking\<close>, Lua scripts on Redis) and the services of a game
  (\<open>modules/game\<close>). The repositories under \<open>modules/game/infrastructure\<close> change the tables in
  serialised transactions; the domain (\<open>modules/game/domain\<close>, \<open>modules/chess\<close>) holds the clock, the
  outcomes, the state machine and the rules. Timers (\<open>game-deadline.service.ts\<close>) end games whose time
  is over, and jobs repair Redis from the database. Guest sessions (\<open>modules/session\<close>,
  \<open>modules/identity\<close>) are tokens with rows in the database and revocations in Redis.

  \<^bold>\<open>Theories and code.\<close>

  \<^item> \<open>Prelude\<close>: lists, options and results the components share. \<open>Json\<close>: JSON values.
  \<^item> \<open>Game_Types\<close>, \<open>Game_Clock\<close>, \<open>Terminal_Result\<close>, \<open>Game_State_Machine\<close>: the files of
    \<open>modules/game/domain\<close>. \<open>Chess_Engine\<close>: \<open>modules/chess\<close>, over the library chess.js as a parameter.
  \<^item> \<open>Database\<close>, \<open>Database_Errors\<close>, \<open>Transactions\<close>, \<open>Stored_Responses\<close>: the tables with their
    constraints (the migrations under \<open>prisma\<close>), \<open>modules/persistence\<close>, and the stored acknowledgements.
  \<^item> \<open>Gameplay_Repository\<close>, \<open>Lifecycle_Repository\<close>, \<open>Game_Repository\<close>: the three repositories, every
    operation with its transaction. \<open>Game_System\<close>: the states reachable by any sequence of them.
    \<open>Game_Invariant\<close>, \<open>Lifecycle_Invariant\<close>, \<open>Allocation_Invariant\<close>, \<open>Gameplay_Invariant\<close>: each
    operation keeps the invariant. \<open>System_Properties\<close>, \<open>Move_Properties\<close>, \<open>Idempotency\<close>,
    \<open>Game_Endings\<close>, \<open>Clock_Agreement\<close>, \<open>Status_Refinement\<close>: what follows for games, moves, retries,
    endings, the two clocks (SQL and domain), and the refinement of the state machine.
  \<^item> \<open>Redis_Store\<close>: the commands of Redis as an interface with the documented laws (\<open>redis_ok\<close>)
    and a concrete instance. \<open>Matchmaking_Scripts\<close> (the Lua files), \<open>Matchmaking_Script_Service\<close>,
    \<open>Presence_Service\<close>, \<open>Ephemeral_State\<close>, \<open>Matchmaking_Service\<close>: their callers.
    \<open>Matchmaking_View\<close> reads the keys as a queue, reservations and presence;
    \<open>Matchmaking_Effects\<close>, \<open>Matchmaking_Properties\<close>, \<open>Matchmaking_Guarantees\<close>,
    \<open>Matchmaking_Joining\<close> state what a match does in both stores.
  \<^item> \<open>Game_Snapshot\<close>, \<open>Protocol_Schemas\<close>, \<open>Wire_Properties\<close>: snapshots and the wire schemas.
    \<open>Game_Services\<close>, \<open>Game_Adjudication\<close>: the services of a game. \<open>Deadline_Service\<close>: the timers as a
    step relation. \<open>Game_Reconciliation\<close>, \<open>Reconciliation_Properties\<close>: the job that repairs Redis.
  \<^item> \<open>Realtime_Protocol\<close>, \<open>Matchmaking_Realtime\<close>, \<open>Rate_Limits\<close>, \<open>Realtime_Gateway\<close> with
    \<open>Rate_Limit_Properties\<close> and \<open>Gateway_Properties\<close>: the realtime side.
    \<open>Application_Lifecycle\<close>: draining. \<open>Configuration\<close>, \<open>Configuration_Properties\<close>: the environment.
  \<^item> \<open>Session_Tokens\<close>, \<open>Session_Repository\<close>, \<open>Identity\<close>, \<open>Session_Service\<close> with
    \<open>Token_Properties\<close>, \<open>Identity_Properties\<close>, \<open>Session_Properties\<close>: guests.
  \<^item> \<open>Realtime_Authentication\<close>, \<open>Authentication_Properties\<close>: the handshake of a socket
    (\<open>modules/realtime/realtime-authentication.service.ts\<close>). \<open>Http_Api\<close>, \<open>Http_Properties\<close>: the controllers,
    filters and schemas of \<open>modules/session\<close>, \<open>modules/recovery\<close> and \<open>modules/health\<close>.
    \<open>Metrics\<close>, \<open>Metrics_Properties\<close>: \<open>common/metrics\<close> and the gauges of games.
  \<open>Sample_Game\<close> and the sample definitions at the end of the property theories are the concrete inputs
  of the witnesses.

  \<^bold>\<open>How the code is modelled.\<close> A class is a record of its settings and state, an operation a function
  that returns its result and the new state; an exception is an \<open>Inl\<close>. A transaction is one step on
  the record of tables, since the code locks the rows it works on; what other requests do
  between two calls is an argument (\<open>\<dots>_others\<close>), and so are failures: of the connection before or after
  a command took effect, of a pipeline after a prefix of its commands, of a commit whose
  acknowledgement is lost. Each call has its own entry in the environment record of an operation, with
  the time it reads and the random values it draws. Numbers are integers, and where the code depends
  on a limit (safe integers, \<open>INTEGER\<close> columns, the delay of a timer) the limit is written out.

  \<^bold>\<open>What is a parameter.\<close> chess.js, Redis, the cryptography, hashes and random values, the patterns of
  zod for UUIDs and dates, \<open>JSON.stringify\<close> and \<open>JSON.parse\<close>. What the code relies on is a named
  hypothesis (\<open>chessjs_ok\<close>, \<open>redis_ok\<close>, \<open>counters_ok\<close>, \<open>crypto_ok\<close>, \<open>keyspace_ok\<close>), and
  each theorem with one has a witness on a concrete instance.

  \<^bold>\<open>Termination and bounds.\<close> Definitions are total; loops over data are structural, and the loops of
  the code with a bound (attempts at names, batches, pages) are recursions over it.
  The endless loop of the sweep is a step relation with a measure. No fuel is used.

  \<^bold>\<open>What the theorems show.\<close> Invariants of every reachable database and of the timers, the
  effect of each operation on its branches, idempotence under retries, agreement of the two
  clocks, refinement of the state machine, what a match, a reset, a revocation and a repair
  guarantee, and bounds of limits, timers, names and settings. Where the code does not do what it
  says, the manifest names the finding and the theorem behind it.

  \<^bold>\<open>Not modelled.\<close> Logs, trace spans, the content types and headers the framework sets, and the clients of PostgreSQL and Redis,
  which do not change the state of a game; the timers that sample the event loop and refresh the gauges;
  the wiring of the modules; the scripts for tests and local keys; the deferred triggers and
  constraints that no modelled operation can meet.
\<close>

end
